(* ===== verification/Prelude.thy ===== *)
theory Prelude
  imports Complex_Main "HOL-Library.AList" "HOL-Library.Multiset"
    "HOL-Library.Product_Lexorder" "HOL-Library.List_Lexorder" "HOL-Library.Char_ord"
begin

text \<open>
  Shared vocabulary of the development.
  \<^item> Python's effects: a computation takes the state of the program and returns either the
    exception it raised or its value, together with the state it leaves behind. An exception does
    not undo what was written before it, which is what Python does outside a transaction.
  \<^item> Python's containers: a \<open>dict\<close> is an association list, because its iteration order (the
    order of first insertion, kept by an overwrite) is visible through \<open>values()\<close>.
  \<^item> Python's text of an integer, used in idempotency keys.
  \<^item> The named collections the component proofs rest on.
\<close>

section \<open>Collections of lemmas\<close>

named_theorems py_simps \<open>unfolding the primitive computations\<close>
named_theorems preserves_intro \<open>compositional rules for state invariants\<close>
named_theorems evolves_intro \<open>compositional rules for two-state relations\<close>
named_theorems store_simps \<open>effect of a repository operation on the tables\<close>

section \<open>Computations with state and exceptions\<close>

type_synonym ('e, 's, 'a) py = "'s \<Rightarrow> ('e + 'a) \<times> 's"

definition ret :: "'a \<Rightarrow> ('e, 's, 'a) py" where
  [py_simps]: "ret x s = (Inr x, s)"

definition raise :: "'e \<Rightarrow> ('e, 's, 'a) py" where
  [py_simps]: "raise e s = (Inl e, s)"

definition gets :: "('s \<Rightarrow> 'a) \<Rightarrow> ('e, 's, 'a) py" where
  [py_simps]: "gets f s = (Inr (f s), s)"

definition modifyE :: "('s \<Rightarrow> 's) \<Rightarrow> ('e, 's, unit) py" where
  [py_simps]: "modifyE f s = (Inr (), f s)"

definition bindE :: "('e, 's, 'a) py \<Rightarrow> ('a \<Rightarrow> ('e, 's, 'b) py) \<Rightarrow> ('e, 's, 'b) py" where
  "bindE m f s = (case m s of (Inl e, s') \<Rightarrow> (Inl e, s') | (Inr x, s') \<Rightarrow> f x s')"

text \<open>\<open>try: m except e: h e\<close>; a handler that does not match re-raises \<open>e\<close>.\<close>

definition catchE :: "('e, 's, 'a) py \<Rightarrow> ('e \<Rightarrow> ('e, 's, 'a) py) \<Rightarrow> ('e, 's, 'a) py" where
  "catchE m h s = (case m s of (Inl e, s') \<Rightarrow> h e s' | (Inr x, s') \<Rightarrow> (Inr x, s'))"

text \<open>\<open>try: m finally: f\<close>, for a clean-up that does not raise.\<close>

definition finallyE :: "('e, 's, 'a) py \<Rightarrow> ('s \<Rightarrow> 's) \<Rightarrow> ('e, 's, 'a) py" where
  "finallyE m f s = (case m s of (r, s') \<Rightarrow> (r, f s'))"

fun forE :: "'x list \<Rightarrow> ('x \<Rightarrow> ('e, 's, 'a) py) \<Rightarrow> ('e, 's, 'a list) py" where
  "forE [] f = ret []"
| "forE (x # xs) f = bindE (f x) (\<lambda>y. bindE (forE xs f) (\<lambda>ys. ret (y # ys)))"

abbreviation whenE :: "bool \<Rightarrow> ('e, 's, unit) py \<Rightarrow> ('e, 's, unit) py" where
  "whenE b m \<equiv> (if b then m else ret ())"

definition is_ok :: "('e + 'a) \<times> 's \<Rightarrow> bool" where
  "is_ok r = (case fst r of Inl _ \<Rightarrow> False | Inr _ \<Rightarrow> True)"

lemma bindE_Inr [simp]: "m s = (Inr x, s') \<Longrightarrow> bindE m f s = f x s'"
  by (simp add: bindE_def)

lemma bindE_Inl [simp]: "m s = (Inl e, s') \<Longrightarrow> bindE m f s = (Inl e, s')"
  by (simp add: bindE_def)

lemma bindE_ret [simp]: "bindE (ret x) f = f x"
  by (rule ext) (simp add: bindE_def ret_def)

lemma bindE_gets [simp]: "bindE (gets g) f s = f (g s) s"
  by (simp add: bindE_def gets_def)

lemma bindE_raise [simp]: "bindE (raise e) f = raise e"
  by (rule ext) (simp add: bindE_def raise_def)

lemma bindE_modifyE [simp]: "bindE (modifyE g) f s = f () (g s)"
  by (simp add: bindE_def modifyE_def)

lemma bindE_assoc: "bindE (bindE m f) g = bindE m (\<lambda>x. bindE (f x) g)"
  by (rule ext) (simp add: bindE_def split: prod.splits sum.splits)

lemma bindE_if: "bindE (if b then m else n) f = (if b then bindE m f else bindE n f)"
  by simp

lemma catchE_Inr [simp]: "m s = (Inr x, s') \<Longrightarrow> catchE m h s = (Inr x, s')"
  by (simp add: catchE_def)

lemma catchE_Inl [simp]: "m s = (Inl e, s') \<Longrightarrow> catchE m h s = h e s'"
  by (simp add: catchE_def)

lemma bindE_eq_Inr:
  "bindE m f s = (Inr y, s'') \<longleftrightarrow> (\<exists>x s'. m s = (Inr x, s') \<and> f x s' = (Inr y, s''))"
  by (auto simp: bindE_def split: prod.splits sum.splits)

lemma bindE_eq_Inl:
  "bindE m f s = (Inl e, s'') \<longleftrightarrow>
     m s = (Inl e, s'') \<or> (\<exists>x s'. m s = (Inr x, s') \<and> f x s' = (Inl e, s''))"
  by (auto simp: bindE_def split: prod.splits sum.splits)

lemma ret_eq [simp]: "ret x s = (r, s') \<longleftrightarrow> r = Inr x \<and> s' = s"
  by (auto simp: ret_def)

lemma raise_eq [simp]: "raise e s = (r, s') \<longleftrightarrow> r = Inl e \<and> s' = s"
  by (auto simp: raise_def)

lemma is_ok_simps [simp]: "is_ok (Inr x, s)" "\<not> is_ok (Inl e, s)"
  by (simp_all add: is_ok_def)

lemma forE_results:
  assumes "forE xs f s = (Inr ys, s')"
    and "\<And>x s y s'. x \<in> set xs \<Longrightarrow> f x s = (Inr y, s') \<Longrightarrow> P x y"
  shows "list_all2 P xs ys"
  using assms by (induction xs arbitrary: ys s) (auto simp: bindE_eq_Inr)

lemma forE_pure:
  assumes "\<And>x. x \<in> set xs \<Longrightarrow> f x s = (Inr (g x), s)"
  shows "forE xs f s = (Inr (map g xs), s)"
  using assms by (induction xs) (simp_all add: ret_def)

lemmas py_bind_simps = bindE_eq_Inr bindE_eq_Inl py_simps

subsection \<open>Invariants of a computation\<close>

text \<open>
  \<open>preserves P m\<close>: whatever \<open>m\<close> does, raising included, it leaves a state that satisfies
  \<open>P\<close> when it starts in one. \<open>evolves R m\<close>: the start and the end state are related by \<open>R\<close>.
  Both compose along \<open>bindE\<close>, \<open>catchE\<close> and \<open>forE\<close>, so an operation's invariant is
  proved from those of the calls it makes.
\<close>

definition preserves :: "('s \<Rightarrow> bool) \<Rightarrow> ('e, 's, 'a) py \<Rightarrow> bool" where
  "preserves P m \<longleftrightarrow> (\<forall>s. P s \<longrightarrow> P (snd (m s)))"

definition evolves :: "('s \<Rightarrow> 's \<Rightarrow> bool) \<Rightarrow> ('e, 's, 'a) py \<Rightarrow> bool" where
  "evolves R m \<longleftrightarrow> (\<forall>s. R s (snd (m s)))"

lemma preservesD: "preserves P m \<Longrightarrow> P s \<Longrightarrow> P (snd (m s))"
  by (simp add: preserves_def)

lemma evolvesD: "evolves R m \<Longrightarrow> m s = (r, s') \<Longrightarrow> R s s'"
  by (metis evolves_def snd_conv)

lemma preserves_ret [preserves_intro]: "preserves P (ret x)"
  by (simp add: preserves_def ret_def)

lemma preserves_raise [preserves_intro]: "preserves P (raise e)"
  by (simp add: preserves_def raise_def)

lemma preserves_gets [preserves_intro]: "preserves P (gets f)"
  by (simp add: preserves_def gets_def)

lemma preserves_bindE [preserves_intro]:
  assumes "preserves P m" and "\<And>x. preserves P (f x)"
  shows "preserves P (bindE m f)"
  using assms by (fastforce simp: preserves_def bindE_def split: prod.splits sum.splits)

lemma preserves_catchE [preserves_intro]:
  assumes "preserves P m" and "\<And>e. preserves P (h e)"
  shows "preserves P (catchE m h)"
  using assms by (fastforce simp: preserves_def catchE_def split: prod.splits sum.splits)

lemma preserves_if [preserves_intro]:
  assumes "preserves P m" and "preserves P n"
  shows "preserves P (if b then m else n)"
  using assms by simp

lemma preserves_forE [preserves_intro]:
  assumes "\<And>x. preserves P (f x)"
  shows "preserves P (forE xs f)"
proof (induction xs)
  case (Cons x xs)
  have "preserves P (\<lambda>s. bindE (f x) (\<lambda>y. bindE (forE xs f) (\<lambda>ys. ret (y # ys))) s)"
    by (intro preserves_intro assms Cons.IH)
  then show ?case by simp
qed (simp add: preserves_intro)

lemma evolves_ret [evolves_intro]: "reflp R \<Longrightarrow> evolves R (ret x)"
  by (simp add: evolves_def ret_def reflpD)

lemma evolves_raise [evolves_intro]: "reflp R \<Longrightarrow> evolves R (raise e)"
  by (simp add: evolves_def raise_def reflpD)

lemma evolves_gets [evolves_intro]: "reflp R \<Longrightarrow> evolves R (gets f)"
  by (simp add: evolves_def gets_def reflpD)

lemma evolves_bindE [evolves_intro]:
  assumes "transp R" and "evolves R m" and "\<And>x. evolves R (f x)"
  shows "evolves R (bindE m f)"
  unfolding evolves_def
proof
  fix s
  obtain r s' where m: "m s = (r, s')" by (cases "m s")
  with assms(2) have "R s s'" by (rule evolvesD)
  moreover have "R s' (snd (f x s'))" for x
    using assms(3) by (simp add: evolves_def)
  ultimately show "R s (snd (bindE m f s))"
    using m assms(1) by (cases r) (auto simp: bindE_def dest: transpD)
qed

lemma evolves_catchE [evolves_intro]:
  assumes "transp R" and "evolves R m" and "\<And>e. evolves R (h e)"
  shows "evolves R (catchE m h)"
  unfolding evolves_def
proof
  fix s
  obtain r s' where m: "m s = (r, s')" by (cases "m s")
  with assms(2) have "R s s'" by (rule evolvesD)
  moreover have "R s' (snd (h e s'))" for e
    using assms(3) by (simp add: evolves_def)
  ultimately show "R s (snd (catchE m h s))"
    using m assms(1) by (cases r) (auto simp: catchE_def dest: transpD)
qed

lemma evolves_if [evolves_intro]:
  assumes "evolves R m" and "evolves R n"
  shows "evolves R (if b then m else n)"
  using assms by simp

lemma evolves_forE [evolves_intro]:
  assumes "reflp R" and "transp R" and "\<And>x. evolves R (f x)"
  shows "evolves R (forE xs f)"
proof (induction xs)
  case Nil
  show ?case using assms(1) by (simp add: evolves_intro)
next
  case (Cons x xs)
  show ?case
    unfolding forE.simps by (intro evolves_intro assms Cons.IH)
qed

text \<open>
  \<open>hoare P m Q X\<close>: started in a state that satisfies \<open>P\<close>, \<open>m\<close> either returns \<open>x\<close> in a
  state that satisfies \<open>Q x\<close> or raises in a state that satisfies \<open>X\<close>.
\<close>

definition hoare :: "('s \<Rightarrow> bool) \<Rightarrow> ('e, 's, 'a) py \<Rightarrow> ('a \<Rightarrow> 's \<Rightarrow> bool) \<Rightarrow> ('s \<Rightarrow> bool) \<Rightarrow> bool" where
  "hoare P m Q X \<longleftrightarrow>
     (\<forall>s. P s \<longrightarrow> (case m s of (Inr x, s') \<Rightarrow> Q x s' | (Inl e, s') \<Rightarrow> X s'))"

lemma hoare_ret: "(\<And>s. P s \<Longrightarrow> Q x s) \<Longrightarrow> hoare P (ret x) Q X"
  by (simp add: hoare_def ret_def)

lemma hoare_raise: "(\<And>s. P s \<Longrightarrow> X s) \<Longrightarrow> hoare P (raise e) Q X"
  by (simp add: hoare_def raise_def)

lemma hoare_gets: "(\<And>s. P s \<Longrightarrow> Q (f s) s) \<Longrightarrow> hoare P (gets f) Q X"
  by (simp add: hoare_def gets_def)

lemma hoare_modifyE: "(\<And>s. P s \<Longrightarrow> Q () (f s)) \<Longrightarrow> hoare P (modifyE f) Q X"
  by (simp add: hoare_def modifyE_def)

lemma hoare_bindE:
  assumes "hoare P m Q X" and "\<And>x. hoare (Q x) (f x) R X"
  shows "hoare P (bindE m f) R X"
  using assms by (fastforce simp: hoare_def bindE_def split: prod.splits sum.splits)

lemma hoare_catchE:
  assumes "hoare P m Q Y" and "\<And>e. hoare Y (h e) Q X"
  shows "hoare P (catchE m h) Q X"
  using assms by (fastforce simp: hoare_def catchE_def split: prod.splits sum.splits)

lemma hoare_if: "hoare P m Q X \<Longrightarrow> hoare P n Q X \<Longrightarrow> hoare P (if b then m else n) Q X"
  by simp

lemma hoare_option:
  "hoare P m Q X \<Longrightarrow> (\<And>x. hoare P (f x) Q X) \<Longrightarrow> hoare P (case opt of None \<Rightarrow> m | Some x \<Rightarrow> f x) Q X"
  by (cases opt) simp_all

lemma hoare_weaken: "hoare P' m Q' X' \<Longrightarrow> (\<And>s. P s \<Longrightarrow> P' s) \<Longrightarrow> (\<And>x s. Q' x s \<Longrightarrow> Q x s) \<Longrightarrow>
    (\<And>s. X' s \<Longrightarrow> X s) \<Longrightarrow> hoare P m Q X"
  by (fastforce simp: hoare_def split: prod.splits sum.splits)

lemma hoareD: "hoare P m Q X \<Longrightarrow> P s \<Longrightarrow> m s = (Inr x, s') \<Longrightarrow> Q x s'"
  by (fastforce simp: hoare_def)

lemma preserves_hoare: "preserves P m \<longleftrightarrow> hoare P m (\<lambda>_. P) P"
proof -
  have "(case m s of (Inr x, s') \<Rightarrow> P s' | (Inl e, s') \<Rightarrow> P s') = P (snd (m s))" for s
    by (simp split: prod.splits sum.splits)
  then show ?thesis by (simp add: preserves_def hoare_def)
qed

lemma hoare_finallyE:
  assumes "hoare P m (\<lambda>_ s. Q (f s)) (\<lambda>s. Q (f s))"
  shows "P s \<Longrightarrow> Q (snd (finallyE m f s))"
  using assms by (auto simp: hoare_def finallyE_def split: prod.splits sum.splits)

lemma evolves_finallyE:
  assumes "transp R" and "evolves R m" and "\<And>s. R s (f s)"
  shows "evolves R (finallyE m f)"
  unfolding evolves_def
proof
  fix s
  obtain r s' where m: "m s = (r, s')" by (cases "m s")
  with assms(2) have "R s s'" by (rule evolvesD)
  with assms(1) assms(3) [of s'] m show "R s (snd (finallyE m f s))"
    by (auto simp: finallyE_def dest: transpD)
qed

lemma evolves_modifyE: "(\<And>s. R s (f s)) \<Longrightarrow> evolves R (modifyE f)"
  by (simp add: evolves_def modifyE_def)

lemma evolves_option:
  "evolves R m \<Longrightarrow> (\<And>x. evolves R (f x)) \<Longrightarrow> evolves R (case opt of None \<Rightarrow> m | Some x \<Rightarrow> f x)"
  by (cases opt) simp_all

section \<open>Dictionaries\<close>

type_synonym ('k, 'v) dict = "('k \<times> 'v) list"

abbreviation dict_set :: "'k \<Rightarrow> 'v \<Rightarrow> ('k, 'v) dict \<Rightarrow> ('k, 'v) dict" where
  "dict_set k v d \<equiv> AList.update k v d"

abbreviation dict_del :: "'k \<Rightarrow> ('k, 'v) dict \<Rightarrow> ('k, 'v) dict" where
  "dict_del k d \<equiv> AList.delete k d"

abbreviation dict_get :: "('k, 'v) dict \<Rightarrow> 'k \<Rightarrow> 'v option" where
  "dict_get d k \<equiv> map_of d k"

abbreviation dict_values :: "('k, 'v) dict \<Rightarrow> 'v list" where
  "dict_values d \<equiv> map snd d"

abbreviation dict_keys :: "('k, 'v) dict \<Rightarrow> 'k list" where
  "dict_keys d \<equiv> map fst d"

lemma dict_get_set [simp]: "dict_get (dict_set k v d) k' = (if k' = k then Some v else dict_get d k')"
  by (simp add: update_conv')

lemma dict_get_del [simp]: "dict_get (dict_del k d) k' = (if k' = k then None else dict_get d k')"
  by (simp add: delete_conv')

lemma distinct_keys_set [simp]: "distinct (dict_keys d) \<Longrightarrow> distinct (dict_keys (dict_set k v d))"
  by (rule distinct_update)

lemma dict_set_append: "dict_get d k = None \<Longrightarrow> dict_set k v d = d @ [(k, v)]"
  by (induction d) (auto split: if_splits)

lemma set_dict_set: "distinct (dict_keys d) \<Longrightarrow>
    set (dict_set k v d) = insert (k, v) {p \<in> set d. fst p \<noteq> k}"
  by (induction d) (auto simp: rev_image_eqI)

lemma set_dict_set_subset: "set (dict_set k v d) \<subseteq> insert (k, v) (set d)"
  by (induction d) auto

section \<open>Slices\<close>

text \<open>Python's \<open>xs[:n]\<close>; a negative \<open>n\<close> counts from the end.\<close>

definition slice_to :: "int \<Rightarrow> 'a list \<Rightarrow> 'a list" where
  "slice_to n xs = take (nat (if n < 0 then int (length xs) + n else n)) xs"

lemma set_slice_to: "set (slice_to n xs) \<subseteq> set xs"
  by (simp add: slice_to_def set_take_subset)

lemma length_slice_to: "0 \<le> n \<Longrightarrow> length (slice_to n xs) = min (length xs) (nat n)"
  by (simp add: slice_to_def)

lemma distinct_slice_to: "distinct (map f xs) \<Longrightarrow> distinct (map f (slice_to n xs))"
  by (simp add: slice_to_def take_map [symmetric] distinct_take)

section \<open>Selection of a maximum by a key\<close>

text \<open>Python's \<open>max(xs, key=f)\<close> on a non-empty sequence: the first of the maximal elements.\<close>

fun max_by :: "('a \<Rightarrow> 'k::linorder) \<Rightarrow> 'a \<Rightarrow> 'a list \<Rightarrow> 'a" where
  "max_by f best [] = best"
| "max_by f best (x # xs) = max_by f (if f best < f x then x else best) xs"

lemma max_by_in: "max_by f b xs \<in> insert b (set xs)"
proof (induction xs arbitrary: b)
  case (Cons y ys)
  show ?case using Cons.IH [of "if f b < f y then y else b"] by (auto split: if_splits)
qed simp

lemma max_by_ge: "x \<in> insert b (set xs) \<Longrightarrow> f x \<le> f (max_by f b xs)"
proof (induction xs arbitrary: b x)
  case (Cons y ys)
  let ?b = "if f b < f y then y else b"
  have "f b \<le> f ?b" and "f y \<le> f ?b" by auto
  moreover have "f ?b \<le> f (max_by f ?b ys)" by (rule Cons.IH) simp
  moreover have "z \<in> set ys \<Longrightarrow> f z \<le> f (max_by f ?b ys)" for z by (rule Cons.IH) simp
  ultimately show ?case using Cons.prems by (auto intro: order_trans)
qed simp

section \<open>Text of an integer\<close>

fun show_nat :: "nat \<Rightarrow> string" where
  "show_nat n = (if n < 10 then [char_of (48 + n)]
                 else show_nat (n div 10) @ [char_of (48 + n mod 10)])"

declare show_nat.simps [simp del]

definition show_int :: "int \<Rightarrow> string" where
  "show_int i = (if i < 0 then CHR ''-'' # show_nat (nat (- i)) else show_nat (nat i))"

definition read_digits :: "string \<Rightarrow> nat" where
  "read_digits s = foldl (\<lambda>a c. a * 10 + (of_char c - 48)) 0 s"

lemma of_char_digit: "(n::nat) < 10 \<Longrightarrow> of_char (char_of (48 + n) :: char) = 48 + n"
  by (simp add: of_char_of)

lemma read_show_nat: "read_digits (show_nat n) = n"
proof (induction n rule: show_nat.induct)
  case (1 n)
  show ?case
  proof (cases "n < 10")
    case True
    then show ?thesis by (simp add: show_nat.simps [of n] read_digits_def of_char_digit)
  next
    case False
    with 1 have "read_digits (show_nat (n div 10)) = n div 10" by blast
    with False show ?thesis
      by (simp add: show_nat.simps [of n] read_digits_def of_char_digit)
  qed
qed

lemma show_nat_digits: "c \<in> set (show_nat n) \<Longrightarrow> 48 \<le> (of_char c :: nat) \<and> (of_char c :: nat) < 58"
proof (induction n rule: show_nat.induct)
  case (1 n)
  show ?case
  proof (cases "n < 10")
    case True
    with "1.prems" show ?thesis by (auto simp: show_nat.simps [of n] of_char_digit)
  next
    case False
    with 1 show ?thesis by (auto simp: show_nat.simps [of n] of_char_digit)
  qed
qed

lemma show_int_no_colon: "CHR '':'' \<notin> set (show_int i)"
  using show_nat_digits [of "CHR '':''"] by (auto simp: show_int_def)

lemma show_int_inject [simp]: "show_int i = show_int j \<longleftrightarrow> i = j"
proof
  assume eq: "show_int i = show_int j"
  have no_minus: "show_nat n \<noteq> CHR ''-'' # s" for n s
    using show_nat_digits [of "CHR ''-''" n] by auto
  show "i = j"
  proof (cases "i < 0"; cases "j < 0")
    assume neg: "i < 0" "j < 0"
    with eq have "show_nat (nat (- i)) = show_nat (nat (- j))" by (simp add: show_int_def)
    then have "nat (- i) = nat (- j)" by (metis read_show_nat)
    with neg show "i = j" by simp
  next
    assume pos: "\<not> i < 0" "\<not> j < 0"
    with eq have "show_nat (nat i) = show_nat (nat j)" by (simp add: show_int_def)
    then have "nat i = nat j" by (metis read_show_nat)
    with pos show "i = j" by simp
  qed (use eq no_minus in \<open>auto simp: show_int_def\<close>, metis no_minus)
qed simp

text \<open>\<open>sep.join(parts)\<close>.\<close>

fun join :: "'a list \<Rightarrow> 'a list list \<Rightarrow> 'a list" where
  "join sep [] = []"
| "join sep [x] = x"
| "join sep (x # y # ys) = x @ sep @ join sep (y # ys)"

text \<open>The part of a text after its last separator, and the part before it.\<close>

lemma append_sep_inject:
  assumes "c \<notin> set b" "c \<notin> set d" and "a @ c # b = a' @ c # d"
  shows "a = a' \<and> b = d"
proof -
  have "rev b @ c # rev a = rev d @ c # rev a'"
    using arg_cong [OF assms(3), of rev] by simp
  moreover have "takeWhile (\<lambda>x. x \<noteq> c) (rev b @ c # rev a) = rev b"
    using assms(1) by (subst takeWhile_append2) auto
  moreover have "takeWhile (\<lambda>x. x \<noteq> c) (rev d @ c # rev a') = rev d"
    using assms(2) by (subst takeWhile_append2) auto
  ultimately have "rev b = rev d" by metis
  then have "b = d" by simp
  with assms(3) show ?thesis by simp
qed

end
