(* ===== verification/Domain_Types.thy ===== *)
theory Domain_Types
  imports Prelude
begin

text \<open>
  The value types the components exchange: the enumerations and frozen dataclasses of
  \<open>config/types.py\<close>, \<open>persistence/types.py\<close> and \<open>workflow/types.py\<close>, and the exceptions
  the operations raise.

  An instant (\<open>datetime\<close>, always UTC) is the number of microseconds since the epoch. A text is a
  list of code points below 256. The enumerations that \<open>config\<close>, \<open>persistence\<close> and
  \<open>workflow\<close> each declare with the same members are string enumerations, compared by their
  text, so one datatype stands for both; the conversions by text stay visible as \<open>state_value\<close>
  and \<open>workflow_state_of\<close>. A record field carries a prefix for its record.
\<close>

type_synonym datetime = int
type_synonym microseconds = int

section \<open>Enumerations\<close>

datatype workflow_state = CREATED | COLLECTING | COLLECTED | SELECTING_TOPIC | NO_SUITABLE_TOPIC
  | TOPIC_SELECTED | GENERATING_SCENARIO | SCENARIO_GENERATED | REVIEWING | REVISION_REQUIRED
  | REVIEW_PASSED | AWAITING_HUMAN_APPROVAL | APPROVED | REJECTED | REVIEW_FAILED | FAILED
  | FAILED_PERMANENTLY

type_synonym pers_workflow_state = workflow_state

datatype task_type = COLLECT | SELECT_TOPIC | GENERATE_SCENARIO | REVIEW_SCENARIO

type_synonym pers_task_type = task_type

datatype task_status = TS_PENDING | TS_DISPATCHED | TS_IN_PROGRESS | TS_COMPLETED | TS_FAILED
  | TS_DEAD_LETTER

datatype artifact_type = COLLECTED_STORIES | TOPIC_SELECTION | SCENARIO | CRITIC_REVIEW
  | PROMPT_RESPONSE

datatype outbox_status = OB_PENDING | OB_PUBLISHED

datatype idempotency_outcome = INSERTED | DUPLICATE

datatype invocation_status = INV_SUCCESS | INV_VALIDATION_FAILED | INV_PROVIDER_ERROR | INV_TIMEOUT

datatype approval_action = APPROVE | REJECT | REQUEST_REGENERATION

datatype transition_signal = SIG_STAGE_COMPLETED | SIG_NO_SUITABLE_TOPIC | SIG_CRITIC_REVISE
  | SIG_CRITIC_PASS | SIG_UNRECOVERABLE_ERROR | SIG_RETRIES_EXHAUSTED | SIG_RECONCILIATION_REPAIR

datatype agent_id = TOPIC_SELECTOR | SCENARIO_GENERATOR | CRITIC

datatype injection_id = FINJ_WKR_PRE | FINJ_WKR_POST_AGENT | FINJ_WKR_POST_COMMIT
  | FINJ_WKR_PRE_ACK | FINJ_Q_DUP | FINJ_Q_SLOW | FINJ_PRV_TIMEOUT | FINJ_PRV_RATE
  | FINJ_PRV_ERROR | FINJ_PRV_INVALID | FINJ_COORD_DISPATCH | FINJ_COORD_CONFLICT

text \<open>The members in declaration order (iteration over the enumeration class).\<close>

definition all_workflow_states :: "workflow_state list" where
  "all_workflow_states = [CREATED, COLLECTING, COLLECTED, SELECTING_TOPIC, NO_SUITABLE_TOPIC,
     TOPIC_SELECTED, GENERATING_SCENARIO, SCENARIO_GENERATED, REVIEWING, REVISION_REQUIRED,
     REVIEW_PASSED, AWAITING_HUMAN_APPROVAL, APPROVED, REJECTED, REVIEW_FAILED, FAILED,
     FAILED_PERMANENTLY]"

fun state_value :: "workflow_state \<Rightarrow> string" where
  "state_value CREATED = ''CREATED''"
| "state_value COLLECTING = ''COLLECTING''"
| "state_value COLLECTED = ''COLLECTED''"
| "state_value SELECTING_TOPIC = ''SELECTING_TOPIC''"
| "state_value NO_SUITABLE_TOPIC = ''NO_SUITABLE_TOPIC''"
| "state_value TOPIC_SELECTED = ''TOPIC_SELECTED''"
| "state_value GENERATING_SCENARIO = ''GENERATING_SCENARIO''"
| "state_value SCENARIO_GENERATED = ''SCENARIO_GENERATED''"
| "state_value REVIEWING = ''REVIEWING''"
| "state_value REVISION_REQUIRED = ''REVISION_REQUIRED''"
| "state_value REVIEW_PASSED = ''REVIEW_PASSED''"
| "state_value AWAITING_HUMAN_APPROVAL = ''AWAITING_HUMAN_APPROVAL''"
| "state_value APPROVED = ''APPROVED''"
| "state_value REJECTED = ''REJECTED''"
| "state_value REVIEW_FAILED = ''REVIEW_FAILED''"
| "state_value FAILED = ''FAILED''"
| "state_value FAILED_PERMANENTLY = ''FAILED_PERMANENTLY''"

fun task_type_value :: "task_type \<Rightarrow> string" where
  "task_type_value COLLECT = ''COLLECT''"
| "task_type_value SELECT_TOPIC = ''SELECT_TOPIC''"
| "task_type_value GENERATE_SCENARIO = ''GENERATE_SCENARIO''"
| "task_type_value REVIEW_SCENARIO = ''REVIEW_SCENARIO''"

fun approval_action_value :: "approval_action \<Rightarrow> string" where
  "approval_action_value APPROVE = ''APPROVE''"
| "approval_action_value REJECT = ''REJECT''"
| "approval_action_value REQUEST_REGENERATION = ''REQUEST_REGENERATION''"

fun invocation_status_value :: "invocation_status \<Rightarrow> string" where
  "invocation_status_value INV_SUCCESS = ''SUCCESS''"
| "invocation_status_value INV_VALIDATION_FAILED = ''VALIDATION_FAILED''"
| "invocation_status_value INV_PROVIDER_ERROR = ''PROVIDER_ERROR''"
| "invocation_status_value INV_TIMEOUT = ''TIMEOUT''"

text \<open>Python's \<open>WorkflowState(token)\<close> and \<open>TaskType(token)\<close>: the member with that text.\<close>

definition workflow_state_of :: "string \<Rightarrow> workflow_state option" where
  "workflow_state_of token = find (\<lambda>s. state_value s = token) all_workflow_states"

definition task_type_of :: "string \<Rightarrow> task_type option" where
  "task_type_of token =
     find (\<lambda>t. task_type_value t = token) [COLLECT, SELECT_TOPIC, GENERATE_SCENARIO, REVIEW_SCENARIO]"

lemma workflow_state_of_value [simp]: "workflow_state_of (state_value s) = Some s"
  by (cases s) (simp_all add: workflow_state_of_def all_workflow_states_def)

lemma task_type_of_value [simp]: "task_type_of (task_type_value t) = Some t"
  by (cases t) (simp_all add: task_type_of_def)

lemma set_all_workflow_states [simp]: "set all_workflow_states = UNIV"
proof -
  have "s \<in> set all_workflow_states" for s
    by (cases s) (simp_all add: all_workflow_states_def)
  then show ?thesis by auto
qed

lemma task_type_value_inject [simp]: "task_type_value a = task_type_value b \<longleftrightarrow> a = b"
  by (metis option.inject task_type_of_value)

lemma task_type_value_no_colon: "CHR '':'' \<notin> set (task_type_value t)"
  by (cases t) simp_all

section \<open>Terminal, pause and transient states\<close>

definition TERMINAL_WORKFLOW_STATES :: "workflow_state set" where
  "TERMINAL_WORKFLOW_STATES =
     {NO_SUITABLE_TOPIC, APPROVED, REJECTED, REVIEW_FAILED, FAILED, FAILED_PERMANENTLY}"

definition TERMINAL_STATES :: "workflow_state set" where
  "TERMINAL_STATES =
     {NO_SUITABLE_TOPIC, APPROVED, REJECTED, REVIEW_FAILED, FAILED, FAILED_PERMANENTLY}"

definition PAUSE_STATES :: "workflow_state set" where
  "PAUSE_STATES = {AWAITING_HUMAN_APPROVAL}"

text \<open>
  \<open>TRANSIENT_STATES\<close> is a frozen set in the code; its iteration order is not specified. The
  model fixes the declaration order of the enumeration for the loop over it.
\<close>

definition TRANSIENT_STATES :: "workflow_state list" where
  "TRANSIENT_STATES =
     filter (\<lambda>s. s \<notin> TERMINAL_STATES \<and> s \<notin> PAUSE_STATES) all_workflow_states"

lemma TRANSIENT_STATES_iff: "s \<in> set TRANSIENT_STATES \<longleftrightarrow> s \<notin> TERMINAL_STATES \<and> s \<notin> PAUSE_STATES"
  by (simp add: TRANSIENT_STATES_def)

lemma TERMINAL_STATES_eq: "TERMINAL_WORKFLOW_STATES = TERMINAL_STATES"
  by (simp add: TERMINAL_WORKFLOW_STATES_def TERMINAL_STATES_def)

lemmas state_set_defs = TERMINAL_WORKFLOW_STATES_def TERMINAL_STATES_def PAUSE_STATES_def
  TRANSIENT_STATES_iff

section \<open>JSON values\<close>

datatype json = JNull | JBool bool | JInt int | JFloat rat | JStr string | JList "json list"
  | JObj "(string \<times> json) list"

section \<open>Persistence records\<close>

record payload_reference =
  ref_id :: string
  ref_kind :: string

record workflow_record =
  wf_id :: string
  wf_state :: workflow_state
  wf_version :: int
  wf_created_at :: datetime
  wf_updated_at :: datetime
  wf_revision_count :: int
  wf_failure_reason :: "string option"

record workflow_transition_record =
  tr_id :: string
  tr_workflow_id :: string
  tr_from :: workflow_state
  tr_to :: workflow_state
  tr_reason :: string
  tr_occurred_at :: datetime
  tr_actor :: "string option"

record task_record =
  tk_id :: string
  tk_workflow_id :: string
  tk_type :: task_type
  tk_attempt :: int
  tk_status :: task_status
  tk_payload_reference :: payload_reference
  tk_idempotency_key :: string
  tk_created_at :: datetime
  tk_updated_at :: datetime
  tk_completed_at :: "datetime option"
  tk_failure_reason :: "string option"

record artifact_record =
  ar_id :: string
  ar_workflow_id :: string
  ar_type :: artifact_type
  ar_name :: string
  ar_version :: int
  ar_logical_version :: int
  ar_is_active :: bool
  ar_created_at :: datetime
  ar_content_hash :: "string option"

record artifact_create_spec =
  acs_workflow_id :: string
  acs_type :: artifact_type
  acs_name :: string
  acs_version :: int
  acs_logical_version :: int
  acs_content :: json
  acs_is_active :: bool

record idempotency_record =
  id_key :: string
  id_workflow_id :: string
  id_task_id :: string
  id_completed_at :: datetime
  id_result_artifact_id :: "string option"

record idempotency_insert_spec =
  iis_key :: string
  iis_workflow_id :: string
  iis_task_id :: string
  iis_result_artifact_id :: "string option"

record idempotency_insert_result =
  iir_outcome :: idempotency_outcome
  iir_record :: "idempotency_record option"

record outbox_entry =
  ob_id :: string
  ob_workflow_id :: string
  ob_task_id :: string
  ob_task_type :: task_type
  ob_payload_reference :: payload_reference
  ob_idempotency_key :: string
  ob_status :: outbox_status
  ob_created_at :: datetime
  ob_published_at :: "datetime option"

record outbox_insert_spec =
  ois_workflow_id :: string
  ois_task_id :: string
  ois_task_type :: task_type
  ois_payload_reference :: payload_reference
  ois_idempotency_key :: string

record task_lease =
  le_id :: string
  le_task_id :: string
  le_worker_id :: string
  le_acquired_at :: datetime
  le_expires_at :: datetime

record ai_invocation_insert_spec =
  ais_workflow_id :: string
  ais_task_id :: string
  ais_agent_name :: string
  ais_agent_version :: string
  ais_prompt_version :: string
  ais_provider :: string
  ais_model :: string
  ais_input_artifact_id :: "string option"
  ais_output_artifact_id :: "string option"
  ais_attempt :: int
  ais_started_at :: datetime
  ais_completed_at :: "datetime option"
  ais_status :: invocation_status
  ais_input_tokens :: "int option"
  ais_output_tokens :: "int option"
  ais_estimated_cost_usd :: "rat option"

record ai_invocation_record =
  ai_id :: string
  ai_spec :: ai_invocation_insert_spec

section \<open>Workflow requests and results\<close>

record initiate_workflow_request =
  iwr_workflow_id :: "string option"
  iwr_correlation_id :: "string option"
  iwr_actor :: "string option"

record outbox_task_spec =
  ots_task_id :: string
  ots_workflow_id :: string
  ots_task_type :: task_type
  ots_attempt :: int
  ots_payload_reference :: string
  ots_idempotency_key :: string
  ots_created_at :: datetime

type_synonym transition_record = workflow_transition_record

record transition_request =
  trq_workflow_id :: string
  trq_expected_state :: workflow_state
  trq_signal :: transition_signal
  trq_reason :: string
  trq_actor :: "string option"
  trq_completing_task_id :: "string option"
  trq_idempotency_key :: "string option"

record transition_result =
  trs_workflow_id :: string
  trs_from :: workflow_state
  trs_to :: workflow_state
  trs_version :: int
  trs_transition_id :: string
  trs_transition :: transition_record
  trs_outbox_written :: bool
  trs_enqueued_task :: "outbox_task_spec option"

record initiate_workflow_result =
  iws_workflow_id :: string
  iws_state :: workflow_state
  iws_version :: int
  iws_transition :: transition_record
  iws_enqueued_task :: outbox_task_spec

record approval_action_result =
  aar_workflow_id :: string
  aar_action :: approval_action
  aar_from :: workflow_state
  aar_to :: workflow_state
  aar_version :: int
  aar_transition_id :: string
  aar_transition :: transition_record
  aar_enqueued_task :: "outbox_task_spec option"

section \<open>Configuration\<close>

record backoff_config =
  initial_seconds :: rat
  multiplier :: rat
  max_seconds :: rat

record retry_policy =
  max_attempts :: int
  backoff :: backoff_config

record worker_config =
  topic_selector_concurrency :: int
  scenario_generator_concurrency :: int
  critic_concurrency :: int

record failure_injection_config =
  fi_enabled :: bool
  fi_active_injections :: "injection_id list"

text \<open>The part of \<open>AppConfig\<close> the modelled components read.\<close>

record app_config =
  max_scenario_revisions :: int
  cfg_workers :: worker_config
  cfg_retry :: "task_type \<rightharpoonup> retry_policy"
  cfg_failure_injection :: failure_injection_config

section \<open>Exceptions\<close>

text \<open>
  The exceptions, with the attributes a handler reads. A message is kept where \<open>str(exc)\<close> is
  stored by the worker's retry path; elsewhere it is only logged. \<open>OtherError\<close> is any exception
  of another class, by its class name.
\<close>

datatype exn =
    WorkflowNotFoundError string
  | WorkflowConflictError string
  | InvalidTransitionError string workflow_state transition_signal
  | InvalidApprovalActionError string approval_action workflow_state
  | WorkflowTerminalError string workflow_state
  | PersistenceNotFoundError string
  | PersistenceConflictError string
  | PersistenceDuplicateError string
  | PersistenceTransactionError string
  | PersistenceValidationError string
  | RuntimeError string
  | ValueError
  | TypeError
  | KeyError
  | HandlerNotFoundError task_type
  | LeaseConflictError string string
  | TaskExecutionError string bool
  | ProviderError string bool string
  | CollectorError string bool string
  | AgentValidationError string
  | SimulatedCrashBeforeAck
  | OtherError string

type_synonym ('s, 'a) prog = "(exn, 's, 'a) py"

end
