(* ===== verification/World.thy ===== *)
theory World
  imports Domain_Types
begin

text \<open>
  The state the components share: the tables of the repositories, the transaction flags of the
  transaction manager, and a counter of the calls made so far to the clock and to \<open>uuid4\<close>.

  \<open>env\<close> is the environment the program cannot control: the value each successive call of
  \<open>datetime.now(UTC)\<close> and of \<open>str(uuid4())\<close> returns. Two calls may see different instants,
  and nothing makes the clock monotonic. Where a property relies on \<open>uuid4\<close> never repeating a
  value, \<open>fresh_uuids\<close> says so.

  \<open>repos\<close> is what the composition root injects into the engine: the operations of the
  repositories and of the transaction manager whose implementations differ. An extension that the
  code looks up by name and that an implementation may lack (\<open>getattr(repo, name, None)\<close>) is an
  optional field, and an optional keyword argument that an implementation may not accept is an
  optional argument of the field.
\<close>

record env =
  env_now :: "nat \<Rightarrow> datetime"
  env_uuid :: "nat \<Rightarrow> string"

definition fresh_uuids :: "env \<Rightarrow> bool" where
  "fresh_uuids E \<longleftrightarrow> inj (env_uuid E)"

record world =
  wf_rows :: "(string, workflow_record) dict"
  tr_rows :: "workflow_transition_record list"
  task_rows :: "(string, task_record) dict"
  payload_rows :: "(string, json) dict"
  art_rows :: "(string, artifact_record) dict"
  content_rows :: "(string, json) dict"
  inv_rows :: "ai_invocation_record list"
  idem_rows :: "(string, idempotency_record) dict"
  outbox_rows :: "(string, outbox_entry) dict"
  lease_rows :: "(string, task_lease) dict"
  in_txn :: bool
  txn_depth :: nat
  ticks :: nat

definition empty_world :: world where
  "empty_world = \<lparr>wf_rows = [], tr_rows = [], task_rows = [], payload_rows = [], art_rows = [],
     content_rows = [], inv_rows = [], idem_rows = [], outbox_rows = [], lease_rows = [],
     in_txn = False, txn_depth = 0, ticks = 0\<rparr>"

text \<open>One call of the clock, one call of \<open>uuid4\<close>.\<close>

definition utc_now :: "env \<Rightarrow> (world, datetime) prog" where
  [py_simps]: "utc_now E w = (Inr (env_now E (ticks w)), w\<lparr>ticks := Suc (ticks w)\<rparr>)"

definition new_uuid :: "env \<Rightarrow> (world, string) prog" where
  [py_simps]: "new_uuid E w = (Inr (env_uuid E (ticks w)), w\<lparr>ticks := Suc (ticks w)\<rparr>)"

record repos =
  rp_create_workflow :: "string \<Rightarrow> workflow_state \<Rightarrow> (world, workflow_record) prog"
  rp_update_workflow_state ::
    "string \<Rightarrow> int \<Rightarrow> workflow_state \<Rightarrow> string option \<Rightarrow> int option \<Rightarrow> (world, workflow_record) prog"
  rp_append_transition :: "workflow_transition_record \<Rightarrow> (world, workflow_transition_record) prog"
  rp_create_task :: "task_record \<Rightarrow> json option \<Rightarrow> (world, task_record) prog"
  rp_update_task ::
    "string \<Rightarrow> task_status \<Rightarrow> int option \<Rightarrow> string option \<Rightarrow> datetime option \<Rightarrow> (world, task_record) prog"
  rp_get_task_payload :: "payload_reference \<Rightarrow> (world, json) prog"
  rp_outbox_insert :: "outbox_insert_spec \<Rightarrow> (world, outbox_entry) prog"
  rp_list_tasks_for_workflow :: "(string \<Rightarrow> world \<Rightarrow> task_record list) option"
  rp_list_workflows_for_reconciliation ::
    "(workflow_state list \<Rightarrow> datetime option \<Rightarrow> int \<Rightarrow> world \<Rightarrow> workflow_record list) option"
  rp_list_unpublished_outbox_for_workflow :: "(string \<Rightarrow> world \<Rightarrow> outbox_entry list) option"
  rp_is_in_transaction :: "world \<Rightarrow> bool"
  rp_tx_enter :: "(world, unit) prog"
  rp_tx_exit :: "world \<Rightarrow> bool \<Rightarrow> world \<Rightarrow> world"

text \<open>
  \<open>with transaction_manager.transaction(): body\<close>: the exit action sees the state at entry (the
  snapshots taken there) and whether the body raised, and the exception propagates.
\<close>

definition with_transaction :: "repos \<Rightarrow> (world, 'a) prog \<Rightarrow> (world, 'a) prog" where
  "with_transaction R body w =
     (case rp_tx_enter R w of
        (Inl e, w1) \<Rightarrow> (Inl e, w1)
      | (Inr _, w1) \<Rightarrow> (case body w1 of (r, w2) \<Rightarrow> (r, rp_tx_exit R w (isl r) w2)))"

section \<open>Queries shared by the in-memory repositories\<close>

definition get_workflow :: "string \<Rightarrow> world \<Rightarrow> workflow_record option" where
  "get_workflow wid w = dict_get (wf_rows w) wid"

definition get_task :: "string \<Rightarrow> world \<Rightarrow> task_record option" where
  "get_task tid w = dict_get (task_rows w) tid"

text \<open>\<open>sorted\<close> with a tuple key: ordered by instant, then by transition id, stable.\<close>

definition list_transitions :: "string \<Rightarrow> world \<Rightarrow> workflow_transition_record list" where
  "list_transitions wid w =
     sort_key (\<lambda>t. (tr_occurred_at t, tr_id t)) (filter (\<lambda>t. tr_workflow_id t = wid) (tr_rows w))"

section \<open>Tables and their invariants\<close>

text \<open>Two states with the same tables: they may differ in the clock and the transaction flags.\<close>

definition same_tables :: "world \<Rightarrow> world \<Rightarrow> bool" where
  "same_tables v w \<longleftrightarrow>
     wf_rows v = wf_rows w \<and> tr_rows v = tr_rows w \<and> task_rows v = task_rows w
     \<and> payload_rows v = payload_rows w \<and> art_rows v = art_rows w \<and> content_rows v = content_rows w
     \<and> inv_rows v = inv_rows w \<and> idem_rows v = idem_rows w \<and> outbox_rows v = outbox_rows w
     \<and> lease_rows v = lease_rows w"

lemma same_tables_refl [simp]: "same_tables w w"
  by (simp add: same_tables_def)

lemma same_tables_trans: "same_tables u v \<Longrightarrow> same_tables v w \<Longrightarrow> same_tables u w"
  by (simp add: same_tables_def)

lemma same_tables_ticks [simp]: "same_tables (w\<lparr>ticks := n\<rparr>) v = same_tables w v"
  "same_tables v (w\<lparr>ticks := n\<rparr>) = same_tables v w"
  by (simp_all add: same_tables_def)

text \<open>
  Keys agree with the records they index: every row is stored under its own identifier, and no
  identifier occurs twice.
\<close>

definition keys_ok :: "('v \<Rightarrow> 'k) \<Rightarrow> ('k, 'v) dict \<Rightarrow> bool" where
  "keys_ok key d \<longleftrightarrow> distinct (dict_keys d) \<and> (\<forall>(k, v) \<in> set d. key v = k)"

lemma keys_ok_Nil [simp]: "keys_ok key []"
  by (simp add: keys_ok_def)

lemma keys_ok_set: "keys_ok key d \<Longrightarrow> keys_ok key (dict_set (key v) v d)"
  using set_dict_set_subset [of "key v" v d] by (fastforce simp: keys_ok_def)

lemma keys_ok_set': "keys_ok key d \<Longrightarrow> key v = k \<Longrightarrow> keys_ok key (dict_set k v d)"
  using keys_ok_set by metis

lemma keys_ok_get: "keys_ok key d \<Longrightarrow> dict_get d k = Some v \<Longrightarrow> key v = k"
  by (auto simp: keys_ok_def dest: map_of_SomeD)

lemma keys_ok_values: "keys_ok key d \<Longrightarrow> v \<in> set (dict_values d) \<Longrightarrow> dict_get d (key v) = Some v"
  by (auto simp: keys_ok_def)

lemma with_transaction_ok:
  assumes "rp_tx_enter R w = (Inr (), w1)" and "body w1 = (r, w2)"
  shows "with_transaction R body w = (r, rp_tx_exit R w (isl r) w2)"
  using assms by (simp add: with_transaction_def)

lemma with_transaction_refused:
  assumes "rp_tx_enter R w = (Inl e, w1)"
  shows "with_transaction R body w = (Inl e, w1)"
  using assms by (simp add: with_transaction_def)

end
