(* ===== verification/Repo_Contract.thy ===== *)
theory Repo_Contract
  imports World
begin

text \<open>
  What the workflow engine relies on from the repositories it is given
  (\<open>persistence/protocols.py\<close>): an optimistic state update that bumps the version by one or
  changes nothing, an append-only transition history, and task and outbox rows that appear when
  they are inserted. \<open>workflow_store\<close> states these laws over the injected operations;
  \<open>revision_store\<close> adds the revision-count update that only some implementations offer. The
  engine's lemmas are proved in these locales and reach the concrete repositories through the
  interpretations of \<open>Persistence_Fakes\<close> and \<open>Workflow_Fakes\<close>.
\<close>

definition TASK_PAYLOAD_REF_KIND :: string where
  "TASK_PAYLOAD_REF_KIND = ''task_payload''"

section \<open>Rows written by the operations\<close>

definition new_workflow :: "env \<Rightarrow> string \<Rightarrow> workflow_state \<Rightarrow> world \<Rightarrow> workflow_record" where
  "new_workflow E wid st w =
     \<lparr>wf_id = wid, wf_state = st, wf_version = 1, wf_created_at = env_now E (ticks w),
      wf_updated_at = env_now E (ticks w), wf_revision_count = 0, wf_failure_reason = None\<rparr>"

definition advanced ::
  "env \<Rightarrow> world \<Rightarrow> workflow_record \<Rightarrow> workflow_state \<Rightarrow> string option \<Rightarrow> int option \<Rightarrow> workflow_record"
where
  "advanced E w x st fr rc =
     x\<lparr>wf_state := st, wf_version := wf_version x + 1, wf_updated_at := env_now E (ticks w),
       wf_revision_count := (case rc of None \<Rightarrow> wf_revision_count x | Some c \<Rightarrow> c),
       wf_failure_reason := fr\<rparr>"

definition put_workflow :: "string \<Rightarrow> workflow_record \<Rightarrow> world \<Rightarrow> world" where
  "put_workflow wid r w = w\<lparr>ticks := Suc (ticks w), wf_rows := dict_set wid r (wf_rows w)\<rparr>"

definition put_transition :: "workflow_transition_record \<Rightarrow> world \<Rightarrow> world" where
  "put_transition t w = w\<lparr>tr_rows := tr_rows w @ [t]\<rparr>"

definition put_task :: "task_record \<Rightarrow> json option \<Rightarrow> world \<Rightarrow> world" where
  "put_task t p w =
     w\<lparr>payload_rows := dict_set (ref_id (tk_payload_reference t))
          (case p of None \<Rightarrow> JObj [] | Some x \<Rightarrow> x) (payload_rows w),
       task_rows := dict_set (tk_id t) t (task_rows w)\<rparr>"

definition pending_entry :: "string \<Rightarrow> datetime \<Rightarrow> outbox_insert_spec \<Rightarrow> outbox_entry" where
  "pending_entry oid now spec =
     \<lparr>ob_id = oid, ob_workflow_id = ois_workflow_id spec, ob_task_id = ois_task_id spec,
      ob_task_type = ois_task_type spec, ob_payload_reference = ois_payload_reference spec,
      ob_idempotency_key = ois_idempotency_key spec, ob_status = OB_PENDING,
      ob_created_at = now, ob_published_at = None\<rparr>"

definition put_outbox :: "env \<Rightarrow> outbox_insert_spec \<Rightarrow> world \<Rightarrow> world" where
  "put_outbox E spec w =
     w\<lparr>ticks := Suc (Suc (ticks w)),
       outbox_rows := dict_set (env_uuid E (ticks w))
         (pending_entry (env_uuid E (ticks w)) (env_now E (Suc (ticks w))) spec) (outbox_rows w)\<rparr>"

definition merge_task ::
  "task_record \<Rightarrow> datetime \<Rightarrow> task_status \<Rightarrow> int option \<Rightarrow> string option \<Rightarrow> datetime option \<Rightarrow> task_record"
where
  "merge_task existing now status attempt failure_reason completed_at =
     \<lparr>tk_id = tk_id existing, tk_workflow_id = tk_workflow_id existing, tk_type = tk_type existing,
      tk_attempt = (case attempt of None \<Rightarrow> tk_attempt existing | Some a \<Rightarrow> a), tk_status = status,
      tk_payload_reference = tk_payload_reference existing,
      tk_idempotency_key = tk_idempotency_key existing, tk_created_at = tk_created_at existing,
      tk_updated_at = now,
      tk_completed_at = (case completed_at of None \<Rightarrow> tk_completed_at existing | Some c \<Rightarrow> Some c),
      tk_failure_reason =
        (case failure_reason of None \<Rightarrow> tk_failure_reason existing | Some f \<Rightarrow> Some f)\<rparr>"

lemmas put_defs = put_workflow_def put_transition_def put_task_def put_outbox_def

lemma put_txn [simp]:
  "in_txn (put_workflow wid r w) = in_txn w" "in_txn (put_transition t w) = in_txn w"
  "in_txn (put_task k p w) = in_txn w" "in_txn (put_outbox E s w) = in_txn w"
  by (simp_all add: put_defs)

lemma put_wf_rows [simp]:
  "wf_rows (put_workflow wid r w) = dict_set wid r (wf_rows w)"
  "wf_rows (put_transition t w) = wf_rows w"
  "wf_rows (put_task k p w) = wf_rows w" "wf_rows (put_outbox E s w) = wf_rows w"
  by (simp_all add: put_defs)

lemma put_tr_rows [simp]:
  "tr_rows (put_workflow wid r w) = tr_rows w" "tr_rows (put_transition t w) = tr_rows w @ [t]"
  "tr_rows (put_task k p w) = tr_rows w" "tr_rows (put_outbox E s w) = tr_rows w"
  by (simp_all add: put_defs)

lemma put_task_rows [simp]:
  "task_rows (put_workflow wid r w) = task_rows w" "task_rows (put_transition t w) = task_rows w"
  "task_rows (put_task k p w) = dict_set (tk_id k) k (task_rows w)"
  "task_rows (put_outbox E s w) = task_rows w"
  by (simp_all add: put_defs)

lemma put_outbox_rows [simp]:
  "outbox_rows (put_workflow wid r w) = outbox_rows w"
  "outbox_rows (put_transition t w) = outbox_rows w"
  "outbox_rows (put_task k p w) = outbox_rows w"
  by (simp_all add: put_defs)

lemma put_art_rows [simp]:
  "art_rows (put_workflow wid r w) = art_rows w" "art_rows (put_transition t w) = art_rows w"
  "art_rows (put_task k p w) = art_rows w" "art_rows (put_outbox E s w) = art_rows w"
  by (simp_all add: put_defs)

lemma put_idem_rows [simp]:
  "idem_rows (put_workflow wid r w) = idem_rows w" "idem_rows (put_transition t w) = idem_rows w"
  "idem_rows (put_task k p w) = idem_rows w" "idem_rows (put_outbox E s w) = idem_rows w"
  by (simp_all add: put_defs)

lemma get_workflow_put [simp]:
  "get_workflow k (put_workflow wid r w) = (if k = wid then Some r else get_workflow k w)"
  "get_workflow k (put_transition t w) = get_workflow k w"
  "get_workflow k (put_task tk p w) = get_workflow k w"
  "get_workflow k (put_outbox E s w) = get_workflow k w"
  by (simp_all add: get_workflow_def)

lemma get_workflow_ticks [simp]: "get_workflow k (w\<lparr>ticks := n\<rparr>) = get_workflow k w"
  by (simp add: get_workflow_def)

lemma advanced_simps [simp]:
  "wf_id (advanced E w x st fr rc) = wf_id x" "wf_state (advanced E w x st fr rc) = st"
  "wf_version (advanced E w x st fr rc) = wf_version x + 1"
  "wf_created_at (advanced E w x st fr rc) = wf_created_at x"
  "wf_failure_reason (advanced E w x st fr rc) = fr"
  "wf_revision_count (advanced E w x st fr None) = wf_revision_count x"
  "wf_revision_count (advanced E w x st fr (Some c)) = c"
  by (simp_all add: advanced_def)

section \<open>The contract\<close>

locale workflow_store =
  fixes E :: env and R :: repos
  assumes in_transaction: "rp_is_in_transaction R w \<longleftrightarrow> in_txn w"
    and create_workflow:
      "rp_create_workflow R wid st w = (Inr (new_workflow E wid st w), put_workflow wid (new_workflow E wid st w) w)"
    and update_ok: "in_txn w \<Longrightarrow> get_workflow wid w = Some x \<Longrightarrow>
      rp_update_workflow_state R wid (wf_version x) st fr None w
        = (Inr (advanced E w x st fr None), put_workflow wid (advanced E w x st fr None) w)"
    and update_stale: "in_txn w \<Longrightarrow> get_workflow wid w = Some x \<Longrightarrow> wf_version x \<noteq> v \<Longrightarrow>
      rp_update_workflow_state R wid v st fr None w = (Inl (PersistenceConflictError wid), w)"
    and update_missing: "in_txn w \<Longrightarrow> get_workflow wid w = None \<Longrightarrow>
      rp_update_workflow_state R wid v st fr None w = (Inl (PersistenceNotFoundError wid), w)"
    and update_cases: "(\<exists>e. rp_update_workflow_state R wid v st fr rc w = (Inl e, w)) \<or>
      (\<exists>x. get_workflow wid w = Some x \<and> wf_version x = v \<and>
        rp_update_workflow_state R wid v st fr rc w
          = (Inr (advanced E w x st fr rc), put_workflow wid (advanced E w x st fr rc) w))"
    and append_ok: "in_txn w \<Longrightarrow> \<forall>t' \<in> set (tr_rows w). tr_id t' \<noteq> tr_id t \<Longrightarrow>
      rp_append_transition R t w = (Inr t, put_transition t w)"
    and append_cases: "(\<exists>e. rp_append_transition R t w = (Inl e, w)) \<or>
      rp_append_transition R t w = (Inr t, put_transition t w)"
    and create_task_ok: "in_txn w \<Longrightarrow> ref_kind (tk_payload_reference k) = TASK_PAYLOAD_REF_KIND \<Longrightarrow>
      rp_create_task R k p w = (Inr k, put_task k p w)"
    and create_task_cases: "(\<exists>e. rp_create_task R k p w = (Inl e, w)) \<or>
      rp_create_task R k p w = (Inr k, put_task k p w)"
    and outbox_ok: "in_txn w \<Longrightarrow> \<exists>entry. rp_outbox_insert R s w = (Inr entry, put_outbox E s w)"
    and outbox_cases: "(\<exists>e. rp_outbox_insert R s w = (Inl e, w)) \<or>
      (\<exists>entry. rp_outbox_insert R s w = (Inr entry, put_outbox E s w))"

locale revision_store = workflow_store +
  assumes update_revision: "in_txn w \<Longrightarrow> get_workflow wid w = Some x \<Longrightarrow>
      rp_update_workflow_state R wid (wf_version x) st fr (Some c) w
        = (Inr (advanced E w x st fr (Some c)), put_workflow wid (advanced E w x st fr (Some c)) w)"

text \<open>
  A transaction context manager: entering changes no table, and leaving keeps the clock and either
  the tables the body left or those at entry. \<open>atomic_store\<close> adds what \<open>TransactionManager\<close>
  documents: an entry is never nested, and a body that raised leaves no trace in any table.
\<close>

locale transaction_store = workflow_store +
  assumes tx_enter: "\<exists>r w1. rp_tx_enter R w = (r, w1) \<and> same_tables w w1 \<and> ticks w1 = ticks w
      \<and> (isl r \<longrightarrow> w1 = w) \<and> (\<not> isl r \<longrightarrow> in_txn w1)"
    and tx_exit: "ticks (rp_tx_exit R w raised v) = ticks v
      \<and> (same_tables v (rp_tx_exit R w raised v) \<or> same_tables w (rp_tx_exit R w raised v))"
    and tx_commit: "same_tables v (rp_tx_exit R w False v)"

locale atomic_store = transaction_store +
  assumes tx_idle: "\<not> in_txn w \<Longrightarrow> \<exists>w1. rp_tx_enter R w = (Inr (), w1)"
    and tx_closed: "\<not> in_txn w \<Longrightarrow> \<not> in_txn (rp_tx_exit R w raised v)"
    and tx_rollback: "same_tables w (rp_tx_exit R w True v)"

context atomic_store
begin

lemma with_transaction_atomic:
  assumes "with_transaction R body w = (Inl e, w')"
  shows "same_tables w w'"
proof -
  obtain r w1 where en: "rp_tx_enter R w = (r, w1)" "same_tables w w1" using tx_enter by blast
  show ?thesis
  proof (cases r)
    case (Inl a)
    with en assms show ?thesis by (simp add: with_transaction_def)
  next
    case (Inr b)
    obtain r2 w2 where "body w1 = (r2, w2)" by (cases "body w1")
    with en Inr assms show ?thesis by (auto simp: with_transaction_def tx_rollback)
  qed
qed

end

text \<open>Task rows: an update merges the given fields into the stored row, a payload is only read.\<close>

locale task_store = transaction_store +
  assumes update_task_ok: "in_txn w \<Longrightarrow> get_task tid w = Some k \<Longrightarrow>
      rp_update_task R tid st att rsn ca w =
        (let u = merge_task k (env_now E (ticks w)) st att rsn ca
         in (Inr u, w\<lparr>ticks := Suc (ticks w), task_rows := dict_set tid u (task_rows w)\<rparr>))"
    and update_task_cases: "(\<exists>e. rp_update_task R tid st att rsn ca w = (Inl e, w)) \<or>
      (\<exists>k u. get_task tid w = Some k \<and> u = merge_task k (env_now E (ticks w)) st att rsn ca
         \<and> rp_update_task R tid st att rsn ca w
           = (Inr u, w\<lparr>ticks := Suc (ticks w), task_rows := dict_set tid u (task_rows w)\<rparr>))"
    and payload_pure: "\<exists>r. rp_get_task_payload R ref w = (r, w)"

end
