(* ===== verification/Persistence_Fakes.thy ===== *)
theory Persistence_Fakes
  imports Repo_Contract
begin

text \<open>
  The in-memory repositories and transaction manager of \<open>persistence/fakes/\<close>, wired together
  (every repository is given the transaction manager and registers its tables with it). Mutating
  operations refuse to run outside a transaction, and a transaction whose body raises restores the
  tables it found.

  The lemmas give the effect of each operation on every branch; the interpretations show that the
  repositories meet the contracts of \<open>Repo_Contract\<close>, the atomic transaction among them.
\<close>

section \<open>Transaction manager\<close>

definition pf_restore :: "world \<Rightarrow> world \<Rightarrow> world" where
  "pf_restore snap w = w\<lparr>wf_rows := wf_rows snap, tr_rows := tr_rows snap,
     task_rows := task_rows snap, payload_rows := payload_rows snap, art_rows := art_rows snap,
     content_rows := content_rows snap, inv_rows := inv_rows snap, idem_rows := idem_rows snap,
     outbox_rows := outbox_rows snap, lease_rows := lease_rows snap\<rparr>"

definition pf_tx_enter :: "(world, unit) prog" where
  "pf_tx_enter w =
     (if in_txn w then (Inl (PersistenceTransactionError ''Nested transaction not supported''), w)
      else (Inr (), w\<lparr>in_txn := True\<rparr>))"

definition pf_tx_exit :: "world \<Rightarrow> bool \<Rightarrow> world \<Rightarrow> world" where
  "pf_tx_exit w0 raised w = (if raised then pf_restore w0 w else w)\<lparr>in_txn := in_txn w0\<rparr>"

definition pf_is_in_transaction :: "world \<Rightarrow> bool" where
  "pf_is_in_transaction w = in_txn w"

definition pf_require_active_transaction :: "string \<Rightarrow> (world, unit) prog" where
  "pf_require_active_transaction operation w =
     (if pf_is_in_transaction w then ret () w else raise (PersistenceTransactionError operation) w)"

section \<open>Workflow repository\<close>

definition pf_create_workflow :: "env \<Rightarrow> string \<Rightarrow> workflow_state \<Rightarrow> (world, workflow_record) prog" where
  "pf_create_workflow E wid initial_state =
     bindE (utc_now E) (\<lambda>now.
     let record = \<lparr>wf_id = wid, wf_state = initial_state, wf_version = 1, wf_created_at = now,
           wf_updated_at = now, wf_revision_count = 0, wf_failure_reason = None\<rparr> in
     bindE (modifyE (\<lambda>w. w\<lparr>wf_rows := dict_set wid record (wf_rows w)\<rparr>)) (\<lambda>_.
     ret record))"

text \<open>
  The operation has no \<open>revision_count\<close> parameter: a call that passes the keyword raises
  \<open>TypeError\<close> before the body runs.
\<close>

definition pf_update_workflow_state ::
  "env \<Rightarrow> string \<Rightarrow> int \<Rightarrow> workflow_state \<Rightarrow> string option \<Rightarrow> int option \<Rightarrow> (world, workflow_record) prog"
where
  "pf_update_workflow_state E wid expected_version new_state failure_reason revision_count =
     (if revision_count \<noteq> None then raise TypeError
      else
        bindE (pf_require_active_transaction ''update_workflow_state'') (\<lambda>_.
        bindE (gets (get_workflow wid)) (\<lambda>row.
        case row of
          None \<Rightarrow> raise (PersistenceNotFoundError wid)
        | Some existing \<Rightarrow>
            if wf_version existing \<noteq> expected_version then raise (PersistenceConflictError wid)
            else
              bindE (utc_now E) (\<lambda>now.
              let updated = \<lparr>wf_id = wf_id existing, wf_state = new_state,
                    wf_version = wf_version existing + 1, wf_created_at = wf_created_at existing,
                    wf_updated_at = now, wf_revision_count = wf_revision_count existing,
                    wf_failure_reason = failure_reason\<rparr> in
              bindE (modifyE (\<lambda>w. w\<lparr>wf_rows := dict_set wid updated (wf_rows w)\<rparr>)) (\<lambda>_.
              ret updated)))))"

definition pf_append_transition ::
  "workflow_transition_record \<Rightarrow> (world, workflow_transition_record) prog"
where
  "pf_append_transition transition =
     bindE (pf_require_active_transaction ''append_transition'') (\<lambda>_.
     bindE (gets tr_rows) (\<lambda>rows.
     if \<exists>t \<in> set rows. tr_id t = tr_id transition
     then raise (PersistenceDuplicateError (tr_id transition))
     else
       bindE (modifyE (\<lambda>w. w\<lparr>tr_rows := tr_rows w @ [transition]\<rparr>)) (\<lambda>_.
       ret transition)))"

definition pf_create_task :: "task_record \<Rightarrow> json option \<Rightarrow> (world, task_record) prog" where
  "pf_create_task task payload =
     bindE (pf_require_active_transaction ''create_task'') (\<lambda>_.
     if ref_kind (tk_payload_reference task) \<noteq> TASK_PAYLOAD_REF_KIND
     then raise (PersistenceValidationError (ref_kind (tk_payload_reference task)))
     else
       let payload_body = (case payload of None \<Rightarrow> JObj [] | Some p \<Rightarrow> p) in
       bindE (modifyE (\<lambda>w. w\<lparr>payload_rows :=
                dict_set (ref_id (tk_payload_reference task)) payload_body (payload_rows w)\<rparr>)) (\<lambda>_.
       bindE (modifyE (\<lambda>w. w\<lparr>task_rows := dict_set (tk_id task) task (task_rows w)\<rparr>)) (\<lambda>_.
       ret task)))"

definition pf_update_task ::
  "env \<Rightarrow> string \<Rightarrow> task_status \<Rightarrow> int option \<Rightarrow> string option \<Rightarrow> datetime option \<Rightarrow> (world, task_record) prog"
where
  "pf_update_task E tid status attempt failure_reason completed_at =
     bindE (pf_require_active_transaction ''update_task'') (\<lambda>_.
     bindE (gets (get_task tid)) (\<lambda>row.
     case row of
       None \<Rightarrow> raise (PersistenceNotFoundError tid)
     | Some existing \<Rightarrow>
         bindE (utc_now E) (\<lambda>now.
         let updated = merge_task existing now status attempt failure_reason completed_at in
         bindE (modifyE (\<lambda>w. w\<lparr>task_rows := dict_set tid updated (task_rows w)\<rparr>)) (\<lambda>_.
         ret updated))))"

definition pf_get_task_payload :: "payload_reference \<Rightarrow> (world, json) prog" where
  "pf_get_task_payload reference =
     (if ref_kind reference \<noteq> TASK_PAYLOAD_REF_KIND
      then raise (PersistenceValidationError (ref_kind reference))
      else
        bindE (gets (\<lambda>w. dict_get (payload_rows w) (ref_id reference))) (\<lambda>row.
        case row of None \<Rightarrow> raise (PersistenceNotFoundError (ref_id reference)) | Some p \<Rightarrow> ret p))"

section \<open>Outbox repository\<close>

definition pf_outbox_insert :: "env \<Rightarrow> outbox_insert_spec \<Rightarrow> (world, outbox_entry) prog" where
  "pf_outbox_insert E spec =
     bindE (pf_require_active_transaction ''insert'') (\<lambda>_.
     bindE (new_uuid E) (\<lambda>oid.
     bindE (utc_now E) (\<lambda>now.
     let entry = \<lparr>ob_id = oid, ob_workflow_id = ois_workflow_id spec, ob_task_id = ois_task_id spec,
           ob_task_type = ois_task_type spec, ob_payload_reference = ois_payload_reference spec,
           ob_idempotency_key = ois_idempotency_key spec, ob_status = OB_PENDING,
           ob_created_at = now, ob_published_at = None\<rparr> in
     bindE (modifyE (\<lambda>w. w\<lparr>outbox_rows := dict_set oid entry (outbox_rows w)\<rparr>)) (\<lambda>_.
     ret entry))))"

definition fetch_unpublished :: "int \<Rightarrow> world \<Rightarrow> outbox_entry list" where
  "fetch_unpublished limit w =
     slice_to limit (sort_key ob_created_at
       (filter (\<lambda>e. ob_status e = OB_PENDING) (dict_values (outbox_rows w))))"

definition pf_mark_published :: "string \<Rightarrow> datetime \<Rightarrow> (world, outbox_entry) prog" where
  "pf_mark_published oid published_at =
     bindE (gets (\<lambda>w. dict_get (outbox_rows w) oid)) (\<lambda>row.
     case row of
       None \<Rightarrow> raise (PersistenceNotFoundError oid)
     | Some existing \<Rightarrow>
         if ob_status existing = OB_PUBLISHED then ret existing
         else
           let updated = existing\<lparr>ob_status := OB_PUBLISHED, ob_published_at := Some published_at\<rparr> in
           bindE (modifyE (\<lambda>w. w\<lparr>outbox_rows := dict_set oid updated (outbox_rows w)\<rparr>)) (\<lambda>_.
           ret updated))"

section \<open>Idempotency repository\<close>

definition pf_get_by_key :: "string \<Rightarrow> world \<Rightarrow> idempotency_record option" where
  "pf_get_by_key key w = dict_get (idem_rows w) key"

definition pf_try_insert ::
  "env \<Rightarrow> idempotency_insert_spec \<Rightarrow> (world, idempotency_insert_result) prog"
where
  "pf_try_insert E spec =
     bindE (pf_require_active_transaction ''try_insert'') (\<lambda>_.
     bindE (gets (pf_get_by_key (iis_key spec))) (\<lambda>row.
     case row of
       Some existing \<Rightarrow> ret \<lparr>iir_outcome = DUPLICATE, iir_record = Some existing\<rparr>
     | None \<Rightarrow>
         bindE (utc_now E) (\<lambda>now.
         let record = \<lparr>id_key = iis_key spec, id_workflow_id = iis_workflow_id spec,
               id_task_id = iis_task_id spec, id_completed_at = now,
               id_result_artifact_id = iis_result_artifact_id spec\<rparr> in
         bindE (modifyE (\<lambda>w. w\<lparr>idem_rows := dict_set (iis_key spec) record (idem_rows w)\<rparr>)) (\<lambda>_.
         ret \<lparr>iir_outcome = INSERTED, iir_record = Some record\<rparr>))))"

section \<open>Artifact repository\<close>

definition same_slot :: "artifact_create_spec \<Rightarrow> artifact_record \<Rightarrow> bool" where
  "same_slot spec r \<longleftrightarrow> ar_workflow_id r = acs_workflow_id spec \<and> ar_type r = acs_type spec"

definition deactivate_slot ::
  "artifact_create_spec \<Rightarrow> (string, artifact_record) dict \<Rightarrow> (string, artifact_record) dict"
where
  "deactivate_slot spec rows =
     map (\<lambda>(k, r). (k, if same_slot spec r \<and> ar_is_active r then r\<lparr>ar_is_active := False\<rparr> else r)) rows"

definition new_artifact :: "string \<Rightarrow> datetime \<Rightarrow> artifact_create_spec \<Rightarrow> artifact_record" where
  "new_artifact aid now spec =
     \<lparr>ar_id = aid, ar_workflow_id = acs_workflow_id spec, ar_type = acs_type spec,
      ar_name = acs_name spec, ar_version = acs_version spec,
      ar_logical_version = acs_logical_version spec, ar_is_active = acs_is_active spec,
      ar_created_at = now, ar_content_hash = None\<rparr>"

definition pf_create_artifact :: "env \<Rightarrow> artifact_create_spec \<Rightarrow> (world, artifact_record) prog" where
  "pf_create_artifact E spec =
     bindE (whenE (acs_is_active spec) (pf_require_active_transaction ''create_artifact'')) (\<lambda>_.
     bindE (new_uuid E) (\<lambda>aid.
     bindE (utc_now E) (\<lambda>now.
     bindE (gets art_rows) (\<lambda>rows.
     if \<exists>r \<in> set (dict_values rows). same_slot spec r \<and> ar_version r = acs_version spec
     then raise (PersistenceDuplicateError (acs_workflow_id spec))
     else
       bindE (whenE (acs_is_active spec)
                (modifyE (\<lambda>w. w\<lparr>art_rows := deactivate_slot spec (art_rows w)\<rparr>))) (\<lambda>_.
       let record = new_artifact aid now spec in
       bindE (modifyE (\<lambda>w. w\<lparr>art_rows := dict_set aid record (art_rows w)\<rparr>)) (\<lambda>_.
       bindE (modifyE (\<lambda>w. w\<lparr>content_rows := dict_set aid (acs_content spec) (content_rows w)\<rparr>)) (\<lambda>_.
       ret record)))))))"

definition get_artifact :: "string \<Rightarrow> world \<Rightarrow> artifact_record option" where
  "get_artifact aid w = dict_get (art_rows w) aid"

definition get_artifact_content :: "string \<Rightarrow> (world, json) prog" where
  "get_artifact_content aid =
     bindE (gets (\<lambda>w. dict_get (content_rows w) aid)) (\<lambda>row.
     case row of None \<Rightarrow> raise (PersistenceNotFoundError aid) | Some c \<Rightarrow> ret c)"

definition list_artifacts :: "string \<Rightarrow> artifact_type option \<Rightarrow> bool \<Rightarrow> world \<Rightarrow> artifact_record list" where
  "list_artifacts wid artifact_type active_only w =
     sort_key ar_version
       (filter (\<lambda>r. ar_workflow_id r = wid
                  \<and> (case artifact_type of None \<Rightarrow> True | Some t \<Rightarrow> ar_type r = t)
                  \<and> (\<not> active_only \<or> ar_is_active r))
          (dict_values (art_rows w)))"

definition get_active_artifact :: "string \<Rightarrow> artifact_type \<Rightarrow> world \<Rightarrow> artifact_record option" where
  "get_active_artifact wid artifact_type w =
     (case list_artifacts wid (Some artifact_type) True w of [] \<Rightarrow> None | r # _ \<Rightarrow> Some r)"

definition append_ai_invocation :: "env \<Rightarrow> ai_invocation_insert_spec \<Rightarrow> (world, ai_invocation_record) prog" where
  "append_ai_invocation E spec =
     bindE (new_uuid E) (\<lambda>iid.
     let record = \<lparr>ai_id = iid, ai_spec = spec\<rparr> in
     bindE (modifyE (\<lambda>w. w\<lparr>inv_rows := inv_rows w @ [record]\<rparr>)) (\<lambda>_.
     ret record))"

definition list_ai_invocations :: "string \<Rightarrow> string option \<Rightarrow> world \<Rightarrow> ai_invocation_record list" where
  "list_ai_invocations wid task_id w =
     filter (\<lambda>r. ais_workflow_id (ai_spec r) = wid
               \<and> (case task_id of None \<Rightarrow> True | Some t \<Rightarrow> ais_task_id (ai_spec r) = t))
       (inv_rows w)"

section \<open>Wiring\<close>

text \<open>None of the extensions that the engine looks up by name exists here.\<close>

definition persistence_repos :: "env \<Rightarrow> repos" where
  "persistence_repos E =
     \<lparr>rp_create_workflow = pf_create_workflow E,
      rp_update_workflow_state = pf_update_workflow_state E,
      rp_append_transition = pf_append_transition,
      rp_create_task = pf_create_task,
      rp_update_task = pf_update_task E,
      rp_get_task_payload = pf_get_task_payload,
      rp_outbox_insert = pf_outbox_insert E,
      rp_list_tasks_for_workflow = None,
      rp_list_workflows_for_reconciliation = None,
      rp_list_unpublished_outbox_for_workflow = None,
      rp_is_in_transaction = pf_is_in_transaction,
      rp_tx_enter = pf_tx_enter,
      rp_tx_exit = pf_tx_exit\<rparr>"

section \<open>Effects of the operations\<close>

lemma pf_require_active [store_simps]:
  "pf_require_active_transaction op w =
     (if in_txn w then (Inr (), w) else (Inl (PersistenceTransactionError op), w))"
  by (simp add: pf_require_active_transaction_def pf_is_in_transaction_def py_simps)

lemma pf_create_workflow_eq [store_simps]:
  "pf_create_workflow E wid st w =
     (let n = env_now E (ticks w);
          r = \<lparr>wf_id = wid, wf_state = st, wf_version = 1, wf_created_at = n, wf_updated_at = n,
               wf_revision_count = 0, wf_failure_reason = None\<rparr>
      in (Inr r, w\<lparr>ticks := Suc (ticks w), wf_rows := dict_set wid r (wf_rows w)\<rparr>))"
  by (simp add: pf_create_workflow_def Let_def bindE_def py_simps)

lemma workflow_record_update_eq:
  "\<lparr>wf_id = wf_id x, wf_state = st, wf_version = v, wf_created_at = wf_created_at x,
    wf_updated_at = n, wf_revision_count = c, wf_failure_reason = fr\<rparr>
   = x\<lparr>wf_state := st, wf_version := v, wf_updated_at := n, wf_revision_count := c,
       wf_failure_reason := fr\<rparr>"
  by (rule workflow_record.equality) simp_all

lemma pf_update_workflow_state_eq [store_simps]:
  "pf_update_workflow_state E wid v st fr None w =
     (if \<not> in_txn w then (Inl (PersistenceTransactionError ''update_workflow_state''), w)
      else case dict_get (wf_rows w) wid of
        None \<Rightarrow> (Inl (PersistenceNotFoundError wid), w)
      | Some x \<Rightarrow>
          if wf_version x \<noteq> v then (Inl (PersistenceConflictError wid), w)
          else let u = x\<lparr>wf_state := st, wf_version := wf_version x + 1,
                         wf_updated_at := env_now E (ticks w), wf_failure_reason := fr\<rparr>
               in (Inr u, w\<lparr>ticks := Suc (ticks w), wf_rows := dict_set wid u (wf_rows w)\<rparr>))"
  by (cases "dict_get (wf_rows w) wid")
     (simp_all add: pf_update_workflow_state_def store_simps get_workflow_def Let_def bindE_def
        py_simps workflow_record_update_eq)

lemma pf_update_workflow_state_revision [store_simps]:
  "pf_update_workflow_state E wid v st fr (Some n) w = (Inl TypeError, w)"
  by (simp add: pf_update_workflow_state_def py_simps)

lemma pf_append_transition_eq [store_simps]:
  "pf_append_transition t w =
     (if \<not> in_txn w then (Inl (PersistenceTransactionError ''append_transition''), w)
      else if \<exists>t' \<in> set (tr_rows w). tr_id t' = tr_id t then (Inl (PersistenceDuplicateError (tr_id t)), w)
      else (Inr t, w\<lparr>tr_rows := tr_rows w @ [t]\<rparr>))"
  by (simp add: pf_append_transition_def store_simps bindE_def py_simps)

lemma pf_create_task_eq [store_simps]:
  "pf_create_task t p w =
     (if \<not> in_txn w then (Inl (PersistenceTransactionError ''create_task''), w)
      else if ref_kind (tk_payload_reference t) \<noteq> TASK_PAYLOAD_REF_KIND
      then (Inl (PersistenceValidationError (ref_kind (tk_payload_reference t))), w)
      else (Inr t, w\<lparr>payload_rows := dict_set (ref_id (tk_payload_reference t))
                        (case p of None \<Rightarrow> JObj [] | Some x \<Rightarrow> x) (payload_rows w),
                     task_rows := dict_set (tk_id t) t (task_rows w)\<rparr>))"
  by (simp add: pf_create_task_def store_simps bindE_def py_simps Let_def)

lemma pf_update_task_eq [store_simps]:
  "pf_update_task E tid st att fr ca w =
     (if \<not> in_txn w then (Inl (PersistenceTransactionError ''update_task''), w)
      else case dict_get (task_rows w) tid of
        None \<Rightarrow> (Inl (PersistenceNotFoundError tid), w)
      | Some x \<Rightarrow> let u = merge_task x (env_now E (ticks w)) st att fr ca
                  in (Inr u, w\<lparr>ticks := Suc (ticks w), task_rows := dict_set tid u (task_rows w)\<rparr>))"
  by (cases "dict_get (task_rows w) tid")
     (simp_all add: pf_update_task_def get_task_def store_simps bindE_def py_simps Let_def)

lemma pf_outbox_insert_eq [store_simps]:
  "pf_outbox_insert E spec w =
     (if \<not> in_txn w then (Inl (PersistenceTransactionError ''insert''), w)
      else let oid = env_uuid E (ticks w);
               e = pending_entry oid (env_now E (Suc (ticks w))) spec
           in (Inr e, w\<lparr>ticks := Suc (Suc (ticks w)), outbox_rows := dict_set oid e (outbox_rows w)\<rparr>))"
  by (simp add: pf_outbox_insert_def pending_entry_def store_simps bindE_def py_simps Let_def)

lemma pf_try_insert_eq [store_simps]:
  "pf_try_insert E spec w =
     (if \<not> in_txn w then (Inl (PersistenceTransactionError ''try_insert''), w)
      else case dict_get (idem_rows w) (iis_key spec) of
        Some x \<Rightarrow> (Inr \<lparr>iir_outcome = DUPLICATE, iir_record = Some x\<rparr>, w)
      | None \<Rightarrow> let r = \<lparr>id_key = iis_key spec, id_workflow_id = iis_workflow_id spec,
                   id_task_id = iis_task_id spec, id_completed_at = env_now E (ticks w),
                   id_result_artifact_id = iis_result_artifact_id spec\<rparr>
                in (Inr \<lparr>iir_outcome = INSERTED, iir_record = Some r\<rparr>,
                    w\<lparr>ticks := Suc (ticks w), idem_rows := dict_set (iis_key spec) r (idem_rows w)\<rparr>))"
  by (cases "dict_get (idem_rows w) (iis_key spec)")
     (simp_all add: pf_try_insert_def pf_get_by_key_def store_simps bindE_def py_simps Let_def)

lemma pf_mark_published_eq [store_simps]:
  "pf_mark_published oid t w =
     (case dict_get (outbox_rows w) oid of
        None \<Rightarrow> (Inl (PersistenceNotFoundError oid), w)
      | Some e \<Rightarrow> if ob_status e = OB_PUBLISHED then (Inr e, w)
                  else let u = e\<lparr>ob_status := OB_PUBLISHED, ob_published_at := Some t\<rparr>
                       in (Inr u, w\<lparr>outbox_rows := dict_set oid u (outbox_rows w)\<rparr>))"
  by (cases "dict_get (outbox_rows w) oid")
     (simp_all add: pf_mark_published_def store_simps bindE_def py_simps Let_def)

interpretation pf: workflow_store E "persistence_repos E" for E
proof unfold_locales
  fix w wid st fr rc v
  show "(\<exists>e. rp_update_workflow_state (persistence_repos E) wid v st fr rc w = (Inl e, w)) \<or>
      (\<exists>x. get_workflow wid w = Some x \<and> wf_version x = v \<and>
        rp_update_workflow_state (persistence_repos E) wid v st fr rc w
          = (Inr (advanced E w x st fr rc), put_workflow wid (advanced E w x st fr rc) w))"
    by (cases rc; cases "dict_get (wf_rows w) wid")
       (auto simp: persistence_repos_def store_simps get_workflow_def advanced_def put_defs Let_def)
qed (auto simp: persistence_repos_def store_simps get_workflow_def new_workflow_def advanced_def
       put_defs Let_def pf_is_in_transaction_def)

interpretation pf: atomic_store E "persistence_repos E" for E
  by unfold_locales
     (auto simp: persistence_repos_def pf_tx_enter_def pf_tx_exit_def pf_restore_def same_tables_def)

interpretation pf: task_store E "persistence_repos E" for E
  by unfold_locales
     (auto simp: persistence_repos_def store_simps get_task_def pf_get_task_payload_def Let_def bindE_def py_simps
       split: option.splits)

end
