(* ===== verification/Transition_Table.thy ===== *)
theory Transition_Table
  imports Domain_Types
begin

text \<open>
  The transition matrix of \<open>workflow/transition_table.py\<close>: the two decision records, the three
  tables, the lookup with its guards in the order of the code, and the stuck thresholds of
  \<open>workflow/constants.py\<close>.

  The abstract specification is the relation \<open>legal_step\<close>, the state diagram written rule by
  rule; \<open>lookup_refines\<close> shows that the table accepts exactly its steps.
\<close>

section \<open>Decisions\<close>

record transition_decision =
  td_from :: workflow_state
  td_to :: workflow_state
  td_signal :: transition_signal
  td_outbox_task_type :: "task_type option"
  td_increment_revision_count :: bool
  td_increment_logical_version :: bool
  td_set_failure_reason :: "string option"
  td_append_transition :: bool

record approval_decision =
  ad_action :: approval_action
  ad_from :: workflow_state
  ad_to :: workflow_state
  ad_outbox_task_type :: "task_type option"
  ad_increment_logical_version :: bool

record row_spec =
  rs_to :: workflow_state
  rs_outbox_task_type :: "task_type option"
  rs_increment_revision_count :: bool
  rs_increment_logical_version :: bool
  rs_set_failure_reason :: "string option"

text \<open>\<open>_RowSpec(to_state, outbox_task_type)\<close> with the remaining fields at their defaults.\<close>

abbreviation row :: "workflow_state \<Rightarrow> task_type option \<Rightarrow> row_spec" where
  "row to_state task \<equiv> \<lparr>rs_to = to_state, rs_outbox_task_type = task,
     rs_increment_revision_count = False, rs_increment_logical_version = False,
     rs_set_failure_reason = None\<rparr>"

section \<open>Tables\<close>

definition PRIMARY_MATRIX :: "((workflow_state \<times> transition_signal) \<times> row_spec) list" where
  "PRIMARY_MATRIX =
    [((COLLECTING, SIG_STAGE_COMPLETED), row COLLECTED (Some SELECT_TOPIC)),
     ((COLLECTED, SIG_STAGE_COMPLETED), row SELECTING_TOPIC None),
     ((SELECTING_TOPIC, SIG_STAGE_COMPLETED), row TOPIC_SELECTED (Some GENERATE_SCENARIO)),
     ((SELECTING_TOPIC, SIG_NO_SUITABLE_TOPIC), row NO_SUITABLE_TOPIC None),
     ((TOPIC_SELECTED, SIG_STAGE_COMPLETED), row GENERATING_SCENARIO None),
     ((GENERATING_SCENARIO, SIG_STAGE_COMPLETED), row SCENARIO_GENERATED (Some REVIEW_SCENARIO)),
     ((SCENARIO_GENERATED, SIG_STAGE_COMPLETED), row REVIEWING None),
     ((REVIEWING, SIG_CRITIC_PASS), row REVIEW_PASSED None),
     ((REVISION_REQUIRED, SIG_STAGE_COMPLETED),
        (row GENERATING_SCENARIO (Some GENERATE_SCENARIO))\<lparr>rs_increment_logical_version := True\<rparr>),
     ((REVIEW_PASSED, SIG_STAGE_COMPLETED), row AWAITING_HUMAN_APPROVAL None)]"

definition EXPECTED_OUTBOX_BY_STATE :: "(workflow_state \<times> task_type option) list" where
  "EXPECTED_OUTBOX_BY_STATE =
    [(COLLECTING, Some COLLECT), (COLLECTED, Some SELECT_TOPIC), (SELECTING_TOPIC, None),
     (TOPIC_SELECTED, Some GENERATE_SCENARIO), (GENERATING_SCENARIO, None),
     (SCENARIO_GENERATED, Some REVIEW_SCENARIO), (REVISION_REQUIRED, None),
     (AWAITING_HUMAN_APPROVAL, None), (APPROVED, None)]"

fun APPROVAL_MATRIX :: "approval_action \<Rightarrow> row_spec" where
  "APPROVAL_MATRIX APPROVE = row APPROVED None"
| "APPROVAL_MATRIX REJECT = row REJECTED None"
| "APPROVAL_MATRIX REQUEST_REGENERATION =
     (row GENERATING_SCENARIO (Some GENERATE_SCENARIO))\<lparr>rs_increment_logical_version := True\<rparr>"

section \<open>Lookups\<close>

text \<open>\<open>TransitionDecision(from_state, to_state, signal)\<close> with the remaining fields at their defaults.\<close>

definition decide :: "workflow_state \<Rightarrow> workflow_state \<Rightarrow> transition_signal \<Rightarrow> transition_decision" where
  "decide from_state to_state signal =
     \<lparr>td_from = from_state, td_to = to_state, td_signal = signal, td_outbox_task_type = None,
      td_increment_revision_count = False, td_increment_logical_version = False,
      td_set_failure_reason = None, td_append_transition = True\<rparr>"

definition decide_row ::
  "workflow_state \<Rightarrow> transition_signal \<Rightarrow> row_spec \<Rightarrow> transition_decision" where
  "decide_row from_state signal r =
     \<lparr>td_from = from_state, td_to = rs_to r, td_signal = signal,
      td_outbox_task_type = rs_outbox_task_type r,
      td_increment_revision_count = rs_increment_revision_count r,
      td_increment_logical_version = rs_increment_logical_version r,
      td_set_failure_reason = rs_set_failure_reason r, td_append_transition = True\<rparr>"

definition lookup ::
  "workflow_state \<Rightarrow> transition_signal \<Rightarrow> int \<Rightarrow> int \<Rightarrow> exn + transition_decision"
where
  "lookup current_state signal revision_count max_revisions =
    (if current_state \<in> TERMINAL_STATES
     then Inl (InvalidTransitionError '''' current_state signal)
     else if current_state \<in> PAUSE_STATES
     then Inl (InvalidTransitionError '''' current_state signal)
     else if current_state = REVIEWING \<and> signal = SIG_CRITIC_REVISE then
       (if revision_count \<ge> max_revisions
        then Inr ((decide current_state REVIEW_FAILED signal)
                    \<lparr>td_set_failure_reason := Some ''max_scenario_revisions_exceeded''\<rparr>)
        else Inr ((decide current_state REVISION_REQUIRED signal)
                    \<lparr>td_increment_revision_count := True\<rparr>))
     else (case map_of PRIMARY_MATRIX (current_state, signal) of
        Some r \<Rightarrow> Inr (decide_row current_state signal r)
      | None \<Rightarrow>
          if signal = SIG_UNRECOVERABLE_ERROR \<and> current_state \<in> set TRANSIENT_STATES
          then Inr (decide current_state FAILED signal)
          else if signal = SIG_RETRIES_EXHAUSTED \<and> current_state \<in> set TRANSIENT_STATES
          then Inr (decide current_state FAILED_PERMANENTLY signal)
          else if signal = SIG_RECONCILIATION_REPAIR \<and> current_state \<in> set TRANSIENT_STATES
          then Inr ((decide current_state FAILED signal)
                      \<lparr>td_set_failure_reason := Some ''stuck_state_timeout''\<rparr>)
          else Inl (InvalidTransitionError '''' current_state signal)))"

definition lookup_approval :: "approval_action \<Rightarrow> approval_decision" where
  "lookup_approval action =
     (let r = APPROVAL_MATRIX action in
      \<lparr>ad_action = action, ad_from = AWAITING_HUMAN_APPROVAL, ad_to = rs_to r,
       ad_outbox_task_type = rs_outbox_task_type r,
       ad_increment_logical_version = rs_increment_logical_version r\<rparr>)"

definition is_terminal :: "workflow_state \<Rightarrow> bool" where
  "is_terminal s \<longleftrightarrow> s \<in> TERMINAL_STATES"

definition is_pause :: "workflow_state \<Rightarrow> bool" where
  "is_pause s \<longleftrightarrow> s \<in> PAUSE_STATES"

definition expected_outbox_task :: "workflow_state \<Rightarrow> task_type option" where
  "expected_outbox_task s =
     (case map_of EXPECTED_OUTBOX_BY_STATE s of None \<Rightarrow> None | Some t \<Rightarrow> t)"

section \<open>Stuck thresholds\<close>

text \<open>A threshold in microseconds; \<open>None\<close> is the infinite threshold of the code.\<close>

definition STUCK_THRESHOLD_SHORT_STATES :: "workflow_state set" where
  "STUCK_THRESHOLD_SHORT_STATES = {COLLECTING, SELECTING_TOPIC, GENERATING_SCENARIO, REVIEWING}"

definition stuck_threshold :: "workflow_state \<Rightarrow> microseconds option" where
  "stuck_threshold s =
     (if s \<in> STUCK_THRESHOLD_SHORT_STATES then Some (30 * 60 * 1000000)
      else if s \<in> set TRANSIENT_STATES then Some (60 * 60 * 1000000)
      else None)"

section \<open>Specification: the state diagram\<close>

text \<open>
  \<open>legal_step c m s g s'\<close>: with \<open>c\<close> revisions used of \<open>m\<close>, the signal \<open>g\<close> may take a
  workflow from \<open>s\<close> to \<open>s'\<close>.
\<close>

inductive legal_step :: "int \<Rightarrow> int \<Rightarrow> workflow_state \<Rightarrow> transition_signal \<Rightarrow> workflow_state \<Rightarrow> bool"
  for c m :: int
where
  collected: "legal_step c m COLLECTING SIG_STAGE_COMPLETED COLLECTED"
| select: "legal_step c m COLLECTED SIG_STAGE_COMPLETED SELECTING_TOPIC"
| selected: "legal_step c m SELECTING_TOPIC SIG_STAGE_COMPLETED TOPIC_SELECTED"
| no_topic: "legal_step c m SELECTING_TOPIC SIG_NO_SUITABLE_TOPIC NO_SUITABLE_TOPIC"
| generate: "legal_step c m TOPIC_SELECTED SIG_STAGE_COMPLETED GENERATING_SCENARIO"
| generated: "legal_step c m GENERATING_SCENARIO SIG_STAGE_COMPLETED SCENARIO_GENERATED"
| review: "legal_step c m SCENARIO_GENERATED SIG_STAGE_COMPLETED REVIEWING"
| passed: "legal_step c m REVIEWING SIG_CRITIC_PASS REVIEW_PASSED"
| revise: "c < m \<Longrightarrow> legal_step c m REVIEWING SIG_CRITIC_REVISE REVISION_REQUIRED"
| exceeded: "m \<le> c \<Longrightarrow> legal_step c m REVIEWING SIG_CRITIC_REVISE REVIEW_FAILED"
| regenerate: "legal_step c m REVISION_REQUIRED SIG_STAGE_COMPLETED GENERATING_SCENARIO"
| await: "legal_step c m REVIEW_PASSED SIG_STAGE_COMPLETED AWAITING_HUMAN_APPROVAL"
| failure: "s \<notin> TERMINAL_STATES \<Longrightarrow> s \<noteq> AWAITING_HUMAN_APPROVAL \<Longrightarrow>
    legal_step c m s SIG_UNRECOVERABLE_ERROR FAILED"
| exhausted: "s \<notin> TERMINAL_STATES \<Longrightarrow> s \<noteq> AWAITING_HUMAN_APPROVAL \<Longrightarrow>
    legal_step c m s SIG_RETRIES_EXHAUSTED FAILED_PERMANENTLY"
| repair: "s \<notin> TERMINAL_STATES \<Longrightarrow> s \<noteq> AWAITING_HUMAN_APPROVAL \<Longrightarrow>
    legal_step c m s SIG_RECONCILIATION_REPAIR FAILED"

inductive_cases legal_step_E: "legal_step c m s g s'"

lemmas table_defs = lookup_def PRIMARY_MATRIX_def decide_def decide_row_def state_set_defs

section \<open>Properties of the table\<close>

lemma lookup_Inr_to:
  "(\<exists>d. lookup s g c m = Inr d \<and> td_to d = s') \<longleftrightarrow> legal_step c m s g s'"
proof
  show "\<exists>d. lookup s g c m = Inr d \<and> td_to d = s' \<Longrightarrow> legal_step c m s g s'"
    by (cases s; cases g) (auto simp: table_defs intro: legal_step.intros split: if_splits)
  show "legal_step c m s g s' \<Longrightarrow> \<exists>d. lookup s g c m = Inr d \<and> td_to d = s'"
    by (erule legal_step_E) (auto simp: table_defs)
qed

end
