(* ===== verification/Outbox_Builder.thy ===== *)
theory Outbox_Builder
  imports Persistence_Fakes Transition_Table
begin

text \<open>
  \<open>workflow/ids.py\<close>, \<open>workflow/records.py\<close> and \<open>workflow/outbox_builder.py\<close>: allocation of
  workflow identifiers, conversion of rows to domain values, logical versions, idempotency keys and
  the task, payload and outbox rows of one dispatch.
\<close>

section \<open>Identifiers\<close>

text \<open>\<open>str.isspace\<close> on code points below 256, and \<open>str.strip()\<close>.\<close>

definition is_space :: "char \<Rightarrow> bool" where
  "is_space c \<longleftrightarrow> of_char c \<in> ({9, 10, 11, 12, 13, 28, 29, 30, 31, 32, 133, 160} :: nat set)"

definition strip :: "string \<Rightarrow> string" where
  "strip s = rev (dropWhile is_space (rev (dropWhile is_space s)))"

definition allocate :: "env \<Rightarrow> initiate_workflow_request option \<Rightarrow> (world, string) prog" where
  "allocate E request =
     (case request of
        None \<Rightarrow> new_uuid E
      | Some r \<Rightarrow>
          (case iwr_workflow_id r of
             None \<Rightarrow> new_uuid E
           | Some requested \<Rightarrow>
               let wid = strip requested in
               if wid = '''' then raise ValueError else ret wid))"

definition validate_no_duplicate :: "string \<Rightarrow> (world, unit) prog" where
  "validate_no_duplicate wid =
     bindE (gets (get_workflow wid)) (\<lambda>row.
     if row \<noteq> None then raise (WorkflowConflictError wid) else ret ())"

section \<open>Rows to domain values\<close>

definition to_domain_workflow_state :: "string \<Rightarrow> (world, workflow_state) prog" where
  "to_domain_workflow_state token =
     (case workflow_state_of token of None \<Rightarrow> raise ValueError | Some s \<Rightarrow> ret s)"

definition to_domain_task_type :: "string \<Rightarrow> (world, task_type) prog" where
  "to_domain_task_type token =
     (case task_type_of token of None \<Rightarrow> raise ValueError | Some t \<Rightarrow> ret t)"

definition to_domain_transition :: "workflow_transition_record \<Rightarrow> (world, transition_record) prog" where
  "to_domain_transition r =
     bindE (to_domain_workflow_state (state_value (tr_from r))) (\<lambda>from_state.
     bindE (to_domain_workflow_state (state_value (tr_to r))) (\<lambda>to_state.
     ret \<lparr>tr_id = tr_id r, tr_workflow_id = tr_workflow_id r, tr_from = from_state,
          tr_to = to_state, tr_reason = tr_reason r, tr_occurred_at = tr_occurred_at r,
          tr_actor = tr_actor r\<rparr>))"

section \<open>Logical versions and idempotency keys\<close>

definition resolve_for_task :: "string \<Rightarrow> task_type \<Rightarrow> bool \<Rightarrow> world \<Rightarrow> int" where
  "resolve_for_task wid task increment w =
     (if task \<in> {COLLECT, SELECT_TOPIC} then 1
      else
        let current = (case get_active_artifact wid SCENARIO w of
                         None \<Rightarrow> 0 | Some a \<Rightarrow> ar_logical_version a);
            base = max current 1
        in if increment then base + 1 else base)"

definition format_idempotency_key :: "string \<Rightarrow> task_type \<Rightarrow> int \<Rightarrow> string" where
  "format_idempotency_key wid task logical_version =
     wid @ '':'' @ task_type_value task @ '':'' @ show_int logical_version"

definition payload_for_task_type :: "task_type \<Rightarrow> int \<Rightarrow> json" where
  "payload_for_task_type task logical_version =
     (if task \<in> {COLLECT, SELECT_TOPIC} then JObj []
      else JObj [(''logical_version'', JInt logical_version)])"

section \<open>Dispatch rows\<close>

record outbox_build_result =
  obr_task_spec :: outbox_task_spec
  obr_task_record :: task_record
  obr_outbox_insert :: outbox_insert_spec
  obr_payload_json :: json

definition build :: "env \<Rightarrow> workflow_record \<Rightarrow> task_type \<Rightarrow> int \<Rightarrow> int \<Rightarrow> (world, outbox_build_result) prog" where
  "build E workflow task logical_version attempt =
     bindE (utc_now E) (\<lambda>now.
     bindE (new_uuid E) (\<lambda>tid.
     let payload_json = payload_for_task_type task logical_version;
         payload_ref = \<lparr>ref_id = tid, ref_kind = TASK_PAYLOAD_REF_KIND\<rparr>;
         key = format_idempotency_key (wf_id workflow) task logical_version in
     ret \<lparr>obr_task_spec =
            \<lparr>ots_task_id = tid, ots_workflow_id = wf_id workflow, ots_task_type = task,
             ots_attempt = attempt, ots_payload_reference = tid, ots_idempotency_key = key,
             ots_created_at = now\<rparr>,
          obr_task_record =
            \<lparr>tk_id = tid, tk_workflow_id = wf_id workflow, tk_type = task, tk_attempt = attempt,
             tk_status = TS_PENDING, tk_payload_reference = payload_ref, tk_idempotency_key = key,
             tk_created_at = now, tk_updated_at = now, tk_completed_at = None,
             tk_failure_reason = None\<rparr>,
          obr_outbox_insert =
            \<lparr>ois_workflow_id = wf_id workflow, ois_task_id = tid, ois_task_type = task,
             ois_payload_reference = payload_ref, ois_idempotency_key = key\<rparr>,
          obr_payload_json = payload_json\<rparr>))"

text \<open>The decision is given by its outbox task type and its increment flag.\<close>

definition build_for_decision ::
  "env \<Rightarrow> workflow_record \<Rightarrow> task_type option \<Rightarrow> bool \<Rightarrow> (world, outbox_build_result option) prog"
where
  "build_for_decision E workflow outbox_task_type increment =
     (case outbox_task_type of
        None \<Rightarrow> ret None
      | Some task \<Rightarrow>
          bindE (gets (resolve_for_task (wf_id workflow) task increment)) (\<lambda>logical_version.
          bindE (build E workflow task logical_version 1) (\<lambda>b. ret (Some b))))"

section \<open>Lemmas\<close>

lemma to_domain_workflow_state_value [simp]: "to_domain_workflow_state (state_value s) = ret s"
  by (simp add: to_domain_workflow_state_def)

lemma to_domain_transition_id [simp]: "to_domain_transition r = ret r"
  by (cases r) (simp add: to_domain_transition_def)

text \<open>The rows of one dispatch agree with each other.\<close>

definition dispatch_ok :: "workflow_record \<Rightarrow> task_type \<Rightarrow> int \<Rightarrow> int \<Rightarrow> outbox_build_result \<Rightarrow> bool" where
  "dispatch_ok workflow task lv attempt b \<longleftrightarrow>
     tk_workflow_id (obr_task_record b) = wf_id workflow
     \<and> tk_type (obr_task_record b) = task \<and> tk_attempt (obr_task_record b) = attempt
     \<and> tk_status (obr_task_record b) = TS_PENDING
     \<and> tk_payload_reference (obr_task_record b)
         = \<lparr>ref_id = tk_id (obr_task_record b), ref_kind = TASK_PAYLOAD_REF_KIND\<rparr>
     \<and> tk_idempotency_key (obr_task_record b) = format_idempotency_key (wf_id workflow) task lv
     \<and> obr_outbox_insert b =
         \<lparr>ois_workflow_id = wf_id workflow, ois_task_id = tk_id (obr_task_record b),
          ois_task_type = task, ois_payload_reference = tk_payload_reference (obr_task_record b),
          ois_idempotency_key = tk_idempotency_key (obr_task_record b)\<rparr>
     \<and> ots_task_id (obr_task_spec b) = tk_id (obr_task_record b)
     \<and> ots_task_type (obr_task_spec b) = task
     \<and> ots_workflow_id (obr_task_spec b) = wf_id workflow
     \<and> ots_idempotency_key (obr_task_spec b) = tk_idempotency_key (obr_task_record b)
     \<and> obr_payload_json b = payload_for_task_type task lv"

lemma build_eq:
  "\<exists>b. build E x task lv att w = (Inr b, w\<lparr>ticks := Suc (Suc (ticks w))\<rparr>)
       \<and> dispatch_ok x task lv att b \<and> tk_id (obr_task_record b) = env_uuid E (Suc (ticks w))"
  by (simp add: build_def bindE_def py_simps Let_def dispatch_ok_def)

lemma build_for_decision_None [simp]: "build_for_decision E x None inc w = (Inr None, w)"
  by (simp add: build_for_decision_def py_simps)

lemma build_for_decision_Some:
  "\<exists>b. build_for_decision E x (Some task) inc w = (Inr (Some b), w\<lparr>ticks := Suc (Suc (ticks w))\<rparr>)
       \<and> dispatch_ok x task (resolve_for_task (wf_id x) task inc w) 1 b
       \<and> tk_id (obr_task_record b) = env_uuid E (Suc (ticks w))"
proof -
  let ?lv = "resolve_for_task (wf_id x) task inc w"
  obtain b where "build E x task ?lv 1 w = (Inr b, w\<lparr>ticks := Suc (Suc (ticks w))\<rparr>)"
    and "dispatch_ok x task ?lv 1 b" and "tk_id (obr_task_record b) = env_uuid E (Suc (ticks w))"
    using build_eq by blast
  then show ?thesis by (simp add: build_for_decision_def py_simps)
qed

lemma resolve_for_task_pos: "1 \<le> resolve_for_task wid task inc w"
  by (auto simp: resolve_for_task_def Let_def)

lemma format_idempotency_key_inject:
  "format_idempotency_key w1 t1 v1 = format_idempotency_key w2 t2 v2 \<longleftrightarrow>
     w1 = w2 \<and> t1 = t2 \<and> v1 = v2"
proof
  assume "format_idempotency_key w1 t1 v1 = format_idempotency_key w2 t2 v2"
  then have "(w1 @ '':'' @ task_type_value t1) @ CHR '':'' # show_int v1
           = (w2 @ '':'' @ task_type_value t2) @ CHR '':'' # show_int v2"
    by (simp add: format_idempotency_key_def)
  from append_sep_inject [OF show_int_no_colon show_int_no_colon this]
  have "w1 @ CHR '':'' # task_type_value t1 = w2 @ CHR '':'' # task_type_value t2"
    and v: "show_int v1 = show_int v2" by simp_all
  from append_sep_inject [OF task_type_value_no_colon task_type_value_no_colon this(1)] v
  show "w1 = w2 \<and> t1 = t2 \<and> v1 = v2" by simp
qed simp

end
