(* ===== verification/Workflow_Fakes.thy ===== *)
theory Workflow_Fakes
  imports Persistence_Fakes
begin

text \<open>
  The in-memory repositories of \<open>workflow/fakes/\<close>, with the extensions the reconciliation scanner
  and the read models look for by name. They differ from those of \<open>persistence/fakes/\<close>: no
  operation asks for a transaction, the state update takes a revision count, and the transaction
  manager nests and never rolls back. The repositories start without the seeded test fixtures.

  \<open>workflow_repos\<close> wires them for the engine.
\<close>

section \<open>Transaction manager\<close>

definition wk_tx_enter :: "(world, unit) prog" where
  "wk_tx_enter w = (Inr (), w\<lparr>txn_depth := Suc (txn_depth w), in_txn := True\<rparr>)"

definition wk_tx_exit :: "world \<Rightarrow> bool \<Rightarrow> world \<Rightarrow> world" where
  "wk_tx_exit w0 raised w =
     (let w1 = w\<lparr>txn_depth := txn_depth w0\<rparr> in
      if txn_depth w0 = 0 then w1\<lparr>in_txn := in_txn w0\<rparr> else w1)"

definition wk_is_in_transaction :: "world \<Rightarrow> bool" where
  "wk_is_in_transaction w = in_txn w"

section \<open>Workflow repository\<close>

definition wk_create_workflow :: "env \<Rightarrow> string \<Rightarrow> workflow_state \<Rightarrow> (world, workflow_record) prog" where
  "wk_create_workflow E wid initial_state =
     bindE (utc_now E) (\<lambda>now.
     let record = \<lparr>wf_id = wid, wf_state = initial_state, wf_version = 1, wf_created_at = now,
           wf_updated_at = now, wf_revision_count = 0, wf_failure_reason = None\<rparr> in
     bindE (modifyE (\<lambda>w. w\<lparr>wf_rows := dict_set wid record (wf_rows w)\<rparr>)) (\<lambda>_.
     ret record))"

definition wk_update_workflow_state ::
  "env \<Rightarrow> string \<Rightarrow> int \<Rightarrow> workflow_state \<Rightarrow> string option \<Rightarrow> int option \<Rightarrow> (world, workflow_record) prog"
where
  "wk_update_workflow_state E wid expected_version new_state failure_reason revision_count =
     bindE (gets (get_workflow wid)) (\<lambda>row.
     case row of
       None \<Rightarrow> raise (PersistenceNotFoundError wid)
     | Some existing \<Rightarrow>
         if wf_version existing \<noteq> expected_version then raise (PersistenceConflictError wid)
         else
           bindE (utc_now E) (\<lambda>now.
           let updated = \<lparr>wf_id = wf_id existing, wf_state = new_state,
                 wf_version = wf_version existing + 1, wf_created_at = wf_created_at existing,
                 wf_updated_at = now,
                 wf_revision_count =
                   (case revision_count of None \<Rightarrow> wf_revision_count existing | Some c \<Rightarrow> c),
                 wf_failure_reason = failure_reason\<rparr> in
           bindE (modifyE (\<lambda>w. w\<lparr>wf_rows := dict_set wid updated (wf_rows w)\<rparr>)) (\<lambda>_.
           ret updated)))"

definition wk_append_transition ::
  "workflow_transition_record \<Rightarrow> (world, workflow_transition_record) prog"
where
  "wk_append_transition transition =
     bindE (modifyE (\<lambda>w. w\<lparr>tr_rows := tr_rows w @ [transition]\<rparr>)) (\<lambda>_. ret transition)"

definition wk_create_task :: "task_record \<Rightarrow> json option \<Rightarrow> (world, task_record) prog" where
  "wk_create_task task payload =
     (let payload_body = (case payload of None \<Rightarrow> JObj [] | Some p \<Rightarrow> p) in
      bindE (modifyE (\<lambda>w. w\<lparr>payload_rows :=
               dict_set (ref_id (tk_payload_reference task)) payload_body (payload_rows w)\<rparr>)) (\<lambda>_.
      bindE (modifyE (\<lambda>w. w\<lparr>task_rows := dict_set (tk_id task) task (task_rows w)\<rparr>)) (\<lambda>_.
      ret task)))"

definition wk_update_task ::
  "env \<Rightarrow> string \<Rightarrow> task_status \<Rightarrow> int option \<Rightarrow> string option \<Rightarrow> datetime option \<Rightarrow> (world, task_record) prog"
where
  "wk_update_task E tid status attempt failure_reason completed_at =
     bindE (gets (get_task tid)) (\<lambda>row.
     case row of
       None \<Rightarrow> raise (PersistenceNotFoundError tid)
     | Some existing \<Rightarrow>
         bindE (utc_now E) (\<lambda>now.
         let updated = merge_task existing now status attempt failure_reason completed_at in
         bindE (modifyE (\<lambda>w. w\<lparr>task_rows := dict_set tid updated (task_rows w)\<rparr>)) (\<lambda>_.
         ret updated)))"

definition wk_get_task_payload :: "payload_reference \<Rightarrow> (world, json) prog" where
  "wk_get_task_payload reference =
     bindE (gets (\<lambda>w. dict_get (payload_rows w) (ref_id reference))) (\<lambda>row.
     case row of None \<Rightarrow> raise (PersistenceNotFoundError (ref_id reference)) | Some p \<Rightarrow> ret p)"

definition wk_list_tasks_for_workflow :: "string \<Rightarrow> world \<Rightarrow> task_record list" where
  "wk_list_tasks_for_workflow wid w =
     sort_key tk_created_at (filter (\<lambda>t. tk_workflow_id t = wid) (dict_values (task_rows w)))"

definition wk_list_workflows_for_reconciliation ::
  "workflow_state list \<Rightarrow> datetime option \<Rightarrow> int \<Rightarrow> world \<Rightarrow> workflow_record list"
where
  "wk_list_workflows_for_reconciliation states updated_before limit w =
     slice_to limit (sort_key wf_updated_at
       (filter (\<lambda>r. wf_state r \<in> set states \<and> wf_state r \<notin> TERMINAL_STATES
                  \<and> (case updated_before of None \<Rightarrow> True | Some b \<Rightarrow> wf_updated_at r < b))
          (dict_values (wf_rows w))))"

section \<open>Outbox repository\<close>

definition wk_outbox_insert :: "env \<Rightarrow> outbox_insert_spec \<Rightarrow> (world, outbox_entry) prog" where
  "wk_outbox_insert E spec =
     bindE (new_uuid E) (\<lambda>oid.
     bindE (utc_now E) (\<lambda>now.
     let entry = \<lparr>ob_id = oid, ob_workflow_id = ois_workflow_id spec, ob_task_id = ois_task_id spec,
           ob_task_type = ois_task_type spec, ob_payload_reference = ois_payload_reference spec,
           ob_idempotency_key = ois_idempotency_key spec, ob_status = OB_PENDING,
           ob_created_at = now, ob_published_at = None\<rparr> in
     bindE (modifyE (\<lambda>w. w\<lparr>outbox_rows := dict_set oid entry (outbox_rows w)\<rparr>)) (\<lambda>_.
     ret entry)))"

text \<open>A second call on a published entry overwrites its publication instant.\<close>

definition wk_mark_published :: "string \<Rightarrow> datetime \<Rightarrow> (world, outbox_entry) prog" where
  "wk_mark_published oid published_at =
     bindE (gets (\<lambda>w. dict_get (outbox_rows w) oid)) (\<lambda>row.
     case row of
       None \<Rightarrow> raise (PersistenceNotFoundError oid)
     | Some existing \<Rightarrow>
         let updated = existing\<lparr>ob_status := OB_PUBLISHED, ob_published_at := Some published_at\<rparr> in
         bindE (modifyE (\<lambda>w. w\<lparr>outbox_rows := dict_set oid updated (outbox_rows w)\<rparr>)) (\<lambda>_.
         ret updated))"

definition wk_list_unpublished_outbox_for_workflow :: "string \<Rightarrow> world \<Rightarrow> outbox_entry list" where
  "wk_list_unpublished_outbox_for_workflow wid w =
     filter (\<lambda>e. ob_workflow_id e = wid \<and> ob_status e = OB_PENDING) (dict_values (outbox_rows w))"

section \<open>Artifact repository\<close>

text \<open>No transaction and no version check; an active artifact deactivates the others of its slot.\<close>

definition wk_create_artifact :: "env \<Rightarrow> artifact_create_spec \<Rightarrow> (world, artifact_record) prog" where
  "wk_create_artifact E spec =
     bindE (new_uuid E) (\<lambda>aid.
     bindE (utc_now E) (\<lambda>now.
     bindE (whenE (acs_is_active spec)
              (modifyE (\<lambda>w. w\<lparr>art_rows := deactivate_slot spec (art_rows w)\<rparr>))) (\<lambda>_.
     let record = new_artifact aid now spec in
     bindE (modifyE (\<lambda>w. w\<lparr>art_rows := dict_set aid record (art_rows w)\<rparr>)) (\<lambda>_.
     bindE (modifyE (\<lambda>w. w\<lparr>content_rows := dict_set aid (acs_content spec) (content_rows w)\<rparr>)) (\<lambda>_.
     ret record)))))"

section \<open>Wiring\<close>

definition workflow_repos :: "env \<Rightarrow> repos" where
  "workflow_repos E =
     \<lparr>rp_create_workflow = wk_create_workflow E,
      rp_update_workflow_state = wk_update_workflow_state E,
      rp_append_transition = wk_append_transition,
      rp_create_task = wk_create_task,
      rp_update_task = wk_update_task E,
      rp_get_task_payload = wk_get_task_payload,
      rp_outbox_insert = wk_outbox_insert E,
      rp_list_tasks_for_workflow = Some wk_list_tasks_for_workflow,
      rp_list_workflows_for_reconciliation = Some wk_list_workflows_for_reconciliation,
      rp_list_unpublished_outbox_for_workflow = Some wk_list_unpublished_outbox_for_workflow,
      rp_is_in_transaction = wk_is_in_transaction,
      rp_tx_enter = wk_tx_enter,
      rp_tx_exit = wk_tx_exit\<rparr>"

section \<open>Effects of the operations\<close>

lemma wk_create_workflow_eq [store_simps]:
  "wk_create_workflow E wid st w = pf_create_workflow E wid st w"
  by (simp add: wk_create_workflow_def pf_create_workflow_def)

lemma wk_update_workflow_state_eq [store_simps]:
  "wk_update_workflow_state E wid v st fr rc w =
     (case dict_get (wf_rows w) wid of
        None \<Rightarrow> (Inl (PersistenceNotFoundError wid), w)
      | Some x \<Rightarrow>
          if wf_version x \<noteq> v then (Inl (PersistenceConflictError wid), w)
          else let u = x\<lparr>wf_state := st, wf_version := wf_version x + 1,
                         wf_updated_at := env_now E (ticks w),
                         wf_revision_count :=
                           (case rc of None \<Rightarrow> wf_revision_count x | Some c \<Rightarrow> c),
                         wf_failure_reason := fr\<rparr>
               in (Inr u, w\<lparr>ticks := Suc (ticks w), wf_rows := dict_set wid u (wf_rows w)\<rparr>))"
  by (cases "dict_get (wf_rows w) wid")
     (simp_all add: wk_update_workflow_state_def get_workflow_def Let_def bindE_def py_simps
        workflow_record_update_eq)

lemma wk_append_transition_eq [store_simps]:
  "wk_append_transition t w = (Inr t, w\<lparr>tr_rows := tr_rows w @ [t]\<rparr>)"
  by (simp add: wk_append_transition_def bindE_def py_simps)

lemma wk_create_task_eq [store_simps]:
  "wk_create_task t p w =
     (Inr t, w\<lparr>payload_rows := dict_set (ref_id (tk_payload_reference t))
                  (case p of None \<Rightarrow> JObj [] | Some x \<Rightarrow> x) (payload_rows w),
               task_rows := dict_set (tk_id t) t (task_rows w)\<rparr>)"
  by (simp add: wk_create_task_def bindE_def py_simps Let_def)

lemma wk_update_task_eq [store_simps]:
  "wk_update_task E tid st att fr ca w =
     (case dict_get (task_rows w) tid of
        None \<Rightarrow> (Inl (PersistenceNotFoundError tid), w)
      | Some x \<Rightarrow> let u = merge_task x (env_now E (ticks w)) st att fr ca
                  in (Inr u, w\<lparr>ticks := Suc (ticks w), task_rows := dict_set tid u (task_rows w)\<rparr>))"
  by (cases "dict_get (task_rows w) tid")
     (simp_all add: wk_update_task_def get_task_def bindE_def py_simps Let_def)

lemma wk_outbox_insert_eq [store_simps]:
  "wk_outbox_insert E spec w =
     (let oid = env_uuid E (ticks w); e = pending_entry oid (env_now E (Suc (ticks w))) spec
      in (Inr e, w\<lparr>ticks := Suc (Suc (ticks w)), outbox_rows := dict_set oid e (outbox_rows w)\<rparr>))"
  by (simp add: wk_outbox_insert_def pending_entry_def bindE_def py_simps Let_def)

interpretation wk: revision_store E "workflow_repos E" for E
proof unfold_locales
  fix w wid st fr rc v
  show "(\<exists>e. rp_update_workflow_state (workflow_repos E) wid v st fr rc w = (Inl e, w)) \<or>
      (\<exists>x. get_workflow wid w = Some x \<and> wf_version x = v \<and>
        rp_update_workflow_state (workflow_repos E) wid v st fr rc w
          = (Inr (advanced E w x st fr rc), put_workflow wid (advanced E w x st fr rc) w))"
    by (cases "dict_get (wf_rows w) wid")
       (auto simp: workflow_repos_def store_simps get_workflow_def advanced_def put_defs Let_def)
qed (auto simp: workflow_repos_def store_simps get_workflow_def new_workflow_def advanced_def
       put_defs Let_def wk_is_in_transaction_def)

interpretation wk: transaction_store E "workflow_repos E" for E
  by unfold_locales
     (auto simp: workflow_repos_def wk_tx_enter_def wk_tx_exit_def Let_def same_tables_def)

interpretation wk: task_store E "workflow_repos E" for E
  by unfold_locales
     (auto simp: workflow_repos_def store_simps get_task_def wk_get_task_payload_def Let_def bindE_def py_simps
       split: option.splits)

end
