(* ===== verification/Executor.thy ===== *)
theory Executor
  imports Outbox_Builder Workflow_Fakes
begin

text \<open>
  \<open>workflow/executor.py\<close>: the write sequences of a transition, an approval, an initiation and a
  repair. Each is one optimistic state update, one history row and, when a task is dispatched, one
  task row with its payload and one outbox row. The lemmas give the exact state a sequence leaves,
  over any repositories that satisfy the contract \<open>workflow_store\<close>.
\<close>

section \<open>Operations\<close>

text \<open>The two \<open>except\<close> clauses around the state update.\<close>

definition map_update_error :: "string \<Rightarrow> exn \<Rightarrow> (world, 'a) prog" where
  "map_update_error wid e =
     (case e of
        PersistenceConflictError _ \<Rightarrow> raise (WorkflowConflictError wid)
      | PersistenceNotFoundError _ \<Rightarrow> raise (WorkflowNotFoundError wid)
      | _ \<Rightarrow> raise e)"

definition execute_transition ::
  "repos \<Rightarrow> workflow_record \<Rightarrow> transition_decision \<Rightarrow> workflow_transition_record \<Rightarrow>
   outbox_build_result option \<Rightarrow> int option \<Rightarrow> (world, workflow_record \<times> transition_result) prog"
where
  "execute_transition R workflow decision transition outbox revision_count =
     bindE (catchE (rp_update_workflow_state R (wf_id workflow) (wf_version workflow) (td_to decision)
                      (td_set_failure_reason decision) revision_count)
              (map_update_error (wf_id workflow))) (\<lambda>updated.
     bindE (rp_append_transition R transition) (\<lambda>persisted_transition.
     bindE (case outbox of
              None \<Rightarrow> ret (False, None)
            | Some b \<Rightarrow>
                bindE (rp_create_task R (obr_task_record b) (Some (obr_payload_json b))) (\<lambda>_.
                bindE (rp_outbox_insert R (obr_outbox_insert b)) (\<lambda>_.
                ret (True, Some (obr_task_spec b))))) (\<lambda>(outbox_written, enqueued_task).
     bindE (to_domain_transition persisted_transition) (\<lambda>domain_transition.
     ret (updated,
          \<lparr>trs_workflow_id = wf_id workflow, trs_from = td_from decision, trs_to = td_to decision,
           trs_version = wf_version updated, trs_transition_id = tr_id persisted_transition,
           trs_transition = domain_transition, trs_outbox_written = outbox_written,
           trs_enqueued_task = enqueued_task\<rparr>)))))"

definition execute_approval ::
  "repos \<Rightarrow> workflow_record \<Rightarrow> approval_decision \<Rightarrow> workflow_transition_record \<Rightarrow>
   outbox_build_result option \<Rightarrow> (world, workflow_record \<times> approval_action_result) prog"
where
  "execute_approval R workflow decision transition outbox =
     bindE (catchE (rp_update_workflow_state R (wf_id workflow) (wf_version workflow) (ad_to decision)
                      None None)
              (map_update_error (wf_id workflow))) (\<lambda>updated.
     bindE (rp_append_transition R transition) (\<lambda>persisted_transition.
     bindE (case outbox of
              None \<Rightarrow> ret None
            | Some b \<Rightarrow>
                bindE (rp_create_task R (obr_task_record b) (Some (obr_payload_json b))) (\<lambda>_.
                bindE (rp_outbox_insert R (obr_outbox_insert b)) (\<lambda>_.
                ret (Some (obr_task_spec b))))) (\<lambda>enqueued_task.
     bindE (to_domain_transition persisted_transition) (\<lambda>domain_transition.
     ret (updated,
          \<lparr>aar_workflow_id = wf_id workflow, aar_action = ad_action decision,
           aar_from = ad_from decision, aar_to = ad_to decision, aar_version = wf_version updated,
           aar_transition_id = tr_id persisted_transition, aar_transition = domain_transition,
           aar_enqueued_task = enqueued_task\<rparr>)))))"

definition execute_initiate ::
  "repos \<Rightarrow> workflow_record \<Rightarrow> workflow_transition_record \<Rightarrow> outbox_build_result \<Rightarrow>
   (world, initiate_workflow_result) prog"
where
  "execute_initiate R workflow collecting_transition b =
     bindE (catchE (rp_update_workflow_state R (wf_id workflow) (wf_version workflow) COLLECTING
                      None None)
              (map_update_error (wf_id workflow))) (\<lambda>updated.
     bindE (rp_append_transition R collecting_transition) (\<lambda>persisted_transition.
     bindE (rp_create_task R (obr_task_record b) (Some (obr_payload_json b))) (\<lambda>_.
     bindE (rp_outbox_insert R (obr_outbox_insert b)) (\<lambda>_.
     bindE (to_domain_transition persisted_transition) (\<lambda>domain_transition.
     ret \<lparr>iws_workflow_id = wf_id workflow, iws_state = COLLECTING,
          iws_version = wf_version updated, iws_transition = domain_transition,
          iws_enqueued_task = obr_task_spec b\<rparr>)))))"

definition recreate_expected_outbox ::
  "env \<Rightarrow> repos \<Rightarrow> workflow_record \<Rightarrow> task_type \<Rightarrow> int \<Rightarrow> (world, outbox_build_result) prog"
where
  "recreate_expected_outbox E R workflow task attempt =
     bindE (gets (resolve_for_task (wf_id workflow) task (task = GENERATE_SCENARIO))) (\<lambda>logical_version.
     bindE (build E workflow task logical_version attempt) (\<lambda>b.
     bindE (rp_create_task R (obr_task_record b) (Some (obr_payload_json b))) (\<lambda>_.
     bindE (rp_outbox_insert R (obr_outbox_insert b)) (\<lambda>_.
     ret b))))"

section \<open>The state a write sequence leaves\<close>

definition put_dispatch :: "env \<Rightarrow> outbox_build_result \<Rightarrow> world \<Rightarrow> world" where
  "put_dispatch E b w =
     put_outbox E (obr_outbox_insert b) (put_task (obr_task_record b) (Some (obr_payload_json b)) w)"

definition put_dispatch_opt :: "env \<Rightarrow> outbox_build_result option \<Rightarrow> world \<Rightarrow> world" where
  "put_dispatch_opt E ob w = (case ob of None \<Rightarrow> w | Some b \<Rightarrow> put_dispatch E b w)"

definition put_step ::
  "env \<Rightarrow> workflow_record \<Rightarrow> workflow_transition_record \<Rightarrow> outbox_build_result option \<Rightarrow> world \<Rightarrow> world"
where
  "put_step E u t ob w = put_dispatch_opt E ob (put_transition t (put_workflow (wf_id u) u w))"

definition sendable :: "outbox_build_result option \<Rightarrow> bool" where
  "sendable ob =
     (case ob of None \<Rightarrow> True
      | Some b \<Rightarrow> ref_kind (tk_payload_reference (obr_task_record b)) = TASK_PAYLOAD_REF_KIND)"

lemma sendable_simps [simp]: "sendable None"
  "dispatch_ok x task lv att b \<Longrightarrow> sendable (Some b)"
  by (simp_all add: sendable_def dispatch_ok_def)

lemma put_step_simps [simp]:
  "wf_rows (put_step E u t ob w) = dict_set (wf_id u) u (wf_rows w)"
  "tr_rows (put_step E u t ob w) = tr_rows w @ [t]"
  "in_txn (put_step E u t ob w) = in_txn w"
  "get_workflow k (put_step E u t ob w) = (if k = wf_id u then Some u else get_workflow k w)"
  "art_rows (put_step E u t ob w) = art_rows w" "idem_rows (put_step E u t ob w) = idem_rows w"
  by (simp_all add: put_step_def put_dispatch_opt_def put_dispatch_def split: option.splits)

lemma put_dispatch_simps [simp]:
  "wf_rows (put_dispatch E b w) = wf_rows w" "tr_rows (put_dispatch E b w) = tr_rows w"
  "in_txn (put_dispatch E b w) = in_txn w" "get_workflow k (put_dispatch E b w) = get_workflow k w"
  "task_rows (put_dispatch E b w) = dict_set (tk_id (obr_task_record b)) (obr_task_record b) (task_rows w)"
  by (simp_all add: put_dispatch_def)

context workflow_store
begin

lemma update_ok_mapped:
  assumes "in_txn w" and "get_workflow (wf_id x) w = Some x"
  shows "catchE (rp_update_workflow_state R (wf_id x) (wf_version x) st fr None)
           (map_update_error (wf_id x)) w
         = (Inr (advanced E w x st fr None), put_workflow (wf_id x) (advanced E w x st fr None) w)"
  using update_ok [OF assms] by simp

lemma execute_transition_ok:
  assumes "in_txn w" and "get_workflow (wf_id x) w = Some x"
    and "\<forall>t' \<in> set (tr_rows w). tr_id t' \<noteq> tr_id t" and "sendable ob"
    and "rc = None \<or> rp_update_workflow_state R (wf_id x) (wf_version x) (td_to d)
           (td_set_failure_reason d) rc w
         = (Inr (advanced E w x (td_to d) (td_set_failure_reason d) rc),
            put_workflow (wf_id x) (advanced E w x (td_to d) (td_set_failure_reason d) rc) w)"
  shows "\<exists>res. execute_transition R x d t ob rc w
           = (Inr (advanced E w x (td_to d) (td_set_failure_reason d) rc, res),
              put_step E (advanced E w x (td_to d) (td_set_failure_reason d) rc) t ob w)
         \<and> trs_to res = td_to d \<and> trs_from res = td_from d \<and> trs_workflow_id res = wf_id x
         \<and> trs_version res = wf_version x + 1 \<and> trs_transition res = t
         \<and> trs_transition_id res = tr_id t
         \<and> trs_enqueued_task res = map_option obr_task_spec ob
         \<and> (trs_outbox_written res \<longleftrightarrow> ob \<noteq> None)"
proof -
  let ?u = "advanced E w x (td_to d) (td_set_failure_reason d) rc"
  let ?w1 = "put_workflow (wf_id x) ?u w"
  have upd: "catchE (rp_update_workflow_state R (wf_id x) (wf_version x) (td_to d)
               (td_set_failure_reason d) rc) (map_update_error (wf_id x)) w = (Inr ?u, ?w1)"
    using assms(5) update_ok_mapped [OF assms(1,2)] by auto
  have app: "rp_append_transition R t ?w1 = (Inr t, put_transition t ?w1)"
    using assms(1,3) by (simp add: append_ok)
  show ?thesis
  proof (cases ob)
    case None
    then show ?thesis
      using upd app by (simp add: execute_transition_def py_simps put_step_def put_dispatch_opt_def)
  next
    case (Some b)
    let ?w2 = "put_task (obr_task_record b) (Some (obr_payload_json b)) (put_transition t ?w1)"
    have task: "rp_create_task R (obr_task_record b) (Some (obr_payload_json b)) (put_transition t ?w1)
        = (Inr (obr_task_record b), ?w2)"
      using assms(1,4) Some by (simp add: create_task_ok sendable_def)
    obtain entry where "rp_outbox_insert R (obr_outbox_insert b) ?w2
        = (Inr entry, put_outbox E (obr_outbox_insert b) ?w2)"
      using assms(1) outbox_ok [of ?w2] by auto
    then show ?thesis
      using upd app task Some
      by (simp add: execute_transition_def py_simps put_step_def put_dispatch_opt_def put_dispatch_def)
  qed
qed

lemma execute_transition_cases:
  assumes "in_txn w" and x: "get_workflow (wf_id x) w = Some x"
    and "\<forall>t' \<in> set (tr_rows w). tr_id t' \<noteq> tr_id t" and "sendable ob"
  shows "(\<exists>e. catchE (rp_update_workflow_state R (wf_id x) (wf_version x) (td_to d)
               (td_set_failure_reason d) rc) (map_update_error (wf_id x)) w = (Inl e, w)
             \<and> execute_transition R x d t ob rc w = (Inl e, w)) \<or>
         (\<exists>res. execute_transition R x d t ob rc w
           = (Inr (advanced E w x (td_to d) (td_set_failure_reason d) rc, res),
              put_step E (advanced E w x (td_to d) (td_set_failure_reason d) rc) t ob w)
         \<and> trs_to res = td_to d \<and> trs_from res = td_from d \<and> trs_workflow_id res = wf_id x
         \<and> trs_version res = wf_version x + 1 \<and> trs_transition res = t
         \<and> trs_transition_id res = tr_id t
         \<and> trs_enqueued_task res = map_option obr_task_spec ob
         \<and> (trs_outbox_written res \<longleftrightarrow> ob \<noteq> None))"
proof (cases "\<exists>e. rp_update_workflow_state R (wf_id x) (wf_version x) (td_to d)
                 (td_set_failure_reason d) rc w = (Inl e, w)")
  case True
  then obtain e0 where "rp_update_workflow_state R (wf_id x) (wf_version x) (td_to d)
                 (td_set_failure_reason d) rc w = (Inl e0, w)" by blast
  then obtain e where "catchE (rp_update_workflow_state R (wf_id x) (wf_version x) (td_to d)
               (td_set_failure_reason d) rc) (map_update_error (wf_id x)) w = (Inl e, w)"
    by (cases e0) (simp_all add: map_update_error_def py_simps)
  then show ?thesis by (simp add: execute_transition_def)
next
  case False
  with update_cases [of "wf_id x" "wf_version x" "td_to d" "td_set_failure_reason d" rc w] x
  show ?thesis using assms by (intro disjI2 execute_transition_ok) auto
qed

lemma execute_approval_ok:
  assumes "in_txn w" and "get_workflow (wf_id x) w = Some x"
    and "\<forall>t' \<in> set (tr_rows w). tr_id t' \<noteq> tr_id t" and "sendable ob"
  shows "\<exists>res. execute_approval R x d t ob w
           = (Inr (advanced E w x (ad_to d) None None, res),
              put_step E (advanced E w x (ad_to d) None None) t ob w)
         \<and> aar_to res = ad_to d \<and> aar_from res = ad_from d \<and> aar_action res = ad_action d
         \<and> aar_version res = wf_version x + 1 \<and> aar_transition res = t
         \<and> aar_workflow_id res = wf_id x \<and> aar_transition_id res = tr_id t
         \<and> aar_enqueued_task res = map_option obr_task_spec ob"
proof -
  let ?u = "advanced E w x (ad_to d) None None"
  let ?w1 = "put_workflow (wf_id x) ?u w"
  note upd = update_ok_mapped [OF assms(1,2), of "ad_to d" None]
  have app: "rp_append_transition R t ?w1 = (Inr t, put_transition t ?w1)"
    using assms(1,3) by (simp add: append_ok)
  show ?thesis
  proof (cases ob)
    case None
    then show ?thesis
      using upd app by (simp add: execute_approval_def py_simps put_step_def put_dispatch_opt_def)
  next
    case (Some b)
    let ?w2 = "put_task (obr_task_record b) (Some (obr_payload_json b)) (put_transition t ?w1)"
    have task: "rp_create_task R (obr_task_record b) (Some (obr_payload_json b)) (put_transition t ?w1)
        = (Inr (obr_task_record b), ?w2)"
      using assms(1,4) Some by (simp add: create_task_ok sendable_def)
    obtain entry where "rp_outbox_insert R (obr_outbox_insert b) ?w2
        = (Inr entry, put_outbox E (obr_outbox_insert b) ?w2)"
      using assms(1) outbox_ok [of ?w2] by auto
    then show ?thesis
      using upd app task Some
      by (simp add: execute_approval_def py_simps put_step_def put_dispatch_opt_def put_dispatch_def)
  qed
qed

lemma execute_initiate_ok:
  assumes "in_txn w" and "get_workflow (wf_id x) w = Some x"
    and "\<forall>t' \<in> set (tr_rows w). tr_id t' \<noteq> tr_id t" and "sendable (Some b)"
  shows "\<exists>res. execute_initiate R x t b w
           = (Inr res, put_step E (advanced E w x COLLECTING None None) t (Some b) w)
         \<and> iws_state res = COLLECTING \<and> iws_workflow_id res = wf_id x
         \<and> iws_version res = wf_version x + 1 \<and> iws_enqueued_task res = obr_task_spec b"
proof -
  let ?u = "advanced E w x COLLECTING None None"
  let ?w1 = "put_workflow (wf_id x) ?u w"
  let ?w2 = "put_task (obr_task_record b) (Some (obr_payload_json b)) (put_transition t ?w1)"
  note upd = update_ok_mapped [OF assms(1,2), of COLLECTING None]
  have app: "rp_append_transition R t ?w1 = (Inr t, put_transition t ?w1)"
    using assms(1,3) by (simp add: append_ok)
  have task: "rp_create_task R (obr_task_record b) (Some (obr_payload_json b)) (put_transition t ?w1)
      = (Inr (obr_task_record b), ?w2)"
    using assms(1,4) by (simp add: create_task_ok sendable_def)
  obtain entry where "rp_outbox_insert R (obr_outbox_insert b) ?w2
      = (Inr entry, put_outbox E (obr_outbox_insert b) ?w2)"
    using assms(1) outbox_ok [of ?w2] by auto
  then show ?thesis
    using upd app task
    by (simp add: execute_initiate_def py_simps put_step_def put_dispatch_opt_def put_dispatch_def)
qed

lemma recreate_ok:
  assumes "in_txn w"
  shows "\<exists>b. recreate_expected_outbox E R x task att w
           = (Inr b, put_dispatch E b (w\<lparr>ticks := Suc (Suc (ticks w))\<rparr>))
         \<and> dispatch_ok x task (resolve_for_task (wf_id x) task (task = GENERATE_SCENARIO) w) att b
         \<and> tk_id (obr_task_record b) = env_uuid E (Suc (ticks w))"
proof -
  let ?lv = "resolve_for_task (wf_id x) task (task = GENERATE_SCENARIO) w"
  let ?w1 = "w\<lparr>ticks := Suc (Suc (ticks w))\<rparr>"
  obtain b where b: "build E x task ?lv att w = (Inr b, ?w1)" and ok: "dispatch_ok x task ?lv att b"
    and id: "tk_id (obr_task_record b) = env_uuid E (Suc (ticks w))"
    using build_eq by blast
  let ?w2 = "put_task (obr_task_record b) (Some (obr_payload_json b)) ?w1"
  have task: "rp_create_task R (obr_task_record b) (Some (obr_payload_json b)) ?w1
      = (Inr (obr_task_record b), ?w2)"
    using assms ok by (simp add: create_task_ok dispatch_ok_def)
  obtain entry where "rp_outbox_insert R (obr_outbox_insert b) ?w2
      = (Inr entry, put_outbox E (obr_outbox_insert b) ?w2)"
    using assms outbox_ok [of ?w2] by auto
  with b task ok id show ?thesis
    by (simp add: recreate_expected_outbox_def py_simps put_dispatch_def)
qed

end

end
