(* ===== verification/Engine.thy ===== *)
theory Engine
  imports Executor
begin

text \<open>
  \<open>workflow/engine.py\<close>: the transaction guard and the three mutating operations of
  \<open>DefaultWorkflowEngine\<close>. Logging, metrics and spans are left out; everything that reads or
  writes a repository, allocates an identifier or raises is kept in the order of the code.

  \<open>refusal\<close> and \<open>approval_refusal\<close> say when an operation must be refused and with which
  exception. The lemmas show that it is then refused with no change at all, and that it otherwise
  writes exactly one version bump, one history row and, where the decision asks for a task, one
  task with one outbox row.
\<close>

section \<open>Operations\<close>

definition require_active :: "repos \<Rightarrow> string \<Rightarrow> (world, unit) prog" where
  "require_active R operation w =
     (if rp_is_in_transaction R w then ret () w else raise (RuntimeError operation) w)"

definition build_transition ::
  "env \<Rightarrow> string \<Rightarrow> workflow_state \<Rightarrow> workflow_state \<Rightarrow> string \<Rightarrow> string option \<Rightarrow>
   (world, workflow_transition_record) prog"
where
  "build_transition E wid from_state to_state reason actor =
     bindE (utc_now E) (\<lambda>now.
     bindE (new_uuid E) (\<lambda>tid.
     ret \<lparr>tr_id = tid, tr_workflow_id = wid, tr_from = from_state, tr_to = to_state,
          tr_reason = reason, tr_occurred_at = now, tr_actor = actor\<rparr>))"

definition initiate_workflow ::
  "env \<Rightarrow> repos \<Rightarrow> initiate_workflow_request option \<Rightarrow> (world, initiate_workflow_result) prog"
where
  "initiate_workflow E R request =
     bindE (require_active R ''initiate_workflow'') (\<lambda>_.
     bindE (allocate E request) (\<lambda>wid.
     bindE (validate_no_duplicate wid) (\<lambda>_.
     bindE (rp_create_workflow R wid CREATED) (\<lambda>workflow.
     bindE (build E workflow COLLECT 1 1) (\<lambda>outbox.
     bindE (build_transition E wid CREATED COLLECTING ''workflow_initiated''
              (case request of None \<Rightarrow> None | Some r \<Rightarrow> iwr_actor r)) (\<lambda>transition.
     execute_initiate R workflow transition outbox))))))"

definition effective_decision :: "transition_request \<Rightarrow> transition_decision \<Rightarrow> transition_decision" where
  "effective_decision request decision =
     (let failure_reason =
            (if td_set_failure_reason decision = None
                \<and> trq_signal request \<in> {SIG_UNRECOVERABLE_ERROR, SIG_RETRIES_EXHAUSTED}
             then Some (trq_reason request) else td_set_failure_reason decision)
      in if failure_reason \<noteq> None \<and> td_set_failure_reason decision = None
         then decision\<lparr>td_set_failure_reason := failure_reason\<rparr> else decision)"

definition apply_transition ::
  "env \<Rightarrow> repos \<Rightarrow> app_config \<Rightarrow> transition_request \<Rightarrow> (world, transition_result) prog"
where
  "apply_transition E R C request =
     bindE (require_active R ''apply_transition'') (\<lambda>_.
     bindE (gets (get_workflow (trq_workflow_id request))) (\<lambda>row.
     case row of
       None \<Rightarrow> raise (WorkflowNotFoundError (trq_workflow_id request))
     | Some workflow \<Rightarrow>
         bindE (to_domain_workflow_state (state_value (wf_state workflow))) (\<lambda>current_state.
         if current_state \<noteq> trq_expected_state request
         then raise (WorkflowConflictError (trq_workflow_id request))
         else if current_state \<in> TERMINAL_WORKFLOW_STATES
         then raise (InvalidTransitionError (trq_workflow_id request) current_state (trq_signal request))
         else
           (case lookup current_state (trq_signal request) (wf_revision_count workflow)
                   (max_scenario_revisions C) of
              Inl e \<Rightarrow>
                raise (case e of
                         InvalidTransitionError _ _ _ \<Rightarrow>
                           InvalidTransitionError (trq_workflow_id request) current_state
                             (trq_signal request)
                       | _ \<Rightarrow> e)
            | Inr looked_up \<Rightarrow>
                let decision = effective_decision request looked_up in
                bindE (build_for_decision E workflow (td_outbox_task_type decision)
                         (td_increment_logical_version decision)) (\<lambda>outbox.
                bindE (build_transition E (trq_workflow_id request) current_state (td_to decision)
                         (trq_reason request) (trq_actor request)) (\<lambda>transition.
                let new_revision = (if td_increment_revision_count decision
                                    then Some (wf_revision_count workflow + 1) else None) in
                bindE (execute_transition R workflow decision transition outbox new_revision)
                  (\<lambda>(_, result). ret result)))))))"

definition apply_approval_action ::
  "env \<Rightarrow> repos \<Rightarrow> string \<Rightarrow> approval_action \<Rightarrow> string option \<Rightarrow> (world, approval_action_result) prog"
where
  "apply_approval_action E R wid action actor =
     bindE (require_active R ''apply_approval_action'') (\<lambda>_.
     bindE (gets (get_workflow wid)) (\<lambda>row.
     case row of
       None \<Rightarrow> raise (WorkflowNotFoundError wid)
     | Some workflow \<Rightarrow>
         bindE (to_domain_workflow_state (state_value (wf_state workflow))) (\<lambda>current_state.
         if current_state \<noteq> AWAITING_HUMAN_APPROVAL
         then (if current_state \<in> TERMINAL_WORKFLOW_STATES
               then raise (WorkflowTerminalError wid current_state)
               else raise (InvalidApprovalActionError wid action current_state))
         else
           let decision = lookup_approval action in
           bindE (build_for_decision E workflow (ad_outbox_task_type decision)
                    (ad_increment_logical_version decision)) (\<lambda>outbox.
           bindE (build_transition E wid current_state (ad_to decision)
                    (''approval_'' @ approval_action_value action) actor) (\<lambda>transition.
           bindE (execute_approval R workflow decision transition outbox) (\<lambda>(_, result).
           ret result))))))"

section \<open>When an operation is refused\<close>

definition refusal :: "app_config \<Rightarrow> transition_request \<Rightarrow> world \<Rightarrow> exn option" where
  "refusal C req w =
     (if \<not> in_txn w then Some (RuntimeError ''apply_transition'')
      else case get_workflow (trq_workflow_id req) w of
        None \<Rightarrow> Some (WorkflowNotFoundError (trq_workflow_id req))
      | Some x \<Rightarrow>
          if wf_state x \<noteq> trq_expected_state req
          then Some (WorkflowConflictError (trq_workflow_id req))
          else if \<exists>s'. legal_step (wf_revision_count x) (max_scenario_revisions C) (wf_state x)
                        (trq_signal req) s'
          then None
          else Some (InvalidTransitionError (trq_workflow_id req) (wf_state x) (trq_signal req)))"

definition approval_refusal :: "string \<Rightarrow> approval_action \<Rightarrow> world \<Rightarrow> exn option" where
  "approval_refusal wid action w =
     (if \<not> in_txn w then Some (RuntimeError ''apply_approval_action'')
      else case get_workflow wid w of
        None \<Rightarrow> Some (WorkflowNotFoundError wid)
      | Some x \<Rightarrow>
          if wf_state x = AWAITING_HUMAN_APPROVAL then None
          else if wf_state x \<in> TERMINAL_STATES then Some (WorkflowTerminalError wid (wf_state x))
          else Some (InvalidApprovalActionError wid action (wf_state x)))"

text \<open>Identifiers still to be drawn occur nowhere in the history.\<close>

definition ids_fresh :: "env \<Rightarrow> world \<Rightarrow> bool" where
  "ids_fresh E w \<longleftrightarrow> (\<forall>t \<in> set (tr_rows w). \<forall>n \<ge> ticks w. tr_id t \<noteq> env_uuid E n)"

section \<open>What an accepted operation writes\<close>

definition dispatched ::
  "env \<Rightarrow> workflow_record \<Rightarrow> task_type option \<Rightarrow> bool \<Rightarrow> world \<Rightarrow> outbox_build_result option \<Rightarrow> bool"
where
  "dispatched E x task inc w ob =
     (case task of
        None \<Rightarrow> ob = None
      | Some t \<Rightarrow> \<exists>b. ob = Some b \<and> dispatch_ok x t (resolve_for_task (wf_id x) t inc w) 1 b
                    \<and> tk_id (obr_task_record b) = env_uuid E (Suc (ticks w)))"

text \<open>
  The state is \<open>w\<close> with the row \<open>u\<close>, the history row \<open>t\<close> and the dispatch \<open>ob\<close> added; \<open>n\<close>
  is the number of clock and identifier calls made before the first write.
\<close>

definition step_effect ::
  "env \<Rightarrow> string \<Rightarrow> workflow_record \<Rightarrow> workflow_state \<Rightarrow> string option \<Rightarrow> int option \<Rightarrow> string \<Rightarrow>
   string option \<Rightarrow> task_type option \<Rightarrow> bool \<Rightarrow> world \<Rightarrow> outbox_build_result option \<Rightarrow>
   workflow_transition_record \<Rightarrow> world \<Rightarrow> bool"
where
  "step_effect E wid x to_state fr rc reason actor task inc w ob t w' \<longleftrightarrow>
     (\<exists>n. ticks w < n \<and> dispatched E x task inc w ob
        \<and> t = \<lparr>tr_id = env_uuid E (n - 1), tr_workflow_id = wid, tr_from = wf_state x,
               tr_to = to_state, tr_reason = reason, tr_occurred_at = env_now E (n - 2),
               tr_actor = actor\<rparr>
        \<and> w' = put_step E (advanced E (w\<lparr>ticks := n\<rparr>) x to_state fr rc) t ob (w\<lparr>ticks := n\<rparr>))"

section \<open>Lemmas on the table\<close>

lemma lookup_error: "lookup s g c m = Inl e \<Longrightarrow> e = InvalidTransitionError '''' s g"
  by (auto simp: lookup_def split: if_splits option.splits)

lemma lookup_ok_iff: "(\<exists>d. lookup s g c m = Inr d) \<longleftrightarrow> (\<exists>s'. legal_step c m s g s')"
  using lookup_Inr_to by metis

lemma lookup_legal: "lookup s g c m = Inr d \<Longrightarrow> legal_step c m s g (td_to d)"
  using lookup_Inr_to by blast

lemma lookup_from: "lookup s g c m = Inr d \<Longrightarrow> td_from d = s \<and> td_signal d = g"
  by (auto simp: lookup_def decide_def decide_row_def split: if_splits option.splits)

lemma lookup_increment: "lookup s g c m = Inr d \<Longrightarrow>
    td_increment_revision_count d \<longleftrightarrow> s = REVIEWING \<and> td_to d = REVISION_REQUIRED"
  by (cases s; cases g) (auto simp: table_defs split: if_splits)

lemma legal_step_not_terminal: "legal_step c m s g s' \<Longrightarrow> s \<notin> TERMINAL_STATES \<and> s \<noteq> AWAITING_HUMAN_APPROVAL"
  by (erule legal_step_E) (auto simp: state_set_defs)

lemma effective_decision_simps [simp]:
  "td_to (effective_decision r d) = td_to d" "td_from (effective_decision r d) = td_from d"
  "td_outbox_task_type (effective_decision r d) = td_outbox_task_type d"
  "td_increment_revision_count (effective_decision r d) = td_increment_revision_count d"
  "td_increment_logical_version (effective_decision r d) = td_increment_logical_version d"
  by (simp_all add: effective_decision_def Let_def)

lemma build_transition_eq:
  "build_transition E wid a b reason actor w =
     (Inr \<lparr>tr_id = env_uuid E (Suc (ticks w)), tr_workflow_id = wid, tr_from = a, tr_to = b,
           tr_reason = reason, tr_occurred_at = env_now E (ticks w), tr_actor = actor\<rparr>,
      w\<lparr>ticks := Suc (Suc (ticks w))\<rparr>)"
  by (simp add: build_transition_def bindE_def py_simps)

lemma allocate_cases:
  "allocate E req w = (Inl ValueError, w) \<or>
   (\<exists>wid m. allocate E req w = (Inr wid, w\<lparr>ticks := m\<rparr>) \<and> ticks w \<le> m)"
proof -
  have id: "w = w\<lparr>ticks := ticks w\<rparr>" by simp
  show ?thesis
  proof (cases "\<exists>r s. req = Some r \<and> iwr_workflow_id r = Some s")
    case True
    then obtain r s where "req = Some r" "iwr_workflow_id r = Some s" by blast
    then show ?thesis using id
      by (cases "strip s = []") (auto simp: allocate_def Let_def py_simps intro!: exI [of _ "ticks w"])
  next
    case False
    then have "allocate E req w = new_uuid E w"
      by (auto simp: allocate_def split: option.splits)
    then show ?thesis by (auto simp: py_simps intro!: exI [of _ "Suc (ticks w)"])
  qed
qed

section \<open>Refused operations change nothing\<close>

context workflow_store
begin

lemma require_active_eq [simp]:
  "require_active R op w = (if in_txn w then (Inr (), w) else (Inl (RuntimeError op), w))"
  by (simp add: require_active_def in_transaction py_simps)

lemma apply_transition_refused:
  assumes "refusal C req w = Some e"
  shows "apply_transition E R C req w = (Inl e, w)"
proof (cases "in_txn w")
  case False
  with assms show ?thesis by (simp add: refusal_def apply_transition_def)
next
  case txn: True
  show ?thesis
  proof (cases "get_workflow (trq_workflow_id req) w")
    case None
    with assms txn show ?thesis by (simp add: refusal_def apply_transition_def py_simps)
  next
    case (Some x)
    let ?l = "lookup (wf_state x) (trq_signal req) (wf_revision_count x) (max_scenario_revisions C)"
    show ?thesis
    proof (cases "wf_state x = trq_expected_state req")
      case False
      with assms txn Some show ?thesis by (simp add: refusal_def apply_transition_def py_simps)
    next
      case True
      with assms txn Some have e: "e = InvalidTransitionError (trq_workflow_id req) (wf_state x) (trq_signal req)"
        and "\<nexists>d. ?l = Inr d"
        by (auto simp: refusal_def lookup_ok_iff split: if_splits)
      then have "?l = Inl (InvalidTransitionError '''' (wf_state x) (trq_signal req))"
        by (cases ?l) (auto dest: lookup_error)
      with True txn Some e show ?thesis
        by (simp add: apply_transition_def py_simps)
    qed
  qed
qed

lemma apply_approval_refused:
  assumes "approval_refusal wid action w = Some e"
  shows "apply_approval_action E R wid action actor w = (Inl e, w)"
  using assms
  by (cases "in_txn w"; cases "get_workflow wid w")
     (auto simp: approval_refusal_def apply_approval_action_def py_simps TERMINAL_STATES_eq
        split: if_splits)

end

section \<open>Accepted operations\<close>

lemma build_for_decision_dispatched:
  "\<exists>ob n. build_for_decision E x task inc w = (Inr ob, w\<lparr>ticks := n\<rparr>) \<and> ticks w \<le> n
          \<and> dispatched E x task inc w ob \<and> sendable ob"
proof (cases task)
  case None
  then show ?thesis
    by (intro exI [of _ None] exI [of _ "ticks w"]) (simp add: dispatched_def)
next
  case (Some t)
  from build_for_decision_Some [of E x t inc w] obtain b where
    "build_for_decision E x (Some t) inc w = (Inr (Some b), w\<lparr>ticks := Suc (Suc (ticks w))\<rparr>)"
    "dispatch_ok x t (resolve_for_task (wf_id x) t inc w) 1 b"
    "tk_id (obr_task_record b) = env_uuid E (Suc (ticks w))" by blast
  with Some show ?thesis
    by (intro exI [of _ "Some b"] exI [of _ "Suc (Suc (ticks w))"]) (auto simp: dispatched_def)
qed

lemma ids_freshD: "ids_fresh E w \<Longrightarrow> ticks w \<le> n \<Longrightarrow> \<forall>t \<in> set (tr_rows w). tr_id t \<noteq> env_uuid E n"
  by (auto simp: ids_fresh_def)

context workflow_store
begin

text \<open>
  A transition that is not refused is written in full, unless the repository rejects the state
  update itself; then nothing is written.
\<close>

lemma apply_transition_accepted:
  assumes ok: "refusal C req w = None" and fresh: "ids_fresh E w"
    and x: "get_workflow (trq_workflow_id req) w = Some x" "wf_id x = trq_workflow_id req"
    and d: "lookup (wf_state x) (trq_signal req) (wf_revision_count x) (max_scenario_revisions C) = Inr d"
    and rc: "rc = (if td_increment_revision_count d then Some (wf_revision_count x + 1) else None)"
  shows "(\<exists>e n fr. apply_transition E R C req w = (Inl e, w\<lparr>ticks := n\<rparr>) \<and> ticks w \<le> n
       \<and> catchE (rp_update_workflow_state R (wf_id x) (wf_version x) (td_to d) fr rc)
           (map_update_error (wf_id x)) (w\<lparr>ticks := n\<rparr>) = (Inl e, w\<lparr>ticks := n\<rparr>)) \<or>
    (\<exists>res t ob w'. apply_transition E R C req w = (Inr res, w')
     \<and> step_effect E (trq_workflow_id req) x (td_to d)
         (td_set_failure_reason (effective_decision req d)) rc (trq_reason req) (trq_actor req)
         (td_outbox_task_type d) (td_increment_logical_version d) w ob t w'
     \<and> trs_from res = wf_state x \<and> trs_to res = td_to d \<and> trs_version res = wf_version x + 1
     \<and> trs_transition res = t \<and> trs_enqueued_task res = map_option obr_task_spec ob
     \<and> trs_workflow_id res = trq_workflow_id req
     \<and> (\<exists>n fr. is_ok (catchE (rp_update_workflow_state R (wf_id x) (wf_version x) (td_to d) fr rc)
           (map_update_error (wf_id x)) (w\<lparr>ticks := n\<rparr>))))"
proof -
  let ?d = "effective_decision req d"
  let ?fr = "td_set_failure_reason ?d"
  from ok x(1) have txn: "in_txn w" and st: "wf_state x = trq_expected_state req"
    by (auto simp: refusal_def split: if_splits)
  have live: "wf_state x \<notin> TERMINAL_WORKFLOW_STATES"
    using legal_step_not_terminal [OF lookup_legal [OF d]] by (simp add: TERMINAL_STATES_eq)
  obtain ob n where ob: "build_for_decision E x (td_outbox_task_type d) (td_increment_logical_version d) w
        = (Inr ob, w\<lparr>ticks := n\<rparr>)" and n: "ticks w \<le> n"
    and disp: "dispatched E x (td_outbox_task_type d) (td_increment_logical_version d) w ob"
    and send: "sendable ob"
    using build_for_decision_dispatched by blast
  let ?t = "\<lparr>tr_id = env_uuid E (Suc n), tr_workflow_id = trq_workflow_id req, tr_from = wf_state x,
             tr_to = td_to d, tr_reason = trq_reason req, tr_occurred_at = env_now E n,
             tr_actor = trq_actor req\<rparr>"
  let ?w1 = "w\<lparr>ticks := Suc (Suc n)\<rparr>"
  have run: "apply_transition E R C req w =
      bindE (execute_transition R x ?d ?t ob rc) (\<lambda>(_, result). ret result) ?w1"
    using txn x st live d ob rc by (simp add: apply_transition_def Let_def build_transition_eq)
  have ids: "\<forall>t' \<in> set (tr_rows ?w1). tr_id t' \<noteq> tr_id ?t"
    using ids_freshD [OF fresh, of "Suc n"] n by simp
  have eff: "step_effect E (trq_workflow_id req) x (td_to d) ?fr rc (trq_reason req) (trq_actor req)
         (td_outbox_task_type d) (td_increment_logical_version d) w ob ?t
         (put_step E (advanced E ?w1 x (td_to d) ?fr rc) ?t ob ?w1)"
    unfolding step_effect_def using n disp by (intro exI [of _ "Suc (Suc n)"]) simp
  consider (raised) e where "catchE (rp_update_workflow_state R (wf_id x) (wf_version x) (td_to d)
               ?fr rc) (map_update_error (wf_id x)) ?w1 = (Inl e, ?w1)"
      "execute_transition R x ?d ?t ob rc ?w1 = (Inl e, ?w1)"
    | (written) res where "execute_transition R x ?d ?t ob rc ?w1
        = (Inr (advanced E ?w1 x (td_to d) ?fr rc, res),
           put_step E (advanced E ?w1 x (td_to d) ?fr rc) ?t ob ?w1)"
      "trs_to res = td_to d" "trs_from res = td_from d" "trs_workflow_id res = wf_id x"
      "trs_version res = wf_version x + 1" "trs_transition res = ?t"
      "trs_enqueued_task res = map_option obr_task_spec ob"
    using execute_transition_cases [of ?w1 x ?t ob ?d rc] txn x ids send by auto
  then show ?thesis
  proof cases
    case raised
    then have "apply_transition E R C req w = (Inl e, ?w1)" by (simp add: run)
    with raised(1) n show ?thesis
      by (intro disjI1 exI [of _ e] exI [of _ "Suc (Suc n)"] exI [of _ ?fr]) simp
  next
    case written
    have "is_ok (catchE (rp_update_workflow_state R (wf_id x) (wf_version x) (td_to d) ?fr rc)
           (map_update_error (wf_id x)) ?w1)"
      using written(1) by (auto simp: execute_transition_def bindE_eq_Inr)
    with written run eff x(2) lookup_from [OF d] show ?thesis
      by (intro disjI2 exI [of _ res] exI [of _ ?t] exI [of _ ob]
           exI [of _ "put_step E (advanced E ?w1 x (td_to d) ?fr rc) ?t ob ?w1"] conjI
           exI [of _ "Suc (Suc n)"] exI [of _ ?fr]) simp_all
  qed
qed

lemma apply_approval_accepted:
  assumes ok: "approval_refusal wid action w = None" and fresh: "ids_fresh E w"
    and x: "get_workflow wid w = Some x" "wf_id x = wid"
  shows "\<exists>res t ob w'. apply_approval_action E R wid action actor w = (Inr res, w')
     \<and> step_effect E wid x (ad_to (lookup_approval action)) None None
         (''approval_'' @ approval_action_value action) actor
         (ad_outbox_task_type (lookup_approval action))
         (ad_increment_logical_version (lookup_approval action)) w ob t w'
     \<and> aar_from res = AWAITING_HUMAN_APPROVAL \<and> aar_to res = ad_to (lookup_approval action)
     \<and> aar_action res = action \<and> aar_version res = wf_version x + 1
     \<and> aar_workflow_id res = wid \<and> aar_transition_id res = tr_id t
     \<and> aar_enqueued_task res = map_option obr_task_spec ob"
proof -
  let ?d = "lookup_approval action"
  let ?reason = "''approval_'' @ approval_action_value action"
  from ok x(1) have txn: "in_txn w" and st: "wf_state x = AWAITING_HUMAN_APPROVAL"
    by (auto simp: approval_refusal_def split: if_splits)
  obtain ob n where ob: "build_for_decision E x (ad_outbox_task_type ?d) (ad_increment_logical_version ?d) w
        = (Inr ob, w\<lparr>ticks := n\<rparr>)" and n: "ticks w \<le> n"
    and disp: "dispatched E x (ad_outbox_task_type ?d) (ad_increment_logical_version ?d) w ob"
    and send: "sendable ob"
    using build_for_decision_dispatched by blast
  let ?t = "\<lparr>tr_id = env_uuid E (Suc n), tr_workflow_id = wid, tr_from = wf_state x,
             tr_to = ad_to ?d, tr_reason = ?reason, tr_occurred_at = env_now E n, tr_actor = actor\<rparr>"
  let ?w1 = "w\<lparr>ticks := Suc (Suc n)\<rparr>"
  let ?w2 = "put_step E (advanced E ?w1 x (ad_to ?d) None None) ?t ob ?w1"
  have bt: "build_transition E wid (wf_state x) (ad_to ?d) ?reason actor (w\<lparr>ticks := n\<rparr>) = (Inr ?t, ?w1)"
    by (simp add: build_transition_eq)
  have ids: "\<forall>t' \<in> set (tr_rows ?w1). tr_id t' \<noteq> tr_id ?t"
    using ids_freshD [OF fresh, of "Suc n"] n by simp
  obtain res where ex: "execute_approval R x ?d ?t ob ?w1 = (Inr (advanced E ?w1 x (ad_to ?d) None None, res), ?w2)"
    and res: "aar_to res = ad_to ?d" "aar_from res = ad_from ?d" "aar_action res = ad_action ?d"
      "aar_version res = wf_version x + 1" "aar_enqueued_task res = map_option obr_task_spec ob"
      "aar_workflow_id res = wid" "aar_transition_id res = tr_id ?t"
    using execute_approval_ok [of ?w1 x ?t ob ?d] txn x ids send by auto
  have run: "apply_approval_action E R wid action actor w = (Inr res, ?w2)"
    using txn x st ob bt ex by (simp add: apply_approval_action_def Let_def)
  have "step_effect E wid x (ad_to ?d) None None ?reason actor (ad_outbox_task_type ?d)
          (ad_increment_logical_version ?d) w ob ?t ?w2"
    unfolding step_effect_def using n disp by (intro exI [of _ "Suc (Suc n)"]) simp
  moreover have "ad_from ?d = AWAITING_HUMAN_APPROVAL" "ad_action ?d = action"
    by (simp_all add: lookup_approval_def Let_def)
  ultimately show ?thesis using run res
    by (intro exI [of _ res] exI [of _ ?t] exI [of _ ob] exI [of _ ?w2] conjI) simp_all
qed

lemma initiate_refused:
  assumes "\<not> in_txn w \<or> fst (allocate E req w) = Inl ValueError \<or>
     (\<exists>wid m. allocate E req w = (Inr wid, w\<lparr>ticks := m\<rparr>) \<and> ticks w \<le> m \<and> get_workflow wid w \<noteq> None)"
  shows "\<exists>e m. initiate_workflow E R req w = (Inl e, w\<lparr>ticks := m\<rparr>) \<and> ticks w \<le> m
     \<and> e \<in> {RuntimeError ''initiate_workflow'', ValueError} \<union> range WorkflowConflictError"
proof -
  show ?thesis
  proof (cases "in_txn w")
    case False
    then have "initiate_workflow E R req w = (Inl (RuntimeError ''initiate_workflow''), w)"
      by (simp add: initiate_workflow_def)
    then show ?thesis by (intro exI [of _ "RuntimeError ''initiate_workflow''"] exI [of _ "ticks w"]) simp
  next
    case txn: True
    from allocate_cases [of E req w] show ?thesis
    proof (elim disjE exE conjE)
      assume "allocate E req w = (Inl ValueError, w)"
      with txn have "initiate_workflow E R req w = (Inl ValueError, w)"
        by (simp add: initiate_workflow_def)
      then show ?thesis by (intro exI [of _ ValueError] exI [of _ "ticks w"]) simp
    next
      fix wid m
      assume a: "allocate E req w = (Inr wid, w\<lparr>ticks := m\<rparr>)" and m: "ticks w \<le> m"
      with assms txn have "get_workflow wid w \<noteq> None" by (auto simp: a)
      with a(1) txn have "initiate_workflow E R req w = (Inl (WorkflowConflictError wid), w\<lparr>ticks := m\<rparr>)"
        by (simp add: initiate_workflow_def validate_no_duplicate_def py_simps)
      with m show ?thesis by blast
    qed
  qed
qed

lemma initiate_accepted:
  assumes txn: "in_txn w" and fresh: "ids_fresh E w"
    and a: "allocate E req w = (Inr wid, w\<lparr>ticks := m\<rparr>)" "ticks w \<le> m"
    and new: "get_workflow wid w = None"
  shows "\<exists>res x b t. initiate_workflow E R req w
       = (Inr res, put_step E (advanced E (w\<lparr>ticks := m + 5\<rparr>) x COLLECTING None None) t (Some b)
                     (put_workflow wid x (w\<lparr>ticks := m + 4\<rparr>)))
     \<and> x = new_workflow E wid CREATED (w\<lparr>ticks := m\<rparr>)
     \<and> dispatch_ok x COLLECT 1 1 b
     \<and> tk_id (obr_task_record b) = env_uuid E (m + 2)
     \<and> t = \<lparr>tr_id = env_uuid E (m + 4), tr_workflow_id = wid, tr_from = CREATED,
            tr_to = COLLECTING, tr_reason = ''workflow_initiated'',
            tr_occurred_at = env_now E (m + 3),
            tr_actor = (case req of None \<Rightarrow> None | Some r \<Rightarrow> iwr_actor r)\<rparr>
     \<and> iws_workflow_id res = wid \<and> iws_state res = COLLECTING \<and> iws_version res = 2
     \<and> iws_enqueued_task res = obr_task_spec b"
proof -
  let ?x = "new_workflow E wid CREATED (w\<lparr>ticks := m\<rparr>)"
  let ?n = "m + 5"
  let ?w1 = "put_workflow wid ?x (w\<lparr>ticks := m\<rparr>)"
  have xid: "wf_id ?x = wid" and xv: "wf_version ?x = 1" by (simp_all add: new_workflow_def)
  have t1: "ticks ?w1 = Suc m" by (simp add: put_workflow_def)
  obtain b where b: "build E ?x COLLECT 1 1 ?w1 = (Inr b, ?w1\<lparr>ticks := m + 3\<rparr>)"
    and bok: "dispatch_ok ?x COLLECT 1 1 b" and bid: "tk_id (obr_task_record b) = env_uuid E (m + 2)"
    using build_eq [of E ?x COLLECT 1 1 ?w1] t1 by (auto simp: numeral_eq_Suc)
  let ?t = "\<lparr>tr_id = env_uuid E (m + 4), tr_workflow_id = wid, tr_from = CREATED,
            tr_to = COLLECTING, tr_reason = ''workflow_initiated'', tr_occurred_at = env_now E (m + 3),
            tr_actor = (case req of None \<Rightarrow> None | Some r \<Rightarrow> iwr_actor r)\<rparr>"
  let ?w2 = "?w1\<lparr>ticks := ?n\<rparr>"
  have bt: "build_transition E wid CREATED COLLECTING ''workflow_initiated''
      (case req of None \<Rightarrow> None | Some r \<Rightarrow> iwr_actor r) (?w1\<lparr>ticks := m + 3\<rparr>) = (Inr ?t, ?w2)"
    by (simp add: build_transition_eq numeral_eq_Suc)
  have ids: "\<forall>t' \<in> set (tr_rows ?w2). tr_id t' \<noteq> tr_id ?t"
    using ids_freshD [OF fresh, of "m + 4"] a(2) by simp
  have w2: "?w2 = put_workflow wid ?x (w\<lparr>ticks := m + 4\<rparr>)" by (simp add: put_workflow_def)
  have adv: "advanced E ?w2 ?x COLLECTING None None = advanced E (w\<lparr>ticks := ?n\<rparr>) ?x COLLECTING None None"
    by (simp add: advanced_def)
  obtain res where ex: "execute_initiate R ?x ?t b ?w2
      = (Inr res, put_step E (advanced E ?w2 ?x COLLECTING None None) ?t (Some b) ?w2)"
    and res: "iws_state res = COLLECTING" "iws_workflow_id res = wid" "iws_version res = 2"
      "iws_enqueued_task res = obr_task_spec b"
    using execute_initiate_ok [of ?w2 ?x ?t b] txn xid xv ids bok by auto
  have run: "initiate_workflow E R req w
      = (Inr res, put_step E (advanced E ?w2 ?x COLLECTING None None) ?t (Some b) ?w2)"
    using txn a new b bt ex create_workflow [of wid CREATED "w\<lparr>ticks := m\<rparr>"]
    by (simp add: initiate_workflow_def validate_no_duplicate_def)
  show ?thesis
    using run [unfolded adv, unfolded w2] bok bid res
    by (intro exI [of _ res] exI [of _ ?x] exI [of _ b] exI [of _ ?t] conjI) simp_all
qed

end

context revision_store
begin

lemma apply_transition_total:
  assumes ok: "refusal C req w = None" and fresh: "ids_fresh E w" and keys: "keys_ok wf_id (wf_rows w)"
  shows "\<exists>x d res t ob w'. get_workflow (trq_workflow_id req) w = Some x
     \<and> lookup (wf_state x) (trq_signal req) (wf_revision_count x) (max_scenario_revisions C) = Inr d
     \<and> apply_transition E R C req w = (Inr res, w')
     \<and> step_effect E (trq_workflow_id req) x (td_to d)
         (td_set_failure_reason (effective_decision req d))
         (if td_increment_revision_count d then Some (wf_revision_count x + 1) else None)
         (trq_reason req) (trq_actor req)
         (td_outbox_task_type d) (td_increment_logical_version d) w ob t w'
     \<and> trs_from res = wf_state x \<and> trs_to res = td_to d \<and> trs_version res = wf_version x + 1
     \<and> trs_transition res = t \<and> trs_enqueued_task res = map_option obr_task_spec ob
     \<and> trs_workflow_id res = trq_workflow_id req"
proof -
  from ok obtain x where x: "get_workflow (trq_workflow_id req) w = Some x" and txn: "in_txn w"
    and legal: "\<exists>s'. legal_step (wf_revision_count x) (max_scenario_revisions C) (wf_state x) (trq_signal req) s'"
    by (auto simp: refusal_def split: if_splits option.splits)
  then obtain d where d: "lookup (wf_state x) (trq_signal req) (wf_revision_count x) (max_scenario_revisions C) = Inr d"
    using lookup_ok_iff by metis
  from x keys have xid: "wf_id x = trq_workflow_id req"
    by (auto simp: get_workflow_def dest: keys_ok_get)
  let ?rc = "if td_increment_revision_count d then Some (wf_revision_count x + 1) else None"
  have "catchE (rp_update_workflow_state R (wf_id x) (wf_version x) (td_to d) fr ?rc)
         (map_update_error (wf_id x)) (w\<lparr>ticks := n\<rparr>) \<noteq> (Inl e, w\<lparr>ticks := n\<rparr>)" for n fr e
    using update_revision [of "w\<lparr>ticks := n\<rparr>" "wf_id x" x] update_ok [of "w\<lparr>ticks := n\<rparr>" "wf_id x" x]
      txn x xid by (simp add: catchE_def)
  with apply_transition_accepted [OF ok fresh x xid d refl] x d show ?thesis by blast
qed

end

end
