(* ===== verification/Engine_Invariants.thy ===== *)
theory Engine_Invariants
  imports Engine
begin

text \<open>
  Invariants of the stored workflows over any sequence of transactions.

  The engine's operations are the steps of a transition system (\<open>engine_step\<close>): each runs in a
  transaction of its own, and between them the other components may write every table but the
  workflow rows and the history. \<open>engine_inv\<close> says that a workflow's history is a path of the
  state diagram from \<open>CREATED\<close> to its current state, that its version counts the history, and that
  its revision count is the number of revisions taken and stays within the configured limit.
\<close>

section \<open>Histories\<close>

definition edge :: "workflow_state \<Rightarrow> workflow_state \<Rightarrow> bool" where
  "edge s s' \<longleftrightarrow>
     s = CREATED \<and> s' = COLLECTING
     \<or> (\<exists>c m g. legal_step c m s g s')
     \<or> s = AWAITING_HUMAN_APPROVAL \<and> s' \<in> {APPROVED, REJECTED, GENERATING_SCENARIO}"

fun path :: "workflow_state \<Rightarrow> workflow_transition_record list \<Rightarrow> workflow_state \<Rightarrow> bool" where
  "path s [] s' \<longleftrightarrow> s = s'"
| "path s (t # ts) s' \<longleftrightarrow> tr_from t = s \<and> edge s (tr_to t) \<and> path (tr_to t) ts s'"

definition history :: "string \<Rightarrow> world \<Rightarrow> workflow_transition_record list" where
  "history wid w = filter (\<lambda>t. tr_workflow_id t = wid) (tr_rows w)"

definition is_revision :: "workflow_transition_record \<Rightarrow> bool" where
  "is_revision t \<longleftrightarrow> tr_from t = REVIEWING \<and> tr_to t = REVISION_REQUIRED"

definition row_ok :: "int \<Rightarrow> workflow_transition_record list \<Rightarrow> workflow_record \<Rightarrow> bool" where
  "row_ok m h x \<longleftrightarrow>
     path CREATED h (wf_state x) \<and> wf_version x = 1 + int (length h)
     \<and> wf_revision_count x = int (length (filter is_revision h))
     \<and> wf_revision_count x \<le> max 0 m"

definition engine_inv :: "env \<Rightarrow> app_config \<Rightarrow> world \<Rightarrow> bool" where
  "engine_inv E C w \<longleftrightarrow>
     keys_ok wf_id (wf_rows w)
     \<and> (\<forall>t \<in> set (tr_rows w). \<exists>n < ticks w. tr_id t = env_uuid E n)
     \<and> distinct (map tr_id (tr_rows w))
     \<and> (\<forall>t \<in> set (tr_rows w). get_workflow (tr_workflow_id t) w \<noteq> None)
     \<and> (\<forall>wid x. get_workflow wid w = Some x \<longrightarrow> row_ok (max_scenario_revisions C) (history wid w) x)"

lemma path_append: "path s (h @ [t]) s' \<longleftrightarrow>
    path s h (tr_from t) \<and> edge (tr_from t) (tr_to t) \<and> tr_to t = s'"
  by (induction h arbitrary: s) auto

lemma path_split: "path s h u \<Longrightarrow> path s (h @ h') s' \<Longrightarrow> path u h' s'"
  by (induction h arbitrary: s) auto

lemma path_end: "path s h u \<Longrightarrow> path s h u' \<Longrightarrow> u = u'"
  using path_split [of s h u "[]"] by simp

lemma edge_not_terminal: "edge s s' \<Longrightarrow> s \<notin> TERMINAL_STATES"
  by (auto simp: edge_def dest: legal_step_not_terminal) (auto simp: state_set_defs)

lemma edge_not_from_terminal [simp]: "s \<in> TERMINAL_STATES \<Longrightarrow> \<not> edge s s'"
  using edge_not_terminal by blast

lemma history_simps [simp]:
  "history wid (put_step E u t ob w) = history wid w @ (if tr_workflow_id t = wid then [t] else [])"
  "history wid (put_workflow k x w) = history wid w" "history wid (w\<lparr>ticks := n\<rparr>) = history wid w"
  by (simp_all add: history_def put_step_def put_dispatch_opt_def put_dispatch_def split: option.splits)

lemma row_ok_step:
  assumes "row_ok m h x" and "edge (wf_state x) s'" and "tr_from t = wf_state x" "tr_to t = s'"
    and "rc = (if is_revision t then Some (wf_revision_count x + 1) else None)"
    and "is_revision t \<longrightarrow> wf_revision_count x < m"
  shows "row_ok m (h @ [t]) (advanced E w x s' fr rc)"
  using assms by (auto simp: row_ok_def path_append)

lemma ticks_put_step: "ticks w \<le> ticks (put_step E u t ob w)"
  by (auto simp: put_step_def put_dispatch_opt_def put_dispatch_def put_defs split: option.splits)

lemma engine_inv_ticks: "engine_inv E C w \<Longrightarrow> ticks w \<le> n \<Longrightarrow> engine_inv E C (w\<lparr>ticks := n\<rparr>)"
  unfolding engine_inv_def by (simp, meson order_less_le_trans)

lemma engine_inv_ids_fresh: "engine_inv E C w \<Longrightarrow> fresh_uuids E \<Longrightarrow> ids_fresh E w"
  by (fastforce simp: engine_inv_def ids_fresh_def fresh_uuids_def dest: injD)

lemma engine_inv_keys: "engine_inv E C w \<Longrightarrow> keys_ok wf_id (wf_rows w)"
  by (simp add: engine_inv_def)

lemma engine_inv_get: "engine_inv E C w \<Longrightarrow> get_workflow wid w = Some x \<Longrightarrow>
    wf_id x = wid \<and> row_ok (max_scenario_revisions C) (history wid w) x"
  by (auto simp: engine_inv_def get_workflow_def dest: keys_ok_get)

lemma engine_inv_empty: "engine_inv E C empty_world"
  by (simp add: engine_inv_def empty_world_def get_workflow_def)

text \<open>A state with the same workflow rows and history, reached later.\<close>

lemma engine_inv_frame:
  assumes "engine_inv E C w" and "wf_rows w' = wf_rows w" "tr_rows w' = tr_rows w" "ticks w \<le> ticks w'"
  shows "engine_inv E C w'"
  using engine_inv_ticks [OF assms(1,4)] assms(2,3)
  by (simp add: engine_inv_def get_workflow_def history_def)

lemma engine_inv_put_step:
  assumes inv: "engine_inv E C w" and fresh: "fresh_uuids E"
    and x: "get_workflow (wf_id x) w = Some x"
    and edge: "edge (wf_state x) s'"
    and t: "tr_workflow_id t = wf_id x" "tr_from t = wf_state x" "tr_to t = s'"
    and tid: "tr_id t = env_uuid E k" "k < ticks w" "\<forall>t' \<in> set (tr_rows w). tr_id t' \<noteq> env_uuid E k"
    and rc: "rc = (if is_revision t then Some (wf_revision_count x + 1) else None)"
    and cap: "is_revision t \<longrightarrow> wf_revision_count x < max_scenario_revisions C"
  shows "engine_inv E C (put_step E (advanced E w x s' fr rc) t ob w)" (is "engine_inv E C ?w")
proof -
  let ?u = "advanced E w x s' fr rc"
  have rows: "row_ok (max_scenario_revisions C) (history wid ?w) y" if "get_workflow wid ?w = Some y" for wid y
  proof (cases "wid = wf_id x")
    case True
    with that have "y = ?u" by simp
    moreover have "row_ok (max_scenario_revisions C) (history wid w @ [t]) ?u"
      using engine_inv_get [OF inv x] True edge t rc cap by (intro row_ok_step) auto
    ultimately show ?thesis using True t by simp
  next
    case False
    with that inv t show ?thesis by (auto simp: engine_inv_def)
  qed
  have "keys_ok wf_id (wf_rows ?w)"
    using inv by (simp add: engine_inv_def keys_ok_set')
  moreover have "\<exists>n < ticks ?w. tr_id t' = env_uuid E n" if "t' \<in> set (tr_rows ?w)" for t'
  proof -
    have "\<exists>n < ticks w. tr_id t' = env_uuid E n" using that inv tid(1,2) by (auto simp: engine_inv_def)
    with ticks_put_step [of w E ?u t ob] show ?thesis by (meson order_less_le_trans)
  qed
  moreover have "distinct (map tr_id (tr_rows ?w))"
    using inv tid by (auto simp: engine_inv_def)
  moreover have "get_workflow (tr_workflow_id t') ?w \<noteq> None" if "t' \<in> set (tr_rows ?w)" for t'
    using that inv t by (auto simp: engine_inv_def)
  ultimately show ?thesis using rows by (simp add: engine_inv_def)
qed

lemma engine_inv_new_workflow:
  assumes inv: "engine_inv E C w" and new: "get_workflow wid w = None"
    and x: "x = new_workflow E wid CREATED v"
  shows "engine_inv E C (put_workflow wid x w)"
proof -
  have "history wid w = []"
    using inv new by (auto simp: engine_inv_def history_def filter_empty_conv)
  then have "row_ok m (history wid w) x" for m
    by (simp add: row_ok_def x new_workflow_def)
  moreover have "wf_id x = wid" by (simp add: x new_workflow_def)
  ultimately show ?thesis
    using inv by (auto simp: engine_inv_def keys_ok_set' put_workflow_def get_workflow_def history_def
        less_Suc_eq)
qed

section \<open>Every operation keeps the invariant\<close>

lemma engine_inv_step_effect:
  assumes inv: "engine_inv E C w" and fresh: "fresh_uuids E" and x: "get_workflow wid w = Some x"
    and eff: "step_effect E wid x s' fr rc reason actor task inc w ob t w'"
    and edge: "edge (wf_state x) s'"
    and rc: "rc = (if wf_state x = REVIEWING \<and> s' = REVISION_REQUIRED
                   then Some (wf_revision_count x + 1) else None)"
    and cap: "wf_state x = REVIEWING \<and> s' = REVISION_REQUIRED \<longrightarrow>
                wf_revision_count x < max_scenario_revisions C"
  shows "engine_inv E C w'"
proof -
  from eff obtain n where n: "ticks w < n"
    and t: "tr_id t = env_uuid E (n - 1)" "tr_workflow_id t = wid" "tr_from t = wf_state x" "tr_to t = s'"
    and w': "w' = put_step E (advanced E (w\<lparr>ticks := n\<rparr>) x s' fr rc) t ob (w\<lparr>ticks := n\<rparr>)"
    by (auto simp: step_effect_def)
  have xid: "wf_id x = wid" using engine_inv_get [OF inv x] by simp
  have "engine_inv E C (w\<lparr>ticks := n\<rparr>)" using inv n by (simp add: engine_inv_ticks)
  moreover have "\<forall>t' \<in> set (tr_rows w). tr_id t' \<noteq> env_uuid E (n - 1)"
    using ids_freshD [OF engine_inv_ids_fresh [OF inv fresh], of "n - 1"] n by simp
  ultimately show ?thesis
    unfolding w' using fresh x xid edge t n rc cap
    by (intro engine_inv_put_step [where k = "n - 1"]) (auto simp: is_revision_def)
qed

lemma lookup_cap: "lookup s g c m = Inr d \<Longrightarrow> s = REVIEWING \<Longrightarrow> td_to d = REVISION_REQUIRED \<Longrightarrow> c < m"
  by (cases g) (auto simp: table_defs split: if_splits)

text \<open>
  What an operation never takes back: history rows are only appended, and no workflow disappears.
\<close>

definition extends :: "world \<Rightarrow> world \<Rightarrow> bool" where
  "extends w w' \<longleftrightarrow> ticks w \<le> ticks w' \<and> (\<exists>ts. tr_rows w' = tr_rows w @ ts)
     \<and> (\<forall>wid. get_workflow wid w \<noteq> None \<longrightarrow> get_workflow wid w' \<noteq> None)"

lemma extends_refl [simp]: "extends w w"
  by (simp add: extends_def)

lemma extends_trans: "extends u v \<Longrightarrow> extends v w \<Longrightarrow> extends u w"
  by (fastforce simp: extends_def)

lemma extends_ticks [simp]: "extends w (w\<lparr>ticks := n\<rparr>) \<longleftrightarrow> ticks w \<le> n"
  by (simp add: extends_def)

lemma extends_put_workflow: "extends w (put_workflow k x w)"
  by (auto simp: extends_def) (simp add: put_workflow_def)

lemma extends_put_step: "extends w (put_step E u t ob w)"
  using ticks_put_step by (simp add: extends_def)

lemma step_effect_frame:
  assumes "step_effect E wid x s' fr rc reason actor task inc w ob t w'"
  shows "in_txn w' = in_txn w \<and> extends w w'"
proof -
  from assms obtain n where n: "ticks w < n"
    and w': "w' = put_step E (advanced E (w\<lparr>ticks := n\<rparr>) x s' fr rc) t ob (w\<lparr>ticks := n\<rparr>)"
    by (auto simp: step_effect_def)
  have "extends w (w\<lparr>ticks := n\<rparr>)" using n by simp
  from extends_trans [OF this extends_put_step] show ?thesis by (simp add: w')
qed

lemma edge_approval: "edge AWAITING_HUMAN_APPROVAL (ad_to (lookup_approval action))"
  by (cases action) (simp_all add: edge_def lookup_approval_def)

context workflow_store
begin

text \<open>Either the transition is written in full, or no table changes.\<close>

lemma apply_transition_keeps_inv:
  assumes inv: "engine_inv E C w" and fresh: "fresh_uuids E"
  shows "\<exists>r w'. apply_transition E R C req w = (r, w') \<and> engine_inv E C w' \<and> in_txn w' = in_txn w
           \<and> extends w w' \<and> (isl r \<longrightarrow> same_tables w w')"
proof (cases "refusal C req w")
  case (Some e)
  then show ?thesis using inv by (simp add: apply_transition_refused)
next
  case ok: None
  then obtain x where x: "get_workflow (trq_workflow_id req) w = Some x" and txn: "in_txn w"
    and legal: "\<exists>s'. legal_step (wf_revision_count x) (max_scenario_revisions C) (wf_state x) (trq_signal req) s'"
    by (auto simp: refusal_def split: if_splits option.splits)
  then obtain d where d: "lookup (wf_state x) (trq_signal req) (wf_revision_count x) (max_scenario_revisions C) = Inr d"
    using lookup_ok_iff by metis
  have xid: "wf_id x = trq_workflow_id req" using engine_inv_get [OF inv x] by simp
  let ?rc = "if td_increment_revision_count d then Some (wf_revision_count x + 1) else None"
  consider (raised) e n where "apply_transition E R C req w = (Inl e, w\<lparr>ticks := n\<rparr>)" "ticks w \<le> n"
    | (written) res t ob w' where "apply_transition E R C req w = (Inr res, w')"
      "step_effect E (trq_workflow_id req) x (td_to d) (td_set_failure_reason (effective_decision req d))
         ?rc (trq_reason req) (trq_actor req) (td_outbox_task_type d) (td_increment_logical_version d) w ob t w'"
    using apply_transition_accepted [OF ok engine_inv_ids_fresh [OF inv fresh] x xid d refl] by blast
  then show ?thesis
  proof cases
    case raised
    then show ?thesis using inv by (simp add: engine_inv_ticks)
  next
    case written
    have "engine_inv E C w'"
      using engine_inv_step_effect [OF inv fresh x written(2)] lookup_legal [OF d] lookup_increment [OF d]
        lookup_cap [OF d] by (auto simp: edge_def)
    with written step_effect_frame [OF written(2)] show ?thesis by simp
  qed
qed

lemma apply_approval_keeps_inv:
  assumes inv: "engine_inv E C w" and fresh: "fresh_uuids E"
  shows "\<exists>r w'. apply_approval_action E R wid action actor w = (r, w') \<and> engine_inv E C w'
           \<and> in_txn w' = in_txn w \<and> extends w w' \<and> (isl r \<longrightarrow> same_tables w w')"
proof (cases "approval_refusal wid action w")
  case (Some e)
  then show ?thesis using inv by (simp add: apply_approval_refused)
next
  case ok: None
  then obtain x where x: "get_workflow wid w = Some x" and st: "wf_state x = AWAITING_HUMAN_APPROVAL"
    by (auto simp: approval_refusal_def split: if_splits option.splits)
  have xid: "wf_id x = wid" using engine_inv_get [OF inv x] by simp
  from apply_approval_accepted [OF ok engine_inv_ids_fresh [OF inv fresh] x xid]
  obtain res t ob w' where run: "apply_approval_action E R wid action actor w = (Inr res, w')"
    and eff: "step_effect E wid x (ad_to (lookup_approval action)) None None
         (''approval_'' @ approval_action_value action) actor
         (ad_outbox_task_type (lookup_approval action))
         (ad_increment_logical_version (lookup_approval action)) w ob t w'" by blast
  have "engine_inv E C w'"
    using engine_inv_step_effect [OF inv fresh x eff] st edge_approval by simp
  with run step_effect_frame [OF eff] show ?thesis by simp
qed

lemma initiate_keeps_inv:
  assumes inv: "engine_inv E C w" and fresh: "fresh_uuids E"
  shows "\<exists>r w'. initiate_workflow E R req w = (r, w') \<and> engine_inv E C w'
           \<and> in_txn w' = in_txn w \<and> extends w w' \<and> (isl r \<longrightarrow> same_tables w w')"
proof (cases "\<exists>wid m. in_txn w \<and> allocate E req w = (Inr wid, w\<lparr>ticks := m\<rparr>) \<and> ticks w \<le> m
                \<and> get_workflow wid w = None")
  case False
  then have "\<not> in_txn w \<or> fst (allocate E req w) = Inl ValueError \<or>
     (\<exists>wid m. allocate E req w = (Inr wid, w\<lparr>ticks := m\<rparr>) \<and> ticks w \<le> m \<and> get_workflow wid w \<noteq> None)"
    using allocate_cases [of E req w] by (metis fst_conv)
  from initiate_refused [OF this] inv show ?thesis by (auto simp: engine_inv_ticks)
next
  case True
  then obtain wid m where a: "in_txn w" "allocate E req w = (Inr wid, w\<lparr>ticks := m\<rparr>)" "ticks w \<le> m"
    and new: "get_workflow wid w = None" by blast
  from initiate_accepted [OF a(1) engine_inv_ids_fresh [OF inv fresh] a(2,3) new]
  obtain res x b t where run: "initiate_workflow E R req w
       = (Inr res, put_step E (advanced E (w\<lparr>ticks := m + 5\<rparr>) x COLLECTING None None) t (Some b)
                     (put_workflow wid x (w\<lparr>ticks := m + 4\<rparr>)))"
    and x: "x = new_workflow E wid CREATED (w\<lparr>ticks := m\<rparr>)"
    and t: "t = \<lparr>tr_id = env_uuid E (m + 4), tr_workflow_id = wid, tr_from = CREATED,
            tr_to = COLLECTING, tr_reason = ''workflow_initiated'', tr_occurred_at = env_now E (m + 3),
            tr_actor = (case req of None \<Rightarrow> None | Some r \<Rightarrow> iwr_actor r)\<rparr>" by blast
  let ?w1 = "put_workflow wid x (w\<lparr>ticks := m + 4\<rparr>)"
  have xs: "wf_id x = wid" "wf_state x = CREATED" by (simp_all add: x new_workflow_def)
  have inv1: "engine_inv E C ?w1"
    using inv new a x by (intro engine_inv_new_workflow [where v = "w\<lparr>ticks := m\<rparr>"]) (simp_all add: engine_inv_ticks)
  have t1: "ticks ?w1 = m + 5" by (simp add: put_workflow_def)
  have adv: "advanced E (w\<lparr>ticks := m + 5\<rparr>) x COLLECTING None None = advanced E ?w1 x COLLECTING None None"
    by (simp add: advanced_def t1)
  have "engine_inv E C (put_step E (advanced E ?w1 x COLLECTING None None) t (Some b) ?w1)"
    using ids_freshD [OF engine_inv_ids_fresh [OF inv fresh], of "m + 4"] a xs t t1
    by (intro engine_inv_put_step [OF inv1 fresh, where k = "m + 4"]) (simp_all add: edge_def is_revision_def)
  moreover have "extends w (put_step E (advanced E ?w1 x COLLECTING None None) t (Some b) ?w1)"
    using a(3) extends_trans [OF _ extends_trans [OF extends_put_workflow extends_put_step]] by simp
  ultimately show ?thesis using run a(1) by (simp add: adv)
qed

end

section \<open>Reachable states\<close>

text \<open>
  A process that uses one set of repositories: it opens a transaction, calls engine operations and
  other repository writes in any order, whether they raise or not, and commits or leaves by an
  exception. The second component holds the state at entry while a transaction is open.
\<close>

inductive engine_step ::
  "env \<Rightarrow> repos \<Rightarrow> app_config \<Rightarrow> world \<times> world option \<Rightarrow> world \<times> world option \<Rightarrow> bool"
  for E R C
where
  enter: "rp_tx_enter R w = (Inr (), w1) \<Longrightarrow> engine_step E R C (w, None) (w1, Some w)"
| initiate: "initiate_workflow E R req w = (r, w') \<Longrightarrow> engine_step E R C (w, o0) (w', o0)"
| transition: "apply_transition E R C req w = (r, w') \<Longrightarrow> engine_step E R C (w, o0) (w', o0)"
| approval: "apply_approval_action E R wid action actor w = (r, w') \<Longrightarrow>
    engine_step E R C (w, o0) (w', o0)"
| other: "wf_rows w' = wf_rows w \<Longrightarrow> tr_rows w' = tr_rows w \<Longrightarrow> ticks w \<le> ticks w' \<Longrightarrow>
    engine_step E R C (w, o0) (w', o0)"
| leave: "engine_step E R C (w, Some w0) (rp_tx_exit R w0 raised w, None)"

inductive reachable :: "env \<Rightarrow> repos \<Rightarrow> app_config \<Rightarrow> world \<times> world option \<Rightarrow> bool" for E R C where
  start: "reachable E R C (empty_world, None)"
| step: "reachable E R C s \<Longrightarrow> engine_step E R C s s' \<Longrightarrow> reachable E R C s'"

definition txn_inv :: "env \<Rightarrow> app_config \<Rightarrow> world \<times> world option \<Rightarrow> bool" where
  "txn_inv E C s \<longleftrightarrow> engine_inv E C (fst s)
     \<and> (\<forall>w0. snd s = Some w0 \<longrightarrow> engine_inv E C w0 \<and> ticks w0 \<le> ticks (fst s))"

lemma engine_inv_same_tables:
  "engine_inv E C w \<Longrightarrow> same_tables w w' \<Longrightarrow> ticks w \<le> ticks w' \<Longrightarrow> engine_inv E C w'"
  by (rule engine_inv_frame) (simp_all add: same_tables_def)

context transaction_store
begin

lemma txn_inv_step:
  assumes "engine_step E R C s s'" and fresh: "fresh_uuids E" and "txn_inv E C s"
  shows "txn_inv E C s'"
  using assms(1,3)
proof (induction rule: engine_step.induct)
  case (enter w w1)
  then have "same_tables w w1" "ticks w1 = ticks w" using tx_enter [of w] by auto
  with enter show ?case using engine_inv_same_tables [of E C w w1] by (simp add: txn_inv_def)
next
  case (initiate req w r w' o0)
  then show ?case using initiate_keeps_inv [of C w req] fresh by (fastforce simp: txn_inv_def extends_def)
next
  case (transition req w r w' o0)
  then show ?case using apply_transition_keeps_inv [of C w req] fresh by (fastforce simp: txn_inv_def extends_def)
next
  case (approval wid action actor w r w' o0)
  then show ?case using apply_approval_keeps_inv [of C w wid action actor] fresh
    by (fastforce simp: txn_inv_def extends_def)
next
  case (other w' w o0)
  then show ?case using engine_inv_frame [of E C w w'] by (fastforce simp: txn_inv_def extends_def)
next
  case (leave w w0 raised)
  let ?v = "rp_tx_exit R w0 raised w"
  have "engine_inv E C w" "engine_inv E C w0" "ticks w0 \<le> ticks ?v" "ticks w \<le> ticks ?v"
    using leave tx_exit [of w0 raised w] by (auto simp: txn_inv_def)
  then have "engine_inv E C ?v"
    using tx_exit [of w0 raised w] engine_inv_same_tables by metis
  then show ?case by (simp add: txn_inv_def)
qed

lemma reachable_inv:
  assumes "reachable E R C (w, o0)" and "fresh_uuids E"
  shows "engine_inv E C w"
proof -
  have "txn_inv E C s" if "reachable E R C s" for s
    using that
  proof (induction rule: reachable.induct)
    case start
    show ?case by (simp add: txn_inv_def engine_inv_empty)
  next
    case (step s s')
    then show ?case using txn_inv_step assms(2) by blast
  qed
  with assms(1) show ?thesis by (force simp: txn_inv_def)
qed

end

section \<open>Histories of reachable workflows\<close>

text \<open>A path visits a terminal state only at its end.\<close>

lemma path_terminal_last:
  assumes "path s h s'" and "t \<in> set h" and "tr_to t \<in> TERMINAL_STATES"
  shows "t = last h \<and> s' = tr_to t"
  using assms by (induction s h s' rule: path.induct) (auto split: if_splits elim: path.elims)

section \<open>Guarantee of a computation\<close>

text \<open>
  \<open>engine_guar\<close> relates the states before and after a computation: the invariant is kept and
  nothing is taken back. It is closed under composition and transactions, so that components which
  call the engine inherit it.
\<close>

definition engine_guar :: "env \<Rightarrow> app_config \<Rightarrow> world \<Rightarrow> world \<Rightarrow> bool" where
  "engine_guar E C w w' \<longleftrightarrow> (engine_inv E C w \<longrightarrow> engine_inv E C w' \<and> extends w w')"

lemma engine_guar_refl: "reflp (engine_guar E C)"
  by (simp add: reflp_def engine_guar_def)

lemma engine_guar_trans: "transp (engine_guar E C)"
  using extends_trans by (fastforce simp: transp_def engine_guar_def)

lemmas guar_intro = evolves_intro engine_guar_refl engine_guar_trans

lemma engine_guar_frame:
  "wf_rows w' = wf_rows w \<Longrightarrow> tr_rows w' = tr_rows w \<Longrightarrow> ticks w \<le> ticks w' \<Longrightarrow> engine_guar E C w w'"
  using engine_inv_frame [of E C w w'] by (auto simp: engine_guar_def extends_def get_workflow_def)

lemma evolves_guar_frame:
  assumes "\<And>w r w'. m w = (r, w') \<Longrightarrow> wf_rows w' = wf_rows w \<and> tr_rows w' = tr_rows w \<and> ticks w \<le> ticks w'"
  shows "evolves (engine_guar E C) m"
  unfolding evolves_def using assms engine_guar_frame by (metis prod.collapse)

lemma guar_utc_now: "evolves (engine_guar E C) (utc_now E')"
  by (rule evolves_guar_frame) (auto simp: utc_now_def)

text \<open>A terminal workflow keeps its row's state, version and revision count under the guarantee.\<close>

lemma engine_guar_terminal:
  assumes "engine_guar E C w w'" and inv: "engine_inv E C w"
    and x: "get_workflow wid w = Some x" and term_x: "wf_state x \<in> TERMINAL_STATES"
  shows "\<exists>x'. get_workflow wid w' = Some x' \<and> wf_state x' = wf_state x \<and> wf_version x' = wf_version x
    \<and> wf_revision_count x' = wf_revision_count x"
proof -
  from assms have inv': "engine_inv E C w'" and ext: "extends w w'" by (auto simp: engine_guar_def)
  from ext x obtain x' where x': "get_workflow wid w' = Some x'" by (auto simp: extends_def)
  from ext obtain h where h: "history wid w' = history wid w @ h" by (auto simp: extends_def history_def)
  have p: "path CREATED (history wid w) (wf_state x)" "path CREATED (history wid w @ h) (wf_state x')"
    using engine_inv_get [OF inv x] engine_inv_get [OF inv' x'] h by (auto simp: row_ok_def)
  have "path (wf_state x) h (wf_state x')" using p path_split by blast
  with term_x have "h = []" by (cases h) auto
  with h engine_inv_get [OF inv x] engine_inv_get [OF inv' x'] p x' show ?thesis
    by (auto simp: row_ok_def dest: path_end)
qed

context workflow_store
begin

lemma guar_apply_transition: "fresh_uuids E \<Longrightarrow> evolves (engine_guar E C) (apply_transition E R C req)"
  using apply_transition_keeps_inv [of C _ req] by (fastforce simp: evolves_def engine_guar_def)

lemma guar_apply_approval: "fresh_uuids E \<Longrightarrow> evolves (engine_guar E C) (apply_approval_action E R wid a actor)"
  using apply_approval_keeps_inv [of C _ wid a actor] by (fastforce simp: evolves_def engine_guar_def)

lemma guar_initiate: "fresh_uuids E \<Longrightarrow> evolves (engine_guar E C) (initiate_workflow E R req)"
  using initiate_keeps_inv [of C _ req] by (fastforce simp: evolves_def engine_guar_def)

end

context transaction_store
begin

lemma guar_with_transaction:
  assumes "evolves (engine_guar E C) body"
  shows "evolves (engine_guar E C) (with_transaction R body)"
  unfolding evolves_def engine_guar_def
proof (intro allI impI)
  fix w assume inv: "engine_inv E C w"
  obtain r w1 where en: "rp_tx_enter R w = (r, w1)" "same_tables w w1" "ticks w1 = ticks w"
    using tx_enter by blast
  have e1: "engine_inv E C w1 \<and> extends w w1"
    using engine_inv_same_tables [OF inv en(2)] en by (auto simp: extends_def same_tables_def get_workflow_def)
  show "engine_inv E C (snd (with_transaction R body w)) \<and> extends w (snd (with_transaction R body w))"
  proof (cases r)
    case Inl
    with en e1 show ?thesis by (simp add: with_transaction_def)
  next
    case Inr
    obtain r2 w2 where b: "body w1 = (r2, w2)" by (cases "body w1")
    with assms e1 have e2: "engine_inv E C w2" "extends w w2"
      using extends_trans by (fastforce simp: evolves_def engine_guar_def)+
    let ?v = "rp_tx_exit R w (isl r2) w2"
    have "engine_guar E C w2 ?v" if "same_tables w2 ?v"
      using that tx_exit [of w "isl r2" w2] by (intro engine_guar_frame) (simp_all add: same_tables_def)
    moreover have "engine_guar E C w ?v" if "same_tables w ?v"
      using that tx_exit [of w "isl r2" w2] e2 by (intro engine_guar_frame) (simp_all add: same_tables_def extends_def)
    ultimately have "engine_inv E C ?v \<and> extends w ?v"
      using tx_exit [of w "isl r2" w2] inv e2 extends_trans by (fastforce simp: engine_guar_def)
    with en b Inr show ?thesis by (simp add: with_transaction_def)
  qed
qed

end

section \<open>Progress\<close>

text \<open>
  Accepted signals without a human decision: a bound on how many can follow one another. \<open>advance\<close>
  folds the table over a list of signals, updating the revision count the way the engine does.
\<close>

fun stages_left :: "workflow_state \<Rightarrow> nat" where
  "stages_left CREATED = 9" | "stages_left COLLECTING = 8" | "stages_left COLLECTED = 7"
| "stages_left SELECTING_TOPIC = 6" | "stages_left TOPIC_SELECTED = 5"
| "stages_left REVISION_REQUIRED = 5" | "stages_left GENERATING_SCENARIO = 4"
| "stages_left SCENARIO_GENERATED = 3" | "stages_left REVIEWING = 2" | "stages_left REVIEW_PASSED = 1"
| "stages_left _ = 0"

definition work_left :: "int \<Rightarrow> workflow_state \<Rightarrow> int \<Rightarrow> nat" where
  "work_left m s c = stages_left s + 4 * nat (m - c)"

fun advance :: "int \<Rightarrow> workflow_state \<Rightarrow> int \<Rightarrow> transition_signal list \<Rightarrow> (workflow_state \<times> int) option" where
  "advance m s c [] = Some (s, c)"
| "advance m s c (g # gs) =
     (case lookup s g c m of
        Inl _ \<Rightarrow> None
      | Inr d \<Rightarrow> advance m (td_to d) (if td_increment_revision_count d then c + 1 else c) gs)"

lemma lookup_work_left:
  assumes "lookup s g c m = Inr d"
  shows "work_left m (td_to d) (if td_increment_revision_count d then c + 1 else c) < work_left m s c"
  using assms by (cases s; cases g) (auto simp: table_defs work_left_def split: if_splits)

lemma advance_bound:
  "advance m s c gs = Some (s', c') \<Longrightarrow> length gs + work_left m s' c' \<le> work_left m s c"
proof (induction gs arbitrary: s c)
  case (Cons g gs)
  then obtain d where d: "lookup s g c m = Inr d"
    and rest: "advance m (td_to d) (if td_increment_revision_count d then c + 1 else c) gs = Some (s', c')"
    by (auto split: sum.splits)
  from Cons.IH [OF rest] lookup_work_left [OF d] show ?case by simp
qed simp

end
