(* ===== verification/Demo.thy ===== *)
theory Demo
  imports Engine_Invariants
begin

text \<open>
  A concrete environment, configuration and run of the engine, on which the properties with
  hypotheses are instantiated. Identifiers are the decimal numerals and the clock counts the calls.
\<close>

definition demo_env :: env where
  "demo_env = \<lparr>env_now = int, env_uuid = show_nat\<rparr>"

definition demo_config :: app_config where
  "demo_config =
     \<lparr>max_scenario_revisions = 2,
      cfg_workers = \<lparr>topic_selector_concurrency = 1, scenario_generator_concurrency = 1,
                     critic_concurrency = 1\<rparr>,
      cfg_retry = (\<lambda>_. Some \<lparr>max_attempts = 3,
                     backoff = \<lparr>initial_seconds = 1, multiplier = 2, max_seconds = 60\<rparr>\<rparr>),
      cfg_failure_injection = \<lparr>fi_enabled = False, fi_active_injections = []\<rparr>\<rparr>"

definition demo_initiate :: initiate_workflow_request where
  "demo_initiate = \<lparr>iwr_workflow_id = Some ''wf-1'', iwr_correlation_id = None, iwr_actor = None\<rparr>"

definition demo_signal :: "workflow_state \<Rightarrow> transition_signal \<Rightarrow> transition_request" where
  "demo_signal s g =
     \<lparr>trq_workflow_id = ''wf-1'', trq_expected_state = s, trq_signal = g, trq_reason = ''done'',
      trq_actor = None, trq_completing_task_id = None, trq_idempotency_key = None\<rparr>"

text \<open>The state inside a transaction that has initiated one workflow.\<close>

definition demo_open :: world where
  "demo_open = empty_world\<lparr>in_txn := True, txn_depth := 1\<rparr>"

definition demo_started :: world where
  "demo_started = snd (initiate_workflow demo_env (workflow_repos demo_env) (Some demo_initiate) demo_open)"

text \<open>The same workflow waiting for a reviewer's verdict.\<close>

definition demo_row :: "workflow_state \<Rightarrow> workflow_record" where
  "demo_row s = \<lparr>wf_id = ''wf-1'', wf_state = s, wf_version = 2, wf_created_at = 0,
     wf_updated_at = 5, wf_revision_count = 0, wf_failure_reason = None\<rparr>"

definition demo_in_state :: "workflow_state \<Rightarrow> world" where
  "demo_in_state s = demo_open\<lparr>wf_rows := [(''wf-1'', demo_row s)]\<rparr>"

lemma demo_fresh: "fresh_uuids demo_env"
  by (simp add: fresh_uuids_def demo_env_def inj_def) (metis read_show_nat)

lemma demo_started_row:
  "get_workflow ''wf-1'' demo_started = Some (demo_row COLLECTING)"
  by code_simp

lemma demo_reachable:
  "reachable demo_env (workflow_repos demo_env) C (demo_started, Some empty_world)"
proof -
  have "engine_step demo_env (workflow_repos demo_env) C (empty_world, None) (demo_open, Some empty_world)"
    by (rule engine_step.enter)
       (simp add: workflow_repos_def wk_tx_enter_def demo_open_def empty_world_def)
  moreover have "engine_step demo_env (workflow_repos demo_env) C (demo_open, Some empty_world)
      (demo_started, Some empty_world)"
    by (rule engine_step.initiate [where req = "Some demo_initiate"
          and r = "fst (initiate_workflow demo_env (workflow_repos demo_env) (Some demo_initiate) demo_open)"])
       (simp add: demo_started_def)
  ultimately show ?thesis by (blast intro: reachable.intros)
qed

lemma demo_in_state_simps [simp]:
  "get_workflow ''wf-1'' (demo_in_state s) = Some (demo_row s)" "in_txn (demo_in_state s)"
  "keys_ok wf_id (wf_rows (demo_in_state s))" "wf_state (demo_row s) = s" "wf_id (demo_row s) = ''wf-1''"
  "wf_revision_count (demo_row s) = 0" "tr_rows (demo_in_state s) = []" "ids_fresh demo_env (demo_in_state s)"
  by (simp_all add: demo_in_state_def demo_row_def demo_open_def empty_world_def get_workflow_def
      keys_ok_def ids_fresh_def)

end
