(* ===== verification/Engine_Properties.thy ===== *)
theory Engine_Properties
  imports Demo
begin

text \<open>
  What the workflow engine guarantees, stated on the two sets of in-memory repositories of the
  program: the ones of \<open>persistence/fakes\<close> and the ones of \<open>workflow/fakes\<close>.
\<close>

section \<open>Histories\<close>

abbreviation in_memory_repos :: "env \<Rightarrow> repos set" where
  "in_memory_repos E \<equiv> {workflow_repos E, persistence_repos E}"

lemma reachable_engine_inv:
  assumes "R \<in> in_memory_repos E" and "fresh_uuids E" and "reachable E R C (w, o0)"
  shows "engine_inv E C w"
  using assms wk.reachable_inv [of E C w o0] pf.reachable_inv [of E C w o0] by blast

text \<open>
  C1. In every reachable state the stored history of a workflow is a path of the state diagram from
  \<open>CREATED\<close> to its current state, the version is one more than the number of history rows, and
  the revision count is the number of revisions in the history and never exceeds the configured
  maximum; no two history rows share an identifier.
\<close>

theorem reachable_history:
  assumes "R \<in> in_memory_repos E" and "fresh_uuids E" and "reachable E R C (w, o0)"
    and "get_workflow wid w = Some x"
  shows "path CREATED (history wid w) (wf_state x)
    \<and> wf_version x = 1 + int (length (history wid w))
    \<and> wf_revision_count x = int (length (filter is_revision (history wid w)))
    \<and> wf_revision_count x \<le> max 0 (max_scenario_revisions C)
    \<and> distinct (map tr_id (history wid w))"
proof -
  have inv: "engine_inv E C w" using assms by (blast intro: reachable_engine_inv)
  then have "distinct (map tr_id (history wid w))"
    by (auto simp: engine_inv_def history_def distinct_map_filter)
  with engine_inv_get [OF inv assms(4)] show ?thesis by (simp add: row_ok_def)
qed

theorem reachable_history_witness:
  "path CREATED (history ''wf-1'' demo_started) COLLECTING \<and> length (history ''wf-1'' demo_started) = 1"
  using reachable_history [of "workflow_repos demo_env" demo_env demo_config demo_started "Some empty_world"
      "''wf-1''" "demo_row COLLECTING"] demo_fresh demo_reachable demo_started_row
  by (simp add: demo_row_def)

text \<open>
  C2. Terminal states are absorbing: in a reachable state, a history row that enters a terminal state
  is the last row of its workflow, and the workflow is still in that state.
\<close>

theorem terminal_is_final:
  assumes "R \<in> in_memory_repos E" and "fresh_uuids E" and "reachable E R C (w, o0)"
    and "get_workflow wid w = Some x"
    and "t \<in> set (history wid w)" and "tr_to t \<in> TERMINAL_STATES"
  shows "t = last (history wid w) \<and> wf_state x = tr_to t"
proof -
  have inv: "engine_inv E C w" using assms by (blast intro: reachable_engine_inv)
  then have "path CREATED (history wid w) (wf_state x)"
    using engine_inv_get [OF inv assms(4)] by (simp add: row_ok_def)
  then show ?thesis by (rule path_terminal_last) (use assms in auto)
qed

definition demo_failed :: world where
  "demo_failed = snd (apply_transition demo_env (workflow_repos demo_env) demo_config
     (demo_signal COLLECTING SIG_UNRECOVERABLE_ERROR) demo_started)"

lemma demo_failed_row:
  "map_option wf_state (get_workflow ''wf-1'' demo_failed) = Some FAILED"
  "map tr_to (history ''wf-1'' demo_failed) = [COLLECTING, FAILED]"
  by code_simp+

lemma demo_failed_reachable:
  "reachable demo_env (workflow_repos demo_env) demo_config (demo_failed, Some empty_world)"
  by (rule reachable.step [OF demo_reachable], rule engine_step.transition, rule prod_eqI)
     (simp_all only: fst_conv snd_conv demo_failed_def)

theorem terminal_is_final_witness:
  "\<exists>x t. t \<in> set (history ''wf-1'' demo_failed) \<and> tr_to t = FAILED
     \<and> t = last (history ''wf-1'' demo_failed) \<and> wf_state x = FAILED
     \<and> get_workflow ''wf-1'' demo_failed = Some x"
proof -
  obtain x where x: "get_workflow ''wf-1'' demo_failed = Some x"
    using demo_failed_row(1) by auto
  have "FAILED \<in> set (map tr_to (history ''wf-1'' demo_failed))" by (simp add: demo_failed_row(2))
  then obtain t where t: "t \<in> set (history ''wf-1'' demo_failed)" "tr_to t = FAILED"
    unfolding set_map by force
  have "tr_to t \<in> TERMINAL_STATES" using t by (simp add: state_set_defs)
  with terminal_is_final [OF _ demo_fresh demo_failed_reachable x t(1)] x t show ?thesis by auto
qed

section \<open>Transitions\<close>



text \<open>
  C4. A transition request that must be refused (no open transaction, unknown workflow, another
  current state than expected, a signal the state diagram does not allow) raises exactly the
  exception \<open>refusal\<close> names and changes nothing, with either set of repositories.
\<close>

theorem transition_refused:
  assumes "R \<in> in_memory_repos E" and "refusal C req w = Some e"
  shows "apply_transition E R C req w = (Inl e, w)"
  using assms wk.apply_transition_refused pf.apply_transition_refused by blast

theorem transition_refused_witness:
  "apply_transition demo_env (persistence_repos demo_env) demo_config
     (demo_signal COLLECTING SIG_STAGE_COMPLETED) (demo_in_state APPROVED)
   = (Inl (WorkflowConflictError ''wf-1''), demo_in_state APPROVED)"
  by (rule transition_refused) (simp_all add: refusal_def demo_signal_def)

section \<open>Approval and initiation\<close>

text \<open>
  C5. An approval action on a workflow that awaits approval moves it to the state of the approval
  matrix and writes one history row naming the action, and for a regeneration one
  \<open>GENERATE_SCENARIO\<close> task with a fresh logical version; in any other situation it raises the
  exception \<open>approval_refusal\<close> names and changes nothing.
\<close>

theorem approval_decided:
  assumes "R \<in> in_memory_repos E" and "ids_fresh E w" and "keys_ok wf_id (wf_rows w)"
  shows "case approval_refusal wid action w of
      Some e \<Rightarrow> apply_approval_action E R wid action actor w = (Inl e, w)
    | None \<Rightarrow> \<exists>x res t ob w'. get_workflow wid w = Some x
        \<and> apply_approval_action E R wid action actor w = (Inr res, w')
        \<and> step_effect E wid x (ad_to (lookup_approval action)) None None
            (''approval_'' @ approval_action_value action) actor
            (ad_outbox_task_type (lookup_approval action))
            (ad_increment_logical_version (lookup_approval action)) w ob t w'
        \<and> aar_to res = ad_to (lookup_approval action) \<and> aar_version res = wf_version x + 1"
proof (cases "approval_refusal wid action w")
  case (Some e)
  with assms(1) show ?thesis using wk.apply_approval_refused pf.apply_approval_refused by auto
next
  case None
  then obtain x where x: "get_workflow wid w = Some x"
    by (auto simp: approval_refusal_def split: if_splits option.splits)
  then have "wf_id x = wid" using assms(3) by (auto simp: get_workflow_def dest: keys_ok_get)
  with None x assms(1,2) wk.apply_approval_accepted [of wid action w] pf.apply_approval_accepted [of wid action w]
  show ?thesis by fastforce
qed

theorem approval_decided_witness:
  "\<exists>res w'. apply_approval_action demo_env (persistence_repos demo_env) ''wf-1'' REQUEST_REGENERATION None
       (demo_in_state AWAITING_HUMAN_APPROVAL) = (Inr res, w') \<and> aar_to res = GENERATING_SCENARIO"
  using approval_decided [of "persistence_repos demo_env" demo_env
      "demo_in_state AWAITING_HUMAN_APPROVAL" "''wf-1''" REQUEST_REGENERATION None]
  by (auto simp: approval_refusal_def lookup_approval_def)

text \<open>
  C6. Initiating inside a transaction an identifier that is not stored creates the workflow in
  \<open>CREATED\<close>, takes it to \<open>COLLECTING\<close> at version 2 with one history row, and dispatches one
  \<open>COLLECT\<close> task with logical version 1.
\<close>

theorem initiate_written:
  assumes "R \<in> in_memory_repos E" and "in_txn w" and "ids_fresh E w"
    and "allocate E req w = (Inr wid, w\<lparr>ticks := m\<rparr>)" and "ticks w \<le> m" and "get_workflow wid w = None"
  shows "\<exists>res x b t. initiate_workflow E R req w
       = (Inr res, put_step E (advanced E (w\<lparr>ticks := m + 5\<rparr>) x COLLECTING None None) t (Some b)
                     (put_workflow wid x (w\<lparr>ticks := m + 4\<rparr>)))
     \<and> x = new_workflow E wid CREATED (w\<lparr>ticks := m\<rparr>)
     \<and> dispatch_ok x COLLECT 1 1 b
     \<and> tr_from t = CREATED \<and> tr_to t = COLLECTING \<and> tr_workflow_id t = wid
     \<and> iws_workflow_id res = wid \<and> iws_state res = COLLECTING \<and> iws_version res = 2
     \<and> iws_enqueued_task res = obr_task_spec b"
  using assms wk.initiate_accepted [of w E req wid m] pf.initiate_accepted [of w E req wid m]
  by fastforce

theorem initiate_written_witness:
  "\<exists>res w'. initiate_workflow demo_env (persistence_repos demo_env) (Some demo_initiate) demo_open = (Inr res, w')
     \<and> iws_version res = 2"
proof -
  have "allocate demo_env (Some demo_initiate) demo_open = (Inr ''wf-1'', demo_open\<lparr>ticks := 0\<rparr>)"
    by code_simp
  from initiate_written [OF _ _ _ this, of "persistence_repos demo_env"] show ?thesis
    by (fastforce simp: demo_open_def empty_world_def ids_fresh_def get_workflow_def)
qed

section \<open>The state diagram\<close>

text \<open>
  C7. The table refines the state diagram: a signal is accepted exactly when the diagram has a step
  for it, and the decision leads where the diagram says; otherwise the lookup raises
  \<open>InvalidTransitionError\<close> for that state and signal.
\<close>

theorem lookup_refines:
  "(case lookup s g c m of
      Inr d \<Rightarrow> legal_step c m s g (td_to d) \<and> (\<forall>s'. legal_step c m s g s' \<longleftrightarrow> s' = td_to d)
    | Inl e \<Rightarrow> (\<nexists>s'. legal_step c m s g s') \<and> e = InvalidTransitionError '''' s g)"
proof (cases "lookup s g c m")
  case (Inl e)
  then show ?thesis using lookup_ok_iff [of s g c m] by (auto dest: lookup_error)
next
  case (Inr d)
  then have "legal_step c m s g s' \<longleftrightarrow> s' = td_to d" for s'
    using lookup_Inr_to [of s g c m s'] by auto
  with Inr show ?thesis by simp
qed

text \<open>
  C8. Without a human decision a workflow cannot run forever: starting in \<open>COLLECTING\<close>, at most
  \<open>8 + 4 * m\<close> signals in a row are accepted, \<open>m\<close> being the configured number of revisions.
\<close>

theorem autonomous_bound:
  assumes "advance m COLLECTING 0 gs = Some (s', c')"
  shows "length gs \<le> 8 + 4 * nat m"
  using advance_bound [OF assms] by (simp add: work_left_def)

theorem autonomous_bound_witness:
  "length [SIG_STAGE_COMPLETED, SIG_STAGE_COMPLETED, SIG_STAGE_COMPLETED, SIG_STAGE_COMPLETED,
     SIG_STAGE_COMPLETED, SIG_STAGE_COMPLETED, SIG_CRITIC_REVISE, SIG_STAGE_COMPLETED,
     SIG_STAGE_COMPLETED, SIG_STAGE_COMPLETED, SIG_CRITIC_PASS, SIG_STAGE_COMPLETED] \<le> 8 + 4 * nat 1"
  by (rule autonomous_bound [where s' = AWAITING_HUMAN_APPROVAL and c' = 1]) code_simp

text \<open>
  The task a transition dispatches is the one reconciliation expects for the state it enters,
  except on entering \<open>GENERATING_SCENARIO\<close>, which expects none and gets a task only when it is
  entered for a revision.
\<close>

theorem dispatch_matches_expectation:
  assumes "lookup s g c m = Inr d"
  shows "td_outbox_task_type d =
    (if td_to d = GENERATING_SCENARIO \<and> s = REVISION_REQUIRED then Some GENERATE_SCENARIO
     else expected_outbox_task (td_to d))"
  using assms by (cases s; cases g)
    (auto simp: table_defs expected_outbox_task_def EXPECTED_OUTBOX_BY_STATE_def split: if_splits)

theorem dispatch_matches_expectation_witness:
  "\<exists>d. lookup COLLECTING SIG_STAGE_COMPLETED 0 2 = Inr d \<and> td_outbox_task_type d = expected_outbox_task (td_to d)"
proof -
  obtain d where d: "lookup COLLECTING SIG_STAGE_COMPLETED 0 2 = Inr d" by (simp add: table_defs)
  with dispatch_matches_expectation [OF d] show ?thesis by auto
qed

section \<open>Transactions and revisions\<close>

text \<open>
  A transaction of \<open>persistence/fakes\<close> is atomic: when the body raises, every table is what
  it was before the transaction was opened.
\<close>

theorem transaction_rolls_back:
  assumes "with_transaction (persistence_repos E) body w = (Inl e, w')"
  shows "same_tables w w'"
  using assms by (rule pf.with_transaction_atomic)

theorem transaction_rolls_back_witness:
  "same_tables empty_world (snd (with_transaction (persistence_repos demo_env)
     (bindE (initiate_workflow demo_env (persistence_repos demo_env) (Some demo_initiate)) (\<lambda>_. raise KeyError :: (world, unit) prog))
     empty_world))"
proof -
  have "fst (with_transaction (persistence_repos demo_env)
     (bindE (initiate_workflow demo_env (persistence_repos demo_env) (Some demo_initiate)) (\<lambda>_. raise KeyError :: (world, unit) prog))
     empty_world) = Inl KeyError" by code_simp
  then show ?thesis by (intro transaction_rolls_back [where e = KeyError] prod_eqI) simp_all
qed

text \<open>
  C11. The repositories of \<open>persistence/\<close> do not take the \<open>revision_count\<close> argument that the
  executor passes: below the revision limit, the verdict \<open>CRITIC_REVISE\<close> on a workflow under
  review raises \<open>TypeError\<close> there, so no revision is ever recorded.
\<close>

theorem revision_unsupported:
  assumes "refusal C req w = None" and "ids_fresh E w" and "keys_ok wf_id (wf_rows w)"
    and "get_workflow (trq_workflow_id req) w = Some x"
    and "trq_signal req = SIG_CRITIC_REVISE" and "wf_revision_count x < max_scenario_revisions C"
  shows "\<exists>n. apply_transition E (persistence_repos E) C req w = (Inl TypeError, w\<lparr>ticks := n\<rparr>)"
proof -
  from assms have st: "wf_state x = REVIEWING"
    by (auto simp: refusal_def split: if_splits elim: legal_step_E)
  then obtain d where d: "lookup (wf_state x) (trq_signal req) (wf_revision_count x) (max_scenario_revisions C) = Inr d"
    and inc: "td_increment_revision_count d"
    using assms by (simp add: table_defs)
  have xid: "wf_id x = trq_workflow_id req" using assms(3,4) by (auto simp: get_workflow_def dest: keys_ok_get)
  have upd: "catchE (rp_update_workflow_state (persistence_repos E) (wf_id x) (wf_version x) (td_to d) fr
      (Some c)) (map_update_error (wf_id x)) v = (Inl TypeError, v)" for fr c v
    by (simp add: persistence_repos_def store_simps catchE_def map_update_error_def py_simps)
  from pf.apply_transition_accepted [OF assms(1,2,4) xid d refl] show ?thesis
    by (auto simp: inc upd)
qed

theorem revision_unsupported_witness:
  "\<exists>n. apply_transition demo_env (persistence_repos demo_env) demo_config
      (demo_signal REVIEWING SIG_CRITIC_REVISE) (demo_in_state REVIEWING)
    = (Inl TypeError, (demo_in_state REVIEWING)\<lparr>ticks := n\<rparr>)"
proof -
  have "legal_step 0 (max_scenario_revisions demo_config) REVIEWING SIG_CRITIC_REVISE REVISION_REQUIRED"
    by (intro legal_step.intros) (simp add: demo_config_def)
  then have "refusal demo_config (demo_signal REVIEWING SIG_CRITIC_REVISE) (demo_in_state REVIEWING) = None"
    by (auto simp: refusal_def demo_signal_def)
  then show ?thesis
    by (rule revision_unsupported [where x = "demo_row REVIEWING"]) (simp_all add: demo_signal_def demo_config_def)
qed

end
