(* ===== verification/Reconcile.thy ===== *)
theory Reconcile
  imports Engine_Invariants
begin

text \<open>
  \<open>workflow/reconcile.py\<close>: the scanner that looks for workflows whose stored state and task
  outbox do not fit, and repairs them. A scan collects at most one candidate per workflow, checks
  each one again against the current row, and either dispatches the missing task, fails the
  workflow, or only reports it. Optional repository methods that the code looks up with
  \<open>getattr\<close> are the optional fields of \<open>repos\<close>.
\<close>

section \<open>Types\<close>

datatype pattern_id = RP_001 | RP_002 | RP_003 | RP_004

record reconciliation_candidate =
  rc_workflow :: workflow_record
  rc_pattern_id :: pattern_id
  rc_expected_task_type :: "task_type option"
  rc_detail :: "string option"

record stuck_state_evaluation =
  se_is_stuck :: bool
  se_threshold :: "microseconds option"
  se_elapsed :: microseconds
  se_in_flight_task :: bool

record reconciliation_report =
  rr_workflow_id :: string
  rr_repair_action :: pattern_id
  rr_repaired :: bool
  rr_detail :: "string option"

record reconciliation_result =
  rs_scanned_count :: int
  rs_repaired_count :: int
  rs_reports :: "reconciliation_report list"

text \<open>The scanner's collaborators; the overrides replace the default stuck thresholds.\<close>

record scanner =
  sc_env :: env
  sc_repos :: repos
  sc_config :: app_config
  sc_stuck_overrides :: "workflow_state \<rightharpoonup> microseconds"

definition IN_FLIGHT :: "task_status set" where
  "IN_FLIGHT = {TS_PENDING, TS_DISPATCHED, TS_IN_PROGRESS}"

fun PATTERN_PRIORITY :: "pattern_id \<Rightarrow> nat" where
  "PATTERN_PRIORITY RP_003 = 0" | "PATTERN_PRIORITY RP_001 = 1"
| "PATTERN_PRIORITY RP_002 = 2" | "PATTERN_PRIORITY RP_004 = 3"

section \<open>Evaluation of one workflow\<close>

definition latest_task_of_type :: "task_record list \<Rightarrow> task_type \<Rightarrow> task_record option" where
  "latest_task_of_type tasks task =
     (case filter (\<lambda>t. tk_type t = task) tasks of
        [] \<Rightarrow> None
      | t # ts \<Rightarrow> Some (max_by tk_created_at t ts))"

definition has_unpublished :: "outbox_entry list \<Rightarrow> task_type \<Rightarrow> bool" where
  "has_unpublished unpublished task = (\<exists>e \<in> set unpublished. ob_task_type e = task)"

definition threshold_for :: "scanner \<Rightarrow> workflow_state \<Rightarrow> microseconds option" where
  "threshold_for sc state =
     (case sc_stuck_overrides sc state of Some t \<Rightarrow> Some t | None \<Rightarrow> stuck_threshold state)"

definition rp001_expected_task ::
  "workflow_record \<Rightarrow> task_record list \<Rightarrow> outbox_entry list \<Rightarrow> (world, task_type option) prog"
where
  "rp001_expected_task workflow tasks unpublished =
     bindE (to_domain_workflow_state (state_value (wf_state workflow))) (\<lambda>state.
     if state \<noteq> GENERATING_SCENARIO then ret (expected_outbox_task state)
     else
       (case latest_task_of_type tasks GENERATE_SCENARIO of
          None \<Rightarrow> ret None
        | Some latest_gen \<Rightarrow>
            if tk_status latest_gen \<in> IN_FLIGHT then ret None
            else if has_unpublished unpublished GENERATE_SCENARIO then ret None
            else ret (Some GENERATE_SCENARIO)))"

definition is_stuck_retriable :: "task_record option \<Rightarrow> retry_policy \<Rightarrow> bool" where
  "is_stuck_retriable latest_task policy =
     ((case latest_task of None \<Rightarrow> 0 | Some t \<Rightarrow> tk_attempt t) < max_attempts policy)"

definition evaluate_rp003 ::
  "scanner \<Rightarrow> workflow_record \<Rightarrow> task_record option \<Rightarrow> (world, stuck_state_evaluation) prog"
where
  "evaluate_rp003 sc workflow latest_task =
     bindE (to_domain_workflow_state (state_value (wf_state workflow))) (\<lambda>state.
     let threshold = threshold_for sc state in
     bindE (utc_now (sc_env sc)) (\<lambda>now.
     let elapsed = now - wf_updated_at workflow;
         in_flight = (case latest_task of None \<Rightarrow> False | Some t \<Rightarrow> tk_status t \<in> IN_FLIGHT);
         over = (case threshold of None \<Rightarrow> False | Some th \<Rightarrow> elapsed > th)
     in ret \<lparr>se_is_stuck = (over \<and> \<not> in_flight), se_threshold = threshold, se_elapsed = elapsed,
             se_in_flight_task = in_flight\<rparr>))"

section \<open>Candidates\<close>

text \<open>One entry per workflow identifier, in order of first occurrence, with the most urgent pattern.\<close>

definition dedupe_step ::
  "(string, reconciliation_candidate) dict \<Rightarrow> reconciliation_candidate \<Rightarrow>
   (string, reconciliation_candidate) dict"
where
  "dedupe_step by_id cand =
     (case dict_get by_id (wf_id (rc_workflow cand)) of
        None \<Rightarrow> dict_set (wf_id (rc_workflow cand)) cand by_id
      | Some existing \<Rightarrow>
          if PATTERN_PRIORITY (rc_pattern_id cand) < PATTERN_PRIORITY (rc_pattern_id existing)
          then dict_set (wf_id (rc_workflow cand)) cand by_id else by_id)"

definition dedupe_candidates :: "reconciliation_candidate list \<Rightarrow> reconciliation_candidate list" where
  "dedupe_candidates cands = dict_values (foldl dedupe_step [] cands)"

definition list_unpublished :: "scanner \<Rightarrow> string \<Rightarrow> world \<Rightarrow> outbox_entry list" where
  "list_unpublished sc wid w =
     (case rp_list_unpublished_outbox_for_workflow (sc_repos sc) of None \<Rightarrow> [] | Some f \<Rightarrow> f wid w)"

definition list_tasks :: "scanner \<Rightarrow> string \<Rightarrow> world \<Rightarrow> task_record list" where
  "list_tasks sc wid w =
     (case rp_list_tasks_for_workflow (sc_repos sc) of None \<Rightarrow> [] | Some f \<Rightarrow> f wid w)"

definition SCAN_STATES :: "workflow_state list" where
  "SCAN_STATES = [COLLECTING, COLLECTED, TOPIC_SELECTED, SCENARIO_GENERATED, GENERATING_SCENARIO]"

abbreviation candidate ::
  "workflow_record \<Rightarrow> pattern_id \<Rightarrow> task_type option \<Rightarrow> string option \<Rightarrow> reconciliation_candidate"
where
  "candidate wrow pat task det \<equiv>
     \<lparr>rc_workflow = wrow, rc_pattern_id = pat, rc_expected_task_type = task, rc_detail = det\<rparr>"

definition expected_latest ::
  "task_record list \<Rightarrow> task_type option \<Rightarrow> task_record option"
where
  "expected_latest tasks expected =
     (case expected of None \<Rightarrow> None | Some e \<Rightarrow> latest_task_of_type tasks e)"

text \<open>The first loop: workflows of one transient state that are over their threshold.\<close>

definition collect_stuck_row ::
  "scanner \<Rightarrow> workflow_record \<Rightarrow> (world, reconciliation_candidate list) prog"
where
  "collect_stuck_row sc wrow =
     bindE (gets (list_tasks sc (wf_id wrow))) (\<lambda>tasks.
     bindE (gets (list_unpublished sc (wf_id wrow))) (\<lambda>unpublished.
     bindE (rp001_expected_task wrow tasks unpublished) (\<lambda>expected.
     bindE (evaluate_rp003 sc wrow (expected_latest tasks expected)) (\<lambda>evaluation.
     ret (if se_is_stuck evaluation then [candidate wrow RP_003 expected None] else [])))))"

definition collect_stuck ::
  "scanner \<Rightarrow> int \<Rightarrow> datetime \<Rightarrow> workflow_state \<Rightarrow> (world, reconciliation_candidate list) prog"
where
  "collect_stuck sc batch_size now state =
     (case threshold_for sc state of
        None \<Rightarrow> raise (OtherError ''OverflowError'')
      | Some threshold \<Rightarrow>
          (case rp_list_workflows_for_reconciliation (sc_repos sc) of
             None \<Rightarrow> ret []
           | Some list_fn \<Rightarrow>
               bindE (gets (list_fn [state] (Some (now - threshold)) batch_size)) (\<lambda>rows.
               bindE (forE rows (collect_stuck_row sc)) (\<lambda>css.
               ret (concat css)))))"

text \<open>The second loop: a pending outbox row is reported, a missing dispatch is repaired.\<close>

definition collect_dispatch_row ::
  "scanner \<Rightarrow> workflow_record \<Rightarrow> (world, reconciliation_candidate list) prog"
where
  "collect_dispatch_row sc wrow =
     bindE (to_domain_workflow_state (state_value (wf_state wrow))) (\<lambda>domain_state.
     if domain_state \<in> TERMINAL_STATES then ret []
     else
       bindE (gets (list_unpublished sc (wf_id wrow))) (\<lambda>unpublished.
       if unpublished \<noteq> []
       then ret [candidate wrow RP_002 None (Some ''outbox_pending_publish'')]
       else
         bindE (gets (list_tasks sc (wf_id wrow))) (\<lambda>tasks.
         bindE (rp001_expected_task wrow tasks unpublished) (\<lambda>expected.
         ret (if expected \<noteq> None then [candidate wrow RP_001 expected None] else [])))))"

definition collect_dispatch ::
  "scanner \<Rightarrow> int \<Rightarrow> (world, reconciliation_candidate list) prog"
where
  "collect_dispatch sc batch_size =
     (case rp_list_workflows_for_reconciliation (sc_repos sc) of
        None \<Rightarrow> ret []
      | Some list_fn \<Rightarrow>
          bindE (gets (list_fn SCAN_STATES None batch_size)) (\<lambda>rows.
          bindE (forE rows (collect_dispatch_row sc)) (\<lambda>css.
          ret (concat css))))"

text \<open>The third loop: unpublished outbox rows of terminal workflows not seen so far.\<close>

fun collect_terminal ::
  "string list \<Rightarrow> outbox_entry list \<Rightarrow> (world, reconciliation_candidate list) prog"
where
  "collect_terminal seen [] = ret []"
| "collect_terminal seen (entry # entries) =
     (if ob_workflow_id entry \<in> set seen then collect_terminal seen entries
      else
        bindE (gets (get_workflow (ob_workflow_id entry))) (\<lambda>row.
        case row of
          None \<Rightarrow> collect_terminal seen entries
        | Some x \<Rightarrow>
            bindE (to_domain_workflow_state (state_value (wf_state x))) (\<lambda>domain_state.
            if domain_state \<in> TERMINAL_STATES
            then bindE (collect_terminal (ob_workflow_id entry # seen) entries) (\<lambda>cs.
                 ret (candidate x RP_004 None (Some ''terminal_unpublished_outbox'') # cs))
            else collect_terminal seen entries)))"

definition collect_candidates :: "scanner \<Rightarrow> int \<Rightarrow> (world, reconciliation_candidate list) prog" where
  "collect_candidates sc batch_size =
     bindE (utc_now (sc_env sc)) (\<lambda>now.
     bindE (forE TRANSIENT_STATES (collect_stuck sc batch_size now)) (\<lambda>stuck.
     bindE (collect_dispatch sc batch_size) (\<lambda>dispatch.
     let found = concat stuck @ dispatch in
     bindE (gets (fetch_unpublished batch_size)) (\<lambda>entries.
     bindE (collect_terminal (map (wf_id \<circ> rc_workflow) found) entries) (\<lambda>terminal.
     ret (slice_to batch_size (dedupe_candidates (found @ terminal))))))))"

section \<open>Repair\<close>

definition in_transaction :: "repos \<Rightarrow> (world, 'a) prog \<Rightarrow> (world, 'a) prog" where
  "in_transaction R fn w = (if rp_is_in_transaction R w then fn w else with_transaction R fn w)"

definition run_guarded :: "repos \<Rightarrow> string \<Rightarrow> (world, 'a) prog \<Rightarrow> (world, 'a) prog" where
  "run_guarded R operation fn = bindE (require_active R operation) (\<lambda>_. fn)"

definition get_retry_policy :: "app_config \<Rightarrow> task_type \<Rightarrow> ('s, retry_policy) prog" where
  "get_retry_policy C task = (case cfg_retry C task of None \<Rightarrow> raise KeyError | Some p \<Rightarrow> ret p)"

definition scanner_retry_policy :: "app_config \<Rightarrow> task_type \<Rightarrow> ('s, retry_policy) prog" where
  "scanner_retry_policy C task =
     catchE (get_retry_policy C task) (\<lambda>e.
       if e = OtherError ''NotImplementedError''
       then (case cfg_retry C task of
               Some p \<Rightarrow> ret p
             | None \<Rightarrow> ret \<lparr>max_attempts = 3,
                  backoff = \<lparr>initial_seconds = 1, multiplier = 2, max_seconds = 30\<rparr>\<rparr>)
       else raise e)"

abbreviation report :: "reconciliation_candidate \<Rightarrow> bool \<Rightarrow> string option \<Rightarrow> reconciliation_report" where
  "report cand repaired det \<equiv>
     \<lparr>rr_workflow_id = wf_id (rc_workflow cand), rr_repair_action = rc_pattern_id cand,
      rr_repaired = repaired, rr_detail = det\<rparr>"

definition repair_dispatch ::
  "scanner \<Rightarrow> workflow_record \<Rightarrow> task_type \<Rightarrow> int \<Rightarrow> (world, outbox_build_result) prog"
where
  "repair_dispatch sc fresh task attempt =
     in_transaction (sc_repos sc) (run_guarded (sc_repos sc) ''reconcile_stuck_workflows''
       (recreate_expected_outbox (sc_env sc) (sc_repos sc) fresh task attempt))"

definition repair_failed :: "scanner \<Rightarrow> workflow_record \<Rightarrow> (world, transition_result) prog" where
  "repair_failed sc fresh =
     in_transaction (sc_repos sc) (run_guarded (sc_repos sc) ''reconcile_stuck_workflows''
       (bindE (to_domain_workflow_state (state_value (wf_state fresh))) (\<lambda>state.
        apply_transition (sc_env sc) (sc_repos sc) (sc_config sc)
          \<lparr>trq_workflow_id = wf_id fresh, trq_expected_state = state,
           trq_signal = SIG_RECONCILIATION_REPAIR, trq_reason = ''stuck_state_timeout'',
           trq_actor = None, trq_completing_task_id = None, trq_idempotency_key = None\<rparr>)))"

text \<open>
  The branch for \<open>RP-003\<close>: dispatch again while attempts are left and a task is expected, else fail.
\<close>

definition repair_stuck ::
  "scanner \<Rightarrow> reconciliation_candidate \<Rightarrow> workflow_record \<Rightarrow>
   (world, reconciliation_report \<times> int) prog"
where
  "repair_stuck sc cand fresh =
     bindE (gets (list_tasks sc (wf_id fresh))) (\<lambda>tasks.
     let expected = rc_expected_task_type cand; latest = expected_latest tasks expected in
     bindE (evaluate_rp003 sc fresh latest) (\<lambda>evaluation.
     if \<not> se_is_stuck evaluation then ret (report cand False None, 0)
     else
       bindE (scanner_retry_policy (sc_config sc) (case expected of None \<Rightarrow> COLLECT | Some t \<Rightarrow> t)) (\<lambda>policy.
       case expected of
         Some task \<Rightarrow>
           if is_stuck_retriable latest policy
           then bindE (repair_dispatch sc fresh task
                         ((case latest of None \<Rightarrow> 0 | Some t \<Rightarrow> tk_attempt t) + 1)) (\<lambda>_.
                ret (report cand True (Some ''outbox_retry''), 1))
           else bindE (repair_failed sc fresh) (\<lambda>_. ret (report cand True None, 1))
       | None \<Rightarrow> bindE (repair_failed sc fresh) (\<lambda>_. ret (report cand True None, 1)))))"

text \<open>
  An \<open>RP-001\<close> candidate always carries an expected task (\<open>collect_dispatch_row\<close>); a missing one
  would make \<open>build\<close> read an attribute of \<open>None\<close>.
\<close>

definition repair_candidate ::
  "scanner \<Rightarrow> reconciliation_candidate \<Rightarrow> (world, reconciliation_report \<times> int) prog"
where
  "repair_candidate sc cand =
     bindE (gets (get_workflow (wf_id (rc_workflow cand)))) (\<lambda>row.
     case row of
       None \<Rightarrow> ret (report cand False (Some ''version_mismatch_skip''), 0)
     | Some fresh \<Rightarrow>
         if wf_version fresh \<noteq> wf_version (rc_workflow cand)
         then ret (report cand False (Some ''version_mismatch_skip''), 0)
         else (case rc_pattern_id cand of
             RP_002 \<Rightarrow> ret (report cand False (Some ''outbox_pending_publish''), 0)
           | RP_004 \<Rightarrow> ret (report cand False (Some ''terminal_unpublished_outbox''), 0)
           | RP_001 \<Rightarrow>
               (case rc_expected_task_type cand of
                  None \<Rightarrow> raise (OtherError ''AttributeError'')
                | Some task \<Rightarrow>
                    bindE (repair_dispatch sc fresh task 1) (\<lambda>_. ret (report cand True None, 1)))
           | RP_003 \<Rightarrow> repair_stuck sc cand fresh))"

definition scan_and_repair :: "scanner \<Rightarrow> int \<Rightarrow> (world, reconciliation_result) prog" where
  "scan_and_repair sc batch_size =
     bindE (collect_candidates sc batch_size) (\<lambda>candidates.
     bindE (forE candidates (repair_candidate sc)) (\<lambda>outcomes.
     ret \<lparr>rs_scanned_count = int (length candidates),
          rs_repaired_count = sum_list (map snd outcomes),
          rs_reports = map fst outcomes\<rparr>))"

definition reconcile_stuck_workflows ::
  "scanner option \<Rightarrow> int \<Rightarrow> (world, reconciliation_result) prog"
where
  "reconcile_stuck_workflows scanner_opt batch_size =
     (case scanner_opt of
        None \<Rightarrow> raise (RuntimeError ''Reconciliation scanner not configured'')
      | Some sc \<Rightarrow> scan_and_repair sc batch_size)"

section \<open>Candidates: one per workflow, the most urgent one\<close>

abbreviation cand_id :: "reconciliation_candidate \<Rightarrow> string" where
  "cand_id c \<equiv> wf_id (rc_workflow c)"

lemma dedupe_step_keys: "keys_ok cand_id d \<Longrightarrow> keys_ok cand_id (dedupe_step d c)"
  by (auto simp: dedupe_step_def intro: keys_ok_set' split: option.splits)

lemma dedupe_fold_keys: "keys_ok cand_id d \<Longrightarrow> keys_ok cand_id (foldl dedupe_step d cs)"
  by (induction cs arbitrary: d) (simp_all add: dedupe_step_keys)

lemma dedupe_fold_source:
  "dict_get (foldl dedupe_step d cs) k = Some c \<Longrightarrow> dict_get d k = Some c \<or> c \<in> set cs"
proof (induction cs arbitrary: d)
  case (Cons x xs)
  from Cons.prems Cons.IH [of "dedupe_step d x"] show ?case
    by (auto simp: dedupe_step_def split: option.splits if_splits)
qed simp

lemma dedupe_step_best:
  assumes "dict_get d k = Some c"
  shows "\<exists>c'. dict_get (dedupe_step d x) k = Some c'
    \<and> PATTERN_PRIORITY (rc_pattern_id c') \<le> PATTERN_PRIORITY (rc_pattern_id c)"
  using assms by (auto simp: dedupe_step_def split: option.splits)

lemma dedupe_fold_best:
  "dict_get d k = Some c \<Longrightarrow> \<exists>c'. dict_get (foldl dedupe_step d cs) k = Some c'
    \<and> PATTERN_PRIORITY (rc_pattern_id c') \<le> PATTERN_PRIORITY (rc_pattern_id c)"
proof (induction cs arbitrary: d c)
  case (Cons x xs)
  from dedupe_step_best [OF Cons.prems, of x] obtain c1 where c1: "dict_get (dedupe_step d x) k = Some c1"
    "PATTERN_PRIORITY (rc_pattern_id c1) \<le> PATTERN_PRIORITY (rc_pattern_id c)" by blast
  from Cons.IH [OF c1(1)] c1(2) show ?case by (auto intro: order_trans)
qed auto

lemma dedupe_step_covers:
  "\<exists>c'. dict_get (dedupe_step d c) (cand_id c) = Some c'
    \<and> PATTERN_PRIORITY (rc_pattern_id c') \<le> PATTERN_PRIORITY (rc_pattern_id c)"
  by (auto simp: dedupe_step_def split: option.splits)

lemma dedupe_fold_covers:
  "c \<in> set cs \<Longrightarrow> \<exists>c'. dict_get (foldl dedupe_step d cs) (cand_id c) = Some c'
    \<and> PATTERN_PRIORITY (rc_pattern_id c') \<le> PATTERN_PRIORITY (rc_pattern_id c)"
proof (induction cs arbitrary: d)
  case (Cons x xs)
  show ?case
  proof (cases "c = x")
    case True
    from dedupe_step_covers [of d x] obtain c1 where c1: "dict_get (dedupe_step d x) (cand_id x) = Some c1"
      "PATTERN_PRIORITY (rc_pattern_id c1) \<le> PATTERN_PRIORITY (rc_pattern_id x)" by blast
    from dedupe_fold_best [OF c1(1), of xs] c1(2) True show ?thesis by (auto intro: order_trans)
  next
    case False
    with Cons show ?thesis by simp
  qed
qed simp

lemma dedupe_distinct: "distinct (map cand_id (dedupe_candidates cs))"
proof -
  have k: "keys_ok cand_id (foldl dedupe_step [] cs)" by (rule dedupe_fold_keys) simp
  then have "map cand_id (dict_values (foldl dedupe_step [] cs)) = dict_keys (foldl dedupe_step [] cs)"
    by (auto simp: keys_ok_def)
  with k show ?thesis unfolding dedupe_candidates_def keys_ok_def by metis
qed

lemma dedupe_spec:
  "c \<in> set (dedupe_candidates cs) \<Longrightarrow> c \<in> set cs \<and>
     (\<forall>c' \<in> set cs. cand_id c' = cand_id c \<longrightarrow>
        PATTERN_PRIORITY (rc_pattern_id c) \<le> PATTERN_PRIORITY (rc_pattern_id c'))"
proof -
  assume c: "c \<in> set (dedupe_candidates cs)"
  let ?d = "foldl dedupe_step [] cs"
  have "keys_ok cand_id ?d" by (rule dedupe_fold_keys) simp
  from keys_ok_values [OF this] c have get: "dict_get ?d (cand_id c) = Some c"
    by (simp add: dedupe_candidates_def)
  then show ?thesis
    using dedupe_fold_source [OF get] dedupe_fold_covers [of _ cs "[]"] by fastforce
qed

section \<open>What a scan reports\<close>

lemma repair_candidate_report:
  assumes "repair_candidate sc c w = (Inr (r, n), w')"
  shows "rr_workflow_id r = cand_id c \<and> rr_repair_action r = rc_pattern_id c
    \<and> n = (if rr_repaired r then 1 else 0)
    \<and> (rr_repaired r \<longrightarrow> rc_pattern_id c \<in> {RP_001, RP_003})"
  using assms
  by (auto simp: repair_candidate_def repair_stuck_def Let_def bindE_eq_Inr py_simps
      split: option.splits if_splits pattern_id.splits)

lemma collect_candidates_distinct:
  assumes "collect_candidates sc b w = (Inr cs, w')"
  shows "distinct (map cand_id cs) \<and> (0 \<le> b \<longrightarrow> int (length cs) \<le> b)"
proof -
  from assms obtain found where "cs = slice_to b (dedupe_candidates found)"
    by (auto simp: collect_candidates_def Let_def bindE_eq_Inr)
  then show ?thesis
    using distinct_slice_to [OF dedupe_distinct, of b found] length_slice_to [of b "dedupe_candidates found"]
    by auto
qed

lemma scan_summary:
  assumes "scan_and_repair sc b w = (Inr res, w')"
  shows "rs_scanned_count res = int (length (rs_reports res))
    \<and> rs_repaired_count res = int (length (filter rr_repaired (rs_reports res)))
    \<and> distinct (map rr_workflow_id (rs_reports res))
    \<and> (0 \<le> b \<longrightarrow> rs_scanned_count res \<le> b)"
proof -
  from assms obtain cs w1 os where cs: "collect_candidates sc b w = (Inr cs, w1)"
    and os: "forE cs (repair_candidate sc) w1 = (Inr os, w')"
    and res: "res = \<lparr>rs_scanned_count = int (length cs), rs_repaired_count = sum_list (map snd os),
         rs_reports = map fst os\<rparr>"
    by (auto simp: scan_and_repair_def bindE_eq_Inr)
  have all: "list_all2 (\<lambda>c o'. rr_workflow_id (fst o') = cand_id c
      \<and> snd o' = (if rr_repaired (fst o') then 1 else 0)) cs os"
    by (rule forE_results [OF os]) (metis repair_candidate_report prod.collapse)
  then have "map rr_workflow_id (map fst os) = map cand_id cs"
    and "sum_list (map snd os) = int (length (filter rr_repaired (map fst os)))"
    and "length cs = length os"
    by (induction rule: list_all2_induct) auto
  with collect_candidates_distinct [OF cs] res show ?thesis by simp
qed

section \<open>A scan keeps the engine's invariant\<close>

lemma guar_gets: "evolves (engine_guar E C) (gets f)"
  by (simp add: guar_intro)

lemma guar_option:
  "evolves (engine_guar E C) m \<Longrightarrow> (\<And>x. evolves (engine_guar E C) (f x)) \<Longrightarrow>
   evolves (engine_guar E C) (case opt of None \<Rightarrow> m | Some x \<Rightarrow> f x)"
  by (cases opt) simp_all

lemma guar_pattern:
  "evolves (engine_guar E C) m1 \<Longrightarrow> evolves (engine_guar E C) m2 \<Longrightarrow> evolves (engine_guar E C) m3 \<Longrightarrow>
   evolves (engine_guar E C) m4 \<Longrightarrow>
   evolves (engine_guar E C) (case p of RP_001 \<Rightarrow> m1 | RP_002 \<Rightarrow> m2 | RP_003 \<Rightarrow> m3 | RP_004 \<Rightarrow> m4)"
  by (cases p) simp_all

lemma guar_evaluate: "evolves (engine_guar E C) (evaluate_rp003 sc x t)"
  unfolding evaluate_rp003_def Let_def to_domain_workflow_state_value
  by (intro guar_intro guar_utc_now)

lemma guar_rp001: "evolves (engine_guar E C) (rp001_expected_task x ts us)"
  unfolding rp001_expected_task_def to_domain_workflow_state_value
  by (intro guar_intro guar_option)

lemma guar_collect_stuck: "evolves (engine_guar E C) (collect_stuck sc b now s)"
  unfolding collect_stuck_def collect_stuck_row_def
  by (intro guar_intro guar_option guar_rp001 guar_evaluate)

lemma guar_collect_dispatch: "evolves (engine_guar E C) (collect_dispatch sc b)"
  unfolding collect_dispatch_def collect_dispatch_row_def to_domain_workflow_state_value
  by (intro guar_intro guar_option guar_rp001)

lemma guar_collect_terminal: "evolves (engine_guar E C) (collect_terminal seen es)"
proof (induction es arbitrary: seen)
  case (Cons entry entries)
  show ?case unfolding collect_terminal.simps to_domain_workflow_state_value
    by (intro guar_intro guar_option Cons.IH)
qed (simp add: guar_intro)

lemma guar_collect_candidates: "evolves (engine_guar E C) (collect_candidates sc b)"
  unfolding collect_candidates_def Let_def
  by (intro guar_intro guar_utc_now guar_collect_stuck guar_collect_dispatch guar_collect_terminal)

lemma guar_retry_policy: "evolves (engine_guar E C) (scanner_retry_policy C' t)"
  unfolding scanner_retry_policy_def get_retry_policy_def by (intro guar_intro guar_option)

context transaction_store
begin

lemma guar_in_transaction:
  "evolves (engine_guar E C) body \<Longrightarrow> evolves (engine_guar E C) (in_transaction R body)"
  using guar_with_transaction [of C body] by (simp add: evolves_def in_transaction_def)

lemma guar_guarded_recreate:
  "evolves (engine_guar E C) (run_guarded R op (recreate_expected_outbox E R x task att))"
proof -
  have "engine_guar E C w (snd (run_guarded R op (recreate_expected_outbox E R x task att) w))" for w
  proof (cases "in_txn w")
    case True
    with recreate_ok [OF True, of x task att] show ?thesis
      by (auto simp: run_guarded_def put_dispatch_def put_defs intro!: engine_guar_frame)
  qed (simp add: run_guarded_def engine_guar_def)
  then show ?thesis by (simp add: evolves_def)
qed

lemma guar_guarded_transition:
  assumes "fresh_uuids E"
  shows "evolves (engine_guar E C) (run_guarded R op (apply_transition E R C req))"
proof -
  have "evolves (engine_guar E C) (require_active R op)"
    by (rule evolves_guar_frame) (auto split: if_splits)
  with guar_apply_transition [OF assms, of C req] show ?thesis
    unfolding run_guarded_def by (intro guar_intro)
qed

lemma guar_scan:
  assumes fresh: "fresh_uuids E" and sc: "sc_env sc = E" "sc_repos sc = R" "sc_config sc = C"
  shows "evolves (engine_guar E C) (scan_and_repair sc b)"
proof -
  have dispatch: "evolves (engine_guar E C) (repair_dispatch sc x task att)" for x task att
    unfolding repair_dispatch_def sc by (intro guar_in_transaction guar_guarded_recreate)
  have failed: "evolves (engine_guar E C) (repair_failed sc x)" for x
    unfolding repair_failed_def sc to_domain_workflow_state_value bindE_ret
    by (intro guar_in_transaction guar_guarded_transition fresh)
  have stuck: "evolves (engine_guar E C) (repair_stuck sc c x)" for c x
    unfolding repair_stuck_def Let_def
    by (intro guar_intro guar_evaluate guar_retry_policy guar_option dispatch failed)
  have "evolves (engine_guar E C) (repair_candidate sc c)" for c
    unfolding repair_candidate_def
    by (intro guar_intro guar_option guar_pattern stuck dispatch)
  then show ?thesis
    unfolding scan_and_repair_def by (intro guar_intro guar_collect_candidates)
qed

end

end
