(* ===== verification/Reconcile_Properties.thy ===== *)
theory Reconcile_Properties
  imports Reconcile Engine_Properties
begin

text \<open>
  What a reconciliation scan may and may not do, on the in-memory repositories.
\<close>

section \<open>Safety\<close>

definition demo_scanner :: "repos \<Rightarrow> scanner" where
  "demo_scanner R = \<lparr>sc_env = demo_env, sc_repos = R, sc_config = demo_config, sc_stuck_overrides = (\<lambda>_. None)\<rparr>"

lemma demo_started_inv: "engine_inv demo_env demo_config demo_started"
  by (rule reachable_engine_inv [OF _ demo_fresh demo_reachable]) simp

lemma demo_failed_inv: "engine_inv demo_env demo_config demo_failed"
  by (rule reachable_engine_inv [OF _ demo_fresh demo_failed_reachable]) simp

lemma scan_guar:
  assumes "R \<in> in_memory_repos E" and "fresh_uuids E"
    and "sc_env sc = E" "sc_repos sc = R" "sc_config sc = C"
  shows "evolves (engine_guar E C) (scan_and_repair sc b)"
  using assms wk.guar_scan [of E sc C b] pf.guar_scan [of E sc C b] by auto

text \<open>
  C12. A scan, whether it returns or raises, keeps the invariant of the stored workflows, only
  appends to the history and loses no workflow.
\<close>

theorem scan_keeps_histories:
  assumes "R \<in> in_memory_repos E" and "fresh_uuids E"
    and "sc_env sc = E" "sc_repos sc = R" "sc_config sc = C"
    and "engine_inv E C w" and "scan_and_repair sc b w = (r, w')"
  shows "engine_inv E C w' \<and> extends w w'"
  using evolvesD [OF scan_guar [OF assms(1-5)] assms(7)] assms(6) by (simp add: engine_guar_def)

theorem scan_keeps_histories_witness:
  "extends demo_started (snd (scan_and_repair (demo_scanner (workflow_repos demo_env)) 10 demo_started))"
  using scan_keeps_histories [of "workflow_repos demo_env" demo_env "demo_scanner (workflow_repos demo_env)"
      demo_config demo_started 10] demo_fresh demo_started_inv
  by (simp add: demo_scanner_def) (metis prod.collapse)

text \<open>A scan never moves a workflow out of a terminal state and never bumps its version.\<close>

theorem scan_spares_terminal:
  assumes "R \<in> in_memory_repos E" and "fresh_uuids E"
    and "sc_env sc = E" "sc_repos sc = R" "sc_config sc = C"
    and "engine_inv E C w" and "scan_and_repair sc b w = (r, w')"
    and "get_workflow wid w = Some x" and "wf_state x \<in> TERMINAL_STATES"
  shows "\<exists>x'. get_workflow wid w' = Some x' \<and> wf_state x' = wf_state x
    \<and> wf_version x' = wf_version x \<and> wf_revision_count x' = wf_revision_count x"
  using engine_guar_terminal evolvesD [OF scan_guar [OF assms(1-5)] assms(7)] assms(6,8,9) by blast

theorem scan_spares_terminal_witness:
  "\<exists>x'. get_workflow ''wf-1'' (snd (scan_and_repair (demo_scanner (persistence_repos demo_env)) 10 demo_failed)) = Some x'
     \<and> wf_state x' = FAILED"
proof -
  obtain x where x: "get_workflow ''wf-1'' demo_failed = Some x" "wf_state x = FAILED"
    using demo_failed_row(1) by auto
  obtain r w' where "scan_and_repair (demo_scanner (persistence_repos demo_env)) 10 demo_failed = (r, w')"
    by (metis prod.collapse)
  with scan_spares_terminal [of "persistence_repos demo_env" demo_env "demo_scanner (persistence_repos demo_env)"
      demo_config demo_failed 10 r w' "''wf-1''" x] demo_fresh demo_failed_inv x
  show ?thesis by (auto simp: demo_scanner_def state_set_defs)
qed

section \<open>Reports\<close>

text \<open>
  The counts of a scan agree with its reports: one report per candidate, none twice for the
  same workflow, at most the batch size, and the repair count is the number of repaired reports.
\<close>

theorem scan_report_counts:
  assumes "scan_and_repair sc b w = (Inr res, w')"
  shows "rs_scanned_count res = int (length (rs_reports res))
    \<and> rs_repaired_count res = int (length (filter rr_repaired (rs_reports res)))
    \<and> distinct (map rr_workflow_id (rs_reports res))
    \<and> (0 \<le> b \<longrightarrow> rs_scanned_count res \<le> b)"
  using assms by (rule scan_summary)

theorem scan_report_counts_witness:
  "\<exists>res. fst (scan_and_repair (demo_scanner (workflow_repos demo_env)) 10 demo_started) = Inr res
     \<and> rs_scanned_count res = int (length (rs_reports res)) \<and> rs_scanned_count res = 1"
proof -
  have "map_sum id rs_scanned_count
      (fst (scan_and_repair (demo_scanner (workflow_repos demo_env)) 10 demo_started)) = Inr 1"
    by code_simp
  then obtain res where "fst (scan_and_repair (demo_scanner (workflow_repos demo_env)) 10 demo_started) = Inr res"
    and "rs_scanned_count res = 1"
    by (cases "fst (scan_and_repair (demo_scanner (workflow_repos demo_env)) 10 demo_started)") auto
  then show ?thesis using scan_report_counts by (metis prod.collapse)
qed

text \<open>
Of several candidates for one workflow the scan keeps exactly one, and one of the most urgent
  pattern among them; every workflow with a candidate keeps one.
\<close>

theorem dedupe_most_urgent:
  "distinct (map (\<lambda>c. wf_id (rc_workflow c)) (dedupe_candidates cs))
   \<and> (\<lambda>c. wf_id (rc_workflow c)) ` set (dedupe_candidates cs) = (\<lambda>c. wf_id (rc_workflow c)) ` set cs
   \<and> set (dedupe_candidates cs) \<subseteq> {c \<in> set cs. PATTERN_PRIORITY (rc_pattern_id c)
        = Min ((\<lambda>c'. PATTERN_PRIORITY (rc_pattern_id c')) `
            {c' \<in> set cs. wf_id (rc_workflow c') = wf_id (rc_workflow c)})}"
proof -
  have "\<exists>c' \<in> set (dedupe_candidates cs). cand_id c' = cand_id c" if c: "c \<in> set cs" for c
  proof -
    let ?d = "foldl dedupe_step [] cs"
    obtain c' where get: "dict_get ?d (cand_id c) = Some c'" using dedupe_fold_covers [OF c] by blast
    moreover have "keys_ok cand_id ?d" by (rule dedupe_fold_keys) simp
    ultimately have "cand_id c' = cand_id c" by (rule keys_ok_get [rotated])
    moreover have "c' \<in> set (dedupe_candidates cs)"
      using map_of_SomeD [OF get] by (force simp: dedupe_candidates_def)
    ultimately show ?thesis by blast
  qed
  then have "cand_id ` set cs \<subseteq> cand_id ` set (dedupe_candidates cs)" by (metis imageI image_subsetI)
  moreover have "PATTERN_PRIORITY (rc_pattern_id c)
        = Min ((\<lambda>c'. PATTERN_PRIORITY (rc_pattern_id c')) ` {c' \<in> set cs. cand_id c' = cand_id c})"
    if "c \<in> set (dedupe_candidates cs)" for c
    using dedupe_spec [OF that] by (intro Min_eqI [symmetric]) auto
  ultimately show ?thesis using dedupe_distinct dedupe_spec by fastforce
qed

section \<open>Repairs\<close>

lemma evaluate_eq:
  "evaluate_rp003 sc x t w =
     (Inr \<lparr>se_is_stuck = ((case threshold_for sc (wf_state x) of None \<Rightarrow> False
             | Some th \<Rightarrow> env_now (sc_env sc) (ticks w) - wf_updated_at x > th)
            \<and> \<not> (case t of None \<Rightarrow> False | Some k \<Rightarrow> tk_status k \<in> IN_FLIGHT)),
          se_threshold = threshold_for sc (wf_state x),
          se_elapsed = env_now (sc_env sc) (ticks w) - wf_updated_at x,
          se_in_flight_task = (case t of None \<Rightarrow> False | Some k \<Rightarrow> tk_status k \<in> IN_FLIGHT)\<rparr>,
      w\<lparr>ticks := Suc (ticks w)\<rparr>)"
  by (simp add: evaluate_rp003_def Let_def py_simps bindE_def)

lemma wk_in_transaction_open:
  "in_txn w \<Longrightarrow> in_transaction (workflow_repos E) m w = m w"
  by (simp add: in_transaction_def wk.in_transaction)

lemma repair_dispatch_effect:
  assumes "sc_env sc = E" "sc_repos sc = workflow_repos E" "in_txn w"
  shows "\<exists>b. repair_dispatch sc x task att w = (Inr b, put_dispatch E b (w\<lparr>ticks := ticks w + 2\<rparr>))
    \<and> tk_type (obr_task_record b) = task \<and> tk_attempt (obr_task_record b) = att"
proof -
  obtain b where "repair_dispatch sc x task att w = (Inr b, put_dispatch E b (w\<lparr>ticks := ticks w + 2\<rparr>))"
    and "dispatch_ok x task (resolve_for_task (wf_id x) task (task = GENERATE_SCENARIO) w) att b"
    using wk.recreate_ok [OF assms(3), of E x task att]
    by (auto simp: repair_dispatch_def assms wk_in_transaction_open [OF assms(3)] run_guarded_def numeral_eq_Suc)
  then show ?thesis by (auto simp: dispatch_ok_def)
qed

lemma repair_failed_effect:
  assumes sc: "sc_env sc = E" "sc_repos sc = workflow_repos E"
    and w: "in_txn w" "ids_fresh E w" "keys_ok wf_id (wf_rows w)"
    and x: "get_workflow (wf_id x) w = Some x" "wf_state x \<notin> TERMINAL_STATES" "wf_state x \<noteq> AWAITING_HUMAN_APPROVAL"
  shows "\<exists>res w'. repair_failed sc x w = (Inr res, w') \<and> (\<exists>x'. get_workflow (wf_id x) w' = Some x' \<and> wf_state x' = FAILED
    \<and> wf_failure_reason x' = Some ''stuck_state_timeout'' \<and> wf_version x' = wf_version x + 1)"
proof -
  let ?req = "\<lparr>trq_workflow_id = wf_id x, trq_expected_state = wf_state x,
         trq_signal = SIG_RECONCILIATION_REPAIR, trq_reason = ''stuck_state_timeout'',
         trq_actor = None, trq_completing_task_id = None, trq_idempotency_key = None\<rparr>"
  have legal: "legal_step cc m (wf_state x) SIG_RECONCILIATION_REPAIR FAILED" for cc m
    using x by (intro legal_step.intros)
  have "refusal (sc_config sc) ?req w = None" using w(1) x legal by (auto simp: refusal_def)
  then obtain d res t ob w' where
    d: "lookup (wf_state x) SIG_RECONCILIATION_REPAIR (wf_revision_count x) (max_scenario_revisions (sc_config sc)) = Inr d"
    and run: "apply_transition E (workflow_repos E) (sc_config sc) ?req w = (Inr res, w')"
    and eff: "step_effect E (wf_id x) x (td_to d) (td_set_failure_reason (effective_decision ?req d))
       (if td_increment_revision_count d then Some (wf_revision_count x + 1) else None)
       ''stuck_state_timeout'' None (td_outbox_task_type d) (td_increment_logical_version d) w ob t w'"
    using wk.apply_transition_total [of "sc_config sc" ?req w E] w x(1) by auto
  have "td_to d = FAILED \<and> td_set_failure_reason d = Some ''stuck_state_timeout''"
    using d x by (cases "wf_state x") (auto simp: table_defs)
  then have "\<exists>x'. get_workflow (wf_id x) w' = Some x' \<and> wf_state x' = FAILED
      \<and> wf_failure_reason x' = Some ''stuck_state_timeout'' \<and> wf_version x' = wf_version x + 1"
    using eff by (auto simp: step_effect_def effective_decision_def Let_def)
  moreover have "repair_failed sc x w = (Inr res, w')"
    using run by (simp add: repair_failed_def sc wk_in_transaction_open [OF w(1)] run_guarded_def w(1))
  ultimately show ?thesis by blast
qed



section \<open>Limits of a scan\<close>

lemma collect_terminal_pure:
  "\<exists>cs. collect_terminal seen es w = (Inr cs, w)
     \<and> (\<forall>c \<in> set cs. rc_pattern_id c = RP_004)"
proof (induction es arbitrary: seen)
  case (Cons e es)
  from Cons.IH [of seen] Cons.IH [of "ob_workflow_id e # seen"] show ?case
    by (auto simp: py_simps split: option.splits)
qed (simp add: py_simps)

lemma repair_reported_only:
  "rc_pattern_id c = RP_004 \<Longrightarrow>
     \<exists>r. repair_candidate sc c w = (Inr (r, 0), w) \<and> rr_repair_action r = RP_004 \<and> \<not> rr_repaired r"
  by (cases "get_workflow (wf_id (rc_workflow c)) w") (auto simp: repair_candidate_def py_simps)

lemma transient_threshold: "s \<in> set TRANSIENT_STATES \<Longrightarrow> \<exists>th. threshold_for sc s = Some th"
  by (auto simp: threshold_for_def stuck_threshold_def split: option.splits)

text \<open>
  With the repositories of \<open>persistence/\<close>, which offer none of the optional listing methods, a
  scan always returns, repairs nothing and writes nothing: it can only report unpublished outbox rows
  of terminal workflows.
\<close>

theorem persistence_scan_inert:
  assumes "sc_repos sc = persistence_repos E"
  shows "\<exists>res. scan_and_repair sc b w = (Inr res, w\<lparr>ticks := Suc (ticks w)\<rparr>)
    \<and> rs_repaired_count res = 0 \<and> rr_repair_action ` set (rs_reports res) \<subseteq> {RP_004}"
proof -
  let ?w = "w\<lparr>ticks := Suc (ticks w)\<rparr>"
  let ?now = "env_now (sc_env sc) (ticks w)"
  have lists: "rp_list_workflows_for_reconciliation (sc_repos sc) = None"
    by (simp add: assms persistence_repos_def)
  have stuck: "forE TRANSIENT_STATES (collect_stuck sc b ?now) ?w = (Inr (map (\<lambda>_. []) TRANSIENT_STATES), ?w)"
    by (rule forE_pure, drule transient_threshold [where sc = sc]) (auto simp: collect_stuck_def lists py_simps)
  have none: "concat (map (\<lambda>_. []) xs) = []" for xs :: "workflow_state list" by simp
  obtain cs where cs: "collect_terminal [] (fetch_unpublished b ?w) ?w = (Inr cs, ?w)"
    and rp: "\<forall>c \<in> set cs. rc_pattern_id c = RP_004"
    using collect_terminal_pure by blast
  let ?cs = "slice_to b (dedupe_candidates cs)"
  have cand: "collect_candidates sc b w = (Inr ?cs, ?w)"
    using stuck cs by (simp add: collect_candidates_def collect_dispatch_def lists Let_def none py_simps utc_now_def)
  have rp': "rc_pattern_id c = RP_004" if "c \<in> set ?cs" for c
  proof -
    have "c \<in> set (dedupe_candidates cs)" using that set_slice_to [of b "dedupe_candidates cs"] by auto
    then show ?thesis using dedupe_spec rp by auto
  qed
  obtain g where g: "\<And>c. c \<in> set ?cs \<Longrightarrow> repair_candidate sc c ?w = (Inr (g c, 0), ?w)
      \<and> rr_repair_action (g c) = RP_004"
    using that [of "\<lambda>c. fst (projr (fst (repair_candidate sc c ?w)))"] repair_reported_only [OF rp', of _ sc ?w]
    by fastforce
  have "forE ?cs (repair_candidate sc) ?w = (Inr (map (\<lambda>c. (g c, 0)) ?cs), ?w)"
    using g by (intro forE_pure) simp
  then have "scan_and_repair sc b w = (Inr \<lparr>rs_scanned_count = int (length ?cs),
       rs_repaired_count = sum_list (map (\<lambda>_. 0) ?cs), rs_reports = map g ?cs\<rparr>, ?w)"
    using cand by (simp add: scan_and_repair_def comp_def)
  with g show ?thesis by auto
qed

theorem persistence_scan_inert_witness:
  "\<exists>res. scan_and_repair (demo_scanner (persistence_repos demo_env)) 10 demo_started
     = (Inr res, demo_started\<lparr>ticks := Suc (ticks demo_started)\<rparr>) \<and> rs_repaired_count res = 0"
  using persistence_scan_inert [of "demo_scanner (persistence_repos demo_env)" demo_env 10 demo_started]
  by (auto simp: demo_scanner_def)

text \<open>
With the repositories of \<open>workflow/fakes\<close>, a workflow in a state that expects a task and
  has no unpublished outbox row is a repair candidate whatever the status of its tasks, and the repair
  dispatches the task once more: a task that is published and still in flight is dispatched again by
  every scan.
\<close>

theorem in_flight_task_dispatched_again:
  assumes "sc_env sc = E" "sc_repos sc = workflow_repos E" and "in_txn w"
    and "get_workflow (wf_id x) w = Some x" and "wf_state x \<noteq> GENERATING_SCENARIO"
    and "expected_outbox_task (wf_state x) = Some task"
    and "wk_list_unpublished_outbox_for_workflow (wf_id x) w = []"
  shows "\<exists>b r n. bindE (collect_dispatch_row sc x) (\<lambda>cs. forE cs (repair_candidate sc)) w
      = (Inr [(r, 1)], put_dispatch E b (w\<lparr>ticks := n\<rparr>))
    \<and> tk_type (obr_task_record b) = task \<and> tk_attempt (obr_task_record b) = 1
    \<and> tk_id (obr_task_record b) = env_uuid E (Suc (ticks w))"
proof -
  have live: "wf_state x \<notin> TERMINAL_STATES"
    using assms(6) by (auto simp: expected_outbox_task_def EXPECTED_OUTBOX_BY_STATE_def state_set_defs)
  have row: "collect_dispatch_row sc x w = (Inr [candidate x RP_001 (Some task) None], w)"
    using assms live by (simp add: collect_dispatch_row_def list_unpublished_def workflow_repos_def
        rp001_expected_task_def py_simps)
  obtain b where "repair_dispatch sc x task 1 w = (Inr b, put_dispatch E b (w\<lparr>ticks := Suc (Suc (ticks w))\<rparr>))"
    and "tk_id (obr_task_record b) = env_uuid E (Suc (ticks w))"
    and "tk_type (obr_task_record b) = task" "tk_attempt (obr_task_record b) = 1"
    using wk.recreate_ok [OF assms(3), of E x task 1]
    by (auto simp: repair_dispatch_def assms wk_in_transaction_open run_guarded_def dispatch_ok_def)
  then show ?thesis
    using row assms(4) by (auto simp: repair_candidate_def)
qed

definition demo_published :: world where
  "demo_published = demo_started\<lparr>outbox_rows := map (\<lambda>(k, e). (k, e\<lparr>ob_status := OB_PUBLISHED\<rparr>)) (outbox_rows demo_started)\<rparr>"

theorem in_flight_task_dispatched_again_witness:
  "\<exists>b r n. bindE (collect_dispatch_row (demo_scanner (workflow_repos demo_env)) (demo_row COLLECTING))
       (\<lambda>cs. forE cs (repair_candidate (demo_scanner (workflow_repos demo_env)))) demo_published
     = (Inr [(r, 1)], put_dispatch demo_env b (demo_published\<lparr>ticks := n\<rparr>))
   \<and> map tk_status (dict_values (task_rows demo_published)) = [TS_PENDING]"
proof -
  have "wk_list_unpublished_outbox_for_workflow ''wf-1'' demo_published = []"
    and "map tk_status (dict_values (task_rows demo_published)) = [TS_PENDING]" and "in_txn demo_published"
    and "get_workflow ''wf-1'' demo_published = Some (demo_row COLLECTING)"
    by code_simp+
  then show ?thesis
    using in_flight_task_dispatched_again [of "demo_scanner (workflow_repos demo_env)" demo_env demo_published
        "demo_row COLLECTING" COLLECT]
    by (auto simp: demo_scanner_def expected_outbox_task_def EXPECTED_OUTBOX_BY_STATE_def)
qed

end
