(* ===== verification/Read_Models.thy ===== *)
theory Read_Models
  imports Demo
begin

text \<open>
  \<open>workflow/read_models.py\<close> and the query methods of \<open>workflow/engine.py\<close>: status, history,
  output package and timeline of a workflow. An instant is a number of microseconds since the epoch
  in UTC; \<open>isoformat\<close> renders it the way \<open>datetime.astimezone(UTC).isoformat()\<close> does.
\<close>

section \<open>Text of an instant\<close>

fun pad_left :: "nat \<Rightarrow> string \<Rightarrow> string" where
  "pad_left n s = replicate (n - length s) CHR ''0'' @ s"

text \<open>The proleptic Gregorian date of a day number, day 0 being 1970-01-01.\<close>

definition civil_from_days :: "int \<Rightarrow> int \<times> int \<times> int" where
  "civil_from_days z0 =
     (let z = z0 + 719468;
          era = z div 146097;
          doe = z mod 146097;
          century = min 3 (doe div 36524);
          doc = doe - 36524 * century;
          quad = doc div 1461;
          doq = doc - 1461 * quad;
          year = min 3 (doq div 365);
          yoe = 100 * century + 4 * quad + year;
          doy = doq - 365 * year;
          mp = (5 * doy + 2) div 153;
          d = doy - (153 * mp + 2) div 5 + 1;
          m = (if mp < 10 then mp + 3 else mp - 9);
          y = yoe + era * 400 + (if m \<le> 2 then 1 else 0)
      in (y, m, d))"

definition isoformat :: "datetime \<Rightarrow> string" where
  "isoformat t =
     (let days = t div 86400000000; us = t mod 86400000000;
          (y, m, d) = civil_from_days days;
          secs = us div 1000000; frac = us mod 1000000;
          two = (\<lambda>i. pad_left 2 (show_int i))
      in pad_left 4 (show_int y) @ ''-'' @ two m @ ''-'' @ two d @ ''T''
         @ two (secs div 3600) @ '':'' @ two (secs div 60 mod 60) @ '':'' @ two (secs mod 60)
         @ (if frac = 0 then '''' else ''.'' @ pad_left 6 (show_int frac)) @ ''+00:00'')"

definition lower :: "string \<Rightarrow> string" where
  "lower s = map (\<lambda>c. if CHR ''A'' \<le> c \<and> c \<le> CHR ''Z'' then char_of ((of_char c :: nat) + 32) else c) s"

section \<open>JSON access\<close>

text \<open>\<open>content.get(key, default)\<close> on a dictionary.\<close>

definition json_get :: "(string \<times> json) list \<Rightarrow> string \<Rightarrow> json \<Rightarrow> json" where
  "json_get obj key dflt = (case map_of obj key of None \<Rightarrow> dflt | Some v \<Rightarrow> v)"

fun truthy :: "json \<Rightarrow> bool" where
  "truthy JNull = False" | "truthy (JBool b) = b" | "truthy (JInt i) = (i \<noteq> 0)"
| "truthy (JFloat r) = (r \<noteq> 0)" | "truthy (JStr s) = (s \<noteq> '''')"
| "truthy (JList xs) = (xs \<noteq> [])" | "truthy (JObj kvs) = (kvs \<noteq> [])"

definition json_or :: "json \<Rightarrow> json \<Rightarrow> json" where
  "json_or a b = (if truthy a then a else b)"

fun json_opt_str :: "string option \<Rightarrow> json" where
  "json_opt_str None = JNull" | "json_opt_str (Some s) = JStr s"

section \<open>Views\<close>

record workflow_status =
  wst_workflow_id :: string
  wst_state :: workflow_state
  wst_version :: int
  wst_created_at :: datetime
  wst_updated_at :: datetime
  wst_revision_count :: int
  wst_failure_reason :: "string option"

record workflow_history =
  wh_workflow_id :: string
  wh_transitions :: "transition_record list"

record workflow_output =
  wo_workflow_id :: string
  wo_state :: workflow_state
  wo_package :: "(string \<times> json) list"
  wo_is_complete :: bool
  wo_failure_reason :: "string option"

record timeline_event =
  te_occurred_at :: datetime
  te_event_type :: string
  te_summary :: string
  te_state :: "workflow_state option"
  te_task_type :: "task_type option"
  te_attributes :: "(string \<times> string) list"

record workflow_timeline =
  wt_workflow_id :: string
  wt_events :: "timeline_event list"

section \<open>Assembly\<close>

definition assemble_status :: "workflow_record \<Rightarrow> (world, workflow_status) prog" where
  "assemble_status r =
     bindE (to_domain_workflow_state (state_value (wf_state r))) (\<lambda>state.
     ret \<lparr>wst_workflow_id = wf_id r, wst_state = state, wst_version = wf_version r,
          wst_created_at = wf_created_at r, wst_updated_at = wf_updated_at r,
          wst_revision_count = wf_revision_count r, wst_failure_reason = wf_failure_reason r\<rparr>)"

definition assemble_history :: "string \<Rightarrow> (world, workflow_history) prog" where
  "assemble_history wid =
     bindE (gets (list_transitions wid)) (\<lambda>rows.
     bindE (forE rows to_domain_transition) (\<lambda>transitions.
     ret \<lparr>wh_workflow_id = wid, wh_transitions = transitions\<rparr>))"

text \<open>One section of the package: the active artifact of a type, with its content.\<close>

definition active_section ::
  "string \<Rightarrow> artifact_type \<Rightarrow> string \<Rightarrow> (artifact_record \<Rightarrow> json \<Rightarrow> (string \<times> json) list option) \<Rightarrow>
   (world, (string \<times> json) list) prog"
where
  "active_section wid ty key render =
     bindE (gets (get_active_artifact wid ty)) (\<lambda>found.
     case found of
       None \<Rightarrow> ret []
     | Some a \<Rightarrow>
         bindE (get_artifact_content (ar_id a)) (\<lambda>content.
         ret (case render a content of None \<Rightarrow> [] | Some kvs \<Rightarrow> [(key, JObj kvs)])))"

definition source_section :: "artifact_record \<Rightarrow> json \<Rightarrow> (string \<times> json) list option" where
  "source_section a content =
     (let stories = (case content of JObj kvs \<Rightarrow> json_get kvs ''stories'' (JList []) | _ \<Rightarrow> JList [])
      in Some [(''artifact_id'', JStr (ar_id a)), (''version'', JInt (ar_version a)),
           (''logical_version'', JInt (ar_logical_version a)),
           (''story_count'', JInt (case stories of JList xs \<Rightarrow> int (length xs) | _ \<Rightarrow> 0)),
           (''collected_at'', JStr (isoformat (ar_created_at a))), (''content'', content)])"

definition topic_section :: "artifact_record \<Rightarrow> json \<Rightarrow> (string \<times> json) list option" where
  "topic_section a content =
     (case content of
        JObj kvs \<Rightarrow>
          Some [(''artifact_id'', JStr (ar_id a)), (''version'', JInt (ar_version a)),
            (''selected_topic'', json_get kvs ''selected_topic'' (JStr '''')),
            (''rationale'', json_or (json_get kvs ''rationale'' JNull)
               (json_get kvs ''why_interesting'' (JStr ''''))),
            (''confidence'', json_get kvs ''confidence'' JNull), (''content'', content)]
      | _ \<Rightarrow> None)"

definition scenario_section :: "artifact_record \<Rightarrow> json \<Rightarrow> (string \<times> json) list option" where
  "scenario_section a content =
     (case content of
        JObj kvs \<Rightarrow>
          Some [(''artifact_id'', JStr (ar_id a)), (''version'', JInt (ar_version a)),
            (''logical_version'', JInt (ar_logical_version a)),
            (''premise'', json_get kvs ''premise'' (JStr '''')),
            (''characters'', json_get kvs ''characters'' (JList [])),
            (''panels'', json_get kvs ''panels'' (JList [])),
            (''punchline'', json_get kvs ''punchline'' JNull), (''content'', content)]
      | _ \<Rightarrow> None)"

definition critic_section :: "artifact_record \<Rightarrow> json \<Rightarrow> (string \<times> json) list option" where
  "critic_section a content =
     (case content of
        JObj kvs \<Rightarrow>
          Some [(''artifact_id'', JStr (ar_id a)), (''version'', JInt (ar_version a)),
            (''verdict'', json_or (json_get kvs ''verdict'' JNull) (json_get kvs ''status'' (JStr ''''))),
            (''dimensions'', json_get kvs ''dimensions'' (JObj [])), (''content'', content)]
      | _ \<Rightarrow> None)"

definition invocation_summary :: "ai_invocation_record \<Rightarrow> json" where
  "invocation_summary iv =
     JObj [(''invocation_id'', JStr (ai_id iv)), (''agent_name'', JStr (ais_agent_name (ai_spec iv))),
       (''provider'', JStr (ais_provider (ai_spec iv))), (''model'', JStr (ais_model (ai_spec iv))),
       (''status'', JStr (invocation_status_value (ais_status (ai_spec iv)))),
       (''started_at'', JStr (isoformat (ais_started_at (ai_spec iv)))),
       (''completed_at'', json_opt_str (map_option isoformat (ais_completed_at (ai_spec iv))))]"

definition assemble_output :: "workflow_record \<Rightarrow> (world, workflow_output) prog" where
  "assemble_output workflow =
     (let wid = wf_id workflow in
      bindE (to_domain_workflow_state (state_value (wf_state workflow))) (\<lambda>state.
      bindE (active_section wid COLLECTED_STORIES ''source'' source_section) (\<lambda>source.
      bindE (active_section wid TOPIC_SELECTION ''topic'' topic_section) (\<lambda>topic.
      bindE (active_section wid SCENARIO ''scenario'' scenario_section) (\<lambda>scenario.
      bindE (active_section wid CRITIC_REVIEW ''critic'' critic_section) (\<lambda>critic.
      bindE (gets (list_transitions wid)) (\<lambda>transitions.
      bindE (gets (list_ai_invocations wid None)) (\<lambda>invocations.
      let execution =
            JObj [(''workflow_id'', JStr wid), (''state'', JStr (state_value state)),
              (''state_version'', JInt (wf_version workflow)),
              (''revision_count'', JInt (wf_revision_count workflow)),
              (''created_at'', JStr (isoformat (wf_created_at workflow))),
              (''updated_at'', JStr (isoformat (wf_updated_at workflow))),
              (''transition_count'', JInt (int (length transitions))),
              (''failure_reason'', json_opt_str (wf_failure_reason workflow)),
              (''invocations'', JList (map invocation_summary invocations))];
          failed = (state \<in> TERMINAL_STATES \<and> state \<noteq> APPROVED)
      in ret \<lparr>wo_workflow_id = wid, wo_state = state,
              wo_package = source @ topic @ scenario @ critic @ [(''execution'', execution)],
              wo_is_complete = (if failed then False else state = APPROVED),
              wo_failure_reason =
                (if failed
                 then Some (case wf_failure_reason workflow of
                        Some reason \<Rightarrow> if reason \<noteq> '''' then reason else lower (state_value state)
                      | None \<Rightarrow> lower (state_value state))
                 else None)\<rparr>))))))))"

definition EVENT_TYPE_RANK :: "string \<Rightarrow> int" where
  "EVENT_TYPE_RANK ty =
     (if ty = ''transition'' then 0 else if ty = ''task_enqueued'' then 1
      else if ty = ''ai_invocation'' then 2 else 99)"

definition event_sort_key :: "timeline_event \<Rightarrow> datetime \<times> int \<times> string" where
  "event_sort_key e =
     (te_occurred_at e, EVENT_TYPE_RANK (te_event_type e),
      case map_of (te_attributes e) ''stable_id'' of None \<Rightarrow> '''' | Some i \<Rightarrow> i)"

abbreviation event :: "datetime \<Rightarrow> string \<Rightarrow> string \<Rightarrow> string \<Rightarrow> timeline_event" where
  "event when_at ty summary stable_id \<equiv>
     \<lparr>te_occurred_at = when_at, te_event_type = ty, te_summary = summary, te_state = None,
      te_task_type = None, te_attributes = [(''stable_id'', stable_id)]\<rparr>"

text \<open>The arrow between the two states is the character U+2192.\<close>

definition transition_event :: "workflow_transition_record \<Rightarrow> timeline_event" where
  "transition_event t =
     event (tr_occurred_at t) ''transition''
       (state_value (tr_from t) @ '' '' @ [CHR 0xE2, CHR 0x86, CHR 0x92] @ '' '' @ state_value (tr_to t)
        @ '': '' @ tr_reason t) (tr_id t)"

definition task_event :: "task_record \<Rightarrow> timeline_event" where
  "task_event k =
     event (tk_created_at k) ''task_enqueued''
       (task_type_value (tk_type k) @ '' attempt '' @ show_int (tk_attempt k)) (tk_id k)"

definition invocation_event :: "ai_invocation_record \<Rightarrow> timeline_event" where
  "invocation_event i =
     event (ais_started_at (ai_spec i)) ''ai_invocation''
       (ais_agent_name (ai_spec i) @ '' '' @ invocation_status_value (ais_status (ai_spec i))) (ai_id i)"

definition assemble_timeline :: "repos \<Rightarrow> string \<Rightarrow> (world, workflow_timeline) prog" where
  "assemble_timeline R wid =
     bindE (gets (list_transitions wid)) (\<lambda>transitions.
     bindE (gets (\<lambda>w. case rp_list_tasks_for_workflow R of None \<Rightarrow> [] | Some f \<Rightarrow> f wid w)) (\<lambda>tasks.
     bindE (gets (list_ai_invocations wid None)) (\<lambda>invocations.
     ret \<lparr>wt_workflow_id = wid,
          wt_events = sort_key event_sort_key
            (map transition_event transitions @ map task_event tasks
             @ map invocation_event invocations)\<rparr>)))"

section \<open>Queries of the engine\<close>

definition query_workflow :: "string \<Rightarrow> (workflow_record \<Rightarrow> (world, 'a) prog) \<Rightarrow> (world, 'a) prog" where
  "query_workflow wid k =
     bindE (gets (get_workflow wid)) (\<lambda>found.
     case found of None \<Rightarrow> raise (WorkflowNotFoundError wid) | Some r \<Rightarrow> k r)"

definition get_workflow_status :: "string \<Rightarrow> (world, workflow_status) prog" where
  "get_workflow_status wid = query_workflow wid assemble_status"

definition get_workflow_history :: "string \<Rightarrow> (world, workflow_history) prog" where
  "get_workflow_history wid = query_workflow wid (\<lambda>_. assemble_history wid)"

definition get_workflow_output :: "string \<Rightarrow> (world, workflow_output) prog" where
  "get_workflow_output wid = query_workflow wid assemble_output"

definition get_workflow_timeline :: "repos \<Rightarrow> string \<Rightarrow> (world, workflow_timeline) prog" where
  "get_workflow_timeline R wid = query_workflow wid (\<lambda>_. assemble_timeline R wid)"

section \<open>Properties\<close>

lemma active_section_state: "snd (active_section wid ty key render w) = w"
  by (auto simp: active_section_def get_artifact_content_def bindE_def py_simps split: option.splits)

text \<open>
  The timeline of a workflow holds exactly one event for each of its history rows, tasks and
  model invocations, in the order of their instants; events of the same instant are ordered
  transitions first, then tasks, then invocations, and by identifier within a kind.
\<close>

theorem timeline_complete_and_ordered:
  assumes "get_workflow wid w = Some x"
  shows "\<exists>tl. get_workflow_timeline (workflow_repos E) wid w = (Inr tl, w)
    \<and> mset (wt_events tl) = image_mset transition_event (filter_mset (\<lambda>t. tr_workflow_id t = wid) (mset (tr_rows w)))
        + image_mset task_event (filter_mset (\<lambda>k. tk_workflow_id k = wid) (mset (dict_values (task_rows w))))
        + image_mset invocation_event (filter_mset (\<lambda>i. ais_workflow_id (ai_spec i) = wid) (mset (inv_rows w)))
    \<and> sorted (map event_sort_key (wt_events tl))"
  using assms
  by (simp add: get_workflow_timeline_def query_workflow_def assemble_timeline_def workflow_repos_def
      list_transitions_def wk_list_tasks_for_workflow_def list_ai_invocations_def py_simps)

theorem timeline_complete_and_ordered_witness:
  "\<exists>tl. get_workflow_timeline (workflow_repos demo_env) ''wf-1'' demo_started = (Inr tl, demo_started)
     \<and> size (mset (wt_events tl)) = 2"
proof -
  have n: "length (filter (\<lambda>t. tr_workflow_id t = ''wf-1'') (tr_rows demo_started)) = 1"
    "length (filter (\<lambda>k. tk_workflow_id k = ''wf-1'') (dict_values (task_rows demo_started))) = 1"
    "inv_rows demo_started = []" by code_simp+
  have size: "size (filter_mset P (mset xs)) = length (filter P xs)" for P and xs :: "'a list"
    by (metis mset_filter size_mset)
  from timeline_complete_and_ordered [OF demo_started_row, of demo_env] obtain tl where
    tl: "get_workflow_timeline (workflow_repos demo_env) ''wf-1'' demo_started = (Inr tl, demo_started)"
    and ev: "mset (wt_events tl) = image_mset transition_event (filter_mset (\<lambda>t. tr_workflow_id t = ''wf-1'') (mset (tr_rows demo_started)))
        + image_mset task_event (filter_mset (\<lambda>k. tk_workflow_id k = ''wf-1'') (mset (dict_values (task_rows demo_started))))
        + image_mset invocation_event (filter_mset (\<lambda>i. ais_workflow_id (ai_spec i) = ''wf-1'') (mset (inv_rows demo_started)))"
    by blast
  have "size (mset (wt_events tl)) = 2"
    unfolding ev size_union size_image_mset size using n by simp
  with tl show ?thesis by blast
qed

lemma state_value_lower_nonempty: "lower (state_value s) \<noteq> ''''"
  by (cases s) (simp_all add: lower_def)

text \<open>
  The output of a workflow is marked complete exactly when it is approved, and it carries a
  failure reason exactly when the workflow ended in another terminal state; the reason is never
  empty. Reading it changes nothing.
\<close>

theorem output_verdict:
  assumes "get_workflow_output wid w = (Inr out, w')"
  shows "w' = w \<and> (\<exists>x. get_workflow wid w = Some x \<and> wo_state out = wf_state x)
    \<and> (wo_is_complete out \<longleftrightarrow> wo_state out = APPROVED)
    \<and> (wo_failure_reason out \<noteq> None \<longleftrightarrow> wo_state out \<in> TERMINAL_STATES - {APPROVED})
    \<and> wo_failure_reason out \<noteq> Some ''''"
proof -
  have sec: "active_section wid ty key render v = (Inr y, v') \<Longrightarrow> v' = v" for wid ty key render v v' y
    using active_section_state [of wid ty key render v] by simp
  from assms show ?thesis
    by (cases "get_workflow wid w")
       (auto simp: get_workflow_output_def query_workflow_def assemble_output_def Let_def bindE_eq_Inr
          state_value_lower_nonempty py_simps dest!: sec split: option.splits if_splits)
qed

theorem output_verdict_witness:
  "\<exists>out. get_workflow_output ''wf-1'' (demo_in_state REVIEW_FAILED) = (Inr out, demo_in_state REVIEW_FAILED)
     \<and> wo_failure_reason out = Some ''review_failed'' \<and> \<not> wo_is_complete out"
proof -
  have "map_sum id wo_failure_reason (fst (get_workflow_output ''wf-1'' (demo_in_state REVIEW_FAILED)))
      = Inr (Some ''review_failed'')" by code_simp
  then obtain out w' where out: "get_workflow_output ''wf-1'' (demo_in_state REVIEW_FAILED) = (Inr out, w')"
      "wo_failure_reason out = Some ''review_failed''"
    by (cases "get_workflow_output ''wf-1'' (demo_in_state REVIEW_FAILED)";
        cases "fst (get_workflow_output ''wf-1'' (demo_in_state REVIEW_FAILED))") auto
  with output_verdict [OF out(1)] show ?thesis by auto
qed

end
