(* ===== verification/Leases.thy ===== *)
theory Leases
  imports Persistence_Fakes
begin

text \<open>
  Task leases: the in-memory lease repository (\<open>persistence/fakes/task_lease.py\<close>), the contract a
  worker relies on (\<open>lease_store\<close>), and the lease coordinator (\<open>worker/lease.py\<close>). A renewal
  timer is an entry of the coordinator's timer table; that a timer fires is the explicit step
  \<open>renew_lease\<close>.
\<close>

section \<open>In-memory repository\<close>

definition delete_expired :: "env \<Rightarrow> string \<Rightarrow> (world, unit) prog" where
  "delete_expired E task_id =
     bindE (gets (\<lambda>w. dict_get (lease_rows w) task_id)) (\<lambda>found.
     case found of
       None \<Rightarrow> ret ()
     | Some lease \<Rightarrow>
         bindE (utc_now E) (\<lambda>now.
         whenE (le_expires_at lease < now)
           (modifyE (\<lambda>w. w\<lparr>lease_rows := dict_del task_id (lease_rows w)\<rparr>))))"

definition try_acquire :: "env \<Rightarrow> string \<Rightarrow> string \<Rightarrow> microseconds \<Rightarrow> (world, task_lease option) prog" where
  "try_acquire E task_id worker_id ttl =
     bindE (delete_expired E task_id) (\<lambda>_.
     bindE (gets (\<lambda>w. dict_get (lease_rows w) task_id)) (\<lambda>found.
     if found \<noteq> None then ret None
     else
       bindE (new_uuid E) (\<lambda>lease_id.
       bindE (utc_now E) (\<lambda>acquired_at.
       let lease = \<lparr>le_id = lease_id, le_task_id = task_id, le_worker_id = worker_id,
                    le_acquired_at = acquired_at, le_expires_at = acquired_at + ttl\<rparr> in
       bindE (modifyE (\<lambda>w. w\<lparr>lease_rows := dict_set task_id lease (lease_rows w)\<rparr>)) (\<lambda>_.
       ret (Some lease))))))"

text \<open>The loop over the items stops at the first lease with the identifier.\<close>

definition find_lease :: "string \<Rightarrow> world \<Rightarrow> (string \<times> task_lease) option" where
  "find_lease lease_id w = find (\<lambda>(k, l). le_id l = lease_id) (lease_rows w)"

definition renew :: "env \<Rightarrow> string \<Rightarrow> microseconds \<Rightarrow> (world, task_lease) prog" where
  "renew E lease_id ttl =
     bindE (gets (find_lease lease_id)) (\<lambda>found.
     case found of
       None \<Rightarrow> raise (PersistenceNotFoundError lease_id)
     | Some (task_id, lease) \<Rightarrow>
         bindE (utc_now E) (\<lambda>now.
         if le_expires_at lease \<le> now then raise (PersistenceNotFoundError lease_id)
         else
           bindE (utc_now E) (\<lambda>now2.
           let renewed = lease\<lparr>le_expires_at := now2 + ttl\<rparr> in
           bindE (modifyE (\<lambda>w. w\<lparr>lease_rows := dict_set task_id renewed (lease_rows w)\<rparr>)) (\<lambda>_.
           ret renewed))))"

definition release :: "string \<Rightarrow> (world, unit) prog" where
  "release lease_id =
     bindE (gets (find_lease lease_id)) (\<lambda>found.
     case found of
       None \<Rightarrow> ret ()
     | Some (task_id, lease) \<Rightarrow> modifyE (\<lambda>w. w\<lparr>lease_rows := dict_del task_id (lease_rows w)\<rparr>))"

definition get_active_lease :: "env \<Rightarrow> string \<Rightarrow> (world, task_lease option) prog" where
  "get_active_lease E task_id =
     bindE (gets (\<lambda>w. dict_get (lease_rows w) task_id)) (\<lambda>found.
     case found of
       None \<Rightarrow> ret None
     | Some lease \<Rightarrow>
         bindE (utc_now E) (\<lambda>now. ret (if le_expires_at lease \<le> now then None else Some lease)))"

section \<open>Invariant\<close>

text \<open>One lease per task, stored under its task; lease identifiers are distinct and already drawn.\<close>

definition lease_inv :: "env \<Rightarrow> world \<Rightarrow> bool" where
  "lease_inv E w \<longleftrightarrow> keys_ok le_task_id (lease_rows w)
     \<and> (\<forall>l \<in> set (dict_values (lease_rows w)). \<exists>n < ticks w. le_id l = env_uuid E n)
     \<and> inj_on le_id (set (dict_values (lease_rows w)))"

definition lease_of :: "string \<Rightarrow> world \<Rightarrow> task_lease option" where
  "lease_of task_id w = dict_get (lease_rows w) task_id"

lemma lease_inv_empty: "lease_inv E empty_world"
  by (simp add: lease_inv_def empty_world_def)

lemma lease_inv_frame: "lease_inv E w \<Longrightarrow> lease_rows w' = lease_rows w \<Longrightarrow> ticks w \<le> ticks w' \<Longrightarrow> lease_inv E w'"
  unfolding lease_inv_def by (metis order_less_le_trans)

lemma set_dict_del: "set (dict_del k d) = {p \<in> set d. fst p \<noteq> k}"
  by (auto simp: AList.delete_eq)

lemma lease_inv_del: "lease_inv E w \<Longrightarrow> lease_inv E (w\<lparr>lease_rows := dict_del k (lease_rows w)\<rparr>)"
  by (auto simp: lease_inv_def keys_ok_def set_dict_del distinct_delete intro: inj_on_subset)

lemma values_dict_set:
  "keys_ok key d \<Longrightarrow> set (dict_values (dict_set k v d)) = insert v {x \<in> set (dict_values d). key x \<noteq> k}"
  by (fastforce simp: keys_ok_def set_dict_set)

lemma lease_inv_set:
  assumes inv: "lease_inv E w" and l: "le_task_id l = k" "\<exists>n < ticks w. le_id l = env_uuid E n"
    and other: "\<forall>x \<in> set (dict_values (lease_rows w)). le_task_id x \<noteq> k \<longrightarrow> le_id x \<noteq> le_id l"
  shows "lease_inv E (w\<lparr>lease_rows := dict_set k l (lease_rows w)\<rparr>)"
proof -
  have keys: "keys_ok le_task_id (lease_rows w)" using inv by (simp add: lease_inv_def)
  have v: "set (dict_values (dict_set k l (lease_rows w)))
      = insert l {x \<in> set (dict_values (lease_rows w)). le_task_id x \<noteq> k}"
    by (rule values_dict_set [OF keys])
  have "inj_on le_id (insert l {x \<in> set (dict_values (lease_rows w)). le_task_id x \<noteq> k})"
    using inv other by (auto simp: lease_inv_def intro: inj_on_subset)
  with inv l v keys show ?thesis by (auto simp: lease_inv_def keys_ok_set')
qed

section \<open>Effects of the operations\<close>

abbreviation put_leases :: "(string, task_lease) dict \<Rightarrow> nat \<Rightarrow> world \<Rightarrow> world" where
  "put_leases d n w \<equiv> w\<lparr>lease_rows := d, ticks := n\<rparr>"

lemma delete_expired_eq:
  "delete_expired E t w =
     (case lease_of t w of
        None \<Rightarrow> (Inr (), w)
      | Some l \<Rightarrow>
          if le_expires_at l < env_now E (ticks w)
          then (Inr (), put_leases (dict_del t (lease_rows w)) (Suc (ticks w)) w)
          else (Inr (), w\<lparr>ticks := Suc (ticks w)\<rparr>))"
  by (simp add: delete_expired_def lease_of_def py_simps split: option.splits)

definition fresh_lease :: "env \<Rightarrow> string \<Rightarrow> string \<Rightarrow> microseconds \<Rightarrow> nat \<Rightarrow> task_lease" where
  "fresh_lease E t wid ttl n =
     \<lparr>le_id = env_uuid E n, le_task_id = t, le_worker_id = wid,
      le_acquired_at = env_now E (Suc n), le_expires_at = env_now E (Suc n) + ttl\<rparr>"

lemma try_acquire_eq:
  "try_acquire E t wid ttl w =
     (case lease_of t w of
        None \<Rightarrow> (Inr (Some (fresh_lease E t wid ttl (ticks w))),
                  put_leases (dict_set t (fresh_lease E t wid ttl (ticks w)) (lease_rows w)) (ticks w + 2) w)
      | Some l \<Rightarrow>
          if le_expires_at l < env_now E (ticks w)
          then (Inr (Some (fresh_lease E t wid ttl (ticks w + 1))),
                put_leases (dict_set t (fresh_lease E t wid ttl (ticks w + 1)) (dict_del t (lease_rows w)))
                  (ticks w + 3) w)
          else (Inr None, w\<lparr>ticks := Suc (ticks w)\<rparr>))"
  by (auto simp: try_acquire_def bindE_def delete_expired_eq lease_of_def fresh_lease_def py_simps Let_def
      split: option.splits)

lemma find_lease_Some:
  "find_lease i w = Some (k, l) \<Longrightarrow> (k, l) \<in> set (lease_rows w) \<and> le_id l = i"
  by (auto simp: find_lease_def find_Some_iff in_set_conv_nth)

lemma find_lease_None: "find_lease i w = None \<longleftrightarrow> (\<forall>l \<in> set (dict_values (lease_rows w)). le_id l \<noteq> i)"
  by (force simp: find_lease_def find_None_iff)

text \<open>The lease of a task is found by its identifier.\<close>

lemma find_lease_of:
  assumes inv: "lease_inv E w" and l: "lease_of t w = Some l"
  shows "find_lease (le_id l) w = Some (t, l)"
proof (cases "find_lease (le_id l) w")
  case None
  moreover have "l \<in> set (dict_values (lease_rows w))"
    using l by (force simp: lease_of_def dest: map_of_SomeD)
  ultimately show ?thesis by (auto simp: find_lease_None)
next
  case (Some kl)
  obtain k l' where kl: "kl = (k, l')" by (cases kl)
  with Some have mem: "(k, l') \<in> set (lease_rows w)" "le_id l' = le_id l" using find_lease_Some by blast+
  have mem': "(t, l) \<in> set (lease_rows w)" using l by (auto simp: lease_of_def dest: map_of_SomeD)
  have "inj_on le_id (set (dict_values (lease_rows w)))" using inv by (simp add: lease_inv_def)
  moreover have "l \<in> set (dict_values (lease_rows w))" "l' \<in> set (dict_values (lease_rows w))"
    using mem mem' by force+
  ultimately have "l' = l" using mem(2) by (auto dest: inj_onD)
  moreover have "le_task_id l' = k" "le_task_id l = t"
    using inv mem(1) mem' by (auto simp: lease_inv_def keys_ok_def)
  ultimately show ?thesis using Some kl by simp
qed

lemma release_eq:
  "release i w = (case find_lease i w of None \<Rightarrow> (Inr (), w)
     | Some (k, l) \<Rightarrow> (Inr (), w\<lparr>lease_rows := dict_del k (lease_rows w)\<rparr>))"
  by (auto simp: release_def py_simps split: option.splits)

lemma renew_eq:
  "renew E i ttl w = (case find_lease i w of None \<Rightarrow> (Inl (PersistenceNotFoundError i), w)
     | Some (k, l) \<Rightarrow>
         if le_expires_at l \<le> env_now E (ticks w)
         then (Inl (PersistenceNotFoundError i), w\<lparr>ticks := Suc (ticks w)\<rparr>)
         else let l' = l\<lparr>le_expires_at := env_now E (Suc (ticks w)) + ttl\<rparr>
              in (Inr l', put_leases (dict_set k l' (lease_rows w)) (Suc (Suc (ticks w))) w))"
  by (auto simp: renew_def bindE_def py_simps Let_def split: option.splits)

section \<open>The contract\<close>

text \<open>
  What a worker relies on: at any instant a task has at most one lease; acquiring it fails while the
  lease has not passed its expiry and otherwise installs a lease for the caller; releasing or
  renewing touches only the lease named; every operation keeps the invariant of the store.
\<close>

locale lease_store =
  fixes E :: env
    and acquire_op :: "string \<Rightarrow> string \<Rightarrow> microseconds \<Rightarrow> (world, task_lease option) prog"
    and renew_op :: "string \<Rightarrow> microseconds \<Rightarrow> (world, task_lease) prog"
    and release_op :: "string \<Rightarrow> (world, unit) prog"
    and holder :: "string \<Rightarrow> world \<Rightarrow> task_lease option"
    and store_ok :: "world \<Rightarrow> bool"
  assumes acquire_held: "holder t w = Some l \<Longrightarrow> env_now E (ticks w) \<le> le_expires_at l \<Longrightarrow>
      \<exists>w'. acquire_op t wid ttl w = (Inr None, w') \<and> holder u w' = holder u w"
    and acquire_free: "holder t w = None \<or> (\<exists>l. holder t w = Some l \<and> le_expires_at l < env_now E (ticks w)) \<Longrightarrow>
      \<exists>l w'. acquire_op t wid ttl w = (Inr (Some l), w') \<and> holder t w' = Some l
        \<and> le_task_id l = t \<and> le_worker_id l = wid \<and> le_expires_at l = le_acquired_at l + ttl
        \<and> (\<forall>u. u \<noteq> t \<longrightarrow> holder u w' = holder u w)"
    and acquire_ok: "store_ok w \<Longrightarrow> acquire_op t wid ttl w = (r, w') \<Longrightarrow> store_ok w'"
    and release_frees: "store_ok w \<Longrightarrow> holder t w = Some l \<Longrightarrow>
      \<exists>w'. release_op (le_id l) w = (Inr (), w') \<and> holder t w' = None
        \<and> (\<forall>u. u \<noteq> t \<longrightarrow> holder u w' = holder u w)"
    and release_ok: "store_ok w \<Longrightarrow> release_op i w = (r2, w') \<Longrightarrow> store_ok w'"
    and renew_holds: "store_ok w \<Longrightarrow> renew_op i ttl w = (Inr l, w') \<Longrightarrow>
      holder (le_task_id l) w' = Some l \<and> le_id l = i
        \<and> (\<exists>l0. holder (le_task_id l) w = Some l0 \<and> le_worker_id l = le_worker_id l0)
        \<and> (\<forall>u. u \<noteq> le_task_id l \<longrightarrow> holder u w' = holder u w)"
    and renew_ok: "store_ok w \<Longrightarrow> renew_op i ttl w = (r3, w') \<Longrightarrow> store_ok w'"
begin

text \<open>
  Mutual exclusion: after a successful acquisition, in any later state in which that lease is still
  recorded and its expiry has not passed, every other acquisition fails.
\<close>

lemma exclusive:
  assumes "acquire_op t a ttl w = (Inr (Some l), w1)" and "holder t v = Some l"
    and "env_now E (ticks v) \<le> le_expires_at l"
  shows "\<exists>w2. acquire_op t b ttl' v = (Inr None, w2) \<and> holder t w2 = Some l"
  using acquire_held [OF assms(2,3)] assms(2) by metis

lemma acquire_release:
  assumes "store_ok w" and "acquire_op t a ttl w = (Inr (Some l), w1)"
  shows "\<exists>w2. release_op (le_id l) w1 = (Inr (), w2) \<and> holder t w2 = None"
proof -
  consider l0 where "holder t w = Some l0" "env_now E (ticks w) \<le> le_expires_at l0"
    | "holder t w = None \<or> (\<exists>l. holder t w = Some l \<and> le_expires_at l < env_now E (ticks w))"
    by (metis linorder_not_less not_None_eq)
  then have "holder t w1 = Some l"
  proof cases
    case 1
    with acquire_held [OF 1, of a ttl t] assms(2) show ?thesis by simp
  next
    case 2
    from acquire_free [OF 2, of a ttl] assms(2) show ?thesis by auto
  qed
  with release_frees [OF acquire_ok [OF assms]] show ?thesis by blast
qed

end

lemma lease_inv_acquire:
  assumes "lease_inv E w" and "fresh_uuids E" and "try_acquire E t wid ttl w = (r, w')"
  shows "lease_inv E w'"
proof -
  have later: "le_id x \<noteq> env_uuid E n" if "x \<in> set (dict_values (lease_rows w))" "ticks w \<le> n" for x n
    using assms(1,2) that by (fastforce simp: lease_inv_def fresh_uuids_def dest: injD)
  have set: "lease_inv E (put_leases (dict_set t (fresh_lease E t wid ttl n) d) (n + 2) w)"
    if "lease_inv E (put_leases d n w)" "set (dict_values d) \<subseteq> set (dict_values (lease_rows w))" "ticks w \<le> n" for d n
  proof -
    let ?v = "put_leases d (n + 2) w"
    have "lease_inv E ?v" by (rule lease_inv_frame [OF that(1)]) simp_all
    moreover have "\<exists>k < ticks ?v. le_id (fresh_lease E t wid ttl n) = env_uuid E k"
      by (intro exI [of _ n]) (simp add: fresh_lease_def)
    moreover have "\<forall>x \<in> set (dict_values (lease_rows ?v)). le_task_id x \<noteq> t \<longrightarrow> le_id x \<noteq> le_id (fresh_lease E t wid ttl n)"
      using that(2,3) later by (fastforce simp: fresh_lease_def)
    ultimately have "lease_inv E (?v\<lparr>lease_rows := dict_set t (fresh_lease E t wid ttl n) (lease_rows ?v)\<rparr>)"
      by (intro lease_inv_set) (simp_all add: fresh_lease_def)
    then show ?thesis by (rule lease_inv_frame) simp_all
  qed
  have del: "lease_inv E (put_leases (dict_del t (lease_rows w)) (Suc (ticks w)) w)"
    by (rule lease_inv_frame [OF lease_inv_del [OF assms(1), of t]]) simp_all
  have sub: "set (dict_values (dict_del t (lease_rows w))) \<subseteq> set (dict_values (lease_rows w))"
    by (auto simp: set_dict_del)
  have same: "lease_inv E (put_leases (lease_rows w) n w)" if "ticks w \<le> n" for n
    using assms(1) that by (auto intro: lease_inv_frame)
  from assms(3) set [OF same, of "ticks w"] set [OF del sub] same [of "Suc (ticks w)"] show ?thesis
    by (auto simp: try_acquire_eq eval_nat_numeral split: option.splits if_splits)
qed

lemma lease_inv_release: "lease_inv E w \<Longrightarrow> release i w = (r, w') \<Longrightarrow> lease_inv E w'"
  by (auto simp: release_eq lease_inv_del split: option.splits)

lemma lease_inv_renew:
  assumes inv: "lease_inv E w" and "renew E i ttl w = (r, w')"
  shows "lease_inv E w'"
proof (cases "find_lease i w")
  case None
  with assms show ?thesis by (auto simp: renew_eq)
next
  case (Some kl)
  obtain k l where kl: "kl = (k, l)" by (cases kl)
  with Some have l: "(k, l) \<in> set (lease_rows w)" using find_lease_Some by blast
  with inv have k: "le_task_id l = k" by (auto simp: lease_inv_def keys_ok_def)
  let ?l = "l\<lparr>le_expires_at := env_now E (Suc (ticks w)) + ttl\<rparr>"
  have v: "lease_inv E (w\<lparr>ticks := n\<rparr>)" if "ticks w \<le> n" for n
    using inv that by (auto intro: lease_inv_frame)
  have lv: "l \<in> set (dict_values (lease_rows w))" using l by force
  then obtain n where "n < ticks w" "le_id l = env_uuid E n" using inv by (auto simp: lease_inv_def)
  then have n: "\<exists>n < ticks (w\<lparr>ticks := Suc (Suc (ticks w))\<rparr>). le_id ?l = env_uuid E n"
    by (intro exI [of _ n]) simp
  have inj: "inj_on le_id (set (dict_values (lease_rows w)))" using inv by (simp add: lease_inv_def)
  have other: "\<forall>x \<in> set (dict_values (lease_rows (w\<lparr>ticks := Suc (Suc (ticks w))\<rparr>))).
      le_task_id x \<noteq> k \<longrightarrow> le_id x \<noteq> le_id ?l"
    using inj_onD [OF inj _ _ lv] k by auto
  have "lease_inv E ((w\<lparr>ticks := Suc (Suc (ticks w))\<rparr>)
      \<lparr>lease_rows := dict_set k ?l (lease_rows (w\<lparr>ticks := Suc (Suc (ticks w))\<rparr>))\<rparr>)"
    by (rule lease_inv_set [OF v _ n other]) (simp_all add: k)
  then have "lease_inv E (put_leases (dict_set k ?l (lease_rows w)) (Suc (Suc (ticks w))) w)"
    by (rule lease_inv_frame) simp_all
  with assms Some kl v [of "Suc (ticks w)"] show ?thesis
    by (auto simp: renew_eq Let_def split: if_splits)
qed

interpretation leases: lease_store E "try_acquire E" "renew E" release lease_of "\<lambda>w. lease_inv E w \<and> fresh_uuids E" for E
proof unfold_locales
  fix w t l
  assume "lease_inv E w \<and> fresh_uuids E" and l: "lease_of t w = Some l"
  then have "find_lease (le_id l) w = Some (t, l)" using find_lease_of by blast
  then show "\<exists>w'. release (le_id l) w = (Inr (), w') \<and> lease_of t w' = None
        \<and> (\<forall>u. u \<noteq> t \<longrightarrow> lease_of u w' = lease_of u w)"
    by (simp add: release_eq lease_of_def)
next
  fix w i ttl l w'
  assume inv: "lease_inv E w \<and> fresh_uuids E" and "renew E i ttl w = (Inr l, w')"
  then obtain k l0 where f: "find_lease i w = Some (k, l0)"
    and l: "l = l0\<lparr>le_expires_at := env_now E (Suc (ticks w)) + ttl\<rparr>"
    and w': "lease_rows w' = dict_set k l (lease_rows w)"
    by (auto simp: renew_eq Let_def split: option.splits if_splits)
  from find_lease_Some [OF f] inv have "le_task_id l0 = k" "dict_get (lease_rows w) k = Some l0" "le_id l0 = i"
    by (auto simp: lease_inv_def keys_ok_def)
  then show "lease_of (le_task_id l) w' = Some l \<and> le_id l = i
        \<and> (\<exists>l0. lease_of (le_task_id l) w = Some l0 \<and> le_worker_id l = le_worker_id l0)
        \<and> (\<forall>u. u \<noteq> le_task_id l \<longrightarrow> lease_of u w' = lease_of u w)"
    using l w' by (simp add: lease_of_def)
qed (auto simp: try_acquire_eq lease_of_def fresh_lease_def dest: lease_inv_acquire lease_inv_release lease_inv_renew)

end
