(* ===== verification/Worker_Support.thy ===== *)
theory Worker_Support
  imports Reconcile Leases
begin

text \<open>
  The worker's collaborators: queue messages and the in-memory queue, the stale-task guard
  (\<open>worker/state_mapping.py\<close>), retry classification and backoff (\<open>worker/retry.py\<close>), the
  idempotency orchestrator (\<open>worker/idempotency.py\<close>), the lease coordinator
  (\<open>worker/lease.py\<close>), the concurrency pool (\<open>worker/concurrency.py\<close>), the handler registry
  and the failure-injection registry. Configured durations are exact rationals; the rounding of
  floating-point arithmetic is not modelled.
\<close>

section \<open>Messages and results\<close>

record task_message =
  tm_task_id :: string
  tm_workflow_id :: string
  tm_task_type :: task_type
  tm_attempt :: int
  tm_created_at :: datetime
  tm_payload_reference :: string
  tm_trace_carrier :: "(string \<times> string) list"

record pending_delivery =
  pd_message :: task_message
  pd_stream :: string
  pd_consumer_group :: string
  pd_delivery_id :: string
  pd_dequeued_at :: datetime

datatype task_handler_outcome = HO_COMPLETED | HO_RETRYABLE_FAILURE | HO_PERMANENT_FAILURE | HO_DUPLICATE_REUSED

datatype duplicate_resolution = IGNORED_BEFORE_EXECUTION | DETECTED_DURING_EXECUTION
  | REJECTED_DURING_COMMIT | REUSED_COMMITTED_RESULT

datatype idempotency_phase = NOT_STARTED | ALREADY_COMPLETED | CLAIMED | DUPLICATE_REJECTED

record task_handler_result =
  hr_outcome :: task_handler_outcome
  hr_transition_signal :: "transition_signal option"
  hr_reason :: "string option"
  hr_result_artifact_id :: "string option"
  hr_duplicate_resolution :: "duplicate_resolution option"
  hr_retryable :: bool
  hr_error_class :: "string option"

record idempotency_check_result =
  ick_phase :: idempotency_phase
  ick_key :: string
  ick_existing_record :: "idempotency_record option"
  ick_duplicate_resolution :: "duplicate_resolution option"

record idempotency_claim_result =
  icl_phase :: idempotency_phase
  icl_key :: string
  icl_record :: "idempotency_record option"
  icl_duplicate_resolution :: "duplicate_resolution option"

record backoff_entry =
  be_task_id :: string
  be_ready_at :: datetime
  be_attempt :: int

section \<open>State of a worker process\<close>

text \<open>
  The database, the queue, and the mutable fields of the loop, the retry classifier, the lease
  coordinator and the pool. \<open>ws_lease_id\<close> is the local variable \<open>lease_id\<close> of the delivery in
  progress.
\<close>

record worker_state =
  ws_world :: world
  q_pending :: "pending_delivery list"
  q_in_flight :: "pending_delivery list"
  q_acked :: "string list"
  ws_backoff :: "(string, backoff_entry) dict"
  ws_renew_failed :: bool
  ws_timers :: "string list"
  ws_slots :: "task_type \<Rightarrow> int"
  ws_in_flight :: int
  ws_resolutions :: "duplicate_resolution list"
  ws_event_order :: "string list"
  ws_lease_id :: "string option"

text \<open>
  The injected dependencies. A handler gets the delivery, the task row and the idempotency key and
  works on the database. A hook of the failure-injection registry may raise. \<open>w_json_loads\<close> is
  the decoder applied to a payload stored as text; \<open>None\<close> is a decoding error.
\<close>

type_synonym task_handler = "pending_delivery \<Rightarrow> task_record \<Rightarrow> string \<Rightarrow> (world, task_handler_result) prog"

record worker =
  w_env :: env
  w_repos :: repos
  w_config :: app_config
  w_worker_id :: string
  w_handlers :: "task_type \<rightharpoonup> task_handler"
  w_hooks :: "injection_id \<rightharpoonup> (world, unit) prog"
  w_json_loads :: "string \<Rightarrow> json option"

definition on_world :: "(world, 'a) prog \<Rightarrow> (worker_state, 'a) prog" where
  "on_world m s = (case m (ws_world s) of (r, w) \<Rightarrow> (r, s\<lparr>ws_world := w\<rparr>))"

definition ws_transaction :: "worker \<Rightarrow> (worker_state, 'a) prog \<Rightarrow> (worker_state, 'a) prog" where
  "ws_transaction W body s =
     (case rp_tx_enter (w_repos W) (ws_world s) of
        (Inl e, w1) \<Rightarrow> (Inl e, s\<lparr>ws_world := w1\<rparr>)
      | (Inr _, w1) \<Rightarrow>
          (case body (s\<lparr>ws_world := w1\<rparr>) of
             (r, s2) \<Rightarrow> (r, s2\<lparr>ws_world := rp_tx_exit (w_repos W) (ws_world s) (isl r) (ws_world s2)\<rparr>)))"

abbreviation ws_clock :: "worker \<Rightarrow> (worker_state, datetime) prog" where
  "ws_clock W \<equiv> on_world (utc_now (w_env W))"

section \<open>In-memory queue\<close>

definition enqueue_delivery :: "pending_delivery \<Rightarrow> (worker_state, unit) prog" where
  "enqueue_delivery d = modifyE (\<lambda>s. s\<lparr>q_pending := q_pending s @ [d]\<rparr>)"

definition dequeue :: "(worker_state, pending_delivery option) prog" where
  "dequeue s =
     (case q_in_flight s of
        d # _ \<Rightarrow> (Inr (Some d), s)
      | [] \<Rightarrow> (case q_pending s of
                 [] \<Rightarrow> (Inr None, s)
               | d # ds \<Rightarrow> (Inr (Some d), s\<lparr>q_pending := ds, q_in_flight := q_in_flight s @ [d]\<rparr>)))"

definition ack :: "pending_delivery \<Rightarrow> (worker_state, unit) prog" where
  "ack d = modifyE (\<lambda>s. s\<lparr>q_acked := q_acked s @ [pd_delivery_id d],
     q_in_flight := filter (\<lambda>i. pd_delivery_id i \<noteq> pd_delivery_id d) (q_in_flight s)\<rparr>)"

section \<open>Stale tasks\<close>

datatype stale_action = PROCEED | ACK_AND_SKIP | ACK_AND_SKIP_APPROVAL | ACK_AND_SKIP_TERMINAL

record stale_task_decision =
  st_action :: stale_action
  st_reason :: "string option"

definition POST_TRANSITION_TABLE :: "((task_type \<times> transition_signal) \<times> workflow_state) list" where
  "POST_TRANSITION_TABLE =
    [((COLLECT, SIG_STAGE_COMPLETED), COLLECTED),
     ((SELECT_TOPIC, SIG_STAGE_COMPLETED), TOPIC_SELECTED),
     ((SELECT_TOPIC, SIG_NO_SUITABLE_TOPIC), NO_SUITABLE_TOPIC),
     ((GENERATE_SCENARIO, SIG_STAGE_COMPLETED), SCENARIO_GENERATED),
     ((REVIEW_SCENARIO, SIG_CRITIC_PASS), REVIEW_PASSED),
     ((REVIEW_SCENARIO, SIG_CRITIC_REVISE), REVISION_REQUIRED)]"

definition GUARD_TERMINAL_STATES :: "workflow_state set" where
  "GUARD_TERMINAL_STATES = {NO_SUITABLE_TOPIC, APPROVED, REJECTED, REVIEW_FAILED, FAILED, FAILED_PERMANENTLY}"

fun expected_state_for_task :: "task_type \<Rightarrow> workflow_state" where
  "expected_state_for_task COLLECT = COLLECTING"
| "expected_state_for_task SELECT_TOPIC = SELECTING_TOPIC"
| "expected_state_for_task GENERATE_SCENARIO = GENERATING_SCENARIO"
| "expected_state_for_task REVIEW_SCENARIO = REVIEWING"

definition classify_stale_task :: "workflow_state \<Rightarrow> task_type \<Rightarrow> stale_task_decision" where
  "classify_stale_task state task =
     (if state = AWAITING_HUMAN_APPROVAL then \<lparr>st_action = ACK_AND_SKIP_APPROVAL, st_reason = None\<rparr>
      else if state \<in> GUARD_TERMINAL_STATES then \<lparr>st_action = ACK_AND_SKIP_TERMINAL, st_reason = None\<rparr>
      else if state \<noteq> expected_state_for_task task
      then \<lparr>st_action = ACK_AND_SKIP, st_reason = Some ''state_mismatch''\<rparr>
      else \<lparr>st_action = PROCEED, st_reason = None\<rparr>)"

definition post_transition_state :: "task_type \<Rightarrow> transition_signal \<Rightarrow> ('s, workflow_state) prog" where
  "post_transition_state task signal =
     (if signal \<in> {SIG_RETRIES_EXHAUSTED, SIG_UNRECOVERABLE_ERROR}
      then (if signal = SIG_RETRIES_EXHAUSTED then ret FAILED_PERMANENTLY else ret FAILED)
      else (case map_of POST_TRANSITION_TABLE (task, signal) of
              None \<Rightarrow> raise ValueError
            | Some s \<Rightarrow> ret s))"

section \<open>Retries\<close>

definition effective_attempt :: "task_record \<Rightarrow> task_message \<Rightarrow> int" where
  "effective_attempt k m = max (tk_attempt k) (tm_attempt m)"

definition should_defer :: "worker \<Rightarrow> string \<Rightarrow> (worker_state, bool) prog" where
  "should_defer W task_id =
     bindE (gets (\<lambda>s. dict_get (ws_backoff s) task_id)) (\<lambda>entry.
     case entry of
       None \<Rightarrow> ret False
     | Some e \<Rightarrow> bindE (ws_clock W) (\<lambda>now. ret (now < be_ready_at e)))"

text \<open>\<open>type(err).__name__\<close>.\<close>

fun exn_class :: "exn \<Rightarrow> string" where
  "exn_class (WorkflowNotFoundError _) = ''WorkflowNotFoundError''"
| "exn_class (WorkflowConflictError _) = ''WorkflowConflictError''"
| "exn_class (InvalidTransitionError _ _ _) = ''InvalidTransitionError''"
| "exn_class (InvalidApprovalActionError _ _ _) = ''InvalidApprovalActionError''"
| "exn_class (WorkflowTerminalError _ _) = ''WorkflowTerminalError''"
| "exn_class (PersistenceNotFoundError _) = ''PersistenceNotFoundError''"
| "exn_class (PersistenceConflictError _) = ''PersistenceConflictError''"
| "exn_class (PersistenceDuplicateError _) = ''PersistenceDuplicateError''"
| "exn_class (PersistenceTransactionError _) = ''PersistenceTransactionError''"
| "exn_class (PersistenceValidationError _) = ''PersistenceValidationError''"
| "exn_class (RuntimeError _) = ''RuntimeError''"
| "exn_class ValueError = ''ValueError''"
| "exn_class TypeError = ''TypeError''"
| "exn_class KeyError = ''KeyError''"
| "exn_class (HandlerNotFoundError _) = ''HandlerNotFoundError''"
| "exn_class (LeaseConflictError _ _) = ''LeaseConflictError''"
| "exn_class (TaskExecutionError _ _) = ''TaskExecutionError''"
| "exn_class (ProviderError _ _ _) = ''ProviderError''"
| "exn_class (CollectorError _ _ _) = ''CollectorError''"
| "exn_class (AgentValidationError _) = ''AgentValidationError''"
| "exn_class SimulatedCrashBeforeAck = ''_SimulatedCrashBeforeAck''"
| "exn_class (OtherError c) = c"

fun classify_exception :: "exn \<Rightarrow> bool \<times> string" where
  "classify_exception (ProviderError _ retryable cls) = (retryable, cls)"
| "classify_exception (CollectorError _ retryable code) = (retryable, code)"
| "classify_exception (AgentValidationError code) = (False, code)"
| "classify_exception (TaskExecutionError _ retryable) = (retryable, ''WKR_EXECUTION'')"
| "classify_exception e = (False, exn_class e)"

definition classify_handler_result :: "task_handler_result \<Rightarrow> bool \<times> string" where
  "classify_handler_result r =
     (let or_default = (\<lambda>dflt. case hr_error_class r of Some c \<Rightarrow> if c \<noteq> '''' then c else dflt | None \<Rightarrow> dflt)
      in case hr_outcome r of
           HO_COMPLETED \<Rightarrow> (False, '''')
         | HO_DUPLICATE_REUSED \<Rightarrow> (False, '''')
         | HO_RETRYABLE_FAILURE \<Rightarrow> (True, or_default ''retryable_failure'')
         | HO_PERMANENT_FAILURE \<Rightarrow> (False, or_default ''permanent_failure''))"

text \<open>\<open>timedelta(seconds=d)\<close> in microseconds: the nearest integer, ties to even.\<close>

definition td_microseconds :: "rat \<Rightarrow> microseconds" where
  "td_microseconds d =
     (let x = d * 1000000; f = \<lfloor>x\<rfloor>; r = x - of_int f in
      if r < 1/2 then f else if r > 1/2 then f + 1 else if even f then f else f + 1)"

definition backoff_delay :: "backoff_config \<Rightarrow> int \<Rightarrow> rat" where
  "backoff_delay b attempt =
     min (initial_seconds b *
            (if 1 \<le> attempt then multiplier b ^ nat (attempt - 1)
             else inverse (multiplier b ^ nat (1 - attempt))))
         (max_seconds b)"

definition schedule_backoff :: "worker \<Rightarrow> string \<Rightarrow> int \<Rightarrow> task_type \<Rightarrow> (worker_state, rat) prog" where
  "schedule_backoff W task_id attempt task =
     bindE (get_retry_policy (w_config W) task) (\<lambda>policy.
     if attempt < 1 \<and> multiplier (backoff policy) = 0 then raise (OtherError ''ZeroDivisionError'')
     else
       let delay = backoff_delay (backoff policy) attempt in
       bindE (ws_clock W) (\<lambda>now.
       bindE (modifyE (\<lambda>s. s\<lparr>ws_backoff := dict_set task_id
                \<lparr>be_task_id = task_id, be_ready_at = now + td_microseconds delay, be_attempt = attempt\<rparr>
                (ws_backoff s)\<rparr>)) (\<lambda>_.
       ret delay)))"

definition is_exhausted :: "worker \<Rightarrow> int \<Rightarrow> task_type \<Rightarrow> ('s, bool) prog" where
  "is_exhausted W attempt task =
     bindE (get_retry_policy (w_config W) task) (\<lambda>policy. ret (max_attempts policy \<le> attempt))"

section \<open>Idempotency\<close>

definition build_idempotency_key :: "string \<Rightarrow> task_type \<Rightarrow> int \<Rightarrow> string" where
  "build_idempotency_key wid task lv = wid @ '':'' @ task_type_value task @ '':'' @ show_int lv"

definition check_before_execution :: "string \<Rightarrow> (world, idempotency_check_result) prog" where
  "check_before_execution key =
     bindE (gets (pf_get_by_key key)) (\<lambda>found.
     case found of
       None \<Rightarrow> ret \<lparr>ick_phase = NOT_STARTED, ick_key = key, ick_existing_record = None,
                    ick_duplicate_resolution = None\<rparr>
     | Some r \<Rightarrow> ret \<lparr>ick_phase = ALREADY_COMPLETED, ick_key = key, ick_existing_record = Some r,
                     ick_duplicate_resolution = Some REUSED_COMMITTED_RESULT\<rparr>)"

definition claim_completion :: "env \<Rightarrow> idempotency_insert_spec \<Rightarrow> (world, idempotency_claim_result) prog" where
  "claim_completion E spec =
     bindE (pf_try_insert E spec) (\<lambda>result.
     if iir_outcome result = INSERTED
     then ret \<lparr>icl_phase = CLAIMED, icl_key = iis_key spec, icl_record = iir_record result,
               icl_duplicate_resolution = None\<rparr>
     else ret \<lparr>icl_phase = DUPLICATE_REJECTED, icl_key = iis_key spec, icl_record = iir_record result,
               icl_duplicate_resolution = Some REJECTED_DURING_COMMIT\<rparr>)"

text \<open>\<open>int(s)\<close> on text: surrounding white space, a sign, digits with single underscores between them.\<close>

fun digits_value :: "bool \<Rightarrow> int \<Rightarrow> string \<Rightarrow> int option" where
  "digits_value ok acc [] = (if ok then Some acc else None)"
| "digits_value ok acc (c # cs) =
     (if CHR ''0'' \<le> c \<and> c \<le> CHR ''9''
      then digits_value True (acc * 10 + int (of_char c) - 48) cs
      else if c = CHR ''_'' \<and> ok then digits_value False acc cs else None)"

definition int_of_text :: "string \<Rightarrow> int option" where
  "int_of_text s =
     (case strip s of
        [] \<Rightarrow> None
      | c # cs \<Rightarrow> if c = CHR ''-'' then map_option uminus (digits_value False 0 cs)
                  else if c = CHR ''+'' then digits_value False 0 cs
                  else digits_value False 0 (c # cs))"

text \<open>\<open>int(v)\<close> on a decoded JSON value.\<close>

fun int_of_json :: "json \<Rightarrow> ('s, int) prog" where
  "int_of_json (JInt i) = ret i"
| "int_of_json (JBool b) = ret (if b then 1 else 0)"
| "int_of_json (JFloat r) = ret (if 0 \<le> r then \<lfloor>r\<rfloor> else \<lceil>r\<rceil>)"
| "int_of_json (JStr s) = (case int_of_text s of None \<Rightarrow> raise ValueError | Some i \<Rightarrow> ret i)"
| "int_of_json _ = raise TypeError"

definition payload_logical_version :: "worker \<Rightarrow> task_record \<Rightarrow> (world, int option) prog" where
  "payload_logical_version W k =
     bindE (catchE (bindE (rp_get_task_payload (w_repos W) (tk_payload_reference k)) (\<lambda>p. ret (Some p)))
              (\<lambda>_. ret None)) (\<lambda>found.
     let of_object = (\<lambda>kvs. case map_of kvs ''logical_version'' of
                         None \<Rightarrow> ret None
                       | Some v \<Rightarrow> bindE (int_of_json v) (\<lambda>i. ret (Some i)))
     in case found of
          None \<Rightarrow> ret None
        | Some (JObj kvs) \<Rightarrow> of_object kvs
        | Some (JStr text) \<Rightarrow>
            (case w_json_loads W text of
               Some (JObj kvs) \<Rightarrow> of_object kvs
             | _ \<Rightarrow> ret None)
        | _ \<Rightarrow> ret None)"

definition resolve_logical_version ::
  "worker \<Rightarrow> task_type \<Rightarrow> task_record \<Rightarrow> pending_delivery \<Rightarrow> (world, int) prog"
where
  "resolve_logical_version W task k d =
     bindE (if task \<in> {GENERATE_SCENARIO, REVIEW_SCENARIO} then payload_logical_version W k
            else ret None) (\<lambda>payload_version.
     case payload_version of
       Some v \<Rightarrow> ret v
     | None \<Rightarrow>
         if task \<noteq> REVIEW_SCENARIO then ret 1
         else
           bindE (gets (get_active_artifact (tm_workflow_id (pd_message d)) SCENARIO)) (\<lambda>active.
           case active of
             None \<Rightarrow> ret 1
           | Some a \<Rightarrow>
               bindE (get_artifact_content (ar_id a)) (\<lambda>content.
               case content of
                 JObj kvs \<Rightarrow>
                   (case map_of kvs ''logical_version'' of None \<Rightarrow> ret 1 | Some v \<Rightarrow> int_of_json v)
               | _ \<Rightarrow> ret 1)))"

section \<open>Lease coordinator\<close>

definition DEFAULT_LEASE_TTL :: microseconds where
  "DEFAULT_LEASE_TTL = 60 * 1000000"

definition coordinator_acquire :: "worker \<Rightarrow> string \<Rightarrow> (worker_state, task_lease) prog" where
  "coordinator_acquire W task_id =
     bindE (on_world (try_acquire (w_env W) task_id (w_worker_id W) DEFAULT_LEASE_TTL)) (\<lambda>lease.
     case lease of
       None \<Rightarrow> raise (LeaseConflictError task_id (w_worker_id W))
     | Some l \<Rightarrow> ret l)"

definition schedule_renewal :: "string \<Rightarrow> (worker_state, unit) prog" where
  "schedule_renewal lease_id = modifyE (\<lambda>s. s\<lparr>ws_timers := List.insert lease_id (ws_timers s)\<rparr>)"

definition start_renewal :: "string \<Rightarrow> (worker_state, unit) prog" where
  "start_renewal lease_id =
     bindE (modifyE (\<lambda>s. s\<lparr>ws_renew_failed := False\<rparr>)) (\<lambda>_. schedule_renewal lease_id)"

definition renew_lease :: "worker \<Rightarrow> string \<Rightarrow> (worker_state, unit) prog" where
  "renew_lease W lease_id =
     bindE (gets ws_renew_failed) (\<lambda>failed.
     if failed then ret ()
     else
       bindE (catchE (bindE (on_world (renew (w_env W) lease_id DEFAULT_LEASE_TTL)) (\<lambda>_. ret True))
                (\<lambda>e. case e of
                   PersistenceNotFoundError _ \<Rightarrow>
                     bindE (modifyE (\<lambda>s. s\<lparr>ws_renew_failed := True\<rparr>)) (\<lambda>_. ret False)
                 | _ \<Rightarrow> raise e)) (\<lambda>renewed.
       whenE renewed (schedule_renewal lease_id)))"

definition stop_renewal :: "string \<Rightarrow> (worker_state, unit) prog" where
  "stop_renewal lease_id = modifyE (\<lambda>s. s\<lparr>ws_timers := removeAll lease_id (ws_timers s)\<rparr>)"

definition coordinator_release :: "string \<Rightarrow> (worker_state, unit) prog" where
  "coordinator_release lease_id =
     bindE (stop_renewal lease_id) (\<lambda>_. on_world (release lease_id))"

section \<open>Concurrency pool\<close>

definition get_worker_concurrency :: "app_config \<Rightarrow> agent_id \<Rightarrow> int" where
  "get_worker_concurrency C a =
     (case a of
        TOPIC_SELECTOR \<Rightarrow> topic_selector_concurrency (cfg_workers C)
      | SCENARIO_GENERATOR \<Rightarrow> scenario_generator_concurrency (cfg_workers C)
      | CRITIC \<Rightarrow> critic_concurrency (cfg_workers C))"

definition build_limits :: "app_config \<Rightarrow> task_type \<Rightarrow> int" where
  "build_limits C t =
     (case t of
        COLLECT \<Rightarrow> 1
      | SELECT_TOPIC \<Rightarrow> get_worker_concurrency C TOPIC_SELECTOR
      | GENERATE_SCENARIO \<Rightarrow> get_worker_concurrency C SCENARIO_GENERATOR
      | REVIEW_SCENARIO \<Rightarrow> get_worker_concurrency C CRITIC)"

text \<open>
  A semaphore whose counter is zero blocks its caller. A worker that handles one delivery at a time
  would wait forever: the outcome \<open>Blocked\<close> stands for that and is not a Python exception; no
  handler of the loop is in scope there.
\<close>

definition acquire_blocking :: "task_type \<Rightarrow> (worker_state, unit) prog" where
  "acquire_blocking t s =
     (if 0 < ws_slots s t then (Inr (), s\<lparr>ws_slots := (ws_slots s)(t := ws_slots s t - 1)\<rparr>)
      else (Inl (OtherError ''Blocked''), s))"

definition release_slot :: "task_type \<Rightarrow> (worker_state, unit) prog" where
  "release_slot t = modifyE (\<lambda>s. s\<lparr>ws_slots := (ws_slots s)(t := ws_slots s t + 1)\<rparr>)"

section \<open>Error messages\<close>

definition format_worker_message ::
  "string \<Rightarrow> string \<Rightarrow> string option \<Rightarrow> string option \<Rightarrow> task_type option \<Rightarrow> string"
where
  "format_worker_message code message wid tid task =
     (join '' ''
       ([''code='' @ code, message]
        @ (case wid of None \<Rightarrow> [] | Some i \<Rightarrow> [''workflow_id='' @ i])
        @ (case tid of None \<Rightarrow> [] | Some i \<Rightarrow> [''task_id='' @ i])
        @ (case task of None \<Rightarrow> [] | Some t \<Rightarrow> [''task_type='' @ task_type_value t])))"

definition execution_error_message :: "string \<Rightarrow> string \<Rightarrow> task_type \<Rightarrow> string \<Rightarrow> string" where
  "execution_error_message wid tid task detail =
     format_worker_message ''WKR_EXECUTION'' detail (Some wid) (Some tid) (Some task)"

section \<open>Registries\<close>

text \<open>The registry of handlers, keyed by task type; a second handler for a type is refused.\<close>

definition register :: "task_type \<times> task_handler \<Rightarrow> (task_type \<rightharpoonup> task_handler) \<Rightarrow>
  exn + (task_type \<rightharpoonup> task_handler)"
where
  "register h reg =
     (if reg (fst h) \<noteq> None then Inl (OtherError ''DuplicateHandlerError'')
      else Inr (reg(fst h \<mapsto> snd h)))"

fun register_all :: "(task_type \<times> task_handler) list \<Rightarrow> (task_type \<rightharpoonup> task_handler) \<Rightarrow>
  exn + (task_type \<rightharpoonup> task_handler)"
where
  "register_all [] reg = Inr reg"
| "register_all (h # hs) reg = (case register h reg of Inl e \<Rightarrow> Inl e | Inr reg' \<Rightarrow> register_all hs reg')"

definition create_task_handler_registry ::
  "(task_type \<times> task_handler) list \<Rightarrow> exn + (task_type \<rightharpoonup> task_handler)"
where
  "create_task_handler_registry hs = register_all hs Map.empty"

definition get_handler :: "worker \<Rightarrow> task_type \<Rightarrow> ('s, task_handler) prog" where
  "get_handler W t = (case w_handlers W t of None \<Rightarrow> raise (HandlerNotFoundError t) | Some h \<Rightarrow> ret h)"

definition is_injection_active :: "app_config \<Rightarrow> injection_id \<Rightarrow> bool" where
  "is_injection_active C i \<longleftrightarrow>
     fi_enabled (cfg_failure_injection C) \<and> i \<in> set (fi_active_injections (cfg_failure_injection C))"

definition invoke_if_active :: "worker \<Rightarrow> injection_id \<Rightarrow> (world, bool) prog" where
  "invoke_if_active W i =
     (if \<not> is_injection_active (w_config W) i then ret False
      else (case w_hooks W i of
              None \<Rightarrow> raise (OtherError ''HookNotRegisteredError'')
            | Some hook \<Rightarrow> bindE hook (\<lambda>_. ret True)))"

end
