(* ===== verification/Worker_Loop.thy ===== *)
theory Worker_Loop
  imports Worker_Support
begin

text \<open>
  \<open>worker/loop.py\<close>: what the worker does with one delivery. Telemetry and correlation scopes are
  left out; every database call, clock reading, queue acknowledgement, failure-injection point and
  exception handler is kept in the order of the code.
\<close>

section \<open>Commit of a successful task\<close>

definition PAUSE_AFTER_ENQUEUE :: "workflow_state set" where
  "PAUSE_AFTER_ENQUEUE = {COLLECTED, TOPIC_SELECTED, SCENARIO_GENERATED}"

definition POST_STAGE_BRIDGE :: "workflow_state set" where
  "POST_STAGE_BRIDGE = {REVIEW_PASSED, REVISION_REQUIRED}"

definition ACTIVE_EXECUTION_STATES :: "workflow_state set" where
  "ACTIVE_EXECUTION_STATES = {SELECTING_TOPIC, GENERATING_SCENARIO, REVIEWING, AWAITING_HUMAN_APPROVAL}"

definition needs_bridge :: "transition_result \<Rightarrow> bool" where
  "needs_bridge current \<longleftrightarrow>
     trs_enqueued_task current \<noteq> None \<and> trs_to current \<in> PAUSE_AFTER_ENQUEUE
     \<or> trs_to current \<in> POST_STAGE_BRIDGE"

definition bridge_request :: "string \<Rightarrow> string \<Rightarrow> string \<Rightarrow> transition_result \<Rightarrow> transition_request" where
  "bridge_request wid tid key current =
     \<lparr>trq_workflow_id = wid, trq_expected_state = trs_to current, trq_signal = SIG_STAGE_COMPLETED,
      trq_reason = ''dispatch_bridge'', trq_actor = None, trq_completing_task_id = Some tid,
      trq_idempotency_key = Some key\<rparr>"

text \<open>A transition that succeeds leads where the table says, whatever the repositories do.\<close>

lemma execute_transition_to:
  "execute_transition R x d t ob rc w = (Inr (u, res), w') \<Longrightarrow> trs_to res = td_to d"
  by (auto simp: execute_transition_def bindE_eq_Inr split: option.splits)

lemma apply_transition_to:
  assumes "apply_transition E R C req w = (Inr res, w')"
  shows "\<exists>c d. lookup (trq_expected_state req) (trq_signal req) c (max_scenario_revisions C) = Inr d
     \<and> trs_to res = td_to d"
proof -
  show ?thesis
  proof (cases "get_workflow (trq_workflow_id req) w")
    case None
    with assms show ?thesis by (auto simp: apply_transition_def bindE_eq_Inr require_active_def py_simps split: if_splits)
  next
    case (Some x)
    let ?l = "lookup (wf_state x) (trq_signal req) (wf_revision_count x) (max_scenario_revisions C)"
    have "\<exists>d. ?l = Inr d \<and> trs_to res = td_to d \<and> wf_state x = trq_expected_state req"
      using assms Some
      by (cases ?l) (auto simp: apply_transition_def bindE_eq_Inr require_active_def Let_def py_simps
           dest!: execute_transition_to split: if_splits)
    then show ?thesis by metis
  qed
qed

lemma stage_completed_decreases:
  "lookup s SIG_STAGE_COMPLETED c m = Inr d \<Longrightarrow> stages_left (td_to d) < stages_left s"
  by (cases s) (auto simp: table_defs split: if_splits)

text \<open>The \<open>while True\<close> loop; it ends because every step of the table leaves fewer stages.\<close>

function bridge ::
  "worker \<Rightarrow> string \<Rightarrow> string \<Rightarrow> string \<Rightarrow> transition_result \<Rightarrow> world \<Rightarrow> (exn + unit) \<times> world"
where
  "bridge W wid tid key current w =
     (if \<not> needs_bridge current then (Inr (), w)
      else (case apply_transition (w_env W) (w_repos W) (w_config W) (bridge_request wid tid key current) w of
              (Inl e, w') \<Rightarrow> (Inl e, w')
            | (Inr next, w') \<Rightarrow>
                if trs_to next \<in> ACTIVE_EXECUTION_STATES then (Inr (), w')
                else bridge W wid tid key next w'))"
  by pat_completeness auto

termination
  by (relation "measure (\<lambda>(W, wid, tid, key, current, w). stages_left (trs_to current))")
     (auto simp: bridge_request_def dest!: apply_transition_to [OF sym] dest: stage_completed_decreases)

declare bridge.simps [simp del]

text \<open>A duplicate completion: the key was already claimed when this worker came to commit.\<close>

definition stage_signal :: "task_handler_result \<Rightarrow> transition_signal" where
  "stage_signal hr = (case hr_transition_signal hr of None \<Rightarrow> SIG_STAGE_COMPLETED | Some g \<Rightarrow> g)"

definition record_resolution :: "duplicate_resolution \<Rightarrow> (worker_state, unit) prog" where
  "record_resolution r = modifyE (\<lambda>s. s\<lparr>ws_resolutions := ws_resolutions s @ [r]\<rparr>)"

definition complete_task :: "worker \<Rightarrow> string \<Rightarrow> (worker_state, unit) prog" where
  "complete_task W tid =
     bindE (ws_clock W) (\<lambda>now.
     bindE (on_world (rp_update_task (w_repos W) tid TS_COMPLETED None None (Some now))) (\<lambda>_. ret ()))"

definition scenario_c_loser_path ::
  "worker \<Rightarrow> pending_delivery \<Rightarrow> task_type \<Rightarrow> string \<Rightarrow> task_handler_result \<Rightarrow> (worker_state, unit) prog"
where
  "scenario_c_loser_path W d task key hr =
     (let wid = tm_workflow_id (pd_message d); tid = tm_task_id (pd_message d) in
      bindE (gets (get_workflow wid \<circ> ws_world)) (\<lambda>row.
      case row of
        None \<Rightarrow> ret ()
      | Some x \<Rightarrow>
          bindE (post_transition_state task (stage_signal hr)) (\<lambda>expected_post.
          bindE (on_world (to_domain_workflow_state (state_value (wf_state x)))) (\<lambda>current.
          if current = expected_post then record_resolution REJECTED_DURING_COMMIT
          else
            bindE (catchE
                (bindE (on_world (apply_transition (w_env W) (w_repos W) (w_config W)
                   \<lparr>trq_workflow_id = wid, trq_expected_state = expected_state_for_task task,
                    trq_signal = stage_signal hr, trq_reason = ''scenario_c_loser'', trq_actor = None,
                    trq_completing_task_id = Some tid, trq_idempotency_key = Some key\<rparr>)) (\<lambda>_. ret True))
                (\<lambda>e. case e of
                   WorkflowConflictError _ \<Rightarrow>
                     bindE (gets (get_workflow wid \<circ> ws_world)) (\<lambda>reloaded.
                     if (case reloaded of None \<Rightarrow> False | Some y \<Rightarrow> wf_state y = expected_post)
                     then bindE (record_resolution REJECTED_DURING_COMMIT) (\<lambda>_. ret False)
                     else raise e)
                 | _ \<Rightarrow> raise e)) (\<lambda>applied.
            if \<not> applied then ret ()
            else
              bindE (gets (get_task tid \<circ> ws_world)) (\<lambda>found.
              case found of
                None \<Rightarrow> ret ()
              | Some k \<Rightarrow> whenE (tk_status k \<noteq> TS_COMPLETED) (complete_task W tid)))))))"

definition commit_success_path ::
  "worker \<Rightarrow> pending_delivery \<Rightarrow> task_type \<Rightarrow> string \<Rightarrow> task_handler_result \<Rightarrow> (worker_state, unit) prog"
where
  "commit_success_path W d task key hr =
     (if hr_outcome hr \<notin> {HO_COMPLETED, HO_DUPLICATE_REUSED}
      then raise (TaskExecutionError
             (execution_error_message '''' '''' task
                (case hr_reason hr of Some r \<Rightarrow> if r \<noteq> '''' then r else ''handler failure''
                 | None \<Rightarrow> ''handler failure''))
             (fst (classify_handler_result hr)))
      else
        let wid = tm_workflow_id (pd_message d); tid = tm_task_id (pd_message d) in
        bindE (on_world (claim_completion (w_env W)
                 \<lparr>iis_key = key, iis_workflow_id = wid, iis_task_id = tid,
                  iis_result_artifact_id = hr_result_artifact_id hr\<rparr>)) (\<lambda>claim.
        if icl_phase claim = DUPLICATE_REJECTED then scenario_c_loser_path W d task key hr
        else
          bindE (on_world (apply_transition (w_env W) (w_repos W) (w_config W)
                   \<lparr>trq_workflow_id = wid, trq_expected_state = expected_state_for_task task,
                    trq_signal = stage_signal hr,
                    trq_reason = (case hr_reason hr of Some r \<Rightarrow> if r \<noteq> '''' then r else ''stage completed''
                                  | None \<Rightarrow> ''stage completed''),
                    trq_actor = None, trq_completing_task_id = Some tid,
                    trq_idempotency_key = Some key\<rparr>)) (\<lambda>transition_result.
          bindE (on_world (bridge W wid tid key transition_result)) (\<lambda>_.
          whenE (tid \<noteq> '''') (complete_task W tid)))))"

section \<open>Failures\<close>

text \<open>\<open>str(err)\<close> of the exceptions that can be retried.\<close>

fun exn_text :: "exn \<Rightarrow> string" where
  "exn_text (ProviderError m _ _) = m"
| "exn_text (CollectorError m _ _) = m"
| "exn_text (TaskExecutionError m _) = m"
| "exn_text _ = ''''"

definition handle_retryable_failure ::
  "worker \<Rightarrow> task_record \<Rightarrow> task_type \<Rightarrow> int \<Rightarrow> string \<Rightarrow> (worker_state, unit) prog"
where
  "handle_retryable_failure W k task attempt reason =
     bindE (ws_transaction W (on_world (rp_update_task (w_repos W) (tk_id k) TS_DISPATCHED
              (Some (attempt + 1)) (Some reason) None))) (\<lambda>_.
     bindE (schedule_backoff W (tk_id k) attempt task) (\<lambda>_. ret ()))"

definition handle_permanent_failure ::
  "worker \<Rightarrow> pending_delivery \<Rightarrow> task_type \<Rightarrow> task_record \<Rightarrow> string \<Rightarrow> bool \<Rightarrow> bool \<Rightarrow> bool \<Rightarrow>
   (worker_state, unit) prog"
where
  "handle_permanent_failure W d task k error_class exhausted skip_ack skip_transition =
     bindE
       (if \<not> skip_transition then
          ws_transaction W
            (bindE (on_world (require_active (w_repos W) ''fail_task'')) (\<lambda>_.
             bindE (on_world (apply_transition (w_env W) (w_repos W) (w_config W)
                      \<lparr>trq_workflow_id = tm_workflow_id (pd_message d),
                       trq_expected_state = expected_state_for_task task,
                       trq_signal = (if exhausted then SIG_RETRIES_EXHAUSTED else SIG_UNRECOVERABLE_ERROR),
                       trq_reason = error_class, trq_actor = None,
                       trq_completing_task_id = Some (tm_task_id (pd_message d)),
                       trq_idempotency_key = None\<rparr>)) (\<lambda>_.
             on_world (rp_update_task (w_repos W) (tk_id k) (if exhausted then TS_DEAD_LETTER else TS_FAILED)
                         None (Some error_class) None))))
        else
          ws_transaction W (on_world (rp_update_task (w_repos W) (tk_id k) TS_FAILED
                                        None (Some error_class) None))) (\<lambda>_.
     bindE (on_world (invoke_if_active W FINJ_WKR_PRE_ACK)) (\<lambda>_.
     whenE (\<not> skip_ack) (ack d)))"

section \<open>One delivery\<close>

definition release_current_lease :: "worker_state \<Rightarrow> worker_state" where
  "release_current_lease s =
     (case ws_lease_id s of
        None \<Rightarrow> s
      | Some i \<Rightarrow> snd (bindE (stop_renewal i) (\<lambda>_. coordinator_release i) s))"

text \<open>The \<open>finally\<close> clause of the delivery.\<close>

definition end_delivery :: "task_type \<Rightarrow> worker_state \<Rightarrow> worker_state" where
  "end_delivery task s =
     (let s1 = snd (release_slot task (release_current_lease s))
      in s1\<lparr>ws_in_flight := ws_in_flight s1 - 1, ws_lease_id := None\<rparr>)"

text \<open>The transaction of a task: the handler and the commit of its result.\<close>

definition execute_task ::
  "worker \<Rightarrow> bool \<Rightarrow> pending_delivery \<Rightarrow> task_type \<Rightarrow> task_record \<Rightarrow> string \<Rightarrow> (worker_state, unit) prog"
where
  "execute_task W skip_ack d task k key =
     ws_transaction W
       (bindE (on_world (require_active (w_repos W) ''handle_task'')) (\<lambda>_.
        bindE (get_handler W task) (\<lambda>handler.
        bindE (on_world (handler d k key)) (\<lambda>handler_result.
        bindE (ws_clock W) (\<lambda>_.
        if skip_ack then raise SimulatedCrashBeforeAck
        else commit_success_path W d task key handler_result)))))"

definition log_event :: "string \<Rightarrow> (worker_state, unit) prog" where
  "log_event e = modifyE (\<lambda>s. s\<lparr>ws_event_order := ws_event_order s @ [e]\<rparr>)"

text \<open>The body of the inner \<open>try\<close>.\<close>

definition process_leased ::
  "worker \<Rightarrow> bool \<Rightarrow> pending_delivery \<Rightarrow> task_type \<Rightarrow> task_record \<Rightarrow> (worker_state, unit) prog"
where
  "process_leased W skip_ack d task k =
     (let m = pd_message d in
      bindE (coordinator_acquire W (tm_task_id m)) (\<lambda>lease.
      bindE (modifyE (\<lambda>s. s\<lparr>ws_lease_id := Some (le_id lease)\<rparr>)) (\<lambda>_.
      bindE (start_renewal (le_id lease)) (\<lambda>_.
      bindE (on_world (resolve_logical_version W task k d)) (\<lambda>lv.
      let key = build_idempotency_key (tm_workflow_id m) task lv in
      bindE (on_world (check_before_execution key)) (\<lambda>pre.
      if ick_phase pre = ALREADY_COMPLETED
      then
        bindE (record_resolution IGNORED_BEFORE_EXECUTION) (\<lambda>_.
        bindE (on_world (invoke_if_active W FINJ_WKR_PRE_ACK)) (\<lambda>_.
        whenE (\<not> skip_ack) (ack d)))
      else
        bindE (on_world (invoke_if_active W FINJ_WKR_PRE)) (\<lambda>_.
        bindE (ws_clock W) (\<lambda>_.
        bindE (execute_task W skip_ack d task k key) (\<lambda>_.
        bindE (log_event ''commit'') (\<lambda>_.
        bindE (log_event ''transition'') (\<lambda>_.
        bindE (on_world (invoke_if_active W FINJ_WKR_POST_COMMIT)) (\<lambda>_.
        bindE (stop_renewal (le_id lease)) (\<lambda>_.
        bindE (coordinator_release (le_id lease)) (\<lambda>_.
        bindE (modifyE (\<lambda>s. s\<lparr>ws_lease_id := None\<rparr>)) (\<lambda>_.
        bindE (on_world (invoke_if_active W FINJ_WKR_PRE_ACK)) (\<lambda>_.
        whenE (\<not> skip_ack) (bindE (ack d) (\<lambda>_. log_event ''ack''))))))))))))))))))"

text \<open>The \<open>except\<close> clauses.\<close>

definition handle_exception ::
  "worker \<Rightarrow> bool \<Rightarrow> pending_delivery \<Rightarrow> task_type \<Rightarrow> task_record \<Rightarrow> int \<Rightarrow> exn \<Rightarrow> (worker_state, unit) prog"
where
  "handle_exception W skip_ack d task k attempt err =
     (case err of
        SimulatedCrashBeforeAck \<Rightarrow> ret ()
      | LeaseConflictError _ _ \<Rightarrow> record_resolution DETECTED_DURING_EXECUTION
      | HandlerNotFoundError t \<Rightarrow> handle_permanent_failure W d t k ''WKR_NO_HANDLER'' False skip_ack False
      | _ \<Rightarrow>
          (let retryable = fst (classify_exception err); error_class = snd (classify_exception err) in
           bindE (if retryable then bindE (is_exhausted W attempt task) (\<lambda>x. ret (\<not> x)) else ret False) (\<lambda>again.
           if again then handle_retryable_failure W k task attempt (exn_text err)
           else
             bindE (is_exhausted W attempt task) (\<lambda>exhausted.
             handle_permanent_failure W d task k error_class exhausted skip_ack False))))"

text \<open>A missing task or workflow is logged with \<open>logger.error\<close>, which is called without two of its required arguments.\<close>

definition process_delivery :: "worker \<Rightarrow> bool \<Rightarrow> pending_delivery \<Rightarrow> (worker_state, unit) prog" where
  "process_delivery W skip_ack d =
     (let m = pd_message d in
      bindE (ws_clock W) (\<lambda>_.
      bindE (gets (get_task (tm_task_id m) \<circ> ws_world)) (\<lambda>task_row.
      case task_row of
        None \<Rightarrow> raise (OtherError ''TypeError'')
      | Some k \<Rightarrow>
          bindE (gets (get_workflow (tm_workflow_id m) \<circ> ws_world)) (\<lambda>row.
          case row of
            None \<Rightarrow> raise (OtherError ''TypeError'')
          | Some x \<Rightarrow>
              bindE (on_world (to_domain_workflow_state (state_value (wf_state x)))) (\<lambda>state.
              bindE (on_world (to_domain_task_type (task_type_value (tk_type k)))) (\<lambda>task.
              if st_action (classify_stale_task state task) \<noteq> PROCEED
              then whenE (\<not> skip_ack) (ack d)
              else
                let attempt = effective_attempt k m in
                bindE (should_defer W (tm_task_id m)) (\<lambda>deferred.
                if deferred then ret ()
                else
                  bindE (acquire_blocking task) (\<lambda>_.
                  finallyE
                    (bindE (modifyE (\<lambda>s. s\<lparr>ws_in_flight := ws_in_flight s + 1, ws_lease_id := None\<rparr>)) (\<lambda>_.
                     catchE (process_leased W skip_ack d task k)
                       (handle_exception W skip_ack d task k attempt)))
                    (end_delivery task)))))))))"

definition run_once :: "worker \<Rightarrow> (worker_state, unit) prog" where
  "run_once W =
     bindE dequeue (\<lambda>delivery.
     case delivery of None \<Rightarrow> ret () | Some d \<Rightarrow> process_delivery W False d)"

end
