(* ===== verification/Worker_Guarantees.thy ===== *)
theory Worker_Guarantees
  imports Worker_Loop
begin

text \<open>
  Facts about a delivery that hold on every path, raising ones included: the engine's invariant is
  kept, and the slot, the in-flight counter, the lease and the renewal timer are given back.
  Handlers and hooks are arbitrary, under the contract \<open>worker_ok\<close>.
\<close>

section \<open>The engine's guarantee\<close>

definition worker_ok :: "env \<Rightarrow> app_config \<Rightarrow> worker \<Rightarrow> bool" where
  "worker_ok E C W \<longleftrightarrow>
     (\<forall>t h d k key. w_handlers W t = Some h \<longrightarrow> evolves (engine_guar E C) (h d k key))
     \<and> (\<forall>i h. w_hooks W i = Some h \<longrightarrow> evolves (engine_guar E C) h)"

definition ws_guar :: "env \<Rightarrow> app_config \<Rightarrow> worker_state \<Rightarrow> worker_state \<Rightarrow> bool" where
  "ws_guar E C s s' \<longleftrightarrow> engine_guar E C (ws_world s) (ws_world s')"

lemma ws_guar_refl: "reflp (ws_guar E C)"
  by (simp add: reflp_def ws_guar_def engine_guar_def)

lemma ws_guar_trans: "transp (ws_guar E C)"
  using engine_guar_trans [of E C] by (auto simp: transp_def ws_guar_def)

lemma ws_guar_same: "ws_world s' = ws_world s \<Longrightarrow> ws_guar E C s s'"
  by (simp add: ws_guar_def engine_guar_def)

lemma ws_guar_modify: "(\<And>s. ws_world (f s) = ws_world s) \<Longrightarrow> evolves (ws_guar E C) (modifyE f)"
  by (intro evolves_modifyE ws_guar_same)

lemma ws_guar_on_world: "evolves (engine_guar E C) m \<Longrightarrow> evolves (ws_guar E C) (on_world m)"
  by (simp add: evolves_def on_world_def ws_guar_def split: prod.splits) (metis snd_conv)

lemmas ws_intro = evolves_intro evolves_option ws_guar_refl ws_guar_trans ws_guar_on_world

lemma guar_modify_frame:
  "(\<And>w. wf_rows (f w) = wf_rows w \<and> tr_rows (f w) = tr_rows w \<and> ticks w \<le> ticks (f w)) \<Longrightarrow>
   evolves (engine_guar E C) (modifyE f)"
  by (intro evolves_modifyE engine_guar_frame) simp_all

lemma guar_claim: "evolves (engine_guar E C) (claim_completion E' spec)"
  by (rule evolves_guar_frame)
     (auto simp: claim_completion_def store_simps bindE_def py_simps Let_def split: if_splits option.splits)

lemma guar_check: "evolves (engine_guar E C) (check_before_execution key)"
  unfolding check_before_execution_def by (intro guar_intro evolves_option)

lemma guar_leases:
  "evolves (engine_guar E C) (try_acquire E' t wid ttl)" "evolves (engine_guar E C) (release i)"
  by (rule evolves_guar_frame; auto simp: try_acquire_eq release_eq split: if_splits option.splits)+

lemma guar_hooks: "worker_ok E C W \<Longrightarrow> evolves (engine_guar E C) (invoke_if_active W i)"
  unfolding invoke_if_active_def worker_ok_def
  by (cases "w_hooks W i") (auto intro!: guar_intro)

lemma ws_guar_defer: "evolves (ws_guar E C) (should_defer W t)"
  unfolding should_defer_def by (intro ws_intro guar_utc_now)

lemma ws_guar_schedule: "evolves (ws_guar E C) (schedule_backoff W t a task)"
  unfolding schedule_backoff_def get_retry_policy_def Let_def
  by (intro ws_intro guar_utc_now ws_guar_modify) simp

lemma ws_guar_exhausted: "evolves (ws_guar E C) (is_exhausted W a task)"
  unfolding is_exhausted_def get_retry_policy_def by (intro ws_intro)

lemma ws_guar_simple:
  "evolves (ws_guar E C) (ack d)" "evolves (ws_guar E C) (record_resolution r)"
  "evolves (ws_guar E C) (log_event e)" "evolves (ws_guar E C) (stop_renewal i)"
  "evolves (ws_guar E C) (start_renewal i)" "evolves (ws_guar E C) (release_slot task)"
  unfolding ack_def record_resolution_def log_event_def stop_renewal_def start_renewal_def
    schedule_renewal_def release_slot_def
  by (intro ws_intro ws_guar_modify; simp)+

lemma ws_guar_release: "evolves (ws_guar E C) (coordinator_release i)"
  unfolding coordinator_release_def by (intro ws_intro ws_guar_simple guar_leases)

lemma ws_guar_acquire: "evolves (ws_guar E C) (coordinator_acquire W t)"
  unfolding coordinator_acquire_def by (intro ws_intro guar_leases)

lemma ws_guar_end: "ws_guar E C s (end_delivery task s)"
proof -
  have "evolves (ws_guar E C) (bindE (stop_renewal i) (\<lambda>_. coordinator_release i))" for i
    by (intro ws_intro ws_guar_simple ws_guar_release)
  then have "ws_guar E C s (release_current_lease s)"
    by (auto simp: release_current_lease_def evolves_def ws_guar_same split: option.splits)
  then show ?thesis by (simp add: end_delivery_def Let_def ws_guar_def release_slot_def modifyE_def)
qed

context task_store
begin

lemma guar_update_task: "evolves (engine_guar E C) (rp_update_task R tid st att rsn ca)"
proof (rule evolves_guar_frame)
  fix w r w' assume "rp_update_task R tid st att rsn ca w = (r, w')"
  then show "wf_rows w' = wf_rows w \<and> tr_rows w' = tr_rows w \<and> ticks w \<le> ticks w'"
    using update_task_cases [of tid st att rsn ca w] by auto
qed

lemma guar_payload: "evolves (engine_guar E C) (rp_get_task_payload R ref)"
  by (rule evolves_guar_frame) (metis payload_pure order_refl prod.inject)

lemma guar_require_active: "evolves (engine_guar E C) (require_active R op)"
  by (rule evolves_guar_frame) (auto split: if_splits)

lemma ws_guar_transaction:
  assumes "w_repos W = R" and "evolves (ws_guar E C) body"
  shows "evolves (ws_guar E C) (ws_transaction W body)"
proof -
  have "ws_guar E C s (snd (ws_transaction W body s))" for s
  proof -
    define b where "b w = (case body (s\<lparr>ws_world := w\<rparr>) of (r, s2) \<Rightarrow> (r, ws_world s2))" for w
    have "evolves (engine_guar E C) b"
      using assms(2) by (auto simp: evolves_def b_def ws_guar_def split: prod.splits) (metis snd_conv worker_state.select_convs(1) worker_state.surjective worker_state.update_convs(1))
    from guar_with_transaction [OF this] have "engine_guar E C (ws_world s) (snd (with_transaction R b (ws_world s)))"
      by (simp add: evolves_def)
    moreover have "ws_world (snd (ws_transaction W body s)) = snd (with_transaction R b (ws_world s))"
      by (simp add: ws_transaction_def with_transaction_def b_def assms(1) split: prod.splits sum.splits)
    ultimately show ?thesis by (simp add: ws_guar_def)
  qed
  then show ?thesis by (simp add: evolves_def)
qed

lemma guar_bridge:
  assumes fresh: "fresh_uuids E" and W: "w_env W = E" "w_repos W = R" "w_config W = C"
  shows "evolves (engine_guar E C) (bridge W wid tid key cur)"
proof -
  have "engine_guar E C w (snd (bridge W wid tid key cur w))" for w
    using W
  proof (induction W wid tid key cur w rule: bridge.induct)
    case (1 W wid tid key cur w)
    show ?case
    proof (cases "needs_bridge cur")
      case False
      then show ?thesis by (simp add: bridge.simps engine_guar_def)
    next
      case True
      obtain r w' where run: "apply_transition E R C (bridge_request wid tid key cur) w = (r, w')"
        by (metis prod.collapse)
      have step: "engine_guar E C w w'"
        using evolvesD [OF guar_apply_transition [OF fresh] run] .
      show ?thesis
      proof (cases r)
        case (Inl e)
        with True run 1(2-4) step show ?thesis by (simp add: bridge.simps)
      next
        case (Inr nxt)
        show ?thesis
        proof (cases "trs_to nxt \<in> ACTIVE_EXECUTION_STATES")
          case True
          with \<open>needs_bridge cur\<close> run 1(2-4) step Inr show ?thesis by (simp add: bridge.simps [of W wid tid key cur])
        next
          case False
          have "engine_guar E C w' (snd (bridge W wid tid key nxt w'))"
            by (rule 1(1)) (use \<open>needs_bridge cur\<close> False run Inr 1(2-4) in simp_all)
          with step engine_guar_trans have "engine_guar E C w (snd (bridge W wid tid key nxt w'))"
            by (metis transpD)
          with \<open>needs_bridge cur\<close> False run Inr 1(2-4) show ?thesis by (simp add: bridge.simps [of W wid tid key cur])
        qed
      qed
    qed
  qed
  then show ?thesis by (simp add: evolves_def)
qed

end

lemma guar_exn_case:
  "(\<And>y. evolves R (f y)) \<Longrightarrow> (\<And>e. evolves R (g e)) \<Longrightarrow>
   evolves R (case e of WorkflowConflictError y \<Rightarrow> f y | _ \<Rightarrow> g e)"
  by (cases e) simp_all

lemma guar_to_domain: "evolves (engine_guar E C) (to_domain_workflow_state (state_value s))"
  "evolves (engine_guar E C) (to_domain_task_type (task_type_value t))"
  by (simp_all add: to_domain_task_type_def guar_intro)

lemma ws_guar_post: "evolves (ws_guar E C) (post_transition_state task g)"
  unfolding post_transition_state_def by (intro ws_intro)

context task_store
begin

lemma ws_guar_complete:
  assumes "w_repos W = R"
  shows "evolves (ws_guar E C) (complete_task W tid)"
  unfolding complete_task_def assms by (intro ws_intro guar_update_task guar_utc_now)

lemma ws_guar_loser:
  assumes fresh: "fresh_uuids E" and W: "w_env W = E" "w_repos W = R" "w_config W = C"
  shows "evolves (ws_guar E C) (scenario_c_loser_path W d task key hr)"
  unfolding scenario_c_loser_path_def Let_def W
  by (intro ws_intro guar_exn_case ws_guar_post guar_to_domain ws_guar_simple ws_guar_complete
      guar_apply_transition fresh W)

lemma ws_guar_commit:
  assumes fresh: "fresh_uuids E" and W: "w_env W = E" "w_repos W = R" "w_config W = C"
  shows "evolves (ws_guar E C) (commit_success_path W d task key hr)"
  unfolding commit_success_path_def Let_def W
  by (intro ws_intro guar_claim ws_guar_loser guar_apply_transition guar_bridge ws_guar_complete fresh W)

lemma ws_guar_retryable:
  assumes W: "w_repos W = R"
  shows "evolves (ws_guar E C) (handle_retryable_failure W k task a reason)"
  unfolding handle_retryable_failure_def W
  by (intro ws_intro ws_guar_transaction guar_update_task ws_guar_schedule W)

lemma ws_guar_permanent:
  assumes fresh: "fresh_uuids E" and W: "w_env W = E" "w_repos W = R" "w_config W = C"
    and ok: "worker_ok E C W"
  shows "evolves (ws_guar E C) (handle_permanent_failure W d task k ec ex sk st)"
  unfolding handle_permanent_failure_def W
  by (intro ws_intro ws_guar_transaction guar_require_active guar_apply_transition guar_update_task
      guar_hooks ws_guar_simple fresh W ok)

text \<open>Reading the logical version changes nothing; every reflexive relation follows.\<close>

lemma resolve_version_evolves:
  assumes W: "w_repos W = R" and r: "reflp Q" and t: "transp Q"
  shows "evolves Q (resolve_logical_version W task k d)"
proof -
  note intro = evolves_intro evolves_option r t
  have int: "evolves Q (int_of_json v)" for v
    by (cases v) (auto intro!: intro simp del: option.case)
  have payload: "evolves Q (rp_get_task_payload R ref)" for ref
    unfolding evolves_def using payload_pure reflpD [OF r] by (metis snd_conv)
  have obj: "evolves Q (case map_of kvs ''logical_version'' of None \<Rightarrow> ret None
       | Some v \<Rightarrow> bindE (int_of_json v) (\<lambda>i. ret (Some i)))" for kvs
    by (intro intro int)
  have json: "evolves Q (case j of JObj kvs \<Rightarrow> f kvs | _ \<Rightarrow> ret x)"
    if "\<And>kvs. evolves Q (f kvs)" for j f and x :: 'x
    using that by (cases j) (simp_all add: intro)
  have stored: "evolves Q (case j of JObj kvs \<Rightarrow> f kvs | JStr t \<Rightarrow> g t | _ \<Rightarrow> ret x)"
    if "\<And>kvs. evolves Q (f kvs)" "\<And>t. evolves Q (g t)" for j f g and x :: 'x
    using that by (cases j) (simp_all add: intro)
  have "evolves Q (payload_logical_version W k)"
    unfolding payload_logical_version_def W Let_def by (intro intro payload stored json obj)
  then show ?thesis
    unfolding resolve_logical_version_def get_artifact_content_def by (intro intro json int)
qed

lemmas guar_resolve_version = resolve_version_evolves [OF _ engine_guar_refl engine_guar_trans]

lemma ws_guar_execute:
  assumes fresh: "fresh_uuids E" and W: "w_env W = E" "w_repos W = R" "w_config W = C"
    and ok: "worker_ok E C W"
  shows "evolves (ws_guar E C) (execute_task W sk d task k key)"
proof -
  have body: "evolves (ws_guar E C) (bindE (get_handler W task) (\<lambda>handler.
        bindE (on_world (handler d k key)) (\<lambda>handler_result.
        bindE (ws_clock W) (\<lambda>_.
        if sk then raise SimulatedCrashBeforeAck else commit_success_path W d task key handler_result))))"
  proof (cases "w_handlers W task")
    case None
    then show ?thesis by (simp add: get_handler_def ws_intro)
  next
    case (Some h)
    then have h: "evolves (engine_guar E C) (h d k key)" using ok by (simp add: worker_ok_def)
    have "evolves (ws_guar E C) (bindE (on_world (h d k key)) (\<lambda>handler_result.
        bindE (ws_clock W) (\<lambda>_.
        if sk then raise SimulatedCrashBeforeAck else commit_success_path W d task key handler_result)))"
      by (intro ws_intro h guar_utc_now ws_guar_commit fresh W)
    with Some show ?thesis by (simp add: get_handler_def)
  qed
  show ?thesis unfolding execute_task_def
    by (rule ws_guar_transaction [OF W(2) evolves_bindE [OF ws_guar_trans _ body]])
       (simp add: W ws_guar_on_world guar_require_active)
qed

lemma ws_guar_process:
  assumes fresh: "fresh_uuids E" and W: "w_env W = E" "w_repos W = R" "w_config W = C"
    and ok: "worker_ok E C W"
  shows "evolves (ws_guar E C) (process_delivery W sk d)"
proof -
  have leased: "evolves (ws_guar E C) (process_leased W sk d task k)" for task k
    unfolding process_leased_def Let_def
    by (intro ws_intro ws_guar_acquire ws_guar_modify ws_guar_simple guar_resolve_version guar_check guar_hooks
        guar_utc_now ws_guar_execute ws_guar_release fresh W ok) simp_all
  have exn: "evolves (ws_guar E C) (handle_exception W sk d task k a e)" for task k a e
    by (cases e) (auto simp: handle_exception_def Let_def intro!: ws_intro ws_guar_simple ws_guar_exhausted
        ws_guar_retryable ws_guar_permanent fresh W ok)
  have blocking: "evolves (ws_guar E C) (acquire_blocking task)" for task
    by (auto simp: evolves_def acquire_blocking_def ws_guar_same)
  have final: "evolves (ws_guar E C) (finallyE m (end_delivery task))" if "evolves (ws_guar E C) m"
    for m :: "(worker_state, unit) prog" and task
    using that by (intro evolves_finallyE ws_guar_trans ws_guar_end)
  show ?thesis
    unfolding process_delivery_def Let_def
    by (intro ws_intro guar_utc_now guar_to_domain ws_guar_simple ws_guar_defer blocking final ws_guar_modify
        leased exn) simp_all
qed

end

end
