(* ===== verification/Worker_Resources.thy ===== *)
theory Worker_Resources
  imports Worker_Guarantees
begin

text \<open>
  Whatever happens to a delivery, the worker gives back what it took for it: the concurrency slot, the
  in-flight count, the task lease and its renewal timer.
\<close>

section \<open>Computations that leave leases and counters alone\<close>

definition keeps_leases :: "world \<Rightarrow> world \<Rightarrow> bool" where
  "keeps_leases w w' \<longleftrightarrow> lease_rows w' = lease_rows w"

definition ws_keeps :: "worker_state \<Rightarrow> worker_state \<Rightarrow> bool" where
  "ws_keeps s s' \<longleftrightarrow> keeps_leases (ws_world s) (ws_world s') \<and> ws_slots s' = ws_slots s
     \<and> ws_in_flight s' = ws_in_flight s \<and> ws_timers s' = ws_timers s \<and> ws_lease_id s' = ws_lease_id s"

text \<open>Handlers and hooks do not touch leases.\<close>

definition leases_private :: "worker \<Rightarrow> bool" where
  "leases_private W \<longleftrightarrow>
     (\<forall>t h d k key. w_handlers W t = Some h \<longrightarrow> evolves keeps_leases (h d k key))
     \<and> (\<forall>i h. w_hooks W i = Some h \<longrightarrow> evolves keeps_leases h)"

lemma keeps_refl: "reflp keeps_leases" "reflp ws_keeps"
  by (simp_all add: reflp_def keeps_leases_def ws_keeps_def)

lemma keeps_trans: "transp keeps_leases" "transp ws_keeps"
  by (simp_all add: transp_def keeps_leases_def ws_keeps_def)

lemma ws_keeps_on_world: "evolves keeps_leases m \<Longrightarrow> evolves ws_keeps (on_world m)"
  by (simp add: evolves_def on_world_def ws_keeps_def split: prod.splits) (metis snd_conv)

lemmas keeps_intro = evolves_intro evolves_option keeps_refl keeps_trans ws_keeps_on_world

lemma keeps_frame:
  "(\<And>w r w'. m w = (r, w') \<Longrightarrow> lease_rows w' = lease_rows w) \<Longrightarrow> evolves keeps_leases m"
  by (simp add: evolves_def keeps_leases_def) (metis prod.collapse)

lemma ws_keeps_modify: "(\<And>s. ws_keeps s (f s)) \<Longrightarrow> evolves ws_keeps (modifyE f)"
  by (rule evolves_modifyE)

lemma keeps_primitive:
  "evolves keeps_leases (utc_now E')" "evolves keeps_leases (new_uuid E')"
  "evolves keeps_leases (to_domain_workflow_state (state_value s))"
  "evolves keeps_leases (to_domain_task_type (task_type_value t))"
  "evolves keeps_leases (int_of_json j)" "evolves keeps_leases (get_artifact_content a)"
  "evolves keeps_leases (check_before_execution key)" "evolves keeps_leases (claim_completion E' spec)"
  by (rule keeps_frame, cases j;
      auto simp: py_simps to_domain_task_type_def get_artifact_content_def check_before_execution_def
        claim_completion_def store_simps bindE_def Let_def split: option.splits if_splits)+

lemma keeps_build: "evolves keeps_leases (build_for_decision E' x task inc)"
proof (rule keeps_frame)
  fix w r w' assume "build_for_decision E' x task inc w = (r, w')"
  then show "lease_rows w' = lease_rows w" using build_for_decision_dispatched [of E' x task inc w] by auto
qed

lemma keeps_build_transition: "evolves keeps_leases (build_transition E' wid a b rsn actor)"
  by (rule keeps_frame) (auto simp: build_transition_eq)

lemma keeps_hooks: "leases_private W \<Longrightarrow> evolves keeps_leases (invoke_if_active W i)"
  unfolding invoke_if_active_def leases_private_def by (cases "w_hooks W i") (auto intro!: keeps_intro)

lemma keeps_map_error: "evolves R (raise e :: (world, 'a) prog) \<Longrightarrow> (\<And>e'. evolves R (raise e' :: (world, 'a) prog)) \<Longrightarrow>
    evolves R (map_update_error wid e :: (world, 'a) prog)"
  by (cases e) (simp_all add: map_update_error_def)

context task_store
begin

lemma keeps_writes:
  "evolves keeps_leases (rp_update_workflow_state R wid v st fr rc)" "evolves keeps_leases (rp_append_transition R t)"
  "evolves keeps_leases (rp_create_task R k p)" "evolves keeps_leases (rp_outbox_insert R sp)"
  "evolves keeps_leases (rp_update_task R tid ts att rsn ca)" "evolves keeps_leases (rp_get_task_payload R ref)"
  "evolves keeps_leases (require_active R op)"
proof -
  show "evolves keeps_leases (rp_update_workflow_state R wid v st fr rc)"
    unfolding evolves_def keeps_leases_def
  proof
    fix w show "lease_rows (snd (rp_update_workflow_state R wid v st fr rc w)) = lease_rows w"
      using update_cases [of wid v st fr rc w] by (auto simp: put_defs)
  qed
  show "evolves keeps_leases (rp_append_transition R t)"
    unfolding evolves_def keeps_leases_def
  proof
    fix w show "lease_rows (snd (rp_append_transition R t w)) = lease_rows w"
      using append_cases [of t w] by (auto simp: put_defs)
  qed
  show "evolves keeps_leases (rp_create_task R k p)"
    unfolding evolves_def keeps_leases_def
  proof
    fix w show "lease_rows (snd (rp_create_task R k p w)) = lease_rows w"
      using create_task_cases [of k p w] by (auto simp: put_defs)
  qed
  show "evolves keeps_leases (rp_outbox_insert R sp)"
    unfolding evolves_def keeps_leases_def
  proof
    fix w show "lease_rows (snd (rp_outbox_insert R sp w)) = lease_rows w"
      using outbox_cases [of sp w] by (auto simp: put_defs)
  qed
  show "evolves keeps_leases (rp_update_task R tid ts att rsn ca)"
    unfolding evolves_def keeps_leases_def
  proof
    fix w show "lease_rows (snd (rp_update_task R tid ts att rsn ca w)) = lease_rows w"
      using update_task_cases [of tid ts att rsn ca w] by auto
  qed
  show "evolves keeps_leases (rp_get_task_payload R ref)"
    by (rule keeps_frame) (metis payload_pure prod.inject)
  show "evolves keeps_leases (require_active R op)"
    by (rule keeps_frame) (auto split: if_splits)
qed

lemma keeps_execute_transition: "evolves keeps_leases (execute_transition R x d t ob rc)"
  unfolding execute_transition_def to_domain_transition_id case_prod_beta
  by (intro keeps_intro keeps_map_error keeps_writes)

lemma keeps_lookup_case:
  "(\<And>d. evolves keeps_leases (g d)) \<Longrightarrow>
   evolves keeps_leases (case l of Inl e \<Rightarrow> raise (f e) | Inr d \<Rightarrow> g d)"
  by (cases l) (simp_all add: keeps_intro)

lemma keeps_apply_transition: "evolves keeps_leases (apply_transition E R C req)"
  unfolding apply_transition_def Let_def to_domain_workflow_state_value bindE_ret case_prod_beta
  by (intro keeps_intro keeps_lookup_case keeps_build keeps_build_transition keeps_execute_transition keeps_writes)

lemma keeps_transaction:
  assumes "w_repos W = R" and "evolves ws_keeps body"
  shows "evolves ws_keeps (ws_transaction W body)"
proof -
  have "ws_keeps s (snd (ws_transaction W body s))" for s
  proof -
    obtain r w1 where en: "rp_tx_enter R (ws_world s) = (r, w1)" "lease_rows w1 = lease_rows (ws_world s)"
      using tx_enter [of "ws_world s"] by (auto simp: same_tables_def)
    obtain r2 s2 where b: "body (s\<lparr>ws_world := w1\<rparr>) = (r2, s2)" by (metis prod.collapse)
    have "ws_keeps (s\<lparr>ws_world := w1\<rparr>) s2" using assms(2) b by (rule evolvesD)
    moreover have "lease_rows (rp_tx_exit R (ws_world s) (isl r2) (ws_world s2))
        \<in> {lease_rows (ws_world s2), lease_rows (ws_world s)}"
      using tx_exit [of "ws_world s" "isl r2" "ws_world s2"] by (auto simp: same_tables_def)
    ultimately show ?thesis using en b assms(1)
      by (auto simp: ws_transaction_def ws_keeps_def keeps_leases_def split: sum.splits)
  qed
  then show ?thesis by (simp add: evolves_def)
qed

lemma keeps_bridge:
  assumes "w_env W = E" "w_repos W = R"
  shows "evolves keeps_leases (bridge W wid tid key cur)"
proof -
  have "keeps_leases w (snd (bridge W wid tid key cur w))" for w
    using assms
  proof (induction W wid tid key cur w rule: bridge.induct)
    case (1 W wid tid key cur w)
    obtain r w' where run: "apply_transition E R (w_config W) (bridge_request wid tid key cur) w = (r, w')"
      by (metis prod.collapse)
    have step: "keeps_leases w w'" using evolvesD [OF keeps_apply_transition run] .
    have rec: "keeps_leases w' (snd (bridge W wid tid key nxt w'))"
      if "needs_bridge cur" "r = Inr nxt" "trs_to nxt \<notin> ACTIVE_EXECUTION_STATES" for nxt
      by (rule 1(1)) (use that run 1(2,3) in simp_all)
    from step rec run 1(2,3) show ?case
      by (cases r) (auto simp: bridge.simps [of W wid tid key cur] keeps_leases_def)
  qed
  then show ?thesis by (simp add: evolves_def)
qed

end

section \<open>The steps of a delivery\<close>

lemma ws_keeps_simple:
  "evolves ws_keeps (ack d)" "evolves ws_keeps (record_resolution r)" "evolves ws_keeps (log_event e)"
  "evolves ws_keeps (post_transition_state task g)" "evolves ws_keeps (is_exhausted W a task)"
proof -
  show "evolves ws_keeps (post_transition_state task g)" "evolves ws_keeps (is_exhausted W a task)"
    unfolding post_transition_state_def is_exhausted_def get_retry_policy_def by (intro keeps_intro)+
qed (simp_all add: ack_def record_resolution_def log_event_def evolves_modifyE ws_keeps_def keeps_leases_def)

lemma ws_keeps_schedule: "evolves ws_keeps (schedule_backoff W t a task)"
  unfolding schedule_backoff_def get_retry_policy_def Let_def
  by (intro keeps_intro keeps_primitive evolves_modifyE) (simp add: ws_keeps_def keeps_leases_def)

lemma ws_keeps_defer: "evolves ws_keeps (should_defer W t)"
  unfolding should_defer_def by (intro keeps_intro keeps_primitive)

context task_store
begin

lemma ws_keeps_complete: "w_env W = E \<Longrightarrow> w_repos W = R \<Longrightarrow> evolves ws_keeps (complete_task W tid)"
  unfolding complete_task_def by (simp, intro keeps_intro keeps_primitive keeps_writes)

lemma ws_keeps_loser:
  assumes W: "w_env W = E" "w_repos W = R"
  shows "evolves ws_keeps (scenario_c_loser_path W d task key hr)"
  unfolding scenario_c_loser_path_def Let_def W
  by (intro keeps_intro guar_exn_case ws_keeps_simple keeps_primitive ws_keeps_complete keeps_apply_transition W)

lemma ws_keeps_commit:
  assumes W: "w_env W = E" "w_repos W = R"
  shows "evolves ws_keeps (commit_success_path W d task key hr)"
  unfolding commit_success_path_def Let_def W
  by (intro keeps_intro keeps_primitive ws_keeps_loser keeps_apply_transition keeps_bridge ws_keeps_complete W)

lemma ws_keeps_execute:
  assumes W: "w_env W = E" "w_repos W = R" and ok: "leases_private W"
  shows "evolves ws_keeps (execute_task W sk d task k key)"
proof -
  have body: "evolves ws_keeps (bindE (get_handler W task) (\<lambda>handler.
        bindE (on_world (handler d k key)) (\<lambda>handler_result.
        bindE (ws_clock W) (\<lambda>_.
        if sk then raise SimulatedCrashBeforeAck else commit_success_path W d task key handler_result))))"
  proof (cases "w_handlers W task")
    case None
    then show ?thesis by (simp add: get_handler_def keeps_intro)
  next
    case (Some h)
    then have h: "evolves keeps_leases (h d k key)" using ok by (simp add: leases_private_def)
    have "evolves ws_keeps (bindE (on_world (h d k key)) (\<lambda>handler_result.
        bindE (ws_clock W) (\<lambda>_.
        if sk then raise SimulatedCrashBeforeAck else commit_success_path W d task key handler_result)))"
      by (intro keeps_intro h keeps_primitive ws_keeps_commit W)
    with Some show ?thesis by (simp add: get_handler_def)
  qed
  show ?thesis unfolding execute_task_def
    by (rule keeps_transaction [OF W(2) evolves_bindE [OF keeps_trans(2) _ body]])
       (simp add: W ws_keeps_on_world keeps_writes)
qed

lemma ws_keeps_exception:
  assumes W: "w_env W = E" "w_repos W = R" and ok: "leases_private W"
  shows "evolves ws_keeps (handle_exception W sk d task k a e)"
proof -
  have retry: "evolves ws_keeps (handle_retryable_failure W k task a rsn)" for rsn
    unfolding handle_retryable_failure_def W
    by (intro keeps_intro keeps_transaction keeps_writes ws_keeps_schedule W)
  have fail: "evolves ws_keeps (handle_permanent_failure W d t k ec ex sk st)" for t ec ex st
    unfolding handle_permanent_failure_def W
    by (intro keeps_intro keeps_transaction keeps_writes keeps_apply_transition keeps_hooks ws_keeps_simple W ok)
  show ?thesis
    by (cases e) (auto simp: handle_exception_def Let_def intro!: keeps_intro ws_keeps_simple retry fail)
qed

lemmas keeps_resolve_version = resolve_version_evolves [OF _ keeps_refl(1) keeps_trans(1)]

end

section \<open>Nothing is leaked\<close>

definition lease_ids :: "worker_state \<Rightarrow> string set" where
  "lease_ids s = le_id ` set (dict_values (lease_rows (ws_world s)))"

definition lease_unique :: "worker_state \<Rightarrow> bool" where
  "lease_unique s \<longleftrightarrow> keys_ok le_task_id (lease_rows (ws_world s))
     \<and> inj_on le_id (set (dict_values (lease_rows (ws_world s))))"

lemma lease_views_update [simp]:
  "lease_ids (s\<lparr>ws_timers := ts\<rparr>) = lease_ids s" "lease_unique (s\<lparr>ws_timers := ts\<rparr>) = lease_unique s"
  "lease_ids (s\<lparr>ws_lease_id := l\<rparr>) = lease_ids s" "lease_unique (s\<lparr>ws_lease_id := l\<rparr>) = lease_unique s"
  "lease_ids (s\<lparr>ws_renew_failed := b\<rparr>) = lease_ids s" "lease_unique (s\<lparr>ws_renew_failed := b\<rparr>) = lease_unique s"
  "lease_ids (s\<lparr>ws_slots := sl\<rparr>) = lease_ids s" "lease_unique (s\<lparr>ws_slots := sl\<rparr>) = lease_unique s"
  "lease_ids (s\<lparr>ws_in_flight := n\<rparr>) = lease_ids s" "lease_unique (s\<lparr>ws_in_flight := n\<rparr>) = lease_unique s"
  by (simp_all add: lease_ids_def lease_unique_def)

lemma lease_views_cong:
  "lease_rows (ws_world s') = lease_rows (ws_world s) \<Longrightarrow> lease_ids s' = lease_ids s \<and> lease_unique s' = lease_unique s"
  by (simp add: lease_ids_def lease_unique_def)

text \<open>
  During a delivery: the counters are those after the slot was taken, and no timer and no lease is
  there that was not there before, except those of the lease in \<open>ws_lease_id\<close>.
\<close>

definition holding :: "worker_state \<Rightarrow> worker_state \<Rightarrow> bool" where
  "holding s0 s \<longleftrightarrow> ws_slots s = ws_slots s0 \<and> ws_in_flight s = ws_in_flight s0 \<and> lease_unique s
     \<and> set (ws_timers s) \<subseteq> set (ws_timers s0) \<union> set_option (ws_lease_id s)
     \<and> lease_ids s \<subseteq> lease_ids s0 \<union> set_option (ws_lease_id s)"

lemma holding_keeps: "ws_keeps s s' \<Longrightarrow> holding s0 s \<Longrightarrow> holding s0 s'"
  by (simp add: ws_keeps_def holding_def keeps_leases_def lease_ids_def lease_unique_def)

lemma hoare_keeps:
  assumes "evolves ws_keeps m"
  shows "hoare (\<lambda>s. holding s0 s \<and> ws_lease_id s = l) m (\<lambda>_ s. holding s0 s \<and> ws_lease_id s = l) (holding s0)"
  using assms holding_keeps
  by (fastforce simp: hoare_def evolves_def ws_keeps_def split: prod.splits sum.splits)

lemma released_ids:
  assumes "lease_unique s" and "release i (ws_world s) = (r, w')"
  shows "lease_unique (s\<lparr>ws_world := w'\<rparr>) \<and> lease_ids (s\<lparr>ws_world := w'\<rparr>) \<subseteq> lease_ids s - {i}"
proof (cases "find_lease i (ws_world s)")
  case None
  with assms show ?thesis by (auto simp: release_eq lease_ids_def find_lease_None)
next
  case (Some kl)
  obtain k l where kl: "kl = (k, l)" by (cases kl)
  let ?d = "lease_rows (ws_world s)"
  have inj: "inj_on le_id (set (dict_values ?d))" and keys: "keys_ok le_task_id ?d"
    using assms(1) by (simp_all add: lease_unique_def)
  from find_lease_Some [of i "ws_world s" k l] Some kl have l: "(k, l) \<in> set ?d" "le_id l = i" by simp_all
  have w': "lease_rows w' = dict_del k ?d" using assms(2) Some kl by (auto simp: release_eq)
  have sub: "set (dict_values (dict_del k ?d)) \<subseteq> set (dict_values ?d)" by (auto simp: set_dict_del)
  have "l' \<in> set (dict_values (dict_del k ?d)) \<Longrightarrow> le_id l' \<noteq> i" for l'
  proof
    assume m: "l' \<in> set (dict_values (dict_del k ?d))" and "le_id l' = i"
    with l sub inj have "l' = l" by (metis inj_onD image_eqI set_map snd_conv subsetD)
    from m obtain k' where "(k', l') \<in> set ?d" "k' \<noteq> k" by (auto simp: set_dict_del)
    with \<open>l' = l\<close> l keys have "le_task_id l = k'" "le_task_id l = k" by (auto simp: keys_ok_def)
    with \<open>k' \<noteq> k\<close> show False by simp
  qed
  then have "lease_ids (s\<lparr>ws_world := w'\<rparr>) \<subseteq> lease_ids s - {i}"
    unfolding lease_ids_def using image_mono [OF sub, of le_id] w' by (auto simp del: set_map)
  moreover have "lease_unique (s\<lparr>ws_world := w'\<rparr>)"
    using keys inj sub w' by (auto simp: lease_unique_def keys_ok_def set_dict_del distinct_delete intro: inj_on_subset)
  ultimately show ?thesis by simp
qed

lemma free_lease:
  assumes "holding s0 s" and "ws_lease_id s = Some i"
    and "bindE (stop_renewal i) (\<lambda>_. coordinator_release i) s = (r, s1)"
  shows "r = Inr () \<and> holding s0 (s1\<lparr>ws_lease_id := None\<rparr>)"
proof -
  obtain r' w' where rel: "release i (ws_world s) = (r', w')" by (metis prod.collapse)
  have ok: "r' = Inr ()" using rel by (auto simp: release_eq split: option.splits)
  have s1: "r = Inr () \<and> s1 = s\<lparr>ws_world := w', ws_timers := removeAll i (ws_timers s)\<rparr>"
    using assms(3) rel ok
    by (auto simp: stop_renewal_def coordinator_release_def on_world_def bindE_def py_simps)
  have "lease_unique s" using assms(1) by (simp add: holding_def)
  from released_ids [OF this rel] have "lease_unique (s\<lparr>ws_world := w'\<rparr>)"
    and "lease_ids (s\<lparr>ws_world := w'\<rparr>) \<subseteq> lease_ids s - {i}" by simp_all
  moreover have "lease_ids (s1\<lparr>ws_lease_id := None\<rparr>) = lease_ids (s\<lparr>ws_world := w'\<rparr>)"
    "lease_unique (s1\<lparr>ws_lease_id := None\<rparr>) = lease_unique (s\<lparr>ws_world := w'\<rparr>)"
    using s1 lease_views_cong [of "s1\<lparr>ws_lease_id := None\<rparr>" "s\<lparr>ws_world := w'\<rparr>"] by simp_all
  ultimately show ?thesis using assms(1,2) s1 by (auto simp: holding_def)
qed

lemma end_delivery_frees:
  assumes "holding s0 s"
  shows "ws_slots (end_delivery task s) = (ws_slots s0)(task := ws_slots s0 task + 1)
    \<and> ws_in_flight (end_delivery task s) = ws_in_flight s0 - 1
    \<and> set (ws_timers (end_delivery task s)) \<subseteq> set (ws_timers s0)
    \<and> lease_ids (end_delivery task s) \<subseteq> lease_ids s0"
proof -
  have "holding s0 ((release_current_lease s)\<lparr>ws_lease_id := None\<rparr>)"
  proof (cases "ws_lease_id s")
    case None
    with assms show ?thesis
      by (simp add: release_current_lease_def holding_def)
  next
    case (Some i)
    with free_lease [OF assms Some] show ?thesis
      by (simp add: release_current_lease_def) (metis prod.collapse)
  qed
  then show ?thesis
    by (auto simp: end_delivery_def Let_def release_slot_def modifyE_def holding_def)
qed

lemma try_acquire_ids:
  "try_acquire E t wid ttl w = (Inr (Some l), w') \<Longrightarrow>
     le_id ` set (dict_values (lease_rows w')) \<subseteq> insert (le_id l) (le_id ` set (dict_values (lease_rows w)))"
  using set_dict_set_subset [of t l "lease_rows w"] set_dict_set_subset [of t l "dict_del t (lease_rows w)"]
  by (force simp: try_acquire_eq set_dict_del split: option.splits if_splits)

lemma try_acquire_refused: "try_acquire E t wid ttl w = (Inr None, w') \<Longrightarrow> lease_rows w' = lease_rows w"
  by (auto simp: try_acquire_eq split: option.splits if_splits)

lemma hoare_acquire:
  assumes fresh: "fresh_uuids (w_env W)"
  shows "hoare (\<lambda>s. lease_inv (w_env W) (ws_world s) \<and> holding s0 s \<and> ws_lease_id s = None)
    (coordinator_acquire W t)
    (\<lambda>l s. holding s0 (s\<lparr>ws_lease_id := Some (le_id l)\<rparr>)) (holding s0)"
  unfolding hoare_def
proof (intro allI impI)
  fix s assume s: "lease_inv (w_env W) (ws_world s) \<and> holding s0 s \<and> ws_lease_id s = None"
  obtain r w' where run: "try_acquire (w_env W) t (w_worker_id W) DEFAULT_LEASE_TTL (ws_world s) = (r, w')"
    by (metis prod.collapse)
  then obtain l where r: "r = Inr l" by (auto simp: try_acquire_eq split: option.splits if_splits)
  have inv: "lease_inv (w_env W) w'" using lease_inv_acquire [OF _ fresh run] s by blast
  show "case coordinator_acquire W t s of
      (Inl e, s') \<Rightarrow> holding s0 s' | (Inr l, s') \<Rightarrow> holding s0 (s'\<lparr>ws_lease_id := Some (le_id l)\<rparr>)"
  proof (cases l)
    case None
    with run r have same: "lease_rows w' = lease_rows (ws_world s)" using try_acquire_refused by blast
    with None run r s lease_views_cong [of "s\<lparr>ws_world := w'\<rparr>" s] show ?thesis
      by (auto simp: coordinator_acquire_def on_world_def bindE_def py_simps holding_def)
  next
    case (Some a)
    with run r have "lease_ids (s\<lparr>ws_world := w'\<rparr>) \<subseteq> insert (le_id a) (lease_ids s)"
      using try_acquire_ids by (simp add: lease_ids_def)
    moreover have "lease_unique (s\<lparr>ws_world := w'\<rparr>)" using inv by (simp add: lease_unique_def lease_inv_def)
    ultimately have "holding s0 (s\<lparr>ws_world := w', ws_lease_id := Some (le_id a)\<rparr>)"
      using s by (auto simp: holding_def)
    with run r Some show ?thesis by (simp add: coordinator_acquire_def on_world_def bindE_def py_simps)
  qed
qed

lemma hoare_free:
  "hoare (\<lambda>s. holding s0 s \<and> ws_lease_id s = Some i) (stop_renewal i)
     (\<lambda>_ s. \<exists>s1. holding s0 s1 \<and> ws_lease_id s1 = Some i \<and> s = s1\<lparr>ws_timers := removeAll i (ws_timers s1)\<rparr>) X"
  by (auto simp: hoare_def stop_renewal_def modifyE_def)

lemma hoare_coordinator_release:
  "hoare (\<lambda>s. \<exists>s1. holding s0 s1 \<and> ws_lease_id s1 = Some i \<and> s = s1\<lparr>ws_timers := removeAll i (ws_timers s1)\<rparr>)
     (coordinator_release i) (\<lambda>_ s. holding s0 (s\<lparr>ws_lease_id := None\<rparr>)) X"
proof -
  have "fst (coordinator_release i s) = Inr ()" for s
    by (auto simp: coordinator_release_def stop_renewal_def on_world_def release_eq bindE_def py_simps
        split: option.splits prod.splits)
  moreover have "holding s0 ((snd (coordinator_release i (s1\<lparr>ws_timers := removeAll i (ws_timers s1)\<rparr>)))\<lparr>ws_lease_id := None\<rparr>)"
    if "holding s0 s1" "ws_lease_id s1 = Some i" for s1
    using free_lease [OF that] by (simp add: stop_renewal_def bindE_def modifyE_def) (metis prod.collapse)
  ultimately show ?thesis
    by (auto simp: hoare_def split: prod.splits sum.splits) (metis fst_conv sum.distinct(1), metis snd_conv)
qed

context task_store
begin

lemma process_leased_holding:
  assumes fresh: "fresh_uuids E" and W: "w_env W = E" "w_repos W = R" and ok: "leases_private W"
  shows "hoare (\<lambda>s. lease_inv E (ws_world s) \<and> holding s0 s \<and> ws_lease_id s = None)
    (process_leased W sk d task k) (\<lambda>_. holding s0) (holding s0)"
proof -
  note keep = hoare_bindE [OF hoare_keeps]
  have hoare_acquire': "hoare (\<lambda>s. lease_inv E (ws_world s) \<and> holding s0 s \<and> ws_lease_id s = None)
      (coordinator_acquire W t) (\<lambda>l s. holding s0 (s\<lparr>ws_lease_id := Some (le_id l)\<rparr>)) (holding s0)" for t
    using hoare_acquire [of W s0 t] fresh W by simp
  have last: "hoare (\<lambda>s. holding s0 s \<and> ws_lease_id s = l) m (\<lambda>_. holding s0) (holding s0)"
    if "evolves ws_keeps m" for l and m :: "(worker_state, unit) prog"
    using hoare_keeps [OF that, of s0 l] by (rule hoare_weaken) auto
  have start: "hoare (\<lambda>s. holding s0 s \<and> ws_lease_id s = Some i) (start_renewal i)
      (\<lambda>_ s. holding s0 s \<and> ws_lease_id s = Some i) (holding s0)" for i
    by (auto simp: hoare_def start_renewal_def schedule_renewal_def bindE_def py_simps holding_def)
  have tail: "hoare (\<lambda>s. holding s0 s \<and> ws_lease_id s = Some i)
      (bindE (stop_renewal i) (\<lambda>_. bindE (coordinator_release i) (\<lambda>_.
       bindE (modifyE (\<lambda>s. s\<lparr>ws_lease_id := None\<rparr>)) (\<lambda>_.
       bindE (on_world (invoke_if_active W FINJ_WKR_PRE_ACK)) (\<lambda>_.
       whenE (\<not> sk) (bindE (ack d) (\<lambda>_. log_event ''ack'')))))))
      (\<lambda>_. holding s0) (holding s0)" for i
    by (rule hoare_bindE [OF hoare_free], rule hoare_bindE [OF hoare_coordinator_release],
        rule hoare_bindE [OF hoare_modifyE [where Q = "\<lambda>_ s. holding s0 s \<and> ws_lease_id s = None"]], simp,
        rule last)
       (intro keeps_intro keeps_hooks ws_keeps_simple ok)
  show ?thesis
    unfolding process_leased_def Let_def
    by (rule hoare_bindE [OF hoare_acquire' hoare_bindE [OF hoare_modifyE hoare_bindE [OF start keep [OF _
          keep [OF _ hoare_if [OF last keep [OF _ keep [OF _ keep [OF _ keep [OF _ keep [OF _ keep [OF _ tail]]]]]]]]]]]])
       (simp, (intro keeps_intro keeps_resolve_version keeps_primitive keeps_hooks ws_keeps_simple
          ws_keeps_execute W ok)+)
qed

end

text \<open>
  After a delivery, however it ends, the counters are as before and every timer and every lease was
  there before.
\<close>

definition nothing_leaked :: "worker_state \<Rightarrow> worker_state \<Rightarrow> bool" where
  "nothing_leaked s s' \<longleftrightarrow> ws_slots s' = ws_slots s \<and> ws_in_flight s' = ws_in_flight s
     \<and> set (ws_timers s') \<subseteq> set (ws_timers s) \<and> lease_ids s' \<subseteq> lease_ids s"

lemma nothing_leaked_keeps: "ws_keeps s s' \<Longrightarrow> nothing_leaked s s'"
  by (auto simp: ws_keeps_def nothing_leaked_def keeps_leases_def lease_ids_def)

context task_store
begin

lemma delivery_body_leaks_nothing:
  assumes fresh: "fresh_uuids E" and W: "w_env W = E" "w_repos W = R" and ok: "leases_private W"
    and inv: "lease_inv E (ws_world s)" and take: "acquire_blocking task s = (Inr (), s1)"
  shows "nothing_leaked s (snd (finallyE
      (bindE (modifyE (\<lambda>s. s\<lparr>ws_in_flight := ws_in_flight s + 1, ws_lease_id := None\<rparr>)) (\<lambda>_.
       catchE (process_leased W sk d task k) (handle_exception W sk d task k att)))
      (end_delivery task) s1))"
proof -
  let ?s0 = "s1\<lparr>ws_in_flight := ws_in_flight s1 + 1, ws_lease_id := None\<rparr>"
  have s1: "s1 = s\<lparr>ws_slots := (ws_slots s)(task := ws_slots s task - 1)\<rparr>"
    using take by (auto simp: acquire_blocking_def split: if_splits)
  have start: "lease_inv E (ws_world ?s0) \<and> holding ?s0 ?s0 \<and> ws_lease_id ?s0 = None"
    using inv s1 by (simp add: holding_def) (simp add: lease_unique_def lease_inv_def)
  have exn: "hoare (holding ?s0) (handle_exception W sk d task k att e) (\<lambda>_. holding ?s0) (holding ?s0)" for e
    using ws_keeps_exception [OF W ok, of sk d task k att e] holding_keeps
    by (fastforce simp: hoare_def evolves_def split: prod.splits sum.splits)
  have frees: "nothing_leaked s (end_delivery task v)" if "holding ?s0 v" for v
    using end_delivery_frees [OF that, of task] s1 by (auto simp: nothing_leaked_def)
  have "hoare (\<lambda>v. v = s1)
      (bindE (modifyE (\<lambda>s. s\<lparr>ws_in_flight := ws_in_flight s + 1, ws_lease_id := None\<rparr>)) (\<lambda>_.
       catchE (process_leased W sk d task k) (handle_exception W sk d task k att)))
      (\<lambda>_. holding ?s0) (holding ?s0)"
    by (rule hoare_bindE [OF hoare_modifyE hoare_catchE [OF process_leased_holding [OF fresh W ok] exn]])
       (use start in simp)
  then have "hoare (\<lambda>v. v = s1)
      (bindE (modifyE (\<lambda>s. s\<lparr>ws_in_flight := ws_in_flight s + 1, ws_lease_id := None\<rparr>)) (\<lambda>_.
       catchE (process_leased W sk d task k) (handle_exception W sk d task k att)))
      (\<lambda>_ v. nothing_leaked s (end_delivery task v)) (\<lambda>v. nothing_leaked s (end_delivery task v))"
    by (rule hoare_weaken) (use frees in blast)+
  from hoare_finallyE [where Q = "nothing_leaked s" and f = "end_delivery task", OF this] show ?thesis by simp
qed

end

context task_store
begin

lemma process_leaks_nothing:
  assumes fresh: "fresh_uuids E" and W: "w_env W = E" "w_repos W = R" and ok: "leases_private W"
    and inv: "lease_inv E (ws_world s)"
  shows "nothing_leaked s (snd (process_delivery W sk d s))"
proof -
  let ?start = "\<lambda>s'. ws_keeps s s' \<and> lease_inv E (ws_world s')"
  let ?ok = "\<lambda>s'. nothing_leaked s s'"
  have leak_trans: "nothing_leaked u v \<Longrightarrow> nothing_leaked v x \<Longrightarrow> nothing_leaked u x" for u v x
    by (auto simp: nothing_leaked_def)
  have fin: "hoare ?start m (\<lambda>_. ?ok) ?ok" if "evolves ws_keeps m" for m :: "(worker_state, 'x) prog"
    using that nothing_leaked_keeps leak_trans
    by (fastforce simp: hoare_def evolves_def split: prod.splits sum.splits)
  have keep: "hoare ?start m (\<lambda>_. ?start) ?ok"
    if "evolves ws_keeps m" "evolves (\<lambda>v v'. ticks (ws_world v) \<le> ticks (ws_world v')) m" for m :: "(worker_state, 'x) prog"
  proof -
    have "?start (snd (m v)) \<and> ?ok (snd (m v))" if "?start v" for v
      using that \<open>evolves ws_keeps m\<close> \<open>evolves (\<lambda>v v'. ticks (ws_world v) \<le> ticks (ws_world v')) m\<close>
        transpD [OF keeps_trans(2)] lease_inv_frame [of E "ws_world v" "ws_world (snd (m v))"]
        nothing_leaked_keeps
      by (auto simp: evolves_def ws_keeps_def keeps_leases_def)
    then show ?thesis by (fastforce simp: hoare_def split: prod.splits sum.splits)
  qed
  have clock: "evolves (\<lambda>v v'. ticks (ws_world v) \<le> ticks (ws_world v')) (ws_clock W)"
    by (simp add: evolves_def on_world_def utc_now_def)
  have deferral: "evolves (\<lambda>v v'. ticks (ws_world v) \<le> ticks (ws_world v')) (should_defer W t)" for t
    by (simp add: evolves_def should_defer_def on_world_def utc_now_def bindE_def py_simps split: option.splits)
  have clk: "evolves ws_keeps (ws_clock W)" and get: "evolves ws_keeps (gets f)" and ret0: "evolves ws_keeps (ret ())"
    and err: "evolves ws_keeps (raise e)"
    and acked: "evolves ws_keeps (whenE b (ack d))" and get_ticks: "evolves (\<lambda>v v'. ticks (ws_world v) \<le> ticks (ws_world v')) (gets f)"
    for f :: "worker_state \<Rightarrow> 'z" and b e
    by (intro keeps_intro keeps_primitive ws_keeps_simple | simp add: evolves_def gets_def reflp_def)+
  have dom: "on_world (to_domain_workflow_state (state_value x)) = ret x"
    "on_world (to_domain_task_type (task_type_value t)) = ret t" for x t
    by (simp_all add: fun_eq_iff on_world_def ret_def to_domain_task_type_def)
  have run: "hoare ?start (bindE (acquire_blocking task) (\<lambda>_. finallyE
      (bindE (modifyE (\<lambda>s. s\<lparr>ws_in_flight := ws_in_flight s + 1, ws_lease_id := None\<rparr>)) (\<lambda>_.
       catchE (process_leased W sk d task k) (handle_exception W sk d task k att)))
      (end_delivery task))) (\<lambda>_. ?ok) ?ok" for task k att
  proof -
    have "?ok (snd (bindE (acquire_blocking task) (\<lambda>_. finallyE
      (bindE (modifyE (\<lambda>s. s\<lparr>ws_in_flight := ws_in_flight s + 1, ws_lease_id := None\<rparr>)) (\<lambda>_.
       catchE (process_leased W sk d task k) (handle_exception W sk d task k att)))
      (end_delivery task)) v))" if v: "?start v" for v
    proof (cases "0 < ws_slots v task")
      case True
      then obtain s1 where s1: "acquire_blocking task v = (Inr (), s1)" by (simp add: acquire_blocking_def)
      have "nothing_leaked s v" using v nothing_leaked_keeps by blast
      from leak_trans [OF this delivery_body_leaks_nothing [OF fresh W ok _ s1]] v s1
      show ?thesis by simp
    next
      case False
      with v nothing_leaked_keeps show ?thesis by (simp add: acquire_blocking_def bindE_def)
    qed
    then show ?thesis by (fastforce simp: hoare_def split: prod.splits sum.splits)
  qed
  have "hoare ?start (process_delivery W sk d) (\<lambda>_. ?ok) ?ok"
    unfolding process_delivery_def Let_def dom bindE_ret
    by (rule hoare_bindE [OF keep [OF clk clock] hoare_bindE [OF keep [OF get get_ticks] hoare_option [OF fin [OF err]
          hoare_bindE [OF keep [OF get get_ticks] hoare_option [OF fin [OF err] hoare_if [OF fin [OF acked]
          hoare_bindE [OF keep [OF ws_keeps_defer deferral] hoare_if [OF fin [OF ret0] run]]]]]]]])
  moreover have "?start s" using inv by (simp add: ws_keeps_def keeps_leases_def)
  ultimately show ?thesis
    by (cases "process_delivery W sk d s"; cases "fst (process_delivery W sk d s)") (auto simp: hoare_def)
qed

end

end
