(* ===== verification/Worker_Deliveries.thy ===== *)
theory Worker_Deliveries
  imports Worker_Resources Engine_Properties
begin

text \<open>
  The exact outcome of the ways a delivery can end without running a handler, and the agreement
  between the idempotency key a dispatch writes and the key a worker computes for it.
\<close>

section \<open>Computations that only read\<close>

text \<open>The computation changes nothing and its result depends on the view \<open>v\<close> only.\<close>

definition reads :: "('s \<Rightarrow> 'v) \<Rightarrow> ('e, 's, 'a) py \<Rightarrow> bool" where
  "reads v m \<longleftrightarrow> (\<forall>s s'. v s = v s' \<longrightarrow> (\<exists>r. m s = (r, s) \<and> m s' = (r, s')))"

lemma readsD: "reads v m \<Longrightarrow> m s = (r, t) \<Longrightarrow> v s' = v s \<Longrightarrow> m s' = (r, s') \<and> t = s"
  by (force simp: reads_def)

lemma reads_basic: "reads v (ret x)" "reads v (raise e)"
  by (simp_all add: reads_def)

lemma reads_gets: "(\<And>s s'. v s = v s' \<Longrightarrow> f s = f s') \<Longrightarrow> reads v (gets f)"
  unfolding reads_def gets_def by metis

lemma reads_bindE: "reads v m \<Longrightarrow> (\<And>x. reads v (f x)) \<Longrightarrow> reads v (bindE m f)"
  unfolding reads_def bindE_def by (fastforce split: prod.splits sum.splits)

lemma reads_catchE: "reads v m \<Longrightarrow> (\<And>e. reads v (h e)) \<Longrightarrow> reads v (catchE m h)"
  unfolding reads_def catchE_def by (fastforce split: prod.splits sum.splits)

lemma reads_if: "reads v m \<Longrightarrow> reads v n \<Longrightarrow> reads v (if b then m else n)"
  by simp

lemma reads_option:
  "reads v m \<Longrightarrow> (\<And>x. reads v (f x)) \<Longrightarrow> reads v (case c of None \<Rightarrow> m | Some x \<Rightarrow> f x)"
  by (cases c) simp_all

lemma reads_object: "(\<And>kvs. reads v (f kvs)) \<Longrightarrow> reads v g \<Longrightarrow> reads v (case j of JObj kvs \<Rightarrow> f kvs | _ \<Rightarrow> g)"
  by (cases j) simp_all

lemma reads_stored:
  "(\<And>kvs. reads v (f kvs)) \<Longrightarrow> (\<And>t. reads v (h t)) \<Longrightarrow> reads v g \<Longrightarrow>
   reads v (case j of JObj kvs \<Rightarrow> f kvs | JStr t \<Rightarrow> h t | _ \<Rightarrow> g)"
  by (cases j) simp_all

lemma reads_int_of_json: "reads v (int_of_json j)"
  by (cases j) (auto simp: reads_basic split: option.splits)

lemmas reads_intro = reads_basic reads_bindE reads_catchE reads_if reads_option reads_object reads_stored
  reads_int_of_json

section \<open>Idempotency keys\<close>

text \<open>The part of the database a worker reads to find the logical version of a task.\<close>

definition version_view :: "world \<Rightarrow> (string, json) dict \<times> (string, artifact_record) dict \<times> (string, json) dict" where
  "version_view w = (payload_rows w, art_rows w, content_rows w)"

lemma reads_payload:
  assumes "R \<in> in_memory_repos E"
  shows "reads version_view (rp_get_task_payload R ref)"
  using assms
  by (auto simp: reads_def persistence_repos_def workflow_repos_def pf_get_task_payload_def wk_get_task_payload_def
      version_view_def Let_def py_simps split: option.splits)

lemma reads_resolve_version:
  assumes "w_repos W = R" and "R \<in> in_memory_repos E"
  shows "reads version_view (resolve_logical_version W task k d)"
proof -
  have "reads version_view (payload_logical_version W k)"
    unfolding payload_logical_version_def Let_def using assms
    by (intro reads_intro reads_payload) simp
  moreover have "reads version_view (gets (get_active_artifact wid ty))" for wid ty
    by (rule reads_gets) (simp add: version_view_def get_active_artifact_def list_artifacts_def)
  moreover have "reads version_view (get_artifact_content a)" for a
    unfolding get_artifact_content_def by (intro reads_intro reads_gets) (simp add: version_view_def)
  ultimately show ?thesis
    unfolding resolve_logical_version_def by (intro reads_intro)
qed

text \<open>A stored task that was dispatched with logical version \<open>lv\<close>.\<close>

definition dispatched_task :: "task_record \<Rightarrow> int \<Rightarrow> world \<Rightarrow> bool" where
  "dispatched_task k lv w \<longleftrightarrow>
     ref_kind (tk_payload_reference k) = TASK_PAYLOAD_REF_KIND
     \<and> dict_get (payload_rows w) (ref_id (tk_payload_reference k)) = Some (payload_for_task_type (tk_type k) lv)
     \<and> (tk_type k \<in> {COLLECT, SELECT_TOPIC} \<longrightarrow> lv = 1)"

lemma payload_read:
  assumes "R \<in> in_memory_repos E" and "ref_kind ref = TASK_PAYLOAD_REF_KIND"
    and "dict_get (payload_rows w) (ref_id ref) = Some p"
  shows "rp_get_task_payload R ref w = (Inr p, w)"
  using assms
  by (auto simp: persistence_repos_def workflow_repos_def pf_get_task_payload_def wk_get_task_payload_def
      Let_def py_simps)

lemma resolve_version_dispatched:
  assumes "w_repos W = R" and "R \<in> in_memory_repos E" and "dispatched_task k lv w"
  shows "resolve_logical_version W (tk_type k) k d w = (Inr lv, w)"
proof (cases "tk_type k \<in> {COLLECT, SELECT_TOPIC}")
  case True
  with assms(3) show ?thesis by (auto simp: resolve_logical_version_def dispatched_task_def)
next
  case False
  have "rp_get_task_payload (w_repos W) (tk_payload_reference k) w
      = (Inr (JObj [(''logical_version'', JInt lv)]), w)"
    using payload_read [OF assms(2), of "tk_payload_reference k" w] assms False
    by (auto simp: dispatched_task_def payload_for_task_type_def)
  then have "payload_logical_version W k w = (Inr (Some lv), w)"
    by (simp add: payload_logical_version_def bindE_def catchE_def py_simps)
  with False show ?thesis by (cases "tk_type k") (simp_all add: resolve_logical_version_def py_simps)
qed

text \<open>A dispatch leaves behind a task whose key is the one a worker computes for it.\<close>

lemma build_idempotency_key_eq: "build_idempotency_key = format_idempotency_key"
  by (simp add: fun_eq_iff build_idempotency_key_def format_idempotency_key_def)

lemma step_effect_dispatched:
  assumes "step_effect E wid x st fr rc rsn actor task inc w (Some b) t w'"
  shows "\<exists>lv. get_task (tk_id (obr_task_record b)) w' = Some (obr_task_record b)
    \<and> dispatched_task (obr_task_record b) lv w' \<and> task = Some (tk_type (obr_task_record b))
    \<and> tk_idempotency_key (obr_task_record b) = build_idempotency_key (wf_id x) (tk_type (obr_task_record b)) lv"
proof -
  from assms obtain task' where t: "task = Some task'"
    and ok: "dispatch_ok x task' (resolve_for_task (wf_id x) task' inc w) 1 b"
    by (auto simp: step_effect_def dispatched_def split: option.splits)
  from assms have rows: "get_task (tk_id (obr_task_record b)) w' = Some (obr_task_record b)"
    "dict_get (payload_rows w') (ref_id (tk_payload_reference (obr_task_record b))) = Some (obr_payload_json b)"
    by (auto simp: step_effect_def put_step_def put_dispatch_opt_def put_dispatch_def put_defs get_task_def)
  moreover have "dispatched_task (obr_task_record b) (resolve_for_task (wf_id x) task' inc w) w'"
    using rows ok by (auto simp: dispatched_task_def dispatch_ok_def resolve_for_task_def)
  ultimately show ?thesis using ok t by (auto simp: dispatch_ok_def build_idempotency_key_eq)
qed

section \<open>Deliveries that run no handler\<close>

lemma on_world_simps [simp]:
  "m (ws_world s) = (r, w) \<Longrightarrow> on_world m s = (r, s\<lparr>ws_world := w\<rparr>)"
  by (simp add: on_world_def)

lemma tick_update [simp]: "get_task t (w\<lparr>ticks := n\<rparr>) = get_task t w"
  by (simp add: get_task_def)

lemma process_delivery_missing:
  assumes "get_task (tm_task_id (pd_message d)) (ws_world s) = None
    \<or> get_workflow (tm_workflow_id (pd_message d)) (ws_world s) = None"
  shows "process_delivery W sk d s
    = (Inl (OtherError ''TypeError''), s\<lparr>ws_world := (ws_world s)\<lparr>ticks := Suc (ticks (ws_world s))\<rparr>\<rparr>)"
  using assms
  by (auto simp: process_delivery_def on_world_def utc_now_def bindE_def py_simps Let_def split: option.splits)

lemma process_delivery_stale:
  assumes "get_task (tm_task_id (pd_message d)) (ws_world s) = Some k"
    and "get_workflow (tm_workflow_id (pd_message d)) (ws_world s) = Some x"
    and "st_action (classify_stale_task (wf_state x) (tk_type k)) \<noteq> PROCEED"
  shows "process_delivery W sk d s
    = whenE (\<not> sk) (ack d) (s\<lparr>ws_world := (ws_world s)\<lparr>ticks := Suc (ticks (ws_world s))\<rparr>\<rparr>)"
  using assms
  by (auto simp: process_delivery_def on_world_def utc_now_def bindE_def py_simps Let_def to_domain_task_type_def)

lemma proceed_iff: "st_action (classify_stale_task s task) = PROCEED \<longleftrightarrow> s = expected_state_for_task task"
  by (cases task) (auto simp: classify_stale_task_def GUARD_TERMINAL_STATES_def)

text \<open>The state in which the inner \<open>try\<close> of a delivery starts.\<close>

definition delivery_start :: "task_type \<Rightarrow> worker_state \<Rightarrow> worker_state" where
  "delivery_start task s = s\<lparr>ws_world := (ws_world s)\<lparr>ticks := Suc (ticks (ws_world s))\<rparr>,
     ws_slots := (ws_slots s)(task := ws_slots s task - 1), ws_in_flight := ws_in_flight s + 1,
     ws_lease_id := None\<rparr>"

lemma delivery_start_sel [simp]:
  "ws_world (delivery_start task s) = (ws_world s)\<lparr>ticks := Suc (ticks (ws_world s))\<rparr>"
  by (simp add: delivery_start_def)

lemma process_delivery_start:
  assumes k: "get_task (tm_task_id (pd_message d)) (ws_world s) = Some k"
    and x: "get_workflow (tm_workflow_id (pd_message d)) (ws_world s) = Some x"
    and st: "wf_state x = expected_state_for_task (tk_type k)"
    and ready: "dict_get (ws_backoff s) (tm_task_id (pd_message d)) = None"
    and slot: "0 < ws_slots s (tk_type k)"
  shows "process_delivery W sk d s
    = finallyE (catchE (process_leased W sk d (tk_type k) k)
          (handle_exception W sk d (tk_type k) k (effective_attempt k (pd_message d))))
        (end_delivery (tk_type k)) (delivery_start (tk_type k) s)"
proof -
  define s1 where "s1 = s\<lparr>ws_world := (ws_world s)\<lparr>ticks := Suc (ticks (ws_world s))\<rparr>\<rparr>"
  define s2 where "s2 = s1\<lparr>ws_slots := (ws_slots s)(tk_type k := ws_slots s (tk_type k) - 1)\<rparr>"
  have clock: "ws_clock W s = (Inr (env_now (w_env W) (ticks (ws_world s))), s1)"
    by (simp add: on_world_def utc_now_def s1_def)
  have dom: "on_world (to_domain_workflow_state (state_value y)) = ret y"
    "on_world (to_domain_task_type (task_type_value t)) = ret t" for y t
    by (simp_all add: fun_eq_iff on_world_def ret_def to_domain_task_type_def)
  have due: "bindE (should_defer W (tm_task_id (pd_message d))) f s1 = f False s1" for f :: "bool \<Rightarrow> (worker_state, unit) prog"
    using ready by (simp add: should_defer_def s1_def bindE_def py_simps)
  have slots: "acquire_blocking (tk_type k) s1 = (Inr (), s2)"
    using slot by (simp add: acquire_blocking_def s1_def s2_def)
  have go: "st_action (classify_stale_task (wf_state x) (tk_type k)) = PROCEED"
    using st by (simp only: proceed_iff)
  have rows: "get_task (tm_task_id (pd_message d)) (ws_world s1) = Some k"
    "get_workflow (tm_workflow_id (pd_message d)) (ws_world s1) = Some x"
    using k x by (simp_all add: s1_def)
  have start: "delivery_start (tk_type k) s = s2\<lparr>ws_in_flight := ws_in_flight s2 + 1, ws_lease_id := None\<rparr>"
    by (simp add: delivery_start_def s1_def s2_def)
  show ?thesis
    using go by (simp add: process_delivery_def clock dom due slots rows start Let_def finallyE_def)
qed

text \<open>Another worker holds the lease.\<close>

lemma acquire_conflict:
  assumes "lease_of t (ws_world s) = Some l" and "env_now (w_env W) (ticks (ws_world s)) \<le> le_expires_at l"
  shows "coordinator_acquire W t s = (Inl (LeaseConflictError t (w_worker_id W)),
    s\<lparr>ws_world := (ws_world s)\<lparr>ticks := Suc (ticks (ws_world s))\<rparr>\<rparr>)"
  using assms by (simp add: coordinator_acquire_def on_world_def try_acquire_eq bindE_def py_simps)

lemma end_delivery_start:
  assumes "ws_lease_id s' = None" and "ws_slots s' = ws_slots (delivery_start task s)"
    and "ws_in_flight s' = ws_in_flight (delivery_start task s)"
  shows "end_delivery task s' = s'\<lparr>ws_slots := ws_slots s, ws_in_flight := ws_in_flight s\<rparr>"
  using assms
  by (simp add: end_delivery_def release_current_lease_def release_slot_def modifyE_def delivery_start_def Let_def)

lemma lease_of_ticks [simp]: "lease_of t (w\<lparr>ticks := n\<rparr>) = lease_of t w"
  by (simp add: lease_of_def)

lemma process_delivery_conflict:
  assumes k: "get_task (tm_task_id (pd_message d)) (ws_world s) = Some k"
    and x: "get_workflow (tm_workflow_id (pd_message d)) (ws_world s) = Some x"
    and st: "wf_state x = expected_state_for_task (tk_type k)"
    and ready: "dict_get (ws_backoff s) (tm_task_id (pd_message d)) = None"
    and slot: "0 < ws_slots s (tk_type k)"
    and held: "lease_of (tm_task_id (pd_message d)) (ws_world s) = Some l"
      "env_now (w_env W) (Suc (ticks (ws_world s))) \<le> le_expires_at l"
  shows "process_delivery W sk d s = (Inr (), s\<lparr>ws_world := (ws_world s)\<lparr>ticks := ticks (ws_world s) + 2\<rparr>,
    ws_resolutions := ws_resolutions s @ [DETECTED_DURING_EXECUTION], ws_lease_id := None\<rparr>)"
proof -
  let ?v = "delivery_start (tk_type k) s"
  have "coordinator_acquire W (tm_task_id (pd_message d)) ?v
      = (Inl (LeaseConflictError (tm_task_id (pd_message d)) (w_worker_id W)),
         ?v\<lparr>ws_world := (ws_world ?v)\<lparr>ticks := Suc (ticks (ws_world ?v))\<rparr>\<rparr>)"
    by (rule acquire_conflict) (use held in simp_all)
  then have "catchE (process_leased W sk d (tk_type k) k)
        (handle_exception W sk d (tk_type k) k (effective_attempt k (pd_message d))) ?v
      = (Inr (), ?v\<lparr>ws_world := (ws_world s)\<lparr>ticks := ticks (ws_world s) + 2\<rparr>,
          ws_resolutions := ws_resolutions s @ [DETECTED_DURING_EXECUTION]\<rparr>)"
    by (simp add: catchE_def process_leased_def Let_def bindE_def handle_exception_def record_resolution_def py_simps)
       (simp add: delivery_start_def)
  then have "process_delivery W sk d s = (Inr (), end_delivery (tk_type k)
      (?v\<lparr>ws_world := (ws_world s)\<lparr>ticks := ticks (ws_world s) + 2\<rparr>,
          ws_resolutions := ws_resolutions s @ [DETECTED_DURING_EXECUTION]\<rparr>))"
    by (simp only: process_delivery_start [OF k x st ready slot] finallyE_def prod.case)
  then show ?thesis
    by (subst (asm) end_delivery_start [where s = s]) (simp_all add: delivery_start_def)
qed

text \<open>The key of the task is already claimed.\<close>

lemma dict_del_set_fresh: "dict_get d t = None \<Longrightarrow> dict_del t (dict_set t v d) = d"
  by (simp add: dict_set_append AList.delete_eq) (force simp: map_of_eq_None_iff intro: filter_True)

lemma end_delivery_lease:
  assumes "ws_lease_id s' = Some i" and "find_lease i (ws_world s') = Some (t, l)"
    and "ws_slots s' = ws_slots (delivery_start task s)" and "ws_in_flight s' = ws_in_flight (delivery_start task s)"
  shows "end_delivery task s' = s'\<lparr>ws_world := (ws_world s')\<lparr>lease_rows := dict_del t (lease_rows (ws_world s'))\<rparr>,
    ws_timers := removeAll i (ws_timers s'), ws_slots := ws_slots s, ws_in_flight := ws_in_flight s, ws_lease_id := None\<rparr>"
  using assms
  by (simp add: end_delivery_def release_current_lease_def release_slot_def stop_renewal_def
      coordinator_release_def on_world_def release_eq bindE_def py_simps delivery_start_def Let_def)

text \<open>A task without a lease is leased to the worker; nothing else changes.\<close>

lemma acquire_free:
  assumes "lease_of t (ws_world s) = None"
  shows "coordinator_acquire W t s =
    (Inr (fresh_lease (w_env W) t (w_worker_id W) DEFAULT_LEASE_TTL (ticks (ws_world s))),
     s\<lparr>ws_world := put_leases
        (dict_set t (fresh_lease (w_env W) t (w_worker_id W) DEFAULT_LEASE_TTL (ticks (ws_world s)))
          (lease_rows (ws_world s))) (ticks (ws_world s) + 2) (ws_world s)\<rparr>)"
  using assms by (simp add: coordinator_acquire_def on_world_def try_acquire_eq bindE_def py_simps)

lemma process_leased_duplicate:
  assumes R: "w_repos W = R" "R \<in> in_memory_repos E"
    and free: "lease_of (tm_task_id (pd_message d)) (ws_world s) = None"
    and lv: "dispatched_task k lv (ws_world s)"
    and claimed: "pf_get_by_key (build_idempotency_key (tm_workflow_id (pd_message d)) (tk_type k) lv)
        (ws_world s) \<noteq> None"
    and quiet: "\<not> is_injection_active (w_config W) FINJ_WKR_PRE_ACK"
    and l: "l = fresh_lease (w_env W) (tm_task_id (pd_message d)) (w_worker_id W) DEFAULT_LEASE_TTL
        (ticks (ws_world s))"
  shows "process_leased W False d (tk_type k) k s = ack d
    (s\<lparr>ws_world := put_leases (dict_set (tm_task_id (pd_message d)) l (lease_rows (ws_world s)))
          (ticks (ws_world s) + 2) (ws_world s),
       ws_lease_id := Some (le_id l), ws_renew_failed := False,
       ws_timers := List.insert (le_id l) (ws_timers s),
       ws_resolutions := ws_resolutions s @ [IGNORED_BEFORE_EXECUTION]\<rparr>)"
proof -
  let ?w1 = "put_leases (dict_set (tm_task_id (pd_message d)) l (lease_rows (ws_world s)))
          (ticks (ws_world s) + 2) (ws_world s)"
  define s1 where "s1 = s\<lparr>ws_world := ?w1\<rparr>"
  define s2 where "s2 = s1\<lparr>ws_lease_id := Some (le_id l), ws_renew_failed := False,
    ws_timers := List.insert (le_id l) (ws_timers s)\<rparr>"
  have acq: "coordinator_acquire W (tm_task_id (pd_message d)) s = (Inr l, s1)"
    using acquire_free [OF free, of W] by (simp add: s1_def l)
  have timer: "start_renewal (le_id l) (s1\<lparr>ws_lease_id := Some (le_id l)\<rparr>) = (Inr (), s2)"
    by (simp add: start_renewal_def schedule_renewal_def modifyE_def s1_def s2_def)
  have "dispatched_task k lv (ws_world s2)" using lv by (simp add: dispatched_task_def s1_def s2_def)
  from resolve_version_dispatched [OF R this]
  have ver: "on_world (resolve_logical_version W (tk_type k) k d) s2 = (Inr lv, s2)"
    by (simp add: on_world_def)
  obtain r where r: "pf_get_by_key (build_idempotency_key (tm_workflow_id (pd_message d)) (tk_type k) lv)
      (ws_world s2) = Some r"
    using claimed by (auto simp: pf_get_by_key_def s1_def s2_def)
  have pre: "\<exists>c. on_world (check_before_execution
      (build_idempotency_key (tm_workflow_id (pd_message d)) (tk_type k) lv)) s2 = (Inr c, s2)
      \<and> ick_phase c = ALREADY_COMPLETED"
    by (simp add: on_world_def check_before_execution_def r py_simps)
  then obtain c where c: "on_world (check_before_execution
      (build_idempotency_key (tm_workflow_id (pd_message d)) (tk_type k) lv)) s2 = (Inr c, s2)"
    "ick_phase c = ALREADY_COMPLETED" by blast
  have hook: "bindE (on_world (invoke_if_active W FINJ_WKR_PRE_ACK)) f v = f False v" for f v
    using quiet by (simp add: invoke_if_active_def on_world_def bindE_def py_simps)
  show ?thesis
    by (simp add: process_leased_def Let_def acq timer ver c hook record_resolution_def)
       (simp add: s1_def s2_def)
qed

lemma process_delivery_duplicate:
  assumes R: "w_repos W = R" "R \<in> in_memory_repos (w_env W)"
    and ids: "fresh_uuids (w_env W)" "lease_inv (w_env W) (ws_world s)"
    and k: "get_task (tm_task_id (pd_message d)) (ws_world s) = Some k"
    and x: "get_workflow (tm_workflow_id (pd_message d)) (ws_world s) = Some x"
    and st: "wf_state x = expected_state_for_task (tk_type k)"
    and ready: "dict_get (ws_backoff s) (tm_task_id (pd_message d)) = None"
    and slot: "0 < ws_slots s (tk_type k)"
    and free: "lease_of (tm_task_id (pd_message d)) (ws_world s) = None"
    and lv: "dispatched_task k lv (ws_world s)"
    and claimed: "pf_get_by_key (build_idempotency_key (tm_workflow_id (pd_message d)) (tk_type k) lv)
        (ws_world s) \<noteq> None"
    and quiet: "\<not> is_injection_active (w_config W) FINJ_WKR_PRE_ACK"
  shows "\<exists>s'. process_delivery W False d s = (Inr (), s')
    \<and> ws_world s' = (ws_world s)\<lparr>ticks := ticks (ws_world s) + 3\<rparr>
    \<and> q_acked s' = q_acked s @ [pd_delivery_id d]
    \<and> q_in_flight s' = filter (\<lambda>i. pd_delivery_id i \<noteq> pd_delivery_id d) (q_in_flight s)
    \<and> ws_resolutions s' = ws_resolutions s @ [IGNORED_BEFORE_EXECUTION]"
proof -
  let ?t = "tm_task_id (pd_message d)"
  define v where "v = delivery_start (tk_type k) s"
  define l where "l = fresh_lease (w_env W) ?t (w_worker_id W) DEFAULT_LEASE_TTL (ticks (ws_world v))"
  define s1 where "s1 = snd (ack d (v\<lparr>ws_world := put_leases (dict_set ?t l (lease_rows (ws_world v)))
          (ticks (ws_world v) + 2) (ws_world v),
       ws_lease_id := Some (le_id l), ws_renew_failed := False,
       ws_timers := List.insert (le_id l) (ws_timers v),
       ws_resolutions := ws_resolutions v @ [IGNORED_BEFORE_EXECUTION]\<rparr>))"
  have run: "process_leased W False d (tk_type k) k v = (Inr (), s1)"
    using process_leased_duplicate [OF R, of d v k lv l] free lv claimed quiet l_def
    by (simp add: s1_def ack_def modifyE_def v_def dispatched_task_def pf_get_by_key_def)
  have inv_v: "lease_inv (w_env W) (ws_world v)"
    by (rule lease_inv_frame [OF ids(2)]) (simp_all add: v_def)
  have acq: "try_acquire (w_env W) ?t (w_worker_id W) DEFAULT_LEASE_TTL (ws_world v) = (Inr (Some l), ws_world s1)"
    using free by (simp add: try_acquire_eq v_def s1_def ack_def modifyE_def l_def)
  have "find_lease (le_id l) (ws_world s1) = Some (?t, l)"
    by (rule find_lease_of [OF lease_inv_acquire [OF inv_v ids(1) acq]])
       (simp add: s1_def ack_def modifyE_def lease_of_def)
  then have "end_delivery (tk_type k) s1
      = s1\<lparr>ws_world := (ws_world s1)\<lparr>lease_rows := dict_del ?t (lease_rows (ws_world s1))\<rparr>,
         ws_timers := removeAll (le_id l) (ws_timers s1), ws_slots := ws_slots s,
         ws_in_flight := ws_in_flight s, ws_lease_id := None\<rparr>"
    by (intro end_delivery_lease) (simp_all add: s1_def ack_def modifyE_def v_def)
  moreover have "process_delivery W False d s = (Inr (), end_delivery (tk_type k) s1)"
    using run by (simp add: process_delivery_start [OF k x st ready slot] finallyE_def v_def)
  ultimately show ?thesis using free
    by (simp add: s1_def ack_def modifyE_def v_def lease_of_def dict_del_set_fresh) (simp add: delivery_start_def)
qed

end
