(* ===== verification/Worker_Failures.thy ===== *)
theory Worker_Failures
  imports Worker_Deliveries
begin

text \<open>
  What the worker writes when a task fails: the retry it schedules while attempts are left, and the
  terminal state, the dead task and the acknowledgement when they are used up.
\<close>

section \<open>Transactions that commit\<close>

lemma tx_open:
  assumes "R \<in> in_memory_repos E" and "\<not> in_txn w"
  shows "\<exists>w1. rp_tx_enter R w = (Inr (), w1) \<and> same_tables w w1 \<and> in_txn w1 \<and> ticks w1 = ticks w"
  using assms
  by (auto simp: workflow_repos_def persistence_repos_def wk_tx_enter_def pf_tx_enter_def same_tables_def)

lemma tx_commit_tables:
  assumes "R \<in> in_memory_repos E"
  shows "same_tables v (rp_tx_exit R w False v) \<and> ticks (rp_tx_exit R w False v) = ticks v"
  using assms wk.tx_commit pf.tx_commit wk.tx_exit pf.tx_exit by blast

lemma ws_transaction_commits:
  assumes R: "R \<in> in_memory_repos E" and W: "w_repos W = R" and idle: "\<not> in_txn (ws_world s)"
    and body: "\<And>w1. same_tables (ws_world s) w1 \<Longrightarrow> in_txn w1 \<Longrightarrow> ticks w1 = ticks (ws_world s) \<Longrightarrow>
      \<exists>a s2. body (s\<lparr>ws_world := w1\<rparr>) = (Inr a, s2) \<and> P a s2"
  shows "\<exists>a s2 w3. ws_transaction W body s = (Inr a, s2\<lparr>ws_world := w3\<rparr>) \<and> P a s2
    \<and> same_tables (ws_world s2) w3 \<and> ticks w3 = ticks (ws_world s2)"
proof -
  obtain w1 where w1: "rp_tx_enter R (ws_world s) = (Inr (), w1)" "same_tables (ws_world s) w1" "in_txn w1"
    "ticks w1 = ticks (ws_world s)"
    using tx_open [OF R idle] by blast
  obtain a s2 where run: "body (s\<lparr>ws_world := w1\<rparr>) = (Inr a, s2)" "P a s2" using body w1 by blast
  have "ws_transaction W body s = (Inr a, s2\<lparr>ws_world := rp_tx_exit R (ws_world s) False (ws_world s2)\<rparr>)"
    by (simp add: ws_transaction_def W w1 run)
  with run(2) tx_commit_tables [OF R] show ?thesis by blast
qed

section \<open>A retry\<close>

lemma update_task_in_memory:
  assumes "R \<in> in_memory_repos E" and "in_txn w" and "get_task tid w = Some k"
  shows "rp_update_task R tid st att rsn ca w =
    (Inr (merge_task k (env_now E (ticks w)) st att rsn ca),
     w\<lparr>ticks := Suc (ticks w),
       task_rows := dict_set tid (merge_task k (env_now E (ticks w)) st att rsn ca) (task_rows w)\<rparr>)"
  using assms wk.update_task_ok [of w tid k E st att rsn ca] pf.update_task_ok [of w tid k E st att rsn ca]
  by (auto simp: Let_def)

text \<open>The tables a task update leaves alone.\<close>

definition only_tasks :: "world \<Rightarrow> world \<Rightarrow> bool" where
  "only_tasks w w' \<longleftrightarrow> same_tables (w\<lparr>task_rows := task_rows w'\<rparr>) w'"

lemma handle_retryable_failure_runs:
  assumes R: "R \<in> in_memory_repos (w_env W)" "w_repos W = R" and idle: "\<not> in_txn (ws_world s)"
    and k0: "get_task (tk_id k) (ws_world s) = Some k0"
    and policy: "cfg_retry (w_config W) task = Some p" and att: "1 \<le> attempt"
  shows "\<exists>s' k' e. handle_retryable_failure W k task attempt reason s = (Inr (), s')
    \<and> get_task (tk_id k) (ws_world s') = Some k' \<and> only_tasks (ws_world s) (ws_world s')
    \<and> task_rows (ws_world s') = dict_set (tk_id k) k' (task_rows (ws_world s))
    \<and> tk_attempt k' = attempt + 1 \<and> tk_status k' = TS_DISPATCHED \<and> tk_failure_reason k' = Some reason
    \<and> tk_idempotency_key k' = tk_idempotency_key k0 \<and> tk_payload_reference k' = tk_payload_reference k0
    \<and> ws_backoff s' = dict_set (tk_id k) e (ws_backoff s)
    \<and> be_ready_at e = env_now (w_env W) (Suc (ticks (ws_world s))) + td_microseconds (backoff_delay (backoff p) attempt)
    \<and> q_acked s' = q_acked s \<and> q_in_flight s' = q_in_flight s"
proof -
  let ?m = "merge_task k0 (env_now (w_env W) (ticks (ws_world s))) TS_DISPATCHED (Some (attempt + 1)) (Some reason) None"
  let ?rows = "dict_set (tk_id k) ?m (task_rows (ws_world s))"
  let ?body = "on_world (rp_update_task (w_repos W) (tk_id k) TS_DISPATCHED (Some (attempt + 1)) (Some reason) None)"
  let ?P = "\<lambda>_ s2. s2 = s\<lparr>ws_world := ws_world s2\<rparr> \<and> ticks (ws_world s2) = Suc (ticks (ws_world s))
    \<and> same_tables ((ws_world s)\<lparr>task_rows := ?rows\<rparr>) (ws_world s2)"
  have "\<exists>a s2. ?body (s\<lparr>ws_world := w1\<rparr>) = (Inr a, s2) \<and> ?P a s2"
    if w1: "same_tables (ws_world s) w1" "in_txn w1" "ticks w1 = ticks (ws_world s)" for w1
  proof -
    have "get_task (tk_id k) w1 = Some k0" using k0 w1 by (simp add: get_task_def same_tables_def)
    from update_task_in_memory [OF R(1) w1(2) this] w1 show ?thesis by (simp add: on_world_def R same_tables_def)
  qed
  from ws_transaction_commits [where P = ?P and body = ?body, OF R idle this]
  obtain a s2 w3 where "ws_transaction W ?body s = (Inr a, s2\<lparr>ws_world := w3\<rparr>)" and s2: "?P a s2"
    and w3': "same_tables (ws_world s2) w3" "ticks w3 = ticks (ws_world s2)"
    by blast
  then have run: "ws_transaction W ?body s = (Inr a, s\<lparr>ws_world := w3\<rparr>)"
    by (metis worker_state.surjective worker_state.update_convs(1))
  have w3: "same_tables ((ws_world s)\<lparr>task_rows := ?rows\<rparr>) w3" "ticks w3 = Suc (ticks (ws_world s))"
    using s2 w3' same_tables_trans by auto
  have rows: "task_rows w3 = ?rows" using w3 by (simp add: same_tables_def)
  let ?e = "\<lparr>be_task_id = tk_id k, be_ready_at = env_now (w_env W) (Suc (ticks (ws_world s)))
      + td_microseconds (backoff_delay (backoff p) attempt), be_attempt = attempt\<rparr>"
  define s4 where "s4 = s\<lparr>ws_world := w3\<lparr>ticks := Suc (ticks w3)\<rparr>, ws_backoff := dict_set (tk_id k) ?e (ws_backoff s)\<rparr>"
  have sched: "schedule_backoff W (tk_id k) attempt task (s\<lparr>ws_world := w3\<rparr>)
      = (Inr (backoff_delay (backoff p) attempt), s4)"
    using att w3(2) by (simp add: schedule_backoff_def get_retry_policy_def policy on_world_def utc_now_def bindE_def
        py_simps Let_def s4_def)
  have "handle_retryable_failure W k task attempt reason s = (Inr (), s4)"
    using run sched by (simp add: handle_retryable_failure_def bindE_def py_simps)
  moreover have "only_tasks (ws_world s) (ws_world s4)"
    using w3(1) rows by (simp add: only_tasks_def s4_def)
  ultimately show ?thesis
    using rows by (intro exI [of _ s4] exI [of _ ?m] exI [of _ ?e])
      (simp add: s4_def get_task_def, simp add: merge_task_def)
qed

lemma handle_exception_retries:
  assumes "fst (classify_exception err)" and "cfg_retry (w_config W) task = Some p" and "attempt < max_attempts p"
  shows "handle_exception W sk d task k attempt err = handle_retryable_failure W k task attempt (exn_text err)"
  using assms
  by (cases err) (auto simp: handle_exception_def is_exhausted_def get_retry_policy_def)

section \<open>A permanent failure\<close>

text \<open>Failing a task is a transition no table entry counts as a revision, so any repository applies it.\<close>

context workflow_store
begin

lemma apply_transition_plain:
  assumes ok: "refusal C req w = None" and fresh: "ids_fresh E w"
    and x: "get_workflow (trq_workflow_id req) w = Some x" "wf_id x = trq_workflow_id req"
    and d: "lookup (wf_state x) (trq_signal req) (wf_revision_count x) (max_scenario_revisions C) = Inr d"
    and plain: "\<not> td_increment_revision_count d"
  shows "\<exists>res t ob w'. apply_transition E R C req w = (Inr res, w')
     \<and> step_effect E (trq_workflow_id req) x (td_to d)
         (td_set_failure_reason (effective_decision req d)) None (trq_reason req) (trq_actor req)
         (td_outbox_task_type d) (td_increment_logical_version d) w ob t w'
     \<and> trs_to res = td_to d \<and> trs_enqueued_task res = map_option obr_task_spec ob"
proof -
  from ok have txn: "in_txn w" by (simp add: refusal_def split: if_splits)
  have "catchE (rp_update_workflow_state R (wf_id x) (wf_version x) (td_to d) fr None) (map_update_error (wf_id x))
      (w\<lparr>ticks := n\<rparr>) \<noteq> (Inl e, w\<lparr>ticks := n\<rparr>)" for fr n e
    using update_ok_mapped [of "w\<lparr>ticks := n\<rparr>" x "td_to d" fr] txn x by simp
  with apply_transition_accepted [OF ok fresh x d refl] plain show ?thesis by auto
qed

end

abbreviation failure_signal :: "bool \<Rightarrow> transition_signal" where
  "failure_signal exhausted \<equiv> (if exhausted then SIG_RETRIES_EXHAUSTED else SIG_UNRECOVERABLE_ERROR)"

lemma failure_decision:
  "\<exists>d. lookup (expected_state_for_task task) (failure_signal ex) c m = Inr d
     \<and> td_to d = (if ex then FAILED_PERMANENTLY else FAILED) \<and> td_outbox_task_type d = None
     \<and> \<not> td_increment_revision_count d \<and> td_set_failure_reason d = None"
  by (cases task; cases ex) (simp_all add: table_defs)

lemma fail_transition:
  assumes R: "R \<in> in_memory_repos E" and txn: "in_txn w" and fresh: "ids_fresh E w"
    and keys: "keys_ok wf_id (wf_rows w)"
    and x: "get_workflow (trq_workflow_id req) w = Some x"
    and st: "wf_state x = expected_state_for_task task" "trq_expected_state req = wf_state x"
    and sig: "trq_signal req = failure_signal ex"
  shows "\<exists>res t w' x'. apply_transition E R C req w = (Inr res, w') \<and> in_txn w'
     \<and> get_workflow (trq_workflow_id req) w' = Some x'
     \<and> wf_state x' = (if ex then FAILED_PERMANENTLY else FAILED)
     \<and> wf_failure_reason x' = Some (trq_reason req) \<and> wf_version x' = wf_version x + 1
     \<and> tr_rows w' = tr_rows w @ [t] \<and> tr_workflow_id t = trq_workflow_id req
     \<and> tr_from t = wf_state x \<and> tr_to t = wf_state x' \<and> tr_reason t = trq_reason req
     \<and> task_rows w' = task_rows w \<and> outbox_rows w' = outbox_rows w"
proof -
  obtain d where d: "lookup (wf_state x) (trq_signal req) (wf_revision_count x) (max_scenario_revisions C) = Inr d"
    and to: "td_to d = (if ex then FAILED_PERMANENTLY else FAILED)" and plain: "td_outbox_task_type d = None"
    "\<not> td_increment_revision_count d" "td_set_failure_reason d = None"
    using failure_decision [of task ex "wf_revision_count x" "max_scenario_revisions C"] st(1) sig by auto
  have ok: "refusal C req w = None"
    using txn x st(2) d lookup_ok_iff by (fastforce simp: refusal_def)
  have xid: "wf_id x = trq_workflow_id req" using keys x by (auto simp: get_workflow_def dest: keys_ok_get)
  have fr: "td_set_failure_reason (effective_decision req d) = Some (trq_reason req)"
    using plain sig by (simp add: effective_decision_def)
  from R wk.apply_transition_plain [OF ok fresh x xid d plain(2)] pf.apply_transition_plain [OF ok fresh x xid d plain(2)]
  obtain res t ob w' where run: "apply_transition E R C req w = (Inr res, w')"
    and eff: "step_effect E (trq_workflow_id req) x (td_to d) (Some (trq_reason req)) None (trq_reason req)
      (trq_actor req) None (td_increment_logical_version d) w ob t w'"
    unfolding fr plain(1) by auto
  from eff obtain n where "t = \<lparr>tr_id = env_uuid E (n - 1), tr_workflow_id = trq_workflow_id req, tr_from = wf_state x,
      tr_to = td_to d, tr_reason = trq_reason req, tr_occurred_at = env_now E (n - 2), tr_actor = trq_actor req\<rparr>"
    and "w' = put_transition t (put_workflow (wf_id x)
      (advanced E (w\<lparr>ticks := n\<rparr>) x (td_to d) (Some (trq_reason req)) None) (w\<lparr>ticks := n\<rparr>))"
    by (auto simp: step_effect_def dispatched_def put_step_def put_dispatch_opt_def)
  with run to xid txn show ?thesis by simp
qed

lemma handle_permanent_failure_runs:
  assumes R: "R \<in> in_memory_repos (w_env W)" "w_repos W = R" and idle: "\<not> in_txn (ws_world s)"
    and fresh: "ids_fresh (w_env W) (ws_world s)" and keys: "keys_ok wf_id (wf_rows (ws_world s))"
    and x: "get_workflow (tm_workflow_id (pd_message d)) (ws_world s) = Some x"
    and st: "wf_state x = expected_state_for_task task"
    and k0: "get_task (tk_id k) (ws_world s) = Some k0"
    and quiet: "\<not> is_injection_active (w_config W) FINJ_WKR_PRE_ACK"
  shows "\<exists>s' x' k'. handle_permanent_failure W d task k cls ex False False s = (Inr (), s')
    \<and> get_workflow (tm_workflow_id (pd_message d)) (ws_world s') = Some x'
    \<and> wf_state x' = (if ex then FAILED_PERMANENTLY else FAILED) \<and> wf_failure_reason x' = Some cls
    \<and> wf_version x' = wf_version x + 1 \<and> length (tr_rows (ws_world s')) = Suc (length (tr_rows (ws_world s)))
    \<and> get_task (tk_id k) (ws_world s') = Some k'
    \<and> tk_status k' = (if ex then TS_DEAD_LETTER else TS_FAILED) \<and> tk_failure_reason k' = Some cls
    \<and> outbox_rows (ws_world s') = outbox_rows (ws_world s)
    \<and> q_acked s' = q_acked s @ [pd_delivery_id d] \<and> ws_backoff s' = ws_backoff s"
proof -
  let ?wid = "tm_workflow_id (pd_message d)"
  let ?req = "\<lparr>trq_workflow_id = ?wid, trq_expected_state = expected_state_for_task task,
    trq_signal = failure_signal ex, trq_reason = cls, trq_actor = None,
    trq_completing_task_id = Some (tm_task_id (pd_message d)), trq_idempotency_key = None\<rparr>"
  let ?body = "bindE (on_world (require_active (w_repos W) ''fail_task'')) (\<lambda>_.
        bindE (on_world (apply_transition (w_env W) (w_repos W) (w_config W) ?req)) (\<lambda>_.
        on_world (rp_update_task (w_repos W) (tk_id k) (if ex then TS_DEAD_LETTER else TS_FAILED)
                    None (Some cls) None)))"
  let ?P = "\<lambda>_ s2. s2 = s\<lparr>ws_world := ws_world s2\<rparr>
    \<and> (\<exists>x'. get_workflow ?wid (ws_world s2) = Some x' \<and> wf_state x' = (if ex then FAILED_PERMANENTLY else FAILED)
        \<and> wf_failure_reason x' = Some cls \<and> wf_version x' = wf_version x + 1)
    \<and> length (tr_rows (ws_world s2)) = Suc (length (tr_rows (ws_world s)))
    \<and> outbox_rows (ws_world s2) = outbox_rows (ws_world s)
    \<and> (\<exists>k'. get_task (tk_id k) (ws_world s2) = Some k'
        \<and> tk_status k' = (if ex then TS_DEAD_LETTER else TS_FAILED) \<and> tk_failure_reason k' = Some cls)"
  have "\<exists>a s2. ?body (s\<lparr>ws_world := w1\<rparr>) = (Inr a, s2) \<and> ?P a s2"
    if w1: "same_tables (ws_world s) w1" "in_txn w1" "ticks w1 = ticks (ws_world s)" for w1
  proof -
    have rows: "get_task (tk_id k) w1 = Some k0" "get_workflow ?wid w1 = Some x" "ids_fresh (w_env W) w1"
      "keys_ok wf_id (wf_rows w1)" "tr_rows w1 = tr_rows (ws_world s)" "outbox_rows w1 = outbox_rows (ws_world s)"
      using k0 x fresh keys w1 by (simp_all add: get_task_def get_workflow_def same_tables_def ids_fresh_def)
    have act: "require_active R ''fail_task'' w1 = (Inr (), w1)"
      using R w1(2) by (auto simp: wk.in_transaction pf.in_transaction require_active_def py_simps)
    obtain res t w2 x' where tr: "apply_transition (w_env W) R (w_config W) ?req w1 = (Inr res, w2)" "in_txn w2"
      and x': "get_workflow ?wid w2 = Some x'" "wf_state x' = (if ex then FAILED_PERMANENTLY else FAILED)"
        "wf_failure_reason x' = Some cls" "wf_version x' = wf_version x + 1"
      and t: "tr_rows w2 = tr_rows w1 @ [t]" "task_rows w2 = task_rows w1" "outbox_rows w2 = outbox_rows w1"
      using fail_transition [OF R(1) w1(2) rows(3,4), of ?req x task ex "w_config W"] rows(2) st by auto
    have "get_task (tk_id k) w2 = Some k0" using rows(1) t by (simp add: get_task_def)
    from update_task_in_memory [OF R(1) tr(2) this, of "if ex then TS_DEAD_LETTER else TS_FAILED" None "Some cls" None]
    obtain u w3 where up: "rp_update_task R (tk_id k) (if ex then TS_DEAD_LETTER else TS_FAILED) None (Some cls) None w2
        = (Inr u, w3)" and w3: "wf_rows w3 = wf_rows w2" "tr_rows w3 = tr_rows w2" "outbox_rows w3 = outbox_rows w2"
      "get_task (tk_id k) w3 = Some u" "tk_status u = (if ex then TS_DEAD_LETTER else TS_FAILED)"
      "tk_failure_reason u = Some cls"
      by (simp add: get_task_def) (simp add: merge_task_def)
    have "?body (s\<lparr>ws_world := w1\<rparr>) = (Inr u, s\<lparr>ws_world := w3\<rparr>)"
      using act tr up by (simp add: R bindE_def on_world_def)
    with x' t w3 rows show ?thesis by (auto simp: get_workflow_def)
  qed
  from ws_transaction_commits [where P = ?P and body = ?body, OF R idle this]
  obtain a s2 w3 where run: "ws_transaction W ?body s = (Inr a, s2\<lparr>ws_world := w3\<rparr>)" and s2: "?P a s2"
    and w3: "same_tables (ws_world s2) w3"
    by blast
  have hook: "bindE (on_world (invoke_if_active W FINJ_WKR_PRE_ACK)) f v = f False v"
    for f :: "bool \<Rightarrow> (worker_state, unit) prog" and v
    using quiet by (simp add: invoke_if_active_def on_world_def bindE_def py_simps)
  have "handle_permanent_failure W d task k cls ex False False s = ack d (s2\<lparr>ws_world := w3\<rparr>)"
    using run by (simp add: handle_permanent_failure_def hook)
  moreover have "q_acked s2 = q_acked s" "ws_backoff s2 = ws_backoff s"
    using s2 by (metis worker_state.select_convs(4,5) worker_state.surjective worker_state.update_convs(1))+
  ultimately show ?thesis
    using s2 w3 by (auto simp: ack_def modifyE_def get_workflow_def get_task_def same_tables_def)
qed

text \<open>The errors that the last \<open>except\<close> clause handles.\<close>

fun ordinary_error :: "exn \<Rightarrow> bool" where
  "ordinary_error SimulatedCrashBeforeAck = False"
| "ordinary_error (LeaseConflictError _ _) = False"
| "ordinary_error (HandlerNotFoundError _) = False"
| "ordinary_error _ = True"

lemma handle_exception_fails:
  assumes "\<not> (fst (classify_exception err) \<and> attempt < max_attempts p)"
    and "ordinary_error err"
    and "cfg_retry (w_config W) task = Some p"
  shows "handle_exception W sk d task k attempt err
    = handle_permanent_failure W d task k (snd (classify_exception err)) (max_attempts p \<le> attempt) sk False"
  using assms
  by (cases err) (auto simp: handle_exception_def is_exhausted_def get_retry_policy_def)

end
