(* ===== verification/Worker_Commit.thy ===== *)
theory Worker_Commit
  imports Worker_Failures
begin

text \<open>
  The commit of a successful task hands the workflow over: \<open>handover\<close> says to which state, and
  which task is dispatched for it; the lemmas show that claiming the key, applying the transition,
  following the bridge and completing the task end exactly there.
\<close>

section \<open>Specification\<close>

definition handover ::
  "int \<Rightarrow> int \<Rightarrow> task_type \<Rightarrow> transition_signal \<Rightarrow> (workflow_state \<times> task_type option) option"
where
  "handover c m task g =
     (case (task, g) of
        (COLLECT, SIG_STAGE_COMPLETED) \<Rightarrow> Some (SELECTING_TOPIC, Some SELECT_TOPIC)
      | (SELECT_TOPIC, SIG_STAGE_COMPLETED) \<Rightarrow> Some (GENERATING_SCENARIO, Some GENERATE_SCENARIO)
      | (SELECT_TOPIC, SIG_NO_SUITABLE_TOPIC) \<Rightarrow> Some (NO_SUITABLE_TOPIC, None)
      | (GENERATE_SCENARIO, SIG_STAGE_COMPLETED) \<Rightarrow> Some (REVIEWING, Some REVIEW_SCENARIO)
      | (REVIEW_SCENARIO, SIG_CRITIC_PASS) \<Rightarrow> Some (AWAITING_HUMAN_APPROVAL, None)
      | (REVIEW_SCENARIO, SIG_CRITIC_REVISE) \<Rightarrow>
          if c < m then Some (GENERATING_SCENARIO, Some GENERATE_SCENARIO) else Some (REVIEW_FAILED, None)
      | _ \<Rightarrow> None)"

lemma handover_rests:
  "handover c m task g = Some (st, t') \<Longrightarrow>
     (case t' of None \<Rightarrow> st \<in> TERMINAL_STATES \<or> st = AWAITING_HUMAN_APPROVAL
      | Some task' \<Rightarrow> st = expected_state_for_task task')"
  by (cases task; cases g) (auto simp: handover_def state_set_defs split: if_splits)

text \<open>The state diagram goes there in one step, or in two with the bridge.\<close>

definition bridged :: "transition_decision \<Rightarrow> bool" where
  "bridged d \<longleftrightarrow> td_outbox_task_type d \<noteq> None \<and> td_to d \<in> PAUSE_AFTER_ENQUEUE \<or> td_to d \<in> POST_STAGE_BRIDGE"

lemma handover_steps:
  assumes "handover c m task g = Some (st, t')"
  shows "\<exists>d. lookup (expected_state_for_task task) g c m = Inr d \<and>
    (if bridged d then
       (\<exists>d2. lookup (td_to d) SIG_STAGE_COMPLETED (if td_increment_revision_count d then c + 1 else c) m = Inr d2
          \<and> td_to d2 = st \<and> st \<in> ACTIVE_EXECUTION_STATES \<and> \<not> td_increment_revision_count d2
          \<and> (td_outbox_task_type d = t' \<and> td_outbox_task_type d2 = None
             \<or> td_outbox_task_type d = None \<and> td_outbox_task_type d2 = t'))
     else td_to d = st \<and> td_outbox_task_type d = t')"
  using assms
  by (cases task; cases g)
     (auto simp: handover_def table_defs bridged_def PAUSE_AFTER_ENQUEUE_def POST_STAGE_BRIDGE_def
        ACTIVE_EXECUTION_STATES_def split: if_splits)

section \<open>One transition\<close>

definition new_task :: "env \<Rightarrow> string \<Rightarrow> task_type option \<Rightarrow> world \<Rightarrow> world \<Rightarrow> bool" where
  "new_task E wid task w w' =
     (case task of
        None \<Rightarrow> task_rows w' = task_rows w
      | Some ty \<Rightarrow> \<exists>k n. task_rows w' = dict_set (tk_id k) k (task_rows w) \<and> tk_type k = ty
          \<and> tk_workflow_id k = wid \<and> tk_status k = TS_PENDING \<and> ticks w \<le> n \<and> tk_id k = env_uuid E n)"

lemma transition_step:
  assumes fresh: "fresh_uuids E" and inv: "engine_inv E C w" and txn: "in_txn w"
    and x: "get_workflow (trq_workflow_id req) w = Some x" and st: "trq_expected_state req = wf_state x"
    and d: "lookup (wf_state x) (trq_signal req) (wf_revision_count x) (max_scenario_revisions C) = Inr d"
  shows "\<exists>res w' x'. apply_transition E (workflow_repos E) C req w = (Inr res, w')
    \<and> engine_inv E C w' \<and> in_txn w' \<and> ticks w < ticks w'
    \<and> get_workflow (trq_workflow_id req) w' = Some x' \<and> wf_state x' = td_to d
    \<and> wf_revision_count x' = (if td_increment_revision_count d then wf_revision_count x + 1 else wf_revision_count x)
    \<and> trs_to res = td_to d \<and> (trs_enqueued_task res = None \<longleftrightarrow> td_outbox_task_type d = None)
    \<and> idem_rows w' = idem_rows w \<and> new_task E (trq_workflow_id req) (td_outbox_task_type d) w w'"
proof -
  have keys: "keys_ok wf_id (wf_rows w)" using inv by (simp add: engine_inv_def)
  then have xid: "wf_id x = trq_workflow_id req" using x by (auto simp: get_workflow_def dest: keys_ok_get)
  have ok: "refusal C req w = None"
    using txn x st d lookup_ok_iff by (fastforce simp: refusal_def)
  let ?rc = "if td_increment_revision_count d then Some (wf_revision_count x + 1) else None"
  obtain res t ob w' where run: "apply_transition E (workflow_repos E) C req w = (Inr res, w')"
    and eff: "step_effect E (trq_workflow_id req) x (td_to d) (td_set_failure_reason (effective_decision req d)) ?rc
      (trq_reason req) (trq_actor req) (td_outbox_task_type d) (td_increment_logical_version d) w ob t w'"
    and res: "trs_to res = td_to d" "trs_enqueued_task res = map_option obr_task_spec ob"
    using wk.apply_transition_total [OF ok engine_inv_ids_fresh [OF inv fresh] keys] x d by auto
  have inv': "engine_inv E C w'"
    using evolvesD [OF wk.guar_apply_transition [OF fresh] run] inv by (simp add: engine_guar_def)
  from eff obtain n where n: "ticks w < n" and ob: "dispatched E x (td_outbox_task_type d) (td_increment_logical_version d) w ob"
    and w': "w' = put_step E (advanced E (w\<lparr>ticks := n\<rparr>) x (td_to d)
      (td_set_failure_reason (effective_decision req d)) ?rc) t ob (w\<lparr>ticks := n\<rparr>)"
    by (auto simp: step_effect_def)
  have "new_task E (trq_workflow_id req) (td_outbox_task_type d) w w'"
  proof (cases "td_outbox_task_type d")
    case None
    with ob w' show ?thesis by (simp add: dispatched_def new_task_def put_step_def put_dispatch_opt_def)
  next
    case (Some ty)
    then obtain b where "ob = Some b" "dispatch_ok x ty (resolve_for_task (wf_id x) ty (td_increment_logical_version d) w) 1 b"
      "tk_id (obr_task_record b) = env_uuid E (Suc (ticks w))"
      using ob by (auto simp: dispatched_def)
    with w' Some xid show ?thesis
      by (auto simp: new_task_def put_step_def put_dispatch_opt_def dispatch_ok_def
          intro!: exI [of _ "obr_task_record b"] exI [of _ "Suc (ticks w)"])
  qed
  moreover have "ticks w < ticks w'"
    using n w' by (auto simp: put_step_def put_dispatch_opt_def put_dispatch_def put_defs split: option.splits)
  moreover have "ob = None \<longleftrightarrow> td_outbox_task_type d = None"
    using ob by (auto simp: dispatched_def split: option.splits)
  ultimately show ?thesis using run inv' res w' xid txn by (auto simp: advanced_def)
qed

lemma new_task_two:
  assumes "new_task E wid t1 w w1" and "new_task E wid t2 w1 w2" and "ticks w \<le> ticks w1"
    and "t1 = t' \<and> t2 = None \<or> t1 = None \<and> t2 = t'"
  shows "new_task E wid t' w w2"
  using assms by (auto simp: new_task_def split: option.splits) (metis order_trans)+

section \<open>The bridge and the commit\<close>

text \<open>The stage transition followed by the bridge, in a state that holds the invariant.\<close>

lemma stage_and_bridge:
  assumes fresh: "fresh_uuids E" and W: "w_env W = E" "w_repos W = workflow_repos E" "w_config W = C"
    and inv: "engine_inv E C w" and txn: "in_txn w"
    and x: "get_workflow (trq_workflow_id req) w = Some x" and st: "wf_state x = expected_state_for_task task"
      "trq_expected_state req = wf_state x"
    and ho: "handover (wf_revision_count x) (max_scenario_revisions C) task (trq_signal req) = Some (s', t')"
  shows "\<exists>res w1 w2 x2. apply_transition E (workflow_repos E) C req w = (Inr res, w1)
    \<and> bridge W (trq_workflow_id req) tid key res w1 = (Inr (), w2) \<and> engine_inv E C w2 \<and> in_txn w2
    \<and> get_workflow (trq_workflow_id req) w2 = Some x2 \<and> wf_state x2 = s'
    \<and> idem_rows w2 = idem_rows w \<and> new_task E (trq_workflow_id req) t' w w2"
proof -
  obtain d where d: "lookup (wf_state x) (trq_signal req) (wf_revision_count x) (max_scenario_revisions C) = Inr d"
    and nxt: "if bridged d then
       (\<exists>d2. lookup (td_to d) SIG_STAGE_COMPLETED (if td_increment_revision_count d then wf_revision_count x + 1
            else wf_revision_count x) (max_scenario_revisions C) = Inr d2
          \<and> td_to d2 = s' \<and> s' \<in> ACTIVE_EXECUTION_STATES \<and> \<not> td_increment_revision_count d2
          \<and> (td_outbox_task_type d = t' \<and> td_outbox_task_type d2 = None
             \<or> td_outbox_task_type d = None \<and> td_outbox_task_type d2 = t'))
     else td_to d = s' \<and> td_outbox_task_type d = t'"
    using handover_steps [OF ho] st(1) by metis
  obtain res w1 x1 where one: "apply_transition E (workflow_repos E) C req w = (Inr res, w1)"
    "engine_inv E C w1" "in_txn w1" "ticks w < ticks w1" "get_workflow (trq_workflow_id req) w1 = Some x1"
    "wf_state x1 = td_to d" "wf_revision_count x1 = (if td_increment_revision_count d then wf_revision_count x + 1
            else wf_revision_count x)" "trs_to res = td_to d"
    "trs_enqueued_task res = None \<longleftrightarrow> td_outbox_task_type d = None" "idem_rows w1 = idem_rows w"
    "new_task E (trq_workflow_id req) (td_outbox_task_type d) w w1"
    using transition_step [OF fresh inv txn x st(2) d] by (elim exE conjE) (rule that)
  have needs: "needs_bridge res \<longleftrightarrow> bridged d" using one(8,9) by (simp add: needs_bridge_def bridged_def)
  show ?thesis
  proof (cases "bridged d")
    case False
    then have "bridge W (trq_workflow_id req) tid key res w1 = (Inr (), w1)" by (simp add: bridge.simps needs)
    with one nxt False show ?thesis by auto
  next
    case True
    with nxt obtain d2 where d2: "lookup (wf_state x1) SIG_STAGE_COMPLETED (wf_revision_count x1) (max_scenario_revisions C) = Inr d2"
      "td_to d2 = s'" "s' \<in> ACTIVE_EXECUTION_STATES" and out: "td_outbox_task_type d = t' \<and> td_outbox_task_type d2 = None
             \<or> td_outbox_task_type d = None \<and> td_outbox_task_type d2 = t'"
      using one(6,7) by auto
    let ?req2 = "bridge_request (trq_workflow_id req) tid key res"
    have req2: "trq_workflow_id ?req2 = trq_workflow_id req" "trq_expected_state ?req2 = wf_state x1"
      "trq_signal ?req2 = SIG_STAGE_COMPLETED" using one(6,8) by (simp_all add: bridge_request_def)
    obtain res2 w2 x2 where two: "apply_transition E (workflow_repos E) C ?req2 w1 = (Inr res2, w2)"
      "engine_inv E C w2" "in_txn w2" "get_workflow (trq_workflow_id req) w2 = Some x2" "wf_state x2 = s'"
      "trs_to res2 = s'" "idem_rows w2 = idem_rows w1" "new_task E (trq_workflow_id req) (td_outbox_task_type d2) w1 w2"
      using transition_step [OF fresh one(2,3), of ?req2 x1 d2] one(5) req2 d2 by auto
    have "bridge W (trq_workflow_id req) tid key res w1 = (Inr (), w2)"
      using two(1,6) d2(3) True by (simp add: bridge.simps needs W)
    moreover have "new_task E (trq_workflow_id req) t' w w2"
      by (rule new_task_two [OF one(11) two(8) less_imp_le [OF one(4)] out])
    ultimately show ?thesis using one two by auto
  qed
qed

lemma claim_first:
  assumes "in_txn w" and "pf_get_by_key (iis_key spec) w = None"
  shows "\<exists>c r w'. claim_completion E spec w = (Inr c, w') \<and> icl_phase c = CLAIMED
    \<and> w' = w\<lparr>ticks := Suc (ticks w), idem_rows := dict_set (iis_key spec) r (idem_rows w)\<rparr>"
  using assms by (auto simp: claim_completion_def store_simps pf_get_by_key_def bindE_def py_simps Let_def)

lemma commit_hands_over:
  assumes fresh: "fresh_uuids E" and W: "w_env W = E" "w_repos W = workflow_repos E" "w_config W = C"
    and inv: "engine_inv E C (ws_world s)" and txn: "in_txn (ws_world s)"
    and x: "get_workflow (tm_workflow_id (pd_message d)) (ws_world s) = Some x"
    and st: "wf_state x = expected_state_for_task task"
    and outcome: "hr_outcome hr \<in> {HO_COMPLETED, HO_DUPLICATE_REUSED}"
    and ho: "handover (wf_revision_count x) (max_scenario_revisions C) task (stage_signal hr) = Some (st', t')"
    and first: "pf_get_by_key key (ws_world s) = None"
    and k0: "get_task (tm_task_id (pd_message d)) (ws_world s) = Some k0" "tm_task_id (pd_message d) \<noteq> ''''"
    and unused: "\<forall>n \<ge> ticks (ws_world s). get_task (env_uuid E n) (ws_world s) = None"
  shows "\<exists>w' x' k'. commit_success_path W d task key hr s = (Inr (), s\<lparr>ws_world := w'\<rparr>) \<and> engine_inv E C w'
    \<and> get_workflow (tm_workflow_id (pd_message d)) w' = Some x' \<and> wf_state x' = st'
    \<and> get_task (tm_task_id (pd_message d)) w' = Some k' \<and> tk_status k' = TS_COMPLETED
    \<and> pf_get_by_key key w' \<noteq> None
    \<and> (\<forall>task'. t' = Some task' \<longrightarrow> (\<exists>k2. get_task (tk_id k2) w' = Some k2 \<and> get_task (tk_id k2) (ws_world s) = None
         \<and> tk_type k2 = task' \<and> tk_status k2 = TS_PENDING \<and> tk_workflow_id k2 = tm_workflow_id (pd_message d)))"
proof -
  let ?wid = "tm_workflow_id (pd_message d)" and ?tid = "tm_task_id (pd_message d)" and ?w = "ws_world s"
  let ?spec = "\<lparr>iis_key = key, iis_workflow_id = ?wid, iis_task_id = ?tid,
    iis_result_artifact_id = hr_result_artifact_id hr\<rparr>"
  let ?req = "\<lparr>trq_workflow_id = ?wid, trq_expected_state = expected_state_for_task task,
    trq_signal = stage_signal hr,
    trq_reason = (case hr_reason hr of Some r \<Rightarrow> if r \<noteq> '''' then r else ''stage completed'' | None \<Rightarrow> ''stage completed''),
    trq_actor = None, trq_completing_task_id = Some ?tid, trq_idempotency_key = Some key\<rparr>"
  obtain c r w1 where claim: "claim_completion E ?spec ?w = (Inr c, w1)" "icl_phase c = CLAIMED"
    and w1: "w1 = ?w\<lparr>ticks := Suc (ticks ?w), idem_rows := dict_set key r (idem_rows ?w)\<rparr>"
    using claim_first [OF txn, of ?spec E] first by auto
  have "engine_inv E C w1" by (rule engine_inv_frame [OF inv]) (simp_all add: w1)
  then obtain res w2 w3 x3 where tr: "apply_transition E (workflow_repos E) C ?req w1 = (Inr res, w2)"
    and br: "bridge W ?wid ?tid key res w2 = (Inr (), w3)"
    and w3: "engine_inv E C w3" "in_txn w3" "get_workflow ?wid w3 = Some x3" "wf_state x3 = st'"
      "idem_rows w3 = idem_rows w1" "new_task E ?wid t' w1 w3"
    using stage_and_bridge [OF fresh W, of w1 ?req x task st' t' ?tid key] txn x st ho
    by (auto simp: w1 get_workflow_def)
  have task: "get_task ?tid w3 = Some k0"
    using w3(6) k0(1) unused by (auto simp: new_task_def w1 get_task_def split: option.splits)
  let ?w4 = "w3\<lparr>ticks := Suc (ticks w3)\<rparr>"
  let ?u = "merge_task k0 (env_now E (ticks ?w4)) TS_COMPLETED None None (Some (env_now E (ticks w3)))"
  let ?w5 = "?w4\<lparr>ticks := Suc (ticks ?w4), task_rows := dict_set ?tid ?u (task_rows ?w4)\<rparr>"
  have "rp_update_task (workflow_repos E) ?tid TS_COMPLETED None None (Some (env_now E (ticks w3))) ?w4 = (Inr ?u, ?w5)"
    by (rule update_task_in_memory) (use w3(2) task in \<open>simp_all add: get_task_def\<close>)
  then have comp: "complete_task W ?tid (s\<lparr>ws_world := w3\<rparr>) = (Inr (), s\<lparr>ws_world := ?w5\<rparr>)"
    by (simp add: complete_task_def on_world_def utc_now_def bindE_def py_simps W)
  have run: "commit_success_path W d task key hr s = (Inr (), s\<lparr>ws_world := ?w5\<rparr>)"
    using outcome claim tr br comp k0(2) by (simp add: commit_success_path_def Let_def W bindE_def on_world_def)
  moreover have "engine_inv E C ?w5" by (rule engine_inv_frame [OF w3(1)]) simp_all
  moreover have "\<exists>k2. get_task (tk_id k2) ?w5 = Some k2 \<and> get_task (tk_id k2) ?w = None
         \<and> tk_type k2 = task' \<and> tk_status k2 = TS_PENDING \<and> tk_workflow_id k2 = ?wid" if t': "t' = Some task'" for task'
  proof -
    obtain k2 n where k2: "task_rows w3 = dict_set (tk_id k2) k2 (task_rows w1)" "tk_type k2 = task'"
      "tk_workflow_id k2 = ?wid" "tk_status k2 = TS_PENDING" "ticks w1 \<le> n" "tk_id k2 = env_uuid E n"
      using w3(6) unfolding t' by (auto simp: new_task_def)
    moreover have "get_task (tk_id k2) ?w = None" using unused k2(5,6) by (simp add: w1)
    ultimately show ?thesis using k0(1) by (intro exI [of _ k2]) (auto simp: get_task_def)
  qed
  moreover have "pf_get_by_key key ?w5 \<noteq> None" using w3(5) by (simp add: pf_get_by_key_def w1)
  moreover have "tk_status ?u = TS_COMPLETED" by (simp add: merge_task_def)
  ultimately show ?thesis using w3(3,4)
    by (intro exI [of _ ?w5] exI [of _ x3] exI [of _ ?u]) (simp add: get_task_def get_workflow_def)
qed

end
