(* ===== verification/Worker_Properties.thy ===== *)
theory Worker_Properties
  imports Worker_Commit Reconcile_Properties
begin

text \<open>
  What one delivery does to the database, the queue and the worker's own resources.
\<close>

section \<open>A worker to instantiate the properties on\<close>

definition demo_result :: task_handler_result where
  "demo_result = \<lparr>hr_outcome = HO_COMPLETED, hr_transition_signal = None, hr_reason = None,
     hr_result_artifact_id = None, hr_duplicate_resolution = None, hr_retryable = False, hr_error_class = None\<rparr>"

definition demo_worker :: "repos \<Rightarrow> worker" where
  "demo_worker R = \<lparr>w_env = demo_env, w_repos = R, w_config = demo_config, w_worker_id = ''worker-1'',
     w_handlers = (\<lambda>_. Some (\<lambda>_ _ _. ret demo_result)), w_hooks = (\<lambda>_. None), w_json_loads = (\<lambda>_. None)\<rparr>"

text \<open>The database after the transaction that initiated the workflow, and a delivery of its task.\<close>

definition demo_world :: world where
  "demo_world = demo_started\<lparr>in_txn := False, txn_depth := 0\<rparr>"

definition demo_task :: string where
  "demo_task = fst (hd (task_rows demo_world))"

definition demo_delivery :: "string \<Rightarrow> pending_delivery" where
  "demo_delivery tid = \<lparr>pd_message = \<lparr>tm_task_id = tid, tm_workflow_id = ''wf-1'', tm_task_type = COLLECT,
       tm_attempt = 1, tm_created_at = 0, tm_payload_reference = '''', tm_trace_carrier = []\<rparr>,
     pd_stream = ''s'', pd_consumer_group = ''g'', pd_delivery_id = ''d-1'', pd_dequeued_at = 0\<rparr>"

definition demo_state :: "world \<Rightarrow> worker_state" where
  "demo_state w = \<lparr>ws_world = w, q_pending = [], q_in_flight = [demo_delivery demo_task], q_acked = [],
     ws_backoff = [], ws_renew_failed = False, ws_timers = [], ws_slots = (\<lambda>_. 1), ws_in_flight = 0,
     ws_resolutions = [], ws_event_order = [], ws_lease_id = None\<rparr>"

lemma demo_worker_sel [simp]:
  "w_env (demo_worker R) = demo_env" "w_repos (demo_worker R) = R" "w_config (demo_worker R) = demo_config"
  "w_handlers (demo_worker R) t = Some (\<lambda>_ _ _. ret demo_result)" "w_hooks (demo_worker R) i = None"
  by (simp_all add: demo_worker_def)

lemma demo_state_world [simp]: "ws_world (demo_state w) = w"
  by (simp add: demo_state_def)

lemma demo_worker_ok: "worker_ok E C (demo_worker R)" "leases_private (demo_worker R)"
  by (simp_all add: worker_ok_def leases_private_def evolves_def ret_def engine_guar_def keeps_leases_def)

lemma demo_world_inv: "engine_inv demo_env demo_config demo_world" "lease_inv demo_env demo_world"
proof -
  show "engine_inv demo_env demo_config demo_world"
    using engine_guar_frame [of demo_world demo_started demo_env demo_config] demo_started_inv
    by (simp add: demo_world_def engine_guar_def)
  have "lease_rows demo_world = []" by code_simp
  then show "lease_inv demo_env demo_world" by (simp add: lease_inv_def)
qed

section \<open>Safety of a delivery\<close>

text \<open>
  C21. Processing a delivery, whatever its message, handler, hooks and outcome (success, failure,
  duplicate, crash before the acknowledgement), keeps the invariant of the stored workflows and only
  extends their histories, provided that handlers and hooks do so.
\<close>

theorem delivery_keeps_histories:
  assumes "R \<in> in_memory_repos E" and "fresh_uuids E"
    and "w_env W = E" and "w_repos W = R" and "w_config W = C" and "worker_ok E C W"
    and "engine_inv E C (ws_world s)" and "process_delivery W skip_ack d s = (r, s')"
  shows "engine_inv E C (ws_world s') \<and> extends (ws_world s) (ws_world s')"
proof -
  have "evolves (ws_guar E C) (process_delivery W skip_ack d)"
    using assms wk.ws_guar_process [of E W C skip_ack d] pf.ws_guar_process [of E W C skip_ack d] by auto
  from evolvesD [OF this assms(8)] assms(7) show ?thesis by (simp add: ws_guar_def engine_guar_def)
qed

theorem delivery_keeps_histories_witness:
  "extends demo_world (ws_world (snd (process_delivery (demo_worker (workflow_repos demo_env)) False
     (demo_delivery demo_task) (demo_state demo_world))))"
  using delivery_keeps_histories [of "workflow_repos demo_env" demo_env "demo_worker (workflow_repos demo_env)"
      demo_config "demo_state demo_world" False "demo_delivery demo_task"] demo_fresh demo_world_inv demo_worker_ok
  by (simp, metis prod.collapse)



section \<open>Deliveries that run no handler\<close>

lemma demo_task_row:
  "\<exists>k. get_task demo_task demo_world = Some k \<and> tk_type k = COLLECT \<and> dispatched_task k 1 demo_world
     \<and> tk_id k = demo_task"
proof -
  have "case get_task demo_task demo_world of None \<Rightarrow> False
    | Some k \<Rightarrow> tk_type k = COLLECT \<and> dispatched_task k 1 demo_world \<and> tk_id k = demo_task" by code_simp
  then show ?thesis by (auto split: option.splits)
qed

lemma demo_world_row: "get_workflow ''wf-1'' demo_world = Some (demo_row COLLECTING)"
  using demo_started_row by (simp add: demo_world_def get_workflow_def)

lemma demo_delivery_sel [simp]:
  "tm_task_id (pd_message (demo_delivery t)) = t" "tm_workflow_id (pd_message (demo_delivery t)) = ''wf-1''"
  by (simp_all add: demo_delivery_def)

lemma demo_state_sel [simp]: "ws_backoff (demo_state w) = []" "ws_slots (demo_state w) t = 1" "q_acked (demo_state w) = []"
  by (simp_all add: demo_state_def)


definition demo_leased :: world where
  "demo_leased = snd (try_acquire demo_env demo_task ''worker-2'' DEFAULT_LEASE_TTL demo_world)"



definition demo_claimed :: world where
  "demo_claimed = demo_world\<lparr>idem_rows := [(build_idempotency_key ''wf-1'' COLLECT 1,
     \<lparr>id_key = build_idempotency_key ''wf-1'' COLLECT 1, id_workflow_id = ''wf-1'', id_task_id = demo_task,
      id_completed_at = 0, id_result_artifact_id = None\<rparr>)]\<rparr>"


section \<open>Commit of a successful task\<close>


lemma demo_started_tasks:
  "get_task demo_task demo_started \<noteq> None" "dict_keys (task_rows demo_started) = [''2'']" "demo_task = ''2''"
  "ticks demo_started = 8" "idem_rows demo_started = []" "in_txn demo_started"
  by code_simp+

lemma demo_unused: "\<forall>n \<ge> ticks demo_started. get_task (env_uuid demo_env n) demo_started = None"
proof (intro allI impI)
  fix n assume "ticks demo_started \<le> n"
  moreover have "read_digits ''2'' = 2" by code_simp
  ultimately have "show_nat n \<noteq> ''2''" using read_show_nat [of n] demo_started_tasks(4) by auto
  then show "get_task (env_uuid demo_env n) demo_started = None"
    using demo_started_tasks(2) by (auto simp: get_task_def demo_env_def map_of_eq_None_iff)
qed


text \<open>
  C26. A second commit of the same result, after the first one has handed the workflow over, does not
  take the path meant for it: the loser compares the state with the one right after the stage
  transition, but the bridge has already moved on, so \<open>WorkflowConflictError\<close> is raised. The only
  exception is \<open>NO_SUITABLE_TOPIC\<close>, where there is no bridge.
\<close>

theorem loser_conflict:
  assumes "R \<in> in_memory_repos (w_env W)" and "w_repos W = R" and "in_txn (ws_world s)"
    and "pf_get_by_key key (ws_world s) \<noteq> None"
    and "get_workflow (tm_workflow_id (pd_message d)) (ws_world s) = Some x"
    and "hr_outcome hr \<in> {HO_COMPLETED, HO_DUPLICATE_REUSED}"
    and "handover c m task (stage_signal hr) = Some (wf_state x, t')" and "stage_signal hr \<noteq> SIG_NO_SUITABLE_TOPIC"
  shows "commit_success_path W d task key hr s = (Inl (WorkflowConflictError (tm_workflow_id (pd_message d))), s)"
proof -
  let ?wid = "tm_workflow_id (pd_message d)"
  obtain r where r: "dict_get (idem_rows (ws_world s)) key = Some r" using assms(4) by (auto simp: pf_get_by_key_def)
  obtain post where post: "(post_transition_state task (stage_signal hr) :: (worker_state, workflow_state) prog) = ret post" "post \<noteq> wf_state x"
    and moved: "wf_state x \<noteq> expected_state_for_task task"
    using assms(7,8) by (cases task; cases "stage_signal hr")
      (auto simp: handover_def post_transition_state_def POST_TRANSITION_TABLE_def split: if_splits)
  have "apply_transition (w_env W) R (w_config W) req (ws_world s) = (Inl (WorkflowConflictError ?wid), ws_world s)"
    if "trq_workflow_id req = ?wid" "trq_expected_state req = expected_state_for_task task" for req
    using assms(1,3,5) moved that wk.apply_transition_refused [of "w_config W" req "ws_world s"]
      pf.apply_transition_refused [of "w_config W" req "ws_world s"]
    by (auto simp: refusal_def)
  then have "scenario_c_loser_path W d task key hr s = (Inl (WorkflowConflictError ?wid), s)"
    using assms(2,5) post
    by (simp add: scenario_c_loser_path_def Let_def on_world_def bindE_def catchE_def py_simps)
  moreover have "\<exists>c. claim_completion (w_env W) \<lparr>iis_key = key, iis_workflow_id = ?wid,
      iis_task_id = tm_task_id (pd_message d), iis_result_artifact_id = hr_result_artifact_id hr\<rparr> (ws_world s)
      = (Inr c, ws_world s) \<and> icl_phase c = DUPLICATE_REJECTED"
    using r assms(3) by (simp add: claim_completion_def store_simps bindE_def py_simps)
  ultimately show ?thesis using assms(6)
    by (auto simp: commit_success_path_def Let_def bindE_def on_world_def)
qed

theorem loser_conflict_witness:
  "commit_success_path (demo_worker (workflow_repos demo_env)) (demo_delivery demo_task) COLLECT ''k'' demo_result
     (demo_state ((demo_in_state SELECTING_TOPIC)\<lparr>idem_rows := [(''k'', \<lparr>id_key = ''k'', id_workflow_id = ''wf-1'',
        id_task_id = demo_task, id_completed_at = 0, id_result_artifact_id = None\<rparr>)]\<rparr>))
   = (Inl (WorkflowConflictError ''wf-1''), demo_state ((demo_in_state SELECTING_TOPIC)\<lparr>idem_rows := [(''k'',
        \<lparr>id_key = ''k'', id_workflow_id = ''wf-1'',
        id_task_id = demo_task, id_completed_at = 0, id_result_artifact_id = None\<rparr>)]\<rparr>))"
  using loser_conflict [where R = "workflow_repos demo_env" and W = "demo_worker (workflow_repos demo_env)"
      and d = "demo_delivery demo_task" and x = "demo_row SELECTING_TOPIC" and c = 0 and m = 2 and task = COLLECT
      and t' = "Some SELECT_TOPIC" and hr = demo_result and key = "''k''"
      and s = "demo_state ((demo_in_state SELECTING_TOPIC)\<lparr>idem_rows := [(''k'', \<lparr>id_key = ''k'', id_workflow_id = ''wf-1'',
        id_task_id = demo_task, id_completed_at = 0, id_result_artifact_id = None\<rparr>)]\<rparr>)"]
  by (simp add: demo_in_state_def demo_open_def get_workflow_def demo_row_def pf_get_by_key_def demo_result_def
      stage_signal_def handover_def)

section \<open>Failures\<close>

text \<open>
  C27. A retryable error with attempts left schedules a retry: the task is dispatched again with the
  next attempt number and the error as reason, its key and payload unchanged; no other table changes,
  so the workflow does not move; the task is deferred until the backoff delay has passed, and the
  delivery stays unacknowledged for redelivery.
\<close>

theorem retry_scheduled:
  assumes "R \<in> in_memory_repos (w_env W)" and "w_repos W = R" and "\<not> in_txn (ws_world s)"
    and "get_task (tk_id k) (ws_world s) = Some k0"
    and "cfg_retry (w_config W) task = Some p" and "1 \<le> attempt" and "attempt < max_attempts p"
    and "fst (classify_exception err)"
  shows "\<exists>s' k' e. handle_exception W sk d task k attempt err s = (Inr (), s')
    \<and> get_task (tk_id k) (ws_world s') = Some k' \<and> only_tasks (ws_world s) (ws_world s')
    \<and> task_rows (ws_world s') = dict_set (tk_id k) k' (task_rows (ws_world s))
    \<and> tk_attempt k' = attempt + 1 \<and> tk_status k' = TS_DISPATCHED \<and> tk_failure_reason k' = Some (exn_text err)
    \<and> tk_idempotency_key k' = tk_idempotency_key k0 \<and> tk_payload_reference k' = tk_payload_reference k0
    \<and> ws_backoff s' = dict_set (tk_id k) e (ws_backoff s)
    \<and> be_ready_at e = env_now (w_env W) (Suc (ticks (ws_world s))) + td_microseconds (backoff_delay (backoff p) attempt)
    \<and> q_acked s' = q_acked s \<and> q_in_flight s' = q_in_flight s"
  unfolding handle_exception_retries [OF assms(8,5,7)]
  using assms(1-6) by (rule handle_retryable_failure_runs)

theorem retry_scheduled_witness:
  "\<exists>k s' k'. get_task demo_task demo_world = Some k
     \<and> handle_exception (demo_worker (persistence_repos demo_env)) False (demo_delivery demo_task) COLLECT k 1
          (CollectorError ''timeout'' True ''COL_TIMEOUT'') (demo_state demo_world) = (Inr (), s')
     \<and> get_task demo_task (ws_world s') = Some k' \<and> tk_attempt k' = 2 \<and> q_acked s' = []"
proof -
  obtain k where k: "get_task demo_task demo_world = Some k" "tk_id k = demo_task" using demo_task_row by blast
  have idle: "\<not> in_txn (ws_world (demo_state demo_world))" by (simp add: demo_world_def)
  have "cfg_retry (w_config (demo_worker (persistence_repos demo_env))) COLLECT
      = Some \<lparr>max_attempts = 3, backoff = \<lparr>initial_seconds = 1, multiplier = 2, max_seconds = 60\<rparr>\<rparr>"
    by (simp add: demo_config_def)
  from retry_scheduled [OF _ _ idle _ this, of "persistence_repos demo_env" k k 1
      "CollectorError ''timeout'' True ''COL_TIMEOUT''" False "demo_delivery demo_task"] k
  show ?thesis by auto
qed

text \<open>
  C28. An error that is not retryable, or a retryable one without attempts left, ends the workflow:
  it moves to \<open>FAILED_PERMANENTLY\<close> when the attempts are used up and to \<open>FAILED\<close> otherwise,
  with one history row and the error class as failure reason; the task becomes a dead letter or
  failed, nothing is dispatched, and the delivery is acknowledged.
\<close>

theorem failure_recorded:
  assumes "R \<in> in_memory_repos (w_env W)" and "w_repos W = R" and "\<not> in_txn (ws_world s)"
    and "ids_fresh (w_env W) (ws_world s)" and "keys_ok wf_id (wf_rows (ws_world s))"
    and "get_workflow (tm_workflow_id (pd_message d)) (ws_world s) = Some x"
    and "wf_state x = expected_state_for_task task"
    and "get_task (tk_id k) (ws_world s) = Some k0"
    and "\<not> is_injection_active (w_config W) FINJ_WKR_PRE_ACK"
    and "cfg_retry (w_config W) task = Some p"
    and "\<not> (fst (classify_exception err) \<and> attempt < max_attempts p)"
    and "ordinary_error err"
  shows "\<exists>s' x' k'. handle_exception W False d task k attempt err s = (Inr (), s')
    \<and> get_workflow (tm_workflow_id (pd_message d)) (ws_world s') = Some x'
    \<and> wf_state x' = (if max_attempts p \<le> attempt then FAILED_PERMANENTLY else FAILED)
    \<and> wf_failure_reason x' = Some (snd (classify_exception err))
    \<and> wf_version x' = wf_version x + 1 \<and> length (tr_rows (ws_world s')) = Suc (length (tr_rows (ws_world s)))
    \<and> get_task (tk_id k) (ws_world s') = Some k'
    \<and> tk_status k' = (if max_attempts p \<le> attempt then TS_DEAD_LETTER else TS_FAILED)
    \<and> tk_failure_reason k' = Some (snd (classify_exception err))
    \<and> outbox_rows (ws_world s') = outbox_rows (ws_world s)
    \<and> q_acked s' = q_acked s @ [pd_delivery_id d] \<and> ws_backoff s' = ws_backoff s"
  unfolding handle_exception_fails [OF assms(11,12,10)]
  using assms(1-9) by (rule handle_permanent_failure_runs)

theorem failure_recorded_witness:
  "\<exists>k s' x'. get_task demo_task demo_world = Some k
     \<and> handle_exception (demo_worker (persistence_repos demo_env)) False (demo_delivery demo_task) COLLECT k 3
          (CollectorError ''timeout'' True ''COL_TIMEOUT'') (demo_state demo_world) = (Inr (), s')
     \<and> get_workflow ''wf-1'' (ws_world s') = Some x' \<and> wf_state x' = FAILED_PERMANENTLY \<and> q_acked s' = [''d-1'']"
proof -
  obtain k where k: "get_task demo_task demo_world = Some k" "tk_id k = demo_task" using demo_task_row by blast
  have idle: "\<not> in_txn (ws_world (demo_state demo_world))" by (simp add: demo_world_def)
  have keys: "ids_fresh (w_env (demo_worker (persistence_repos demo_env))) (ws_world (demo_state demo_world))"
    "keys_ok wf_id (wf_rows (ws_world (demo_state demo_world)))"
    using demo_world_inv(1) demo_fresh engine_inv_ids_fresh by (auto simp: engine_inv_def)
  have pol: "cfg_retry (w_config (demo_worker (persistence_repos demo_env))) COLLECT
      = Some \<lparr>max_attempts = 3, backoff = \<lparr>initial_seconds = 1, multiplier = 2, max_seconds = 60\<rparr>\<rparr>"
    by (simp add: demo_config_def)
  have "\<exists>s' x' k'. handle_exception (demo_worker (persistence_repos demo_env)) False (demo_delivery demo_task) COLLECT k 3
          (CollectorError ''timeout'' True ''COL_TIMEOUT'') (demo_state demo_world) = (Inr (), s')
     \<and> get_workflow ''wf-1'' (ws_world s') = Some x' \<and> wf_state x' = FAILED_PERMANENTLY
     \<and> q_acked s' = q_acked (demo_state demo_world) @ [pd_delivery_id (demo_delivery demo_task)]"
    using failure_recorded [OF _ _ idle keys _ _ _ _ pol, of "persistence_repos demo_env" "demo_delivery demo_task"
        "demo_row COLLECTING" k k "CollectorError ''timeout'' True ''COL_TIMEOUT''" 3] k demo_world_row
    by (auto simp: demo_row_def demo_config_def is_injection_active_def)
  then show ?thesis using k by (simp add: demo_delivery_def)
qed

text \<open>
  With a configured multiplier of at least one and delays that are not negative, the backoff
  delay is never negative, never exceeds the configured maximum and does not shrink from one attempt
  to a later one.
\<close>

theorem backoff_bounds:
  assumes "0 \<le> initial_seconds b" and "1 \<le> multiplier b" and "0 \<le> max_seconds b" and "1 \<le> i" and "i \<le> j"
  shows "0 \<le> backoff_delay b i \<and> backoff_delay b i \<le> backoff_delay b j \<and> backoff_delay b j \<le> max_seconds b"
proof -
  have "multiplier b ^ nat (i - 1) \<le> multiplier b ^ nat (j - 1)"
    using assms by (intro power_increasing) simp_all
  then have "initial_seconds b * multiplier b ^ nat (i - 1) \<le> initial_seconds b * multiplier b ^ nat (j - 1)"
    using assms(1) by (intro mult_left_mono) simp_all
  moreover have "0 \<le> initial_seconds b * multiplier b ^ nat (i - 1)" using assms by simp
  ultimately show ?thesis using assms by (auto simp: backoff_delay_def min_def)
qed

theorem backoff_bounds_witness:
  "backoff_delay \<lparr>initial_seconds = 1, multiplier = 2, max_seconds = 60\<rparr> 3
     \<le> backoff_delay \<lparr>initial_seconds = 1, multiplier = 2, max_seconds = 60\<rparr> 9
   \<and> backoff_delay \<lparr>initial_seconds = 1, multiplier = 2, max_seconds = 60\<rparr> 9 \<le> 60"
  using backoff_bounds [of "\<lparr>initial_seconds = 1, multiplier = 2, max_seconds = 60\<rparr>" 3 9] by simp

section \<open>Agreement with the engine\<close>

text \<open>
  C30. The idempotency key survives the round trip from the dispatch to the worker: the task that a
  transition writes is stored with its payload, and from that payload the worker of any repositories
  of the program resolves the logical version and rebuilds exactly the stored key.
\<close>

theorem dispatch_key_roundtrip:
  assumes "R \<in> in_memory_repos E" and "w_repos W = R"
    and "refusal C req w = None" and "ids_fresh E w" and "keys_ok wf_id (wf_rows w)"
    and "apply_transition E R C req w = (Inr res, w')" and "trs_enqueued_task res = Some spec"
  shows "\<exists>k lv. get_task (ots_task_id spec) w' = Some k \<and> tk_type k = ots_task_type spec
    \<and> resolve_logical_version W (tk_type k) k d w' = (Inr lv, w')
    \<and> build_idempotency_key (trq_workflow_id req) (tk_type k) lv = tk_idempotency_key k
    \<and> tk_idempotency_key k = ots_idempotency_key spec"
proof -
  obtain x where x: "get_workflow (trq_workflow_id req) w = Some x"
    and "\<exists>s'. legal_step (wf_revision_count x) (max_scenario_revisions C) (wf_state x) (trq_signal req) s'"
    using assms(3) by (auto simp: refusal_def split: if_splits option.splits)
  then obtain dn where dn: "lookup (wf_state x) (trq_signal req) (wf_revision_count x) (max_scenario_revisions C) = Inr dn"
    using lookup_ok_iff by metis
  have xid: "wf_id x = trq_workflow_id req" using x assms(5) by (auto simp: get_workflow_def dest: keys_ok_get)
  obtain fr rc t ob where eff: "step_effect E (trq_workflow_id req) x (td_to dn) fr rc (trq_reason req) (trq_actor req)
      (td_outbox_task_type dn) (td_increment_logical_version dn) w ob t w'"
    and ob: "trs_enqueued_task res = map_option obr_task_spec ob"
    using assms(1,6) wk.apply_transition_accepted [OF assms(3,4) x xid dn refl]
      pf.apply_transition_accepted [OF assms(3,4) x xid dn refl]
    by auto
  then obtain b where b: "ob = Some b" "spec = obr_task_spec b" using assms(7) by (cases ob) auto
  obtain lv where row: "get_task (tk_id (obr_task_record b)) w' = Some (obr_task_record b)"
    "dispatched_task (obr_task_record b) lv w'"
    "tk_idempotency_key (obr_task_record b) = build_idempotency_key (wf_id x) (tk_type (obr_task_record b)) lv"
    using step_effect_dispatched [OF eff [unfolded b(1)]] by blast
  have "ots_task_id spec = tk_id (obr_task_record b)" "ots_task_type spec = tk_type (obr_task_record b)"
    "ots_idempotency_key spec = tk_idempotency_key (obr_task_record b)"
    using eff b by (auto simp: step_effect_def dispatched_def dispatch_ok_def split: option.splits)
  with row resolve_version_dispatched [OF assms(2,1) row(2)] xid show ?thesis by auto
qed

theorem dispatch_key_roundtrip_witness:
  "\<exists>res w' spec k. apply_transition demo_env (workflow_repos demo_env) demo_config
       (demo_signal GENERATING_SCENARIO SIG_STAGE_COMPLETED) (demo_in_state GENERATING_SCENARIO) = (Inr res, w')
     \<and> trs_enqueued_task res = Some spec \<and> get_task (ots_task_id spec) w' = Some k
     \<and> tk_idempotency_key k = ots_idempotency_key spec"
proof -
  let ?req = "demo_signal GENERATING_SCENARIO SIG_STAGE_COMPLETED" and ?w = "demo_in_state GENERATING_SCENARIO"
  have ok: "refusal demo_config ?req ?w = None"
    by (auto simp: refusal_def demo_signal_def intro: legal_step.intros)
  obtain res w' where run: "apply_transition demo_env (workflow_repos demo_env) demo_config ?req ?w = (Inr res, w')"
    and "trs_enqueued_task res \<noteq> None"
    using transition_step [OF demo_fresh, of demo_config ?w ?req "demo_row GENERATING_SCENARIO"]
      wk.apply_transition_total [OF ok, of demo_env]
    by (auto simp: demo_signal_def table_defs step_effect_def dispatched_def)
  then obtain spec where spec: "trs_enqueued_task res = Some spec" by blast
  from dispatch_key_roundtrip [OF _ _ ok _ _ run spec, of "demo_worker (workflow_repos demo_env)"] run spec
  show ?thesis by auto
qed

text \<open>
  The worker's table of states after a stage agrees with the engine's decision for every signal
  a stage can report, with one exception: a critic's request for a revision when the revisions are
  used up, where the engine fails the review and the worker still expects \<open>REVISION_REQUIRED\<close>.
\<close>

theorem post_transition_agrees:
  assumes "lookup (expected_state_for_task task) g c m = Inr d" and "g \<noteq> SIG_RECONCILIATION_REPAIR"
  shows "post_transition_state task g s = (Inr (td_to d), s)
    \<longleftrightarrow> \<not> (task = REVIEW_SCENARIO \<and> g = SIG_CRITIC_REVISE \<and> m \<le> c)"
  using assms by (cases task; cases g)
    (auto simp: table_defs post_transition_state_def POST_TRANSITION_TABLE_def py_simps split: if_splits)

theorem post_transition_agrees_witness:
  "post_transition_state COLLECT SIG_STAGE_COMPLETED demo_world = (Inr COLLECTED, demo_world)"
proof -
  obtain d where "lookup (expected_state_for_task COLLECT) SIG_STAGE_COMPLETED 0 2 = Inr d" "td_to d = COLLECTED"
    by (simp add: table_defs)
  with post_transition_agrees [of COLLECT SIG_STAGE_COMPLETED 0 2 d demo_world] show ?thesis by simp
qed

end
