(* ===== verification/Stage_Handlers.thy ===== *)
theory Stage_Handlers
  imports Worker_Loop Read_Models
begin

text \<open>
  The stage handlers (\<open>worker/handlers/\<close>): what a task does between the lease and the commit. Each
  handler loads the artifact it needs, calls the collector or an agent, stores an artifact and an
  audit row of the model invocation, and reports a signal.

  The collector, the agents, the provider factory and the agent settings are injected objects and
  fields of \<open>stage_deps\<close> (\<open>sd_provider\<close> builds the provider of an agent and gives the text of
  its identifier); \<open>sd_repr\<close> is \<open>str\<close> on floats and containers, \<open>sd_float\<close> is
  \<open>float\<close> on text and \<open>sd_json_reload\<close> is \<open>json.loads(str(v))\<close>. \<open>None\<close> of Python in a field
  that holds decoded JSON is \<open>JNull\<close>.
\<close>

section \<open>Data\<close>

datatype topic_selection_outcome = OUTCOME_TOPIC_SELECTED | OUTCOME_NO_SUITABLE_TOPIC

fun topic_outcome_value :: "topic_selection_outcome \<Rightarrow> string" where
  "topic_outcome_value OUTCOME_TOPIC_SELECTED = ''topic_selected''"
| "topic_outcome_value OUTCOME_NO_SUITABLE_TOPIC = ''no_suitable_topic''"

datatype critic_status = CRITIC_STATUS_PASS | CRITIC_STATUS_REVISE

fun critic_status_value :: "critic_status \<Rightarrow> string" where
  "critic_status_value CRITIC_STATUS_PASS = ''PASS''"
| "critic_status_value CRITIC_STATUS_REVISE = ''REVISE''"

datatype critic_dimension = TECHNICAL_ACCURACY | SCENARIO_QUALITY | PUBLICATION_QUALITY

fun critic_dimension_value :: "critic_dimension \<Rightarrow> string" where
  "critic_dimension_value TECHNICAL_ACCURACY = ''technical_accuracy''"
| "critic_dimension_value SCENARIO_QUALITY = ''scenario_quality''"
| "critic_dimension_value PUBLICATION_QUALITY = ''publication_quality''"

record candidate_story =
  cs_source_id :: string
  cs_title :: json
  cs_url :: json
  cs_score :: "int option"
  cs_comment_count :: "int option"
  cs_rank_score :: "rat option"

record evaluation_scores =
  es_technical_relevance :: rat
  es_developer_relevance :: rat
  es_discussion_interest :: rat
  es_humour_potential :: rat
  es_irony_contradiction :: rat
  es_visual_scenario_potential :: rat
  es_background_knowledge_required :: rat

record topic_alternative =
  ta_topic :: string
  ta_rationale :: string

record topic_selection_output =
  tso_outcome :: topic_selection_outcome
  tso_prompt_version :: string
  tso_selected_topic :: json
  tso_why_interesting :: json
  tso_cartoon_angle :: json
  tso_scores :: "evaluation_scores option"
  tso_alternatives :: "topic_alternative list"

record scenario_panel =
  sp_scene :: string
  sp_dialogue :: string

record scenario_output =
  sco_topic :: string
  sco_premise :: string
  sco_characters :: "string list"
  sco_panels :: "scenario_panel list"
  sco_punchline :: string
  sco_prompt_version :: string

record critic_issue =
  ci_dimension :: critic_dimension
  ci_description :: string

record critic_output =
  co_status :: critic_status
  co_issues :: "critic_issue list"
  co_suggested_changes :: "string list"
  co_prompt_version :: string

datatype rejection_reason = REJ_VALIDATION_FAILED | REJ_DUPLICATE | REJ_NORMALIZATION_FAILED
  | REJ_UNTRUSTED_CONTENT

fun rejection_reason_value :: "rejection_reason \<Rightarrow> string" where
  "rejection_reason_value REJ_VALIDATION_FAILED = ''validation_failed''"
| "rejection_reason_value REJ_DUPLICATE = ''duplicate''"
| "rejection_reason_value REJ_NORMALIZATION_FAILED = ''normalization_failed''"
| "rejection_reason_value REJ_UNTRUSTED_CONTENT = ''untrusted_content''"

text \<open>A story, before ranking (\<open>StoryDraft\<close>) and after (\<open>StoryRecord\<close>); there is one source.\<close>

record story_record =
  sr_source_id :: string
  sr_collected_at :: datetime
  sr_raw_observation :: "(string \<times> json) list"
  sr_title :: string
  sr_url :: "string option"
  sr_author :: "string option"
  sr_score :: "int option"
  sr_comment_count :: "int option"
  sr_published_at :: "datetime option"
  sr_rank_score :: "rat option"

record rejected_story_record =
  rj_source_id :: string
  rj_collected_at :: datetime
  rj_raw_observation :: "(string \<times> json) list"
  rj_reason_code :: rejection_reason
  rj_reason_detail :: string

record collection_stats =
  cst_fetched_count :: int
  cst_accepted_count :: int
  cst_rejected_count :: int
  cst_duplicate_count :: int
  cst_candidate_count :: int

record collection_result =
  cr_started_at :: datetime
  cr_completed_at :: datetime
  cr_stories :: "story_record list"
  cr_candidates :: "story_record list"
  cr_rejected :: "rejected_story_record list"
  cr_stats :: collection_stats

record stage_deps =
  sd_create_artifact :: "artifact_create_spec \<Rightarrow> (world, artifact_record) prog"
  sd_collect_stories :: "(world, collection_result) prog"
  sd_topic_agent :: "pending_delivery \<Rightarrow> candidate_story list \<Rightarrow> (world, topic_selection_output) prog"
  sd_scenario_agent :: "pending_delivery \<Rightarrow> topic_selection_output \<Rightarrow> (world, scenario_output) prog"
  sd_critic_agent :: "pending_delivery \<Rightarrow> scenario_output \<Rightarrow> int \<Rightarrow> (world, critic_output) prog"
  sd_provider :: "agent_id \<Rightarrow> (world, string) prog"
  sd_agent_model :: "agent_id \<rightharpoonup> string"
  sd_json_reload :: "json \<Rightarrow> json option"
  sd_repr :: "json \<Rightarrow> string"
  sd_float :: "string \<Rightarrow> rat option"

section \<open>Python on decoded JSON\<close>

text \<open>\<open>str(v)\<close>.\<close>

fun json_str :: "(json \<Rightarrow> string) \<Rightarrow> json \<Rightarrow> string" where
  "json_str rp (JStr s) = s"
| "json_str rp JNull = ''None''"
| "json_str rp (JBool b) = (if b then ''True'' else ''False'')"
| "json_str rp (JInt i) = show_int i"
| "json_str rp v = rp v"

abbreviation py_str :: "stage_deps \<Rightarrow> json \<Rightarrow> string" where
  "py_str D \<equiv> json_str (sd_repr D)"

text \<open>\<open>float(v)\<close>.\<close>

fun float_of_json :: "stage_deps \<Rightarrow> json \<Rightarrow> ('s, rat) prog" where
  "float_of_json D (JInt i) = ret (of_int i)"
| "float_of_json D (JBool b) = ret (if b then 1 else 0)"
| "float_of_json D (JFloat r) = ret r"
| "float_of_json D (JStr s) = (case sd_float D s of None \<Rightarrow> raise ValueError | Some r \<Rightarrow> ret r)"
| "float_of_json D _ = raise TypeError"

text \<open>\<open>content.get\<close> on a value that need not be a dictionary.\<close>

fun as_object :: "json \<Rightarrow> ('s, (string \<times> json) list) prog" where
  "as_object (JObj kvs) = ret kvs"
| "as_object _ = raise (OtherError ''AttributeError'')"

fun json_items :: "json \<Rightarrow> json list" where
  "json_items (JList xs) = xs"
| "json_items _ = []"

fun json_objects :: "json list \<Rightarrow> (string \<times> json) list list" where
  "json_objects [] = []"
| "json_objects (JObj kvs # xs) = kvs # json_objects xs"
| "json_objects (_ # xs) = json_objects xs"

fun json_opt_int :: "int option \<Rightarrow> json" where
  "json_opt_int None = JNull" | "json_opt_int (Some i) = JInt i"

text \<open>\<open>conv(entry[key]) if entry.get(key) is not None else None\<close>.\<close>

definition optional_field ::
  "(json \<Rightarrow> ('s, 'a) prog) \<Rightarrow> (string \<times> json) list \<Rightarrow> string \<Rightarrow> ('s, 'a option) prog"
where
  "optional_field conv obj key =
     (case json_get obj key JNull of JNull \<Rightarrow> ret None | v \<Rightarrow> bindE (conv v) (\<lambda>x. ret (Some x)))"

section \<open>Shared helpers\<close>

fun artifact_type_value :: "artifact_type \<Rightarrow> string" where
  "artifact_type_value COLLECTED_STORIES = ''collected_stories''"
| "artifact_type_value TOPIC_SELECTION = ''topic_selection''"
| "artifact_type_value SCENARIO = ''scenario''"
| "artifact_type_value CRITIC_REVIEW = ''critic_review''"
| "artifact_type_value PROMPT_RESPONSE = ''prompt_response''"

fun agent_name :: "agent_id \<Rightarrow> string" where
  "agent_name TOPIC_SELECTOR = ''topic_selector''"
| "agent_name SCENARIO_GENERATOR = ''scenario_generator''"
| "agent_name CRITIC = ''critic''"

definition stage_artifact_spec ::
  "pending_delivery \<Rightarrow> artifact_type \<Rightarrow> (string \<times> json) list \<Rightarrow> int \<Rightarrow> artifact_create_spec"
where
  "stage_artifact_spec d ty content lv =
     \<lparr>acs_workflow_id = tm_workflow_id (pd_message d), acs_type = ty, acs_name = artifact_type_value ty,
      acs_version = lv, acs_logical_version = lv,
      acs_content = JObj (dict_set ''schema_version'' (JInt 1) content), acs_is_active = True\<rparr>"

definition create_artifact ::
  "worker \<Rightarrow> stage_deps \<Rightarrow> pending_delivery \<Rightarrow> artifact_type \<Rightarrow> (string \<times> json) list \<Rightarrow> int \<Rightarrow>
   (world, string) prog"
where
  "create_artifact W D d ty content lv =
     bindE (gets (rp_is_in_transaction (w_repos W))) (\<lambda>active.
     if \<not> active then raise (RuntimeError ''create_artifact'')
     else bindE (sd_create_artifact D (stage_artifact_spec d ty content lv)) (\<lambda>record.
          ret (ar_id record)))"

record ai_invocation_draft =
  dr_agent_name :: string
  dr_agent_version :: string
  dr_prompt_version :: string
  dr_provider :: string
  dr_model :: string
  dr_input_artifact_id :: "string option"
  dr_output_artifact_id :: "string option"
  dr_attempt :: int
  dr_started_at :: datetime
  dr_completed_at :: datetime
  dr_status :: invocation_status

definition invocation_spec :: "pending_delivery \<Rightarrow> ai_invocation_draft \<Rightarrow> ai_invocation_insert_spec" where
  "invocation_spec d r =
     \<lparr>ais_workflow_id = tm_workflow_id (pd_message d), ais_task_id = tm_task_id (pd_message d),
      ais_agent_name = dr_agent_name r, ais_agent_version = dr_agent_version r,
      ais_prompt_version = dr_prompt_version r, ais_provider = dr_provider r, ais_model = dr_model r,
      ais_input_artifact_id = dr_input_artifact_id r, ais_output_artifact_id = dr_output_artifact_id r,
      ais_attempt = dr_attempt r, ais_started_at = dr_started_at r,
      ais_completed_at = Some (dr_completed_at r), ais_status = dr_status r,
      ais_input_tokens = None, ais_output_tokens = None, ais_estimated_cost_usd = None\<rparr>"

definition append_invocation ::
  "worker \<Rightarrow> pending_delivery \<Rightarrow> ai_invocation_draft \<Rightarrow> (world, string) prog"
where
  "append_invocation W d r =
     bindE (append_ai_invocation (w_env W) (invocation_spec d r)) (\<lambda>record. ret (ai_id record))"

definition load_active_artifact_json ::
  "stage_deps \<Rightarrow> pending_delivery \<Rightarrow> artifact_type \<Rightarrow> (world, artifact_record \<times> json) prog"
where
  "load_active_artifact_json D d ty =
     (let m = pd_message d in
      bindE (gets (get_active_artifact (tm_workflow_id m) ty)) (\<lambda>found.
      case found of
        None \<Rightarrow>
          raise (TaskExecutionError
            (execution_error_message (tm_workflow_id m) (tm_task_id m) (tm_task_type m)
               (''Missing prerequisite artifact '' @ artifact_type_value ty)) False)
      | Some a \<Rightarrow>
          bindE (get_artifact_content (ar_id a)) (\<lambda>raw.
          case raw of
            JObj kvs \<Rightarrow> ret (a, JObj kvs)
          | _ \<Rightarrow> (case sd_json_reload D raw of
                    None \<Rightarrow> raise (OtherError ''JSONDecodeError'')
                  | Some v \<Rightarrow> ret (a, v)))))"

definition candidate_of_entry :: "stage_deps \<Rightarrow> (string \<times> json) list \<Rightarrow> ('s, candidate_story) prog" where
  "candidate_of_entry D entry =
     bindE (optional_field int_of_json entry ''score'') (\<lambda>score.
     bindE (optional_field int_of_json entry ''comment_count'') (\<lambda>comments.
     bindE (optional_field (float_of_json D) entry ''rank_score'') (\<lambda>rank.
     ret \<lparr>cs_source_id = py_str D (json_get entry ''source_id'' (JStr '''')),
          cs_title = json_get entry ''title'' JNull, cs_url = json_get entry ''url'' JNull,
          cs_score = score, cs_comment_count = comments, cs_rank_score = rank\<rparr>)))"

definition map_story_records_to_candidates ::
  "stage_deps \<Rightarrow> json \<Rightarrow> ('s, candidate_story list) prog"
where
  "map_story_records_to_candidates D content =
     bindE (as_object content) (\<lambda>obj.
     forE (json_objects (json_items (json_get obj ''candidates'' (JList [])))) (candidate_of_entry D))"

definition is_audited :: "exn \<Rightarrow> bool" where
  "is_audited err =
     (case err of ProviderError _ _ _ \<Rightarrow> True
      | AgentValidationError code \<Rightarrow> code \<in> {''AGT_INPUT'', ''AGT_OUTPUT''}
      | _ \<Rightarrow> False)"

definition map_agent_error_to_invocation_status :: "exn option \<Rightarrow> invocation_status" where
  "map_agent_error_to_invocation_status err =
     (case err of
        None \<Rightarrow> INV_SUCCESS
      | Some (AgentValidationError code) \<Rightarrow>
          if code \<in> {''AGT_INPUT'', ''AGT_OUTPUT''} then INV_VALIDATION_FAILED else INV_PROVIDER_ERROR
      | Some (ProviderError _ _ cls) \<Rightarrow> if cls = ''timeout'' then INV_TIMEOUT else INV_PROVIDER_ERROR
      | Some _ \<Rightarrow> INV_PROVIDER_ERROR)"

definition get_agent_model :: "stage_deps \<Rightarrow> agent_id \<Rightarrow> ('s, string) prog" where
  "get_agent_model D a = (case sd_agent_model D a of None \<Rightarrow> raise KeyError | Some m \<Rightarrow> ret m)"

definition run_agent_stage ::
  "worker \<Rightarrow> stage_deps \<Rightarrow> pending_delivery \<Rightarrow> agent_id \<Rightarrow> datetime \<Rightarrow> string option \<Rightarrow>
   (world, 'a) prog \<Rightarrow> (world, 'a) prog"
where
  "run_agent_stage W D d a started_at input_artifact_id agent_call =
     bindE (get_agent_model D a) (\<lambda>model.
     bindE (sd_provider D a) (\<lambda>provider.
     bindE (catchE agent_call (\<lambda>err.
        if \<not> is_audited err then raise err
        else
          bindE (utc_now (w_env W)) (\<lambda>now.
          bindE (append_invocation W d
             \<lparr>dr_agent_name = agent_name a, dr_agent_version = ''1'', dr_prompt_version = ''unknown'',
              dr_provider = provider, dr_model = model, dr_input_artifact_id = input_artifact_id,
              dr_output_artifact_id = None, dr_attempt = tm_attempt (pd_message d),
              dr_started_at = started_at, dr_completed_at = now,
              dr_status = map_agent_error_to_invocation_status (Some err)\<rparr>) (\<lambda>_.
          bindE (invoke_if_active W FINJ_WKR_POST_AGENT) (\<lambda>_. raise err))))) (\<lambda>output.
     bindE (invoke_if_active W FINJ_WKR_POST_AGENT) (\<lambda>_. ret output))))"

text \<open>The audit row and the result of a stage whose agent call succeeded.\<close>

definition append_success ::
  "worker \<Rightarrow> stage_deps \<Rightarrow> pending_delivery \<Rightarrow> agent_id \<Rightarrow> string \<Rightarrow> string \<Rightarrow> string \<Rightarrow> string \<Rightarrow> datetime \<Rightarrow>
   (world, unit) prog"
where
  "append_success W D d a prompt_version provider input_id output_id started_at =
     bindE (get_agent_model D a) (\<lambda>model.
     bindE (utc_now (w_env W)) (\<lambda>now.
     bindE (append_invocation W d
        \<lparr>dr_agent_name = agent_name a, dr_agent_version = ''1'', dr_prompt_version = prompt_version,
         dr_provider = provider, dr_model = model, dr_input_artifact_id = Some input_id,
         dr_output_artifact_id = Some output_id, dr_attempt = tm_attempt (pd_message d),
         dr_started_at = started_at, dr_completed_at = now, dr_status = INV_SUCCESS\<rparr>) (\<lambda>_.
     ret ())))"

definition completed :: "transition_signal \<Rightarrow> string \<Rightarrow> task_handler_result" where
  "completed signal artifact_id =
     \<lparr>hr_outcome = HO_COMPLETED, hr_transition_signal = Some signal, hr_reason = None,
      hr_result_artifact_id = Some artifact_id, hr_duplicate_resolution = None, hr_retryable = False,
      hr_error_class = None\<rparr>"

section \<open>COLLECT\<close>

definition story_snapshot :: "story_record \<Rightarrow> json" where
  "story_snapshot s =
     JObj [(''source_id'', JStr (sr_source_id s)), (''title'', JStr (sr_title s)),
       (''url'', json_opt_str (sr_url s)), (''score'', json_opt_int (sr_score s)),
       (''comment_count'', json_opt_int (sr_comment_count s))]"

definition rejected_snapshot :: "rejected_story_record \<Rightarrow> json" where
  "rejected_snapshot r =
     JObj [(''source_id'', JStr (rj_source_id r)),
       (''reason_code'', JStr (rejection_reason_value (rj_reason_code r))),
       (''reason_detail'', JStr (rj_reason_detail r))]"

definition stats_snapshot :: "collection_stats \<Rightarrow> json" where
  "stats_snapshot c =
     JObj [(''fetched_count'', JInt (cst_fetched_count c)), (''accepted_count'', JInt (cst_accepted_count c)),
       (''rejected_count'', JInt (cst_rejected_count c)), (''candidate_count'', JInt (cst_candidate_count c))]"

definition serialize_collection_result :: "collection_result \<Rightarrow> (string \<times> json) list" where
  "serialize_collection_result r =
     [(''collected_at'', JStr (isoformat (cr_completed_at r))), (''stats'', stats_snapshot (cr_stats r)),
      (''stories'', JList (map story_snapshot (cr_stories r))),
      (''candidates'', JList (map story_snapshot (cr_candidates r))),
      (''rejected'', JList (map rejected_snapshot (cr_rejected r)))]"

text \<open>The default of the last \<open>getattr\<close> of the serializer reads the clock.\<close>

definition collect_handler :: "worker \<Rightarrow> stage_deps \<Rightarrow> task_handler" where
  "collect_handler W D d k key =
     bindE (sd_collect_stories D) (\<lambda>result.
     bindE (utc_now (w_env W)) (\<lambda>_.
     bindE (create_artifact W D d COLLECTED_STORIES (serialize_collection_result result) 1) (\<lambda>aid.
     ret (completed SIG_STAGE_COMPLETED aid))))"

section \<open>SELECT_TOPIC\<close>

definition scores_snapshot :: "evaluation_scores \<Rightarrow> json" where
  "scores_snapshot e =
     JObj [(''technical_relevance'', JFloat (es_technical_relevance e)),
       (''developer_relevance'', JFloat (es_developer_relevance e)),
       (''discussion_interest'', JFloat (es_discussion_interest e)),
       (''humour_potential'', JFloat (es_humour_potential e)),
       (''irony_contradiction'', JFloat (es_irony_contradiction e)),
       (''visual_scenario_potential'', JFloat (es_visual_scenario_potential e)),
       (''background_knowledge_required'', JFloat (es_background_knowledge_required e))]"

definition serialize_topic_output :: "topic_selection_output \<Rightarrow> (string \<times> json) list" where
  "serialize_topic_output t =
     [(''outcome'', JStr (topic_outcome_value (tso_outcome t))),
      (''selected_topic'', tso_selected_topic t), (''why_interesting'', tso_why_interesting t),
      (''cartoon_angle'', tso_cartoon_angle t),
      (''scores'', case tso_scores t of None \<Rightarrow> JNull | Some e \<Rightarrow> scores_snapshot e),
      (''alternatives'', JList (map (\<lambda>a. JObj [(''topic'', JStr (ta_topic a)),
         (''reason'', JStr (ta_rationale a))]) (tso_alternatives t))),
      (''prompt_version'', JStr (tso_prompt_version t))]"

definition select_topic_handler :: "worker \<Rightarrow> stage_deps \<Rightarrow> task_handler" where
  "select_topic_handler W D d k key =
     bindE (load_active_artifact_json D d COLLECTED_STORIES) (\<lambda>(collected, content).
     bindE (map_story_records_to_candidates D content) (\<lambda>candidates.
     bindE (sd_provider D TOPIC_SELECTOR) (\<lambda>provider.
     bindE (utc_now (w_env W)) (\<lambda>started_at.
     bindE (run_agent_stage W D d TOPIC_SELECTOR started_at (Some (ar_id collected))
              (sd_topic_agent D d candidates)) (\<lambda>output.
     bindE (create_artifact W D d TOPIC_SELECTION (serialize_topic_output output) 1) (\<lambda>aid.
     bindE (append_success W D d TOPIC_SELECTOR (tso_prompt_version output) provider
              (ar_id collected) aid started_at) (\<lambda>_.
     ret (completed (if tso_outcome output = OUTCOME_TOPIC_SELECTED then SIG_STAGE_COMPLETED
                     else SIG_NO_SUITABLE_TOPIC) aid))))))))"

section \<open>GENERATE_SCENARIO\<close>

definition topic_outcome_of :: "string \<Rightarrow> ('s, topic_selection_outcome) prog" where
  "topic_outcome_of token =
     (if token = ''topic_selected'' then ret OUTCOME_TOPIC_SELECTED
      else if token = ''no_suitable_topic'' then ret OUTCOME_NO_SUITABLE_TOPIC
      else raise ValueError)"

definition topic_output_from_content ::
  "stage_deps \<Rightarrow> (string \<times> json) list \<Rightarrow> ('s, topic_selection_output) prog"
where
  "topic_output_from_content D content =
     (let text_or_none = (\<lambda>field. json_or (json_get content field JNull) JNull) in
      bindE (topic_outcome_of (py_str D (json_get content ''outcome'' (JStr ''no_suitable_topic'')))) (\<lambda>outcome.
      ret \<lparr>tso_outcome = outcome,
           tso_prompt_version = py_str D (json_get content ''prompt_version'' (JStr ''unknown'')),
           tso_selected_topic = text_or_none ''selected_topic'',
           tso_why_interesting = text_or_none ''why_interesting'',
           tso_cartoon_angle = text_or_none ''cartoon_angle'', tso_scores = None, tso_alternatives = []\<rparr>))"

definition panel_snapshot :: "scenario_panel \<Rightarrow> json" where
  "panel_snapshot p = JObj [(''caption'', JStr (sp_scene p)), (''dialogue'', JStr (sp_dialogue p))]"

definition character_snapshot :: "string \<Rightarrow> json" where
  "character_snapshot name = JObj [(''name'', JStr name), (''role'', JStr ''character'')]"

definition serialize_scenario_output ::
  "scenario_output \<Rightarrow> int \<Rightarrow> (string \<times> json) list \<Rightarrow> (string \<times> json) list"
where
  "serialize_scenario_output s lv topic_content =
     [(''logical_version'', JInt lv),
      (''topic'', JObj
         [(''selected_topic'', json_or (json_or (JStr (sco_topic s))
              (json_get topic_content ''selected_topic'' JNull)) (JStr '''')),
          (''why_interesting'', json_or (json_get topic_content ''why_interesting'' JNull) (JStr '''')),
          (''cartoon_angle'', json_or (json_get topic_content ''cartoon_angle'' JNull) (JStr ''''))]),
      (''premise'', JStr (sco_premise s)),
      (''characters'', JList (map character_snapshot (sco_characters s))),
      (''panels'', JList (map panel_snapshot (sco_panels s))),
      (''punchline'', JStr (sco_punchline s)), (''prompt_version'', JStr (sco_prompt_version s))]"

definition generate_scenario_handler :: "worker \<Rightarrow> stage_deps \<Rightarrow> task_handler" where
  "generate_scenario_handler W D d k key =
     bindE (load_active_artifact_json D d TOPIC_SELECTION) (\<lambda>(topic_record, raw).
     bindE (as_object raw) (\<lambda>topic_content.
     if json_get topic_content ''outcome'' JNull \<noteq> JStr ''topic_selected''
     then raise (TaskExecutionError
            (execution_error_message (tm_workflow_id (pd_message d)) (tm_task_id (pd_message d))
               GENERATE_SCENARIO ''TOPIC_SELECTION prerequisite not satisfied'') False)
     else
       bindE (topic_output_from_content D topic_content) (\<lambda>topic_output.
       bindE (sd_provider D SCENARIO_GENERATOR) (\<lambda>provider.
       bindE (utc_now (w_env W)) (\<lambda>started_at.
       bindE (run_agent_stage W D d SCENARIO_GENERATOR started_at (Some (ar_id topic_record))
                (sd_scenario_agent D d topic_output)) (\<lambda>output.
       bindE (resolve_logical_version W GENERATE_SCENARIO k d) (\<lambda>lv.
       bindE (create_artifact W D d SCENARIO (serialize_scenario_output output lv topic_content) lv) (\<lambda>aid.
       bindE (append_success W D d SCENARIO_GENERATOR (sco_prompt_version output) provider
                (ar_id topic_record) aid started_at) (\<lambda>_.
       ret (completed SIG_STAGE_COMPLETED aid))))))))))"

section \<open>REVIEW_SCENARIO\<close>

definition panel_from_content :: "stage_deps \<Rightarrow> (string \<times> json) list \<Rightarrow> scenario_panel" where
  "panel_from_content D panel =
     \<lparr>sp_scene = py_str D (json_get panel ''caption'' (JStr '''')),
      sp_dialogue = (if truthy (json_get panel ''dialogue'' JNull)
                     then py_str D (json_get panel ''dialogue'' (JStr '''')) else '''')\<rparr>"

definition scenario_output_from_content :: "stage_deps \<Rightarrow> json \<Rightarrow> ('s, scenario_output) prog" where
  "scenario_output_from_content D raw =
     bindE (as_object raw) (\<lambda>content.
     ret \<lparr>sco_topic = (case json_get content ''topic'' (JObj []) of
                         JObj topic \<Rightarrow> py_str D (json_get topic ''selected_topic'' (JStr ''''))
                       | _ \<Rightarrow> ''''),
          sco_premise = py_str D (json_get content ''premise'' (JStr '''')),
          sco_characters = map (\<lambda>c. py_str D (json_get c ''name'' (JStr '''')))
            (json_objects (json_items (json_get content ''characters'' JNull))),
          sco_panels = map (panel_from_content D)
            (json_objects (json_items (json_get content ''panels'' (JList [])))),
          sco_punchline = (if truthy (json_get content ''punchline'' JNull)
                           then py_str D (json_get content ''punchline'' (JStr '''')) else ''''),
          sco_prompt_version = py_str D (json_get content ''prompt_version'' (JStr ''unknown''))\<rparr>)"

definition serialize_critic_output :: "critic_output \<Rightarrow> (string \<times> json) list" where
  "serialize_critic_output c =
     [(''status'', JStr (critic_status_value (co_status c))), (''dimensions'', JObj []),
      (''issues'', JList (map (\<lambda>i. JObj [(''dimension'', JStr (critic_dimension_value (ci_dimension i))),
         (''description'', JStr (ci_description i))]) (co_issues c))),
      (''prompt_version'', JStr (co_prompt_version c))]"

definition review_scenario_handler :: "worker \<Rightarrow> stage_deps \<Rightarrow> task_handler" where
  "review_scenario_handler W D d k key =
     bindE (load_active_artifact_json D d SCENARIO) (\<lambda>(scenario_record, raw).
     bindE (gets (get_workflow (tm_workflow_id (pd_message d)))) (\<lambda>row.
     let revision_number = (case row of None \<Rightarrow> 0 | Some x \<Rightarrow> wf_revision_count x) in
     bindE (scenario_output_from_content D raw) (\<lambda>scenario.
     bindE (sd_provider D CRITIC) (\<lambda>provider.
     bindE (utc_now (w_env W)) (\<lambda>started_at.
     bindE (run_agent_stage W D d CRITIC started_at (Some (ar_id scenario_record))
              (sd_critic_agent D d scenario revision_number)) (\<lambda>output.
     bindE (create_artifact W D d CRITIC_REVIEW (serialize_critic_output output) 1) (\<lambda>aid.
     bindE (append_success W D d CRITIC (co_prompt_version output) provider
              (ar_id scenario_record) aid started_at) (\<lambda>_.
     ret (completed (if co_status output = CRITIC_STATUS_PASS then SIG_CRITIC_PASS
                     else SIG_CRITIC_REVISE) aid)))))))))"

section \<open>Production wiring\<close>

definition production_handlers :: "worker \<Rightarrow> stage_deps \<Rightarrow> (task_type \<times> task_handler) list" where
  "production_handlers W D =
     [(COLLECT, collect_handler W D), (SELECT_TOPIC, select_topic_handler W D),
      (GENERATE_SCENARIO, generate_scenario_handler W D), (REVIEW_SCENARIO, review_scenario_handler W D)]"

definition production_worker :: "worker \<Rightarrow> stage_deps \<Rightarrow> exn + worker" where
  "production_worker W D =
     (case create_task_handler_registry (production_handlers W D) of
        Inl e \<Rightarrow> Inl e | Inr reg \<Rightarrow> Inr (W\<lparr>w_handlers := reg\<rparr>))"

end
