(* ===== verification/Stage_Guarantees.thy ===== *)
theory Stage_Guarantees
  imports Stage_Handlers Worker_Properties
begin

text \<open>
  What the stage handlers do to the database: they add artifacts and audit rows and touch no other
  table. \<open>stage_store\<close> is what they rely on from the artifact repository; its lemmas reach the two
  in-memory implementations through the interpretations \<open>spf\<close> and \<open>swk\<close>.
\<close>

section \<open>The frame of a handler\<close>

definition stage_step :: "world \<Rightarrow> world \<Rightarrow> bool" where
  "stage_step w w' \<longleftrightarrow>
     wf_rows w' = wf_rows w \<and> tr_rows w' = tr_rows w \<and> task_rows w' = task_rows w
     \<and> payload_rows w' = payload_rows w \<and> idem_rows w' = idem_rows w \<and> outbox_rows w' = outbox_rows w
     \<and> lease_rows w' = lease_rows w \<and> in_txn w' = in_txn w \<and> txn_depth w' = txn_depth w
     \<and> ticks w \<le> ticks w'"

text \<open>The collector, the agents, the providers and the hooks have no access to the database.\<close>

definition clock_only :: "world \<Rightarrow> world \<Rightarrow> bool" where
  "clock_only w w' \<longleftrightarrow> ticks w \<le> ticks w' \<and> w' = w\<lparr>ticks := ticks w'\<rparr>"

definition deps_ok :: "stage_deps \<Rightarrow> bool" where
  "deps_ok D \<longleftrightarrow>
     evolves clock_only (sd_collect_stories D)
     \<and> (\<forall>d cs. evolves clock_only (sd_topic_agent D d cs))
     \<and> (\<forall>d t. evolves clock_only (sd_scenario_agent D d t))
     \<and> (\<forall>d s n. evolves clock_only (sd_critic_agent D d s n))
     \<and> (\<forall>a. evolves clock_only (sd_provider D a))"

definition hooks_ok :: "worker \<Rightarrow> bool" where
  "hooks_ok W \<longleftrightarrow> (\<forall>i h. w_hooks W i = Some h \<longrightarrow> evolves clock_only h)"

lemma stage_step_refl: "reflp stage_step"
  by (simp add: reflp_def stage_step_def)

lemma stage_step_trans: "transp stage_step"
  by (simp add: transp_def stage_step_def)

lemma clock_onlyE: "clock_only w w' \<Longrightarrow> (\<And>n. ticks w \<le> n \<Longrightarrow> w' = w\<lparr>ticks := n\<rparr> \<Longrightarrow> P) \<Longrightarrow> P"
  unfolding clock_only_def by metis

lemma clock_only_stage: "clock_only w w' \<Longrightarrow> stage_step w w'"
  by (erule clock_onlyE) (simp add: stage_step_def)

lemma stage_step_guar: "stage_step w w' \<Longrightarrow> engine_guar E C w w'"
  by (rule engine_guar_frame) (simp_all add: stage_step_def)

lemma stage_step_leases: "stage_step w w' \<Longrightarrow> keeps_leases w w'"
  by (simp add: stage_step_def keeps_leases_def)

section \<open>Relations the handlers' helpers respect\<close>

text \<open>
  The helpers read the database, advance the clock and append audit rows. Every preorder that allows
  these steps therefore relates the state before a helper to the state after it.
\<close>

lemma evolves_case_prod: "(\<And>a b. evolves R (f a b)) \<Longrightarrow> evolves R (case p of (a, b) \<Rightarrow> f a b)"
  by (cases p) simp

locale handler_frame =
  fixes Q :: "world \<Rightarrow> world \<Rightarrow> bool"
  assumes frame_refl: "reflp Q" and frame_trans: "transp Q"
    and clock: "clock_only w w' \<Longrightarrow> Q w w'"
    and audit: "Q w (w\<lparr>ticks := Suc (ticks w), inv_rows := inv_rows w @ [r]\<rparr>)"
begin

lemma clock_step: "evolves clock_only m \<Longrightarrow> evolves Q m"
  using clock by (auto simp: evolves_def)

lemma primitive: "evolves Q (utc_now E)" "evolves Q (append_ai_invocation E spec)"
proof -
  show "evolves Q (utc_now E)" by (rule clock_step) (simp add: evolves_def utc_now_def clock_only_def)
  show "evolves Q (append_ai_invocation E spec)"
    using audit by (simp add: evolves_def append_ai_invocation_def Let_def bindE_def py_simps)
qed

lemmas frame_intro = evolves_intro evolves_option evolves_case_prod frame_refl frame_trans primitive

lemma frame_json:
  "evolves Q (as_object v)" "evolves Q (int_of_json v)" "evolves Q (float_of_json D v)"
  by (cases v; auto intro!: frame_intro simp del: option.case)+

lemma frame_optional_field:
  "(\<And>v. evolves Q (conv v)) \<Longrightarrow> evolves Q (optional_field conv obj key)"
  unfolding optional_field_def by (cases "json_get obj key JNull") (auto intro!: frame_intro)

lemma frame_candidates: "evolves Q (map_story_records_to_candidates D content)"
  unfolding map_story_records_to_candidates_def candidate_of_entry_def
  by (intro frame_intro frame_json frame_optional_field)

lemma frame_load: "evolves Q (load_active_artifact_json D d ty)"
proof -
  have "evolves Q (case raw of JObj kvs \<Rightarrow> ret (a, JObj kvs)
      | _ \<Rightarrow> (case sd_json_reload D raw of None \<Rightarrow> raise (OtherError ''JSONDecodeError'')
              | Some v \<Rightarrow> ret (a, v)))" for raw :: json and a :: artifact_record
    by (cases raw) (auto intro!: frame_intro simp del: option.case)
  then show ?thesis
    unfolding load_active_artifact_json_def get_artifact_content_def Let_def by (intro frame_intro)
qed

lemma frame_hooks: "hooks_ok W \<Longrightarrow> evolves Q (invoke_if_active W i)"
  unfolding invoke_if_active_def
  by (cases "w_hooks W i") (auto intro!: frame_intro simp: hooks_ok_def clock_step)

lemma frame_append: "evolves Q (append_invocation W d r)"
  unfolding append_invocation_def by (intro frame_intro)

lemma frame_model: "evolves Q (get_agent_model D a)"
  unfolding get_agent_model_def by (intro frame_intro)

lemma frame_append_success: "evolves Q (append_success W D d a pv p i o' t)"
  unfolding append_success_def by (intro frame_intro frame_append frame_model)

lemma frame_provider: "deps_ok D \<Longrightarrow> evolves Q (sd_provider D a)"
  by (simp add: deps_ok_def clock_step)

lemma frame_run_agent:
  assumes "hooks_ok W" and "deps_ok D" and "evolves clock_only call"
  shows "evolves Q (run_agent_stage W D d a t i call)"
  unfolding run_agent_stage_def
  by (intro frame_intro frame_model frame_append frame_hooks frame_provider clock_step assms)

lemma frame_from_content:
  "evolves Q (topic_output_from_content D kvs)" "evolves Q (scenario_output_from_content D v)"
  unfolding topic_output_from_content_def topic_outcome_of_def scenario_output_from_content_def Let_def
  by (intro frame_intro frame_json)+

end

lemma stage_step_audit: "stage_step w (w\<lparr>ticks := Suc (ticks w), inv_rows := inv_rows w @ [r]\<rparr>)"
  by (simp add: stage_step_def)

interpretation stage: handler_frame stage_step
  by unfold_locales (fact stage_step_refl stage_step_trans clock_only_stage stage_step_audit)+

section \<open>What the handlers rely on\<close>

definition put_artifact :: "env \<Rightarrow> artifact_create_spec \<Rightarrow> world \<Rightarrow> world" where
  "put_artifact E spec w =
     (let aid = env_uuid E (ticks w); now = env_now E (Suc (ticks w)) in
      w\<lparr>ticks := Suc (Suc (ticks w)),
        art_rows := dict_set aid (new_artifact aid now spec) (deactivate_slot spec (art_rows w)),
        content_rows := dict_set aid (acs_content spec) (content_rows w)\<rparr>)"

definition version_taken :: "artifact_create_spec \<Rightarrow> world \<Rightarrow> bool" where
  "version_taken spec w \<longleftrightarrow>
     (\<exists>r \<in> set (dict_values (art_rows w)). same_slot spec r \<and> ar_version r = acs_version spec)"

locale stage_store = task_store +
  fixes create :: "artifact_create_spec \<Rightarrow> (world, artifact_record) prog"
  assumes create_step: "evolves stage_step (create spec)"
    and create_ok: "in_txn w \<Longrightarrow> acs_is_active spec \<Longrightarrow> \<not> version_taken spec w \<Longrightarrow>
      create spec w =
        (Inr (new_artifact (env_uuid E (ticks w)) (env_now E (Suc (ticks w))) spec), put_artifact E spec w)"
begin

lemma stage_create: "sd_create_artifact D = create \<Longrightarrow> evolves stage_step (create_artifact W D d ty c lv)"
  unfolding create_artifact_def by (intro stage.frame_intro) (simp add: create_step)

lemmas stage_resolve = resolve_version_evolves [OF _ stage_step_refl stage_step_trans]

lemma stage_handler:
  assumes "w_repos W = R" and D: "sd_create_artifact D = create" "deps_ok D" "hooks_ok W"
  shows "evolves stage_step (collect_handler W D d k key)"
    and "evolves stage_step (select_topic_handler W D d k key)"
    and "evolves stage_step (generate_scenario_handler W D d k key)"
    and "evolves stage_step (review_scenario_handler W D d k key)"
proof -
  have deps: "evolves stage_step (sd_collect_stories D)" "evolves clock_only (sd_topic_agent D d cs)"
    "evolves clock_only (sd_scenario_agent D d t)" "evolves clock_only (sd_critic_agent D d sc n)" for cs t sc n
    using D(2) by (simp_all add: deps_ok_def stage.clock_step)
  note intro = stage.frame_intro stage.frame_load stage.frame_json stage.frame_candidates stage.frame_from_content
    stage.frame_run_agent stage.frame_provider stage_create stage_resolve stage.frame_append_success deps assms
  show "evolves stage_step (collect_handler W D d k key)"
    unfolding collect_handler_def by (intro intro)
  show "evolves stage_step (select_topic_handler W D d k key)"
    unfolding select_topic_handler_def by (intro intro)
  show "evolves stage_step (generate_scenario_handler W D d k key)"
    unfolding generate_scenario_handler_def by (intro intro)
  show "evolves stage_step (review_scenario_handler W D d k key)"
    unfolding review_scenario_handler_def Let_def by (intro intro)
qed

end

lemma create_artifact_step:
  "evolves stage_step (pf_create_artifact E spec)" "evolves stage_step (wk_create_artifact E spec)"
  by (auto simp: evolves_def pf_create_artifact_def wk_create_artifact_def bindE_def py_simps Let_def
      stage_step_def pf_require_active_transaction_def pf_is_in_transaction_def split: if_splits)

lemma create_artifact_ok:
  assumes "in_txn w" and "acs_is_active spec" and "\<not> version_taken spec w"
  shows "pf_create_artifact E spec w =
      (Inr (new_artifact (env_uuid E (ticks w)) (env_now E (Suc (ticks w))) spec), put_artifact E spec w)"
    and "wk_create_artifact E spec w =
      (Inr (new_artifact (env_uuid E (ticks w)) (env_now E (Suc (ticks w))) spec), put_artifact E spec w)"
  using assms
  by (auto simp: pf_create_artifact_def wk_create_artifact_def version_taken_def put_artifact_def bindE_def py_simps
      Let_def pf_require_active_transaction_def pf_is_in_transaction_def)

interpretation spf: stage_store E "persistence_repos E" "pf_create_artifact E" for E
  by unfold_locales (simp_all add: create_artifact_step create_artifact_ok)

interpretation swk: stage_store E "workflow_repos E" "wk_create_artifact E" for E
  by unfold_locales (simp_all add: create_artifact_step create_artifact_ok)

end
