(* ===== verification/Stage_Properties.thy ===== *)
theory Stage_Properties
  imports Stage_Guarantees
begin

text \<open>
  The worker with its production handlers: what a delivery may change, what the critic reads of the
  scenario that was generated, and what becomes of a second review and of a failed agent call.
\<close>

section \<open>The production worker\<close>

definition stage_handlers :: "worker \<Rightarrow> stage_deps \<Rightarrow> task_type \<Rightarrow> task_handler" where
  "stage_handlers W D t =
     (case t of COLLECT \<Rightarrow> collect_handler W D | SELECT_TOPIC \<Rightarrow> select_topic_handler W D
      | GENERATE_SCENARIO \<Rightarrow> generate_scenario_handler W D | REVIEW_SCENARIO \<Rightarrow> review_scenario_handler W D)"

lemma production_worker_eq: "production_worker W D = Inr (W\<lparr>w_handlers := Some \<circ> stage_handlers W D\<rparr>)"
proof -
  have "[COLLECT \<mapsto> collect_handler W D, SELECT_TOPIC \<mapsto> select_topic_handler W D,
      GENERATE_SCENARIO \<mapsto> generate_scenario_handler W D, REVIEW_SCENARIO \<mapsto> review_scenario_handler W D]
    = Some \<circ> stage_handlers W D"
  proof
    fix t show "[COLLECT \<mapsto> collect_handler W D, SELECT_TOPIC \<mapsto> select_topic_handler W D,
      GENERATE_SCENARIO \<mapsto> generate_scenario_handler W D, REVIEW_SCENARIO \<mapsto> review_scenario_handler W D] t
      = (Some \<circ> stage_handlers W D) t"
      by (cases t) (simp_all add: stage_handlers_def)
  qed
  then show ?thesis
    by (simp add: production_worker_def production_handlers_def create_task_handler_registry_def register_def)
qed

definition in_memory_stores :: "env \<Rightarrow> (repos \<times> (artifact_create_spec \<Rightarrow> (world, artifact_record) prog)) set" where
  "in_memory_stores E = {(workflow_repos E, wk_create_artifact E), (persistence_repos E, pf_create_artifact E)}"

lemma stage_handlers_step:
  assumes "(w_repos W, sd_create_artifact D) \<in> in_memory_stores E" and "deps_ok D" and "hooks_ok W"
  shows "evolves stage_step (stage_handlers W D t d k key)"
  using assms spf.stage_handler [of W E D d k key] swk.stage_handler [of W E D d k key]
  by (cases t) (auto simp: stage_handlers_def in_memory_stores_def)

lemma evolves_stage_step:
  "evolves stage_step m \<Longrightarrow> evolves (engine_guar E C) m" "evolves stage_step m \<Longrightarrow> evolves keeps_leases m"
  by (simp_all add: evolves_def stage_step_guar stage_step_leases)

lemma production_contracts:
  assumes "(w_repos W, sd_create_artifact D) \<in> in_memory_stores E" and "deps_ok D" and "hooks_ok W"
  shows "worker_ok E' C (W\<lparr>w_handlers := Some \<circ> stage_handlers W D\<rparr>)"
    and "leases_private (W\<lparr>w_handlers := Some \<circ> stage_handlers W D\<rparr>)"
proof -
  have h: "evolves stage_step (stage_handlers W D t d k key)" for t d k key
    using assms by (rule stage_handlers_step)
  have hook: "evolves stage_step f" if "w_hooks W i = Some f" for i f
    using assms(3) that by (simp add: hooks_ok_def stage.clock_step)
  show "worker_ok E' C (W\<lparr>w_handlers := Some \<circ> stage_handlers W D\<rparr>)"
    unfolding worker_ok_def using h hook by (simp add: evolves_stage_step)
  show "leases_private (W\<lparr>w_handlers := Some \<circ> stage_handlers W D\<rparr>)"
    unfolding leases_private_def using h hook by (simp add: evolves_stage_step)
qed

text \<open>A worker whose agents answer at once.\<close>

definition demo_topic :: topic_selection_output where
  "demo_topic = \<lparr>tso_outcome = OUTCOME_TOPIC_SELECTED, tso_prompt_version = ''1'', tso_selected_topic = JStr ''t'',
     tso_why_interesting = JNull, tso_cartoon_angle = JNull, tso_scores = None, tso_alternatives = []\<rparr>"

definition demo_scenario :: scenario_output where
  "demo_scenario = \<lparr>sco_topic = ''t'', sco_premise = ''p'', sco_characters = [''a'', ''b''],
     sco_panels = [\<lparr>sp_scene = ''s'', sp_dialogue = ''''\<rparr>], sco_punchline = ''!'', sco_prompt_version = ''1''\<rparr>"

definition demo_critic :: critic_output where
  "demo_critic = \<lparr>co_status = CRITIC_STATUS_PASS, co_issues = [], co_suggested_changes = [], co_prompt_version = ''1''\<rparr>"

definition demo_collection :: collection_result where
  "demo_collection = \<lparr>cr_started_at = 0, cr_completed_at = 0, cr_stories = [], cr_candidates = [], cr_rejected = [],
     cr_stats = \<lparr>cst_fetched_count = 0, cst_accepted_count = 0, cst_rejected_count = 0, cst_duplicate_count = 0,
       cst_candidate_count = 0\<rparr>\<rparr>"

definition demo_deps :: "(artifact_create_spec \<Rightarrow> (world, artifact_record) prog) \<Rightarrow> stage_deps" where
  "demo_deps create = \<lparr>sd_create_artifact = create, sd_collect_stories = ret demo_collection,
     sd_topic_agent = (\<lambda>_ _. ret demo_topic), sd_scenario_agent = (\<lambda>_ _. ret demo_scenario),
     sd_critic_agent = (\<lambda>_ _ _. ret demo_critic), sd_provider = (\<lambda>_. ret ''fake''),
     sd_agent_model = (\<lambda>_. Some ''m''), sd_json_reload = (\<lambda>_. None), sd_repr = (\<lambda>_. ''''), sd_float = (\<lambda>_. None)\<rparr>"

lemma demo_deps_sel [simp]:
  "sd_create_artifact (demo_deps c) = c" "sd_agent_model (demo_deps c) a = Some ''m''"
  "sd_provider (demo_deps c) a = ret ''fake''" "sd_critic_agent (demo_deps c) d s n = ret demo_critic"
  by (simp_all add: demo_deps_def)

lemma evolves_clock_ret: "evolves clock_only (ret x)"
  by (simp add: evolves_def ret_def clock_only_def)

lemma demo_deps_ok: "deps_ok (demo_deps c)" "hooks_ok (demo_worker R)"
  by (simp_all add: deps_ok_def demo_deps_def hooks_ok_def evolves_clock_ret)

section \<open>Frame\<close>

text \<open>
  C32. A worker wired with the production handlers, whatever the agents and the collector answer,
  handles every task type; a handler writes artifacts and audit rows and no other table; and so each
  delivery keeps the invariant of the stored workflows, only extends their histories, and gives back
  its slot, lease and timer. The collector, the agents and the hooks are assumed not to write to the
  database.
\<close>

theorem production_delivery_safe:
  assumes "(w_repos W, sd_create_artifact D) \<in> in_memory_stores (w_env W)" and "fresh_uuids (w_env W)"
    and "deps_ok D" and "hooks_ok W"
    and "engine_inv (w_env W) (w_config W) (ws_world s)" and "lease_inv (w_env W) (ws_world s)"
  shows "\<exists>W'. production_worker W D = Inr W'
    \<and> (\<forall>t. \<exists>h. w_handlers W' t = Some h \<and> (\<forall>d' k key w. stage_step w (snd (h d' k key w))))
    \<and> (\<forall>r s'. process_delivery W' skip_ack d s = (r, s') \<longrightarrow>
         engine_inv (w_env W) (w_config W) (ws_world s') \<and> extends (ws_world s) (ws_world s') \<and> nothing_leaked s s')"
proof -
  let ?W = "W\<lparr>w_handlers := Some \<circ> stage_handlers W D\<rparr>"
  have contracts: "worker_ok (w_env W) (w_config W) ?W" "leases_private ?W"
    using production_contracts assms(1,3,4) by blast+
  have repos: "w_repos W \<in> in_memory_repos (w_env W)" using assms(1) by (auto simp: in_memory_stores_def)
  have "evolves (ws_guar (w_env W) (w_config W)) (process_delivery ?W skip_ack d)"
    using repos assms(2) contracts wk.ws_guar_process [of "w_env W" ?W "w_config W" skip_ack d]
      pf.ws_guar_process [of "w_env W" ?W "w_config W" skip_ack d] by auto
  moreover have "nothing_leaked s s'" if "process_delivery ?W skip_ack d s = (r, s')" for r s'
    using that repos assms(2,6) contracts(2) wk.process_leaks_nothing [of "w_env W" ?W s skip_ack d]
      pf.process_leaks_nothing [of "w_env W" ?W s skip_ack d] by auto
  moreover have "\<exists>h. w_handlers ?W t = Some h \<and> (\<forall>d' k key w. stage_step w (snd (h d' k key w)))" for t
    using stage_handlers_step [OF assms(1,3,4)] by (simp add: evolves_def)
  ultimately show ?thesis
    using assms(5) evolvesD by (fastforce simp: production_worker_eq ws_guar_def engine_guar_def)
qed

theorem production_delivery_safe_witness:
  "\<exists>W' s'. production_worker (demo_worker (persistence_repos demo_env)) (demo_deps (pf_create_artifact demo_env)) = Inr W'
     \<and> s' = snd (process_delivery W' False (demo_delivery demo_task) (demo_state demo_world))
     \<and> extends demo_world (ws_world s') \<and> nothing_leaked (demo_state demo_world) s'"
  using production_delivery_safe [of "demo_worker (persistence_repos demo_env)" "demo_deps (pf_create_artifact demo_env)"
      "demo_state demo_world" False "demo_delivery demo_task"] demo_fresh demo_world_inv demo_deps_ok
  by (auto simp: in_memory_stores_def) (metis prod.collapse)+

section \<open>From the generator to the critic\<close>

lemma filter_dict_set_only:
  "(\<And>x. x \<in> set (dict_values d) \<Longrightarrow> \<not> P x) \<Longrightarrow> P v \<Longrightarrow> filter P (dict_values (dict_set k v d)) = [v]"
  by (induction d) (auto simp: filter_empty_conv)

lemma active_after_put:
  assumes "acs_is_active spec"
  shows "get_active_artifact (acs_workflow_id spec) (acs_type spec) (put_artifact E spec w)
    = Some (new_artifact (env_uuid E (ticks w)) (env_now E (Suc (ticks w))) spec)"
proof -
  let ?P = "\<lambda>r. ar_workflow_id r = acs_workflow_id spec \<and> ar_type r = acs_type spec \<and> ar_is_active r"
  let ?a = "new_artifact (env_uuid E (ticks w)) (env_now E (Suc (ticks w))) spec"
  have "\<not> ?P r" if "r \<in> set (dict_values (deactivate_slot spec (art_rows w)))" for r
    using that by (auto simp: deactivate_slot_def same_slot_def split: if_splits)
  moreover have "?P ?a" using assms by (simp add: new_artifact_def)
  ultimately have "filter ?P (dict_values (dict_set (env_uuid E (ticks w)) ?a (deactivate_slot spec (art_rows w)))) = [?a]"
    by (rule filter_dict_set_only)
  then have "filter ?P (dict_values (art_rows (put_artifact E spec w))) = [?a]"
    by (simp add: put_artifact_def Let_def)
  then show ?thesis
    by (simp add: get_active_artifact_def list_artifacts_def)
qed

lemma json_objects_map: "json_objects (map (\<lambda>x. JObj (f x)) xs) = map f xs"
  by (induction xs) simp_all

lemma json_get_dict_set: "json_get (dict_set k v obj) key dflt = (if key = k then v else json_get obj key dflt)"
  by (simp add: json_get_def)

lemma serialize_scenario_fields:
  "json_get (serialize_scenario_output s lv tc) ''topic'' x = JObj
     [(''selected_topic'', json_or (json_or (JStr (sco_topic s)) (json_get tc ''selected_topic'' JNull)) (JStr '''')),
      (''why_interesting'', json_or (json_get tc ''why_interesting'' JNull) (JStr '''')),
      (''cartoon_angle'', json_or (json_get tc ''cartoon_angle'' JNull) (JStr ''''))]"
  "json_get (serialize_scenario_output s lv tc) ''premise'' x = JStr (sco_premise s)"
  "json_get (serialize_scenario_output s lv tc) ''characters'' x = JList (map character_snapshot (sco_characters s))"
  "json_get (serialize_scenario_output s lv tc) ''panels'' x = JList (map panel_snapshot (sco_panels s))"
  "json_get (serialize_scenario_output s lv tc) ''punchline'' x = JStr (sco_punchline s)"
  "json_get (serialize_scenario_output s lv tc) ''prompt_version'' x = JStr (sco_prompt_version s)"
  by (simp_all add: json_get_def serialize_scenario_output_def)

text \<open>Reading back what was written, whatever the topic selection it was made for.\<close>

lemma scenario_content_roundtrip:
  assumes "sco_topic s \<noteq> ''''"
  shows "scenario_output_from_content D (JObj (dict_set ''schema_version'' (JInt 1) (serialize_scenario_output s lv tc))) w
    = (Inr s, w)"
proof -
  have "map (\<lambda>c. py_str D (json_get c ''name'' (JStr ''''))) (json_objects (map character_snapshot xs)) = xs" for xs
    unfolding character_snapshot_def json_objects_map by (simp add: json_get_def comp_def)
  moreover have "panel_from_content D [(''caption'', JStr (sp_scene p)), (''dialogue'', JStr (sp_dialogue p))] = p" for p
    by (simp add: panel_from_content_def json_get_def)
  then have "map (panel_from_content D) (json_objects (map panel_snapshot ps)) = ps" for ps
    unfolding panel_snapshot_def json_objects_map by (simp add: comp_def)
  ultimately show ?thesis using assms
    by (simp add: scenario_output_from_content_def json_get_dict_set serialize_scenario_fields)
       (simp add: json_get_def json_or_def)
qed

text \<open>
  C33. The critic reviews exactly the scenario that was generated: after the generator's artifact has
  been stored in a transaction, the reviewer loads that artifact (earlier scenarios of the workflow
  are no longer active) and decodes from its content the generator's output, field by field, when the
  output names a topic.
\<close>

theorem critic_sees_generated_scenario:
  assumes "(w_repos W, sd_create_artifact D) \<in> in_memory_stores (w_env W)" and "in_txn w"
    and "\<not> version_taken (stage_artifact_spec d SCENARIO (serialize_scenario_output s lv tc) lv) w"
    and "sco_topic s \<noteq> ''''"
  shows "\<exists>w' a content. create_artifact W D d SCENARIO (serialize_scenario_output s lv tc) lv w = (Inr (ar_id a), w')
    \<and> load_active_artifact_json D d SCENARIO w' = (Inr (a, content), w')
    \<and> ar_logical_version a = lv
    \<and> scenario_output_from_content D content w' = (Inr s, w')"
proof -
  let ?spec = "stage_artifact_spec d SCENARIO (serialize_scenario_output s lv tc) lv"
  let ?a = "new_artifact (env_uuid (w_env W) (ticks w)) (env_now (w_env W) (Suc (ticks w))) ?spec"
  have act: "acs_is_active ?spec" by (simp add: stage_artifact_spec_def)
  have "sd_create_artifact D ?spec w = (Inr ?a, put_artifact (w_env W) ?spec w)" and "rp_is_in_transaction (w_repos W) w"
    using assms(1-3) act create_artifact_ok [of w ?spec "w_env W"] pf.in_transaction [of "w_env W" w] wk.in_transaction [of "w_env W" w]
    by (auto simp: in_memory_stores_def)
  then have "create_artifact W D d SCENARIO (serialize_scenario_output s lv tc) lv w = (Inr (ar_id ?a), put_artifact (w_env W) ?spec w)"
    by (simp add: create_artifact_def)
  moreover have "load_active_artifact_json D d SCENARIO (put_artifact (w_env W) ?spec w)
      = (Inr (?a, acs_content ?spec), put_artifact (w_env W) ?spec w)"
    using active_after_put [OF act, of "w_env W" w]
    by (simp add: load_active_artifact_json_def Let_def stage_artifact_spec_def get_artifact_content_def put_artifact_def
        new_artifact_def)
  moreover have "scenario_output_from_content D (acs_content ?spec) w' = (Inr s, w')" for w'
    using scenario_content_roundtrip [OF assms(4), of D lv tc w'] by (simp add: stage_artifact_spec_def)
  moreover have "ar_logical_version ?a = lv" by (simp add: new_artifact_def stage_artifact_spec_def)
  ultimately show ?thesis
    by (intro exI [of _ "put_artifact (w_env W) ?spec w"] exI [of _ ?a] exI [of _ "acs_content ?spec"] conjI)
qed

theorem critic_sees_generated_scenario_witness:
  "\<exists>w' a content. create_artifact (demo_worker (persistence_repos demo_env)) (demo_deps (pf_create_artifact demo_env))
       (demo_delivery ''2'') SCENARIO (serialize_scenario_output demo_scenario 1 []) 1 demo_started = (Inr (ar_id a), w')
    \<and> load_active_artifact_json (demo_deps (pf_create_artifact demo_env)) (demo_delivery ''2'') SCENARIO w' = (Inr (a, content), w')
    \<and> scenario_output_from_content (demo_deps (pf_create_artifact demo_env)) content w' = (Inr demo_scenario, w')"
proof -
  have "art_rows demo_started = []" by code_simp
  then have "\<not> version_taken (stage_artifact_spec (demo_delivery ''2'') SCENARIO
      (serialize_scenario_output demo_scenario 1 []) 1) demo_started"
    by (simp add: version_taken_def)
  moreover have "sco_topic demo_scenario \<noteq> ''''" by (simp add: demo_scenario_def)
  ultimately show ?thesis
    using critic_sees_generated_scenario [of "demo_worker (persistence_repos demo_env)" "demo_deps (pf_create_artifact demo_env)"
      demo_started "demo_delivery ''2''" demo_scenario 1 "[]"] demo_started_tasks(6)
    unfolding in_memory_stores_def demo_deps_sel demo_worker_sel by blast
qed

section \<open>A second review\<close>

text \<open>
  The artifact table is untouched until the reviewer stores its verdict, and the store refuses a
  version that exists.
\<close>

definition keeps_artifacts :: "world \<Rightarrow> world \<Rightarrow> bool" where
  "keeps_artifacts w w' \<longleftrightarrow> art_rows w' = art_rows w"

lemma clock_only_artifacts: "clock_only w w' \<Longrightarrow> keeps_artifacts w w'"
  by (erule clock_onlyE) (simp add: keeps_artifacts_def)

interpretation arts: handler_frame keeps_artifacts
  by unfold_locales
     (auto simp: reflp_def transp_def keeps_artifacts_def intro: clock_only_artifacts [unfolded keeps_artifacts_def])

definition taken :: "string \<Rightarrow> artifact_type \<Rightarrow> int \<Rightarrow> world \<Rightarrow> bool" where
  "taken wid ty v w \<longleftrightarrow>
     (\<exists>r \<in> set (dict_values (art_rows w)). ar_workflow_id r = wid \<and> ar_type r = ty \<and> ar_version r = v)"

definition never_returns :: "(world \<Rightarrow> bool) \<Rightarrow> (world, 'a) prog \<Rightarrow> bool" where
  "never_returns P m \<longleftrightarrow> hoare P m (\<lambda>_ _. False) (\<lambda>_. True)"

lemma never_returnsD: "never_returns P m \<Longrightarrow> P w \<Longrightarrow> \<exists>e w'. m w = (Inl e, w')"
  by (auto simp: never_returns_def hoare_def split: prod.splits sum.splits) (metis obj_sumE prod.collapse)

lemma never_returns_bind:
  assumes "evolves keeps_artifacts m" and "\<And>x. never_returns (taken wid ty v) (f x)"
  shows "never_returns (taken wid ty v) (bindE m f)"
  unfolding never_returns_def
proof (rule hoare_bindE)
  show "hoare (taken wid ty v) m (\<lambda>_. taken wid ty v) (\<lambda>_. True)"
    using evolvesD [OF assms(1)] by (fastforce simp: hoare_def keeps_artifacts_def taken_def split: prod.splits sum.splits)
  show "hoare (taken wid ty v) (f x) (\<lambda>_ _. False) (\<lambda>_. True)" for x
    using assms(2) by (simp add: never_returns_def)
qed

lemma never_returns_create:
  assumes "w_repos W = persistence_repos E" and "sd_create_artifact D = pf_create_artifact E"
  shows "never_returns (taken (tm_workflow_id (pd_message d)) ty v) (bindE (create_artifact W D d ty c v) f)"
  using assms
  by (auto simp: never_returns_def hoare_def create_artifact_def pf_create_artifact_def bindE_def py_simps
      pf_require_active_transaction_def stage_artifact_spec_def same_slot_def taken_def Let_def
      split: prod.splits sum.splits if_splits)

lemma second_review_never_returns:
  assumes "w_repos W = persistence_repos E" and "sd_create_artifact D = pf_create_artifact E"
    and "deps_ok D" and "hooks_ok W"
  shows "never_returns (taken (tm_workflow_id (pd_message d)) CRITIC_REVIEW 1) (review_scenario_handler W D d k key)"
proof -
  have critic: "evolves clock_only (sd_critic_agent D d s n)" for s n using assms(3) by (simp add: deps_ok_def)
  have pair: "never_returns P (case p of (a, b) \<Rightarrow> f a b)" if "\<And>a b. never_returns P (f a b)"
    for P p and f :: "artifact_record \<Rightarrow> json \<Rightarrow> (world, task_handler_result) prog"
    using that by (cases p) simp
  show ?thesis
    unfolding review_scenario_handler_def Let_def
    by (intro never_returns_create [OF assms(1,2)] never_returns_bind pair critic arts.frame_load arts.frame_intro
        arts.frame_from_content arts.frame_provider arts.frame_run_agent assms)
qed

text \<open>A task whose handler raises, with the transactions of \<open>persistence/fakes\<close>.\<close>

lemma pf_transaction_raises:
  assumes "w_repos W = persistence_repos E" and "ws_transaction W body s = (Inl e, s')"
  shows "same_tables (ws_world s) (ws_world s')"
  using assms
  by (auto simp: ws_transaction_def persistence_repos_def pf_tx_enter_def pf_tx_exit_def pf_restore_def same_tables_def
      split: prod.splits if_splits)

lemma same_tables_invocations: "same_tables v w \<Longrightarrow> inv_rows w = inv_rows v"
  by (simp add: same_tables_def)

lemma execute_task_raises:
  assumes W: "w_handlers W task = Some h" and raises: "\<And>w. P w \<Longrightarrow> \<exists>e w'. h d k key w = (Inl e, w')"
    and P: "P (ws_world s)" and stable: "\<And>w. P w \<Longrightarrow> P (w\<lparr>in_txn := True\<rparr>)"
    and R: "w_repos W = persistence_repos E"
  shows "\<exists>e s'. execute_task W sk d task k key s = (Inl e, s') \<and> same_tables (ws_world s) (ws_world s')"
proof -
  obtain e w' where run: "h d k key ((ws_world s)\<lparr>in_txn := True\<rparr>) = (Inl e, w')"
    using raises [OF stable [OF P]] by blast
  have "\<exists>e s'. execute_task W sk d task k key s = (Inl e, s')"
    using W run
    by (auto simp: execute_task_def ws_transaction_def R persistence_repos_def pf_tx_enter_def pf_is_in_transaction_def
        get_handler_def bindE_def on_world_def require_active_def py_simps split: prod.splits sum.splits if_splits)
  then show ?thesis using pf_transaction_raises [OF R] unfolding execute_task_def by blast
qed

text \<open>
  A workflow is reviewed at most once. The critic's verdict is always stored as version 1, and
  the store refuses a version that exists, so with the repositories of \<open>persistence/fakes\<close> the task
  of a second review (of a revised or a regenerated scenario) raises whatever the critic answers, and
  its transaction leaves no trace.
\<close>

theorem second_review_fails:
  assumes "production_worker W D = Inr W'"
    and "w_repos W = persistence_repos (w_env W)" and "sd_create_artifact D = pf_create_artifact (w_env W)"
    and "deps_ok D" and "hooks_ok W"
    and "taken (tm_workflow_id (pd_message d)) CRITIC_REVIEW 1 (ws_world s)"
  shows "\<exists>e s'. execute_task W' skip_ack d REVIEW_SCENARIO k key s = (Inl e, s')
    \<and> same_tables (ws_world s) (ws_world s')"
proof (rule execute_task_raises [where P = "taken (tm_workflow_id (pd_message d)) CRITIC_REVIEW 1"
      and h = "review_scenario_handler W D" and E = "w_env W"])
  show "w_handlers W' REVIEW_SCENARIO = Some (review_scenario_handler W D)"
    and "w_repos W' = persistence_repos (w_env W)"
    using assms(1,2) by (auto simp: production_worker_eq stage_handlers_def)
  show "\<exists>e w'. review_scenario_handler W D d k key w = (Inl e, w')"
    if "taken (tm_workflow_id (pd_message d)) CRITIC_REVIEW 1 w" for w
    using never_returnsD [OF second_review_never_returns that] assms(2-5) by blast
qed (use assms(6) in \<open>simp_all add: taken_def\<close>)

definition demo_review :: "string \<Rightarrow> artifact_record" where
  "demo_review i = \<lparr>ar_id = i, ar_workflow_id = ''wf-1'', ar_type = CRITIC_REVIEW, ar_name = ''critic_review'',
     ar_version = 1, ar_logical_version = 1, ar_is_active = True, ar_created_at = 0, ar_content_hash = None\<rparr>"

definition demo_reviewed :: world where
  "demo_reviewed = demo_world\<lparr>art_rows :=
     [(''s'', (demo_review ''s'')\<lparr>ar_type := SCENARIO\<rparr>), (''r'', demo_review ''r'')],
     content_rows := [(''s'', JObj (serialize_scenario_output demo_scenario 1 []))]\<rparr>"

theorem second_review_fails_witness:
  "\<exists>W'. production_worker (demo_worker (persistence_repos demo_env)) (demo_deps (pf_create_artifact demo_env)) = Inr W'
    \<and> taken ''wf-1'' CRITIC_REVIEW 1 demo_reviewed
    \<and> (\<forall>k. \<not> is_ok (execute_task W' False (demo_delivery ''2'') REVIEW_SCENARIO k ''k'' (demo_state demo_reviewed)))
    \<and> fst (review_scenario_handler (demo_worker (persistence_repos demo_env)) (demo_deps (pf_create_artifact demo_env))
         (demo_delivery ''2'') (hd (dict_values (task_rows demo_world))) ''k'' (demo_reviewed\<lparr>in_txn := True\<rparr>))
       = Inl (PersistenceDuplicateError ''wf-1'')"
proof -
  let ?W = "demo_worker (persistence_repos demo_env)" and ?D = "demo_deps (pf_create_artifact demo_env)"
  have taken: "taken ''wf-1'' CRITIC_REVIEW 1 demo_reviewed" by code_simp
  have "\<not> is_ok (execute_task (?W\<lparr>w_handlers := Some \<circ> stage_handlers ?W ?D\<rparr>) False (demo_delivery ''2'')
      REVIEW_SCENARIO k ''k'' (demo_state demo_reviewed))" for k
    using second_review_fails [OF production_worker_eq, of ?W ?D "demo_delivery ''2''" "demo_state demo_reviewed" False k "''k''"]
      taken demo_deps_ok by auto
  moreover have "fst (review_scenario_handler ?W ?D (demo_delivery ''2'') (hd (dict_values (task_rows demo_world))) ''k''
      (demo_reviewed\<lparr>in_txn := True\<rparr>)) = Inl (PersistenceDuplicateError ''wf-1'')"
    by code_simp
  ultimately show ?thesis using taken by (simp add: production_worker_eq)
qed

section \<open>The audit of a failed agent call\<close>

text \<open>
  A failed agent call is audited and the audit does not last: when the provider or the validation
  of an agent's answer fails, the stage appends an audit row with the matching status and raises the
  error again; the task's transaction then ends with that error, and with the repositories of
  \<open>persistence/fakes\<close> a transaction that raises restores the audit table as it was before the task.
\<close>

theorem failed_agent_audit_lost:
  assumes "sd_agent_model D a = Some model" and "sd_provider D a w = (Inr provider, w1)" and "clock_only w w1"
    and "agent_call w1 = (Inl err, w2)" and "clock_only w1 w2" and "is_audited err"
    and "\<not> is_injection_active (w_config W) FINJ_WKR_POST_AGENT"
  shows "(\<exists>w' r. run_agent_stage W D d a started input agent_call w = (Inl err, w')
      \<and> inv_rows w' = inv_rows w @ [r] \<and> ais_task_id (ai_spec r) = tm_task_id (pd_message d)
      \<and> ais_output_artifact_id (ai_spec r) = None
      \<and> ais_status (ai_spec r) = map_agent_error_to_invocation_status (Some err)
      \<and> ais_status (ai_spec r) \<noteq> INV_SUCCESS)
    \<and> (\<forall>W' E sk d' task k key s s' e. w_repos W' = persistence_repos E \<longrightarrow>
         execute_task W' sk d' task k key s = (Inl e, s') \<longrightarrow> inv_rows (ws_world s') = inv_rows (ws_world s))"
proof
  have rows: "inv_rows w2 = inv_rows w" using assms(3,5) by (auto elim!: clock_onlyE)
  have quiet: "invoke_if_active W FINJ_WKR_POST_AGENT v = (Inr False, v)" for v
    using assms(7) by (simp add: invoke_if_active_def ret_def)
  have status: "map_agent_error_to_invocation_status (Some err) \<noteq> INV_SUCCESS"
    by (cases err) (auto simp: map_agent_error_to_invocation_status_def)
  show "\<exists>w' r. run_agent_stage W D d a started input agent_call w = (Inl err, w')
      \<and> inv_rows w' = inv_rows w @ [r] \<and> ais_task_id (ai_spec r) = tm_task_id (pd_message d)
      \<and> ais_output_artifact_id (ai_spec r) = None
      \<and> ais_status (ai_spec r) = map_agent_error_to_invocation_status (Some err)
      \<and> ais_status (ai_spec r) \<noteq> INV_SUCCESS"
    using assms(1,2,4,6) rows status
    by (simp add: run_agent_stage_def get_agent_model_def bindE_def catchE_def py_simps append_invocation_def
        append_ai_invocation_def Let_def invocation_spec_def quiet)
  show "\<forall>W' E sk d' task k key s s' e. w_repos W' = persistence_repos E \<longrightarrow>
      execute_task W' sk d' task k key s = (Inl e, s') \<longrightarrow> inv_rows (ws_world s') = inv_rows (ws_world s)"
    unfolding execute_task_def by (blast dest: pf_transaction_raises same_tables_invocations)
qed

theorem failed_agent_audit_lost_witness:
  "\<exists>w'. run_agent_stage (demo_worker (persistence_repos demo_env)) (demo_deps (pf_create_artifact demo_env))
      (demo_delivery ''2'') CRITIC 0 None (raise (ProviderError ''slow'' True ''timeout'') :: (world, critic_output) prog) demo_world
      = (Inl (ProviderError ''slow'' True ''timeout''), w') \<and> length (inv_rows w') = Suc (length (inv_rows demo_world))"
proof -
  have "clock_only w w" for w by (simp add: clock_only_def)
  then show ?thesis
    using failed_agent_audit_lost [of "demo_deps (pf_create_artifact demo_env)" CRITIC "''m''" demo_world "''fake''" demo_world
        "raise (ProviderError ''slow'' True ''timeout'') :: (world, critic_output) prog" "ProviderError ''slow'' True ''timeout''"
        demo_world "demo_worker (persistence_repos demo_env)" "demo_delivery ''2''" 0 None]
    by (auto simp: is_audited_def is_injection_active_def demo_config_def)
qed

end
