(* ===== verification/Instants.thy ===== *)
theory Instants
  imports Read_Models
begin

text \<open>
  The text of an instant read back: the day number of a date inverts \<open>civil_from_days\<close>, and the
  decimal fields of \<open>strftime('%Y-%m-%dT%H:%M:%S.%fZ')\<close> determine the instant.
\<close>

section \<open>Dates\<close>

definition days_from_civil :: "int \<Rightarrow> int \<Rightarrow> int \<Rightarrow> int" where
  "days_from_civil y m d =
     (let y' = (if m \<le> 2 then y - 1 else y);
          era = y' div 400;
          yoe = y' - era * 400;
          mp = (if 2 < m then m - 3 else m + 9);
          doy = (153 * mp + 2) div 5 + d - 1
      in era * 146097 + (yoe * 365 + yoe div 4 - yoe div 100 + doy) - 719468)"

lemma day_in_cycle:
  fixes doe :: int
  assumes "0 \<le> doe" and "doe < 146097"
  obtains c q r doy where "c = min 3 (doe div 36524)" and "q = (doe - 36524 * c) div 1461"
    and "r = min 3 ((doe - 36524 * c - 1461 * q) div 365)" and "doy = doe - 36524 * c - 1461 * q - 365 * r"
    and "0 \<le> c" "c \<le> 3" "0 \<le> q" "q \<le> 24" "0 \<le> r" "r \<le> 3" "0 \<le> doy" "doy \<le> 365"
proof -
  define c where "c = min 3 (doe div 36524)"
  define doc where "doc = doe - 36524 * c"
  have c: "0 \<le> c" "c \<le> 3" "0 \<le> doc" "doc \<le> 36524"
    using assms unfolding doc_def c_def by (auto simp: min_def)
  define q where "q = doc div 1461"
  define doq where "doq = doc - 1461 * q"
  have q: "0 \<le> q" "q \<le> 24" "0 \<le> doq" "doq \<le> 1460"
    using c(3,4) unfolding doq_def q_def by auto
  define r where "r = min 3 (doq div 365)"
  have "0 \<le> r" "r \<le> 3" "0 \<le> doq - 365 * r" "doq - 365 * r \<le> 365"
    using q(3,4) unfolding r_def by (auto simp: min_def)
  with that [of c q r "doq - 365 * r"] c(1,2) q(1,2) show ?thesis
    by (simp add: c_def [symmetric] doc_def [symmetric] q_def [symmetric] doq_def [symmetric] r_def [symmetric])
qed

lemma days_from_civil_from_days:
  assumes "civil_from_days z = (y, m, d)"
  shows "days_from_civil y m d = z" and "1 \<le> m" and "m \<le> 12" and "1 \<le> d" and "d \<le> 31"
proof -
  define era doe where "era = (z + 719468) div 146097" and "doe = (z + 719468) mod 146097"
  have doe: "0 \<le> doe" "doe < 146097" and z: "z = era * 146097 + doe - 719468"
    by (simp_all add: era_def doe_def)
  from doe obtain c q r doy where def: "c = min 3 (doe div 36524)" "q = (doe - 36524 * c) div 1461"
    "r = min 3 ((doe - 36524 * c - 1461 * q) div 365)" "doy = doe - 36524 * c - 1461 * q - 365 * r"
    and b: "0 \<le> c" "c \<le> 3" "0 \<le> q" "q \<le> 24" "0 \<le> r" "r \<le> 3" "0 \<le> doy" "doy \<le> 365"
    by (rule day_in_cycle)
  define yoe mp where "yoe = 100 * c + 4 * q + r" and "mp = (5 * doy + 2) div 153"
  have yoe: "0 \<le> yoe" "yoe < 400" "yoe div 4 = 25 * c + q" "yoe div 100 = c" using b by (auto simp: yoe_def)
  have mp: "0 \<le> mp" "mp \<le> 11" using b(7,8) by (auto simp: mp_def)
  have "civil_from_days z = (yoe + era * 400 + (if (if mp < 10 then mp + 3 else mp - 9) \<le> 2 then 1 else 0),
      if mp < 10 then mp + 3 else mp - 9, doy - (153 * mp + 2) div 5 + 1)"
    unfolding civil_from_days_def Let_def era_def [symmetric] doe_def [symmetric] def(1) [symmetric]
      def(2) [symmetric] def(3) [symmetric] def(4) [symmetric] yoe_def [symmetric] mp_def [symmetric] by simp
  with assms have y: "y = yoe + era * 400 + (if m \<le> 2 then 1 else 0)" and m: "m = (if mp < 10 then mp + 3 else mp - 9)"
    and d: "d = doy - (153 * mp + 2) div 5 + 1" by auto
  from m mp show "1 \<le> m" "m \<le> 12" by auto
  define e f g where "e = (5 * doy + 2) mod 153" and "f = (153 * mp + 2) div 5" and "g = (153 * mp + 2) mod 5"
  have "5 * doy + 2 = 153 * mp + e" "153 * mp + 2 = 5 * f + g" "0 \<le> e" "e < 153" "0 \<le> g" "g < 5"
    by (simp_all add: mp_def e_def f_def g_def)
  then show "1 \<le> d" "d \<le> 31" unfolding d f_def [symmetric] by linarith+
  have "doe = yoe * 365 + yoe div 4 - yoe div 100 + doy" using def(4) yoe by (simp add: yoe_def)
  moreover have "(if m \<le> 2 then y - 1 else y) = yoe + era * 400" using y by simp
  moreover have "(if 2 < m then m - 3 else m + 9) = mp" using m mp by auto
  moreover have "(yoe + era * 400) div 400 = era" using yoe(1,2) by simp
  ultimately show "days_from_civil y m d = z" using z d by (simp add: days_from_civil_def Let_def)
qed

section \<open>Decimal fields\<close>

lemma length_show_nat: "n < 10 ^ k \<Longrightarrow> 0 < k \<Longrightarrow> length (show_nat n) \<le> k"
proof (induction k arbitrary: n)
  case (Suc k)
  show ?case
  proof (cases "n < 10")
    case False
    then have "0 < k" using Suc.prems(1) by (cases k) auto
    moreover have "n div 10 < 10 ^ k" using Suc.prems(1) by auto
    ultimately show ?thesis using Suc.IH [of "n div 10"] False by (simp add: show_nat.simps [of n])
  qed (simp add: show_nat.simps [of n])
qed simp

lemma length_show_nat_ge: "10 ^ k \<le> n \<Longrightarrow> k < length (show_nat n)"
proof (induction k arbitrary: n)
  case 0
  show ?case by (simp add: show_nat.simps [of n])
next
  case (Suc k)
  then have "10 \<le> n" using one_le_power [of "10::nat" k] by (simp, linarith)
  moreover have "10 ^ k \<le> n div 10" using Suc.prems by (simp add: less_eq_div_iff_mult_less_eq mult.commute)
  ultimately show ?case using Suc.IH [of "n div 10"] by (simp add: show_nat.simps [of n])
qed

lemma read_digits_pad: "read_digits (pad_left k s) = read_digits s"
proof -
  have "foldl (\<lambda>a c. a * 10 + (of_char c - 48)) 0 (replicate n CHR ''0'') = (0::nat)" for n
    by (induction n) simp_all
  then show ?thesis by (simp add: read_digits_def)
qed

text \<open>A number below \<open>10 ^ k\<close> printed with \<open>k\<close> digits.\<close>

lemma padded_field:
  assumes "0 \<le> i" and "i < 10 ^ k" and "0 < k"
  shows "length (pad_left k (show_int i)) = k" and "int (read_digits (pad_left k (show_int i))) = i"
proof -
  have "nat i < 10 ^ k" using assms(1,2) by (simp add: nat_less_iff)
  then show "length (pad_left k (show_int i)) = k"
    using assms length_show_nat [of "nat i" k] by (simp add: show_int_def)
  show "int (read_digits (pad_left k (show_int i))) = i"
    using assms(1) by (simp add: read_digits_pad show_int_def read_show_nat del: pad_left.simps)
qed

section \<open>The stamp of the task queue\<close>

text \<open>\<open>strftime('%Y-%m-%dT%H:%M:%S.%f')\<close>; \<open>%Y\<close> does not pad.\<close>

definition stamp :: "datetime \<Rightarrow> string" where
  "stamp t =
     (let days = t div 86400000000; us = t mod 86400000000;
          (y, m, d) = civil_from_days days;
          secs = us div 1000000; frac = us mod 1000000;
          two = (\<lambda>i. pad_left 2 (show_int i))
      in show_int y @ ''-'' @ two m @ ''-'' @ two d @ ''T''
         @ two (secs div 3600) @ '':'' @ two (secs div 60 mod 60) @ '':'' @ two (secs mod 60)
         @ ''.'' @ pad_left 6 (show_int frac))"

text \<open>
  \<open>datetime.fromisoformat\<close> on the one form the queue writes, a stamp with the suffix \<open>+00:00\<close>:
  the instant is computed from the fields and checked by printing it again.
\<close>

definition read_stamp :: "string \<Rightarrow> datetime" where
  "read_stamp s =
     (let field = (\<lambda>p n. int (read_digits (take n (drop p s))))
      in ((days_from_civil (field 0 4) (field 5 2) (field 8 2) * 24 + field 11 2) * 60 + field 14 2) * 60000000
         + field 17 2 * 1000000 + field 20 6)"

definition parse_stamp :: "string \<Rightarrow> datetime option" where
  "parse_stamp s = (if stamp (read_stamp s) @ ''+00:00'' = s then Some (read_stamp s) else None)"

definition printable_instant :: "datetime \<Rightarrow> bool" where
  "printable_instant t \<longleftrightarrow> (case civil_from_days (t div 86400000000) of (y, m, d) \<Rightarrow> 1000 \<le> y \<and> y \<le> 9999)"

lemma read_stamp_fields:
  assumes "length a = 4" "length b = 2" "length c = 2" "length d = 2" "length e = 2" "length f = 2" "length g = 6"
  shows "read_stamp (a @ ''-'' @ b @ ''-'' @ c @ ''T'' @ d @ '':'' @ e @ '':'' @ f @ ''.'' @ g @ z)
    = ((days_from_civil (read_digits a) (read_digits b) (read_digits c) * 24 + read_digits d) * 60 + read_digits e) * 60000000
      + read_digits f * 1000000 + read_digits g"
  using assms by (simp add: read_stamp_def Let_def)

lemma instant_of_parts:
  fixes us :: int
  assumes "0 \<le> us"
  shows "((days * 24 + us div 1000000 div 3600) * 60 + us div 1000000 div 60 mod 60) * 60000000
    + us div 1000000 mod 60 * 1000000 + us mod 1000000 = days * 86400000000 + us"
proof -
  define s f q mm h ss where "s = us div 1000000" and "f = us mod 1000000" and "q = s div 60" and "mm = q mod 60"
    and "h = s div 3600" and "ss = s mod 60"
  have "us = s * 1000000 + f" "s = q * 60 + ss" by (simp_all add: s_def f_def q_def ss_def)
  moreover have "q = h * 60 + mm"
    using zdiv_zmult2_eq [of 60 s 60] by (simp add: q_def h_def mm_def)
  ultimately show ?thesis
    unfolding s_def [symmetric] f_def [symmetric] q_def [symmetric] mm_def [symmetric] h_def [symmetric] ss_def [symmetric]
    by (simp add: algebra_simps)
qed

lemma read_stamp_stamp:
  assumes "printable_instant t"
  shows "read_stamp (stamp t @ z) = t"
proof -
  obtain y m d where civ: "civil_from_days (t div 86400000000) = (y, m, d)" by (metis prod_cases3)
  note date = days_from_civil_from_days [OF civ]
  have y: "1000 \<le> y" "y \<le> 9999" using assms civ by (auto simp: printable_instant_def)
  define us where "us = t mod 86400000000"
  have us: "0 \<le> us" "us < 86400000000" by (simp_all add: us_def)
  have hms: "0 \<le> us div 1000000 div 3600" "us div 1000000 div 3600 < 10 ^ 2" "0 \<le> us div 1000000 div 60 mod 60"
    "us div 1000000 div 60 mod 60 < 10 ^ 2" "0 \<le> us div 1000000 mod 60" "us div 1000000 mod 60 < 10 ^ 2"
    "0 \<le> us mod 1000000" "us mod 1000000 < 10 ^ 6"
    using us by (auto simp: zdiv_mono1 [of us 86399999999 1000000])
  have yl: "length (show_int y) = 4" "int (read_digits (show_int y)) = y"
    using y length_show_nat [of "nat y" 4] length_show_nat_ge [of 3 "nat y"] by (simp_all add: show_int_def read_show_nat nat_less_iff le_nat_iff)
  have pad: "length (pad_left 2 (show_int i)) = 2" "int (read_digits (pad_left 2 (show_int i))) = i" if "0 \<le> i" "i < 10 ^ 2" for i
    using padded_field [OF that] by simp_all
  have six: "length (pad_left 6 (show_int (us mod 1000000))) = 6"
    "int (read_digits (pad_left 6 (show_int (us mod 1000000)))) = us mod 1000000"
    using padded_field [OF hms(7,8)] by simp_all
  have "stamp t @ z = show_int y @ ''-'' @ pad_left 2 (show_int m) @ ''-'' @ pad_left 2 (show_int d) @ ''T''
      @ pad_left 2 (show_int (us div 1000000 div 3600)) @ '':'' @ pad_left 2 (show_int (us div 1000000 div 60 mod 60))
      @ '':'' @ pad_left 2 (show_int (us div 1000000 mod 60)) @ ''.'' @ pad_left 6 (show_int (us mod 1000000)) @ z"
    by (simp add: stamp_def Let_def civ us_def del: pad_left.simps)
  then have "read_stamp (stamp t @ z)
      = ((days_from_civil y m d * 24 + us div 1000000 div 3600) * 60 + us div 1000000 div 60 mod 60) * 60000000
        + us div 1000000 mod 60 * 1000000 + us mod 1000000"
    using read_stamp_fields [OF yl(1) pad(1) [of m] pad(1) [of d] pad(1) [OF hms(1,2)] pad(1) [OF hms(3,4)]
        pad(1) [OF hms(5,6)] six(1), of z] date(2-5)
    unfolding yl(2) pad(2) [OF hms(1,2)] pad(2) [OF hms(3,4)] pad(2) [OF hms(5,6)] six(2)
    by (simp add: pad(2) del: pad_left.simps)
  also have "\<dots> = t" unfolding date(1) instant_of_parts [OF us(1)] by (simp add: us_def)
  finally show ?thesis .
qed

lemma parse_stamp_stamp: "printable_instant t \<Longrightarrow> parse_stamp (stamp t @ ''+00:00'') = Some t"
  by (simp add: parse_stamp_def read_stamp_stamp)

end
