(* ===== verification/Task_Queue.thy ===== *)
theory Task_Queue
  imports Worker_Support Instants
begin

text \<open>
  \<open>task_queue/\<close>: the stream conventions, the validation and the serialisation of task messages, and
  the queue over Redis streams. The Redis client is a parameter, a record of operations on an
  arbitrary state that return a value or a client error; field maps are lists of pairs of texts,
  already decoded. Instants always carry the UTC zone, so the validator's test for a missing zone
  does not fail on a message built in the program. Logging is left out, and error messages are
  reduced to the attributes of the exceptions.
\<close>

section \<open>Conventions\<close>

record stream_convention =
  scv_stream :: string
  scv_consumer_group :: string
  scv_task_type :: task_type

definition WORKER_STREAM_BY_TASK_TYPE :: "task_type \<Rightarrow> string" where
  "WORKER_STREAM_BY_TASK_TYPE t =
     (case t of
        COLLECT \<Rightarrow> ''cartoon:tasks:collect''
      | SELECT_TOPIC \<Rightarrow> ''cartoon:tasks:select_topic''
      | GENERATE_SCENARIO \<Rightarrow> ''cartoon:tasks:generate_scenario''
      | REVIEW_SCENARIO \<Rightarrow> ''cartoon:tasks:review_scenario'')"

definition WORKER_GROUP_BY_TASK_TYPE :: "task_type \<Rightarrow> string" where
  "WORKER_GROUP_BY_TASK_TYPE t =
     (case t of
        COLLECT \<Rightarrow> ''cartoon:workers:collect''
      | SELECT_TOPIC \<Rightarrow> ''cartoon:workers:select_topic''
      | GENERATE_SCENARIO \<Rightarrow> ''cartoon:workers:generate_scenario''
      | REVIEW_SCENARIO \<Rightarrow> ''cartoon:workers:review_scenario'')"

definition STREAM_CONVENTIONS :: "(string, stream_convention) dict" where
  "STREAM_CONVENTIONS =
     [(''cartoon:tasks:collect'', \<lparr>scv_stream = ''cartoon:tasks:collect'',
         scv_consumer_group = ''cartoon:workers:collect'', scv_task_type = COLLECT\<rparr>),
      (''cartoon:tasks:select_topic'', \<lparr>scv_stream = ''cartoon:tasks:select_topic'',
         scv_consumer_group = ''cartoon:workers:select_topic'', scv_task_type = SELECT_TOPIC\<rparr>),
      (''cartoon:tasks:generate_scenario'', \<lparr>scv_stream = ''cartoon:tasks:generate_scenario'',
         scv_consumer_group = ''cartoon:workers:generate_scenario'', scv_task_type = GENERATE_SCENARIO\<rparr>),
      (''cartoon:tasks:review_scenario'', \<lparr>scv_stream = ''cartoon:tasks:review_scenario'',
         scv_consumer_group = ''cartoon:workers:review_scenario'', scv_task_type = REVIEW_SCENARIO\<rparr>)]"

section \<open>Errors\<close>

datatype redis_error = RedisTimeout | RedisResponse string | RedisFailure

text \<open>
  The errors of the module with their attributes, the built-in exceptions its code or a stand-in for it can raise, and
  a client error that passes through unmapped.
\<close>

datatype queue_error =
    TaskQueueConnectionError
  | TaskQueueUnavailableError
  | InvalidTaskMessageError "string list"
  | ConsumerGroupError string string
  | AckError string
  | StreamNotFoundError string
  | QueueIndexError
  | QueueTypeError
  | QueueRuntimeError
  | RedisRaised redis_error

type_synonym ('s, 'a) queue_prog = "(queue_error, 's, 'a) py"

definition resolve_consumer_group :: "string \<Rightarrow> ('s, string) queue_prog" where
  "resolve_consumer_group stream =
     (case dict_get STREAM_CONVENTIONS stream of
        None \<Rightarrow> raise (StreamNotFoundError stream)
      | Some c \<Rightarrow> ret (scv_consumer_group c))"

section \<open>Validation\<close>

definition non_empty :: "string option \<Rightarrow> string option" where
  "non_empty v = (case v of None \<Rightarrow> None | Some s \<Rightarrow> if strip s = '''' then None else Some (strip s))"

definition missing_when :: "bool \<Rightarrow> string \<Rightarrow> string list" where
  "missing_when b field = (if b then [field] else [])"

definition invalid_fields :: "task_message \<Rightarrow> string list" where
  "invalid_fields m =
     missing_when (non_empty (Some (tm_task_id m)) = None) ''task_id''
     @ missing_when (non_empty (Some (tm_workflow_id m)) = None) ''workflow_id''
     @ missing_when (non_empty (Some (tm_payload_reference m)) = None) ''payload_reference''
     @ missing_when (tm_attempt m < 1) ''attempt''"

definition validate :: "task_message \<Rightarrow> ('s, unit) queue_prog" where
  "validate m = (if invalid_fields m \<noteq> [] then raise (InvalidTaskMessageError (invalid_fields m)) else ret ())"

definition parse_task_type :: "string option \<Rightarrow> task_type option" where
  "parse_task_type raw = (case non_empty raw of None \<Rightarrow> None | Some s \<Rightarrow> task_type_of s)"

definition parse_attempt :: "string option \<Rightarrow> int option" where
  "parse_attempt raw =
     (case non_empty raw of
        None \<Rightarrow> None
      | Some s \<Rightarrow> (case int_of_text s of None \<Rightarrow> None | Some i \<Rightarrow> if i < 1 then None else Some i))"

text \<open>\<open>s.replace("Z", "+00:00")\<close>.\<close>

definition replace_zulu :: "string \<Rightarrow> string" where
  "replace_zulu s = concat (map (\<lambda>c. if c = CHR ''Z'' then ''+00:00'' else [c]) s)"

text \<open>
  \<open>datetime.fromisoformat\<close> is \<open>parse_stamp\<close> on the form the queue writes; on other texts it is the
  parameter \<open>fromiso\<close>, which raises (\<open>None\<close>) or gives a time without zone (\<open>Some None\<close>) or an
  instant.
\<close>

definition parse_created_at :: "(string \<Rightarrow> datetime option option) \<Rightarrow> string \<Rightarrow> datetime option" where
  "parse_created_at fromiso raw =
     (let normalized = replace_zulu (strip raw)
      in case parse_stamp normalized of
           Some t \<Rightarrow> Some t
         | None \<Rightarrow> (case fromiso normalized of Some (Some t) \<Rightarrow> Some t | _ \<Rightarrow> None))"

definition parse_created_field :: "(string \<Rightarrow> datetime option option) \<Rightarrow> string option \<Rightarrow> datetime option" where
  "parse_created_field fromiso raw =
     (case raw of None \<Rightarrow> None
      | Some s \<Rightarrow> if strip s = '''' then None else parse_created_at fromiso s)"

text \<open>The checks in the order of the code; a value is used only when none of them failed.\<close>

definition validate_decoded ::
  "(string \<Rightarrow> datetime option option) \<Rightarrow> string option \<Rightarrow> string option \<Rightarrow> string option \<Rightarrow> string option \<Rightarrow>
   string option \<Rightarrow> string option \<Rightarrow> ('s, task_message) queue_prog"
where
  "validate_decoded fromiso task_id workflow_id task_type_raw attempt_raw created_at_raw payload_reference =
     (let missing =
        missing_when (non_empty task_id = None) ''task_id''
        @ missing_when (non_empty workflow_id = None) ''workflow_id''
        @ missing_when (non_empty payload_reference = None) ''payload_reference''
        @ missing_when (parse_task_type task_type_raw = None) ''task_type''
        @ missing_when (parse_attempt attempt_raw = None) ''attempt''
        @ missing_when (parse_created_field fromiso created_at_raw = None) ''created_at''
      in if missing \<noteq> [] then raise (InvalidTaskMessageError missing)
         else ret \<lparr>tm_task_id = the (non_empty task_id), tm_workflow_id = the (non_empty workflow_id),
                   tm_task_type = the (parse_task_type task_type_raw),
                   tm_attempt = the (parse_attempt attempt_raw),
                   tm_created_at = the (parse_created_field fromiso created_at_raw),
                   tm_payload_reference = the (non_empty payload_reference), tm_trace_carrier = []\<rparr>)"

section \<open>Serialisation\<close>

definition carrier_field :: "(string \<times> string) list \<Rightarrow> string \<Rightarrow> (string \<times> string) list" where
  "carrier_field d key = (case map_of d key of None \<Rightarrow> [] | Some v \<Rightarrow> if v = '''' then [] else [(key, v)])"

definition kept_carrier :: "(string \<times> string) list \<Rightarrow> (string \<times> string) list" where
  "kept_carrier d = carrier_field d ''traceparent'' @ carrier_field d ''tracestate''"

definition message_fields :: "task_message \<Rightarrow> (string \<times> string) list" where
  "message_fields m =
     [(''task_id'', tm_task_id m), (''workflow_id'', tm_workflow_id m),
      (''task_type'', task_type_value (tm_task_type m)), (''attempt'', show_int (tm_attempt m)),
      (''created_at'', stamp (tm_created_at m) @ ''Z''), (''payload_reference'', tm_payload_reference m)]
     @ kept_carrier (tm_trace_carrier m)"

definition encode :: "task_message \<Rightarrow> ('s, (string \<times> string) list) queue_prog" where
  "encode m = bindE (validate m) (\<lambda>_. ret (message_fields m))"

definition decode ::
  "(string \<Rightarrow> datetime option option) \<Rightarrow> (string \<times> string) list \<Rightarrow> ('s, task_message) queue_prog"
where
  "decode fromiso flds =
     bindE (validate_decoded fromiso (map_of flds ''task_id'') (map_of flds ''workflow_id'')
              (map_of flds ''task_type'') (map_of flds ''attempt'') (map_of flds ''created_at'')
              (map_of flds ''payload_reference'')) (\<lambda>m.
     let carrier = kept_carrier flds in
     if carrier \<noteq> [] then ret (m\<lparr>tm_trace_carrier := carrier\<rparr>) else ret m)"

section \<open>The queue over Redis streams\<close>

record group_info =
  gi_name :: string
  gi_lag :: "int option"
  gi_last_delivered_id :: string

type_synonym stream_entry = "string \<times> (string \<times> string) list"

type_synonym ('s, 'a) redis_prog = "(redis_error, 's, 'a) py"

record 's redis_client =
  rd_xadd :: "string \<Rightarrow> (string \<times> string) list \<Rightarrow> ('s, string) redis_prog"
  rd_xreadgroup :: "string \<Rightarrow> string \<Rightarrow> string \<Rightarrow> int option \<Rightarrow> ('s, (string \<times> stream_entry list) list) redis_prog"
  rd_xautoclaim :: "string \<Rightarrow> string \<Rightarrow> string \<Rightarrow> ('s, stream_entry list) redis_prog"
  rd_xack :: "string \<Rightarrow> string \<Rightarrow> string \<Rightarrow> ('s, int) redis_prog"
  rd_xgroup_create :: "string \<Rightarrow> string \<Rightarrow> string \<Rightarrow> ('s, unit) redis_prog"
  rd_xinfo_groups :: "string \<Rightarrow> ('s, group_info list) redis_prog"
  rd_exists :: "string \<Rightarrow> ('s, bool) redis_prog"
  rd_xpending :: "string \<Rightarrow> string \<Rightarrow> ('s, int) redis_prog"
  rd_xpending_range :: "string \<Rightarrow> string \<Rightarrow> int \<Rightarrow> ('s, string list) redis_prog"
  rd_xrange_after :: "string \<Rightarrow> string \<Rightarrow> ('s, stream_entry list) redis_prog"
  rd_xrange_at :: "string \<Rightarrow> string \<Rightarrow> ('s, stream_entry list) redis_prog"
  rd_now :: "'s \<Rightarrow> datetime \<times> 's"

text \<open>A client call under the two \<open>except\<close> clauses, and one outside of them.\<close>

definition guarded :: "('s, 'a) redis_prog \<Rightarrow> ('s, 'a) queue_prog" where
  "guarded m s =
     (case m s of
        (Inr x, s') \<Rightarrow> (Inr x, s')
      | (Inl RedisTimeout, s') \<Rightarrow> (Inl TaskQueueUnavailableError, s')
      | (Inl _, s') \<Rightarrow> (Inl TaskQueueConnectionError, s'))"

definition unguarded :: "('s, 'a) redis_prog \<Rightarrow> ('s, 'a) queue_prog" where
  "unguarded m s = (case m s of (Inr x, s') \<Rightarrow> (Inr x, s') | (Inl e, s') \<Rightarrow> (Inl (RedisRaised e), s'))"

definition queue_clock :: "'s redis_client \<Rightarrow> ('s, datetime) queue_prog" where
  "queue_clock R s = (case rd_now R s of (t, s') \<Rightarrow> (Inr t, s'))"

definition is_valid_stream_name :: "string \<Rightarrow> bool" where
  "is_valid_stream_name stream =
     (let stripped = strip stream in stripped \<noteq> '''' \<and> \<not> list_ex is_space stripped)"

definition validate_stream_for_dequeue :: "string \<Rightarrow> string \<Rightarrow> string \<Rightarrow> ('s, unit) queue_prog" where
  "validate_stream_for_dequeue stream consumer_group consumer_name =
     (if \<not> is_valid_stream_name stream then raise (ConsumerGroupError stream consumer_group)
      else if strip consumer_group = '''' then raise (ConsumerGroupError stream consumer_group)
      else if strip consumer_name = '''' then raise (ConsumerGroupError stream consumer_group)
      else ret ())"

record enqueue_result =
  eqr_delivery_id :: string
  eqr_enqueued_at :: datetime

definition enqueue :: "'s redis_client \<Rightarrow> string \<Rightarrow> task_message \<Rightarrow> ('s, enqueue_result) queue_prog" where
  "enqueue R stream m =
     bindE (if \<not> is_valid_stream_name stream then raise (StreamNotFoundError stream) else ret ()) (\<lambda>_.
     bindE (validate m) (\<lambda>_.
     bindE (encode m) (\<lambda>flds.
     bindE (guarded (rd_xadd R stream flds)) (\<lambda>delivery_id.
     bindE (queue_clock R) (\<lambda>now.
     ret \<lparr>eqr_delivery_id = delivery_id, eqr_enqueued_at = now\<rparr>)))))"

definition group_exists :: "'s redis_client \<Rightarrow> string \<Rightarrow> string \<Rightarrow> ('s, bool) queue_prog" where
  "group_exists R stream grp =
     catchE (bindE (unguarded (rd_xinfo_groups R stream)) (\<lambda>groups. ret (list_ex (\<lambda>g. gi_name g = grp) groups)))
       (\<lambda>e. case e of RedisRaised (RedisResponse _) \<Rightarrow> ret False | _ \<Rightarrow> raise e)"

definition resolve_block_ms :: "int \<Rightarrow> int option \<Rightarrow> int" where
  "resolve_block_ms dflt block_ms = (case block_ms of None \<Rightarrow> dflt | Some b \<Rightarrow> if b \<le> 0 then 0 else b)"

definition claim_pending_delivery ::
  "'s redis_client \<Rightarrow> string \<Rightarrow> string \<Rightarrow> string \<Rightarrow> ('s, (string \<times> stream_entry list) list) queue_prog"
where
  "claim_pending_delivery R stream grp consumer =
     bindE (guarded (rd_xautoclaim R stream grp consumer)) (\<lambda>messages.
     ret (if messages = [] then [] else [(stream, messages)]))"

definition first_entry :: "(string \<times> stream_entry list) list \<Rightarrow> ('s, stream_entry) queue_prog" where
  "first_entry response = (case response of (_, e # _) # _ \<Rightarrow> ret e | _ \<Rightarrow> raise QueueIndexError)"

text \<open>A message that does not decode is acknowledged, so that it is not delivered again, and reported.\<close>

definition queue_dequeue ::
  "'s redis_client \<Rightarrow> (string \<Rightarrow> datetime option option) \<Rightarrow> int \<Rightarrow> string \<Rightarrow> string \<Rightarrow> string \<Rightarrow> int option \<Rightarrow>
   ('s, pending_delivery option) queue_prog"
where
  "queue_dequeue R fromiso block_default stream grp consumer block_ms =
     bindE (validate_stream_for_dequeue stream grp consumer) (\<lambda>_.
     let block = resolve_block_ms block_default block_ms in
     bindE (group_exists R stream grp) (\<lambda>known.
     if \<not> known then raise (ConsumerGroupError stream grp)
     else
       bindE (guarded (rd_xreadgroup R grp consumer stream (if 0 < block then Some block else None))) (\<lambda>read.
       bindE (if read = [] then claim_pending_delivery R stream grp consumer else ret read) (\<lambda>response.
       if response = [] then ret None
       else
         bindE (first_entry response) (\<lambda>(delivery_id, flds).
         bindE (catchE (decode fromiso flds) (\<lambda>e.
            case e of
              InvalidTaskMessageError missing \<Rightarrow>
                bindE (catchE (bindE (unguarded (rd_xack R stream grp delivery_id)) (\<lambda>_. ret ())) (\<lambda>_. ret ())) (\<lambda>_.
                raise (InvalidTaskMessageError missing))
            | _ \<Rightarrow> raise e)) (\<lambda>m.
         bindE (queue_clock R) (\<lambda>now.
         ret (Some \<lparr>pd_message = m, pd_stream = stream, pd_consumer_group = grp, pd_delivery_id = delivery_id,
                    pd_dequeued_at = now\<rparr>))))))))"

definition queue_ack :: "'s redis_client \<Rightarrow> pending_delivery \<Rightarrow> ('s, unit) queue_prog" where
  "queue_ack R d =
     bindE (guarded (rd_xack R (pd_stream d) (pd_consumer_group d) (pd_delivery_id d))) (\<lambda>count.
     if count = 0 then raise (AckError (pd_delivery_id d)) else ret ())"

text \<open>\<open>"BUSYGROUP" in str(exc)\<close>.\<close>

fun has_infix :: "string \<Rightarrow> string \<Rightarrow> bool" where
  "has_infix needle s \<longleftrightarrow> take (length needle) s = needle \<or> (case s of [] \<Rightarrow> False | _ # r \<Rightarrow> has_infix needle r)"

declare has_infix.simps [simp del]

definition ensure_group :: "'s redis_client \<Rightarrow> string \<Rightarrow> string \<Rightarrow> string \<Rightarrow> ('s, unit) queue_prog" where
  "ensure_group R stream grp start_id =
     catchE (unguarded (rd_xgroup_create R stream grp start_id))
       (\<lambda>e. case e of
          RedisRaised (RedisResponse msg) \<Rightarrow>
            if has_infix ''BUSYGROUP'' msg then ret () else raise (ConsumerGroupError stream grp)
        | _ \<Rightarrow> raise e)"

definition ensure_consumer_group :: "'s redis_client \<Rightarrow> string \<Rightarrow> string \<Rightarrow> string \<Rightarrow> ('s, unit) queue_prog" where
  "ensure_consumer_group R stream grp start_id =
     bindE (validate_stream_for_dequeue stream grp ''consumer'') (\<lambda>_.
     ensure_group R stream grp start_id)"

section \<open>Queue statistics\<close>

record queue_stats =
  qs_depth :: int
  qs_oldest_message_age_seconds :: rat

definition find_group_row :: "group_info list \<Rightarrow> string \<Rightarrow> string \<Rightarrow> ('s, group_info) queue_prog" where
  "find_group_row groups grp stream =
     (case find (\<lambda>g. gi_name g = grp) groups of
        None \<Rightarrow> raise (ConsumerGroupError stream grp)
      | Some g \<Rightarrow> ret g)"

definition created_at_for_entry ::
  "'s redis_client \<Rightarrow> (string \<Rightarrow> datetime option option) \<Rightarrow> string \<Rightarrow> string \<Rightarrow> ('s, datetime option) queue_prog"
where
  "created_at_for_entry R fromiso stream entry_id =
     bindE (unguarded (rd_xrange_at R stream entry_id)) (\<lambda>entries.
     case entries of
       [] \<Rightarrow> ret None
     | (_, flds) # _ \<Rightarrow>
         (case map_of flds ''created_at'' of None \<Rightarrow> ret None | Some raw \<Rightarrow> ret (parse_created_at fromiso raw)))"

definition pending_entries :: "'s redis_client \<Rightarrow> string \<Rightarrow> string \<Rightarrow> ('s, string list) queue_prog" where
  "pending_entries R stream grp =
     bindE (unguarded (rd_xinfo_groups R stream)) (\<lambda>groups.
     bindE (find_group_row groups grp stream) (\<lambda>_.
     unguarded (rd_xpending_range R stream grp 1000)))"

definition lag_entry_ids :: "'s redis_client \<Rightarrow> string \<Rightarrow> string \<Rightarrow> ('s, string list) queue_prog" where
  "lag_entry_ids R stream grp =
     bindE (unguarded (rd_xinfo_groups R stream)) (\<lambda>groups.
     bindE (find_group_row groups grp stream) (\<lambda>row.
     bindE (unguarded (rd_xrange_after R stream (gi_last_delivered_id row))) (\<lambda>entries.
     ret (map fst entries))))"

definition oldest_age_seconds :: "datetime list \<Rightarrow> datetime \<Rightarrow> rat" where
  "oldest_age_seconds created now = max 0 (of_int (now - fold min (tl created) (hd created)) / 1000000)"

definition collect_stats ::
  "'s redis_client \<Rightarrow> (string \<Rightarrow> datetime option option) \<Rightarrow> string \<Rightarrow> ('s, queue_stats) queue_prog"
where
  "collect_stats R fromiso stream =
     bindE (resolve_consumer_group stream) (\<lambda>grp.
     bindE (unguarded (rd_xinfo_groups R stream)) (\<lambda>groups.
     bindE (find_group_row groups grp stream) (\<lambda>row.
     bindE (case gi_lag row of None \<Rightarrow> raise QueueTypeError | Some l \<Rightarrow> ret l) (\<lambda>lag.
     bindE (unguarded (rd_xpending R stream grp)) (\<lambda>pending_count.
     let depth = lag + pending_count in
     if depth = 0 then ret \<lparr>qs_depth = 0, qs_oldest_message_age_seconds = 0\<rparr>
     else
       bindE (pending_entries R stream grp) (\<lambda>pending_ids.
       bindE (forE pending_ids (created_at_for_entry R fromiso stream)) (\<lambda>pending_created.
       bindE (lag_entry_ids R stream grp) (\<lambda>lag_ids.
       bindE (forE lag_ids (created_at_for_entry R fromiso stream)) (\<lambda>lag_created.
       let created = List.map_filter id (pending_created @ lag_created) in
       if created = [] then ret \<lparr>qs_depth = depth, qs_oldest_message_age_seconds = 0\<rparr>
       else
         bindE (queue_clock R) (\<lambda>now.
         ret \<lparr>qs_depth = depth, qs_oldest_message_age_seconds = oldest_age_seconds created now\<rparr>))))))))))"

text \<open>Client errors of the collection are mapped by the caller.\<close>

definition map_client_error :: "queue_error \<Rightarrow> queue_error" where
  "map_client_error e =
     (case e of
        RedisRaised RedisTimeout \<Rightarrow> TaskQueueUnavailableError
      | RedisRaised _ \<Rightarrow> TaskQueueConnectionError
      | _ \<Rightarrow> e)"

definition get_queue_stats ::
  "'s redis_client \<Rightarrow> (string \<Rightarrow> datetime option option) \<Rightarrow> string \<Rightarrow> ('s, queue_stats) queue_prog"
where
  "get_queue_stats R fromiso stream =
     bindE (resolve_consumer_group stream) (\<lambda>_.
     if \<not> is_valid_stream_name stream then raise (StreamNotFoundError stream)
     else
       bindE (guarded (rd_exists R stream)) (\<lambda>found.
       if \<not> found then raise (StreamNotFoundError stream)
       else catchE (collect_stats R fromiso stream) (\<lambda>e. raise (map_client_error e))))"

end
