(* ===== verification/Queue_Properties.thy ===== *)
theory Queue_Properties
  imports Task_Queue Stage_Properties
begin

text \<open>
  The queue's messages: what is encoded is decoded again, and what must not be queued is refused.
\<close>

section \<open>Text\<close>

lemma strip_id: "s \<noteq> [] \<Longrightarrow> \<not> is_space (hd s) \<Longrightarrow> \<not> is_space (last s) \<Longrightarrow> strip s = s"
proof -
  assume s: "s \<noteq> []" "\<not> is_space (hd s)" "\<not> is_space (last s)"
  then have "dropWhile is_space s = s" by (cases s) simp_all
  moreover have "dropWhile is_space (rev s) = rev s" using s by (cases s rule: rev_cases) simp_all
  ultimately show ?thesis by (simp add: strip_def)
qed

lemma strip_ends:
  assumes "strip s \<noteq> []"
  shows "\<not> is_space (hd (strip s))" and "\<not> is_space (last (strip s))"
proof -
  let ?l = "dropWhile is_space s"
  have r: "dropWhile is_space (rev ?l) \<noteq> []" using assms by (simp add: strip_def)
  then show "\<not> is_space (last (strip s))" by (simp add: strip_def last_rev hd_dropWhile)
  have "?l \<noteq> []" using r by (metis dropWhile.simps(1) rev.simps(1))
  then have "\<not> is_space (hd ?l)" by (rule hd_dropWhile)
  moreover obtain ys where "rev ?l = ys @ dropWhile is_space (rev ?l)"
    by (metis takeWhile_dropWhile_id)
  then have "?l = strip s @ rev ys" by (metis rev_append rev_rev_ident strip_def)
  ultimately show "\<not> is_space (hd (strip s))" using assms by (metis hd_append2)
qed

lemma strip_strip [simp]: "strip (strip s) = strip s"
proof (cases "strip s = []")
  case True
  then show ?thesis by (simp only: True) (simp add: strip_def)
qed (use strip_ends strip_id in blast)

lemma digits_not_space: "c \<in> set (show_nat n) \<Longrightarrow> \<not> is_space c"
  using show_nat_digits [of c n] by (auto simp: is_space_def)

lemma show_nat_nonempty [simp]: "show_nat n \<noteq> []"
  by (subst show_nat.simps) simp

lemma strip_show_int [simp]: "strip (show_int i) = show_int i"
proof (rule strip_id)
  show "\<not> is_space (hd (show_int i))"
    using digits_not_space [OF hd_in_set [OF show_nat_nonempty]]
    by (cases "i < 0") (simp_all add: show_int_def is_space_def)
  show "\<not> is_space (last (show_int i))"
    using digits_not_space [OF last_in_set [OF show_nat_nonempty]] by (simp add: show_int_def)
qed (simp add: show_int_def)

lemma digit_char: "48 \<le> (of_char c :: nat) \<Longrightarrow> (of_char c :: nat) < 58 \<Longrightarrow> CHR ''0'' \<le> c \<and> c \<le> CHR ''9''"
  by (simp add: less_eq_char_def)

lemma digits_value_digits:
  assumes "\<forall>c \<in> set ds. 48 \<le> (of_char c :: nat) \<and> (of_char c :: nat) < 58" and "ds \<noteq> [] \<or> ok"
  shows "digits_value ok (int acc) ds = Some (int (foldl (\<lambda>a c. a * 10 + (of_char c - 48)) acc ds))"
  using assms
proof (induction ds arbitrary: ok acc)
  case (Cons c cs)
  then have c: "48 \<le> (of_char c :: nat)" "(of_char c :: nat) < 58" by auto
  have "int acc * 10 + int (of_char c) - 48 = int (acc * 10 + (of_char c - 48))"
    using c(1) by (simp add: of_nat_diff)
  moreover have "digits_value True (int (acc * 10 + (of_char c - 48))) cs
      = Some (int (foldl (\<lambda>a c. a * 10 + (of_char c - 48)) (acc * 10 + (of_char c - 48)) cs))"
    using Cons.IH [of True "acc * 10 + (of_char c - 48)"] Cons.prems(1) by simp
  ultimately show ?case using digit_char [OF c] by simp
qed simp

lemma int_of_text_show_int [simp]: "int_of_text (show_int i) = Some i"
proof -
  have digits: "digits_value False 0 (show_nat n) = Some (int n)" for n
    using digits_value_digits [of "show_nat n" False 0] show_nat_digits read_show_nat [of n]
    by (auto simp: read_digits_def)
  obtain c cs where cs: "show_nat (nat i) = c # cs" by (cases "show_nat (nat i)") auto
  then have "c \<noteq> CHR ''-''" "c \<noteq> CHR ''+''" using show_nat_digits [of c "nat i"] by auto
  then show ?thesis using digits [of "nat i"] digits [of "nat (- i)"] cs
    unfolding int_of_text_def strip_show_int by (cases "i < 0") (simp_all add: show_int_def)
qed

section \<open>Messages\<close>

lemma strip_task_type [simp]: "strip (task_type_value t) = task_type_value t"
  by (rule strip_id) (cases t; simp add: is_space_def)+

lemma parse_task_type_value: "parse_task_type (Some (task_type_value t)) = Some t"
proof -
  have "task_type_value t \<noteq> ''''" by (cases t) simp_all
  then show ?thesis by (simp add: parse_task_type_def non_empty_def)
qed

lemma parse_attempt_show: "1 \<le> i \<Longrightarrow> parse_attempt (Some (show_int i)) = Some i"
proof -
  have "show_int i \<noteq> ''''" by (simp add: show_int_def)
  moreover assume "1 \<le> i"
  ultimately show ?thesis by (simp add: parse_attempt_def non_empty_def)
qed

lemma pad_digits:
  assumes "0 \<le> i" and "c \<in> set (pad_left k (show_int i))"
  shows "48 \<le> (of_char c :: nat) \<and> (of_char c :: nat) < 58"
  using assms show_nat_digits [of c "nat i"] by (auto simp: show_int_def split: if_splits)

text \<open>Every character of a stamp is a digit or one of the separators.\<close>

lemma stamp_chars:
  assumes "printable_instant t" and "c \<in> set (stamp t)"
  shows "48 \<le> (of_char c :: nat) \<and> (of_char c :: nat) < 58 \<or> c \<in> set ''-T:.''"
proof -
  obtain y m d where civ: "civil_from_days (t div 86400000000) = (y, m, d)" by (metis prod_cases3)
  have "0 \<le> y" using assms(1) civ by (simp add: printable_instant_def)
  then have y: "48 \<le> (of_char c :: nat) \<and> (of_char c :: nat) < 58" if "c \<in> set (show_int y)"
    using pad_digits [of y c 0] that by simp
  have us: "0 \<le> t mod 86400000000" by simp
  have "c \<in> set (show_int y) \<or> (\<exists>k i. 0 \<le> i \<and> c \<in> set (pad_left k (show_int i))) \<or> c \<in> set ''-T:.''"
    using assms(2) days_from_civil_from_days(2,4) [OF civ] us
    unfolding stamp_def Let_def civ prod.case set_append Un_iff
    by (elim disjE) (auto simp del: pad_left.simps intro: exI [of _ m] exI [of _ d] pos_imp_zdiv_nonneg_iff [THEN iffD2])
  then show ?thesis using y pad_digits by blast
qed

lemma replace_zulu_id: "CHR ''Z'' \<notin> set s \<Longrightarrow> replace_zulu s = s"
  by (induction s) (auto simp: replace_zulu_def)

lemma parse_created_at_stamp:
  assumes "printable_instant t"
  shows "parse_created_at fromiso (stamp t @ ''Z'') = Some t" and "strip (stamp t @ ''Z'') = stamp t @ ''Z''"
proof -
  have ne: "stamp t \<noteq> []" by (simp add: stamp_def Let_def split: prod.splits)
  have "CHR ''Z'' \<notin> set (stamp t)" using stamp_chars [OF assms, of "CHR ''Z''"] by auto
  then have "replace_zulu (stamp t @ ''Z'') = stamp t @ ''+00:00''"
    using replace_zulu_id [of "stamp t"] by (simp add: replace_zulu_def)
  moreover have "\<not> is_space (hd (stamp t))"
    using stamp_chars [OF assms hd_in_set [OF ne]] by (auto simp: is_space_def)
  then show strip: "strip (stamp t @ ''Z'') = stamp t @ ''Z''" using ne by (intro strip_id) (auto simp: is_space_def)
  ultimately show "parse_created_at fromiso (stamp t @ ''Z'') = Some t"
    unfolding parse_created_at_def strip using parse_stamp_stamp [OF assms] by simp
qed

lemma message_field:
  "map_of (message_fields m) ''task_id'' = Some (tm_task_id m)"
  "map_of (message_fields m) ''workflow_id'' = Some (tm_workflow_id m)"
  "map_of (message_fields m) ''task_type'' = Some (task_type_value (tm_task_type m))"
  "map_of (message_fields m) ''attempt'' = Some (show_int (tm_attempt m))"
  "map_of (message_fields m) ''created_at'' = Some (stamp (tm_created_at m) @ ''Z'')"
  "map_of (message_fields m) ''payload_reference'' = Some (tm_payload_reference m)"
  by (simp_all add: message_fields_def)

lemma kept_carrier_fields: "kept_carrier (message_fields m) = kept_carrier (tm_trace_carrier m)"
  by (simp add: message_fields_def kept_carrier_def carrier_field_def split: option.splits)

text \<open>
  C36. A task message survives the queue: a message is encoded exactly when its identifiers are not
  blank and its attempt is positive (otherwise \<open>InvalidTaskMessageError\<close> names the offending fields),
  and decoding the stream fields gives the same message back, with its identifiers stripped of
  surrounding white space and only the two trace entries of its carrier.
\<close>

theorem message_roundtrip:
  assumes "printable_instant (tm_created_at m)"
  shows "bindE (encode m) (decode fromiso) s =
    (if invalid_fields m \<noteq> [] then (Inl (InvalidTaskMessageError (invalid_fields m)), s)
     else (Inr (m\<lparr>tm_task_id := strip (tm_task_id m), tm_workflow_id := strip (tm_workflow_id m),
                  tm_payload_reference := strip (tm_payload_reference m),
                  tm_trace_carrier := kept_carrier (tm_trace_carrier m)\<rparr>), s))"
proof (cases "invalid_fields m = []")
  case True
  then have ids: "strip (tm_task_id m) \<noteq> ''''" "strip (tm_workflow_id m) \<noteq> ''''"
    "strip (tm_payload_reference m) \<noteq> ''''" "1 \<le> tm_attempt m"
    by (auto simp: invalid_fields_def missing_when_def non_empty_def split: if_splits)
  have created: "parse_created_field fromiso (Some (stamp (tm_created_at m) @ ''Z'')) = Some (tm_created_at m)"
    using parse_created_at_stamp [OF assms] by (simp add: parse_created_field_def)
  have "decode fromiso (message_fields m) s = (Inr (m\<lparr>tm_task_id := strip (tm_task_id m),
      tm_workflow_id := strip (tm_workflow_id m), tm_payload_reference := strip (tm_payload_reference m),
      tm_trace_carrier := kept_carrier (tm_trace_carrier m)\<rparr>), s)"
    unfolding decode_def message_field kept_carrier_fields validate_decoded_def parse_task_type_value created
      parse_attempt_show [OF ids(4)] Let_def
    using ids by (simp add: missing_when_def non_empty_def)
  with True show ?thesis by (simp add: encode_def validate_def)
qed (simp add: encode_def validate_def bindE_assoc py_simps)

definition demo_message :: task_message where
  "demo_message = \<lparr>tm_task_id = '' 2 '', tm_workflow_id = ''wf-1'', tm_task_type = COLLECT, tm_attempt = 1,
     tm_created_at = 1700000000123456, tm_payload_reference = ''p'',
     tm_trace_carrier = [(''baggage'', ''x''), (''traceparent'', ''00'')]\<rparr>"

theorem message_roundtrip_witness:
  "bindE (encode demo_message) (decode (\<lambda>_. None)) () =
     (Inr (demo_message\<lparr>tm_task_id := ''2'', tm_trace_carrier := [(''traceparent'', ''00'')]\<rparr>), ())"
proof -
  have "printable_instant (tm_created_at demo_message)" by code_simp
  note message_roundtrip [OF this, of "\<lambda>_. None" "()"]
  moreover have "strip (tm_task_id demo_message) = ''2''"
    "strip (tm_workflow_id demo_message) = tm_workflow_id demo_message"
    "strip (tm_payload_reference demo_message) = tm_payload_reference demo_message"
    "kept_carrier (tm_trace_carrier demo_message) = [(''traceparent'', ''00'')]"
    by (simp_all add: demo_message_def strip_def is_space_def kept_carrier_def carrier_field_def)
  moreover from this have "invalid_fields demo_message = []"
    by (simp add: invalid_fields_def missing_when_def non_empty_def) (simp add: demo_message_def)
  ultimately show ?thesis by (simp add: demo_message_def)
qed

end
