(* ===== verification/Outbox_Publisher.thy ===== *)
theory Outbox_Publisher
  imports Queue_Properties
begin

text \<open>
  \<open>runtime/outbox.py\<close>: the coordinator's loop that moves outbox rows to the task queue. The queue's
  \<open>enqueue\<close>, the repository's \<open>mark_published\<close> and the trace carrier of the current context are
  parameters; the worker record carries the environment, the configuration and the failure-injection
  hooks of the process. \<open>ps_sent\<close> lists the calls of \<open>enqueue\<close> that returned and \<open>ps_slept\<close> the
  arguments of \<open>time.sleep\<close>.
\<close>

section \<open>State\<close>

record 'q publisher_state =
  ps_world :: world
  ps_queue :: 'q
  ps_sent :: "(string \<times> task_message) list"
  ps_slept :: "rat list"

datatype publish_error =
    OutboxPublishPermanentError
  | OutboxPublishTransientError string
  | PublishQueueError queue_error
  | PublishRepoError exn

type_synonym ('q, 'a) publish_prog = "(publish_error, 'q publisher_state, 'a) py"

record 'q publisher =
  pb_process :: worker
  pb_enqueue :: "string \<Rightarrow> task_message \<Rightarrow> ('q, enqueue_result) queue_prog"
  pb_mark_published :: "string \<Rightarrow> datetime \<Rightarrow> (world, outbox_entry) prog"
  pb_carrier :: "(string \<times> string) list"
  pb_batch_size :: int

definition on_repo :: "(world, 'a) prog \<Rightarrow> ('q, 'a) publish_prog" where
  "on_repo m s =
     (case m (ps_world s) of
        (Inr x, w) \<Rightarrow> (Inr x, s\<lparr>ps_world := w\<rparr>)
      | (Inl e, w) \<Rightarrow> (Inl (PublishRepoError e), s\<lparr>ps_world := w\<rparr>))"

definition send :: "'q publisher \<Rightarrow> string \<Rightarrow> task_message \<Rightarrow> ('q, unit) publish_prog" where
  "send P stream m s =
     (case pb_enqueue P stream m (ps_queue s) of
        (Inr _, q) \<Rightarrow> (Inr (), s\<lparr>ps_queue := q, ps_sent := ps_sent s @ [(stream, m)]\<rparr>)
      | (Inl e, q) \<Rightarrow> (Inl (PublishQueueError e), s\<lparr>ps_queue := q\<rparr>))"

definition sleep_backoff :: "rat \<Rightarrow> ('q, unit) publish_prog" where
  "sleep_backoff seconds = whenE (0 < seconds) (modifyE (\<lambda>s. s\<lparr>ps_slept := ps_slept s @ [seconds]\<rparr>))"

section \<open>Retries\<close>

definition OUTBOX_RETRY_INITIAL_SECONDS :: rat where "OUTBOX_RETRY_INITIAL_SECONDS = 1"
definition OUTBOX_RETRY_MAX_SECONDS :: rat where "OUTBOX_RETRY_MAX_SECONDS = 30"
definition OUTBOX_RETRY_MAX_ATTEMPTS :: nat where "OUTBOX_RETRY_MAX_ATTEMPTS = 5"

fun outbox_retry_schedule :: "rat \<Rightarrow> rat \<Rightarrow> nat \<Rightarrow> rat list" where
  "outbox_retry_schedule delay cap 0 = []"
| "outbox_retry_schedule delay cap (Suc n) =
     min delay cap # outbox_retry_schedule (delay * 2) cap n"

definition default_schedule :: "rat list" where
  "default_schedule =
     outbox_retry_schedule OUTBOX_RETRY_INITIAL_SECONDS OUTBOX_RETRY_MAX_SECONDS OUTBOX_RETRY_MAX_ATTEMPTS"

text \<open>The class names of the errors that are tried again.\<close>

fun transient_queue_error :: "queue_error \<Rightarrow> string option" where
  "transient_queue_error TaskQueueConnectionError = Some ''TaskQueueConnectionError''"
| "transient_queue_error TaskQueueUnavailableError = Some ''TaskQueueUnavailableError''"
| "transient_queue_error QueueRuntimeError = Some ''RuntimeError''"
| "transient_queue_error _ = None"

definition transient_repo_error :: "exn \<Rightarrow> string option" where
  "transient_repo_error e =
     (if exn_class e \<in> {''TaskQueueConnectionError'', ''TaskQueueUnavailableError'', ''RuntimeError''}
      then Some (exn_class e) else None)"

fun enqueue_attempts :: "'q publisher \<Rightarrow> string \<Rightarrow> task_message \<Rightarrow> string \<Rightarrow> rat list \<Rightarrow> ('q, unit) publish_prog" where
  "enqueue_attempts P stream m last_error [] = raise (OutboxPublishTransientError last_error)"
| "enqueue_attempts P stream m last_error (delay # later) =
     catchE (send P stream m) (\<lambda>e.
       case e of
         PublishQueueError (InvalidTaskMessageError _) \<Rightarrow> raise OutboxPublishPermanentError
       | PublishQueueError qe \<Rightarrow>
           (case transient_queue_error qe of
              None \<Rightarrow> raise e
            | Some cls \<Rightarrow>
                bindE (whenE (later \<noteq> []) (sleep_backoff delay)) (\<lambda>_.
                enqueue_attempts P stream m cls later))
       | _ \<Rightarrow> raise e)"

definition enqueue_with_retry :: "'q publisher \<Rightarrow> string \<Rightarrow> task_message \<Rightarrow> ('q, unit) publish_prog" where
  "enqueue_with_retry P stream m = enqueue_attempts P stream m ''enqueue_failed'' default_schedule"

fun mark_attempts :: "'q publisher \<Rightarrow> outbox_entry \<Rightarrow> datetime \<Rightarrow> string \<Rightarrow> rat list \<Rightarrow> ('q, unit) publish_prog" where
  "mark_attempts P e now last_error [] = raise (OutboxPublishTransientError last_error)"
| "mark_attempts P e now last_error (delay # later) =
     catchE (bindE (on_repo (pb_mark_published P (ob_id e) now)) (\<lambda>_. ret ())) (\<lambda>err.
       case err of
         PublishRepoError re \<Rightarrow>
           (case transient_repo_error re of
              None \<Rightarrow> raise err
            | Some cls \<Rightarrow>
                bindE (whenE (later \<noteq> []) (sleep_backoff delay)) (\<lambda>_.
                mark_attempts P e now cls later))
       | _ \<Rightarrow> raise err)"

definition mark_published_with_retry :: "'q publisher \<Rightarrow> outbox_entry \<Rightarrow> ('q, unit) publish_prog" where
  "mark_published_with_retry P e =
     bindE (on_repo (utc_now (w_env (pb_process P)))) (\<lambda>now.
     mark_attempts P e now ''mark_published_failed'' default_schedule)"

section \<open>One batch\<close>

definition resolve_outbox_stream :: "outbox_entry \<Rightarrow> string" where
  "resolve_outbox_stream e = WORKER_STREAM_BY_TASK_TYPE (ob_task_type e)"

definition outbox_message :: "'q publisher \<Rightarrow> outbox_entry \<Rightarrow> task_record \<Rightarrow> task_message" where
  "outbox_message P e k =
     \<lparr>tm_task_id = ob_task_id e, tm_workflow_id = ob_workflow_id e, tm_task_type = ob_task_type e,
      tm_attempt = tk_attempt k, tm_created_at = tk_created_at k,
      tm_payload_reference = ref_id (ob_payload_reference e), tm_trace_carrier = pb_carrier P\<rparr>"

definition build_message :: "'q publisher \<Rightarrow> outbox_entry \<Rightarrow> ('q, task_message) publish_prog" where
  "build_message P e =
     bindE (gets (get_task (ob_task_id e) \<circ> ps_world)) (\<lambda>row.
     case row of
       None \<Rightarrow> raise OutboxPublishPermanentError
     | Some k \<Rightarrow> ret (outbox_message P e k))"

definition publish_entry :: "'q publisher \<Rightarrow> outbox_entry \<Rightarrow> ('q, unit) publish_prog" where
  "publish_entry P e =
     bindE (build_message P e) (\<lambda>m.
     bindE (on_repo (invoke_if_active (pb_process P) FINJ_COORD_DISPATCH)) (\<lambda>_.
     bindE (enqueue_with_retry P (resolve_outbox_stream e) m) (\<lambda>_.
     mark_published_with_retry P e)))"

text \<open>Whether the row was published; the two publisher errors count as a failure, any other ends the batch.\<close>

definition try_publish :: "'q publisher \<Rightarrow> outbox_entry \<Rightarrow> ('q, bool) publish_prog" where
  "try_publish P e =
     catchE (bindE (publish_entry P e) (\<lambda>_. ret True)) (\<lambda>err.
       case err of
         OutboxPublishPermanentError \<Rightarrow> ret False
       | OutboxPublishTransientError _ \<Rightarrow> ret False
       | _ \<Rightarrow> raise err)"

record outbox_publish_batch_result =
  opr_fetched_count :: nat
  opr_published_count :: nat
  opr_failed_count :: nat
  opr_skipped_count :: nat

definition publish_batch :: "'q publisher \<Rightarrow> ('q, outbox_publish_batch_result) publish_prog" where
  "publish_batch P =
     bindE (gets (fetch_unpublished (pb_batch_size P) \<circ> ps_world)) (\<lambda>rows.
     bindE (forE rows (try_publish P)) (\<lambda>oks.
     ret \<lparr>opr_fetched_count = length rows, opr_published_count = length (filter id oks),
          opr_failed_count = length (filter Not oks), opr_skipped_count = 0\<rparr>))"

text \<open>\<open>n\<close> rounds of the loop; sleeping between them and the shutdown flag have no effect on the state.\<close>

fun publisher_rounds :: "'q publisher \<Rightarrow> nat \<Rightarrow> ('q, outbox_publish_batch_result list) publish_prog" where
  "publisher_rounds P 0 = ret []"
| "publisher_rounds P (Suc n) =
     bindE (publish_batch P) (\<lambda>r. bindE (publisher_rounds P n) (\<lambda>rs. ret (r # rs)))"

end
