(* ===== verification/Publisher_Properties.thy ===== *)
theory Publisher_Properties
  imports Outbox_Publisher
begin

text \<open>
  What the outbox publisher guarantees: no row is marked as published that was not handed to the
  queue, and with a queue that works every row is handed over, once and in the order of creation.
\<close>

section \<open>A batch on an unreliable queue\<close>

text \<open>
  The state of the outbox relative to the state before the batch; \<open>l\<close> lists what the queue has
  accepted since. A row is as it was, or it was pending, is published now, and the message built from
  it and its task is in \<open>l\<close>. The other tables are as they were (\<open>batch_inv\<close>).
\<close>

definition sent_for :: "'q publisher \<Rightarrow> world \<Rightarrow> outbox_entry \<Rightarrow> (string \<times> task_message) list \<Rightarrow> bool" where
  "sent_for P w0 e l \<longleftrightarrow>
     (\<exists>k. get_task (ob_task_id e) w0 = Some k \<and> (resolve_outbox_stream e, outbox_message P e k) \<in> set l)"

definition row_published :: "outbox_entry \<Rightarrow> outbox_entry \<Rightarrow> bool" where
  "row_published e e' \<longleftrightarrow> (\<exists>t. e' = e\<lparr>ob_status := OB_PUBLISHED, ob_published_at := Some t\<rparr>)"

definition outbox_progress :: "'q publisher \<Rightarrow> world \<Rightarrow> (string \<times> task_message) list \<Rightarrow> world \<Rightarrow> bool" where
  "outbox_progress P w0 l w \<longleftrightarrow>
     (\<forall>oid. dict_get (outbox_rows w0) oid = None \<longrightarrow> dict_get (outbox_rows w) oid = None)
     \<and> (\<forall>oid e. dict_get (outbox_rows w0) oid = Some e \<longrightarrow>
          (\<exists>e'. dict_get (outbox_rows w) oid = Some e'
             \<and> (e' = e \<or> ob_status e = OB_PENDING \<and> row_published e e' \<and> sent_for P w0 e l)))"

definition batch_inv :: "'q publisher \<Rightarrow> 'q publisher_state \<Rightarrow> 'q publisher_state \<Rightarrow> bool" where
  "batch_inv P s0 s \<longleftrightarrow>
     same_tables ((ps_world s0)\<lparr>outbox_rows := outbox_rows (ps_world s)\<rparr>) (ps_world s)
     \<and> (\<exists>l. ps_sent s = ps_sent s0 @ l \<and> outbox_progress P (ps_world s0) l (ps_world s))"

definition batch_sent :: "'q publisher \<Rightarrow> 'q publisher_state \<Rightarrow> outbox_entry \<Rightarrow> 'q publisher_state \<Rightarrow> bool" where
  "batch_sent P s0 e s \<longleftrightarrow>
     same_tables ((ps_world s0)\<lparr>outbox_rows := outbox_rows (ps_world s)\<rparr>) (ps_world s)
     \<and> (\<exists>l. ps_sent s = ps_sent s0 @ l \<and> outbox_progress P (ps_world s0) l (ps_world s) \<and> sent_for P (ps_world s0) e l)"

lemma batch_sent_inv: "batch_sent P s0 e s \<Longrightarrow> batch_inv P s0 s"
  by (auto simp: batch_sent_def batch_inv_def)

lemma outbox_progress_more: "outbox_progress P w0 l w \<Longrightarrow> set l \<subseteq> set l' \<Longrightarrow> outbox_progress P w0 l' w"
  unfolding outbox_progress_def sent_for_def by blast

lemma batch_inv_refl: "batch_inv P s s"
  by (auto simp: batch_inv_def outbox_progress_def same_tables_def)

text \<open>Steps that leave the outbox alone.\<close>

lemma batch_inv_clock:
  assumes "clock_only (ps_world s) w" and "batch_inv P s0 s"
  shows "batch_inv P s0 (s\<lparr>ps_world := w\<rparr>)"
  using assms by (auto simp: batch_inv_def outbox_progress_def same_tables_def elim!: clock_onlyE)

lemma batch_sent_clock:
  assumes "clock_only (ps_world s) w" and "batch_sent P s0 e s"
  shows "batch_sent P s0 e (s\<lparr>ps_world := w\<rparr>)"
  using assms by (auto simp: batch_sent_def outbox_progress_def same_tables_def elim!: clock_onlyE)

lemma batch_inv_queue [simp]: "batch_inv P s0 (s\<lparr>ps_queue := q\<rparr>) = batch_inv P s0 s"
  "batch_inv P s0 (s\<lparr>ps_slept := z\<rparr>) = batch_inv P s0 s" "batch_sent P s0 e (s\<lparr>ps_slept := z\<rparr>) = batch_sent P s0 e s"
  by (simp_all add: batch_inv_def batch_sent_def)

lemma batch_send:
  assumes "batch_inv P s0 s" and "get_task (ob_task_id e) (ps_world s0) = Some k"
  shows "batch_sent P s0 e (s\<lparr>ps_queue := q, ps_sent := ps_sent s @ [(resolve_outbox_stream e, outbox_message P e k)]\<rparr>)"
proof -
  from assms(1) obtain l where "ps_sent s = ps_sent s0 @ l" "outbox_progress P (ps_world s0) l (ps_world s)"
    by (auto simp: batch_inv_def)
  with assms show ?thesis
    by (auto simp: batch_sent_def batch_inv_def sent_for_def intro!: outbox_progress_more [of P "ps_world s0" l])
qed

lemma batch_mark:
  assumes "batch_sent P s0 e s" and "dict_get (outbox_rows (ps_world s0)) (ob_id e) = Some e"
    and "ob_status e = OB_PENDING" and "dict_get (outbox_rows (ps_world s)) (ob_id e) = Some e1"
  shows "batch_inv P s0 (s\<lparr>ps_world := (ps_world s)\<lparr>outbox_rows := dict_set (ob_id e)
      (e1\<lparr>ob_status := OB_PUBLISHED, ob_published_at := Some t\<rparr>) (outbox_rows (ps_world s))\<rparr>\<rparr>)"
proof -
  from assms(1) obtain l where l: "ps_sent s = ps_sent s0 @ l" "outbox_progress P (ps_world s0) l (ps_world s)"
    "sent_for P (ps_world s0) e l" by (auto simp: batch_sent_def)
  from l(2) assms(2,4) have "e1 = e \<or> row_published e e1"
    unfolding outbox_progress_def by (metis option.inject)
  then have "row_published e (e1\<lparr>ob_status := OB_PUBLISHED, ob_published_at := Some t\<rparr>)"
    by (auto simp: row_published_def)
  with l assms(2,3) have "outbox_progress P (ps_world s0) l ((ps_world s)\<lparr>outbox_rows := dict_set (ob_id e)
      (e1\<lparr>ob_status := OB_PUBLISHED, ob_published_at := Some t\<rparr>) (outbox_rows (ps_world s))\<rparr>)"
    by (auto simp: outbox_progress_def)
  with l(1) assms(1) show ?thesis by (auto simp: batch_inv_def batch_sent_def same_tables_def)
qed

text \<open>The operations of the repositories that mark a row.\<close>

definition marks_rows :: "'q publisher \<Rightarrow> bool" where
  "marks_rows P \<longleftrightarrow> pb_mark_published P \<in> {pf_mark_published, wk_mark_published}"

lemma mark_published_cases:
  assumes "marks_rows P" and "pb_mark_published P oid t w = (r, w')"
  shows "w' = w \<or> (\<exists>e. dict_get (outbox_rows w) oid = Some e \<and> w' = w\<lparr>outbox_rows := dict_set oid
          (e\<lparr>ob_status := OB_PUBLISHED, ob_published_at := Some t\<rparr>) (outbox_rows w)\<rparr>)"
  using assms by (auto simp: marks_rows_def pf_mark_published_def wk_mark_published_def bindE_def py_simps Let_def
      split: option.splits if_splits)

lemma hoare_on_repo_clock:
  assumes "evolves clock_only m" and "\<And>s w. clock_only (ps_world s) w \<Longrightarrow> I s \<Longrightarrow> I (s\<lparr>ps_world := w\<rparr>)"
  shows "hoare I (on_repo m) (\<lambda>_. I) I"
  unfolding hoare_def
proof (intro allI impI)
  fix s assume I: "I s"
  obtain r w where run: "m (ps_world s) = (r, w)" by (cases "m (ps_world s)")
  with assms(1) have "clock_only (ps_world s) w" by (rule evolvesD)
  from assms(2) [OF this I] run show "case on_repo m s of (Inr x, s') \<Rightarrow> I s' | (Inl e, s') \<Rightarrow> I s'"
    by (cases r) (simp_all add: on_repo_def)
qed

lemma hoare_sleep: "hoare (batch_inv P s0) (sleep_backoff d) (\<lambda>_. batch_inv P s0) X"
  "hoare (batch_sent P s0 e) (sleep_backoff d) (\<lambda>_. batch_sent P s0 e) X"
  unfolding sleep_backoff_def by (auto intro!: hoare_ret hoare_modifyE)

lemma hoare_send:
  assumes "get_task (ob_task_id e) (ps_world s0) = Some k"
  shows "hoare (batch_inv P s0) (send P (resolve_outbox_stream e) (outbox_message P e k))
    (\<lambda>_. batch_sent P s0 e) (batch_inv P s0)"
  unfolding hoare_def send_def using batch_send [OF _ assms] by (auto split: prod.splits sum.splits)

lemma hoare_enqueue_attempts:
  assumes "get_task (ob_task_id e) (ps_world s0) = Some k"
  shows "hoare (batch_inv P s0) (enqueue_attempts P (resolve_outbox_stream e) (outbox_message P e k) c ds)
    (\<lambda>_. batch_sent P s0 e) (batch_inv P s0)"
proof (induction ds arbitrary: c)
  case (Cons d ds)
  have again: "hoare (batch_inv P s0) (bindE (whenE (ds \<noteq> []) (sleep_backoff d))
      (\<lambda>_. enqueue_attempts P (resolve_outbox_stream e) (outbox_message P e k) c' ds)) (\<lambda>_. batch_sent P s0 e) (batch_inv P s0)" for c'
    by (rule hoare_bindE [where Q = "\<lambda>_. batch_inv P s0"]) (auto intro!: hoare_if hoare_sleep hoare_ret Cons.IH)
  show ?case
    unfolding enqueue_attempts.simps
  proof (rule hoare_catchE [OF hoare_send [OF assms]])
    fix err
    show "hoare (batch_inv P s0) (case err of
         PublishQueueError (InvalidTaskMessageError _) \<Rightarrow> raise OutboxPublishPermanentError
       | PublishQueueError qe \<Rightarrow>
           (case transient_queue_error qe of None \<Rightarrow> raise err
            | Some cls \<Rightarrow> bindE (whenE (ds \<noteq> []) (sleep_backoff d)) (\<lambda>_.
                enqueue_attempts P (resolve_outbox_stream e) (outbox_message P e k) cls ds))
       | _ \<Rightarrow> raise err) (\<lambda>_. batch_sent P s0 e) (batch_inv P s0)"
      using again by (cases err; cases "case err of PublishQueueError qe \<Rightarrow> qe | _ \<Rightarrow> QueueIndexError")
         (auto intro!: hoare_raise)
  qed
qed (auto intro!: hoare_raise)

lemma hoare_mark_attempts:
  assumes "marks_rows P" and "dict_get (outbox_rows (ps_world s0)) (ob_id e) = Some e" and "ob_status e = OB_PENDING"
  shows "hoare (batch_sent P s0 e) (mark_attempts P e now c ds) (\<lambda>_. batch_inv P s0) (batch_inv P s0)"
proof (induction ds arbitrary: c)
  case (Cons d ds)
  have again: "hoare (batch_sent P s0 e) (bindE (whenE (ds \<noteq> []) (sleep_backoff d))
      (\<lambda>_. mark_attempts P e now c' ds)) (\<lambda>_. batch_inv P s0) (batch_inv P s0)" for c'
    by (rule hoare_bindE [where Q = "\<lambda>_. batch_sent P s0 e"]) (auto intro!: hoare_if hoare_sleep hoare_ret Cons.IH)
  have mark: "hoare (batch_sent P s0 e) (bindE (on_repo (pb_mark_published P (ob_id e) now)) (\<lambda>_. ret ()))
      (\<lambda>_. batch_inv P s0) (batch_sent P s0 e)"
    unfolding hoare_def
  proof (intro allI impI)
    fix s assume sent: "batch_sent P s0 e s"
    obtain r w where run: "pb_mark_published P (ob_id e) now (ps_world s) = (r, w)" by (metis prod.collapse)
    from mark_published_cases [OF assms(1) run]
    show "case bindE (on_repo (pb_mark_published P (ob_id e) now)) (\<lambda>_. ret ()) s of
        (Inr x, s') \<Rightarrow> batch_inv P s0 s' | (Inl err, s') \<Rightarrow> batch_sent P s0 e s'"
    proof (elim disjE exE conjE)
      assume "w = ps_world s"
      then show ?thesis using run sent batch_sent_inv [OF sent] by (cases r) (simp_all add: on_repo_def bindE_def ret_def)
    next
      fix e1 assume e1: "dict_get (outbox_rows (ps_world s)) (ob_id e) = Some e1"
        and w: "w = (ps_world s)\<lparr>outbox_rows := dict_set (ob_id e)
          (e1\<lparr>ob_status := OB_PUBLISHED, ob_published_at := Some now\<rparr>) (outbox_rows (ps_world s))\<rparr>"
      from assms(1) run e1 have "\<exists>x. r = Inr x"
        by (auto simp: marks_rows_def pf_mark_published_def wk_mark_published_def bindE_def py_simps Let_def
            split: if_splits)
      then show ?thesis using run w batch_mark [OF sent assms(2,3) e1, of now] by (auto simp: on_repo_def bindE_def ret_def)
    qed
  qed
  show ?case
    unfolding mark_attempts.simps
  proof (rule hoare_catchE [OF mark])
    fix err
    show "hoare (batch_sent P s0 e) (case err of
         PublishRepoError re \<Rightarrow>
           (case transient_repo_error re of None \<Rightarrow> raise err
            | Some cls \<Rightarrow> bindE (whenE (ds \<noteq> []) (sleep_backoff d)) (\<lambda>_. mark_attempts P e now cls ds))
       | _ \<Rightarrow> raise err) (\<lambda>_. batch_inv P s0) (batch_inv P s0)"
      using again by (cases err; cases "case err of PublishRepoError re \<Rightarrow> transient_repo_error re | _ \<Rightarrow> None")
         (auto intro!: hoare_raise intro: batch_sent_inv)
  qed
qed (auto intro!: hoare_raise intro: batch_sent_inv)

lemma hoare_build:
  "hoare (batch_inv P s0) (build_message P e)
     (\<lambda>m s. batch_inv P s0 s \<and> (\<exists>k. get_task (ob_task_id e) (ps_world s0) = Some k \<and> m = outbox_message P e k)) (batch_inv P s0)"
  by (auto simp: hoare_def build_message_def batch_inv_def same_tables_def get_task_def py_simps split: option.splits)

lemma hooks_clock: "hooks_ok W \<Longrightarrow> evolves clock_only (invoke_if_active W i)"
proof -
  assume "hooks_ok W"
  then have "evolves clock_only h" if "w_hooks W i = Some h" for h using that by (simp add: hooks_ok_def)
  moreover have "reflp clock_only" by (simp add: reflp_def clock_only_def)
  moreover have "transp clock_only"
    unfolding transp_def by (intro allI impI) (elim clock_onlyE, simp add: clock_only_def)
  ultimately show ?thesis
    unfolding invoke_if_active_def by (cases "w_hooks W i") (auto intro!: evolves_intro)
qed

lemma utc_now_clock: "evolves clock_only (utc_now E)"
  by (simp add: evolves_def utc_now_def clock_only_def)

lemma hoare_publish_entry:
  assumes "marks_rows P" and "hooks_ok (pb_process P)"
    and "dict_get (outbox_rows (ps_world s0)) (ob_id e) = Some e" and "ob_status e = OB_PENDING"
  shows "hoare (batch_inv P s0) (publish_entry P e) (\<lambda>_. batch_inv P s0) (batch_inv P s0)"
  unfolding publish_entry_def
proof (rule hoare_bindE [OF hoare_build])
  fix m
  let ?m = "\<exists>k. get_task (ob_task_id e) (ps_world s0) = Some k \<and> m = outbox_message P e k"
  have mark: "hoare (batch_sent P s0 e) (mark_published_with_retry P e) (\<lambda>_. batch_inv P s0) (batch_inv P s0)"
    unfolding mark_published_with_retry_def
    by (rule hoare_bindE [OF hoare_weaken [OF hoare_on_repo_clock [where I = "batch_sent P s0 e", OF utc_now_clock batch_sent_clock]]
          hoare_mark_attempts [OF assms(1,3,4)]]) (auto intro: batch_sent_inv)
  have enq: "hoare (\<lambda>s. batch_inv P s0 s \<and> ?m) (enqueue_with_retry P (resolve_outbox_stream e) m)
      (\<lambda>_. batch_sent P s0 e) (batch_inv P s0)"
  proof (cases ?m)
    case True
    then obtain k where k: "get_task (ob_task_id e) (ps_world s0) = Some k" "m = outbox_message P e k" by blast
    show ?thesis unfolding enqueue_with_retry_def k(2) by (rule hoare_weaken [OF hoare_enqueue_attempts [OF k(1)]]) auto
  next
    case False
    then show ?thesis unfolding hoare_def by blast
  qed
  have hook: "hoare (\<lambda>s. batch_inv P s0 s \<and> ?m) (on_repo (invoke_if_active (pb_process P) FINJ_COORD_DISPATCH))
      (\<lambda>_ s. batch_inv P s0 s \<and> ?m) (batch_inv P s0)"
    by (rule hoare_weaken [OF hoare_on_repo_clock [OF hooks_clock [OF assms(2)], of "\<lambda>s. batch_inv P s0 s \<and> ?m"]])
       (auto intro: batch_inv_clock)
  show "hoare (\<lambda>s. batch_inv P s0 s \<and> ?m) (bindE (on_repo (invoke_if_active (pb_process P) FINJ_COORD_DISPATCH))
      (\<lambda>_. bindE (enqueue_with_retry P (resolve_outbox_stream e) m) (\<lambda>_. mark_published_with_retry P e)))
      (\<lambda>_. batch_inv P s0) (batch_inv P s0)"
    by (intro hoare_bindE [OF hook] hoare_bindE [OF enq] mark)
qed

lemma preserves_forE_mem: "(\<And>x. x \<in> set xs \<Longrightarrow> preserves I (f x)) \<Longrightarrow> preserves I (forE xs f)"
  by (induction xs) (auto intro!: preserves_intro simp del: bindE_ret)

lemma preserves_try_publish:
  assumes "marks_rows P" and "hooks_ok (pb_process P)"
    and "dict_get (outbox_rows (ps_world s0)) (ob_id e) = Some e" and "ob_status e = OB_PENDING"
  shows "preserves (batch_inv P s0) (try_publish P e)"
proof -
  have "preserves (batch_inv P s0) (publish_entry P e)"
    unfolding preserves_hoare by (rule hoare_publish_entry [OF assms])
  moreover have "preserves I (case err of OutboxPublishPermanentError \<Rightarrow> ret False
      | OutboxPublishTransientError _ \<Rightarrow> ret False | _ \<Rightarrow> raise err)" for I :: "'q publisher_state \<Rightarrow> bool" and err
    by (cases err) (simp_all add: preserves_intro)
  ultimately show ?thesis
    unfolding try_publish_def by (intro preserves_intro)
qed

lemma fetched_pending:
  assumes "keys_ok ob_id (outbox_rows w)" and "e \<in> set (fetch_unpublished n w)"
  shows "dict_get (outbox_rows w) (ob_id e) = Some e" and "ob_status e = OB_PENDING"
proof -
  have "e \<in> set (filter (\<lambda>e. ob_status e = OB_PENDING) (dict_values (outbox_rows w)))"
    using assms(2) set_slice_to by (fastforce simp: fetch_unpublished_def)
  then show "dict_get (outbox_rows w) (ob_id e) = Some e" "ob_status e = OB_PENDING"
    using keys_ok_values [OF assms(1)] by auto
qed

text \<open>
  C37. The outbox is transactional towards the queue. Whatever the queue does (accept, refuse, fail a
  few times or for good) and whether the batch returns or raises, a row changes only from pending to
  published, and only when the queue has accepted, during this batch, the message built from the row
  and its task on the stream of its type; no row is lost and no other table is touched. A batch that
  returns counts every fetched row as published or failed.
\<close>

theorem published_only_after_enqueue:
  assumes "marks_rows P" and "hooks_ok (pb_process P)" and "keys_ok ob_id (outbox_rows (ps_world s))"
    and "publish_batch P s = (r, s')"
  shows "batch_inv P s s'
    \<and> (\<forall>res. r = Inr res \<longrightarrow> opr_fetched_count res = opr_published_count res + opr_failed_count res)"
proof -
  let ?rows = "fetch_unpublished (pb_batch_size P) (ps_world s)"
  have "preserves (batch_inv P s) (forE ?rows (try_publish P))"
    by (rule preserves_forE_mem) (rule preserves_try_publish [OF assms(1,2)]; rule fetched_pending [OF assms(3)])
  from preservesD [OF this batch_inv_refl] have "batch_inv P s s'"
    using assms(4) by (auto simp: publish_batch_def bindE_def py_simps split: prod.splits sum.splits)
  moreover   have "\<forall>res. r = Inr res \<longrightarrow> opr_fetched_count res = opr_published_count res + opr_failed_count res"
  proof (intro allI impI)
    fix res assume "r = Inr res"
    with assms(4) obtain oks s1 where run: "forE ?rows (try_publish P) s = (Inr oks, s1)"
      and res: "res = \<lparr>opr_fetched_count = length ?rows, opr_published_count = length (filter id oks),
        opr_failed_count = length (filter Not oks), opr_skipped_count = 0\<rparr>"
      by (auto simp: publish_batch_def bindE_eq_Inr)
    have "length ?rows = length oks"
      by (rule list_all2_lengthD, rule forE_results [OF run, where P = "\<lambda>_ _. True"]) simp
    with res show "opr_fetched_count res = opr_published_count res + opr_failed_count res"
      using sum_length_filter_compl [of id oks] by (simp add: id_def)
  qed
  ultimately show ?thesis ..
qed

text \<open>A publisher whose queue fails on every second call, and one whose queue always works.\<close>

definition demo_publisher :: "(string \<Rightarrow> task_message \<Rightarrow> (nat, enqueue_result) queue_prog) \<Rightarrow> nat publisher" where
  "demo_publisher enq = \<lparr>pb_process = demo_worker (persistence_repos demo_env), pb_enqueue = enq,
     pb_mark_published = pf_mark_published, pb_carrier = [], pb_batch_size = 10\<rparr>"

definition flaky_enqueue :: "string \<Rightarrow> task_message \<Rightarrow> (nat, enqueue_result) queue_prog" where
  "flaky_enqueue stream m q =
     (if even q then (Inl TaskQueueUnavailableError, Suc q) else (Inr \<lparr>eqr_delivery_id = '''', eqr_enqueued_at = 0\<rparr>, Suc q))"

definition working_enqueue :: "string \<Rightarrow> task_message \<Rightarrow> (nat, enqueue_result) queue_prog" where
  "working_enqueue stream m q = (Inr \<lparr>eqr_delivery_id = '''', eqr_enqueued_at = 0\<rparr>, Suc q)"

definition demo_publisher_state :: "world \<Rightarrow> nat publisher_state" where
  "demo_publisher_state w = \<lparr>ps_world = w, ps_queue = 0, ps_sent = [], ps_slept = []\<rparr>"

lemma demo_publisher_ok: "marks_rows (demo_publisher enq)" "hooks_ok (pb_process (demo_publisher enq))"
  by (simp_all add: marks_rows_def demo_publisher_def demo_deps_ok)

lemma demo_outbox_keys: "keys_ok ob_id (outbox_rows demo_world)"
  by code_simp

theorem published_only_after_enqueue_witness:
  "batch_inv (demo_publisher flaky_enqueue) (demo_publisher_state demo_world)
     (snd (publish_batch (demo_publisher flaky_enqueue) (demo_publisher_state demo_world)))
   \<and> length (ps_sent (snd (publish_batch (demo_publisher flaky_enqueue) (demo_publisher_state demo_world)))) = 1
   \<and> ps_slept (snd (publish_batch (demo_publisher flaky_enqueue) (demo_publisher_state demo_world))) = [1]"
proof -
  obtain r s' where run: "publish_batch (demo_publisher flaky_enqueue) (demo_publisher_state demo_world) = (r, s')"
    by (metis prod.collapse)
  have "keys_ok ob_id (outbox_rows (ps_world (demo_publisher_state demo_world)))"
    using demo_outbox_keys by (simp add: demo_publisher_state_def)
  from published_only_after_enqueue [OF demo_publisher_ok this run] run
  have "batch_inv (demo_publisher flaky_enqueue) (demo_publisher_state demo_world)
     (snd (publish_batch (demo_publisher flaky_enqueue) (demo_publisher_state demo_world)))" by simp
  moreover have "length (ps_sent (snd (publish_batch (demo_publisher flaky_enqueue) (demo_publisher_state demo_world)))) = 1"
    "ps_slept (snd (publish_batch (demo_publisher flaky_enqueue) (demo_publisher_state demo_world))) = [1]"
    by code_simp+
  ultimately show ?thesis by blast
qed

section \<open>Batches on a working queue\<close>

text \<open>The pending rows, oldest first; what is sent for a row; a queue that accepts all of it.\<close>

definition pending :: "world \<Rightarrow> outbox_entry list" where
  "pending w = sort_key ob_created_at (filter (\<lambda>e. ob_status e = OB_PENDING) (dict_values (outbox_rows w)))"

definition sent_message :: "'q publisher \<Rightarrow> world \<Rightarrow> outbox_entry \<Rightarrow> string \<times> task_message" where
  "sent_message P w e = (resolve_outbox_stream e, outbox_message P e (the (get_task (ob_task_id e) w)))"

definition queue_works :: "'q publisher \<Rightarrow> world \<Rightarrow> bool" where
  "queue_works P w \<longleftrightarrow>
     (\<forall>e \<in> set (pending w). get_task (ob_task_id e) w \<noteq> None
        \<and> (\<forall>q. \<exists>x q'. pb_enqueue P (fst (sent_message P w e)) (snd (sent_message P w e)) q = (Inr x, q')))"

definition dispatch_quiet :: "'q publisher \<Rightarrow> bool" where
  "dispatch_quiet P \<longleftrightarrow> \<not> is_injection_active (w_config (pb_process P)) FINJ_COORD_DISPATCH"

lemma fetch_unpublished_pending: "fetch_unpublished n w = slice_to n (pending w)"
  by (simp add: fetch_unpublished_def pending_def)

lemma default_schedule_Cons: "default_schedule = 1 # [2, 4, 8, 16]"
  by (simp add: default_schedule_def OUTBOX_RETRY_INITIAL_SECONDS_def OUTBOX_RETRY_MAX_SECONDS_def
      OUTBOX_RETRY_MAX_ATTEMPTS_def numeral_eq_Suc)

lemma publish_entry_works:
  assumes "marks_rows P" and "dispatch_quiet P" and "get_task (ob_task_id e) (ps_world s) \<noteq> None"
    and "pb_enqueue P (fst (sent_message P (ps_world s) e)) (snd (sent_message P (ps_world s) e)) (ps_queue s) = (Inr x, q')"
    and "dict_get (outbox_rows (ps_world s)) (ob_id e) = Some e" and "ob_status e = OB_PENDING"
  shows "\<exists>t. try_publish P e s = (Inr True, s\<lparr>
      ps_world := (ps_world s)\<lparr>ticks := Suc (ticks (ps_world s)), outbox_rows := dict_set (ob_id e)
        (e\<lparr>ob_status := OB_PUBLISHED, ob_published_at := Some t\<rparr>) (outbox_rows (ps_world s))\<rparr>,
      ps_queue := q', ps_sent := ps_sent s @ [sent_message P (ps_world s) e]\<rparr>)"
proof -
  obtain k where k: "get_task (ob_task_id e) (ps_world s) = Some k" using assms(3) by blast
  let ?t = "env_now (w_env (pb_process P)) (ticks (ps_world s))"
  have quiet: "bindE (on_repo (invoke_if_active (pb_process P) FINJ_COORD_DISPATCH)) f v = f False v"
    for f :: "bool \<Rightarrow> ('a, unit) publish_prog" and v
    using assms(2) by (simp add: dispatch_quiet_def invoke_if_active_def on_repo_def bindE_def ret_def)
  have sent: "send P (resolve_outbox_stream e) (outbox_message P e k) s
      = (Inr (), s\<lparr>ps_queue := q', ps_sent := ps_sent s @ [sent_message P (ps_world s) e]\<rparr>)"
    using assms(4) k by (simp add: send_def sent_message_def)
  have mark: "pb_mark_published P (ob_id e) ?t ((ps_world s)\<lparr>ticks := Suc (ticks (ps_world s))\<rparr>)
      = (Inr (e\<lparr>ob_status := OB_PUBLISHED, ob_published_at := Some ?t\<rparr>), (ps_world s)\<lparr>ticks := Suc (ticks (ps_world s)),
          outbox_rows := dict_set (ob_id e) (e\<lparr>ob_status := OB_PUBLISHED, ob_published_at := Some ?t\<rparr>)
            (outbox_rows (ps_world s))\<rparr>)"
    using assms(1,5,6)
    by (auto simp: marks_rows_def pf_mark_published_def wk_mark_published_def bindE_def py_simps Let_def)
  have enq: "enqueue_with_retry P (resolve_outbox_stream e) (outbox_message P e k) s
      = (Inr (), s\<lparr>ps_queue := q', ps_sent := ps_sent s @ [sent_message P (ps_world s) e]\<rparr>)"
    using sent by (simp add: enqueue_with_retry_def default_schedule_Cons)
  have mk: "mark_published_with_retry P e (s\<lparr>ps_queue := q', ps_sent := ps_sent s @ [sent_message P (ps_world s) e]\<rparr>)
      = (Inr (), s\<lparr>ps_world := (ps_world s)\<lparr>ticks := Suc (ticks (ps_world s)), outbox_rows := dict_set (ob_id e)
        (e\<lparr>ob_status := OB_PUBLISHED, ob_published_at := Some ?t\<rparr>) (outbox_rows (ps_world s))\<rparr>,
      ps_queue := q', ps_sent := ps_sent s @ [sent_message P (ps_world s) e]\<rparr>)"
    using mark by (simp add: mark_published_with_retry_def default_schedule_Cons on_repo_def utc_now_def bindE_def
        catchE_def ret_def)
  have "build_message P e s = (Inr (outbox_message P e k), s)"
    using k by (simp add: build_message_def)
  then have "publish_entry P e s = (Inr (), s\<lparr>
      ps_world := (ps_world s)\<lparr>ticks := Suc (ticks (ps_world s)), outbox_rows := dict_set (ob_id e)
        (e\<lparr>ob_status := OB_PUBLISHED, ob_published_at := Some ?t\<rparr>) (outbox_rows (ps_world s))\<rparr>,
      ps_queue := q', ps_sent := ps_sent s @ [sent_message P (ps_world s) e]\<rparr>)"
    using enq mk by (simp add: publish_entry_def quiet)
  then show ?thesis by (auto simp: try_publish_def)
qed

lemma filter_dict_set_drop:
  assumes "keys_ok key d" and "\<not> P v"
  shows "filter P (dict_values (dict_set k v d)) = filter (\<lambda>x. key x \<noteq> k) (filter P (dict_values d))"
  using assms
proof (induction d)
  case (Cons p d)
  have ok: "keys_ok key d" and kp: "key (snd p) = fst p" and new: "fst p \<notin> set (dict_keys d)"
    using Cons.prems(1) by (auto simp: keys_ok_def)
  show ?case
  proof (cases "fst p = k")
    case True
    have "\<forall>x \<in> set (dict_values d). key x \<noteq> k"
    proof
      fix x assume "x \<in> set (dict_values d)"
      from keys_ok_values [OF ok this] have "key x \<in> set (dict_keys d)" by (metis map_of_eq_None_iff option.distinct(1) set_map)
      with new True show "key x \<noteq> k" by metis
    qed
    then show ?thesis using True kp Cons.prems(2) by (auto simp: filter_id_conv intro!: filter_cong)
  next
    case False
    then show ?thesis using Cons.IH [OF ok Cons.prems(2)] kp by (cases p) auto
  qed
qed simp

lemma pending_after_mark:
  assumes "keys_ok ob_id (outbox_rows w)" and "ob_status v = OB_PUBLISHED"
  shows "pending (w\<lparr>ticks := n, outbox_rows := dict_set k v (outbox_rows w)\<rparr>) = filter (\<lambda>x. ob_id x \<noteq> k) (pending w)"
  using filter_dict_set_drop [OF assms(1), of "\<lambda>e. ob_status e = OB_PENDING" v k] assms(2)
  by (simp add: pending_def filter_sort)

text \<open>A run of published rows: what was sent, what is still pending, and what did not change.\<close>

definition drained :: "'q publisher \<Rightarrow> 'q publisher_state \<Rightarrow> outbox_entry list \<Rightarrow> 'q publisher_state \<Rightarrow> bool" where
  "drained P s xs s' \<longleftrightarrow>
     ps_sent s' = ps_sent s @ map (sent_message P (ps_world s)) xs
     \<and> task_rows (ps_world s') = task_rows (ps_world s)
     \<and> keys_ok ob_id (outbox_rows (ps_world s'))
     \<and> pending (ps_world s') = filter (\<lambda>e. ob_id e \<notin> ob_id ` set xs) (pending (ps_world s))"

lemma sent_message_tasks: "task_rows w' = task_rows w \<Longrightarrow> sent_message P w' = sent_message P w"
  by (simp add: fun_eq_iff sent_message_def get_task_def)

lemma drained_trans:
  assumes "drained P s xs s1" and "drained P s1 ys s2"
  shows "drained P s (xs @ ys) s2"
  using assms sent_message_tasks [of "ps_world s1" "ps_world s" P]
  by (auto simp: drained_def intro!: filter_cong)

lemma pending_keys:
  assumes "keys_ok ob_id (outbox_rows w)"
  shows "distinct (map ob_id (pending w))" and "e \<in> set (pending w) \<Longrightarrow> dict_get (outbox_rows w) (ob_id e) = Some e \<and> ob_status e = OB_PENDING"
proof -
  let ?l = "filter (\<lambda>e. ob_status e = OB_PENDING) (dict_values (outbox_rows w))"
  have "map ob_id (dict_values (outbox_rows w)) = dict_keys (outbox_rows w)"
    using assms by (auto simp: keys_ok_def)
  then have "distinct (map ob_id ?l)" using assms by (metis distinct_map_filter keys_ok_def)
  moreover have "mset (map ob_id (pending w)) = mset (map ob_id ?l)" by (simp add: pending_def)
  ultimately show "distinct (map ob_id (pending w))" by (metis mset_eq_imp_distinct_iff)
  show "e \<in> set (pending w) \<Longrightarrow> dict_get (outbox_rows w) (ob_id e) = Some e \<and> ob_status e = OB_PENDING"
    using keys_ok_values [OF assms] by (auto simp: pending_def)
qed

lemma publish_rows_work:
  assumes "marks_rows P" and "dispatch_quiet P" and "keys_ok ob_id (outbox_rows (ps_world s))"
    and "queue_works P (ps_world s)" and "distinct (map ob_id xs)" and "set xs \<subseteq> set (pending (ps_world s))"
  shows "\<exists>oks s'. forE xs (try_publish P) s = (Inr oks, s') \<and> drained P s xs s'"
  using assms(3-6)
proof (induction xs arbitrary: s)
  case Nil
  then show ?case by (auto simp: drained_def)
next
  case (Cons e xs)
  have e: "dict_get (outbox_rows (ps_world s)) (ob_id e) = Some e" "ob_status e = OB_PENDING" "e \<in> set (pending (ps_world s))"
    using pending_keys(2) [OF Cons.prems(1)] Cons.prems(4) by auto
  then obtain x q' where "get_task (ob_task_id e) (ps_world s) \<noteq> None"
    and "pb_enqueue P (fst (sent_message P (ps_world s) e)) (snd (sent_message P (ps_world s) e)) (ps_queue s) = (Inr x, q')"
    using Cons.prems(2) unfolding queue_works_def by blast
  from publish_entry_works [OF assms(1,2) this e(1,2)] obtain t s1 where run: "try_publish P e s = (Inr True, s1)"
    and s1: "ps_world s1 = (ps_world s)\<lparr>ticks := Suc (ticks (ps_world s)), outbox_rows := dict_set (ob_id e)
        (e\<lparr>ob_status := OB_PUBLISHED, ob_published_at := Some t\<rparr>) (outbox_rows (ps_world s))\<rparr>"
      "ps_sent s1 = ps_sent s @ [sent_message P (ps_world s) e]" by auto
  have step: "drained P s [e] s1"
    using s1 Cons.prems(1)
    by (auto simp: drained_def pending_after_mark intro!: keys_ok_set')
  then have w1: "keys_ok ob_id (outbox_rows (ps_world s1))" "task_rows (ps_world s1) = task_rows (ps_world s)"
    "pending (ps_world s1) = filter (\<lambda>x. ob_id x \<noteq> ob_id e) (pending (ps_world s))" by (auto simp: drained_def)
  have "queue_works P (ps_world s1)"
    using Cons.prems(2) w1(2,3) sent_message_tasks [OF w1(2), of P] by (simp add: queue_works_def get_task_def)
  moreover have "set xs \<subseteq> set (pending (ps_world s1))" using Cons.prems(3,4) w1(3) by (auto simp: image_iff)
  ultimately obtain oks s' where "forE xs (try_publish P) s1 = (Inr oks, s')" "drained P s1 xs s'"
    using Cons.IH [OF w1(1)] Cons.prems(3) by auto
  with run drained_trans [OF step] show ?case by (auto simp: bindE_def ret_def)
qed

lemma filter_not_taken:
  assumes "distinct (map f xs)"
  shows "filter (\<lambda>x. f x \<notin> f ` set (take n xs)) xs = drop n xs"
proof -
  have "filter (\<lambda>x. f x \<notin> f ` set (take n xs)) (take n xs @ drop n xs) = drop n xs"
    using assms unfolding filter_append
    by (subst (asm) append_take_drop_id [of n xs, symmetric])
       (auto simp: filter_empty_conv filter_id_conv simp del: append_take_drop_id)
  then show ?thesis by simp
qed

lemma publish_batch_works:
  assumes "marks_rows P" and "dispatch_quiet P" and "1 \<le> pb_batch_size P"
    and "keys_ok ob_id (outbox_rows (ps_world s))" and "queue_works P (ps_world s)"
  shows "\<exists>res s'. publish_batch P s = (Inr res, s') \<and> keys_ok ob_id (outbox_rows (ps_world s'))
    \<and> task_rows (ps_world s') = task_rows (ps_world s) \<and> queue_works P (ps_world s')
    \<and> pending (ps_world s') = drop (nat (pb_batch_size P)) (pending (ps_world s))
    \<and> ps_sent s' = ps_sent s @ map (sent_message P (ps_world s)) (take (nat (pb_batch_size P)) (pending (ps_world s)))"
proof -
  let ?xs = "take (nat (pb_batch_size P)) (pending (ps_world s))"
  have rows: "fetch_unpublished (pb_batch_size P) (ps_world s) = ?xs"
    using assms(3) by (simp add: fetch_unpublished_pending slice_to_def)
  have dist: "distinct (map ob_id (pending (ps_world s)))" by (rule pending_keys [OF assms(4)])
  then have "distinct (map ob_id ?xs)" by (metis distinct_take take_map)
  from publish_rows_work [OF assms(1,2,4,5) this set_take_subset] obtain oks s'
    where run: "forE ?xs (try_publish P) s = (Inr oks, s')" and d: "drained P s ?xs s'" by blast
  have p: "pending (ps_world s') = drop (nat (pb_batch_size P)) (pending (ps_world s))"
    using d filter_not_taken [OF dist] by (simp add: drained_def)
  have "queue_works P (ps_world s')"
    using assms(5) d p sent_message_tasks [of "ps_world s'" "ps_world s" P]
    by (auto simp: queue_works_def drained_def get_task_def dest: in_set_dropD)
  with run d p rows show ?thesis by (simp add: publish_batch_def drained_def ret_def)
qed

lemma pending_empty: "pending w = [] \<longleftrightarrow> (\<forall>e \<in> set (dict_values (outbox_rows w)). ob_status e = OB_PUBLISHED)"
proof -
  have "sort_key f xs = [] \<longleftrightarrow> xs = []" for f :: "outbox_entry \<Rightarrow> datetime" and xs
    by (auto dest: arg_cong [where f = length])
  moreover have "s \<noteq> OB_PENDING \<longleftrightarrow> s = OB_PUBLISHED" for s by (cases s) simp_all
  ultimately show ?thesis by (simp add: pending_def filter_empty_conv)
qed

text \<open>
  C38. The outbox drains. While the queue accepts the messages of the pending rows and their tasks
  exist, \<open>n\<close> rounds of the publisher, with \<open>n\<close> at least the number of pending rows divided by the
  batch size, return with no row pending, and the queue has been given exactly one message for each
  row that was pending, oldest row first.
\<close>

theorem outbox_drains:
  assumes "marks_rows P" and "dispatch_quiet P" and "1 \<le> pb_batch_size P"
    and "keys_ok ob_id (outbox_rows (ps_world s))" and "queue_works P (ps_world s)"
    and "length (pending (ps_world s)) \<le> n * nat (pb_batch_size P)"
  shows "\<exists>rs s'. publisher_rounds P n s = (Inr rs, s')
    \<and> (\<forall>e \<in> set (dict_values (outbox_rows (ps_world s'))). ob_status e = OB_PUBLISHED)
    \<and> ps_sent s' = ps_sent s @ map (sent_message P (ps_world s)) (pending (ps_world s))"
  using assms(4-6)
proof (induction n arbitrary: s)
  case 0
  then have none: "pending (ps_world s) = []" by simp
  from none pending_empty [of "ps_world s"] show ?case by (simp add: ret_def)
next
  case (Suc n)
  from publish_batch_works [OF assms(1-3) Suc.prems(1,2)] obtain res s1 where
    run: "publish_batch P s = (Inr res, s1)" and s1: "keys_ok ob_id (outbox_rows (ps_world s1))" "queue_works P (ps_world s1)"
    and t: "task_rows (ps_world s1) = task_rows (ps_world s)"
    and p: "pending (ps_world s1) = drop (nat (pb_batch_size P)) (pending (ps_world s))"
    and sent: "ps_sent s1 = ps_sent s @ map (sent_message P (ps_world s)) (take (nat (pb_batch_size P)) (pending (ps_world s)))"
    by blast
  have "length (pending (ps_world s1)) \<le> n * nat (pb_batch_size P)" using Suc.prems(3) p by auto
  from Suc.IH [OF s1 this] obtain rs s' where "publisher_rounds P n s1 = (Inr rs, s')"
    "\<forall>e \<in> set (dict_values (outbox_rows (ps_world s'))). ob_status e = OB_PUBLISHED"
    "ps_sent s' = ps_sent s1 @ map (sent_message P (ps_world s1)) (pending (ps_world s1))" by blast
  moreover have "map g (take m xs) @ map g (drop m xs) = map g xs" for m and xs :: "outbox_entry list"
    and g :: "outbox_entry \<Rightarrow> string \<times> task_message"
    by (metis append_take_drop_id map_append)
  ultimately show ?case using run sent p sent_message_tasks [OF t, of P] by (simp add: ret_def)
qed

theorem outbox_drains_witness:
  "\<exists>rs s'. publisher_rounds (demo_publisher working_enqueue) 1 (demo_publisher_state demo_world) = (Inr rs, s')
     \<and> (\<forall>e \<in> set (dict_values (outbox_rows (ps_world s'))). ob_status e = OB_PUBLISHED)
     \<and> pending demo_world \<noteq> [] \<and> map fst (ps_sent s') = [''cartoon:tasks:collect'']"
proof -
  let ?P = "demo_publisher working_enqueue" and ?s = "demo_publisher_state demo_world"
  have quiet: "dispatch_quiet ?P" "1 \<le> pb_batch_size ?P"
    by (simp_all add: dispatch_quiet_def demo_publisher_def is_injection_active_def demo_config_def)
  have tasks: "\<forall>e \<in> set (pending demo_world). get_task (ob_task_id e) demo_world \<noteq> None" by code_simp
  have works: "queue_works ?P (ps_world ?s)"
    using tasks by (auto simp: queue_works_def demo_publisher_state_def demo_publisher_def working_enqueue_def)
  have p: "pending demo_world \<noteq> []" "length (pending demo_world) \<le> 10"
    "map (fst \<circ> sent_message ?P demo_world) (pending demo_world) = [''cartoon:tasks:collect'']" by code_simp+
  have "length (pending (ps_world ?s)) \<le> 1 * nat (pb_batch_size ?P)"
    using p(2) by (simp add: demo_publisher_state_def demo_publisher_def)
  from outbox_drains [OF demo_publisher_ok(1) quiet _ works this] demo_outbox_keys p
  show ?thesis by (fastforce simp: demo_publisher_state_def)
qed

section \<open>Rows that cannot be built\<close>

text \<open>
  A row whose task does not exist stays pending and is fetched again by every later batch. When the
  oldest rows, as many as the batch size, are of this kind, a batch changes nothing at all, so that no
  younger row is ever published.
\<close>

lemma missing_tasks_block:
  assumes "\<forall>e \<in> set (fetch_unpublished (pb_batch_size P) (ps_world s)). get_task (ob_task_id e) (ps_world s) = None"
  shows "\<exists>res. publish_batch P s = (Inr res, s) \<and> opr_published_count res = 0
    \<and> opr_failed_count res = length (fetch_unpublished (pb_batch_size P) (ps_world s))"
proof -
  have "try_publish P e s = (Inr False, s)" if "e \<in> set (fetch_unpublished (pb_batch_size P) (ps_world s))" for e
    using assms that by (simp add: try_publish_def publish_entry_def build_message_def catchE_def bindE_def py_simps)
  then have "forE (fetch_unpublished (pb_batch_size P) (ps_world s)) (try_publish P) s
      = (Inr (map (\<lambda>_. False) (fetch_unpublished (pb_batch_size P) (ps_world s))), s)"
    by (rule forE_pure)
  then show ?thesis by (simp add: publish_batch_def ret_def)
qed

end
