(* ===== verification/Urls.thy ===== *)
theory Urls
  imports Stage_Handlers
begin

text \<open>
  Canonical story addresses: \<open>UrlCanonicalizer\<close> of \<open>collector/normalizer.py\<close> and the functions of
  \<open>urllib.parse\<close> it calls. A character is a code point below 256. What needs tables of the Unicode
  standard is a field of \<open>url_lib\<close>: the check of an authority with brackets or characters beyond
  ASCII (\<open>ul_netloc_ok\<close>), \<open>unquote\<close> and the IDNA encoding of a host beyond ASCII.
\<close>

section \<open>Text\<close>

definition latin_lower :: "string \<Rightarrow> string" where
  "latin_lower s = map (\<lambda>c. let n = (of_char c :: nat) in
     if (65 \<le> n \<and> n \<le> 90) \<or> (192 \<le> n \<and> n \<le> 222 \<and> n \<noteq> 215) then char_of (n + 32) else c) s"

definition is_ascii :: "string \<Rightarrow> bool" where
  "is_ascii s = list_all (\<lambda>c. (of_char c :: nat) < 128) s"

definition decimal_char :: "char \<Rightarrow> bool" where
  "decimal_char c \<longleftrightarrow> CHR ''0'' \<le> c \<and> c \<le> CHR ''9''"

text \<open>\<open>s.isdigit()\<close>, true of the superscript digits too.\<close>

definition isdigit :: "string \<Rightarrow> bool" where
  "isdigit s \<longleftrightarrow> s \<noteq> [] \<and> list_all (\<lambda>c. decimal_char c \<or> (of_char c :: nat) \<in> {178, 179, 185}) s"

text \<open>\<open>s.partition(c)\<close> without the separator, and whether it was found.\<close>

definition before :: "char \<Rightarrow> string \<Rightarrow> string" where
  "before c s = takeWhile (\<lambda>x. x \<noteq> c) s"

definition after :: "char \<Rightarrow> string \<Rightarrow> string" where
  "after c s = drop 1 (dropWhile (\<lambda>x. x \<noteq> c) s)"

text \<open>\<open>s.rpartition(c)[2]\<close>: all of \<open>s\<close> when there is no separator.\<close>

definition after_last :: "char \<Rightarrow> string \<Rightarrow> string" where
  "after_last c s = rev (before c (rev s))"

fun contains :: "string \<Rightarrow> string \<Rightarrow> bool" where
  "contains p [] = (p = [])"
| "contains p (c # s) = (take (length p) (c # s) = p \<or> contains p s)"

text \<open>\<open>s[s.find(p) + len(p):]\<close>, for a \<open>p\<close> that occurs.\<close>

fun after_text :: "string \<Rightarrow> string \<Rightarrow> string" where
  "after_text p [] = []"
| "after_text p (c # s) = (if take (length p) (c # s) = p then drop (length p) (c # s) else after_text p s)"

fun split_on :: "char \<Rightarrow> string \<Rightarrow> string list" where
  "split_on c [] = [[]]"
| "split_on c (x # s) =
     (if x = c then [] # split_on c s
      else (case split_on c s of [] \<Rightarrow> [[x]] | p # ps \<Rightarrow> (x # p) # ps))"

section \<open>urllib.parse\<close>

record url_lib =
  ul_netloc_ok :: "string \<Rightarrow> bool"
  ul_unquote :: "string \<Rightarrow> string"
  ul_idna :: "string \<Rightarrow> string option"

record split_result =
  url_scheme :: string
  url_netloc :: string
  url_path :: string
  url_query :: string

definition scheme_char :: "char \<Rightarrow> bool" where
  "scheme_char c \<longleftrightarrow> (CHR ''a'' \<le> c \<and> c \<le> CHR ''z'') \<or> (CHR ''A'' \<le> c \<and> c \<le> CHR ''Z'')
     \<or> decimal_char c \<or> c \<in> {CHR ''+'', CHR ''-'', CHR ''.''}"

definition split_scheme :: "string \<Rightarrow> string \<times> string" where
  "split_scheme url =
     (let prefix = before CHR '':'' url in
      if CHR '':'' \<in> set url \<and> prefix \<noteq> [] \<and> list_all scheme_char prefix
         \<and> \<not> decimal_char (hd prefix) \<and> hd prefix \<notin> {CHR ''+'', CHR ''-'', CHR ''.''}
      then (latin_lower prefix, after CHR '':'' url) else ('''', url))"

definition split_netloc :: "string \<Rightarrow> string \<times> string" where
  "split_netloc url =
     (if take 2 url = ''//''
      then let rest = drop 2 url; ends = (\<lambda>c. c \<in> {CHR ''/'', CHR ''?'', CHR ''#''})
           in (takeWhile (\<lambda>c. \<not> ends c) rest, dropWhile (\<lambda>c. \<not> ends c) rest)
      else ('''', url))"

definition uses_params :: "string list" where
  "uses_params = ['''', ''ftp'', ''hdl'', ''prospero'', ''http'', ''imap'', ''https'', ''shttp'', ''rtsp'',
     ''rtsps'', ''rtspu'', ''sip'', ''sips'', ''mms'', ''sftp'', ''tel'']"

text \<open>The parameters follow a \<open>;\<close> in the last segment of the path.\<close>

definition drop_params :: "string \<Rightarrow> string" where
  "drop_params p =
     (let segment = after_last CHR ''/'' p
      in take (length p - length segment) p @ before CHR '';'' segment)"

definition urlparse :: "url_lib \<Rightarrow> string \<Rightarrow> ('s, split_result) prog" where
  "urlparse U url0 =
     (let url = filter (\<lambda>c. (of_char c :: nat) \<notin> {9, 10, 13}) (dropWhile (\<lambda>c. (of_char c :: nat) \<le> 32) url0);
          (scheme, rest) = split_scheme url;
          (netloc, tail) = split_netloc rest;
          unfragmented = before CHR ''#'' tail;
          upath = before CHR ''?'' unfragmented
      in if (CHR ''['' \<in> set netloc) \<noteq> (CHR '']'' \<in> set netloc) then raise ValueError
         else if (CHR ''['' \<in> set netloc \<or> \<not> is_ascii netloc) \<and> \<not> ul_netloc_ok U netloc then raise ValueError
         else ret \<lparr>url_scheme = scheme, url_netloc = netloc,
                   url_path = (if scheme \<in> set uses_params then drop_params upath else upath),
                   url_query = after CHR ''?'' unfragmented\<rparr>)"

definition hostinfo :: "split_result \<Rightarrow> string \<times> string" where
  "hostinfo p =
     (let info = after_last CHR ''@'' (url_netloc p) in
      if CHR ''['' \<in> set info
      then let bracketed = after CHR ''['' info
           in (before CHR '']'' bracketed, after CHR '':'' (after CHR '']'' bracketed))
      else (before CHR '':'' info, after CHR '':'' info))"

text \<open>\<open>p.hostname\<close>; the empty text stands for \<open>None\<close>, which the caller treats alike.\<close>

definition hostname :: "split_result \<Rightarrow> string" where
  "hostname p =
     (let host = fst (hostinfo p); name = before CHR ''%'' host
      in latin_lower name @ drop (length name) host)"

definition url_port :: "split_result \<Rightarrow> ('s, int option) prog" where
  "url_port p =
     (let port = snd (hostinfo p) in
      if port = [] then ret None
      else if \<not> (isdigit port \<and> is_ascii port) then raise ValueError
      else let n = int (read_digits port) in if n \<le> 65535 then ret (Some n) else raise ValueError)"

definition parse_qsl :: "url_lib \<Rightarrow> string \<Rightarrow> (string \<times> string) list" where
  "parse_qsl U qs =
     (let plain = (\<lambda>s. ul_unquote U (map (\<lambda>c. if c = CHR ''+'' then CHR '' '' else c) s))
      in map (\<lambda>nv. (plain (before CHR ''='' nv), plain (after CHR ''='' nv)))
           (filter (\<lambda>nv. nv \<noteq> []) (split_on CHR ''&'' qs)))"

definition hex_digit :: "nat \<Rightarrow> char" where
  "hex_digit n = char_of (if n < 10 then 48 + n else 55 + n)"

definition quote_byte :: "nat \<Rightarrow> string" where
  "quote_byte n = [CHR ''%'', hex_digit (n div 16), hex_digit (n mod 16)]"

text \<open>\<open>quote(s, safe='')\<close>: the bytes of the UTF-8 encoding, those outside the safe set escaped.\<close>

definition quote_char :: "char \<Rightarrow> string" where
  "quote_char c =
     (let n = (of_char c :: nat) in
      if (scheme_char c \<and> c \<noteq> CHR ''+'') \<or> c = CHR ''_'' \<or> c = CHR ''~'' then [c]
      else if n < 128 then quote_byte n
      else quote_byte (192 + n div 64) @ quote_byte (128 + n mod 64))"

definition urlencode :: "(string \<times> string) list \<Rightarrow> string" where
  "urlencode params =
     join ''&'' (map (\<lambda>(k, v). concat (map quote_char k) @ ''='' @ concat (map quote_char v)) params)"

definition urlunparse :: "string \<Rightarrow> string \<Rightarrow> string \<Rightarrow> string \<Rightarrow> string" where
  "urlunparse scheme netloc upath query =
     scheme @ ''://'' @ netloc
     @ (if upath \<noteq> [] \<and> take 1 upath \<noteq> ''/'' then CHR ''/'' # upath else upath)
     @ (if query \<noteq> [] then CHR ''?'' # query else [])"

text \<open>\<open>host.encode('idna').decode('ascii')\<close>; \<open>None\<close> is a \<open>UnicodeError\<close>.\<close>

definition idna :: "url_lib \<Rightarrow> string \<Rightarrow> string option" where
  "idna U host =
     (if \<not> is_ascii host then ul_idna U host
      else let labels = split_on CHR ''.'' host
           in if list_all (\<lambda>l. 0 < length l \<and> length l < 64) (butlast labels) \<and> length (last labels) < 64
              then Some host else None)"

section \<open>UrlCanonicalizer\<close>

definition strip_newline :: "string \<Rightarrow> string" where
  "strip_newline s = (if s \<noteq> [] \<and> last s = CHR 0x0A then butlast s else s)"

text \<open>The pattern \<open>(?i)^(utm_.*|fbclid|gclid)$\<close>: \<open>$\<close> also matches before a final newline, which
  \<open>.\<close> does not match.\<close>

definition is_tracking_param :: "string \<Rightarrow> bool" where
  "is_tracking_param key =
     (let k = latin_lower (strip_newline key) in
      k = ''fbclid'' \<or> k = ''gclid'' \<or> (take 4 k = ''utm_'' \<and> CHR 0x0A \<notin> set k))"

text \<open>One \<open>path.replace('//', '/')\<close>, and the loop around it.\<close>

fun replace_slashes :: "string \<Rightarrow> string" where
  "replace_slashes (a # b # s) =
     (if a = CHR ''/'' \<and> b = CHR ''/'' then CHR ''/'' # replace_slashes s else a # replace_slashes (b # s))"
| "replace_slashes s = s"

lemma length_replace_slashes: "length (replace_slashes s) \<le> length s"
  by (induction s rule: replace_slashes.induct) auto

lemma replace_slashes_shorter: "contains ''//'' s \<Longrightarrow> length (replace_slashes s) < length s"
proof (induction s rule: replace_slashes.induct)
  case (1 a b s)
  then show ?case using length_replace_slashes [of s] by (auto simp: less_Suc_eq_le)
qed auto

function collapse_slashes :: "string \<Rightarrow> string" where
  "collapse_slashes s = (if contains ''//'' s then collapse_slashes (replace_slashes s) else s)"
  by pat_completeness auto

termination
  by (relation "measure length") (auto intro: replace_slashes_shorter)

declare collapse_slashes.simps [simp del]

definition rstrip_slash :: "string \<Rightarrow> string" where
  "rstrip_slash s = rev (dropWhile (\<lambda>c. c = CHR ''/'') (rev s))"

definition canonical_path :: "string \<Rightarrow> string" where
  "canonical_path given =
     (let p = collapse_slashes given
      in if p \<noteq> ''/'' \<and> p \<noteq> [] \<and> last p = CHR ''/'' then rstrip_slash p else p)"

text \<open>The port written in an address with a scheme, looked up before the address is parsed. A text
  of superscript digits passes \<open>isdigit\<close> and makes \<open>int\<close> raise.\<close>

definition explicit_port :: "string \<Rightarrow> ('s, int option) prog" where
  "explicit_port trimmed =
     (let rest = after_text ''://'' trimmed; authority = before CHR ''/'' rest; port = after CHR '':'' authority
      in if CHR '':'' \<in> set authority \<and> isdigit port
         then if is_ascii port then ret (Some (int (read_digits port))) else raise ValueError
         else ret None)"

definition UrlCanonicalizationError :: exn where
  "UrlCanonicalizationError = OtherError ''UrlCanonicalizationError''"

definition canonicalize :: "url_lib \<Rightarrow> string \<Rightarrow> ('s, string) prog" where
  "canonicalize U url =
     (let stripped = strip url in
      if stripped = [] then raise UrlCanonicalizationError
      else
        bindE (if contains ''://'' stripped then explicit_port stripped else ret None) (\<lambda>port0.
        bindE (urlparse U (if contains ''://'' stripped then stripped else ''https://'' @ stripped)) (\<lambda>parsed.
        let scheme0 = latin_lower (url_scheme parsed); host0 = hostname parsed in
        if host0 = [] then raise UrlCanonicalizationError
        else if CHR ''.'' \<notin> set host0 \<and> \<not> isdigit host0 then raise UrlCanonicalizationError
        else if scheme0 \<notin> {''http'', ''https''} then raise UrlCanonicalizationError
        else
          let scheme = (if scheme0 = ''http'' \<and> port0 = None then ''https'' else scheme0) in
          case idna U (latin_lower host0) of
            None \<Rightarrow> raise UrlCanonicalizationError
          | Some host \<Rightarrow>
              bindE (url_port parsed) (\<lambda>port1.
              let port = (if (scheme = ''https'' \<and> port1 = Some 443) \<or> (scheme = ''http'' \<and> port1 = Some 80)
                          then None else port1);
                  upath = canonical_path (url_path parsed);
                  params = sort_key fst
                    (filter (\<lambda>(k, v). \<not> is_tracking_param k) (parse_qsl U (url_query parsed)));
                  netloc = (case port of None \<Rightarrow> host | Some p \<Rightarrow> host @ '':'' @ show_int p)
              in ret (urlunparse scheme netloc upath (urlencode params))))))"

definition canonicalize_optional :: "url_lib \<Rightarrow> string option \<Rightarrow> ('s, string option) prog" where
  "canonicalize_optional U url =
     (case url of
        None \<Rightarrow> ret None
      | Some u \<Rightarrow> if strip u = [] then ret None
                  else bindE (canonicalize U (strip u)) (\<lambda>c. ret (Some c)))"

end
