(* ===== verification/Collector.thy ===== *)
theory Collector
  imports Urls
begin

text \<open>
  The story collector (\<open>collector/\<close>): fetches the top stories of Hacker News, rejects what is
  malformed, untrusted or a duplicate, ranks the rest and keeps the best as candidates.

  The HTTP client, \<open>json.loads\<close> (which raises \<open>JSONDecodeError\<close>, or another exception for bytes
  that are not UTF-8) and \<open>str\<close> on floats and containers are parameters; texts are as in \<open>Urls\<close>. A
  story identifier of the feed is a JSON integer or boolean, because \<open>isinstance(True, int)\<close> holds.
  The frozen copies of \<open>collector/result.py\<close> have the values of the originals. Floats are rationals;
  telemetry is left out.
\<close>

section \<open>Data\<close>

record scoring_weights =
  weight_score :: rat
  weight_comments :: rat
  weight_recency :: rat

record collection_scoring_config =
  csc_weight_score :: "rat option"
  csc_weight_comments :: "rat option"
  csc_weight_recency :: "rat option"

record collection_config =
  cc_candidate_count :: int
  cc_scoring :: "collection_scoring_config option"

datatype fetch_error_kind = EK_NONE | EK_TIMEOUT | EK_CONNECTION | EK_HTTP

record item_fetch_result =
  ifr_source_id :: string
  ifr_status_code :: "int option"
  ifr_body :: "string option"
  ifr_error_kind :: fetch_error_kind

text \<open>What a call of the HTTP client raises: the builtin \<open>TimeoutError\<close> (an \<open>OSError\<close>), another
  \<open>OSError\<close>, a timeout or another transport error of \<open>httpx\<close>, or anything else.\<close>

datatype transport_exn = BuiltinTimeout | OsFailure | HttpxTimeout | HttpxTransport | OtherTransport

record http_response =
  rsp_status_code :: int
  rsp_content :: string

record hn_client =
  hc_fetch_top_story_ids :: "(world, json list) prog"
  hc_fetch_items :: "json list \<Rightarrow> (world, item_fetch_result list) prog"

record collector =
  cl_env :: env
  cl_client :: hn_client
  cl_json_loads :: "string \<Rightarrow> exn + json"
  cl_urls :: url_lib
  cl_repr :: "json \<Rightarrow> string"

definition POOL_SIZE_MIN :: int where "POOL_SIZE_MIN = 50"
definition POOL_SIZE_MAX :: int where "POOL_SIZE_MAX = 200"
definition POOL_SIZE_MULTIPLIER :: int where "POOL_SIZE_MULTIPLIER = 5"
definition ERROR_DETAIL_MAX_LENGTH :: int where "ERROR_DETAIL_MAX_LENGTH = 200"

definition compute_pool_size :: "int \<Rightarrow> int" where
  "compute_pool_size candidate_count =
     min POOL_SIZE_MAX (max POOL_SIZE_MIN (candidate_count * POOL_SIZE_MULTIPLIER))"

section \<open>Messages\<close>

definition collector_error_message :: "string \<Rightarrow> string \<Rightarrow> bool \<Rightarrow> string" where
  "collector_error_message code reason retryable =
     code @ '': '' @ reason @ '' (retryable='' @ (if retryable then ''True'' else ''False'') @ '')''"

definition CollectorFetchError :: "string \<Rightarrow> exn" where
  "CollectorFetchError reason = CollectorError (collector_error_message ''COL_FETCH'' reason True) True ''COL_FETCH''"

definition CollectorTimeoutError :: "string \<Rightarrow> exn" where
  "CollectorTimeoutError reason =
     CollectorError (collector_error_message ''COL_TIMEOUT'' reason True) True ''COL_TIMEOUT''"

definition CollectorResponseError :: "string \<Rightarrow> exn" where
  "CollectorResponseError reason =
     CollectorError (collector_error_message ''COL_RESPONSE'' reason False) False ''COL_RESPONSE''"

definition rejection_detail :: "rejection_reason \<Rightarrow> string option \<Rightarrow> string option \<Rightarrow> string" where
  "rejection_detail reason stage field =
     slice_to ERROR_DETAIL_MAX_LENGTH
       (case reason of
          REJ_VALIDATION_FAILED \<Rightarrow>
            (case (stage, field) of
               (Some s, Some f) \<Rightarrow> ''validation failed at '' @ s @ '': '' @ f
             | (Some s, None) \<Rightarrow> ''validation failed at '' @ s
             | _ \<Rightarrow> ''validation failed'')
        | REJ_NORMALIZATION_FAILED \<Rightarrow>
            (case stage of Some s \<Rightarrow> ''normalization failed at '' @ s | None \<Rightarrow> ''normalization failed'')
        | REJ_DUPLICATE \<Rightarrow> ''duplicate source_id in feed order''
        | REJ_UNTRUSTED_CONTENT \<Rightarrow> ''untrusted control characters in content'')"

section \<open>Hacker News client\<close>

text \<open>\<open>body.strip()\<close> on bytes.\<close>

definition ascii_space :: "char \<Rightarrow> bool" where
  "ascii_space c \<longleftrightarrow> (of_char c :: nat) \<in> {9, 10, 11, 12, 13, 32}"

definition byte_strip :: "string \<Rightarrow> string" where
  "byte_strip s = rev (dropWhile ascii_space (rev (dropWhile ascii_space s)))"

definition is_json_decode_error :: "exn \<Rightarrow> bool" where
  "is_json_decode_error e \<longleftrightarrow> e = OtherError ''JSONDecodeError''"

fun feed_id :: "json \<Rightarrow> ('s, json) prog" where
  "feed_id (JInt i) = ret (JInt i)"
| "feed_id (JBool b) = ret (JBool b)"
| "feed_id _ = raise (CollectorResponseError ''feed response array contains non-integer values'')"

definition decode_feed :: "(string \<Rightarrow> exn + json) \<Rightarrow> string \<Rightarrow> ('s, json list) prog" where
  "decode_feed loads body =
     (case loads body of
        Inl e \<Rightarrow> if is_json_decode_error e then raise (CollectorResponseError ''feed response is not valid JSON'')
                 else raise e
      | Inr (JList items) \<Rightarrow> forE items feed_id
      | Inr _ \<Rightarrow> raise (CollectorResponseError ''feed response is not a JSON array''))"

definition decode_item ::
  "(string \<Rightarrow> exn + json) \<Rightarrow> string \<Rightarrow> string \<Rightarrow> ('s, (string \<times> json) list option) prog"
where
  "decode_item loads body source_id =
     (if byte_strip body = [] then ret None
      else case loads body of
        Inl e \<Rightarrow> if is_json_decode_error e
                 then raise (CollectorResponseError (''item '' @ source_id @ '' response is not valid JSON''))
                 else raise e
      | Inr JNull \<Rightarrow> ret None
      | Inr (JObj kvs) \<Rightarrow> ret (Some kvs)
      | Inr _ \<Rightarrow> raise (CollectorResponseError (''item '' @ source_id @ '' response is not a JSON object'')))"

definition is_timeout :: "transport_exn \<Rightarrow> bool" where
  "is_timeout e \<longleftrightarrow> e \<in> {BuiltinTimeout, HttpxTimeout}"

definition is_fatal_transport :: "transport_exn \<Rightarrow> bool" where
  "is_fatal_transport e \<longleftrightarrow> e \<in> {BuiltinTimeout, OsFailure, HttpxTransport}"

definition RETRYABLE_HTTP_STATUSES :: "int list" where
  "RETRYABLE_HTTP_STATUSES = [408, 429, 500, 502, 503, 504]"

definition classify_feed_failure :: "transport_exn option \<Rightarrow> int option \<Rightarrow> exn" where
  "classify_feed_failure exc status_code =
     (let by_status =
        (case status_code of
           None \<Rightarrow> CollectorFetchError ''feed fetch failed''
         | Some st \<Rightarrow>
             let reason = ''feed HTTP status '' @ show_int st in
             if st \<in> set RETRYABLE_HTTP_STATUSES then CollectorFetchError reason
             else if 400 \<le> st \<and> st < 500 then CollectorResponseError reason
             else if 500 \<le> st then CollectorFetchError reason
             else CollectorFetchError ''feed fetch failed'')
      in case exc of
           None \<Rightarrow> by_status
         | Some e \<Rightarrow>
             if is_timeout e then CollectorTimeoutError ''feed fetch exceeded deadline''
             else if is_fatal_transport e then CollectorFetchError ''feed transport connection failed''
             else by_status)"

datatype item_outcome = ITEM_SKIP | ITEM_REJECT_JSON | ITEM_OK

definition classify_item_failure ::
  "(string \<Rightarrow> exn + json) \<Rightarrow> item_fetch_result \<Rightarrow> ('s, item_outcome) prog"
where
  "classify_item_failure loads r =
     (if ifr_error_kind r \<in> {EK_TIMEOUT, EK_CONNECTION, EK_HTTP} then ret ITEM_SKIP
      else if ifr_status_code r \<noteq> Some 200 then ret ITEM_SKIP
      else case ifr_body r of
        None \<Rightarrow> ret ITEM_OK
      | Some body \<Rightarrow>
          if byte_strip body = [] then ret ITEM_OK
          else (case loads (byte_strip body) of
            Inl e \<Rightarrow> if is_json_decode_error e then ret ITEM_REJECT_JSON else raise e
          | Inr JNull \<Rightarrow> ret ITEM_OK
          | Inr (JObj _) \<Rightarrow> ret ITEM_OK
          | Inr _ \<Rightarrow> ret ITEM_REJECT_JSON))"

text \<open>\<open>try: response = client.get(url) except Exception as exc\<close>.\<close>

definition attempt :: "('e, 's, 'a) py \<Rightarrow> ('f, 's, 'e + 'a) py" where
  [py_simps]: "attempt m s = (case m s of (r, s') \<Rightarrow> (Inr r, s'))"

type_synonym http_get = "string \<Rightarrow> (transport_exn, world, http_response) py"

definition feed_fetch :: "(string \<Rightarrow> exn + json) \<Rightarrow> http_get \<Rightarrow> string \<Rightarrow> (world, json list) prog" where
  "feed_fetch loads get base_url =
     bindE (attempt (get (base_url @ ''/topstories.json''))) (\<lambda>r.
     case r of
       Inl exc \<Rightarrow> raise (classify_feed_failure (Some exc) None)
     | Inr response \<Rightarrow>
         if rsp_status_code response \<noteq> 200
         then raise (classify_feed_failure None (Some (rsp_status_code response)))
         else decode_feed loads (rsp_content response))"

definition fetch_one :: "http_get \<Rightarrow> string \<Rightarrow> nat \<times> json \<Rightarrow> (world, item_fetch_result) prog" where
  "fetch_one get base_url = (\<lambda>(index, story_id).
     let source_id = json_str (\<lambda>_. '''') story_id in
     bindE (attempt (get (base_url @ ''/item/'' @ source_id @ ''.json''))) (\<lambda>r.
     case r of
       Inl exc \<Rightarrow>
         if is_fatal_transport exc \<and> index = 0 then raise (classify_feed_failure (Some exc) None)
         else ret \<lparr>ifr_source_id = source_id, ifr_status_code = None, ifr_body = None,
                   ifr_error_kind = (if is_timeout exc then EK_TIMEOUT else EK_CONNECTION)\<rparr>
     | Inr response \<Rightarrow>
         ret \<lparr>ifr_source_id = source_id, ifr_status_code = Some (rsp_status_code response),
              ifr_body = Some (rsp_content response),
              ifr_error_kind = (if rsp_status_code response \<noteq> 200 then EK_HTTP else EK_NONE)\<rparr>))"

text \<open>The thread pool fills the result list by index, so the results come in the order of the
  identifiers whatever the order of completion; only the first item's failure is fatal.\<close>

definition fetch_all :: "http_get \<Rightarrow> string \<Rightarrow> json list \<Rightarrow> (world, item_fetch_result list) prog" where
  "fetch_all get base_url story_ids = forE (List.enumerate 0 story_ids) (fetch_one get base_url)"

definition default_client :: "(string \<Rightarrow> exn + json) \<Rightarrow> http_get \<Rightarrow> string \<Rightarrow> hn_client" where
  "default_client loads get base_url =
     (let url = rstrip_slash base_url in
      \<lparr>hc_fetch_top_story_ids = feed_fetch loads get url, hc_fetch_items = fetch_all get url\<rparr>)"

text \<open>The stub of \<open>collector/fakes.py\<close>: an identifier has an exception, a payload or nothing;
  \<open>dumps\<close> is \<open>json.dumps\<close>.\<close>

definition stub_item :: "(json \<Rightarrow> string) \<Rightarrow> (json \<rightharpoonup> exn + json) \<Rightarrow> json \<Rightarrow> (world, item_fetch_result) prog" where
  "stub_item dumps items story_id =
     (let source_id = json_str (\<lambda>_. '''') story_id;
          missing = \<lparr>ifr_source_id = source_id, ifr_status_code = Some 404, ifr_body = None, ifr_error_kind = EK_HTTP\<rparr>
      in case items story_id of
           None \<Rightarrow> ret missing
         | Some (Inl e) \<Rightarrow> raise e
         | Some (Inr JNull) \<Rightarrow> ret missing
         | Some (Inr payload) \<Rightarrow>
             ret \<lparr>ifr_source_id = source_id, ifr_status_code = Some 200, ifr_body = Some (dumps payload),
                  ifr_error_kind = EK_NONE\<rparr>)"

definition stub_client :: "(json \<Rightarrow> string) \<Rightarrow> exn + json list \<Rightarrow> (json \<rightharpoonup> exn + json) \<Rightarrow> hn_client" where
  "stub_client dumps feed_ids items =
     \<lparr>hc_fetch_top_story_ids = (case feed_ids of Inl e \<Rightarrow> raise e | Inr ids \<Rightarrow> ret ids),
      hc_fetch_items = (\<lambda>story_ids. forE story_ids (stub_item dumps items))\<rparr>"


section \<open>Parser\<close>

datatype parse_outcome = PARSE_STORY | PARSE_SKIP | PARSE_REJECT_DELETED

definition parse_item :: "(string \<times> json) list \<Rightarrow> (string \<times> json) list option \<times> parse_outcome" where
  "parse_item observation =
     (if json_get observation ''type'' JNull \<noteq> JStr ''story'' then (None, PARSE_SKIP)
      else if json_get observation ''deleted'' JNull = JBool True then (None, PARSE_REJECT_DELETED)
      else (Some observation, PARSE_STORY))"

section \<open>Normalizer\<close>

definition control_char :: "char \<Rightarrow> bool" where
  "control_char c \<longleftrightarrow> (let n = (of_char c :: nat) in n \<le> 8 \<or> n = 11 \<or> n = 12 \<or> (14 \<le> n \<and> n \<le> 31))"

definition guard_check :: "string option list \<Rightarrow> bool" where
  "guard_check values = list_all (\<lambda>v. case v of None \<Rightarrow> True | Some s \<Rightarrow> \<not> list_ex control_char s) values"

text \<open>\<open>re.sub(r"\s+", " ", title)\<close>.\<close>

function collapse_spaces :: "string \<Rightarrow> string" where
  "collapse_spaces [] = []"
| "collapse_spaces (c # s) =
     (if is_space c then CHR '' '' # collapse_spaces (dropWhile is_space s) else c # collapse_spaces s)"
  by pat_completeness auto

termination
  by (relation "measure length") (auto simp: less_Suc_eq_le length_dropWhile_le)

text \<open>\<open>datetime.fromtimestamp(float(t), tz=UTC)\<close>: rounds half to even to microseconds; years outside
  1 to 9999 raise.\<close>


definition fromtimestamp :: "rat \<Rightarrow> ('s, datetime) prog" where
  "fromtimestamp t =
     (let micros = td_microseconds t in
      if t \<ge> 2 ^ 63 \<or> t < - (2 ^ 63) then raise (OtherError ''OverflowError'')
      else if micros < - 67768040609740800000000 \<or> 67768036191676800000000 \<le> micros then raise (OtherError ''OSError'')
      else if micros < - 62135596800000000 \<or> 253402300800000000 \<le> micros then raise ValueError
      else ret micros)"

fun stage_published_at :: "json \<Rightarrow> ('s, datetime option \<times> bool) prog" where
  "stage_published_at JNull = ret (None, False)"
| "stage_published_at (JInt i) = bindE (fromtimestamp (of_int i)) (\<lambda>t. ret (Some t, False))"
| "stage_published_at (JFloat r) = bindE (fromtimestamp r) (\<lambda>t. ret (Some t, False))"
| "stage_published_at _ = ret (None, True)"

text \<open>\<open>int(v) if isinstance(v, (int, float)) and not isinstance(v, bool) else None\<close>.\<close>

fun number_of :: "json \<Rightarrow> int option" where
  "number_of (JInt i) = Some i"
| "number_of (JFloat r) = Some (if r < 0 then \<lceil>r\<rceil> else \<lfloor>r\<rfloor>)"
| "number_of _ = None"

definition build_rejection ::
  "string \<Rightarrow> rejection_reason \<Rightarrow> datetime \<Rightarrow> (string \<times> json) list \<Rightarrow> string option \<Rightarrow> string option \<Rightarrow>
   rejected_story_record"
where
  "build_rejection source_id reason collected_at observation stage field =
     \<lparr>rj_source_id = source_id, rj_collected_at = collected_at, rj_raw_observation = observation,
      rj_reason_code = reason, rj_reason_detail = rejection_detail reason stage field\<rparr>"

definition stripped_field :: "(json \<Rightarrow> string) \<Rightarrow> json \<Rightarrow> string option" where
  "stripped_field rp v =
     (if v = JNull then None else let s = strip (json_str rp v) in if s = [] then None else Some s)"

text \<open>An address that cannot be made canonical is kept when it has a scheme other than HTTP; the outer
  \<open>None\<close> is the rejection at stage \<open>url\<close>.\<close>

definition stage_url :: "url_lib \<Rightarrow> string option \<Rightarrow> ('s, string option option) prog" where
  "stage_url U url =
     (case url of
        None \<Rightarrow> ret (Some None)
      | Some u \<Rightarrow>
          catchE (bindE (canonicalize U u) (\<lambda>c. ret (Some (Some c)))) (\<lambda>e.
            if e \<noteq> UrlCanonicalizationError then raise e
            else bindE (urlparse U (strip u)) (\<lambda>parsed.
              if url_scheme parsed \<noteq> [] \<and> url_scheme parsed \<notin> {''http'', ''https''}
              then ret (Some (Some (strip u))) else ret None)))"

definition normalize ::
  "collector \<Rightarrow> (string \<times> json) list \<Rightarrow> datetime \<Rightarrow> ('s, rejected_story_record + story_record) prog"
where
  "normalize K observation collected_at =
     (let source_id = json_str (cl_repr K) (json_get observation ''id'' (JStr ''''));
          reject = (\<lambda>sid reason stage field. ret (Inl (build_rejection sid reason collected_at observation stage field)));
          title_raw = json_get observation ''title'' JNull;
          blank = (case title_raw of JNull \<Rightarrow> True | JStr s \<Rightarrow> strip s = [] | _ \<Rightarrow> False);
          title = collapse_spaces (strip (json_str (cl_repr K) title_raw));
          author = stripped_field (cl_repr K) (json_get observation ''by'' JNull);
          url = stripped_field (cl_repr K) (json_get observation ''url'' JNull)
      in if json_get observation ''type'' JNull \<noteq> JStr ''story''
         then reject (if source_id = [] then ''unknown'' else source_id) REJ_VALIDATION_FAILED (Some ''type_gate'') None
         else if source_id = [] \<or> source_id = ''None''
         then reject ''unknown'' REJ_VALIDATION_FAILED (Some ''required_fields'') (Some ''source_id'')
         else if blank then reject source_id REJ_VALIDATION_FAILED (Some ''required_fields'') (Some ''title'')
         else if title = [] then reject source_id REJ_NORMALIZATION_FAILED (Some ''whitespace'') None
         else
           bindE (stage_url (cl_urls K) url) (\<lambda>staged.
           case staged of
             None \<Rightarrow> reject source_id REJ_NORMALIZATION_FAILED (Some ''url'') None
           | Some canonical_url \<Rightarrow>
               bindE (stage_published_at (json_get observation ''time'' JNull)) (\<lambda>(published_at, timestamp_failed).
               if timestamp_failed then reject source_id REJ_VALIDATION_FAILED (Some ''timestamp'') None
               else if \<not> guard_check [Some title, canonical_url, author]
               then reject source_id REJ_UNTRUSTED_CONTENT None None
               else ret (Inr
                 \<lparr>sr_source_id = source_id, sr_collected_at = collected_at, sr_raw_observation = observation,
                  sr_title = title, sr_url = canonical_url, sr_author = author,
                  sr_score = number_of (json_get observation ''score'' JNull),
                  sr_comment_count = number_of (json_get observation ''descendants'' JNull),
                  sr_published_at = published_at, sr_rank_score = None\<rparr>))))"

section \<open>Deduplication\<close>

definition duplicate_rejection :: "story_record \<Rightarrow> rejected_story_record" where
  "duplicate_rejection s =
     build_rejection (sr_source_id s) REJ_DUPLICATE (sr_collected_at s) (sr_raw_observation s) None None"

fun dedupe_from :: "string set \<Rightarrow> story_record list \<Rightarrow> story_record list \<times> rejected_story_record list" where
  "dedupe_from seen [] = ([], [])"
| "dedupe_from seen (s # ss) =
     (if sr_source_id s \<in> seen
      then (let (kept, rejected) = dedupe_from seen ss in (kept, duplicate_rejection s # rejected))
      else (let (kept, rejected) = dedupe_from (insert (sr_source_id s) seen) ss in (s # kept, rejected)))"

definition dedupe :: "story_record list \<Rightarrow> story_record list \<times> rejected_story_record list" where
  "dedupe accepted = dedupe_from {} accepted"

section \<open>Ranking\<close>

definition resolve_weights :: "collection_scoring_config option \<Rightarrow> scoring_weights" where
  "resolve_weights scoring =
     (case scoring of
        None \<Rightarrow> \<lparr>weight_score = 1, weight_comments = 1/2, weight_recency = 3/10\<rparr>
      | Some c \<Rightarrow> (let given = (\<lambda>w. case w of None \<Rightarrow> 0 | Some x \<Rightarrow> x) in
          \<lparr>weight_score = given (csc_weight_score c), weight_comments = given (csc_weight_comments c),
           weight_recency = given (csc_weight_recency c)\<rparr>))"

definition reference_published_at :: "story_record list \<Rightarrow> datetime option" where
  "reference_published_at stories =
     (case List.map_filter sr_published_at stories of [] \<Rightarrow> None | t # ts \<Rightarrow> Some (fold max ts t))"

definition recency_signal :: "datetime option \<Rightarrow> datetime option \<Rightarrow> rat" where
  "recency_signal published_at ref =
     (case (published_at, ref) of
        (Some t, Some r) \<Rightarrow> (let age_hours = max 0 (of_int (r - t) / 1000000 / 3600) in 1 / (1 + age_hours))
      | _ \<Rightarrow> 0)"

definition compute_rank_score :: "scoring_weights \<Rightarrow> datetime option \<Rightarrow> story_record \<Rightarrow> rat" where
  "compute_rank_score weights ref s =
     (let signal = (\<lambda>v. case v of None \<Rightarrow> 0 | Some i \<Rightarrow> of_int i) in
      weight_score weights * signal (sr_score s) + weight_comments weights * signal (sr_comment_count s)
      + weight_recency weights * recency_signal (sr_published_at s) ref)"

definition rank :: "story_record list \<Rightarrow> int \<Rightarrow> scoring_weights \<Rightarrow> story_record list \<times> story_record list" where
  "rank stories candidate_count weights =
     (let ref = reference_published_at stories;
          scored = map (\<lambda>s. let r = compute_rank_score weights ref s in (s\<lparr>sr_rank_score := Some r\<rparr>, r)) stories;
          ranked = map fst (sort_key (\<lambda>(s, r). (- r, sr_source_id s)) scored)
      in (ranked, slice_to candidate_count ranked))"

section \<open>Result\<close>

record collection_run_context =
  rc_started_at :: datetime
  rc_fetched_count :: int
  rc_duplicate_count :: int

definition build_result ::
  "env \<Rightarrow> collection_run_context \<Rightarrow> story_record list \<Rightarrow> story_record list \<Rightarrow> rejected_story_record list \<Rightarrow>
   (world, collection_result) prog"
where
  "build_result E context ranked candidates rejected =
     bindE (utc_now E) (\<lambda>completed_at.
     let stats = \<lparr>cst_fetched_count = rc_fetched_count context, cst_accepted_count = int (length ranked),
                  cst_rejected_count = int (length rejected), cst_duplicate_count = rc_duplicate_count context,
                  cst_candidate_count = int (length candidates)\<rparr>
     in if cst_accepted_count stats \<noteq> int (length ranked) \<or> cst_rejected_count stats \<noteq> int (length rejected)
           \<or> cst_candidate_count stats \<noteq> int (length candidates)
        then raise ValueError
        else ret \<lparr>cr_started_at = rc_started_at context, cr_completed_at = completed_at, cr_stories = ranked,
                  cr_candidates = candidates, cr_rejected = rejected, cr_stats = stats\<rparr>)"

section \<open>Service\<close>

text \<open>What the first loop makes of one item: skipped, rejected, or fetched with the observation that
  is queued, if any.\<close>

datatype item_step = StepSkip | StepReject rejected_story_record | StepFetched "(string \<times> (string \<times> json) list) option"

definition take_item :: "collector \<Rightarrow> item_fetch_result \<Rightarrow> (world, item_step) prog" where
  "take_item K r =
     bindE (classify_item_failure (cl_json_loads K) r) (\<lambda>outcome.
     case outcome of
       ITEM_SKIP \<Rightarrow> ret StepSkip
     | ITEM_REJECT_JSON \<Rightarrow>
         bindE (utc_now (cl_env K)) (\<lambda>collected_at.
         ret (StepReject (build_rejection (ifr_source_id r) REJ_NORMALIZATION_FAILED collected_at []
                            (Some ''json_decode'') None)))
     | ITEM_OK \<Rightarrow>
         bindE (decode_item (cl_json_loads K) (case ifr_body r of None \<Rightarrow> [] | Some b \<Rightarrow> b) (ifr_source_id r))
           (\<lambda>observation. ret (StepFetched (map_option (Pair (ifr_source_id r)) observation))))"

fun step_rejections :: "item_step list \<Rightarrow> rejected_story_record list" where
  "step_rejections [] = []"
| "step_rejections (StepReject r # xs) = r # step_rejections xs"
| "step_rejections (_ # xs) = step_rejections xs"

fun step_queued :: "item_step list \<Rightarrow> (string \<times> (string \<times> json) list) list" where
  "step_queued [] = []"
| "step_queued (StepFetched (Some q) # xs) = q # step_queued xs"
| "step_queued (_ # xs) = step_queued xs"

definition is_fetched :: "item_step \<Rightarrow> bool" where
  "is_fetched x = (case x of StepFetched _ \<Rightarrow> True | _ \<Rightarrow> False)"

definition take_story ::
  "collector \<Rightarrow> string \<times> (string \<times> json) list \<Rightarrow> (world, (rejected_story_record + story_record) option) prog"
where
  "take_story K = (\<lambda>(source_id, observation).
     bindE (utc_now (cl_env K)) (\<lambda>collected_at.
     case parse_item observation of
       (_, PARSE_SKIP) \<Rightarrow> ret None
     | (_, PARSE_REJECT_DELETED) \<Rightarrow>
         ret (Some (Inl (build_rejection source_id REJ_VALIDATION_FAILED collected_at observation
                           (Some ''deleted_story'') None)))
     | (parsed, PARSE_STORY) \<Rightarrow>
         bindE (normalize K (the parsed) collected_at) (\<lambda>n. ret (Some n))))"

fun story_rejections :: "(rejected_story_record + story_record) option list \<Rightarrow> rejected_story_record list" where
  "story_rejections [] = []"
| "story_rejections (Some (Inl r) # xs) = r # story_rejections xs"
| "story_rejections (_ # xs) = story_rejections xs"

fun story_drafts :: "(rejected_story_record + story_record) option list \<Rightarrow> story_record list" where
  "story_drafts [] = []"
| "story_drafts (Some (Inr s) # xs) = s # story_drafts xs"
| "story_drafts (_ # xs) = story_drafts xs"

definition collect_stories :: "collector \<Rightarrow> collection_config \<Rightarrow> (world, collection_result) prog" where
  "collect_stories K config =
     bindE (utc_now (cl_env K)) (\<lambda>started_at.
     let pool_size = compute_pool_size (cc_candidate_count config) in
     bindE (hc_fetch_top_story_ids (cl_client K)) (\<lambda>feed.
     bindE (hc_fetch_items (cl_client K) (slice_to pool_size feed)) (\<lambda>item_results.
     bindE (forE item_results (take_item K)) (\<lambda>steps.
     bindE (forE (step_queued steps) (take_story K)) (\<lambda>taken.
     let (deduped, duplicates) = dedupe (story_drafts taken);
         rejected = step_rejections steps @ story_rejections taken @ duplicates;
         weights = resolve_weights (cc_scoring config);
         (all_ranked, candidates) = rank deduped (cc_candidate_count config) weights
     in build_result (cl_env K)
          \<lparr>rc_started_at = started_at, rc_fetched_count = int (length (filter is_fetched steps)),
           rc_duplicate_count = int (length duplicates)\<rparr>
          all_ranked candidates rejected)))))"

end
