(* ===== verification/Collector_Properties.thy ===== *)
theory Collector_Properties
  imports Collector Stage_Guarantees
begin

text \<open>
  What a collection guarantees, whatever Hacker News answers: canonical addresses, stories without
  control characters, distinct identifiers, a ranking in the documented order and counts that agree
  with the lists. The contract of a client (\<open>hn_source\<close>) is discharged for the HTTP client and for
  the stub of \<open>collector/fakes.py\<close>.
\<close>

section \<open>Canonical addresses\<close>

lemma contains_iff: "contains p s \<longleftrightarrow> (\<exists>a b. s = a @ p @ b)"
proof (induction s)
  case (Cons c s)
  have "take (length p) (c # s) = p \<longleftrightarrow> (\<exists>b. c # s = p @ b)"
    by (metis append_eq_conv_conj append_take_drop_id)
  moreover have "(\<exists>a b. c # s = a @ p @ b) \<longleftrightarrow> (\<exists>b. c # s = p @ b) \<or> (\<exists>a b. s = a @ p @ b)"
    by (auto simp: Cons_eq_append_conv)
  ultimately show ?case using Cons.IH by simp
qed simp

lemma collapse_slashes_free: "\<not> contains ''//'' (collapse_slashes s)"
proof (induction s rule: collapse_slashes.induct)
  case (1 s)
  then show ?case by (cases "contains ''//'' s") (simp_all add: collapse_slashes.simps [of s])
qed

lemma contains_append: "contains p s \<Longrightarrow> contains p (s @ t)"
  unfolding contains_iff by (metis append_assoc)

lemma rstrip_slash_prefix: "\<exists>t. s = rstrip_slash s @ t"
  unfolding rstrip_slash_def
  by (metis rev_append rev_rev_ident takeWhile_dropWhile_id)

lemma canonical_path_free: "\<not> contains ''//'' (canonical_path p)"
proof -
  obtain t where "collapse_slashes p = rstrip_slash (collapse_slashes p) @ t"
    using rstrip_slash_prefix by blast
  then have "\<not> contains ''//'' (rstrip_slash (collapse_slashes p))"
    using collapse_slashes_free [of p] contains_append by metis
  then show ?thesis using collapse_slashes_free [of p] by (simp add: canonical_path_def Let_def)
qed

lemma canonical_path_end: "canonical_path p = [] \<or> canonical_path p = ''/'' \<or> last (canonical_path p) \<noteq> CHR ''/''"
proof (cases "rstrip_slash (collapse_slashes p) = []")
  case False
  then have "last (rstrip_slash (collapse_slashes p)) \<noteq> CHR ''/''"
    using hd_dropWhile [of "\<lambda>c. c = CHR ''/''" "rev (collapse_slashes p)"]
    by (simp add: rstrip_slash_def last_rev del: dropWhile_eq_Nil_conv)
  then show ?thesis by (auto simp: canonical_path_def Let_def)
qed (auto simp: canonical_path_def Let_def)

text \<open>
  The shape of a canonical address: HTTPS, or HTTP with a port of its own; a path without empty
  segments and without a trailing slash; a query sorted by name and without tracking parameters.
\<close>

definition canonical_url :: "string \<Rightarrow> bool" where
  "canonical_url c \<longleftrightarrow> (\<exists>scheme netloc p params. c = urlunparse scheme netloc p (urlencode params)
     \<and> scheme \<in> {''http'', ''https''} \<and> \<not> contains ''//'' p \<and> (p = [] \<or> p = ''/'' \<or> last p \<noteq> CHR ''/'')
     \<and> sorted (map fst params) \<and> (\<forall>(k, v) \<in> set params. \<not> is_tracking_param k))"

lemma canonicalize_shape: "canonicalize U url s = (Inr c, s') \<Longrightarrow> canonical_url c"
proof -
  assume run: "canonicalize U url s = (Inr c, s')"
  then obtain scheme netloc given qs where c: "c = urlunparse scheme netloc (canonical_path given)
      (urlencode (sort_key fst (filter (\<lambda>(k, v). \<not> is_tracking_param k) qs)))" and "scheme \<in> {''http'', ''https''}"
    unfolding canonicalize_def Let_def
    by (auto simp: bindE_eq_Inr split: if_splits option.splits)
  then show ?thesis
    unfolding canonical_url_def using canonical_path_free [of given] canonical_path_end [of given]
    by (intro exI [of _ scheme] exI [of _ netloc] exI [of _ "canonical_path given"] exI conjI)
       (auto simp: sorted_sort_key)
qed

section \<open>Normalized stories\<close>

lemma collapse_spaces_space: "c \<in> set (collapse_spaces s) \<Longrightarrow> is_space c \<Longrightarrow> c = CHR '' ''"
  by (induction s rule: collapse_spaces.induct) (auto split: if_splits)

lemma collapse_spaces_pair:
  "collapse_spaces s = xs @ a # b # ys \<Longrightarrow> \<not> (is_space a \<and> is_space b)"
proof (induction s arbitrary: xs rule: collapse_spaces.induct)
  case (2 c s)
  then show ?case
  proof (cases xs)
    case Nil
    show ?thesis
    proof (cases "is_space c")
      case True
      then have rest: "collapse_spaces (dropWhile is_space s) = b # ys" using 2(3) Nil by simp
      then obtain d t where s: "dropWhile is_space s = d # t" by (cases "dropWhile is_space s") auto
      then have "\<not> is_space d" using hd_dropWhile [of is_space s] by simp
      with rest s show ?thesis by auto
    qed (use 2(3) Nil in auto)
  next
    case (Cons x xs')
    then show ?thesis using 2 by (cases "is_space c") auto
  qed
qed simp

definition clean_text :: "string \<Rightarrow> bool" where
  "clean_text s \<longleftrightarrow> s \<noteq> [] \<and> \<not> list_ex control_char s"

text \<open>What the rest of the program may rely on for an accepted story.\<close>

definition story_ok :: "story_record \<Rightarrow> bool" where
  "story_ok st \<longleftrightarrow>
     sr_source_id st \<notin> {'''', ''None''}
     \<and> json_get (sr_raw_observation st) ''type'' JNull = JStr ''story''
     \<and> clean_text (sr_title st) \<and> (\<forall>c \<in> set (sr_title st). is_space c \<longrightarrow> c = CHR '' '')
     \<and> (\<forall>a. sr_author st = Some a \<longrightarrow> clean_text a)
     \<and> (\<forall>u. sr_url st = Some u \<longrightarrow> \<not> list_ex control_char u
          \<and> (canonical_url u \<or> take 7 u \<noteq> ''http://'' \<and> take 8 u \<noteq> ''https://''))"


lemma http_scheme:
  assumes "urlparse U u s = (Inr p, s')"
  shows "take 7 u = ''http://'' \<Longrightarrow> url_scheme p = ''http''"
    and "take 8 u = ''https://'' \<Longrightarrow> url_scheme p = ''https''"
proof -
  have split: "fst (split_scheme (''http:'' @ r)) = ''http''" "fst (split_scheme (''https:'' @ r)) = ''https''" for r
    by (simp_all add: split_scheme_def before_def scheme_char_def decimal_char_def latin_lower_def Let_def)
  have p: "url_scheme p = fst (split_scheme
      (filter (\<lambda>c. (of_char c :: nat) \<notin> {9, 10, 13}) (dropWhile (\<lambda>c. (of_char c :: nat) \<le> 32) u)))"
    using assms by (auto simp: urlparse_def Let_def split: prod.splits if_splits)
  show "url_scheme p = ''http''" if "take 7 u = ''http://''"
  proof -
    from that obtain r where "u = ''http://'' @ r" by (metis append_take_drop_id)
    then show ?thesis using p split(1) [of "''//'' @ filter (\<lambda>c. (of_char c :: nat) \<notin> {9, 10, 13}) r"] by simp
  qed
  show "url_scheme p = ''https''" if "take 8 u = ''https://''"
  proof -
    from that obtain r where "u = ''https://'' @ r" by (metis append_take_drop_id)
    then show ?thesis using p split(2) [of "''//'' @ filter (\<lambda>c. (of_char c :: nat) \<notin> {9, 10, 13}) r"] by simp
  qed
qed

lemma stage_url_shape:
  fixes s :: 's
  assumes "stage_url U url s = (Inr (Some (Some u)), s')"
  shows "canonical_url u \<or> take 7 u \<noteq> ''http://'' \<and> take 8 u \<noteq> ''https://''"
proof (cases url)
  case (Some v)
  with assms consider (1) s1 :: 's where "canonicalize U v s = (Inr u, s1)"
    | (2) s1 :: 's and p s2 where "urlparse U (strip v) s1 = (Inr p, s2)" "url_scheme p \<notin> {''http'', ''https''}" "u = strip v"
    by (auto simp: stage_url_def catchE_def bindE_eq_Inr bindE_eq_Inl split: prod.splits sum.splits if_splits)
  then show ?thesis
  proof cases
    case 1
    then show ?thesis using canonicalize_shape [of U v s u s1] by simp
  next
    case 2
    then show ?thesis using http_scheme [OF 2(1)] by auto
  qed
qed (use assms in \<open>simp add: stage_url_def\<close>)

lemma normalize_ok:
  assumes "normalize K obs t s = (Inr (Inr st), s')"
  shows "story_ok st" and "sr_raw_observation st = obs"
proof -
  let ?title = "collapse_spaces (strip (json_str (cl_repr K) (json_get obs ''title'' JNull)))"
  let ?author = "stripped_field (cl_repr K) (json_get obs ''by'' JNull)"
  from assms obtain url s1 where url: "stage_url (cl_urls K) (stripped_field (cl_repr K) (json_get obs ''url'' JNull)) s = (Inr (Some url), s1)"
    and guard: "guard_check [Some ?title, url, ?author]" and ne: "?title \<noteq> []"
    and ty: "json_get obs ''type'' JNull = JStr ''story''"
    and st: "sr_source_id st \<notin> {'''', ''None''}" "sr_raw_observation st = obs" "sr_title st = ?title" "sr_url st = url" "sr_author st = ?author"
    unfolding normalize_def Let_def by (auto simp: bindE_eq_Inr split: if_splits option.splits prod.splits)
  show "sr_raw_observation st = obs" by (fact st(2))
  have "clean_text ?title" "\<And>a. ?author = Some a \<Longrightarrow> clean_text a" "\<And>u. url = Some u \<Longrightarrow> \<not> list_ex control_char u"
    using guard ne by (auto simp: guard_check_def clean_text_def stripped_field_def Let_def split: if_splits)
  moreover have "canonical_url u \<or> take 7 u \<noteq> ''http://'' \<and> take 8 u \<noteq> ''https://''" if "url = Some u" for u
    using stage_url_shape [of "cl_urls K" _ s u s1] url that by simp
  ultimately show "story_ok st"
    unfolding story_ok_def st(2-) using st(1) ty collapse_spaces_space by auto
qed


section \<open>Deduplication and ranking\<close>

lemma dedupe_from_spec:
  assumes "dedupe_from seen ss = (kept, dups)"
  shows "distinct (map sr_source_id kept)" and "sr_source_id ` set kept = sr_source_id ` set ss - seen"
    and "set kept \<subseteq> set ss" and "length kept + length dups = length ss"
    and "set dups \<subseteq> duplicate_rejection ` set ss"
  using assms
proof (induction seen ss arbitrary: kept dups rule: dedupe_from.induct)
  case (2 seen s ss)
  case 1 then show ?case using "2.IH" by (auto split: if_splits prod.splits)
next
  case (2 seen s ss)
  case 2
  show ?case
  proof (cases "sr_source_id s \<in> seen")
    case False
    then obtain k d where rest: "dedupe_from (insert (sr_source_id s) seen) ss = (k, d)" and k: "kept = s # k"
      using 2 by (auto split: prod.splits)
    have "sr_source_id ` set k = sr_source_id ` set ss - insert (sr_source_id s) seen"
      using "2.IH"(7) [OF False rest] .
    then show ?thesis using False k by auto
  qed (use 2 "2.IH" in \<open>auto split: prod.splits\<close>)
next
  case (2 seen s ss)
  case 3 then show ?case using "2.IH" by (auto split: if_splits prod.splits)
next
  case (2 seen s ss)
  case 4 then show ?case using "2.IH" by (auto split: if_splits prod.splits)
next
  case (2 seen s ss)
  case 5 then show ?case using "2.IH" by (auto split: if_splits prod.splits)
qed simp_all

lemma reference_Max:
  "reference_published_at ss =
     (let ts = {t. Some t \<in> sr_published_at ` set ss} in if ts = {} then None else Some (Max ts))"
proof -
  have set: "set (List.map_filter sr_published_at ss) = {t. Some t \<in> sr_published_at ` set ss}"
    by (induction ss) (auto simp: List.map_filter_simps split: option.splits)
  show ?thesis
  proof (cases "List.map_filter sr_published_at ss")
    case Nil
    then show ?thesis using set by (simp add: reference_published_at_def Let_def)
  next
    case (Cons t ts)
    then have "Max {t. Some t \<in> sr_published_at ` set ss} = fold max ts t"
      unfolding set [symmetric] Cons by (simp only: Max.set_eq_fold)
    moreover have "{t. Some t \<in> sr_published_at ` set ss} \<noteq> {}" using set Cons by (metis list.set_intros(1) empty_iff)
    ultimately show ?thesis by (simp add: reference_published_at_def Cons Let_def)
  qed
qed

definition rank_key :: "story_record \<Rightarrow> rat \<times> string" where
  "rank_key s = (- the (sr_rank_score s), sr_source_id s)"

definition with_score :: "scoring_weights \<Rightarrow> datetime option \<Rightarrow> story_record \<Rightarrow> story_record" where
  "with_score weights ref s = s\<lparr>sr_rank_score := Some (compute_rank_score weights ref s)\<rparr>"

text \<open>The ranking is a permutation of the stories with their scores filled in, in the order of falling
  score and, for equal scores, of the identifier; the candidates are a prefix of it.\<close>

lemma rank_spec:
  assumes "rank ss n weights = (ranked, candidates)"
  shows "mset ranked = mset (map (with_score weights (reference_published_at ss)) ss)"
    and "sorted (map rank_key ranked)" and "candidates = slice_to n ranked"
proof -
  let ?g = "with_score weights (reference_published_at ss)"
  let ?scored = "map (\<lambda>s. (?g s, compute_rank_score weights (reference_published_at ss) s)) ss"
  let ?f = "\<lambda>(s :: story_record, r :: rat). (- r, sr_source_id s)"
  have ranked: "ranked = map fst (sort_key ?f ?scored)" and "candidates = slice_to n ranked"
    using assms by (auto simp: rank_def Let_def with_score_def)
  then show "candidates = slice_to n ranked" by simp
  have "mset ranked = image_mset fst (mset ?scored)" by (simp only: ranked mset_map mset_sort)
  then show "mset ranked = mset (map ?g ss)" by (simp add: image_mset.compositionality comp_def)
  have "rank_key (fst p) = ?f p" if "p \<in> set ?scored" for p
    using that by (auto simp: rank_key_def with_score_def)
  then have "map rank_key ranked = map ?f (sort_key ?f ?scored)" by (simp add: ranked comp_def)
  then show "sorted (map rank_key ranked)" by (simp only: sorted_sort_key)
qed

lemma score_ignores_rank [simp]:
  "compute_rank_score weights ref (s\<lparr>sr_rank_score := x\<rparr>) = compute_rank_score weights ref s"
  by (simp add: compute_rank_score_def)

lemma reference_ranked:
  assumes "mset ranked = mset (map (with_score weights ref) ss)"
  shows "reference_published_at ranked = reference_published_at ss"
proof -
  have "set ranked = with_score weights ref ` set ss" using assms by (metis set_mset_mset set_map)
  then have "sr_published_at ` set ranked = sr_published_at ` set ss"
    by (simp add: image_image with_score_def)
  then show ?thesis by (simp only: reference_Max)
qed


section \<open>The contract of a client\<close>

text \<open>A client answers the identifiers it is asked for, one result each and in their order.\<close>

locale hn_source =
  fixes client :: hn_client
  assumes answered: "hc_fetch_items client ids w = (Inr items, w') \<Longrightarrow>
    map ifr_source_id items = map (json_str (\<lambda>_. '''')) ids"
begin

lemma answers_bounded:
  assumes "hc_fetch_items client (slice_to n ids) w = (Inr items, w')" and "0 \<le> n"
  shows "int (length items) \<le> n"
proof -
  have "length items = length (slice_to n ids)" using answered [OF assms(1)] by (metis length_map)
  then show ?thesis using assms(2) by (simp add: length_slice_to)
qed

end

lemma forE_ids:
  assumes "forE xs f w = (Inr ys, w')" and "\<And>x w y w'. f x w = (Inr y, w') \<Longrightarrow> ifr_source_id y = g x"
  shows "map ifr_source_id ys = map g xs"
  using forE_results [OF assms(1), of "\<lambda>x y. ifr_source_id y = g x"] assms(2)
  by (auto simp: list_all2_conv_all_nth intro!: nth_equalityI)

lemma fetch_one_id:
  assumes "fetch_one get base_url p w = (Inr y, w')"
  shows "ifr_source_id y = json_str (\<lambda>_. '''') (snd p)"
proof (cases p)
  case (Pair index sid)
  obtain r w1 where "get (base_url @ ''/item/'' @ json_str (\<lambda>_. '''') sid @ ''.json'') w = (r, w1)" by fastforce
  then show ?thesis
    using assms Pair by (cases r) (auto simp: fetch_one_def Let_def bindE_def attempt_def split: if_splits)
qed

interpretation http: hn_source "default_client loads get base_url" for loads get base_url
proof
  fix ids w items w'
  assume "hc_fetch_items (default_client loads get base_url) ids w = (Inr items, w')"
  then have "map ifr_source_id items = map (\<lambda>p. json_str (\<lambda>_. '''') (snd p)) (List.enumerate 0 ids)"
    unfolding default_client_def Let_def hn_client.simps fetch_all_def
    by (rule forE_ids) (rule fetch_one_id)
  then show "map ifr_source_id items = map (json_str (\<lambda>_. '''')) ids"
    using map_snd_enumerate [of 0 ids] by (metis (no_types, lifting) map_map comp_apply map_eq_conv)
qed

interpretation stub: hn_source "stub_client dumps feed_ids items" for dumps feed_ids items
proof
  fix ids w results w'
  assume "hc_fetch_items (stub_client dumps feed_ids items) ids w = (Inr results, w')"
  then show "map ifr_source_id results = map (json_str (\<lambda>_. '''')) ids"
    unfolding stub_client_def hn_client.simps
    by (rule forE_ids) (auto simp: stub_item_def Let_def split: option.splits sum.splits json.splits)
qed

text \<open>The clients the program has.\<close>

definition hn_clients :: "hn_client set" where
  "hn_clients = {c. (\<exists>loads get url. c = default_client loads get url) \<or> (\<exists>dumps ids items. c = stub_client dumps ids items)}"

lemma clients_bounded:
  assumes "client \<in> hn_clients" and "hc_fetch_items client (slice_to n ids) w = (Inr items, w')" and "0 \<le> n"
  shows "int (length items) \<le> n"
  using assms http.answers_bounded stub.answers_bounded unfolding hn_clients_def by blast

section \<open>A collection run\<close>

lemma collect_run:
  assumes "collect_stories K cfg w = (Inr r, w')"
  obtains feed w1 items w2 w3 steps w4 taken w5 kept dups where
    "hc_fetch_items (cl_client K) (slice_to (compute_pool_size (cc_candidate_count cfg)) feed) w1 = (Inr items, w2)"
    and "forE items (take_item K) w2 = (Inr steps, w3)"
    and "forE (step_queued steps) (take_story K) w3 = (Inr taken, w4)"
    and "dedupe_from {} (story_drafts taken) = (kept, dups)"
    and "rank kept (cc_candidate_count cfg) (resolve_weights (cc_scoring cfg)) = (cr_stories r, cr_candidates r)"
    and "cr_rejected r = step_rejections steps @ story_rejections taken @ dups"
    and "cr_stats r = \<lparr>cst_fetched_count = int (length (filter is_fetched steps)),
      cst_accepted_count = int (length (cr_stories r)), cst_rejected_count = int (length (cr_rejected r)),
      cst_duplicate_count = int (length dups), cst_candidate_count = int (length (cr_candidates r))\<rparr>"
proof -
  from assms obtain t w0 feed w1 items w2 steps w3 taken w4 where
    run: "hc_fetch_items (cl_client K) (slice_to (compute_pool_size (cc_candidate_count cfg)) feed) w1 = (Inr items, w2)"
      "forE items (take_item K) w2 = (Inr steps, w3)" "forE (step_queued steps) (take_story K) w3 = (Inr taken, w4)"
    and built: "(case dedupe (story_drafts taken) of (deduped, duplicates) \<Rightarrow>
        case rank deduped (cc_candidate_count cfg) (resolve_weights (cc_scoring cfg)) of (all_ranked, candidates) \<Rightarrow>
          build_result (cl_env K) \<lparr>rc_started_at = t, rc_fetched_count = int (length (filter is_fetched steps)),
            rc_duplicate_count = int (length duplicates)\<rparr> all_ranked candidates
            (step_rejections steps @ story_rejections taken @ duplicates)) w4 = (Inr r, w')"
    unfolding collect_stories_def Let_def bindE_eq_Inr by blast
  obtain kept dups where d: "dedupe_from {} (story_drafts taken) = (kept, dups)" by fastforce
  obtain ranked cands where k: "rank kept (cc_candidate_count cfg) (resolve_weights (cc_scoring cfg)) = (ranked, cands)"
    by fastforce
  show thesis using built that [OF run d] k by (auto simp: dedupe_def d build_result_def bindE_eq_Inr)
qed

lemma length_forE: "forE xs f w = (Inr ys, w') \<Longrightarrow> length ys = length xs"
  using forE_results [of xs f w ys w' "\<lambda>_ _. True"] by (auto dest: list_all2_lengthD)

lemma step_counts:
  "length (step_rejections steps) + length (filter is_fetched steps) \<le> length steps"
  "length (step_queued steps) \<le> length (filter is_fetched steps)"
  by (induction steps rule: step_queued.induct) (auto simp: is_fetched_def)

lemma story_counts: "length (story_rejections taken) + length (story_drafts taken) \<le> length taken"
  by (induction taken rule: story_drafts.induct) auto

lemma take_story_ok:
  assumes "take_story K q w = (Inr (Some (Inr st)), w')"
  shows "story_ok st"
proof -
  obtain sid obs parsed outcome where "q = (sid, obs)" and "parse_item obs = (parsed, outcome)"
    by (metis surj_pair)
  then show ?thesis
    using assms by (cases outcome) (auto simp: take_story_def bindE_eq_Inr intro: normalize_ok(1))
qed

lemma drafts_ok:
  assumes "forE queued (take_story K) w = (Inr taken, w')" and "s \<in> set (story_drafts taken)"
  shows "story_ok s"
proof -
  have "list_all2 (\<lambda>_ y. \<forall>st. y = Some (Inr st) \<longrightarrow> story_ok st) queued taken"
    using assms(1) by (rule forE_results) (auto intro: take_story_ok)
  then have "\<forall>y \<in> set taken. \<forall>st. y = Some (Inr st) \<longrightarrow> story_ok st"
    by (auto simp: list_all2_conv_all_nth in_set_conv_nth)
  then show ?thesis using assms(2) by (induction taken rule: story_drafts.induct) auto
qed

lemma story_ok_with_score [simp]: "story_ok (with_score weights ref s) = story_ok s"
  by (simp add: story_ok_def with_score_def)

lemma with_score_id [simp]: "sr_source_id (with_score weights ref s) = sr_source_id s"
  by (simp add: with_score_def)

lemma pool_size_bounds: "50 \<le> compute_pool_size n" "compute_pool_size n \<le> 200"
  by (simp_all add: compute_pool_size_def POOL_SIZE_MIN_def POOL_SIZE_MAX_def)




text \<open>A run on three items: two stories and one that repeats the identifier of the first.\<close>

definition demo_item :: "string \<Rightarrow> int \<Rightarrow> json" where
  "demo_item sid score = JObj [(''id'', JStr sid), (''type'', JStr ''story''), (''title'', JStr ''T''), (''score'', JInt score)]"

definition demo_collector :: collector where
  "demo_collector = \<lparr>cl_env = demo_env,
     cl_client = stub_client (\<lambda>v. if v = demo_item ''a'' 5 then ''x'' else if v = demo_item ''b'' 9 then ''y'' else ''z'')
       (Inr [JInt 1, JInt 2, JInt 3])
       [JInt 1 \<mapsto> Inr (demo_item ''a'' 5), JInt 2 \<mapsto> Inr (demo_item ''b'' 9), JInt 3 \<mapsto> Inr (demo_item ''a'' 7)],
     cl_json_loads = (\<lambda>s. if s = ''x'' then Inr (demo_item ''a'' 5) else if s = ''y'' then Inr (demo_item ''b'' 9)
       else Inr (demo_item ''a'' 7)),
     cl_urls = \<lparr>ul_netloc_ok = (\<lambda>_. True), ul_unquote = id, ul_idna = (\<lambda>_. None)\<rparr>, cl_repr = (\<lambda>_. '''')\<rparr>"

lemma demo_take_item:
  "body \<in> {''x'', ''y'', ''z''} \<Longrightarrow>
   take_item demo_collector \<lparr>ifr_source_id = sid, ifr_status_code = Some 200, ifr_body = Some body, ifr_error_kind = EK_NONE\<rparr> w
     = (Inr (StepFetched (Some (sid, case cl_json_loads demo_collector body of Inr (JObj kvs) \<Rightarrow> kvs | _ \<Rightarrow> []))), w)"
  by (auto simp: take_item_def classify_item_failure_def decode_item_def byte_strip_def ascii_space_def demo_collector_def
      demo_item_def py_simps)

definition demo_draft :: "string \<Rightarrow> int \<Rightarrow> world \<Rightarrow> story_record" where
  "demo_draft sid score w =
    \<lparr>sr_source_id = sid, sr_collected_at = env_now demo_env (ticks w),
     sr_raw_observation = [(''id'', JStr sid), (''type'', JStr ''story''), (''title'', JStr ''T''), (''score'', JInt score)],
     sr_title = ''T'', sr_url = None, sr_author = None, sr_score = Some score, sr_comment_count = None,
     sr_published_at = None, sr_rank_score = None\<rparr>"

lemma demo_take_story:
  assumes "sid \<in> {''a'', ''b''}"
  shows "take_story demo_collector
      (i, [(''id'', JStr sid), (''type'', JStr ''story''), (''title'', JStr ''T''), (''score'', JInt score)]) w
    = (Inr (Some (Inr (demo_draft sid score w))), w\<lparr>ticks := Suc (ticks w)\<rparr>)"
proof -
  have env: "cl_env demo_collector = demo_env" and strip: "strip ''T'' = ''T''" and sp: "\<not> is_space CHR ''T''"
    and ok: "guard_check [Some ''T'', None, None]"
    by (simp_all add: demo_collector_def strip_def is_space_def guard_check_def control_char_def)
  show ?thesis using assms
    by (auto simp: take_story_def parse_item_def json_get_def normalize_def stripped_field_def stage_url_def
      demo_draft_def env strip sp ok bindE_def ret_def utc_now_def Let_def)
qed


section \<open>The collector as a dependency of the handlers\<close>

text \<open>A collection reads the clock and writes no table when its client does not; the HTTP client does
  not when the requests do not.\<close>

lemma clock_only_refl: "reflp clock_only"
  by (simp add: reflp_def clock_only_def)

lemma clock_only_trans: "transp clock_only"
  by (rule transpI) (elim clock_onlyE, simp add: clock_only_def)

lemmas clock_intro = clock_only_refl clock_only_trans evolves_intro

lemma utc_now_clock_only [evolves_intro]: "evolves clock_only (utc_now E)"
  by (simp add: evolves_def utc_now_def clock_only_def)

locale clock_frame =
  fixes R :: "world \<Rightarrow> world \<Rightarrow> bool"
  assumes refl: "reflp R" and trans: "transp R" and clock: "evolves R (utc_now E)"
begin

lemmas frame_intro = evolves_intro evolves_option refl trans

lemma frame_sum: "(\<And>x. evolves R (f x)) \<Longrightarrow> (\<And>y. evolves R (g y)) \<Longrightarrow> evolves R (case v of Inl x \<Rightarrow> f x | Inr y \<Rightarrow> g y)"
  by (cases v) simp_all

lemma frame_prod: "(\<And>x y. evolves R (f x y)) \<Longrightarrow> evolves R (case p of (x, y) \<Rightarrow> f x y)"
  by (cases p) simp

lemma frame_attempt: "evolves R m \<Longrightarrow> evolves R (attempt m)"
  by (simp add: evolves_def attempt_def case_prod_beta)

lemma frame_json:
  assumes "evolves R n" and "\<And>b. evolves R (f b)" and "\<And>i. evolves R (g i)" and "\<And>r. evolves R (h r)"
    and "\<And>s. evolves R (t s)" and "\<And>xs. evolves R (l xs)" and "\<And>kvs. evolves R (d kvs)"
  shows "evolves R (case v of JNull \<Rightarrow> n | JBool b \<Rightarrow> f b | JInt i \<Rightarrow> g i | JFloat r \<Rightarrow> h r | JStr s \<Rightarrow> t s
    | JList xs \<Rightarrow> l xs | JObj kvs \<Rightarrow> d kvs)"
  using assms by (cases v) simp_all

lemma frame_urlparse: "evolves R (urlparse U url)"
  unfolding urlparse_def Let_def by (auto intro!: frame_intro split: prod.splits)

lemma frame_canonicalize: "evolves R (canonicalize U url)"
  unfolding canonicalize_def explicit_port_def url_port_def Let_def by (intro frame_intro frame_urlparse)

lemma frame_stage_url: "evolves R (stage_url U url)"
  unfolding stage_url_def by (intro frame_intro frame_urlparse frame_canonicalize)

lemma frame_published_at: "evolves R (stage_published_at v)"
  by (cases v) (auto simp: fromtimestamp_def Let_def intro!: frame_intro)

lemma frame_normalize: "evolves R (normalize K obs t)"
  unfolding normalize_def Let_def by (intro frame_intro frame_prod frame_stage_url frame_published_at)

lemma frame_classify: "evolves R (classify_item_failure loads r)"
  unfolding classify_item_failure_def by (intro frame_intro frame_sum frame_json)

lemma frame_decode: "evolves R (decode_item loads body sid)"
  unfolding decode_item_def by (intro frame_intro frame_sum frame_json)

lemma frame_take_item: "evolves R (take_item K r)"
  unfolding take_item_def
proof (intro frame_intro frame_classify)
  fix outcome
  show "evolves R (case outcome of
      ITEM_SKIP \<Rightarrow> ret StepSkip
    | ITEM_REJECT_JSON \<Rightarrow> bindE (utc_now (cl_env K)) (\<lambda>t. ret (StepReject (build_rejection (ifr_source_id r)
        REJ_NORMALIZATION_FAILED t [] (Some ''json_decode'') None)))
    | ITEM_OK \<Rightarrow> bindE (decode_item (cl_json_loads K) (case ifr_body r of None \<Rightarrow> [] | Some b \<Rightarrow> b) (ifr_source_id r))
        (\<lambda>obs. ret (StepFetched (map_option (Pair (ifr_source_id r)) obs))))"
    by (cases outcome) (simp_all only: item_outcome.case, (intro frame_intro clock frame_decode)+)
qed

lemma frame_take_story: "evolves R (take_story K q)"
  unfolding take_story_def
  by (cases q) (auto intro!: frame_intro clock frame_normalize split: prod.splits parse_outcome.splits)

theorem frame_collect:
  assumes "evolves R (hc_fetch_top_story_ids (cl_client K))" and "\<And>ids. evolves R (hc_fetch_items (cl_client K) ids)"
  shows "evolves R (collect_stories K cfg)"
  unfolding collect_stories_def build_result_def Let_def
  by (intro frame_intro frame_prod clock frame_take_item frame_take_story assms)

lemma frame_client:
  assumes "\<And>url. evolves R (get url)"
  shows "evolves R (hc_fetch_top_story_ids (default_client loads get base))"
    and "evolves R (hc_fetch_items (default_client loads get base) ids)"
proof -
  have feed_ids: "evolves R (forE xs feed_id)" for xs
  proof (rule evolves_forE [OF refl trans])
    show "evolves R (feed_id v)" for v by (cases v) (auto intro: frame_intro)
  qed
  show "evolves R (hc_fetch_top_story_ids (default_client loads get base))"
    unfolding default_client_def Let_def hn_client.simps feed_fetch_def decode_feed_def
    by (intro frame_intro frame_attempt frame_sum frame_json feed_ids assms)
  show "evolves R (hc_fetch_items (default_client loads get base) ids)"
    unfolding default_client_def Let_def hn_client.simps fetch_all_def fetch_one_def
    by (intro frame_intro frame_prod frame_attempt frame_sum assms)
qed

end

interpretation ticks: clock_frame clock_only
  by unfold_locales (fact clock_only_refl clock_only_trans utc_now_clock_only)+

lemmas collector_clock_only = ticks.frame_collect ticks.frame_client


end
