(* ===== verification/Agents.thy ===== *)
theory Agents
  imports Collector
begin

text \<open>
  The agents (\<open>agents/\<close>): each checks its configuration and input, builds the messages of a prompt
  template, calls the model and accepts the answer only when it parses and validates.

  Parameters, fields of \<open>agent_lib\<close>: \<open>json.loads\<close> and \<open>json.dumps\<close>, \<open>str\<close> on floats and containers, the
  \<open>jsonschema\<close> package (\<open>al_valid\<close>) and the prompt loader; the model provider is a field of the run
  context. The three schema files are translated below. A message is not part of an \<open>AgentError\<close> here,
  since only its code is read. Telemetry is left out.
\<close>

section \<open>Limits\<close>

definition RESPONSE_CONTENT_MAX_BYTES :: int where "RESPONSE_CONTENT_MAX_BYTES = 1048576"
definition PROMPT_FILE_MAX_BYTES :: int where "PROMPT_FILE_MAX_BYTES = 262144"
definition PROMPT_VERSION_HEX_LENGTH :: int where "PROMPT_VERSION_HEX_LENGTH = 12"
definition MAX_TOPIC_CANDIDATES :: int where "MAX_TOPIC_CANDIDATES = 100"
definition MAX_JSON_DEPTH :: int where "MAX_JSON_DEPTH = 32"
definition CRITIC_ISSUE_DESCRIPTION_MAX :: int where "CRITIC_ISSUE_DESCRIPTION_MAX = 2000"
definition SCENARIO_PANEL_MIN :: int where "SCENARIO_PANEL_MIN = 3"
definition SCENARIO_PANEL_MAX :: int where "SCENARIO_PANEL_MAX = 4"
definition SCORE_MIN :: rat where "SCORE_MIN = 0"
definition SCORE_MAX :: rat where "SCORE_MAX = 1"

section \<open>JSON Schema\<close>

text \<open>The keywords the schema files use, with the meaning the specification gives them; a schema is a
  list of keywords that all have to hold.\<close>

datatype json_type = TY_NULL | TY_STRING | TY_NUMBER | TY_ARRAY | TY_OBJECT

fun has_type :: "json \<Rightarrow> json_type \<Rightarrow> bool" where
  "has_type JNull ty = (ty = TY_NULL)"
| "has_type (JBool b) ty = False"
| "has_type (JInt i) ty = (ty = TY_NUMBER)"
| "has_type (JFloat r) ty = (ty = TY_NUMBER)"
| "has_type (JStr s) ty = (ty = TY_STRING)"
| "has_type (JList xs) ty = (ty = TY_ARRAY)"
| "has_type (JObj kvs) ty = (ty = TY_OBJECT)"

datatype keyword = Types "json_type list" | Enum "string list" | Required "string list"
  | Property string "keyword list" | OnlyProperties "string list" | Items "keyword list"
  | MinItems nat | MaxItems nat | MaxLength nat | Minimum rat | Maximum rat
  | IfThen "keyword list" "keyword list"

fun at_least :: "json \<Rightarrow> rat \<Rightarrow> bool" where
  "at_least (JInt i) b = (b \<le> of_int i)"
| "at_least (JFloat r) b = (b \<le> r)"
| "at_least _ b = True"

fun at_most :: "json \<Rightarrow> rat \<Rightarrow> bool" where
  "at_most (JInt i) b = (of_int i \<le> b)"
| "at_most (JFloat r) b = (r \<le> b)"
| "at_most _ b = True"

fun conforms :: "keyword \<Rightarrow> json \<Rightarrow> bool" where
  "conforms (Types tys) v = list_ex (has_type v) tys"
| "conforms (Enum values) v = list_ex (\<lambda>s. v = JStr s) values"
| "conforms (Required names) v = (case v of JObj kvs \<Rightarrow> list_all (\<lambda>n. map_of kvs n \<noteq> None) names | _ \<Rightarrow> True)"
| "conforms (Property name sub) v =
     (case v of JObj kvs \<Rightarrow> (case map_of kvs name of None \<Rightarrow> True | Some x \<Rightarrow> list_all (\<lambda>k. conforms k x) sub)
      | _ \<Rightarrow> True)"
| "conforms (OnlyProperties names) v = (case v of JObj kvs \<Rightarrow> list_all (\<lambda>kv. fst kv \<in> set names) kvs | _ \<Rightarrow> True)"
| "conforms (Items sub) v = (case v of JList xs \<Rightarrow> list_all (\<lambda>x. list_all (\<lambda>k. conforms k x) sub) xs | _ \<Rightarrow> True)"
| "conforms (MinItems n) v = (case v of JList xs \<Rightarrow> n \<le> length xs | _ \<Rightarrow> True)"
| "conforms (MaxItems n) v = (case v of JList xs \<Rightarrow> length xs \<le> n | _ \<Rightarrow> True)"
| "conforms (MaxLength n) v = (case v of JStr s \<Rightarrow> length s \<le> n | _ \<Rightarrow> True)"
| "conforms (Minimum b) v = at_least v b"
| "conforms (Maximum b) v = at_most v b"
| "conforms (IfThen cond concl) v = (list_all (\<lambda>k. conforms k v) cond \<longrightarrow> list_all (\<lambda>k. conforms k v) concl)"

abbreviation satisfies :: "keyword list \<Rightarrow> json \<Rightarrow> bool" where
  "satisfies schema v \<equiv> list_all (\<lambda>k. conforms k v) schema"

definition score_names :: "string list" where
  "score_names = [''technical_relevance'', ''developer_relevance'', ''discussion_interest'', ''humour_potential'',
     ''irony_contradiction'', ''visual_scenario_potential'', ''background_knowledge_required'']"

definition topic_selection_schema :: "keyword list" where
  "topic_selection_schema =
     [Types [TY_OBJECT],
      OnlyProperties [''outcome'', ''selected_topic'', ''why_interesting'', ''cartoon_angle'', ''scores'', ''alternatives''],
      Required [''outcome''],
      Property ''outcome'' [Types [TY_STRING], Enum [''topic_selected'', ''no_suitable_topic'']],
      Property ''selected_topic'' [Types [TY_STRING, TY_NULL]],
      Property ''why_interesting'' [Types [TY_STRING, TY_NULL]],
      Property ''cartoon_angle'' [Types [TY_STRING, TY_NULL]],
      Property ''scores'' ([Types [TY_OBJECT, TY_NULL], OnlyProperties score_names]
        @ map (\<lambda>n. Property n [Types [TY_NUMBER], Minimum 0, Maximum 1]) score_names @ [Required score_names]),
      Property ''alternatives'' [Types [TY_ARRAY],
        Items [Types [TY_OBJECT], OnlyProperties [''topic'', ''rationale''], Required [''topic'', ''rationale''],
          Property ''topic'' [Types [TY_STRING]], Property ''rationale'' [Types [TY_STRING]]]],
      IfThen [Property ''outcome'' [Enum [''topic_selected'']], Required [''outcome'']]
        [Required [''selected_topic'', ''why_interesting'', ''cartoon_angle'', ''scores'', ''alternatives''],
         Property ''selected_topic'' [Types [TY_STRING]], Property ''why_interesting'' [Types [TY_STRING]],
         Property ''cartoon_angle'' [Types [TY_STRING]], Property ''scores'' [Types [TY_OBJECT]]],
      IfThen [Property ''outcome'' [Enum [''no_suitable_topic'']], Required [''outcome'']]
        [Required [''alternatives''],
         Property ''selected_topic'' [Types [TY_NULL]], Property ''why_interesting'' [Types [TY_NULL]],
         Property ''cartoon_angle'' [Types [TY_NULL]], Property ''scores'' [Types [TY_NULL]],
         Property ''alternatives'' [MaxItems 0]]]"

definition scenario_schema :: "keyword list" where
  "scenario_schema =
     [Types [TY_OBJECT], OnlyProperties [''topic'', ''premise'', ''characters'', ''panels'', ''punchline''],
      Required [''topic'', ''premise'', ''characters'', ''panels'', ''punchline''],
      Property ''topic'' [Types [TY_STRING]], Property ''premise'' [Types [TY_STRING]],
      Property ''characters'' [Types [TY_ARRAY], Items [Types [TY_STRING]], MinItems 1],
      Property ''panels'' [Types [TY_ARRAY], MinItems 3, MaxItems 4,
        Items [Types [TY_OBJECT], OnlyProperties [''scene'', ''dialogue''], Required [''scene'', ''dialogue''],
          Property ''scene'' [Types [TY_STRING]], Property ''dialogue'' [Types [TY_STRING]]]],
      Property ''punchline'' [Types [TY_STRING]]]"

definition critic_schema :: "keyword list" where
  "critic_schema =
     [Types [TY_OBJECT], OnlyProperties [''status'', ''issues'', ''suggested_changes''],
      Required [''status'', ''issues'', ''suggested_changes''],
      Property ''status'' [Types [TY_STRING], Enum [''PASS'', ''REVISE'']],
      Property ''issues'' [Types [TY_ARRAY],
        Items [Types [TY_OBJECT], OnlyProperties [''dimension'', ''description''], Required [''dimension'', ''description''],
          Property ''dimension'' [Types [TY_STRING],
            Enum [''technical_accuracy'', ''scenario_quality'', ''publication_quality'']],
          Property ''description'' [Types [TY_STRING], MaxLength 2000]]],
      Property ''suggested_changes'' [Types [TY_ARRAY], Items [Types [TY_STRING]]]]"

datatype schema_key = TOPIC_SCHEMA | SCENARIO_SCHEMA | CRITIC_SCHEMA

fun stage_schema :: "schema_key \<Rightarrow> keyword list" where
  "stage_schema TOPIC_SCHEMA = topic_selection_schema"
| "stage_schema SCENARIO_SCHEMA = scenario_schema"
| "stage_schema CRITIC_SCHEMA = critic_schema"


section \<open>Prompts\<close>

record prompt_load_result =
  plr_text :: string
  plr_version :: string
  plr_path :: string

definition AgentPromptLoadError :: exn where
  "AgentPromptLoadError = OtherError ''AgentPromptLoadError''"

text \<open>What the file system says about a path: \<open>None\<close> when it is no file; the fields of \<open>stat\<close> and the
  bytes, each \<open>None\<close> when the call raises \<open>OSError\<close>.\<close>

record prompt_path =
  pp_stat :: "(int \<times> int) option"
  pp_bytes :: "string option"

record prompt_loader =
  pl_files :: "string \<rightharpoonup> prompt_path"
  pl_enable_cache :: bool
  pl_decode :: "string \<Rightarrow> exn + string"
  pl_sha256 :: "string \<Rightarrow> string"

fun normalize_newlines :: "string \<Rightarrow> string" where
  "normalize_newlines (a # b # s) =
     (if a = CHR 0x0D \<and> b = CHR 0x0A then CHR 0x0A # normalize_newlines s else a # normalize_newlines (b # s))"
| "normalize_newlines s = s"

type_synonym prompt_cache = "((string \<times> int), prompt_load_result) dict"

definition read_prompt :: "prompt_loader \<Rightarrow> string \<Rightarrow> string option \<Rightarrow> (prompt_cache, prompt_load_result) prog" where
  "read_prompt L file bytes =
     (case bytes of
        None \<Rightarrow> raise AgentPromptLoadError
      | Some raw \<Rightarrow>
          (case pl_decode L (normalize_newlines raw) of
             Inl e \<Rightarrow> raise e
           | Inr prompt \<Rightarrow>
               ret \<lparr>plr_text = prompt,
                    plr_version = slice_to PROMPT_VERSION_HEX_LENGTH (pl_sha256 L (normalize_newlines raw)),
                    plr_path = file\<rparr>))"

definition load_prompt :: "prompt_loader \<Rightarrow> string \<Rightarrow> (prompt_cache, prompt_load_result) prog" where
  "load_prompt L file =
     (case pl_files L file of
        None \<Rightarrow> raise AgentPromptLoadError
      | Some p \<Rightarrow>
          (case pp_stat p of
             None \<Rightarrow> raise AgentPromptLoadError
           | Some (st_size, mtime) \<Rightarrow>
               if st_size > PROMPT_FILE_MAX_BYTES then raise AgentPromptLoadError
               else
                 bindE (gets (\<lambda>cache. if pl_enable_cache L then dict_get cache (file, mtime) else None)) (\<lambda>cached.
                 case cached of
                   Some result \<Rightarrow> ret result
                 | None \<Rightarrow>
                     bindE (read_prompt L file (pp_bytes p)) (\<lambda>result.
                     bindE (whenE (pl_enable_cache L) (modifyE (dict_set (file, mtime) result))) (\<lambda>_.
                     ret result)))))"

section \<open>Message templates\<close>

text \<open>The pattern \<open>\{\{\s*([a-z_]+)\s*\}\}\<close> at the head of a text: the name and what follows.\<close>

definition name_char :: "char \<Rightarrow> bool" where
  "name_char c \<longleftrightarrow> (CHR ''a'' \<le> c \<and> c \<le> CHR ''z'') \<or> c = CHR ''_''"

definition match_variable :: "string \<Rightarrow> (string \<times> string) option" where
  "match_variable s =
     (let inner = dropWhile is_space (drop 2 s); name = takeWhile name_char inner;
          closing = dropWhile is_space (dropWhile name_char inner)
      in if take 2 s = ''{{'' \<and> name \<noteq> [] \<and> take 2 closing = ''}}'' then Some (name, drop 2 closing) else None)"

lemma match_variable_shorter: "match_variable s = Some (name, rest) \<Longrightarrow> length rest < length s"
proof -
  assume "match_variable s = Some (name, rest)"
  then have two: "take 2 s = ''{{''" and rest: "rest = drop 2 (dropWhile is_space (dropWhile name_char (dropWhile is_space (drop 2 s))))"
    by (auto simp: match_variable_def Let_def split: if_splits)
  from two have "2 \<le> length s" by (metis length_take length_Cons list.size(3) min.cobounded1 One_nat_def Suc_1)
  moreover have "length rest \<le> length (drop 2 s)"
    unfolding rest by (metis diff_le_self length_drop length_dropWhile_le order_trans)
  ultimately show ?thesis by simp
qed

text \<open>The replacement of every variable; \<open>None\<close> when a value is not a text, which makes \<open>re.sub\<close>
  raise \<open>TypeError\<close>. An unknown name is left as it is.\<close>

function substitute :: "(string \<times> json) list \<Rightarrow> string \<Rightarrow> string option" where
  "substitute vars s =
     (case s of [] \<Rightarrow> Some []
      | c # cs \<Rightarrow>
          (case match_variable s of
             None \<Rightarrow> map_option (Cons c) (substitute vars cs)
           | Some (name, rest) \<Rightarrow>
               (case map_of vars name of
                  None \<Rightarrow> map_option ((@) (take (length s - length rest) s)) (substitute vars rest)
                | Some (JStr v) \<Rightarrow> map_option ((@) v) (substitute vars rest)
                | Some _ \<Rightarrow> None)))"
  by pat_completeness auto

termination
  by (relation "measure (\<lambda>(vars, s). length s)") (auto dest: match_variable_shorter)

declare substitute.simps [simp del]

text \<open>The search for \<open>\{\{[^}]+\}\}\<close>.\<close>

fun has_placeholder :: "string \<Rightarrow> bool" where
  "has_placeholder [] = False"
| "has_placeholder (c # s) =
     (take 2 (c # s) = ''{{''
        \<and> takeWhile (\<lambda>x. x \<noteq> CHR ''}'') (drop 2 (c # s)) \<noteq> []
        \<and> take 2 (dropWhile (\<lambda>x. x \<noteq> CHR ''}'') (drop 2 (c # s))) = ''}}''
      \<or> has_placeholder s)"

definition substitute_mustache :: "string \<Rightarrow> (string \<times> json) list \<Rightarrow> ('s, string) prog" where
  "substitute_mustache template vars =
     (case substitute vars template of
        None \<Rightarrow> raise TypeError
      | Some s \<Rightarrow> if has_placeholder s then raise AgentPromptLoadError else ret s)"

section \<open>Messages of the stages\<close>

record agent_lib =
  al_json_loads :: "string \<Rightarrow> exn + json"
  al_json_dumps :: "json \<Rightarrow> string"
  al_repr :: "json \<Rightarrow> string"
  al_valid :: "schema_key \<Rightarrow> json \<Rightarrow> bool"
  al_load_prompt :: "string \<Rightarrow> (world, prompt_load_result) prog"

datatype message_role = ROLE_SYSTEM | ROLE_USER | ROLE_ASSISTANT

record provider_message =
  pm_role :: message_role
  pm_content :: string

definition message_pair :: "string \<Rightarrow> string \<Rightarrow> provider_message list" where
  "message_pair system_content user_content =
     [\<lparr>pm_role = ROLE_SYSTEM, pm_content = system_content\<rparr>, \<lparr>pm_role = ROLE_USER, pm_content = user_content\<rparr>]"

definition candidate_to_dict :: "candidate_story \<Rightarrow> json" where
  "candidate_to_dict c =
     JObj ((''source_id'', JStr (cs_source_id c))
       # filter (\<lambda>kv. snd kv \<noteq> JNull)
           [(''title'', cs_title c), (''url'', cs_url c), (''score'', json_opt_int (cs_score c)),
            (''comment_count'', json_opt_int (cs_comment_count c)),
            (''rank_score'', case cs_rank_score c of None \<Rightarrow> JNull | Some r \<Rightarrow> JFloat r)])"

definition scenario_to_dict :: "scenario_output \<Rightarrow> json" where
  "scenario_to_dict s =
     JObj [(''topic'', JStr (sco_topic s)), (''premise'', JStr (sco_premise s)),
       (''characters'', JList (map JStr (sco_characters s))),
       (''panels'', JList (map (\<lambda>p. JObj [(''scene'', JStr (sp_scene p)), (''dialogue'', JStr (sp_dialogue p))])
          (sco_panels s))),
       (''punchline'', JStr (sco_punchline s))]"

definition build_topic_messages :: "agent_lib \<Rightarrow> string \<Rightarrow> candidate_story list \<Rightarrow> ('s, provider_message list) prog" where
  "build_topic_messages A prompt_text candidates =
     (let candidates_json = al_json_dumps A (JList (map candidate_to_dict candidates)) in
      bindE (substitute_mustache prompt_text [(''candidates_json'', JStr candidates_json)]) (\<lambda>content.
      ret (message_pair content candidates_json)))"

definition build_scenario_messages ::
  "agent_lib \<Rightarrow> string \<Rightarrow> topic_selection_output \<Rightarrow> ('s, provider_message list) prog"
where
  "build_scenario_messages A prompt_text t =
     (let given = [(''selected_topic'', tso_selected_topic t), (''why_interesting'', tso_why_interesting t),
                   (''cartoon_angle'', tso_cartoon_angle t)]
      in bindE (substitute_mustache prompt_text (map (\<lambda>(k, v). (k, json_or v (JStr ''''))) given)) (\<lambda>content.
         ret (message_pair content (al_json_dumps A (JObj given)))))"

definition build_critic_messages ::
  "agent_lib \<Rightarrow> string \<Rightarrow> scenario_output \<Rightarrow> int \<Rightarrow> ('s, provider_message list) prog"
where
  "build_critic_messages A prompt_text scenario revision_number =
     (let scenario_json = al_json_dumps A (scenario_to_dict scenario) in
      bindE (substitute_mustache prompt_text
               [(''scenario_json'', JStr scenario_json), (''revision_number'', JStr (show_int revision_number))])
        (\<lambda>content. ret (message_pair content (al_json_dumps A
           (JObj [(''scenario'', scenario_to_dict scenario), (''revision_number'', JInt revision_number)])))))"


section \<open>Validation of the input\<close>

definition AgentInputValidationError :: exn where "AgentInputValidationError = AgentValidationError ''AGT_INPUT''"
definition AgentOutputValidationError :: exn where "AgentOutputValidationError = AgentValidationError ''AGT_OUTPUT''"
definition AgentConfigurationError :: exn where "AgentConfigurationError = AgentValidationError ''AGT_CONFIG''"

definition validate_topic_selection :: "candidate_story list \<Rightarrow> ('s, unit) prog" where
  "validate_topic_selection candidates =
     (if candidates = [] then raise AgentInputValidationError
      else if int (length candidates) > MAX_TOPIC_CANDIDATES then raise AgentInputValidationError
      else ret ())"

definition validate_scenario_generation :: "topic_selection_output \<Rightarrow> ('s, unit) prog" where
  "validate_scenario_generation t =
     (if tso_outcome t \<noteq> OUTCOME_TOPIC_SELECTED then raise AgentInputValidationError else ret ())"

definition validate_critic :: "scenario_output \<Rightarrow> ('s, unit) prog" where
  "validate_critic s =
     (if sco_panels s = [] then raise AgentInputValidationError
      else if strip (sco_punchline s) = [] then raise AgentInputValidationError
      else ret ())"

section \<open>Parsing of the answer\<close>

fun before_text :: "string \<Rightarrow> string \<Rightarrow> string" where
  "before_text p [] = []"
| "before_text p (c # s) = (if take (length p) (c # s) = p then [] else c # before_text p s)"

definition extract_json_payload :: "string \<Rightarrow> string" where
  "extract_json_payload content =
     (let s = strip content; remainder = drop 3 s in
      if take 3 s \<noteq> ''```'' then s
      else if CHR 0x0A \<notin> set remainder then strip remainder
      else strip (before_text ''```'' (after CHR 0x0A remainder)))"

lemma size_json_member: "v \<in> set xs \<Longrightarrow> size v < size (JList xs)" "kv \<in> set kvs \<Longrightarrow> size (snd kv) < size (JObj kvs)"
proof -
  show "v \<in> set xs \<Longrightarrow> size v < size (JList xs)" by (induction xs) auto
  show "kv \<in> set kvs \<Longrightarrow> size (snd kv) < size (JObj kvs)" by (induction kvs) auto
qed

text \<open>Whether \<open>_max_json_depth\<close> raises.\<close>

function too_deep :: "int \<Rightarrow> json \<Rightarrow> bool" where
  "too_deep depth v =
     (depth > MAX_JSON_DEPTH
      \<or> (case v of
           JObj kvs \<Rightarrow> list_ex (\<lambda>kv. too_deep (depth + 1) (snd kv)) kvs
         | JList xs \<Rightarrow> list_ex (\<lambda>x. too_deep (depth + 1) x) xs
         | _ \<Rightarrow> False))"
  by pat_completeness auto

termination
  by (relation "measure (\<lambda>(depth, v). size v)") (auto dest: size_json_member)

declare too_deep.simps [simp del]

lemma too_deep_simps [simp]:
  "too_deep depth (JObj kvs) = (depth > MAX_JSON_DEPTH \<or> list_ex (\<lambda>kv. too_deep (depth + 1) (snd kv)) kvs)"
  "too_deep depth (JList xs) = (depth > MAX_JSON_DEPTH \<or> list_ex (too_deep (depth + 1)) xs)"
  "too_deep depth (JStr s) = (depth > MAX_JSON_DEPTH)" "too_deep depth JNull = (depth > MAX_JSON_DEPTH)"
  "too_deep depth (JInt i) = (depth > MAX_JSON_DEPTH)" "too_deep depth (JBool b) = (depth > MAX_JSON_DEPTH)"
  "too_deep depth (JFloat r) = (depth > MAX_JSON_DEPTH)"
  by (simp_all add: too_deep.simps [of depth])

record parsed_provider_payload =
  ppp_data :: "(string \<times> json) list"
  ppp_raw_length :: int

definition parse_provider_content :: "agent_lib \<Rightarrow> string \<Rightarrow> ('s, parsed_provider_payload) prog" where
  "parse_provider_content A content =
     (if int (length content) > RESPONSE_CONTENT_MAX_BYTES then raise AgentOutputValidationError
      else if strip content = [] then raise AgentOutputValidationError
      else case al_json_loads A (extract_json_payload content) of
        Inl e \<Rightarrow> if is_json_decode_error e then raise AgentOutputValidationError else raise e
      | Inr (JObj data) \<Rightarrow>
          if too_deep 0 (JObj data) then raise AgentOutputValidationError
          else ret \<lparr>ppp_data = data, ppp_raw_length = int (length content)\<rparr>
      | Inr _ \<Rightarrow> raise AgentOutputValidationError)"

section \<open>Validation of the answer\<close>

text \<open>\<open>data[key]\<close>, and iteration over a decoded value.\<close>

definition subscript :: "(string \<times> json) list \<Rightarrow> string \<Rightarrow> ('s, json) prog" where
  "subscript data key = (case map_of data key of None \<Rightarrow> raise KeyError | Some v \<Rightarrow> ret v)"

fun json_iter :: "json \<Rightarrow> ('s, json list) prog" where
  "json_iter (JList xs) = ret xs"
| "json_iter (JObj kvs) = ret (map (JStr \<circ> fst) kvs)"
| "json_iter (JStr s) = ret (map (\<lambda>c. JStr [c]) s)"
| "json_iter _ = raise TypeError"

definition check_schema :: "agent_lib \<Rightarrow> schema_key \<Rightarrow> (string \<times> json) list \<Rightarrow> ('s, unit) prog" where
  "check_schema A key data = (if al_valid A key (JObj data) then ret () else raise AgentOutputValidationError)"

definition text_field :: "agent_lib \<Rightarrow> (string \<times> json) list \<Rightarrow> string \<Rightarrow> ('s, string) prog" where
  "text_field A data key = bindE (subscript data key) (\<lambda>v. ret (json_str (al_repr A) v))"

fun number_value :: "json \<Rightarrow> rat option" where
  "number_value (JInt i) = Some (of_int i)"
| "number_value (JBool b) = Some (if b then 1 else 0)"
| "number_value (JFloat r) = Some r"
| "number_value _ = None"

definition validate_score_range :: "(string \<times> json) list \<Rightarrow> string \<Rightarrow> ('s, rat) prog" where
  "validate_score_range scores_raw field_name =
     bindE (subscript scores_raw field_name) (\<lambda>v.
     case number_value v of
       None \<Rightarrow> raise AgentOutputValidationError
     | Some score \<Rightarrow> if score < SCORE_MIN \<or> score > SCORE_MAX then raise AgentOutputValidationError else ret score)"

definition scores_of :: "(string \<times> json) list \<Rightarrow> ('s, evaluation_scores) prog" where
  "scores_of raw =
     bindE (validate_score_range raw ''technical_relevance'') (\<lambda>s1.
     bindE (validate_score_range raw ''developer_relevance'') (\<lambda>s2.
     bindE (validate_score_range raw ''discussion_interest'') (\<lambda>s3.
     bindE (validate_score_range raw ''humour_potential'') (\<lambda>s4.
     bindE (validate_score_range raw ''irony_contradiction'') (\<lambda>s5.
     bindE (validate_score_range raw ''visual_scenario_potential'') (\<lambda>s6.
     bindE (validate_score_range raw ''background_knowledge_required'') (\<lambda>s7.
     ret \<lparr>es_technical_relevance = s1, es_developer_relevance = s2, es_discussion_interest = s3,
          es_humour_potential = s4, es_irony_contradiction = s5, es_visual_scenario_potential = s6,
          es_background_knowledge_required = s7\<rparr>)))))))"

definition alternative_of :: "agent_lib \<Rightarrow> (string \<times> json) list \<Rightarrow> ('s, topic_alternative) prog" where
  "alternative_of A item =
     bindE (text_field A item ''topic'') (\<lambda>topic.
     bindE (text_field A item ''rationale'') (\<lambda>rationale.
     ret \<lparr>ta_topic = topic, ta_rationale = rationale\<rparr>))"

text \<open>The branch of \<open>validate_topic_output\<close> for a selected topic.\<close>

definition selected_output ::
  "agent_lib \<Rightarrow> (string \<times> json) list \<Rightarrow> string \<Rightarrow> ('s, topic_selection_output) prog"
where
  "selected_output A data prompt_version =
     (case json_get data ''scores'' JNull of
        JObj scores_raw \<Rightarrow>
          bindE (scores_of scores_raw) (\<lambda>scores.
          bindE (json_iter (json_get data ''alternatives'' (JList []))) (\<lambda>items.
          bindE (forE (json_objects items) (alternative_of A)) (\<lambda>alternatives.
          bindE (text_field A data ''selected_topic'') (\<lambda>selected.
          bindE (text_field A data ''why_interesting'') (\<lambda>why.
          bindE (text_field A data ''cartoon_angle'') (\<lambda>angle.
          ret \<lparr>tso_outcome = OUTCOME_TOPIC_SELECTED, tso_prompt_version = prompt_version,
               tso_selected_topic = JStr selected, tso_why_interesting = JStr why, tso_cartoon_angle = JStr angle,
               tso_scores = Some scores, tso_alternatives = alternatives\<rparr>))))))
      | _ \<Rightarrow> raise AgentOutputValidationError)"

definition validate_topic_output ::
  "agent_lib \<Rightarrow> parsed_provider_payload \<Rightarrow> string \<Rightarrow> ('s, topic_selection_output) prog"
where
  "validate_topic_output A payload prompt_version =
     (let data = ppp_data payload in
      bindE (check_schema A TOPIC_SCHEMA data) (\<lambda>_.
      bindE (text_field A data ''outcome'') (\<lambda>token.
      bindE (topic_outcome_of token) (\<lambda>outcome.
      if outcome = OUTCOME_TOPIC_SELECTED then selected_output A data prompt_version
      else ret \<lparr>tso_outcome = outcome, tso_prompt_version = prompt_version, tso_selected_topic = JNull,
                tso_why_interesting = JNull, tso_cartoon_angle = JNull, tso_scores = None,
                tso_alternatives = []\<rparr>))))"

definition panel_of :: "agent_lib \<Rightarrow> (string \<times> json) list \<Rightarrow> ('s, scenario_panel) prog" where
  "panel_of A panel =
     bindE (text_field A panel ''scene'') (\<lambda>scene.
     bindE (text_field A panel ''dialogue'') (\<lambda>dialogue.
     ret \<lparr>sp_scene = scene, sp_dialogue = dialogue\<rparr>))"

text \<open>The part of \<open>validate_scenario_output\<close> after the panels are known to be an array.\<close>

definition scenario_with_panels ::
  "agent_lib \<Rightarrow> (string \<times> json) list \<Rightarrow> json list \<Rightarrow> string \<Rightarrow> ('s, scenario_output) prog"
where
  "scenario_with_panels A data panels_raw prompt_version =
     (if int (length panels_raw) < SCENARIO_PANEL_MIN \<or> int (length panels_raw) > SCENARIO_PANEL_MAX
      then raise AgentOutputValidationError
      else
        bindE (forE (json_objects panels_raw) (panel_of A)) (\<lambda>panels.
        bindE (json_iter (json_get data ''characters'' (JList []))) (\<lambda>characters_raw.
        bindE (text_field A data ''topic'') (\<lambda>topic.
        bindE (text_field A data ''premise'') (\<lambda>premise.
        bindE (text_field A data ''punchline'') (\<lambda>punchline.
        ret \<lparr>sco_topic = topic, sco_premise = premise,
             sco_characters = map (json_str (al_repr A)) characters_raw, sco_panels = panels,
             sco_punchline = punchline, sco_prompt_version = prompt_version\<rparr>))))))"

definition validate_scenario_output ::
  "agent_lib \<Rightarrow> parsed_provider_payload \<Rightarrow> string \<Rightarrow> ('s, scenario_output) prog"
where
  "validate_scenario_output A payload prompt_version =
     (let data = ppp_data payload in
      bindE (check_schema A SCENARIO_SCHEMA data) (\<lambda>_.
      case json_get data ''panels'' (JList []) of
        JList panels_raw \<Rightarrow> scenario_with_panels A data panels_raw prompt_version
      | _ \<Rightarrow> raise AgentOutputValidationError))"

definition critic_status_of :: "string \<Rightarrow> ('s, critic_status) prog" where
  "critic_status_of token =
     (if token = ''PASS'' then ret CRITIC_STATUS_PASS
      else if token = ''REVISE'' then ret CRITIC_STATUS_REVISE else raise ValueError)"

definition critic_dimension_of :: "string \<Rightarrow> ('s, critic_dimension) prog" where
  "critic_dimension_of token =
     (if token = ''technical_accuracy'' then ret TECHNICAL_ACCURACY
      else if token = ''scenario_quality'' then ret SCENARIO_QUALITY
      else if token = ''publication_quality'' then ret PUBLICATION_QUALITY else raise ValueError)"

definition issue_of :: "agent_lib \<Rightarrow> (string \<times> json) list \<Rightarrow> ('s, critic_issue) prog" where
  "issue_of A item =
     (let description = json_str (al_repr A) (json_get item ''description'' (JStr '''')) in
      if int (length description) > CRITIC_ISSUE_DESCRIPTION_MAX then raise AgentOutputValidationError
      else
        bindE (text_field A item ''dimension'') (\<lambda>token.
        bindE (critic_dimension_of token) (\<lambda>dimension.
        ret \<lparr>ci_dimension = dimension, ci_description = description\<rparr>)))"

definition validate_critic_output ::
  "agent_lib \<Rightarrow> parsed_provider_payload \<Rightarrow> string \<Rightarrow> ('s, critic_output) prog"
where
  "validate_critic_output A payload prompt_version =
     (let data = ppp_data payload in
      bindE (check_schema A CRITIC_SCHEMA data) (\<lambda>_.
      bindE (text_field A data ''status'') (\<lambda>token.
      bindE (critic_status_of token) (\<lambda>status.
      bindE (forE (json_objects (json_items (json_get data ''issues'' (JList [])))) (issue_of A)) (\<lambda>issues.
      ret \<lparr>co_status = status, co_issues = issues,
           co_suggested_changes = map (json_str (al_repr A)) (json_items (json_get data ''suggested_changes'' (JList []))),
           co_prompt_version = prompt_version\<rparr>)))))"

section \<open>Runs\<close>

record agent_config =
  ac_provider :: string
  ac_model :: string
  ac_prompt_file :: string

record generate_request =
  gr_model :: string
  gr_messages :: "provider_message list"
  gr_workflow_id :: string
  gr_task_id :: string
  gr_task_attempt :: int

record agent_run_context =
  rx_agent_id :: agent_id
  rx_workflow_id :: string
  rx_task_id :: string
  rx_task_attempt :: int
  rx_config :: "agent_id \<rightharpoonup> agent_config"
  rx_provider_id :: string
  rx_generate :: "generate_request \<Rightarrow> (world, string) prog"

definition resolve_agent_config :: "agent_run_context \<Rightarrow> ('s, agent_config) prog" where
  "resolve_agent_config X =
     (case rx_config X (rx_agent_id X) of
        None \<Rightarrow> raise AgentConfigurationError
      | Some c \<Rightarrow>
          if strip (ac_model c) = [] then raise AgentConfigurationError
          else if rx_provider_id X \<noteq> ac_provider c then raise AgentConfigurationError
          else ret c)"

definition build_generate_request ::
  "agent_run_context \<Rightarrow> agent_config \<Rightarrow> provider_message list \<Rightarrow> generate_request"
where
  "build_generate_request X c messages =
     \<lparr>gr_model = ac_model c, gr_messages = messages, gr_workflow_id = rx_workflow_id X,
      gr_task_id = rx_task_id X, gr_task_attempt = rx_task_attempt X\<rparr>"

definition run_pipeline ::
  "agent_lib \<Rightarrow> agent_run_context \<Rightarrow> (world, unit) prog \<Rightarrow> (string \<Rightarrow> (world, provider_message list) prog) \<Rightarrow>
   (string \<Rightarrow> string \<Rightarrow> (world, 'a) prog) \<Rightarrow> (world, 'a) prog"
where
  "run_pipeline A X validate_input build_messages parse_and_validate_output =
     bindE (resolve_agent_config X) (\<lambda>c.
     bindE validate_input (\<lambda>_.
     bindE (al_load_prompt A (ac_prompt_file c)) (\<lambda>prompt.
     bindE (build_messages (plr_text prompt)) (\<lambda>messages.
     bindE (rx_generate X (build_generate_request X c messages)) (\<lambda>content.
     parse_and_validate_output content (plr_version prompt))))))"

definition topic_answer :: "agent_lib \<Rightarrow> string \<Rightarrow> string \<Rightarrow> ('s, topic_selection_output) prog" where
  "topic_answer A content version =
     bindE (parse_provider_content A content) (\<lambda>payload. validate_topic_output A payload version)"

definition scenario_answer :: "agent_lib \<Rightarrow> string \<Rightarrow> string \<Rightarrow> ('s, scenario_output) prog" where
  "scenario_answer A content version =
     bindE (parse_provider_content A content) (\<lambda>payload. validate_scenario_output A payload version)"

definition critic_answer :: "agent_lib \<Rightarrow> string \<Rightarrow> string \<Rightarrow> ('s, critic_output) prog" where
  "critic_answer A content version =
     bindE (parse_provider_content A content) (\<lambda>payload. validate_critic_output A payload version)"

definition topic_run ::
  "agent_lib \<Rightarrow> agent_run_context \<Rightarrow> candidate_story list \<Rightarrow> (world, topic_selection_output) prog"
where
  "topic_run A X candidates =
     run_pipeline A X (validate_topic_selection candidates)
       (\<lambda>prompt_text. build_topic_messages A prompt_text candidates) (topic_answer A)"

definition scenario_run ::
  "agent_lib \<Rightarrow> agent_run_context \<Rightarrow> topic_selection_output \<Rightarrow> (world, scenario_output) prog"
where
  "scenario_run A X t =
     run_pipeline A X (validate_scenario_generation t)
       (\<lambda>prompt_text. build_scenario_messages A prompt_text t) (scenario_answer A)"

definition critic_run ::
  "agent_lib \<Rightarrow> agent_run_context \<Rightarrow> scenario_output \<Rightarrow> int \<Rightarrow> (world, critic_output) prog"
where
  "critic_run A X scenario revision_number =
     run_pipeline A X (validate_critic scenario)
       (\<lambda>prompt_text. build_critic_messages A prompt_text scenario revision_number) (critic_answer A)"

text \<open>\<open>AgentRunContextBuilder.build\<close> of \<open>worker/context.py\<close>, for the provider the factory returns.\<close>

definition build_agent_context ::
  "(agent_id \<rightharpoonup> agent_config) \<Rightarrow> agent_id \<Rightarrow> pending_delivery \<Rightarrow> string \<Rightarrow>
   (generate_request \<Rightarrow> (world, string) prog) \<Rightarrow> agent_run_context"
where
  "build_agent_context agents a d provider_id generate =
     \<lparr>rx_agent_id = a, rx_workflow_id = tm_workflow_id (pd_message d), rx_task_id = tm_task_id (pd_message d),
      rx_task_attempt = tm_attempt (pd_message d), rx_config = agents, rx_provider_id = provider_id,
      rx_generate = generate\<rparr>"


text \<open>The dependencies of the handlers with the collector and the agents above; \<open>provider_id\<close> and
  \<open>generate\<close> are those of the provider that the factory returns for an agent.\<close>

definition wired_deps ::
  "collector \<Rightarrow> collection_config \<Rightarrow> agent_lib \<Rightarrow> (agent_id \<rightharpoonup> agent_config) \<Rightarrow> (agent_id \<Rightarrow> string) \<Rightarrow>
   (agent_id \<Rightarrow> generate_request \<Rightarrow> (world, string) prog) \<Rightarrow> stage_deps \<Rightarrow> stage_deps"
where
  "wired_deps K cfg A agents provider_id generate D =
     (let context = (\<lambda>a d. build_agent_context agents a d (provider_id a) (generate a)) in
      D\<lparr>sd_collect_stories := collect_stories K cfg,
        sd_topic_agent := (\<lambda>d. topic_run A (context TOPIC_SELECTOR d)),
        sd_scenario_agent := (\<lambda>d. scenario_run A (context SCENARIO_GENERATOR d)),
        sd_critic_agent := (\<lambda>d. critic_run A (context CRITIC d)),
        sd_agent_model := (\<lambda>a. map_option ac_model (agents a))\<rparr>)"

end
