(* ===== verification/Agent_Properties.thy ===== *)
theory Agent_Properties
  imports Agents Collector_Properties Stage_Properties
begin

text \<open>
  What the agents guarantee: an answer of the model is either rejected with \<open>AGT_OUTPUT\<close> or turned
  into a well-formed output; the cache of the prompt loader is transparent; and a worker wired with
  the collector and the agents meets the contract of the stage handlers.
\<close>

section \<open>Reading a schema\<close>

text \<open>The behaviour of \<open>jsonschema.validate\<close> the agents rely on: what it accepts conforms to the schema.\<close>

definition schema_library :: "agent_lib \<Rightarrow> bool" where
  "schema_library A \<longleftrightarrow> (\<forall>key v. al_valid A key v \<longrightarrow> satisfies (stage_schema key) v)"

lemma has_type_iff [simp]:
  "has_type v TY_STRING \<longleftrightarrow> (\<exists>s. v = JStr s)" "has_type v TY_NULL \<longleftrightarrow> v = JNull"
  "has_type v TY_ARRAY \<longleftrightarrow> (\<exists>xs. v = JList xs)" "has_type v TY_OBJECT \<longleftrightarrow> (\<exists>kvs. v = JObj kvs)"
  "has_type v TY_NUMBER \<longleftrightarrow> (\<exists>i. v = JInt i) \<or> (\<exists>r. v = JFloat r)"
  by (cases v; simp)+

text \<open>A required property of type string.\<close>

definition text_in :: "(string \<times> json) list \<Rightarrow> string \<Rightarrow> bool" where
  "text_in data key \<longleftrightarrow> (\<exists>s. map_of data key = Some (JStr s))"

lemma text_field_ret: "text_in data key \<Longrightarrow> \<exists>s. text_field A data key = ret s \<and> map_of data key = Some (JStr s)"
  by (auto simp: text_in_def text_field_def subscript_def)

lemma text_inI: "map_of data key \<noteq> None \<Longrightarrow> (\<And>v. map_of data key = Some v \<Longrightarrow> \<exists>s. v = JStr s) \<Longrightarrow> text_in data key"
  by (auto simp: text_in_def)

section \<open>Well-formed outputs\<close>

definition score_ok :: "rat \<Rightarrow> bool" where
  "score_ok x \<longleftrightarrow> 0 \<le> x \<and> x \<le> 1"

definition scores_ok :: "evaluation_scores \<Rightarrow> bool" where
  "scores_ok e \<longleftrightarrow> score_ok (es_technical_relevance e) \<and> score_ok (es_developer_relevance e)
     \<and> score_ok (es_discussion_interest e) \<and> score_ok (es_humour_potential e) \<and> score_ok (es_irony_contradiction e)
     \<and> score_ok (es_visual_scenario_potential e) \<and> score_ok (es_background_knowledge_required e)"

definition topic_ok :: "topic_selection_output \<Rightarrow> bool" where
  "topic_ok t \<longleftrightarrow>
     (case tso_outcome t of
        OUTCOME_TOPIC_SELECTED \<Rightarrow>
          (\<exists>a b c. tso_selected_topic t = JStr a \<and> tso_why_interesting t = JStr b \<and> tso_cartoon_angle t = JStr c)
          \<and> (\<exists>e. tso_scores t = Some e \<and> scores_ok e)
      | OUTCOME_NO_SUITABLE_TOPIC \<Rightarrow>
          tso_selected_topic t = JNull \<and> tso_why_interesting t = JNull \<and> tso_cartoon_angle t = JNull
          \<and> tso_scores t = None \<and> tso_alternatives t = [])"

definition scenario_ok :: "scenario_output \<Rightarrow> bool" where
  "scenario_ok s \<longleftrightarrow> 3 \<le> length (sco_panels s) \<and> length (sco_panels s) \<le> 4 \<and> sco_characters s \<noteq> []"

definition critic_ok :: "critic_output \<Rightarrow> bool" where
  "critic_ok c \<longleftrightarrow> (\<forall>i \<in> set (co_issues c). length (ci_description i) \<le> 2000)"

text \<open>A validation either delivers a value with the property or rejects the answer.\<close>

definition delivers :: "('a \<Rightarrow> bool) \<Rightarrow> ('s, 'a) prog \<Rightarrow> bool" where
  "delivers P m \<longleftrightarrow> (\<forall>s. case fst (m s) of Inr x \<Rightarrow> P x | Inl e \<Rightarrow> e = AgentOutputValidationError)"

lemma delivers_ret: "P x \<Longrightarrow> delivers P (ret x)"
  by (simp add: delivers_def ret_def)

lemma delivers_reject [intro, simp]: "delivers P (raise AgentOutputValidationError)"
  by (simp add: delivers_def raise_def)

lemma delivers_bindE:
  assumes "delivers P m" and "\<And>x. P x \<Longrightarrow> delivers Q (f x)"
  shows "delivers Q (bindE m f)"
  unfolding delivers_def
proof
  fix s
  obtain r s' where m: "m s = (r, s')" by (cases "m s")
  with assms(1) have r: "case r of Inr x \<Rightarrow> P x | Inl e \<Rightarrow> e = AgentOutputValidationError"
    unfolding delivers_def by (metis fst_conv)
  show "case fst (bindE m f s) of Inr x \<Rightarrow> Q x | Inl e \<Rightarrow> e = AgentOutputValidationError"
  proof (cases r)
    case (Inl e)
    then show ?thesis using r m by simp
  next
    case (Inr x)
    then show ?thesis using r m assms(2) [of x] by (simp add: delivers_def)
  qed
qed

lemma delivers_text: "text_in data key \<Longrightarrow> delivers (\<lambda>s. map_of data key = Some (JStr s)) (text_field A data key)"
  by (auto simp: text_in_def text_field_def subscript_def delivers_def ret_def)

lemma delivers_forE: "(\<And>x. x \<in> set xs \<Longrightarrow> delivers P (f x)) \<Longrightarrow> delivers (\<lambda>ys. length ys = length xs \<and> (\<forall>y \<in> set ys. P y)) (forE xs f)"
proof (induction xs)
  case (Cons x xs)
  show ?case unfolding forE.simps
    by (rule delivers_bindE [where P = P], use Cons.prems in simp,
        rule delivers_bindE [where P = "\<lambda>ys. length ys = length xs \<and> (\<forall>y \<in> set ys. P y)"],
        use Cons in \<open>simp_all add: delivers_ret\<close>)
qed (simp add: delivers_ret)

lemma delivers_score:
  assumes "map_of raw n \<noteq> None"
  shows "delivers score_ok (validate_score_range raw n)"
  using assms by (auto simp: validate_score_range_def subscript_def SCORE_MIN_def SCORE_MAX_def score_ok_def
      intro: delivers_ret split: option.splits)

lemma delivers_scores:
  assumes "\<And>n. n \<in> set score_names \<Longrightarrow> map_of raw n \<noteq> None"
  shows "delivers scores_ok (scores_of raw)"
proof -
  have each: "delivers score_ok (validate_score_range raw n)" if "n \<in> set score_names" for n
    using assms [OF that] by (rule delivers_score)
  show ?thesis unfolding scores_of_def
    by (rule delivers_bindE [where P = score_ok], rule each, simp add: score_names_def)+ (simp add: delivers_ret scores_ok_def)
qed


section \<open>Answers\<close>

lemma json_objects_all:
  "(\<And>x. x \<in> set xs \<Longrightarrow> \<exists>kvs. x = JObj kvs) \<Longrightarrow> length (json_objects xs) = length xs \<and> JObj ` set (json_objects xs) = set xs"
  by (induction xs rule: json_objects.induct) force+

lemma topic_schema:
  assumes "satisfies topic_selection_schema (JObj data)"
  shows "text_in data ''outcome''" and "map_of data ''outcome'' \<in> Some ` JStr ` {''topic_selected'', ''no_suitable_topic''}"
    and "map_of data ''outcome'' = Some (JStr ''topic_selected'') \<Longrightarrow>
      text_in data ''selected_topic'' \<and> text_in data ''why_interesting'' \<and> text_in data ''cartoon_angle''
      \<and> (\<exists>sc. map_of data ''scores'' = Some (JObj sc) \<and> (\<forall>n \<in> set score_names. map_of sc n \<noteq> None))
      \<and> (\<exists>xs. map_of data ''alternatives'' = Some (JList xs)
           \<and> (\<forall>x \<in> set xs. \<exists>kvs. x = JObj kvs \<and> text_in kvs ''topic'' \<and> text_in kvs ''rationale''))"
  using assms unfolding topic_selection_schema_def
  by (auto simp: text_in_def list_all_iff split: option.splits) (drule (1) bspec, clarsimp)+

lemma scenario_schema_facts:
  assumes "satisfies scenario_schema (JObj data)"
  shows "text_in data ''topic''" and "text_in data ''premise''" and "text_in data ''punchline''"
    and "\<exists>xs. map_of data ''characters'' = Some (JList xs) \<and> xs \<noteq> []"
    and "\<exists>xs. map_of data ''panels'' = Some (JList xs)
      \<and> (\<forall>x \<in> set xs. \<exists>kvs. x = JObj kvs \<and> text_in kvs ''scene'' \<and> text_in kvs ''dialogue'')"
  using assms unfolding scenario_schema_def
  by (auto simp: text_in_def list_all_iff split: option.splits) (drule (1) bspec, clarsimp)+

lemma critic_schema_facts:
  assumes "satisfies critic_schema (JObj data)"
  shows "map_of data ''status'' \<in> Some ` JStr ` {''PASS'', ''REVISE''}"
    and "\<exists>xs. map_of data ''issues'' = Some (JList xs)
      \<and> (\<forall>x \<in> set xs. \<exists>kvs. x = JObj kvs
           \<and> map_of kvs ''dimension'' \<in> Some ` JStr ` {''technical_accuracy'', ''scenario_quality'', ''publication_quality''})"
  using assms unfolding critic_schema_def
  by (auto simp: text_in_def list_all_iff split: option.splits) (drule (1) bspec, clarsimp)+


lemma delivers_schema:
  "schema_library A \<Longrightarrow> delivers (\<lambda>_. satisfies (stage_schema key) (JObj data)) (check_schema A key data)"
  by (auto simp: check_schema_def schema_library_def delivers_ret)

lemma delivers_weaken: "delivers P m \<Longrightarrow> (\<And>x. P x \<Longrightarrow> Q x) \<Longrightarrow> delivers Q m"
  by (fastforce simp: delivers_def split: sum.splits)

lemma delivers_text_bind:
  "text_in data key \<Longrightarrow> (\<And>s. map_of data key = Some (JStr s) \<Longrightarrow> delivers Q (f s)) \<Longrightarrow>
   delivers Q (bindE (text_field A data key) f)"
  by (rule delivers_bindE [OF delivers_text])

lemma delivers_alternative:
  "text_in kvs ''topic'' \<Longrightarrow> text_in kvs ''rationale'' \<Longrightarrow> delivers (\<lambda>_. True) (alternative_of A kvs)"
  unfolding alternative_of_def by (intro delivers_text_bind delivers_ret TrueI)

lemma delivers_panel:
  "text_in kvs ''scene'' \<Longrightarrow> text_in kvs ''dialogue'' \<Longrightarrow> delivers (\<lambda>_. True) (panel_of A kvs)"
  unfolding panel_of_def by (intro delivers_text_bind delivers_ret TrueI)

text \<open>A loop over the objects of an array whose items are all objects with a property.\<close>

lemma delivers_objects:
  assumes "\<And>x. x \<in> set xs \<Longrightarrow> \<exists>kvs. x = JObj kvs \<and> R kvs" and "\<And>kvs. R kvs \<Longrightarrow> delivers P (f kvs)"
  shows "delivers (\<lambda>ys. length ys = length xs \<and> (\<forall>y \<in> set ys. P y)) (forE (json_objects xs) f)"
proof -
  have objs: "length (json_objects xs) = length xs" "JObj ` set (json_objects xs) = set xs"
    using json_objects_all [of xs] assms(1) by blast+
  have "delivers P (f kvs)" if "kvs \<in> set (json_objects xs)" for kvs
    using assms(1) [of "JObj kvs"] assms(2) objs(2) that by auto
  then show ?thesis using delivers_forE [of "json_objects xs" P f] objs(1) by simp
qed

lemma selected_validated:
  assumes "satisfies topic_selection_schema (JObj data)" and "map_of data ''outcome'' = Some (JStr ''topic_selected'')"
  shows "delivers (\<lambda>t. topic_ok t \<and> tso_prompt_version t = v) (selected_output A data v)"
proof -
  from topic_schema(3) [OF assms] obtain sc xs where
    texts: "text_in data ''selected_topic''" "text_in data ''why_interesting''" "text_in data ''cartoon_angle''"
    and sc: "map_of data ''scores'' = Some (JObj sc)" "\<And>n. n \<in> set score_names \<Longrightarrow> map_of sc n \<noteq> None"
    and xs: "map_of data ''alternatives'' = Some (JList xs)"
      "\<And>x. x \<in> set xs \<Longrightarrow> \<exists>kvs. x = JObj kvs \<and> text_in kvs ''topic'' \<and> text_in kvs ''rationale''" by auto
  have alts: "delivers (\<lambda>ys. length ys = length xs \<and> (\<forall>y \<in> set ys. True)) (forE (json_objects xs) (alternative_of A))"
    by (rule delivers_objects [where R = "\<lambda>kvs. text_in kvs ''topic'' \<and> text_in kvs ''rationale''"])
       (use xs(2) in \<open>auto intro: delivers_alternative\<close>)
  show ?thesis
    unfolding selected_output_def json_get_def sc(1) xs(1) option.case json.case json_iter.simps bindE_ret
    by (intro delivers_bindE [OF delivers_scores [OF sc(2)]] delivers_bindE [OF alts] delivers_text_bind texts delivers_ret)
       (auto simp: topic_ok_def)
qed

lemma topic_validated:
  assumes "schema_library A"
  shows "delivers (\<lambda>t. topic_ok t \<and> tso_prompt_version t = v) (validate_topic_output A payload v)"
  unfolding validate_topic_output_def Let_def
proof (rule delivers_bindE [OF delivers_schema [OF assms]], simp only: stage_schema.simps, rule delivers_text_bind)
  assume sat: "satisfies topic_selection_schema (JObj (ppp_data payload))"
  show "text_in (ppp_data payload) ''outcome''" by (rule topic_schema(1) [OF sat])
  fix token assume tok: "map_of (ppp_data payload) ''outcome'' = Some (JStr token)"
  then consider "token = ''topic_selected''" | "token = ''no_suitable_topic''" using topic_schema(2) [OF sat] by auto
  then show "delivers (\<lambda>t. topic_ok t \<and> tso_prompt_version t = v) (bindE (topic_outcome_of token) (\<lambda>outcome.
      if outcome = OUTCOME_TOPIC_SELECTED then selected_output A (ppp_data payload) v
      else ret \<lparr>tso_outcome = outcome, tso_prompt_version = v, tso_selected_topic = JNull, tso_why_interesting = JNull,
        tso_cartoon_angle = JNull, tso_scores = None, tso_alternatives = []\<rparr>))"
    using selected_validated [OF sat] tok
    by cases (simp_all add: topic_outcome_of_def delivers_ret topic_ok_def)
qed

lemma scenario_validated:
  assumes "schema_library A"
  shows "delivers (\<lambda>s. scenario_ok s \<and> sco_prompt_version s = v) (validate_scenario_output A payload v)"
  unfolding validate_scenario_output_def Let_def
proof (rule delivers_bindE [OF delivers_schema [OF assms]], simp only: stage_schema.simps)
  let ?d = "ppp_data payload"
  assume "satisfies scenario_schema (JObj ?d)"
  note facts = scenario_schema_facts [OF this]
  from facts(4,5) obtain cs xs where cs: "map_of ?d ''characters'' = Some (JList cs)" "cs \<noteq> []"
    and xs: "map_of ?d ''panels'' = Some (JList xs)"
      "\<And>x. x \<in> set xs \<Longrightarrow> \<exists>kvs. x = JObj kvs \<and> text_in kvs ''scene'' \<and> text_in kvs ''dialogue''" by blast
  have panels: "delivers (\<lambda>ys. length ys = length xs \<and> (\<forall>y \<in> set ys. True)) (forE (json_objects xs) (panel_of A))"
    by (rule delivers_objects [where R = "\<lambda>kvs. text_in kvs ''scene'' \<and> text_in kvs ''dialogue''"])
       (use xs(2) in \<open>auto intro: delivers_panel\<close>)
  have "delivers (\<lambda>s. scenario_ok s \<and> sco_prompt_version s = v) (scenario_with_panels A ?d xs v)" (is "delivers ?P _")
  proof (cases "int (length xs) < SCENARIO_PANEL_MIN \<or> int (length xs) > SCENARIO_PANEL_MAX")
    case False
    then show ?thesis
      unfolding scenario_with_panels_def if_not_P [OF False] json_get_def cs(1) option.case json_iter.simps bindE_ret
      by (intro delivers_bindE [OF panels] delivers_text_bind facts delivers_ret)
         (use cs(2) in \<open>auto simp: scenario_ok_def SCENARIO_PANEL_MIN_def SCENARIO_PANEL_MAX_def\<close>)
  qed (simp add: scenario_with_panels_def)
  then show "delivers ?P (case json_get ?d ''panels'' (JList []) of
      JList panels_raw \<Rightarrow> scenario_with_panels A ?d panels_raw v | _ \<Rightarrow> raise AgentOutputValidationError)"
    by (simp add: json_get_def xs(1))
qed

lemma delivers_issue:
  assumes "map_of kvs ''dimension'' \<in> Some ` JStr ` {''technical_accuracy'', ''scenario_quality'', ''publication_quality''}"
  shows "delivers (\<lambda>i. length (ci_description i) \<le> 2000) (issue_of A kvs :: ('s, critic_issue) prog)"
proof -
  have "text_in kvs ''dimension''" using assms by (auto simp: text_in_def)
  moreover have "delivers (\<lambda>i. length (ci_description i) \<le> 2000)
      (bindE (critic_dimension_of s) (\<lambda>dimension. ret \<lparr>ci_dimension = dimension, ci_description = text_value\<rparr>)
        :: ('s, critic_issue) prog)"
    if "map_of kvs ''dimension'' = Some (JStr s)" and "length text_value \<le> 2000" for s text_value
    using assms that by (auto simp: critic_dimension_of_def delivers_ret)
  ultimately have "delivers (\<lambda>i. length (ci_description i) \<le> 2000) (bindE (text_field A kvs ''dimension'') (\<lambda>token.
      bindE (critic_dimension_of token) (\<lambda>dimension. ret \<lparr>ci_dimension = dimension, ci_description = text_value\<rparr>))
        :: ('s, critic_issue) prog)"
    if "length text_value \<le> 2000" for text_value
    using that by (intro delivers_text_bind) auto
  then show ?thesis
    unfolding issue_of_def Let_def by (simp add: CRITIC_ISSUE_DESCRIPTION_MAX_def not_less)
qed

lemma critic_validated:
  assumes "schema_library A"
  shows "delivers (\<lambda>c. critic_ok c \<and> co_prompt_version c = v) (validate_critic_output A payload v :: ('s, critic_output) prog)"
  unfolding validate_critic_output_def Let_def
proof (rule delivers_bindE [OF delivers_schema [OF assms]], simp only: stage_schema.simps, rule delivers_text_bind)
  let ?d = "ppp_data payload"
  assume "satisfies critic_schema (JObj ?d)"
  note facts = critic_schema_facts [OF this]
  show "text_in ?d ''status''" using facts(1) by (auto simp: text_in_def)
  from facts(2) obtain xs where xs: "map_of ?d ''issues'' = Some (JList xs)"
    "\<And>x. x \<in> set xs \<Longrightarrow> \<exists>kvs. x = JObj kvs
        \<and> map_of kvs ''dimension'' \<in> Some ` JStr ` {''technical_accuracy'', ''scenario_quality'', ''publication_quality''}"
    by blast
  have issues: "delivers (\<lambda>ys. length ys = length xs \<and> (\<forall>i \<in> set ys. length (ci_description i) \<le> 2000))
      (forE (json_objects xs) (issue_of A))"
    by (rule delivers_objects) (fact xs(2), rule delivers_issue)
  fix token assume "map_of ?d ''status'' = Some (JStr token)"
  then have "\<exists>st. critic_status_of token = (ret st :: ('s, critic_status) prog)"
    using facts(1) by (auto simp: critic_status_of_def)
  then obtain st where st: "critic_status_of token = (ret st :: ('s, critic_status) prog)" by blast
  show "delivers (\<lambda>c. critic_ok c \<and> co_prompt_version c = v) (bindE (critic_status_of token) (\<lambda>status.
      bindE (forE (json_objects (json_items (json_get ?d ''issues'' (JList [])))) (issue_of A)) (\<lambda>issues.
      ret \<lparr>co_status = status, co_issues = issues, co_suggested_changes =
             map (json_str (al_repr A)) (json_items (json_get ?d ''suggested_changes'' (JList []))), co_prompt_version = v\<rparr>))
      :: ('s, critic_output) prog)"
    unfolding st bindE_ret json_get_def xs(1) option.case json_items.simps
    by (rule delivers_bindE [OF issues], rule delivers_ret) (simp add: critic_ok_def)
qed


section \<open>Runs\<close>

text \<open>An answer is rejected with \<open>AGT_OUTPUT\<close>, or \<open>json.loads\<close> raises something else on its payload.\<close>

definition answered :: "agent_lib \<Rightarrow> string \<Rightarrow> ('a \<Rightarrow> bool) \<Rightarrow> ('s, 'a) prog \<Rightarrow> bool" where
  "answered A content P m \<longleftrightarrow>
     (\<forall>s. case fst (m s) of
        Inr x \<Rightarrow> P x
      | Inl e \<Rightarrow> e = AgentOutputValidationError \<or> al_json_loads A (extract_json_payload content) = Inl e)"

lemma answered_parse:
  fixes f :: "parsed_provider_payload \<Rightarrow> ('s, 'a) prog"
  assumes "\<And>payload. delivers P (f payload)"
  shows "answered A content P (bindE (parse_provider_content A content) f)"
  unfolding answered_def
proof
  fix s :: 's
  have "(\<exists>p. parse_provider_content A content s = (Inr p, s)) \<or> (\<exists>e. parse_provider_content A content s = (Inl e, s)
      \<and> (e = AgentOutputValidationError \<or> al_json_loads A (extract_json_payload content) = Inl e))"
    unfolding parse_provider_content_def by (auto simp: py_simps split: sum.splits json.splits)
  then show "case fst (bindE (parse_provider_content A content) f s) of Inr x \<Rightarrow> P x
      | Inl e \<Rightarrow> e = AgentOutputValidationError \<or> al_json_loads A (extract_json_payload content) = Inl e"
  proof (elim disjE exE conjE)
    fix p assume "parse_provider_content A content s = (Inr p, s)"
    then show ?thesis using assms [of p] by (auto simp: delivers_def split: sum.splits)
  qed auto
qed

lemma answers_typed:
  assumes "schema_library A"
  shows "answered A content (\<lambda>t. topic_ok t \<and> tso_prompt_version t = v) (topic_answer A content v)"
    and "answered A content (\<lambda>s. scenario_ok s \<and> sco_prompt_version s = v) (scenario_answer A content v)"
    and "answered A content (\<lambda>c. critic_ok c \<and> co_prompt_version c = v) (critic_answer A content v)"
  unfolding topic_answer_def scenario_answer_def critic_answer_def
  by (rule answered_parse, rule topic_validated scenario_validated critic_validated, rule assms)+

lemma run_returns:
  assumes "run_pipeline A X validate_input build_messages parse w = (Inr out, w')"
    and "\<And>content version. answered A content P (parse content version)"
  shows "P out \<and> (\<exists>w1. validate_input w = (Inr (), w1))"
proof -
  from assms(1) obtain c w0 u w1 content v w2 where cfg: "resolve_agent_config X w = (Inr c, w0)"
    and "validate_input w0 = (Inr u, w1)" and out: "parse content v w2 = (Inr out, w')"
    unfolding run_pipeline_def bindE_eq_Inr by blast
  moreover have "w0 = w" using cfg by (auto simp: resolve_agent_config_def split: option.splits if_splits)
  moreover have "P out" using assms(2) [of content v] out unfolding answered_def by (metis fst_conv sum.case(2))
  ultimately show ?thesis by auto
qed



definition demo_verdict :: "(string \<times> json) list" where
  "demo_verdict = [(''status'', JStr ''REVISE''),
     (''issues'', JList [JObj [(''dimension'', JStr ''scenario_quality''), (''description'', JStr ''weak'')]]),
     (''suggested_changes'', JList [])]"

definition demo_agent_lib :: agent_lib where
  "demo_agent_lib = \<lparr>al_json_loads = (\<lambda>_. Inr (JObj demo_verdict)),
     al_json_dumps = (\<lambda>_. ''{}''), al_repr = (\<lambda>_. ''''), al_valid = (\<lambda>key. satisfies (stage_schema key)),
     al_load_prompt = (\<lambda>_. ret \<lparr>plr_text = ''Review'', plr_version = ''v'', plr_path = ''p''\<rparr>)\<rparr>"

lemma demo_schema_library: "schema_library demo_agent_lib"
  by (simp add: schema_library_def demo_agent_lib_def)

lemma demo_parse:
  "parse_provider_content demo_agent_lib ''{}'' = ret \<lparr>ppp_data = demo_verdict, ppp_raw_length = 2\<rparr>"
proof -
  have "strip ''{}'' = ''{}''" by (simp add: strip_def is_space_def)
  moreover have "\<not> too_deep 0 (JObj demo_verdict)" by (simp add: demo_verdict_def MAX_JSON_DEPTH_def)
  ultimately show ?thesis
    by (simp add: parse_provider_content_def RESPONSE_CONTENT_MAX_BYTES_def demo_agent_lib_def)
qed

lemma demo_checked:
  "check_schema demo_agent_lib CRITIC_SCHEMA demo_verdict = ret ()"
  "text_field demo_agent_lib demo_verdict ''status'' = ret ''REVISE''"
  "issue_of demo_agent_lib [(''dimension'', JStr ''scenario_quality''), (''description'', JStr ''weak'')]
     = ret \<lparr>ci_dimension = SCENARIO_QUALITY, ci_description = ''weak''\<rparr>"
proof -
  have "al_valid demo_agent_lib CRITIC_SCHEMA (JObj demo_verdict)"
    by (simp add: demo_agent_lib_def demo_verdict_def critic_schema_def)
  then show "check_schema demo_agent_lib CRITIC_SCHEMA demo_verdict = ret ()" by (simp add: check_schema_def)
  show "text_field demo_agent_lib demo_verdict ''status'' = ret ''REVISE''"
    by (simp add: text_field_def subscript_def demo_verdict_def)
  show "issue_of demo_agent_lib [(''dimension'', JStr ''scenario_quality''), (''description'', JStr ''weak'')]
     = ret \<lparr>ci_dimension = SCENARIO_QUALITY, ci_description = ''weak''\<rparr>"
    by (simp add: issue_of_def json_get_def text_field_def subscript_def critic_dimension_of_def CRITIC_ISSUE_DESCRIPTION_MAX_def)
qed

lemma demo_validate:
  "validate_critic_output demo_agent_lib \<lparr>ppp_data = demo_verdict, ppp_raw_length = 2\<rparr> v = ret \<lparr>co_status = CRITIC_STATUS_REVISE,
     co_issues = [\<lparr>ci_dimension = SCENARIO_QUALITY, ci_description = ''weak''\<rparr>], co_suggested_changes = [], co_prompt_version = v\<rparr>"
proof -
  have "json_get demo_verdict ''issues'' (JList []) = JList [JObj [(''dimension'', JStr ''scenario_quality''), (''description'', JStr ''weak'')]]"
    "json_get demo_verdict ''suggested_changes'' (JList []) = JList []"
    by (simp_all add: json_get_def demo_verdict_def)
  then show ?thesis by (simp add: validate_critic_output_def critic_status_of_def demo_checked)
qed


section \<open>The prompt cache\<close>

text \<open>The cache is transparent: while every entry is what reading the file again would give, a load with
  the cache returns what a load without it returns, and keeps the cache so.\<close>

definition cache_coherent :: "prompt_loader \<Rightarrow> prompt_cache \<Rightarrow> bool" where
  "cache_coherent L cache \<longleftrightarrow>
     (\<forall>file p size mtime result. pl_files L file = Some p \<longrightarrow> pp_stat p = Some (size, mtime) \<longrightarrow>
        dict_get cache (file, mtime) = Some result \<longrightarrow> fst (read_prompt L file (pp_bytes p) []) = Inr result)"

lemma read_prompt_state: "read_prompt L file bytes cache = (fst (read_prompt L file bytes []), cache)"
  by (auto simp: read_prompt_def py_simps split: option.splits sum.splits)

theorem prompt_cache_transparent:
  assumes "cache_coherent L cache"
  shows "fst (load_prompt L file cache) = fst (load_prompt (L\<lparr>pl_enable_cache := False\<rparr>) file [])
    \<and> cache_coherent L (snd (load_prompt L file cache))"
proof (cases "pl_files L file")
  case (Some p)
  show ?thesis
  proof (cases "pp_stat p")
    case (Some st)
    obtain st_size mtime where st: "st = (st_size, mtime)" by (cases st)
    have same: "read_prompt (L\<lparr>pl_enable_cache := False\<rparr>) file = read_prompt L file"
      by (rule ext)+ (simp add: read_prompt_def split: option.splits sum.splits)
    define r where "r = fst (read_prompt L file (pp_bytes p) [])"
    then have rd: "read_prompt L file (pp_bytes p) c = (r, c)" for c by (simp add: read_prompt_state [of L _ _ c])
    have hit: "r = Inr result" if "dict_get cache (file, mtime) = Some result" for result
      using assms \<open>pl_files L file = Some p\<close> Some st that unfolding cache_coherent_def r_def by blast
    have kept: "cache_coherent L (dict_set (file, mtime) result cache)" if "r = Inr result" for result
      using assms that \<open>pl_files L file = Some p\<close> Some unfolding cache_coherent_def r_def by auto
    show ?thesis
      using assms \<open>pl_files L file = Some p\<close> Some hit kept
      by (cases r) (auto simp: load_prompt_def st same bindE_def py_simps rd split: option.splits)
  qed (use assms \<open>pl_files L file = Some p\<close> in \<open>simp add: load_prompt_def py_simps\<close>)
qed (use assms in \<open>simp add: load_prompt_def py_simps\<close>)


section \<open>The agents as dependencies of the handlers\<close>

context clock_frame
begin

lemma frame_mustache: "evolves R (substitute_mustache template vars)"
  unfolding substitute_mustache_def by (intro frame_intro)

lemma frame_text: "evolves R (text_field A data key)"
  unfolding text_field_def subscript_def by (intro frame_intro)

lemma frame_iter: "evolves R (json_iter v)"
  by (cases v) (auto intro: frame_intro)

lemma frame_scores: "evolves R (scores_of raw)"
  unfolding scores_of_def validate_score_range_def subscript_def by (intro frame_intro)

lemma frame_parse: "evolves R (parse_provider_content A content)"
  unfolding parse_provider_content_def by (intro frame_intro frame_sum frame_json)

lemma frame_topic_answer: "evolves R (topic_answer A content v)"
  unfolding topic_answer_def validate_topic_output_def selected_output_def check_schema_def alternative_of_def
    topic_outcome_of_def Let_def
  by (intro frame_intro frame_parse frame_text frame_scores frame_iter frame_json)

lemma frame_scenario_answer: "evolves R (scenario_answer A content v)"
  unfolding scenario_answer_def validate_scenario_output_def scenario_with_panels_def check_schema_def panel_of_def Let_def
  by (intro frame_intro frame_parse frame_text frame_iter frame_json)

lemma frame_critic_answer: "evolves R (critic_answer A content v)"
  unfolding critic_answer_def validate_critic_output_def check_schema_def issue_of_def critic_status_of_def
    critic_dimension_of_def Let_def
  by (intro frame_intro frame_parse frame_text)

lemma frame_pipeline:
  assumes "\<And>p. evolves R (al_load_prompt A p)" and "\<And>q. evolves R (rx_generate X q)"
    and "evolves R validate_input" and "\<And>p. evolves R (messages p)" and "\<And>c v. evolves R (parse c v)"
  shows "evolves R (run_pipeline A X validate_input messages parse)"
  unfolding run_pipeline_def resolve_agent_config_def by (intro frame_intro assms)

lemma frame_runs:
  assumes "\<And>p. evolves R (al_load_prompt A p)" and "\<And>q. evolves R (rx_generate X q)"
  shows "evolves R (topic_run A X cs)" and "evolves R (scenario_run A X t)" and "evolves R (critic_run A X s n)"
  unfolding topic_run_def scenario_run_def critic_run_def validate_topic_selection_def validate_scenario_generation_def
    validate_critic_def build_topic_messages_def build_scenario_messages_def build_critic_messages_def Let_def
  by (intro frame_pipeline assms frame_intro frame_mustache frame_topic_answer frame_scenario_answer frame_critic_answer)+

end

text \<open>
  The handlers' dependencies with this collector and these agents meet the handlers' contract: they
  read the clock and write no table, when the clients, the prompt loader and the providers do not.
\<close>

theorem wired_deps_ok:
  assumes "evolves clock_only (hc_fetch_top_story_ids (cl_client K))" and "\<And>ids. evolves clock_only (hc_fetch_items (cl_client K) ids)"
    and "\<And>p. evolves clock_only (al_load_prompt A p)" and "\<And>a q. evolves clock_only (generate a q)"
    and "\<And>a. evolves clock_only (sd_provider D a)"
  shows "deps_ok (wired_deps K cfg A agents provider_id generate D)"
  unfolding deps_ok_def wired_deps_def
  by (simp add: ticks.frame_collect ticks.frame_runs assms build_agent_context_def)

end
