(* ===== verification/Config_Schema.thy ===== *)
theory Config_Schema
  imports Agents "HOL-Library.Log_Nat"
begin

text \<open>
  The configuration drafts and their schema: \<open>config/types.py\<close>, \<open>draft.py\<close>, \<open>errors.py\<close>,
  \<open>messages.py\<close> and the \<open>SchemaMapper\<close> of \<open>schema.py\<close>, which turns the tree of the YAML document
  into a \<open>ConfigDraft\<close> or raises.

  A tree is a value of \<open>yaml\<close>: what \<open>yaml.safe_load\<close> can return, with the keys of a mapping as
  values too. A Python \<open>float\<close> is a rational, an infinity or NaN; an integer is rounded to the
  nearest float, halves to even, and is out of range from \<open>2 ^ 1024\<close> on. What the code calls
  outside the repository and the text of values that are no strings is a field of \<open>config_host\<close>.
\<close>

section \<open>Results\<close>

definition and_then :: "'e + 'a \<Rightarrow> ('a \<Rightarrow> 'e + 'b) \<Rightarrow> 'e + 'b" where
  "and_then x f = (case x of Inl e \<Rightarrow> Inl e | Inr a \<Rightarrow> f a)"

fun traverse :: "('a \<Rightarrow> 'e + 'b) \<Rightarrow> 'a list \<Rightarrow> 'e + 'b list" where
  "traverse f [] = Inr []"
| "traverse f (x # xs) = and_then (f x) (\<lambda>y. and_then (traverse f xs) (\<lambda>ys. Inr (y # ys)))"

lemma and_then_simps [simp]: "and_then (Inl e) f = Inl e" "and_then (Inr a) f = f a"
  by (simp_all add: and_then_def)

lemma and_then_Inr: "and_then x f = Inr b \<longleftrightarrow> (\<exists>a. x = Inr a \<and> f a = Inr b)"
  by (cases x) simp_all

lemma and_then_Inl: "and_then x f = Inl e \<longleftrightarrow> x = Inl e \<or> (\<exists>a. x = Inr a \<and> f a = Inl e)"
  by (cases x) auto

lemma traverse_Inr: "traverse f xs = Inr ys \<longleftrightarrow> list_all2 (\<lambda>x y. f x = Inr y) xs ys"
  by (induction xs arbitrary: ys) (auto simp: and_then_Inr list_all2_Cons1)

lemma traverse_Inl: "traverse f xs = Inl e \<Longrightarrow> \<exists>x \<in> set xs. f x = Inl e"
  by (induction xs) (auto simp: and_then_Inl)

section \<open>Floats\<close>

datatype py_float = Finite rat | Infinity | NegInfinity | NaN

fun not_positive :: "py_float \<Rightarrow> bool" where
  "not_positive (Finite q) = (q \<le> 0)"
| "not_positive Infinity = False" | "not_positive NegInfinity = True" | "not_positive NaN = False"

text \<open>The nearest integer with 53 significant bits: \<open>e\<close> low bits are dropped, halves to even.\<close>

definition round_bits :: "nat \<Rightarrow> nat \<Rightarrow> nat" where
  "round_bits e n =
     (let q = n div 2 ^ e; r = 2 * (n mod 2 ^ e) in
      (if r < 2 ^ e \<or> (r = 2 ^ e \<and> even q) then q else q + 1) * 2 ^ e)"

definition nearest_float :: "nat \<Rightarrow> nat" where
  "nearest_float n = (if n < 2 ^ 53 then n else round_bits (floorlog 2 n - 53) n)"

definition float_of_int :: "int \<Rightarrow> py_float option" where
  "float_of_int i =
     (let m = nearest_float (nat \<bar>i\<bar>) in
      if 2 ^ 1024 \<le> m then None else Some (Finite (of_int (if i < 0 then - int m else int m))))"

section \<open>Identifiers\<close>

datatype provider_id = OPENAI | ANTHROPIC | GEMINI | KIMI | FAKE

fun provider_value :: "provider_id \<Rightarrow> string" where
  "provider_value OPENAI = ''openai''" | "provider_value ANTHROPIC = ''anthropic''"
| "provider_value GEMINI = ''gemini''" | "provider_value KIMI = ''kimi''" | "provider_value FAKE = ''fake''"

fun injection_value :: "injection_id \<Rightarrow> string" where
  "injection_value FINJ_WKR_PRE = ''FINJ-WKR-PRE''"
| "injection_value FINJ_WKR_POST_AGENT = ''FINJ-WKR-POST-AGENT''"
| "injection_value FINJ_WKR_POST_COMMIT = ''FINJ-WKR-POST-COMMIT''"
| "injection_value FINJ_WKR_PRE_ACK = ''FINJ-WKR-PRE-ACK''"
| "injection_value FINJ_Q_DUP = ''FINJ-Q-DUP''" | "injection_value FINJ_Q_SLOW = ''FINJ-Q-SLOW''"
| "injection_value FINJ_PRV_TIMEOUT = ''FINJ-PRV-TIMEOUT''"
| "injection_value FINJ_PRV_RATE = ''FINJ-PRV-RATE''" | "injection_value FINJ_PRV_ERROR = ''FINJ-PRV-ERROR''"
| "injection_value FINJ_PRV_INVALID = ''FINJ-PRV-INVALID''"
| "injection_value FINJ_COORD_DISPATCH = ''FINJ-COORD-DISPATCH''"
| "injection_value FINJ_COORD_CONFLICT = ''FINJ-COORD-CONFLICT''"

text \<open>The members in declaration order, and \<open>Enum(value)\<close>.\<close>

definition agent_members :: "agent_id list" where
  "agent_members = [TOPIC_SELECTOR, SCENARIO_GENERATOR, CRITIC]"

definition provider_members :: "provider_id list" where
  "provider_members = [OPENAI, ANTHROPIC, GEMINI, KIMI, FAKE]"

definition task_members :: "task_type list" where
  "task_members = [COLLECT, SELECT_TOPIC, GENERATE_SCENARIO, REVIEW_SCENARIO]"

definition injection_members :: "injection_id list" where
  "injection_members = [FINJ_WKR_PRE, FINJ_WKR_POST_AGENT, FINJ_WKR_POST_COMMIT, FINJ_WKR_PRE_ACK,
     FINJ_Q_DUP, FINJ_Q_SLOW, FINJ_PRV_TIMEOUT, FINJ_PRV_RATE, FINJ_PRV_ERROR, FINJ_PRV_INVALID,
     FINJ_COORD_DISPATCH, FINJ_COORD_CONFLICT]"

definition member_of :: "('m \<Rightarrow> string) \<Rightarrow> 'm list \<Rightarrow> string \<Rightarrow> 'm option" where
  "member_of val ms s = find (\<lambda>m. val m = s) ms"

section \<open>Drafts\<close>

record postgres_draft =
  pgd_host :: string
  pgd_port :: int
  pgd_database :: string
  pgd_user_env :: string
  pgd_password_env :: string

record redis_draft =
  rdd_host :: string
  rdd_port :: int
  rdd_db :: int
  rdd_password_env :: "string option"

record infrastructure_draft =
  ifd_postgres :: postgres_draft
  ifd_redis :: redis_draft

record agent_draft =
  agd_provider :: provider_id
  agd_model :: string
  agd_prompt_file :: string

record provider_pricing_draft =
  ppd_input_per_1k_tokens :: "py_float option"
  ppd_output_per_1k_tokens :: "py_float option"

record provider_draft =
  pvd_api_key_env :: string
  pvd_rate_limit_per_minute :: "int option"
  pvd_pricing :: "provider_pricing_draft option"

record collection_scoring_draft =
  csd_weight_score :: "py_float option"
  csd_weight_comments :: "py_float option"
  csd_weight_recency :: "py_float option"

record collection_draft =
  cld_candidate_count :: int
  cld_scoring :: "collection_scoring_draft option"

record workflow_draft =
  wfd_max_scenario_revisions :: int

record worker_draft =
  wkd_topic_selector_concurrency :: int
  wkd_scenario_generator_concurrency :: int
  wkd_critic_concurrency :: int

record backoff_draft =
  bfd_initial_seconds :: py_float
  bfd_multiplier :: py_float
  bfd_max_seconds :: py_float

record retry_policy_draft =
  rpd_max_attempts :: int
  rpd_backoff :: backoff_draft

record timeout_draft =
  tmd_connect_seconds :: "py_float option"
  tmd_read_seconds :: py_float
  tmd_total_seconds :: "py_float option"

text \<open>An entry of \<open>active_injections\<close> is a member of the enumeration or a text that names none.\<close>

record failure_injection_draft =
  fid_enabled :: bool
  fid_active_injections :: "(injection_id + string) list"

record config_draft =
  cd_config_version :: "string option"
  cd_infrastructure :: infrastructure_draft
  cd_agents :: "(agent_id, agent_draft) dict"
  cd_providers :: "(provider_id, provider_draft) dict"
  cd_collection :: collection_draft
  cd_workflow :: workflow_draft
  cd_workers :: worker_draft
  cd_retry :: "(task_type, retry_policy_draft) dict"
  cd_timeouts :: "(provider_id, timeout_draft) dict"
  cd_failure_injection :: failure_injection_draft

section \<open>Trees\<close>

text \<open>\<open>YOther\<close> is a value of another type (a date, bytes, a set): its type's name, its text and
  whether it is true. \<open>YDecimal\<close> never comes out of YAML; the mapper accepts it.\<close>

datatype yaml = YNull | YBool bool | YInt int | YFloat py_float | YStr string | YDecimal py_float
  | YOther string string bool | YList "yaml list" | YMap "(yaml \<times> yaml) list"

type_synonym yaml_map = "(yaml \<times> yaml) list"

fun type_name :: "yaml \<Rightarrow> string" where
  "type_name YNull = ''NoneType''" | "type_name (YBool b) = ''bool''" | "type_name (YInt i) = ''int''"
| "type_name (YFloat f) = ''float''" | "type_name (YStr s) = ''str''"
| "type_name (YDecimal d) = ''Decimal''" | "type_name (YOther n s b) = n"
| "type_name (YList xs) = ''list''" | "type_name (YMap es) = ''dict''"

fun yaml_truthy :: "yaml \<Rightarrow> bool" where
  "yaml_truthy YNull = False" | "yaml_truthy (YBool b) = b" | "yaml_truthy (YInt i) = (i \<noteq> 0)"
| "yaml_truthy (YFloat f) = (f \<noteq> Finite 0)" | "yaml_truthy (YStr s) = (s \<noteq> '''')"
| "yaml_truthy (YDecimal d) = (d \<noteq> Finite 0)" | "yaml_truthy (YOther n s b) = b"
| "yaml_truthy (YList xs) = (xs \<noteq> [])" | "yaml_truthy (YMap es) = (es \<noteq> [])"

definition ymap_get :: "yaml_map \<Rightarrow> string \<Rightarrow> yaml option" where
  "ymap_get m key = map_of m (YStr key)"

section \<open>Errors\<close>

text \<open>\<open>ForeignError\<close> is an exception that is no \<open>ConfigError\<close>, by its class.\<close>

datatype config_exn =
    ConfigLoadError string
  | ConfigMissingError string string
  | ConfigFormatError string string
  | ConfigValueError string string
  | ConfigSecretDetectedError string string
  | ConfigCredentialMissingError string string
  | ConfigPromptNotFoundError string string
  | ForeignError string

fun is_config_error :: "config_exn \<Rightarrow> bool" where
  "is_config_error (ForeignError c) = False"
| "is_config_error _ = True"

fun config_error_code :: "config_exn \<Rightarrow> string" where
  "config_error_code (ConfigLoadError m) = ''CFG_LOAD''"
| "config_error_code (ConfigMissingError m k) = ''CFG_MISSING''"
| "config_error_code (ConfigFormatError m k) = ''CFG_FORMAT''"
| "config_error_code (ConfigValueError m k) = ''CFG_VALUE''"
| "config_error_code (ConfigSecretDetectedError m k) = ''CFG_SECRET''"
| "config_error_code (ConfigCredentialMissingError m v) = ''CFG_CREDENTIAL''"
| "config_error_code (ConfigPromptNotFoundError m p) = ''CFG_PROMPT''"
| "config_error_code (ForeignError c) = ''''"

definition validation_message :: "string \<Rightarrow> string \<Rightarrow> string \<Rightarrow> string" where
  "validation_message key_path reason constraint = key_path @ '': '' @ reason @ ''. Expected: '' @ constraint"

definition credential_message :: "string \<Rightarrow> string" where
  "credential_message env_var_name = ''Required credential environment variable is unset or empty: '' @ env_var_name"

definition prompt_message :: "string \<Rightarrow> string \<Rightarrow> string" where
  "prompt_message key_path prompt_file =
     validation_message key_path (''Prompt file not found at path '' @ [CHR 0x27] @ prompt_file @ [CHR 0x27])
       ''existing file on local filesystem''"

definition secret_detected_message :: "string \<Rightarrow> string \<Rightarrow> string" where
  "secret_detected_message key_path pattern_name =
     validation_message key_path (''Inline secret pattern detected ('' @ pattern_name @ '')'')
       ''reference credentials via environment variable names, not inline values''"

definition format_error :: "string \<Rightarrow> string \<Rightarrow> string \<Rightarrow> config_exn + 'a" where
  "format_error key_path reason constraint = Inl (ConfigFormatError (validation_message key_path reason constraint) key_path)"

definition missing_error :: "string \<Rightarrow> string \<Rightarrow> string \<Rightarrow> config_exn + 'a" where
  "missing_error key_path reason constraint = Inl (ConfigMissingError (validation_message key_path reason constraint) key_path)"

text \<open>\<open>f"'{s}'"\<close> and the text of a list of names.\<close>

definition quoted :: "string \<Rightarrow> string" where
  "quoted s = [CHR 0x27] @ s @ [CHR 0x27]"

definition names_text :: "string list \<Rightarrow> string" where
  "names_text ns = ''['' @ join '', '' (map quoted ns) @ '']''"

section \<open>Requirements\<close>

text \<open>What reading a file and parsing YAML raise, with the text of the exception.\<close>

datatype host_exn = OSError string | UnicodeDecodeError string | YAMLError string | OtherExn string

record config_host =
  ch_environ :: "string \<rightharpoonup> string"
  ch_cwd :: string
  ch_path :: "string \<Rightarrow> string"
  ch_is_file :: "string \<Rightarrow> config_exn + bool"
  ch_read_text :: "string \<Rightarrow> host_exn + string"
  ch_safe_load :: "string \<Rightarrow> host_exn + yaml"
  ch_str :: "yaml \<Rightarrow> string"
  ch_float_str :: "py_float \<Rightarrow> string"
  ch_decimal :: "string \<Rightarrow> py_float option"
  ch_set_order :: "provider_id list \<Rightarrow> provider_id list"

text \<open>The text of a key in an f-string.\<close>

definition key_text :: "config_host \<Rightarrow> yaml \<Rightarrow> string" where
  "key_text H k = (case k of YStr s \<Rightarrow> s | _ \<Rightarrow> ch_str H k)"

definition wrong_type :: "yaml \<Rightarrow> string" where
  "wrong_type node = ''Value has wrong type ('' @ type_name node @ '')''"

definition require_mapping :: "yaml \<Rightarrow> string \<Rightarrow> config_exn + yaml_map" where
  "require_mapping node key_path =
     (case node of YMap m \<Rightarrow> Inr m | _ \<Rightarrow> format_error key_path ''Value is not a mapping'' ''object mapping'')"

definition require_domain :: "yaml_map \<Rightarrow> string \<Rightarrow> config_exn + yaml_map" where
  "require_domain tree name =
     (case ymap_get tree name of
        None \<Rightarrow> missing_error name ''Required domain is missing'' ''present top-level mapping''
      | Some node \<Rightarrow> require_mapping node name)"

definition require_key :: "yaml_map \<Rightarrow> string \<Rightarrow> string \<Rightarrow> config_exn + yaml" where
  "require_key m key key_path =
     (case ymap_get m key of
        None \<Rightarrow> missing_error key_path ''Required key is missing'' ''present key''
      | Some node \<Rightarrow> Inr node)"

definition require_str :: "yaml \<Rightarrow> string \<Rightarrow> config_exn + string" where
  "require_str node key_path =
     (case node of
        YStr s \<Rightarrow>
          if strip s = [] then format_error key_path ''String is empty or whitespace-only'' ''non-empty string''
          else Inr (strip s)
      | _ \<Rightarrow> format_error key_path (wrong_type node) ''non-empty string'')"

definition require_int :: "yaml \<Rightarrow> string \<Rightarrow> config_exn + int" where
  "require_int node key_path =
     (case node of YInt i \<Rightarrow> Inr i | _ \<Rightarrow> format_error key_path (wrong_type node) ''integer'')"

definition require_positive_float :: "yaml \<Rightarrow> string \<Rightarrow> config_exn + py_float" where
  "require_positive_float node key_path =
     (case node of
        YInt i \<Rightarrow> (case float_of_int i of None \<Rightarrow> Inl (ForeignError ''OverflowError'') | Some f \<Rightarrow> Inr f)
      | YFloat f \<Rightarrow> Inr f
      | _ \<Rightarrow> format_error key_path (wrong_type node) ''number'')"

text \<open>\<open>_optional_float\<close> and \<open>_optional_decimal\<close> take \<open>mapping.get(key)\<close>, where an absent key and a
  null value are the same.\<close>

definition get_or_null :: "yaml_map \<Rightarrow> string \<Rightarrow> yaml" where
  "get_or_null m key = (case ymap_get m key of None \<Rightarrow> YNull | Some v \<Rightarrow> v)"

definition optional_float :: "yaml \<Rightarrow> string \<Rightarrow> config_exn + py_float option" where
  "optional_float node key_path =
     (if node = YNull then Inr None
      else and_then (require_positive_float node key_path) (\<lambda>f. Inr (Some f)))"

definition optional_decimal :: "config_host \<Rightarrow> yaml \<Rightarrow> string \<Rightarrow> config_exn + py_float option" where
  "optional_decimal H node key_path =
     (let parse = (\<lambda>s. case ch_decimal H s of
                      None \<Rightarrow> format_error key_path ''Value is not a valid decimal'' ''decimal number or null''
                    | Some d \<Rightarrow> Inr (Some d))
      in case node of
           YNull \<Rightarrow> Inr None
         | YDecimal d \<Rightarrow> Inr (Some d)
         | YInt i \<Rightarrow> Inr (Some (Finite (of_int i)))
         | YFloat f \<Rightarrow> (case ch_decimal H (ch_float_str H f) of
                        None \<Rightarrow> Inl (ForeignError ''InvalidOperation'') | Some d \<Rightarrow> Inr (Some d))
         | YStr s \<Rightarrow> parse s
         | _ \<Rightarrow> format_error key_path (wrong_type node) ''decimal number or null'')"

definition parse_provider_id :: "yaml \<Rightarrow> string \<Rightarrow> config_exn + provider_id" where
  "parse_provider_id v key_path =
     and_then (require_str v key_path) (\<lambda>provider_str.
     case member_of provider_value provider_members provider_str of
       None \<Rightarrow> format_error key_path (''Invalid provider id '' @ quoted provider_str)
                (''one of '' @ names_text (map provider_value provider_members))
     | Some p \<Rightarrow> Inr p)"

definition reject_unknown_keys :: "config_host \<Rightarrow> yaml_map \<Rightarrow> string \<Rightarrow> string list \<Rightarrow> config_exn + unit" where
  "reject_unknown_keys H node prefix allowed =
     (case find (\<lambda>key. key \<notin> YStr ` set allowed) (dict_keys node) of
        None \<Rightarrow> Inr ()
      | Some key \<Rightarrow> format_error (prefix @ ''.'' @ key_text H key) (''Unknown key '' @ quoted (key_text H key))
                     (''whitelist keys: '' @ names_text (sort allowed)))"

text \<open>The value under a required key of the given kind.\<close>

definition str_at :: "yaml_map \<Rightarrow> string \<Rightarrow> string \<Rightarrow> config_exn + string" where
  "str_at m pre key = and_then (require_key m key (pre @ ''.'' @ key)) (\<lambda>v. require_str v (pre @ ''.'' @ key))"

definition int_at :: "yaml_map \<Rightarrow> string \<Rightarrow> string \<Rightarrow> config_exn + int" where
  "int_at m pre key = and_then (require_key m key (pre @ ''.'' @ key)) (\<lambda>v. require_int v (pre @ ''.'' @ key))"

definition float_at :: "yaml_map \<Rightarrow> string \<Rightarrow> string \<Rightarrow> config_exn + py_float" where
  "float_at m pre key =
     and_then (require_key m key (pre @ ''.'' @ key)) (\<lambda>v. require_positive_float v (pre @ ''.'' @ key))"

definition mapping_at :: "yaml_map \<Rightarrow> string \<Rightarrow> string \<Rightarrow> config_exn + yaml_map" where
  "mapping_at m pre key =
     and_then (require_key m key (pre @ ''.'' @ key)) (\<lambda>v. require_mapping v (pre @ ''.'' @ key))"

section \<open>The schema mapper\<close>

definition SUPPORTED_CONFIG_VERSIONS :: "string list" where "SUPPORTED_CONFIG_VERSIONS = [''1'']"

definition map_config_version :: "yaml_map \<Rightarrow> config_exn + string option" where
  "map_config_version tree =
     (case ymap_get tree ''config_version'' of
        None \<Rightarrow> Inr None
      | Some node \<Rightarrow>
          and_then (require_str node ''config_version'') (\<lambda>version.
          if version \<notin> set SUPPORTED_CONFIG_VERSIONS
          then format_error ''config_version'' (''Unsupported config version '' @ quoted version)
                 (''one of '' @ names_text (sort SUPPORTED_CONFIG_VERSIONS))
          else Inr (Some version)))"

definition map_infrastructure :: "yaml_map \<Rightarrow> config_exn + infrastructure_draft" where
  "map_infrastructure node =
     (let pg = ''infrastructure.postgres''; rd = ''infrastructure.redis'' in
      and_then (mapping_at node ''infrastructure'' ''postgres'') (\<lambda>postgres_node.
      and_then (mapping_at node ''infrastructure'' ''redis'') (\<lambda>redis_node.
      and_then (str_at postgres_node pg ''host'') (\<lambda>host.
      and_then (int_at postgres_node pg ''port'') (\<lambda>port.
      and_then (str_at postgres_node pg ''database'') (\<lambda>database.
      and_then (str_at postgres_node pg ''user_env'') (\<lambda>user_env.
      and_then (str_at postgres_node pg ''password_env'') (\<lambda>password_env.
      and_then (case ymap_get redis_node ''password_env'' of
                  None \<Rightarrow> Inr None
                | Some v \<Rightarrow> and_then (require_str v ''infrastructure.redis.password_env'') (\<lambda>s. Inr (Some s)))
        (\<lambda>redis_password_env.
      and_then (str_at redis_node rd ''host'') (\<lambda>rhost.
      and_then (int_at redis_node rd ''port'') (\<lambda>rport.
      and_then (int_at redis_node rd ''db'') (\<lambda>db.
      Inr \<lparr>ifd_postgres = \<lparr>pgd_host = host, pgd_port = port, pgd_database = database,
                            pgd_user_env = user_env, pgd_password_env = password_env\<rparr>,
           ifd_redis = \<lparr>rdd_host = rhost, rdd_port = rport, rdd_db = db,
                         rdd_password_env = redis_password_env\<rparr>\<rparr>))))))))))))"

definition map_agent :: "yaml_map \<Rightarrow> agent_id \<Rightarrow> config_exn + agent_id \<times> agent_draft" where
  "map_agent node agent_id =
     (let key_path = ''agents.'' @ agent_name agent_id in
      case ymap_get node (agent_name agent_id) of
        None \<Rightarrow> missing_error key_path ''Required agent configuration is missing'' ''present agent mapping''
      | Some v \<Rightarrow>
          and_then (require_mapping v key_path) (\<lambda>agent_node.
          and_then (and_then (require_key agent_node ''provider'' (key_path @ ''.provider''))
                      (\<lambda>p. parse_provider_id p (key_path @ ''.provider''))) (\<lambda>provider.
          and_then (str_at agent_node key_path ''model'') (\<lambda>model.
          and_then (str_at agent_node key_path ''prompt_file'') (\<lambda>prompt_file.
          Inr (agent_id, \<lparr>agd_provider = provider, agd_model = model, agd_prompt_file = prompt_file\<rparr>))))))"

definition map_agents :: "config_host \<Rightarrow> yaml_map \<Rightarrow> config_exn + (agent_id, agent_draft) dict" where
  "map_agents H node =
     and_then (reject_unknown_keys H node ''agents'' (map agent_name agent_members)) (\<lambda>_.
     traverse (map_agent node) agent_members)"

text \<open>The loops over the entries of a mapping whose keys have passed \<open>_reject_unknown_keys\<close>:
  \<open>ProviderId(provider_key)\<close> raises \<open>ValueError\<close> on any other key.\<close>

definition provider_of_key :: "config_host \<Rightarrow> yaml \<Rightarrow> config_exn + provider_id" where
  "provider_of_key H k =
     (case k of
        YStr s \<Rightarrow> (case member_of provider_value provider_members s of
                    None \<Rightarrow> Inl (ForeignError ''ValueError'') | Some p \<Rightarrow> Inr p)
      | _ \<Rightarrow> Inl (ForeignError ''ValueError''))"

definition map_pricing :: "config_host \<Rightarrow> string \<Rightarrow> yaml_map \<Rightarrow> config_exn + provider_pricing_draft option" where
  "map_pricing H key_path m =
     (case ymap_get m ''pricing'' of
        None \<Rightarrow> Inr None
      | Some v \<Rightarrow>
          and_then (require_mapping v (key_path @ ''.pricing'')) (\<lambda>pricing_node.
          and_then (optional_decimal H (get_or_null pricing_node ''input_per_1k_tokens'')
                      (key_path @ ''.pricing.input_per_1k_tokens'')) (\<lambda>i.
          and_then (optional_decimal H (get_or_null pricing_node ''output_per_1k_tokens'')
                      (key_path @ ''.pricing.output_per_1k_tokens'')) (\<lambda>out.
          Inr (Some \<lparr>ppd_input_per_1k_tokens = i, ppd_output_per_1k_tokens = out\<rparr>)))))"

definition map_provider :: "config_host \<Rightarrow> yaml \<times> yaml \<Rightarrow> config_exn + provider_id \<times> provider_draft" where
  "map_provider H entry =
     and_then (provider_of_key H (fst entry)) (\<lambda>provider_id.
     (let key_path = ''providers.'' @ key_text H (fst entry) in
      and_then (require_mapping (snd entry) key_path) (\<lambda>m.
      and_then (map_pricing H key_path m) (\<lambda>pricing.
      and_then (case ymap_get m ''rate_limit_per_minute'' of
                  None \<Rightarrow> Inr None
                | Some v \<Rightarrow> and_then (require_int v (key_path @ ''.rate_limit_per_minute'')) (\<lambda>i. Inr (Some i)))
        (\<lambda>rate_limit.
      and_then (str_at m key_path ''api_key_env'') (\<lambda>api_key_env.
      Inr (provider_id, \<lparr>pvd_api_key_env = api_key_env, pvd_rate_limit_per_minute = rate_limit,
                          pvd_pricing = pricing\<rparr>)))))))"

definition dict_of_entries :: "('k \<times> 'v) list \<Rightarrow> ('k, 'v) dict" where
  "dict_of_entries es = foldl (\<lambda>d e. dict_set (fst e) (snd e) d) [] es"

definition map_providers :: "config_host \<Rightarrow> yaml_map \<Rightarrow> config_exn + (provider_id, provider_draft) dict" where
  "map_providers H node =
     and_then (reject_unknown_keys H node ''providers'' (map provider_value provider_members)) (\<lambda>_.
     and_then (traverse (map_provider H) node) (\<lambda>es. Inr (dict_of_entries es)))"

definition scoring_weight :: "yaml_map \<Rightarrow> string \<Rightarrow> config_exn + py_float option" where
  "scoring_weight node weight =
     (let key_path = ''collection.scoring.'' @ weight in
      case ymap_get node weight of
        None \<Rightarrow> missing_error key_path ''Required scoring weight is missing''
                 ''present weight key when scoring block is present''
      | Some v \<Rightarrow> optional_float v key_path)"

definition map_collection_scoring :: "yaml_map \<Rightarrow> config_exn + collection_scoring_draft" where
  "map_collection_scoring node =
     and_then (scoring_weight node ''weight_score'') (\<lambda>s.
     and_then (scoring_weight node ''weight_comments'') (\<lambda>c.
     and_then (scoring_weight node ''weight_recency'') (\<lambda>r.
     Inr \<lparr>csd_weight_score = s, csd_weight_comments = c, csd_weight_recency = r\<rparr>)))"

definition map_collection :: "yaml_map \<Rightarrow> config_exn + collection_draft" where
  "map_collection node =
     and_then (case ymap_get node ''scoring'' of
                 None \<Rightarrow> Inr None
               | Some v \<Rightarrow> and_then (require_mapping v ''collection.scoring'') (\<lambda>m.
                            and_then (map_collection_scoring m) (\<lambda>s. Inr (Some s)))) (\<lambda>scoring.
     and_then (int_at node ''collection'' ''candidate_count'') (\<lambda>n.
     Inr \<lparr>cld_candidate_count = n, cld_scoring = scoring\<rparr>))"

definition map_workflow :: "yaml_map \<Rightarrow> config_exn + workflow_draft" where
  "map_workflow node =
     and_then (int_at node ''workflow'' ''max_scenario_revisions'') (\<lambda>n. Inr \<lparr>wfd_max_scenario_revisions = n\<rparr>)"

definition map_workers :: "yaml_map \<Rightarrow> config_exn + worker_draft" where
  "map_workers node =
     and_then (int_at node ''workers'' ''topic_selector_concurrency'') (\<lambda>t.
     and_then (int_at node ''workers'' ''scenario_generator_concurrency'') (\<lambda>s.
     and_then (int_at node ''workers'' ''critic_concurrency'') (\<lambda>c.
     Inr \<lparr>wkd_topic_selector_concurrency = t, wkd_scenario_generator_concurrency = s, wkd_critic_concurrency = c\<rparr>)))"

definition map_retry_policy :: "yaml_map \<Rightarrow> string \<Rightarrow> config_exn + retry_policy_draft" where
  "map_retry_policy node key_path =
     and_then (mapping_at node key_path ''backoff'') (\<lambda>backoff_node.
     and_then (int_at node key_path ''max_attempts'') (\<lambda>n.
     and_then (float_at backoff_node (key_path @ ''.backoff'') ''initial_seconds'') (\<lambda>i.
     and_then (float_at backoff_node (key_path @ ''.backoff'') ''multiplier'') (\<lambda>f.
     and_then (float_at backoff_node (key_path @ ''.backoff'') ''max_seconds'') (\<lambda>m.
     Inr \<lparr>rpd_max_attempts = n,
          rpd_backoff = \<lparr>bfd_initial_seconds = i, bfd_multiplier = f, bfd_max_seconds = m\<rparr>\<rparr>)))))"

definition map_retry_entry :: "yaml_map \<Rightarrow> task_type \<Rightarrow> config_exn + task_type \<times> retry_policy_draft" where
  "map_retry_entry node task_type =
     (let key_path = ''retry.'' @ task_type_value task_type in
      case ymap_get node (task_type_value task_type) of
        None \<Rightarrow> missing_error key_path ''Required retry policy is missing'' ''present retry mapping''
      | Some v \<Rightarrow> and_then (require_mapping v key_path) (\<lambda>m.
                   and_then (map_retry_policy m key_path) (\<lambda>p. Inr (task_type, p))))"

definition map_retry :: "config_host \<Rightarrow> yaml_map \<Rightarrow> config_exn + (task_type, retry_policy_draft) dict" where
  "map_retry H node =
     and_then (reject_unknown_keys H node ''retry'' (map task_type_value task_members)) (\<lambda>_.
     traverse (map_retry_entry node) task_members)"

text \<open>The providers the agents name: a set, iterated in an order Python does not fix.\<close>

definition referenced :: "config_host \<Rightarrow> (agent_id, agent_draft) dict \<Rightarrow> provider_id list" where
  "referenced H agents = ch_set_order H (remdups (map agd_provider (dict_values agents)))"

definition map_timeout :: "config_host \<Rightarrow> yaml \<times> yaml \<Rightarrow> config_exn + provider_id \<times> timeout_draft" where
  "map_timeout H entry =
     and_then (provider_of_key H (fst entry)) (\<lambda>provider_id.
     (let key_path = ''timeouts.'' @ key_text H (fst entry) in
      and_then (require_mapping (snd entry) key_path) (\<lambda>m.
      and_then (optional_float (get_or_null m ''connect_seconds'') (key_path @ ''.connect_seconds'')) (\<lambda>c.
      and_then (float_at m key_path ''read_seconds'') (\<lambda>r.
      and_then (optional_float (get_or_null m ''total_seconds'') (key_path @ ''.total_seconds'')) (\<lambda>t.
      Inr (provider_id, \<lparr>tmd_connect_seconds = c, tmd_read_seconds = r, tmd_total_seconds = t\<rparr>)))))))"

definition map_timeouts ::
  "config_host \<Rightarrow> yaml_map \<Rightarrow> (agent_id, agent_draft) dict \<Rightarrow> config_exn + (provider_id, timeout_draft) dict"
where
  "map_timeouts H node agents =
     and_then (reject_unknown_keys H node ''timeouts'' (map provider_value provider_members)) (\<lambda>_.
     and_then (case find (\<lambda>p. ymap_get node (provider_value p) = None) (referenced H agents) of
                 None \<Rightarrow> Inr ()
               | Some p \<Rightarrow> missing_error (''timeouts.'' @ provider_value p)
                    ''Required timeout configuration is missing for referenced provider'' ''present timeout mapping'')
       (\<lambda>_.
     and_then (traverse (map_timeout H) node) (\<lambda>es. Inr (dict_of_entries es))))"

definition injection_entry :: "nat \<times> yaml \<Rightarrow> config_exn + (injection_id + string)" where
  "injection_entry item =
     and_then (require_str (snd item) (''failure_injection.active_injections['' @ show_nat (fst item) @ '']''))
       (\<lambda>injection_str.
     case member_of injection_value injection_members injection_str of
       Some i \<Rightarrow> Inr (Inl i) | None \<Rightarrow> Inr (Inr injection_str))"

definition map_active_injections :: "yaml_map \<Rightarrow> config_exn + (injection_id + string) list" where
  "map_active_injections m =
     (case ymap_get m ''active_injections'' of
        None \<Rightarrow> Inr []
      | Some v \<Rightarrow>
          (case v of
             YList xs \<Rightarrow> traverse injection_entry (enumerate 0 xs)
           | _ \<Rightarrow> format_error ''failure_injection.active_injections'' (wrong_type v) ''list of injection ids''))"

definition map_failure_injection :: "yaml option \<Rightarrow> config_exn + failure_injection_draft" where
  "map_failure_injection node =
     (if node \<in> {None, Some YNull} then Inr \<lparr>fid_enabled = False, fid_active_injections = []\<rparr>
      else
        and_then (require_mapping (the node) ''failure_injection'') (\<lambda>m.
        (let enabled = (case ymap_get m ''enabled'' of None \<Rightarrow> False | Some v \<Rightarrow> yaml_truthy v) in
         and_then (map_active_injections m) (\<lambda>active.
         Inr \<lparr>fid_enabled = enabled, fid_active_injections = active\<rparr>))))"

definition map_tree :: "config_host \<Rightarrow> yaml_map \<Rightarrow> config_exn + config_draft" where
  "map_tree H tree =
     and_then (map_config_version tree) (\<lambda>version.
     and_then (and_then (require_domain tree ''infrastructure'') map_infrastructure) (\<lambda>infrastructure.
     and_then (and_then (require_domain tree ''agents'') (map_agents H)) (\<lambda>agents.
     and_then (and_then (require_domain tree ''providers'') (map_providers H)) (\<lambda>providers.
     and_then (and_then (require_domain tree ''collection'') map_collection) (\<lambda>collection.
     and_then (and_then (require_domain tree ''workflow'') map_workflow) (\<lambda>workflow.
     and_then (and_then (require_domain tree ''workers'') map_workers) (\<lambda>workers.
     and_then (and_then (require_domain tree ''retry'') (map_retry H)) (\<lambda>retry.
     and_then (and_then (require_domain tree ''timeouts'') (\<lambda>node. map_timeouts H node agents)) (\<lambda>timeouts.
     and_then (map_failure_injection (ymap_get tree ''failure_injection'')) (\<lambda>failure_injection.
     Inr \<lparr>cd_config_version = version, cd_infrastructure = infrastructure, cd_agents = agents,
          cd_providers = providers, cd_collection = collection, cd_workflow = workflow,
          cd_workers = workers, cd_retry = retry, cd_timeouts = timeouts,
          cd_failure_injection = failure_injection\<rparr>))))))))))"

end
