(* ===== verification/Config_Loading.thy ===== *)
theory Config_Loading
  imports Config_Schema "HOL-Library.Sublist"
begin

text \<open>
  Loading a configuration: the secret scanner of \<open>config/secrets.py\<close>, the validation stages of
  \<open>validator.py\<close> and \<open>credentials.py\<close>, the factory and accessors of \<open>app_config.py\<close>, the parser and
  the loader with its events (\<open>parser.py\<close>, \<open>loader.py\<close>, \<open>events.py\<close>).

  The patterns of the scanner are regular expressions in which only classes of characters are
  repeated; a match is computed as the list of the texts that can remain after it.
\<close>

section \<open>Patterns\<close>

datatype pattern = Class "char \<Rightarrow> bool" | Word string | Many nat "char \<Rightarrow> bool"
  | Maybe pattern | Either pattern pattern | Then pattern pattern

text \<open>What remains after \<open>n\<close> or more characters of the class.\<close>

fun after_many :: "nat \<Rightarrow> (char \<Rightarrow> bool) \<Rightarrow> string \<Rightarrow> string list" where
  "after_many n p [] = (if n = 0 then [[]] else [])"
| "after_many n p (c # s) =
     (if n = 0 then [c # s] else []) @ (if p c then after_many (n - 1) p s else [])"

fun remaining :: "pattern \<Rightarrow> string \<Rightarrow> string list" where
  "remaining (Class p) s = (case s of [] \<Rightarrow> [] | c # t \<Rightarrow> if p c then [t] else [])"
| "remaining (Word w) s = (if take (length w) s = w then [drop (length w) s] else [])"
| "remaining (Many n p) s = after_many n p s"
| "remaining (Maybe r) s = remaining r s @ [s]"
| "remaining (Either q r) s = remaining q s @ remaining r s"
| "remaining (Then q r) s = concat (map (remaining r) (remaining q s))"

definition fullmatch :: "pattern \<Rightarrow> string \<Rightarrow> bool" where
  "fullmatch r s \<longleftrightarrow> [] \<in> set (remaining r s)"

definition search :: "pattern \<Rightarrow> string \<Rightarrow> bool" where
  "search r s \<longleftrightarrow> list_ex (\<lambda>t. remaining r t \<noteq> []) (suffixes s)"

definition in_range :: "char \<Rightarrow> char \<Rightarrow> char \<Rightarrow> bool" where
  "in_range a b c \<longleftrightarrow> a \<le> c \<and> c \<le> b"

definition upper_char :: "char \<Rightarrow> bool" where "upper_char = in_range CHR ''A'' CHR ''Z''"

definition alnum_char :: "char \<Rightarrow> bool" where
  "alnum_char c \<longleftrightarrow> upper_char c \<or> in_range CHR ''a'' CHR ''z'' c \<or> in_range CHR ''0'' CHR ''9'' c"

definition key_char :: "char \<Rightarrow> bool" where
  "key_char c \<longleftrightarrow> alnum_char c \<or> c = CHR ''_'' \<or> c = CHR ''-''"

definition secret_char :: "char \<Rightarrow> bool" where
  "secret_char c \<longleftrightarrow> alnum_char c \<or> c \<in> {CHR ''/'', CHR ''+'', CHR ''='', CHR ''_'', CHR ''-''}"

text \<open>A word matched without regard to case.\<close>

fun word_nocase :: "string \<Rightarrow> pattern" where
  "word_nocase [] = Word ''''"
| "word_nocase (c # w) = Then (Class (\<lambda>d. lower [d] = [c])) (word_nocase w)"

definition ENV_VAR_NAME_PATTERN :: pattern where
  "ENV_VAR_NAME_PATTERN =
     Then (Class upper_char) (Many 2 (\<lambda>c. upper_char c \<or> in_range CHR ''0'' CHR ''9'' c \<or> c = CHR ''_''))"

definition suspicious_key :: "string \<Rightarrow> bool" where
  "suspicious_key key \<longleftrightarrow>
     list_ex (\<lambda>w. search (word_nocase w) (takeWhile (\<lambda>c. c \<noteq> CHR 0x0A) key))
       [''password'', ''secret'', ''token'', ''api_key'']"

text \<open>A pattern with its name; an anchored one matches the whole text, another is searched in it.\<close>

record secret_pattern =
  spt_name :: string
  spt_pattern :: pattern
  spt_anchored :: bool
  spt_applies_to_key :: "(string \<Rightarrow> bool) option"

definition default_patterns :: "secret_pattern list" where
  "default_patterns =
     [\<lparr>spt_name = ''openai_api_key'', spt_pattern = Then (Word ''sk-'') (Many 17 key_char),
       spt_anchored = True, spt_applies_to_key = None\<rparr>,
      \<lparr>spt_name = ''anthropic_api_key'', spt_pattern = Then (Word ''sk-ant-'') (Many 8 key_char),
       spt_anchored = True, spt_applies_to_key = None\<rparr>,
      \<lparr>spt_name = ''pem_private_key'',
       spt_pattern = Then (Word ''-----BEGIN'') (Then (Many 0 (\<lambda>c. upper_char c \<or> c = CHR '' ''))
                       (Word ''PRIVATE KEY-----'')),
       spt_anchored = False, spt_applies_to_key = None\<rparr>,
      \<lparr>spt_name = ''inline_credential_assignment'',
       spt_pattern =
         Then (Either (Then (word_nocase ''api'') (Then (Maybe (Class (\<lambda>c. c \<in> {CHR ''_'', CHR ''-''}))) (word_nocase ''key'')))
               (Either (word_nocase ''secret'') (Either (word_nocase ''token'') (word_nocase ''password''))))
         (Then (Many 0 is_space) (Then (Class (\<lambda>c. c \<in> {CHR '':'', CHR ''=''})) (Then (Many 0 is_space)
         (Then (Maybe (Class (\<lambda>c. c \<in> {CHR 0x27, CHR 0x22}))) (Many 8 secret_char))))),
       spt_anchored = False, spt_applies_to_key = None\<rparr>,
      \<lparr>spt_name = ''high_entropy_secret_field'', spt_pattern = Many 40 secret_char,
       spt_anchored = True, spt_applies_to_key = Some suspicious_key\<rparr>]"

definition matches_pattern :: "string \<Rightarrow> secret_pattern \<Rightarrow> bool" where
  "matches_pattern v sp \<longleftrightarrow> (if spt_anchored sp then fullmatch (spt_pattern sp) v else search (spt_pattern sp) v)"

section \<open>The secret scanner\<close>

text \<open>\<open>key_path.rsplit(".", 1)[-1]\<close>.\<close>

definition last_segment :: "string \<Rightarrow> string" where
  "last_segment key_path = rev (takeWhile (\<lambda>c. c \<noteq> CHR ''.'') (rev key_path))"

definition applies_to :: "secret_pattern \<Rightarrow> string \<Rightarrow> bool" where
  "applies_to sp key_name = (case spt_applies_to_key sp of None \<Rightarrow> True | Some f \<Rightarrow> f key_name)"

definition scan_string :: "secret_pattern list \<Rightarrow> string \<Rightarrow> string \<Rightarrow> config_exn + unit" where
  "scan_string patterns v key_path =
     (if fullmatch ENV_VAR_NAME_PATTERN v then Inr ()
      else (case find (\<lambda>sp. applies_to sp (last_segment key_path) \<and> matches_pattern v sp) patterns of
              None \<Rightarrow> Inr ()
            | Some sp \<Rightarrow>
                Inl (ConfigSecretDetectedError (secret_detected_message key_path (spt_name sp)) key_path)))"

definition child_path :: "string \<Rightarrow> string \<Rightarrow> string" where
  "child_path key_path segment = (if key_path \<noteq> '''' then key_path @ ''.'' @ segment else segment)"

fun scan_node :: "config_host \<Rightarrow> secret_pattern list \<Rightarrow> yaml \<Rightarrow> string \<Rightarrow> config_exn + unit"
and scan_entries :: "config_host \<Rightarrow> secret_pattern list \<Rightarrow> yaml_map \<Rightarrow> string \<Rightarrow> config_exn + unit"
and scan_items :: "config_host \<Rightarrow> secret_pattern list \<Rightarrow> nat \<Rightarrow> yaml list \<Rightarrow> string \<Rightarrow> config_exn + unit"
where
  "scan_node H ps (YStr v) key_path = scan_string ps v key_path"
| "scan_node H ps (YMap es) key_path = scan_entries H ps es key_path"
| "scan_node H ps (YList xs) key_path = scan_items H ps 0 xs key_path"
| "scan_node H ps _ key_path = Inr ()"
| "scan_entries H ps [] key_path = Inr ()"
| "scan_entries H ps ((k, v) # es) key_path =
     and_then (scan_node H ps v (child_path key_path (key_text H k))) (\<lambda>_. scan_entries H ps es key_path)"
| "scan_items H ps n [] key_path = Inr ()"
| "scan_items H ps n (x # xs) key_path =
     and_then (scan_node H ps x (child_path key_path (show_nat n))) (\<lambda>_. scan_items H ps (Suc n) xs key_path)"

definition scan :: "config_host \<Rightarrow> yaml_map \<Rightarrow> config_exn + unit" where
  "scan H tree = scan_node H default_patterns (YMap tree) ''''"

section \<open>Validation\<close>

definition raise_value_error :: "string \<Rightarrow> string \<Rightarrow> string \<Rightarrow> config_exn + 'a" where
  "raise_value_error key_path reason constraint =
     Inl (ConfigValueError (validation_message key_path reason constraint) key_path)"

fun injection_text :: "injection_id + string \<Rightarrow> string" where
  "injection_text (Inl i) = injection_value i"
| "injection_text (Inr s) = s"

text \<open>A loop of checks: the first that raises ends it.\<close>

fun check_each :: "('a \<Rightarrow> 'e + unit) \<Rightarrow> 'a list \<Rightarrow> 'e + unit" where
  "check_each f [] = Inr ()"
| "check_each f (x # xs) = and_then (f x) (\<lambda>_. check_each f xs)"

definition validate_referential_integrity :: "config_draft \<Rightarrow> config_exn + unit" where
  "validate_referential_integrity draft =
     and_then (check_each (\<lambda>(agent_id, agent).
       if agd_provider agent \<notin> set (dict_keys (cd_providers draft))
       then raise_value_error (''agents.'' @ agent_name agent_id @ ''.provider'')
              (''Provider '' @ quoted (provider_value (agd_provider agent)) @ '' is not defined in providers'')
              ''reference to a defined provider''
       else Inr ()) (cd_agents draft)) (\<lambda>_.
     check_each (\<lambda>(index, injection).
       if injection_text injection \<notin> injection_value ` set injection_members
       then raise_value_error (''failure_injection.active_injections['' @ show_nat index @ '']'')
              (''Unknown injection ID '' @ quoted (injection_text injection))
              ''one of the defined InjectionId values''
       else Inr ()) (enumerate 0 (fid_active_injections (cd_failure_injection draft))))"

definition check_positive_int :: "string \<Rightarrow> int \<Rightarrow> config_exn + unit" where
  "check_positive_int key_path v =
     (if v \<le> 0 then raise_value_error key_path (''Value must be positive (got '' @ show_int v @ '')'') ''integer > 0''
      else Inr ())"

definition check_positive_float :: "config_host \<Rightarrow> string \<Rightarrow> py_float \<Rightarrow> config_exn + unit" where
  "check_positive_float H key_path v =
     (if not_positive v
      then raise_value_error key_path (''Value must be positive (got '' @ ch_float_str H v @ '')'') ''number > 0''
      else Inr ())"

definition check_retry :: "config_host \<Rightarrow> task_type \<times> retry_policy_draft \<Rightarrow> config_exn + unit" where
  "check_retry H entry =
     (let base = ''retry.'' @ task_type_value (fst entry); policy = snd entry; b = rpd_backoff policy in
      if rpd_max_attempts policy < 1
      then raise_value_error (base @ ''.max_attempts'')
             (''Value must be at least 1 (got '' @ show_int (rpd_max_attempts policy) @ '')'') ''integer >= 1''
      else check_each (\<lambda>(field_name, v). check_positive_float H (base @ ''.backoff.'' @ field_name) v)
             [(''initial_seconds'', bfd_initial_seconds b), (''multiplier'', bfd_multiplier b),
              (''max_seconds'', bfd_max_seconds b)])"

fun check_optional :: "('a \<Rightarrow> 'e + unit) \<Rightarrow> 'a option \<Rightarrow> 'e + unit" where
  "check_optional f None = Inr ()"
| "check_optional f (Some v) = f v"

definition check_timeout :: "config_host \<Rightarrow> provider_id \<times> timeout_draft \<Rightarrow> config_exn + unit" where
  "check_timeout H entry =
     (let base = ''timeouts.'' @ provider_value (fst entry); timeout = snd entry in
      and_then (check_positive_float H (base @ ''.read_seconds'') (tmd_read_seconds timeout)) (\<lambda>_.
      and_then (check_optional (check_positive_float H (base @ ''.connect_seconds'')) (tmd_connect_seconds timeout)) (\<lambda>_.
      check_optional (check_positive_float H (base @ ''.total_seconds'')) (tmd_total_seconds timeout))))"

definition validate_numeric_constraints :: "config_host \<Rightarrow> config_draft \<Rightarrow> config_exn + unit" where
  "validate_numeric_constraints H draft =
     (let w = cd_workers draft in
      and_then (check_positive_int ''collection.candidate_count'' (cld_candidate_count (cd_collection draft))) (\<lambda>_.
      and_then (check_positive_int ''workflow.max_scenario_revisions'' (wfd_max_scenario_revisions (cd_workflow draft))) (\<lambda>_.
      and_then (check_each (\<lambda>(field_name, v). check_positive_int (''workers.'' @ field_name) v)
                  [(''topic_selector_concurrency'', wkd_topic_selector_concurrency w),
                   (''scenario_generator_concurrency'', wkd_scenario_generator_concurrency w),
                   (''critic_concurrency'', wkd_critic_concurrency w)]) (\<lambda>_.
      and_then (check_each (check_retry H) (cd_retry draft)) (\<lambda>_.
      and_then (check_each (check_timeout H) (cd_timeouts draft)) (\<lambda>_.
      check_each (\<lambda>(provider_id, provider).
        check_optional (check_positive_int (''providers.'' @ provider_value provider_id @ ''.rate_limit_per_minute''))
          (pvd_rate_limit_per_minute provider)) (cd_providers draft)))))))"

definition check_prompt :: "config_host \<Rightarrow> agent_id \<times> agent_draft \<Rightarrow> config_exn + unit" where
  "check_prompt H entry =
     (let key_path = ''agents.'' @ agent_name (fst entry) @ ''.prompt_file''; f = agd_prompt_file (snd entry);
          refuse = Inl (ConfigPromptNotFoundError (prompt_message key_path f) f)
      in if take 1 f = ''/'' then refuse
         else and_then (ch_is_file H (ch_path H f)) (\<lambda>found. if found then Inr () else refuse))"

definition check_all_prompts :: "config_host \<Rightarrow> (agent_id, agent_draft) dict \<Rightarrow> config_exn + unit" where
  "check_all_prompts H agents = check_each (check_prompt H) agents"

definition require_env :: "config_host \<Rightarrow> string \<Rightarrow> config_exn + string" where
  "require_env H env_var_name =
     (case ch_environ H env_var_name of
        None \<Rightarrow> Inl (ConfigCredentialMissingError (credential_message env_var_name) env_var_name)
      | Some v \<Rightarrow>
          if v = '''' then Inl (ConfigCredentialMissingError (credential_message env_var_name) env_var_name)
          else Inr v)"

definition check_referenced_providers ::
  "config_host \<Rightarrow> (agent_id, agent_draft) dict \<Rightarrow> (provider_id, provider_draft) dict \<Rightarrow> config_exn + unit"
where
  "check_referenced_providers H agents providers =
     check_each (\<lambda>p. case dict_get providers p of
         None \<Rightarrow> Inl (ForeignError ''KeyError'')
       | Some d \<Rightarrow> and_then (require_env H (pvd_api_key_env d)) (\<lambda>_. Inr ())) (referenced H agents)"

definition check_infra_creds :: "config_host \<Rightarrow> infrastructure_draft \<Rightarrow> config_exn + unit" where
  "check_infra_creds H infrastructure =
     and_then (require_env H (pgd_user_env (ifd_postgres infrastructure))) (\<lambda>_.
     and_then (require_env H (pgd_password_env (ifd_postgres infrastructure))) (\<lambda>_.
     check_optional (\<lambda>v. and_then (require_env H v) (\<lambda>_. Inr ())) (rdd_password_env (ifd_redis infrastructure))))"

definition validate_draft :: "config_host \<Rightarrow> config_draft \<Rightarrow> config_exn + config_draft" where
  "validate_draft H draft =
     and_then (validate_referential_integrity draft) (\<lambda>_.
     and_then (validate_numeric_constraints H draft) (\<lambda>_.
     and_then (check_all_prompts H (cd_agents draft)) (\<lambda>_.
     and_then (check_referenced_providers H (cd_agents draft) (cd_providers draft)) (\<lambda>_.
     and_then (check_infra_creds H (cd_infrastructure draft)) (\<lambda>_.
     Inr draft)))))"

section \<open>The configuration object\<close>

record postgres_config =
  pgc_host :: string
  pgc_port :: int
  pgc_database :: string
  pgc_user_env :: string
  pgc_password_env :: string

record redis_config =
  rdc_host :: string
  rdc_port :: int
  rdc_db :: int
  rdc_password_env :: "string option"

record infrastructure_config =
  ifc_postgres :: postgres_config
  ifc_redis :: redis_config

record provider_pricing =
  ppc_input_per_1k_tokens :: "py_float option"
  ppc_output_per_1k_tokens :: "py_float option"

record provider_config =
  pvc_api_key_env :: string
  pvc_rate_limit_per_minute :: "int option"
  pvc_pricing :: "provider_pricing option"

text \<open>The classes that hold floats, as the loader builds them; the records of the other theories
  are their images when every float is finite.\<close>

record loaded_scoring =
  lds_weight_score :: "py_float option"
  lds_weight_comments :: "py_float option"
  lds_weight_recency :: "py_float option"

record loaded_collection =
  ldc_candidate_count :: int
  ldc_scoring :: "loaded_scoring option"

record loaded_backoff =
  ldb_initial_seconds :: py_float
  ldb_multiplier :: py_float
  ldb_max_seconds :: py_float

record loaded_retry_policy =
  ldr_max_attempts :: int
  ldr_backoff :: loaded_backoff

record loaded_timeout =
  ldt_connect_seconds :: "py_float option"
  ldt_read_seconds :: py_float
  ldt_total_seconds :: "py_float option"

record loaded_injection =
  ldi_enabled :: bool
  ldi_active_injections :: "(injection_id + string) list"

record concrete_app_config =
  cac_infrastructure :: infrastructure_config
  cac_agents :: "(agent_id, agent_config) dict"
  cac_providers :: "(provider_id, provider_config) dict"
  cac_collection :: loaded_collection
  cac_max_scenario_revisions :: int
  cac_workers :: worker_config
  cac_retry :: "(task_type, loaded_retry_policy) dict"
  cac_timeouts :: "(provider_id, loaded_timeout) dict"
  cac_failure_injection :: loaded_injection

definition build_infrastructure :: "infrastructure_draft \<Rightarrow> infrastructure_config" where
  "build_infrastructure d =
     (let p = ifd_postgres d; r = ifd_redis d in
      \<lparr>ifc_postgres = \<lparr>pgc_host = pgd_host p, pgc_port = pgd_port p, pgc_database = pgd_database p,
                        pgc_user_env = pgd_user_env p, pgc_password_env = pgd_password_env p\<rparr>,
       ifc_redis = \<lparr>rdc_host = rdd_host r, rdc_port = rdd_port r, rdc_db = rdd_db r,
                     rdc_password_env = rdd_password_env r\<rparr>\<rparr>)"

definition build_agent :: "agent_draft \<Rightarrow> agent_config" where
  "build_agent d = \<lparr>ac_provider = provider_value (agd_provider d), ac_model = agd_model d, ac_prompt_file = agd_prompt_file d\<rparr>"

definition build_provider :: "provider_draft \<Rightarrow> provider_config" where
  "build_provider d =
     \<lparr>pvc_api_key_env = pvd_api_key_env d, pvc_rate_limit_per_minute = pvd_rate_limit_per_minute d,
      pvc_pricing = map_option (\<lambda>p. \<lparr>ppc_input_per_1k_tokens = ppd_input_per_1k_tokens p,
                                     ppc_output_per_1k_tokens = ppd_output_per_1k_tokens p\<rparr>) (pvd_pricing d)\<rparr>"

definition build_retry_policy :: "retry_policy_draft \<Rightarrow> loaded_retry_policy" where
  "build_retry_policy d =
     \<lparr>ldr_max_attempts = rpd_max_attempts d,
      ldr_backoff = \<lparr>ldb_initial_seconds = bfd_initial_seconds (rpd_backoff d),
                      ldb_multiplier = bfd_multiplier (rpd_backoff d),
                      ldb_max_seconds = bfd_max_seconds (rpd_backoff d)\<rparr>\<rparr>"

definition build_timeout :: "timeout_draft \<Rightarrow> loaded_timeout" where
  "build_timeout d =
     \<lparr>ldt_connect_seconds = tmd_connect_seconds d, ldt_read_seconds = tmd_read_seconds d,
      ldt_total_seconds = tmd_total_seconds d\<rparr>"

definition build_failure_injection :: "config_draft \<Rightarrow> loaded_injection" where
  "build_failure_injection draft =
     (let enabled = fid_enabled (cd_failure_injection draft) in
      \<lparr>ldi_enabled = enabled,
       ldi_active_injections =
         (if \<not> enabled then [] else remdups (fid_active_injections (cd_failure_injection draft)))\<rparr>)"

definition build_config :: "config_draft \<Rightarrow> concrete_app_config" where
  "build_config draft =
     \<lparr>cac_infrastructure = build_infrastructure (cd_infrastructure draft),
      cac_agents = map (\<lambda>(k, d). (k, build_agent d)) (cd_agents draft),
      cac_providers = map (\<lambda>(k, d). (k, build_provider d)) (cd_providers draft),
      cac_collection =
        \<lparr>ldc_candidate_count = cld_candidate_count (cd_collection draft),
         ldc_scoring = map_option (\<lambda>s. \<lparr>lds_weight_score = csd_weight_score s,
             lds_weight_comments = csd_weight_comments s, lds_weight_recency = csd_weight_recency s\<rparr>)
           (cld_scoring (cd_collection draft))\<rparr>,
      cac_max_scenario_revisions = wfd_max_scenario_revisions (cd_workflow draft),
      cac_workers =
        \<lparr>topic_selector_concurrency = wkd_topic_selector_concurrency (cd_workers draft),
         scenario_generator_concurrency = wkd_scenario_generator_concurrency (cd_workers draft),
         critic_concurrency = wkd_critic_concurrency (cd_workers draft)\<rparr>,
      cac_retry = map (\<lambda>(k, d). (k, build_retry_policy d)) (cd_retry draft),
      cac_timeouts = map (\<lambda>(k, d). (k, build_timeout d)) (cd_timeouts draft),
      cac_failure_injection = build_failure_injection draft\<rparr>"

text \<open>The accessors; a subscript that finds no key raises \<open>KeyError\<close>.\<close>

definition item_at :: "('k, 'v) dict \<Rightarrow> 'k \<Rightarrow> config_exn + 'v" where
  "item_at d k = (case dict_get d k of None \<Rightarrow> Inl (ForeignError ''KeyError'') | Some v \<Rightarrow> Inr v)"

definition loaded_agent_config :: "concrete_app_config \<Rightarrow> agent_id \<Rightarrow> config_exn + agent_config" where
  "loaded_agent_config c agent_id = item_at (cac_agents c) agent_id"

definition loaded_provider_config :: "concrete_app_config \<Rightarrow> provider_id \<Rightarrow> config_exn + provider_config" where
  "loaded_provider_config c provider_id = item_at (cac_providers c) provider_id"

definition loaded_policy :: "concrete_app_config \<Rightarrow> task_type \<Rightarrow> config_exn + loaded_retry_policy" where
  "loaded_policy c task_type = item_at (cac_retry c) task_type"

fun loaded_worker_concurrency :: "concrete_app_config \<Rightarrow> agent_id \<Rightarrow> int" where
  "loaded_worker_concurrency c TOPIC_SELECTOR = topic_selector_concurrency (cac_workers c)"
| "loaded_worker_concurrency c SCENARIO_GENERATOR = scenario_generator_concurrency (cac_workers c)"
| "loaded_worker_concurrency c CRITIC = critic_concurrency (cac_workers c)"

definition resolve_credential :: "config_host \<Rightarrow> string \<Rightarrow> config_exn + string" where
  "resolve_credential H env_var_name = require_env H env_var_name"

definition loaded_injection_active :: "concrete_app_config \<Rightarrow> injection_id \<Rightarrow> bool" where
  "loaded_injection_active c i \<longleftrightarrow>
     ldi_enabled (cac_failure_injection c) \<and> Inl i \<in> set (ldi_active_injections (cac_failure_injection c))"

section \<open>The loader\<close>

datatype load_event =
    ConfigLoadStartEvent string
  | ConfigLoadSuccessEvent string "string option"
  | ConfigLoadFailureEvent string string "string option" "string option"

definition DEFAULT_CONFIG_PATH :: string where "DEFAULT_CONFIG_PATH = ''config/cartoon.yaml''"
definition CONFIG_PATH_ENV_VAR :: string where "CONFIG_PATH_ENV_VAR = ''CARTOON_CONFIG_PATH''"

text \<open>A source is the path it names, if any; \<open>ConfigSource()\<close> and no source select the same path.\<close>

definition select_config_path :: "config_host \<Rightarrow> string option \<Rightarrow> string" where
  "select_config_path H source =
     (case source of
        Some p \<Rightarrow> p
      | None \<Rightarrow>
          (let env_path = (case ch_environ H CONFIG_PATH_ENV_VAR of None \<Rightarrow> '''' | Some v \<Rightarrow> v) in
           if env_path \<noteq> '''' then ch_path H env_path
           else ch_path H (ch_cwd H @ ''/'' @ DEFAULT_CONFIG_PATH)))"

definition resolve_source :: "config_host \<Rightarrow> string option \<Rightarrow> config_exn + string" where
  "resolve_source H source =
     (let p = select_config_path H source in
      and_then (ch_is_file H p) (\<lambda>found.
      if found then Inr p
      else Inl (ConfigLoadError (''Configuration file not found or not readable: '' @ p))))"

definition parse_file :: "config_host \<Rightarrow> string \<Rightarrow> config_exn + yaml_map" where
  "parse_file H p =
     (case ch_read_text H p of
        Inl (OSError m) \<Rightarrow> Inl (ConfigLoadError m)
      | Inl (UnicodeDecodeError m) \<Rightarrow> Inl (ConfigLoadError m)
      | Inl (YAMLError m) \<Rightarrow> Inl (ForeignError ''YAMLError'')
      | Inl (OtherExn c) \<Rightarrow> Inl (ForeignError c)
      | Inr txt \<Rightarrow>
          (case ch_safe_load H txt of
             Inl (YAMLError m) \<Rightarrow> Inl (ConfigLoadError m)
           | Inl (OSError m) \<Rightarrow> Inl (ForeignError ''OSError'')
           | Inl (UnicodeDecodeError m) \<Rightarrow> Inl (ForeignError ''UnicodeDecodeError'')
           | Inl (OtherExn c) \<Rightarrow> Inl (ForeignError c)
           | Inr doc \<Rightarrow>
               (case doc of
                  YMap m \<Rightarrow> Inr m
                | _ \<Rightarrow> Inl (ConfigLoadError (''Configuration root must be a mapping, got '' @ type_name doc)))))"

fun failure_event_fields :: "config_exn \<Rightarrow> string option \<times> string option" where
  "failure_event_fields (ConfigCredentialMissingError m v) = (None, Some v)"
| "failure_event_fields (ConfigPromptNotFoundError m f) =
     (if search (Word '': '') m then Some (before_text '': '' m) else None, None)"
| "failure_event_fields (ConfigMissingError m k) = (Some k, None)"
| "failure_event_fields (ConfigFormatError m k) = (Some k, None)"
| "failure_event_fields (ConfigValueError m k) = (Some k, None)"
| "failure_event_fields (ConfigSecretDetectedError m k) = (Some k, None)"
| "failure_event_fields e = (None, None)"

type_synonym 's startup_logger = "load_event \<Rightarrow> (config_exn, 's, unit) py"

definition emit_failure_event :: "'s startup_logger \<Rightarrow> string \<Rightarrow> config_exn \<Rightarrow> (config_exn, 's, unit) py" where
  "emit_failure_event emit source_path e =
     (let (key_path, env_var_name) = failure_event_fields e in
      catchE (emit (ConfigLoadFailureEvent source_path (config_error_code e) key_path env_var_name)) (\<lambda>_. ret ()))"

text \<open>\<open>except ConfigError\<close>: report, then raise again; any other exception passes through.\<close>

definition report_config_error ::
  "'s startup_logger \<Rightarrow> string \<Rightarrow> (config_exn, 's, 'a) py \<Rightarrow> (config_exn, 's, 'a) py"
where
  "report_config_error emit source_path m =
     catchE m (\<lambda>e. if is_config_error e then bindE (emit_failure_event emit source_path e) (\<lambda>_. raise e) else raise e)"

definition checked :: "'e + 'a \<Rightarrow> ('e, 's, 'a) py" where
  "checked r = (case r of Inl e \<Rightarrow> raise e | Inr a \<Rightarrow> ret a)"

definition load :: "config_host \<Rightarrow> 's startup_logger \<Rightarrow> string option \<Rightarrow> (config_exn, 's, concrete_app_config) py" where
  "load H emit source =
     bindE (report_config_error emit (select_config_path H source) (checked (resolve_source H source))) (\<lambda>source_path.
     bindE (emit (ConfigLoadStartEvent source_path)) (\<lambda>_.
     report_config_error emit source_path
       (bindE (checked (parse_file H source_path)) (\<lambda>tree.
        bindE (checked (scan H tree)) (\<lambda>_.
        bindE (checked (map_tree H tree)) (\<lambda>draft.
        bindE (checked (validate_draft H draft)) (\<lambda>draft.
        (let app_config = build_config draft in
         bindE (emit (ConfigLoadSuccessEvent source_path (cd_config_version draft))) (\<lambda>_.
         ret app_config)))))))))"

definition load_config :: "config_host \<Rightarrow> string option \<Rightarrow> (config_exn, 's, concrete_app_config) py" where
  "load_config H source = load H (\<lambda>event. ret ()) source"

end
