(* ===== verification/Providers.thy ===== *)
theory Providers
  imports Config_Loading Worker_Support
begin

text \<open>
  The model providers: \<open>providers/errors.py\<close>, \<open>messages.py\<close>, \<open>error_mapper.py\<close>, \<open>rate_limit.py\<close>,
  \<open>timeout.py\<close>, \<open>cost.py\<close>, \<open>base.py\<close>, the vendor transports, \<open>fake.py\<close> and \<open>factory.py\<close>, with the
  registry of \<open>failure_injection\<close> and the production hooks of \<open>runtime/hooks.py\<close>.

  A call runs on a \<open>provider_state\<close>: the token bucket, the program of the fake, the telemetry
  recorded so far and the number of readings of the monotonic clock, whose values are a parameter.
  The vendor clients are parameters too: what a call returns or raises. Float arithmetic is exact
  except for its special values; a decimal cost is exact within the 28 digits of the context.
\<close>

section \<open>Errors\<close>

datatype provider_error_class = PC_TIMEOUT | PC_RATE_LIMIT | PC_AUTHENTICATION | PC_PROVIDER_UNAVAILABLE
  | PC_PROVIDER_ERROR | PC_NETWORK_ERROR | PC_SCHEMA_VALIDATION | PC_UNKNOWN

fun error_class_value :: "provider_error_class \<Rightarrow> string" where
  "error_class_value PC_TIMEOUT = ''timeout''"
| "error_class_value PC_RATE_LIMIT = ''rate_limit''"
| "error_class_value PC_AUTHENTICATION = ''authentication''"
| "error_class_value PC_PROVIDER_UNAVAILABLE = ''provider_unavailable''"
| "error_class_value PC_PROVIDER_ERROR = ''provider_error''"
| "error_class_value PC_NETWORK_ERROR = ''network_error''"
| "error_class_value PC_SCHEMA_VALIDATION = ''schema_validation''"
| "error_class_value PC_UNKNOWN = ''unknown''"

text \<open>The exception classes, with their class attributes.\<close>

datatype provider_error_type = ProviderBaseError | ProviderTimeoutError | ProviderRateLimitError
  | ProviderAuthenticationError | ProviderUnavailableError | ProviderResponseError | ProviderNetworkError
  | ProviderSchemaValidationError | ProviderUnknownError | ProviderConfigurationError

fun pet_code :: "provider_error_type \<Rightarrow> string" where
  "pet_code ProviderBaseError = ''PRV_ERROR''" | "pet_code ProviderTimeoutError = ''PRV_TIMEOUT''"
| "pet_code ProviderRateLimitError = ''PRV_RATE''" | "pet_code ProviderAuthenticationError = ''PRV_AUTH''"
| "pet_code ProviderUnavailableError = ''PRV_UNAVAILABLE''" | "pet_code ProviderResponseError = ''PRV_ERROR''"
| "pet_code ProviderNetworkError = ''PRV_NETWORK''" | "pet_code ProviderSchemaValidationError = ''PRV_SCHEMA''"
| "pet_code ProviderUnknownError = ''PRV_UNKNOWN''" | "pet_code ProviderConfigurationError = ''PRV_CONFIG''"

fun pet_error_class :: "provider_error_type \<Rightarrow> provider_error_class" where
  "pet_error_class ProviderTimeoutError = PC_TIMEOUT"
| "pet_error_class ProviderRateLimitError = PC_RATE_LIMIT"
| "pet_error_class ProviderAuthenticationError = PC_AUTHENTICATION"
| "pet_error_class ProviderUnavailableError = PC_PROVIDER_UNAVAILABLE"
| "pet_error_class ProviderResponseError = PC_PROVIDER_ERROR"
| "pet_error_class ProviderNetworkError = PC_NETWORK_ERROR"
| "pet_error_class ProviderSchemaValidationError = PC_SCHEMA_VALIDATION"
| "pet_error_class _ = PC_UNKNOWN"

fun pet_retryable :: "provider_error_type \<Rightarrow> bool" where
  "pet_retryable ProviderTimeoutError = True" | "pet_retryable ProviderRateLimitError = True"
| "pet_retryable ProviderUnavailableError = True" | "pet_retryable ProviderNetworkError = True"
| "pet_retryable _ = False"

fun default_retryable :: "provider_error_class \<Rightarrow> bool" where
  "default_retryable PC_TIMEOUT = True" | "default_retryable PC_RATE_LIMIT = True"
| "default_retryable PC_AUTHENTICATION = False" | "default_retryable PC_PROVIDER_UNAVAILABLE = True"
| "default_retryable PC_PROVIDER_ERROR = False" | "default_retryable PC_NETWORK_ERROR = True"
| "default_retryable PC_SCHEMA_VALIDATION = False" | "default_retryable PC_UNKNOWN = False"

record provider_error =
  per_type :: provider_error_type
  per_message :: string
  per_provider_id :: "provider_id option"

definition VENDOR_DETAIL_MAX_LENGTH :: nat where "VENDOR_DETAIL_MAX_LENGTH = 200"

definition truncate_vendor_detail :: "string option \<Rightarrow> string" where
  "truncate_vendor_detail detail = (case detail of None \<Rightarrow> '''' | Some d \<Rightarrow> take VENDOR_DETAIL_MAX_LENGTH d)"

text \<open>The dash of the message by its UTF-8 bytes.\<close>

definition long_dash :: string where "long_dash = [CHR 0xE2, CHR 0x80, CHR 0x94]"

definition bool_text :: "bool \<Rightarrow> string" where "bool_text b = (if b then ''True'' else ''False'')"

definition provider_error_message :: "string \<Rightarrow> provider_error_class \<Rightarrow> provider_id \<Rightarrow> string \<Rightarrow> bool \<Rightarrow> string" where
  "provider_error_message code error_class p reason retryable =
     code @ '': '' @ error_class_value error_class @ '' provider='' @ provider_value p @ '' '' @ long_dash @ '' ''
     @ truncate_vendor_detail (Some reason) @ '' (retryable='' @ bool_text retryable @ '')''"

definition configuration_error_message :: "provider_id \<Rightarrow> string \<Rightarrow> string" where
  "configuration_error_message p reason = ''PRV_CONFIG: provider '' @ provider_value p @ '' '' @ reason"

definition client_rate_limit_message :: "provider_id \<Rightarrow> string" where
  "client_rate_limit_message p =
     provider_error_message ''PRV_RATE'' PC_RATE_LIMIT p ''client rate limit exceeded'' True"

section \<open>Vendor failures\<close>

text \<open>
  What the mapper reads of a vendor's exception: the name, module and qualified name of its class,
  its text, its \<open>status_code\<close>, that of its \<open>response\<close>, its \<open>code\<close> when that is an integer, the
  texts of its \<open>param\<close> and \<open>type\<close> (\<open>None\<close> when absent), and whether it is a \<open>TimeoutError\<close> or a
  \<open>ConnectionError\<close>.
\<close>

record vendor_exn =
  vx_name :: string
  vx_module :: string
  vx_qualname :: string
  vx_message :: string
  vx_status_code :: "int option"
  vx_response_status :: "int option"
  vx_code :: "int option"
  vx_param :: string
  vx_type :: string
  vx_is_timeout_error :: bool
  vx_is_connection_error :: bool

record vendor_failure_signal =
  vfs_http_status :: "int option"
  vfs_vendor_message :: "string option"
  vfs_exception_type :: "string option"
  vfs_is_timeout :: bool
  vfs_is_connection_error :: bool
  vfs_is_rate_limit :: bool
  vfs_is_auth_error :: bool
  vfs_is_schema_validation :: bool
  vfs_is_service_unavailable :: bool
  vfs_provider_id :: "provider_id option"

definition signal_of :: "string \<Rightarrow> vendor_failure_signal" where
  "signal_of message =
     \<lparr>vfs_http_status = None, vfs_vendor_message = Some message, vfs_exception_type = None, vfs_is_timeout = False,
      vfs_is_connection_error = False, vfs_is_rate_limit = False, vfs_is_auth_error = False,
      vfs_is_schema_validation = False, vfs_is_service_unavailable = False, vfs_provider_id = None\<rparr>"

definition http_status :: "vendor_exn \<Rightarrow> int option" where
  "http_status e =
     (case vx_status_code e of Some s \<Rightarrow> Some s
      | None \<Rightarrow> (case vx_response_status e of Some s \<Rightarrow> Some s | None \<Rightarrow> vx_code e))"

definition exception_fqn :: "vendor_exn \<Rightarrow> string" where
  "exception_fqn e = vx_module e @ ''.'' @ vx_qualname e"

definition openai_schema_signals :: "vendor_exn \<Rightarrow> bool" where
  "openai_schema_signals e \<longleftrightarrow>
     (let message = lower (vx_message e) in
      (lower (vx_param e) \<in> {''response_format'', ''messages''} \<and> sublist ''invalid'' (lower (vx_type e)))
      \<or> sublist ''json_schema'' message \<or> sublist ''response_format'' message)"

definition anthropic_schema_signals :: "vendor_exn \<Rightarrow> bool" where
  "anthropic_schema_signals e \<longleftrightarrow>
     (let message = lower (vx_message e) in
      sublist ''json'' message \<and> (sublist ''schema'' message \<or> sublist ''output_format'' message))"

definition gemini_schema_signals :: "vendor_exn \<Rightarrow> bool" where
  "gemini_schema_signals e \<longleftrightarrow>
     (let message = lower (vx_message e) in
      sublist ''response_schema'' message \<or> (sublist ''json'' message \<and> sublist ''validation'' message))"

definition in_module :: "string \<Rightarrow> vendor_exn \<Rightarrow> bool" where
  "in_module m e \<longleftrightarrow> vx_module e = m \<or> prefix (m @ ''.'') (vx_module e)"

definition extract_openai_failure :: "vendor_exn \<Rightarrow> vendor_failure_signal" where
  "extract_openai_failure e =
     (let name = vx_name e; status = http_status e; sig = signal_of (vx_message e); is_openai = in_module ''openai'' e in
      if name = ''APITimeoutError'' \<or> (is_openai \<and> status = Some 408)
        then sig\<lparr>vfs_http_status := status, vfs_is_timeout := True\<rparr>
      else if name = ''APIConnectionError'' \<or> name = ''_ConnectionError'' \<or> (is_openai \<and> sublist ''Connection'' name)
        then sig\<lparr>vfs_is_connection_error := True\<rparr>
      else if name = ''RateLimitError'' \<or> status = Some 429
        then sig\<lparr>vfs_http_status := Some 429, vfs_is_rate_limit := True\<rparr>
      else if name \<in> {''AuthenticationError'', ''_AuthError''} \<or> status = Some 401
        then sig\<lparr>vfs_http_status := Some 401, vfs_is_auth_error := True\<rparr>
      else if name \<in> {''PermissionDeniedError'', ''_PermissionDeniedError''} \<or> status = Some 403
        then sig\<lparr>vfs_http_status := Some 403, vfs_is_auth_error := True\<rparr>
      else if name \<in> {''BadRequestError'', ''_BadRequestError''} \<or> status = Some 400
        then (if openai_schema_signals e then sig\<lparr>vfs_http_status := Some 400, vfs_is_schema_validation := True\<rparr>
              else sig\<lparr>vfs_http_status := Some 400\<rparr>)
      else if name = ''APIStatusError'' \<or> (is_openai \<and> status \<noteq> None)
        then (if status \<in> Some ` {502, 503, 504} then sig\<lparr>vfs_http_status := status, vfs_is_service_unavailable := True\<rparr>
              else if status = Some 529 then sig\<lparr>vfs_http_status := Some 529, vfs_is_service_unavailable := True\<rparr>
              else sig\<lparr>vfs_http_status := status\<rparr>)
      else if status = Some 408 then sig\<lparr>vfs_http_status := Some 408, vfs_is_timeout := True\<rparr>
      else sig\<lparr>vfs_exception_type := Some (exception_fqn e)\<rparr>)"

definition extract_anthropic_failure :: "vendor_exn \<Rightarrow> vendor_failure_signal" where
  "extract_anthropic_failure e =
     (let name = vx_name e; status = http_status e; sig = signal_of (vx_message e);
          is_anthropic = in_module ''anthropic'' e in
      if name = ''APITimeoutError'' \<or> (is_anthropic \<and> status = Some 408)
        then sig\<lparr>vfs_http_status := status, vfs_is_timeout := True\<rparr>
      else if name = ''APIConnectionError'' \<or> name = ''_ConnectionError'' \<or> (is_anthropic \<and> sublist ''Connection'' name)
        then sig\<lparr>vfs_is_connection_error := True\<rparr>
      else if name = ''RateLimitError'' \<or> status = Some 429
        then sig\<lparr>vfs_http_status := Some 429, vfs_is_rate_limit := True\<rparr>
      else if name \<in> {''AuthenticationError'', ''_AuthError''} \<or> status = Some 401
        then sig\<lparr>vfs_http_status := Some 401, vfs_is_auth_error := True\<rparr>
      else if name \<in> {''PermissionDeniedError'', ''_PermissionDeniedError''} \<or> status = Some 403
        then sig\<lparr>vfs_http_status := Some 403, vfs_is_auth_error := True\<rparr>
      else if name \<in> {''BadRequestError'', ''_BadRequestError''} \<or> status = Some 400
        then (if anthropic_schema_signals e then sig\<lparr>vfs_http_status := Some 400, vfs_is_schema_validation := True\<rparr>
              else sig\<lparr>vfs_http_status := Some 400\<rparr>)
      else if name = ''APIStatusError'' \<or> (is_anthropic \<and> status \<noteq> None)
        then (if status \<in> Some ` {502, 503, 504} then sig\<lparr>vfs_http_status := status, vfs_is_service_unavailable := True\<rparr>
              else sig\<lparr>vfs_http_status := status\<rparr>)
      else if status = Some 408 then sig\<lparr>vfs_http_status := Some 408, vfs_is_timeout := True\<rparr>
      else sig\<lparr>vfs_exception_type := Some (exception_fqn e)\<rparr>)"

definition extract_gemini_failure :: "vendor_exn \<Rightarrow> vendor_failure_signal" where
  "extract_gemini_failure e =
     (let name = vx_name e; status = http_status e; sig = signal_of (vx_message e);
          is_google = prefix ''google.'' (vx_module e) in
      if name = ''DeadlineExceeded'' \<or> vx_is_timeout_error e \<or> name \<in> {''TimeoutException'', ''ReadTimeout''}
        then sig\<lparr>vfs_is_timeout := True\<rparr>
      else if name \<in> {''ServiceUnavailable'', ''Unavailable''} then sig\<lparr>vfs_is_service_unavailable := True\<rparr>
      else if name = ''ResourceExhausted'' then sig\<lparr>vfs_is_rate_limit := True\<rparr>
      else if name = ''Unauthenticated'' then sig\<lparr>vfs_is_auth_error := True\<rparr>
      else if name = ''PermissionDenied'' then sig\<lparr>vfs_is_auth_error := True\<rparr>
      else if name = ''InvalidArgument''
        then (if gemini_schema_signals e then sig\<lparr>vfs_is_schema_validation := True\<rparr> else sig)
      else if name \<in> {''TransportError'', ''ConnectError''} \<or> vx_is_connection_error e
        then sig\<lparr>vfs_is_connection_error := True\<rparr>
      else if name \<in> {''GoogleAPICallError'', ''APIError'', ''ClientError'', ''ServerError''} \<or> (is_google \<and> status \<noteq> None)
        then (if status = Some 408 then sig\<lparr>vfs_http_status := Some 408, vfs_is_timeout := True\<rparr>
              else if status = Some 429 then sig\<lparr>vfs_http_status := Some 429, vfs_is_rate_limit := True\<rparr>
              else if status \<in> Some ` {401, 403} then sig\<lparr>vfs_http_status := status, vfs_is_auth_error := True\<rparr>
              else if status \<in> Some ` {502, 503, 504}
                then sig\<lparr>vfs_http_status := status, vfs_is_service_unavailable := True\<rparr>
              else if status = Some 500 then sig\<lparr>vfs_http_status := Some 500\<rparr>
              else sig\<lparr>vfs_http_status := status\<rparr>)
      else sig\<lparr>vfs_exception_type := Some (exception_fqn e)\<rparr>)"

definition make_error :: "provider_error_type \<Rightarrow> provider_id \<Rightarrow> string \<Rightarrow> provider_error" where
  "make_error t p reason =
     \<lparr>per_type = t, per_message = provider_error_message (pet_code t) (pet_error_class t) p reason (pet_retryable t),
      per_provider_id = Some p\<rparr>"

definition map_generic_http :: "provider_id \<Rightarrow> int \<Rightarrow> string \<Rightarrow> provider_error" where
  "map_generic_http p status reason =
     (if status \<in> {400, 404, 413, 422} \<or> (400 \<le> status \<and> status < 500) then make_error ProviderResponseError p reason
      else if 500 \<le> status \<and> status < 600 then make_error ProviderUnknownError p reason
      else make_error ProviderResponseError p reason)"

definition map_vendor_failure :: "provider_id \<Rightarrow> vendor_failure_signal \<Rightarrow> provider_error" where
  "map_vendor_failure own sig =
     (let p = (case vfs_provider_id sig of Some q \<Rightarrow> q | None \<Rightarrow> own);
          detail = truncate_vendor_detail (vfs_vendor_message sig);
          reason = (if detail \<noteq> '''' then detail else ''vendor failure'');
          status = vfs_http_status sig in
      if vfs_is_timeout sig \<or> status = Some 408 then make_error ProviderTimeoutError p reason
      else if vfs_is_rate_limit sig \<or> status = Some 429 then make_error ProviderRateLimitError p reason
      else if vfs_is_auth_error sig \<or> status \<in> Some ` {401, 403}
        then make_error ProviderAuthenticationError p ''authentication failed''
      else if vfs_is_service_unavailable sig \<or> status \<in> Some ` {502, 503, 504}
        then make_error ProviderUnavailableError p reason
      else if vfs_is_connection_error sig then make_error ProviderNetworkError p reason
      else if vfs_is_schema_validation sig then make_error ProviderSchemaValidationError p reason
      else if status = Some 529
        then (if p = OPENAI then make_error ProviderUnavailableError p reason else make_error ProviderResponseError p reason)
      else if status = Some 500 then make_error ProviderResponseError p reason
      else (case status of
              Some s \<Rightarrow> map_generic_http p s reason
            | None \<Rightarrow> make_error ProviderUnknownError p reason))"

definition map_timeout_error :: "provider_id \<Rightarrow> provider_error" where
  "map_timeout_error p =
     \<lparr>per_type = ProviderTimeoutError,
      per_message = provider_error_message ''PRV_TIMEOUT'' PC_TIMEOUT p ''deadline exceeded'' True, per_provider_id = Some p\<rparr>"

definition map_client_rate_limit :: "provider_id \<Rightarrow> provider_error" where
  "map_client_rate_limit p =
     \<lparr>per_type = ProviderRateLimitError, per_message = client_rate_limit_message p, per_provider_id = Some p\<rparr>"

section \<open>Requests and responses\<close>

record completion_request =
  crq_model :: string
  crq_messages :: "provider_message list"
  crq_temperature :: "rat option"
  crq_max_output_tokens :: "int option"
  crq_workflow_id :: "string option"
  crq_task_id :: "string option"
  crq_task_attempt :: "int option"

record token_usage =
  tu_input_tokens :: "int option"
  tu_output_tokens :: "int option"
  tu_cached_tokens :: "int option"

record generate_response =
  grs_content :: string
  grs_model :: string
  grs_provider_id :: provider_id
  grs_latency_ms :: rat
  grs_token_usage :: "token_usage option"
  grs_estimated_cost_usd :: "py_float option"

record vendor_call_result =
  vcr_content :: string
  vcr_model :: string
  vcr_token_usage :: "token_usage option"

text \<open>What a call raises: a \<open>ProviderError\<close>, a \<open>VendorTransportError\<close>, or another exception.\<close>

datatype provider_exn = ProviderExn provider_error | VendorTransportError vendor_failure_signal | OtherRaise exn

text \<open>The same exception as the worker sees it.\<close>

fun raised_exn :: "provider_exn \<Rightarrow> exn" where
  "raised_exn (ProviderExn e) =
     ProviderError (per_message e) (pet_retryable (per_type e)) (error_class_value (pet_error_class (per_type e)))"
| "raised_exn (VendorTransportError s) = OtherError ''VendorTransportError''"
| "raised_exn (OtherRaise e) = e"

section \<open>State\<close>

record rate_limiter =
  rl_disabled :: bool
  rl_capacity :: rat
  rl_refill_rate :: rat
  rl_tokens :: rat
  rl_t_last :: rat

datatype fake_program_mode = MODE_DEFAULT | MODE_NEXT_RESPONSE | MODE_NEXT_ERROR

record fake_program_state =
  fps_mode :: fake_program_mode
  fps_next_response :: "generate_response option"
  fps_next_error :: "provider_error option"

text \<open>The calls of the telemetry, as \<open>RecordingTelemetry\<close> records them; a failed call has a span or
  none. The last component of a call that has ended is its correlation.\<close>

type_synonym correlation = "string option \<times> string option \<times> int option"

datatype call_event =
    CallStarted string
  | CallCompleted string rat "token_usage option" correlation
  | CallFailed string provider_error rat bool correlation

record provider_state =
  pst_limiter :: rate_limiter
  pst_fake :: fake_program_state
  pst_events :: "call_event list"
  pst_reads :: nat

type_synonym 'a pcall = "(provider_exn, provider_state, 'a) py"

definition monotonic :: "(nat \<Rightarrow> rat) \<Rightarrow> rat pcall" where
  [py_simps]: "monotonic clock s = (Inr (clock (pst_reads s)), s\<lparr>pst_reads := Suc (pst_reads s)\<rparr>)"

definition emit_event :: "call_event \<Rightarrow> unit pcall" where
  "emit_event e = modifyE (\<lambda>s. s\<lparr>pst_events := pst_events s @ [e]\<rparr>)"

definition correlation_of :: "completion_request \<Rightarrow> correlation" where
  "correlation_of r = (crq_workflow_id r, crq_task_id r, crq_task_attempt r)"

section \<open>Validation of the request\<close>

definition validate_request :: "completion_request \<Rightarrow> unit pcall" where
  "validate_request r =
     (if length (crq_messages r) = 0 then raise (OtherRaise ValueError)
      else if strip (crq_model r) = '''' then raise (OtherRaise ValueError)
      else ret ())"

section \<open>Rate limiting\<close>

definition create_limiter :: "int option \<Rightarrow> rat \<Rightarrow> rate_limiter" where
  "create_limiter rate_limit_per_minute now =
     (case rate_limit_per_minute of
        Some n \<Rightarrow>
          if n \<le> 0 then \<lparr>rl_disabled = True, rl_capacity = 0, rl_refill_rate = 0, rl_tokens = 0, rl_t_last = now\<rparr>
          else \<lparr>rl_disabled = False, rl_capacity = of_int n, rl_refill_rate = of_int n / 60,
                rl_tokens = of_int n, rl_t_last = now\<rparr>
      | None \<Rightarrow> \<lparr>rl_disabled = True, rl_capacity = 0, rl_refill_rate = 0, rl_tokens = 0, rl_t_last = now\<rparr>)"

text \<open>The body under the lock, at a reading of the clock: the limiter after it and whether a token
  was taken.\<close>

definition take_token :: "rat \<Rightarrow> rate_limiter \<Rightarrow> bool \<times> rate_limiter" where
  "take_token now l =
     (let elapsed = max 0 (now - rl_t_last l);
          tokens = min (rl_capacity l) (rl_tokens l + elapsed * rl_refill_rate l) in
      if 1 \<le> tokens then (True, l\<lparr>rl_tokens := tokens - 1, rl_t_last := now\<rparr>)
      else (False, l\<lparr>rl_tokens := tokens, rl_t_last := now\<rparr>))"

definition acquire :: "(nat \<Rightarrow> rat) \<Rightarrow> provider_id \<Rightarrow> unit pcall" where
  "acquire clock p =
     bindE (gets pst_limiter) (\<lambda>l.
     if rl_disabled l then ret ()
     else bindE (monotonic clock) (\<lambda>now.
          (let (granted, l') = take_token now l in
           bindE (modifyE (\<lambda>s. s\<lparr>pst_limiter := l'\<rparr>)) (\<lambda>_.
           if granted then ret ()
           else raise (ProviderExn \<lparr>per_type = ProviderRateLimitError, per_message = client_rate_limit_message p,
                                    per_provider_id = Some p\<rparr>)))))"

section \<open>Timeouts\<close>

text \<open>Comparison, minimum and sum of floats: \<open>min(a, b)\<close> is \<open>b\<close> when \<open>b < a\<close>, otherwise \<open>a\<close>.\<close>

fun float_less :: "py_float \<Rightarrow> py_float \<Rightarrow> bool" where
  "float_less (Finite a) (Finite b) = (a < b)"
| "float_less NaN _ = False" | "float_less _ NaN = False"
| "float_less NegInfinity b = (b \<noteq> NegInfinity)"
| "float_less Infinity b = False"
| "float_less (Finite a) b = (b = Infinity)"

definition float_min :: "py_float \<Rightarrow> py_float \<Rightarrow> py_float" where
  "float_min a b = (if float_less b a then b else a)"

fun float_add :: "py_float \<Rightarrow> py_float \<Rightarrow> py_float" where
  "float_add (Finite a) (Finite b) = Finite (a + b)"
| "float_add NaN _ = NaN" | "float_add _ NaN = NaN"
| "float_add Infinity NegInfinity = NaN" | "float_add NegInfinity Infinity = NaN"
| "float_add Infinity _ = Infinity" | "float_add NegInfinity _ = NegInfinity"
| "float_add (Finite a) b = b"

record timeout_budget =
  tb_connect_seconds :: "py_float option"
  tb_read_seconds :: py_float
  tb_total_seconds :: "py_float option"
  tb_overall_deadline_seconds :: py_float

definition resolve_budget :: "loaded_timeout \<Rightarrow> timeout_budget" where
  "resolve_budget c =
     (case ldt_total_seconds c of
        Some t \<Rightarrow>
          \<lparr>tb_connect_seconds = map_option (\<lambda>connect. float_min connect t) (ldt_connect_seconds c),
           tb_read_seconds = float_min (ldt_read_seconds c) t, tb_total_seconds = Some t,
           tb_overall_deadline_seconds = t\<rparr>
      | None \<Rightarrow>
          \<lparr>tb_connect_seconds = ldt_connect_seconds c, tb_read_seconds = ldt_read_seconds c, tb_total_seconds = None,
           tb_overall_deadline_seconds =
             (case ldt_connect_seconds c of
                None \<Rightarrow> ldt_read_seconds c
              | Some connect \<Rightarrow> float_add connect (ldt_read_seconds c))\<rparr>)"

text \<open>\<open>__enter__\<close> fixes the deadline; \<open>self._clock() >= self._deadline\<close>.\<close>

definition enter_timeout :: "(nat \<Rightarrow> rat) \<Rightarrow> timeout_budget \<Rightarrow> py_float pcall" where
  "enter_timeout clock b =
     bindE (monotonic clock) (\<lambda>now. ret (float_add (Finite now) (tb_overall_deadline_seconds b)))"

definition deadline_passed :: "rat \<Rightarrow> py_float \<Rightarrow> bool" where
  "deadline_passed now deadline \<longleftrightarrow> deadline = Finite now \<or> float_less deadline (Finite now)"

definition check_deadline :: "(nat \<Rightarrow> rat) \<Rightarrow> provider_id \<Rightarrow> py_float \<Rightarrow> unit pcall" where
  "check_deadline clock p deadline =
     bindE (monotonic clock) (\<lambda>now.
     if deadline_passed now deadline then raise (ProviderExn (map_timeout_error p)) else ret ())"

section \<open>Costs\<close>

text \<open>Decimal arithmetic: no result is \<open>InvalidOperation\<close>.\<close>

fun decimal_scale :: "rat \<Rightarrow> py_float \<Rightarrow> py_float option" where
  "decimal_scale q (Finite r) = Some (Finite (q * r))"
| "decimal_scale q NaN = Some NaN"
| "decimal_scale q Infinity = (if q = 0 then None else Some (if 0 < q then Infinity else NegInfinity))"
| "decimal_scale q NegInfinity = (if q = 0 then None else Some (if 0 < q then NegInfinity else Infinity))"

definition decimal_add :: "py_float \<Rightarrow> py_float \<Rightarrow> py_float option" where
  "decimal_add a b = (if {a, b} = {Infinity, NegInfinity} then None else Some (float_add a b))"

text \<open>\<open>quantize(Decimal("0.000001"), rounding=ROUND_HALF_UP)\<close>: halves away from zero.\<close>

definition round_half_up :: "rat \<Rightarrow> rat" where
  "round_half_up q = sgn q * of_int \<lfloor>\<bar>q\<bar> * 1000000 + 1 / 2\<rfloor> / 1000000"

fun quantize :: "py_float \<Rightarrow> py_float option" where
  "quantize (Finite q) = Some (Finite (round_half_up q))"
| "quantize NaN = Some NaN"
| "quantize _ = None"

definition estimate :: "provider_pricing option \<Rightarrow> token_usage option \<Rightarrow> py_float option pcall" where
  "estimate pricing usage =
     (case (pricing, usage) of
        (Some p, Some u) \<Rightarrow>
          (case (tu_input_tokens u, tu_output_tokens u, ppc_input_per_1k_tokens p, ppc_output_per_1k_tokens p) of
             (Some i, Some out, Some input_rate, Some output_rate) \<Rightarrow>
               (let invalid = raise (OtherRaise (OtherError ''InvalidOperation'')) in
                case (decimal_scale (of_int i / 1000) input_rate, decimal_scale (of_int out / 1000) output_rate) of
                  (Some a, Some b) \<Rightarrow>
                    (case decimal_add a b of
                       None \<Rightarrow> invalid
                     | Some raw \<Rightarrow> (case quantize raw of None \<Rightarrow> invalid | Some v \<Rightarrow> ret (Some v)))
                | _ \<Rightarrow> invalid)
           | _ \<Rightarrow> ret None)
      | _ \<Rightarrow> ret None)"

section \<open>Failure injection\<close>

record injection_registry =
  ijr_config :: concrete_app_config
  ijr_hooks :: "(injection_id, unit pcall) dict"
  ijr_wrap_hook_errors :: bool

definition register_hook :: "injection_id \<Rightarrow> unit pcall \<Rightarrow> injection_registry \<Rightarrow> exn + injection_registry" where
  "register_hook i hook R =
     (if dict_get (ijr_hooks R) i \<noteq> None then Inl (OtherError ''DuplicateHookError'')
      else Inr (R\<lparr>ijr_hooks := dict_set i hook (ijr_hooks R)\<rparr>))"

definition registry_invoke_if_active :: "injection_registry \<Rightarrow> injection_id \<Rightarrow> bool pcall" where
  "registry_invoke_if_active R i =
     (if \<not> loaded_injection_active (ijr_config R) i then ret False
      else (case dict_get (ijr_hooks R) i of
              None \<Rightarrow> raise (OtherRaise (OtherError ''HookNotRegisteredError''))
            | Some hook \<Rightarrow>
                bindE (catchE hook (\<lambda>e. if ijr_wrap_hook_errors R
                                       then raise (OtherRaise (OtherError ''InjectionInvocationError''))
                                       else raise e))
                  (\<lambda>_. ret True)))"

definition FINJ_PROVIDER_ORDER :: "injection_id list" where
  "FINJ_PROVIDER_ORDER = [FINJ_PRV_TIMEOUT, FINJ_PRV_RATE, FINJ_PRV_ERROR, FINJ_PRV_INVALID]"

definition evaluate_injections :: "injection_registry option \<Rightarrow> unit pcall" where
  "evaluate_injections registry =
     (case registry of
        None \<Rightarrow> ret ()
      | Some R \<Rightarrow> bindE (forE FINJ_PROVIDER_ORDER (registry_invoke_if_active R)) (\<lambda>_. ret ()))"

text \<open>The production hooks: a delay and a duplicate have no effect on the state, and the hook that means
  to raise a \<open>WorkflowConflictError\<close> leaves out its required \<open>workflow_id\<close>.\<close>

definition injected_failure :: "unit pcall" where
  "injected_failure = raise (OtherRaise (OtherError ''InjectedFailureError''))"

fun production_hook_effect :: "injection_id \<Rightarrow> unit pcall" where
  "production_hook_effect FINJ_Q_DUP = ret ()"
| "production_hook_effect FINJ_Q_SLOW = ret ()"
| "production_hook_effect FINJ_PRV_TIMEOUT = raise (OtherRaise (OtherError ''TimeoutError''))"
| "production_hook_effect FINJ_COORD_CONFLICT = raise (OtherRaise TypeError)"
| "production_hook_effect _ = injected_failure"

fun register_all_hooks :: "(injection_id \<times> unit pcall) list \<Rightarrow> injection_registry \<Rightarrow> exn + injection_registry" where
  "register_all_hooks [] R = Inr R"
| "register_all_hooks ((i, hook) # hs) R = and_then (register_hook i hook R) (register_all_hooks hs)"

definition register_production_hooks :: "injection_registry \<Rightarrow> exn + injection_registry" where
  "register_production_hooks R = register_all_hooks (map (\<lambda>i. (i, production_hook_effect i)) injection_members) R"

section \<open>The call\<close>

record remote_provider =
  rmp_provider_id :: provider_id
  rmp_pricing :: "provider_pricing option"
  rmp_timeout_config :: loaded_timeout
  rmp_registry :: "injection_registry option"
  rmp_transport :: "completion_request \<Rightarrow> timeout_budget \<Rightarrow> vendor_call_result pcall"
  rmp_clock :: "nat \<Rightarrow> rat"

text \<open>\<open>round(x, 3)\<close>: the nearest thousandth, halves to even.\<close>

definition round_3 :: "rat \<Rightarrow> rat" where
  "round_3 x =
     (let y = x * 1000; f = \<lfloor>y\<rfloor>; r = y - of_int f in
      of_int (if r < 1 / 2 then f else if r > 1 / 2 then f + 1 else if even f then f else f + 1) / 1000)"

definition elapsed_ms :: "remote_provider \<Rightarrow> rat \<Rightarrow> rat pcall" where
  "elapsed_ms P started_at =
     bindE (monotonic (rmp_clock P)) (\<lambda>now. ret (round_3 (max (1 / 1000) ((now - started_at) * 1000))))"

definition emit_call_failed :: "completion_request \<Rightarrow> provider_error \<Rightarrow> rat \<Rightarrow> bool \<Rightarrow> 'a pcall" where
  "emit_call_failed r e latency has_span =
     bindE (emit_event (CallFailed (crq_model r) e latency has_span (correlation_of r))) (\<lambda>_. raise (ProviderExn e))"

definition fail_in_vendor_phase :: "remote_provider \<Rightarrow> completion_request \<Rightarrow> rat \<Rightarrow> provider_error \<Rightarrow> 'a pcall" where
  "fail_in_vendor_phase P r started_at e =
     bindE (elapsed_ms P started_at) (\<lambda>latency. emit_call_failed r e latency True)"

definition guarded_deadline :: "remote_provider \<Rightarrow> completion_request \<Rightarrow> rat \<Rightarrow> py_float \<Rightarrow> unit pcall" where
  "guarded_deadline P r started_at deadline =
     catchE (check_deadline (rmp_clock P) (rmp_provider_id P) deadline)
       (\<lambda>x. case x of ProviderExn e \<Rightarrow> fail_in_vendor_phase P r started_at e | _ \<Rightarrow> raise x)"

definition vendor_phase :: "remote_provider \<Rightarrow> completion_request \<Rightarrow> rat \<Rightarrow> vendor_call_result pcall" where
  "vendor_phase P r started_at =
     (let budget = resolve_budget (rmp_timeout_config P) in
      bindE (enter_timeout (rmp_clock P) budget) (\<lambda>deadline.
      bindE (guarded_deadline P r started_at deadline) (\<lambda>_.
      bindE (catchE (rmp_transport P r budget)
               (\<lambda>x. case x of
                      ProviderExn e \<Rightarrow> fail_in_vendor_phase P r started_at e
                    | VendorTransportError sig \<Rightarrow>
                        fail_in_vendor_phase P r started_at (map_vendor_failure (rmp_provider_id P) sig)
                    | OtherRaise e \<Rightarrow> raise x)) (\<lambda>vendor_result.
      bindE (guarded_deadline P r started_at deadline) (\<lambda>_.
      ret vendor_result)))))"

definition build_success ::
  "provider_id \<Rightarrow> vendor_call_result \<Rightarrow> rat \<Rightarrow> py_float option \<Rightarrow> generate_response"
where
  "build_success p v latency_ms cost =
     \<lparr>grs_content = vcr_content v, grs_model = vcr_model v, grs_provider_id = p, grs_latency_ms = latency_ms,
      grs_token_usage = vcr_token_usage v, grs_estimated_cost_usd = cost\<rparr>"

text \<open>\<open>except ProviderError\<close> around the injection gate and \<open>except ProviderRateLimitError\<close> around the
  limiter, before a span exists.\<close>

definition before_span :: "completion_request \<Rightarrow> (provider_error \<Rightarrow> bool) \<Rightarrow> unit pcall \<Rightarrow> unit pcall" where
  "before_span r caught m =
     catchE m (\<lambda>x. case x of ProviderExn e \<Rightarrow> if caught e then emit_call_failed r e 0 False else raise x | _ \<Rightarrow> raise x)"

definition generate :: "remote_provider \<Rightarrow> completion_request \<Rightarrow> generate_response pcall" where
  "generate P r =
     bindE (validate_request r) (\<lambda>_.
     bindE (before_span r (\<lambda>e. True) (evaluate_injections (rmp_registry P))) (\<lambda>_.
     bindE (before_span r (\<lambda>e. per_type e = ProviderRateLimitError) (acquire (rmp_clock P) (rmp_provider_id P))) (\<lambda>_.
     bindE (emit_event (CallStarted (crq_model r))) (\<lambda>_.
     bindE (monotonic (rmp_clock P)) (\<lambda>started_at.
     bindE (vendor_phase P r started_at) (\<lambda>vendor_result.
     bindE (elapsed_ms P started_at) (\<lambda>latency.
     bindE (estimate (rmp_pricing P) (vcr_token_usage vendor_result)) (\<lambda>estimated.
     bindE (emit_event (CallCompleted (crq_model r) latency (vcr_token_usage vendor_result) (correlation_of r))) (\<lambda>_.
     ret (build_success (rmp_provider_id P) vendor_result latency estimated))))))))))"

section \<open>Vendor transports\<close>

datatype vendor_timeout = Seconds py_float | Phases py_float py_float py_float py_float | Milliseconds int

record vendor_call =
  vcl_model :: string
  vcl_messages :: "(string \<times> string) list"
  vcl_system :: "string option"
  vcl_temperature :: "rat option"
  vcl_max_tokens :: "int option"
  vcl_timeout :: vendor_timeout

text \<open>An answer: the texts of its choices or blocks, its model and its token counts, as far as they
  are present.\<close>

record vendor_answer =
  van_texts :: "string option list"
  van_model :: "string option"
  van_usage :: "(int option \<times> int option) option"

type_synonym vendor_client = "vendor_call \<Rightarrow> vendor_exn + vendor_answer"

fun role_value :: "message_role \<Rightarrow> string" where
  "role_value ROLE_SYSTEM = ''system''" | "role_value ROLE_USER = ''user''" | "role_value ROLE_ASSISTANT = ''assistant''"

definition usage_of :: "vendor_answer \<Rightarrow> token_usage option" where
  "usage_of a = map_option (\<lambda>(i, out). \<lparr>tu_input_tokens = i, tu_output_tokens = out, tu_cached_tokens = None\<rparr>) (van_usage a)"

definition first_text :: "string option list \<Rightarrow> string" where
  "first_text ts = (case ts of [] \<Rightarrow> '''' | t # _ \<Rightarrow> (case t of None \<Rightarrow> '''' | Some s \<Rightarrow> s))"

text \<open>\<open>openai.Timeout\<close> may be missing or refuse its arguments: \<open>phased\<close> says that it does not.\<close>

definition openai_timeout :: "bool \<Rightarrow> timeout_budget \<Rightarrow> vendor_timeout" where
  "openai_timeout phased b =
     (if tb_total_seconds b \<noteq> None \<or> \<not> phased then Seconds (tb_overall_deadline_seconds b)
      else (let connect = (case tb_connect_seconds b of
                             None \<Rightarrow> tb_read_seconds b
                           | Some c \<Rightarrow> if c = Finite 0 then tb_read_seconds b else c)
            in Phases connect (tb_read_seconds b) (tb_read_seconds b) (Finite 5)))"

definition openai_complete :: "bool \<Rightarrow> vendor_client \<Rightarrow> completion_request \<Rightarrow> timeout_budget \<Rightarrow> vendor_call_result pcall" where
  "openai_complete phased client r b =
     (case client \<lparr>vcl_model = crq_model r,
          vcl_messages = map (\<lambda>m. (role_value (pm_role m), pm_content m)) (crq_messages r), vcl_system = None,
          vcl_temperature = crq_temperature r, vcl_max_tokens = crq_max_output_tokens r,
          vcl_timeout = openai_timeout phased b\<rparr> of
        Inl e \<Rightarrow> raise (VendorTransportError (extract_openai_failure e))
      | Inr a \<Rightarrow>
          ret \<lparr>vcr_content = first_text (van_texts a),
               vcr_model = (case van_model a of Some m \<Rightarrow> if m \<noteq> '''' then m else crq_model r | None \<Rightarrow> crq_model r),
               vcr_token_usage = usage_of a\<rparr>)"

text \<open>The first system message becomes the system prompt; any later one is sent as the user's.\<close>

fun split_system :: "string \<Rightarrow> string option \<Rightarrow> provider_message list \<Rightarrow> string option \<times> (string \<times> string) list" where
  "split_system assistant sys [] = (sys, [])"
| "split_system assistant sys (m # ms) =
     (if pm_role m = ROLE_SYSTEM \<and> sys = None then split_system assistant (Some (pm_content m)) ms
      else (let (s, rest) = split_system assistant sys ms in
            (s, (if pm_role m = ROLE_ASSISTANT then assistant else ''user'', pm_content m) # rest)))"

definition anthropic_complete :: "vendor_client \<Rightarrow> completion_request \<Rightarrow> timeout_budget \<Rightarrow> vendor_call_result pcall" where
  "anthropic_complete client r b =
     (let (sys, messages) = split_system ''assistant'' None (crq_messages r) in
      case client \<lparr>vcl_model = crq_model r, vcl_messages = messages, vcl_system = sys,
          vcl_temperature = crq_temperature r,
          vcl_max_tokens = Some (case crq_max_output_tokens r of None \<Rightarrow> 1024 | Some n \<Rightarrow> if n = 0 then 1024 else n),
          vcl_timeout = Seconds (tb_overall_deadline_seconds b)\<rparr> of
        Inl e \<Rightarrow> raise (VendorTransportError (extract_anthropic_failure e))
      | Inr a \<Rightarrow>
          ret \<lparr>vcr_content = first_text (van_texts a),
               vcr_model = (case van_model a of Some m \<Rightarrow> m | None \<Rightarrow> crq_model r), vcr_token_usage = usage_of a\<rparr>)"

text \<open>\<open>int(x)\<close> truncates; it raises on an infinity or NaN, outside the \<open>try\<close>.\<close>

definition truncate_rat :: "rat \<Rightarrow> int" where
  "truncate_rat q = (if 0 \<le> q then \<lfloor>q\<rfloor> else \<lceil>q\<rceil>)"

definition gemini_complete :: "vendor_client \<Rightarrow> completion_request \<Rightarrow> timeout_budget \<Rightarrow> vendor_call_result pcall" where
  "gemini_complete client r b =
     (let (sys, messages) = split_system ''model'' None (crq_messages r) in
      case tb_overall_deadline_seconds b of
        NaN \<Rightarrow> raise (OtherRaise ValueError)
      | Finite q \<Rightarrow>
          (case client \<lparr>vcl_model = crq_model r, vcl_messages = messages, vcl_system = sys,
              vcl_temperature = crq_temperature r, vcl_max_tokens = crq_max_output_tokens r,
              vcl_timeout = Milliseconds (truncate_rat (q * 1000))\<rparr> of
             Inl e \<Rightarrow> raise (VendorTransportError (extract_gemini_failure e))
           | Inr a \<Rightarrow>
               ret \<lparr>vcr_content = first_text (van_texts a), vcr_model = crq_model r, vcr_token_usage = usage_of a\<rparr>)
      | _ \<Rightarrow> raise (OtherRaise (OtherError ''OverflowError'')))"

section \<open>The fake provider\<close>

definition FAKE_DEFAULT_CONTENT :: string where "FAKE_DEFAULT_CONTENT = ''fake completion''"

definition FAKE_AGENT_TOPIC_DEFAULT :: string where \<open>FAKE_AGENT_TOPIC_DEFAULT =
  ''{"outcome":"topic_selected","selected_topic":"Rust async patterns",'' @
  ''"why_interesting":"Developers debate memory safety versus async ergonomics daily",'' @
  ''"cartoon_angle":"Two crabs fighting over a shell labeled borrow checker",'' @
  ''"scores":{"technical_relevance":0.85,"developer_relevance":0.9,'' @
  ''"discussion_interest":0.75,"humour_potential":0.8,"irony_contradiction":0.6,'' @
  ''"visual_scenario_potential":0.85,"background_knowledge_required":0.4},'' @
  ''"alternatives":[{"topic":"Go generics","rationale":"Also topical but less visual"}]}''\<close>

definition FAKE_AGENT_SCENARIO_DEFAULT :: string where \<open>FAKE_AGENT_SCENARIO_DEFAULT =
  ''{"topic":"Rust async patterns","premise":"Two developers argue about async runtime choices",'' @
  ''"characters":["Alice","Bob"],'' @
  ''"panels":[{"scene":"Office desk","dialogue":"Async is too hard!"},'' @
  ''{"scene":"Office desk","dialogue":"Just use await everywhere!"},'' @
  ''{"scene":"Office desk","dialogue":"That blocks the executor!"}],'' @
  ''"punchline":"They both ship blocking I/O anyway."}''\<close>

definition FAKE_AGENT_CRITIC_PASS_DEFAULT :: string where \<open>FAKE_AGENT_CRITIC_PASS_DEFAULT =
  ''{"status":"PASS","issues":[],"suggested_changes":[]}''\<close>

text \<open>The answer for one message; no answer goes on to the message before it.\<close>

fun stub_for_payload :: "json \<Rightarrow> string option" where
  "stub_for_payload (JList (JObj o1 # _)) =
     (if map_of o1 ''source_id'' \<noteq> None then Some FAKE_AGENT_TOPIC_DEFAULT else None)"
| "stub_for_payload (JObj payload) =
     (if map_of payload ''scenario'' \<noteq> None \<and> map_of payload ''revision_number'' \<noteq> None
        then Some FAKE_AGENT_CRITIC_PASS_DEFAULT
      else if map_of payload ''selected_topic'' \<noteq> None \<and> map_of payload ''cartoon_angle'' \<noteq> None
        then Some FAKE_AGENT_SCENARIO_DEFAULT
      else None)"
| "stub_for_payload _ = None"

definition stub_for_message :: "(string \<Rightarrow> json option) \<Rightarrow> provider_message \<Rightarrow> string option" where
  "stub_for_message json_loads m =
     (let content = strip (pm_content m) in
      if take 1 content \<notin> {''['', ''{''} then None
      else (case json_loads content of None \<Rightarrow> None | Some payload \<Rightarrow> stub_for_payload payload))"

definition default_content_for_request :: "(string \<Rightarrow> json option) \<Rightarrow> completion_request \<Rightarrow> string" where
  "default_content_for_request json_loads r =
     (case List.map_filter (stub_for_message json_loads) (rev (crq_messages r)) of
        [] \<Rightarrow> FAKE_DEFAULT_CONTENT
      | c # _ \<Rightarrow> c)"

definition fake_idle :: fake_program_state where
  "fake_idle = \<lparr>fps_mode = MODE_DEFAULT, fps_next_response = None, fps_next_error = None\<rparr>"

definition set_fake :: "fake_program_state \<Rightarrow> unit pcall" where
  "set_fake f = modifyE (\<lambda>s. s\<lparr>pst_fake := f\<rparr>)"

definition set_next_response :: "generate_response \<Rightarrow> unit pcall" where
  "set_next_response g =
     set_fake \<lparr>fps_mode = MODE_NEXT_RESPONSE, fps_next_response = Some g, fps_next_error = None\<rparr>"

definition set_next_error :: "provider_error \<Rightarrow> unit pcall" where
  "set_next_error e = set_fake \<lparr>fps_mode = MODE_NEXT_ERROR, fps_next_response = None, fps_next_error = Some e\<rparr>"

definition reset_fake :: "unit pcall" where
  "reset_fake = set_fake fake_idle"

definition fake_complete ::
  "(string \<Rightarrow> json option) \<Rightarrow> completion_request \<Rightarrow> timeout_budget \<Rightarrow> vendor_call_result pcall"
where
  "fake_complete json_loads r b =
     bindE (gets pst_fake) (\<lambda>f.
     case fps_mode f of
       MODE_NEXT_RESPONSE \<Rightarrow>
         bindE (set_fake fake_idle) (\<lambda>_.
         case fps_next_response f of
           None \<Rightarrow> raise (OtherRaise (RuntimeError ''programmed response missing''))
         | Some g \<Rightarrow> ret \<lparr>vcr_content = grs_content g, vcr_model = grs_model g, vcr_token_usage = grs_token_usage g\<rparr>)
     | MODE_NEXT_ERROR \<Rightarrow>
         bindE (set_fake fake_idle) (\<lambda>_.
         case fps_next_error f of
           None \<Rightarrow> raise (OtherRaise (RuntimeError ''programmed error missing''))
         | Some e \<Rightarrow> raise (ProviderExn e))
     | MODE_DEFAULT \<Rightarrow>
         ret \<lparr>vcr_content = default_content_for_request json_loads r, vcr_model = crq_model r, vcr_token_usage = None\<rparr>)"

definition fake_generate :: "remote_provider \<Rightarrow> completion_request \<Rightarrow> generate_response pcall" where
  "fake_generate P r =
     bindE (gets (\<lambda>s. if fps_mode (pst_fake s) = MODE_NEXT_RESPONSE then fps_next_response (pst_fake s) else None))
       (\<lambda>programmed.
     bindE (generate P r) (\<lambda>response.
     case programmed of
       Some g \<Rightarrow> ret (response\<lparr>grs_latency_ms := grs_latency_ms g,
                              grs_estimated_cost_usd := grs_estimated_cost_usd g\<rparr>)
     | None \<Rightarrow> ret response))"

section \<open>The factory\<close>

text \<open>The vendor libraries: a client for a key, with the address of the service for Kimi.\<close>

record vendor_sdk =
  sdk_openai :: "string \<Rightarrow> string option \<Rightarrow> vendor_client"
  sdk_anthropic :: "string \<Rightarrow> vendor_client"
  sdk_gemini :: "string \<Rightarrow> vendor_client"
  sdk_phased :: bool
  sdk_json_loads :: "string \<Rightarrow> json option"

definition MOONSHOT_API_BASE_URL :: string where "MOONSHOT_API_BASE_URL = ''https://api.moonshot.ai/v1''"

definition configuration_error :: "string \<Rightarrow> provider_id \<Rightarrow> provider_exn" where
  "configuration_error message p =
     ProviderExn \<lparr>per_type = ProviderConfigurationError, per_message = message, per_provider_id = Some p\<rparr>"

definition resolve_provider_inputs ::
  "config_host \<Rightarrow> concrete_app_config \<Rightarrow> provider_id \<Rightarrow> provider_exn + provider_config \<times> loaded_timeout \<times> string"
where
  "resolve_provider_inputs H c p =
     (case loaded_provider_config c p of
        Inl e \<Rightarrow> Inl (configuration_error (configuration_error_message p ''not configured'') p)
      | Inr provider_config \<Rightarrow>
          (case dict_get (cac_timeouts c) p of
             None \<Rightarrow> Inl (configuration_error (configuration_error_message p ''timeout config missing'') p)
           | Some timeout_config \<Rightarrow>
               if p = FAKE then Inr (provider_config, timeout_config, '''')
               else (case resolve_credential H (pvc_api_key_env provider_config) of
                       Inl e \<Rightarrow> Inl (configuration_error
                         (''PRV_CONFIG: missing credential env '' @ pvc_api_key_env provider_config
                          @ '' for provider '' @ provider_value p) p)
                     | Inr api_key \<Rightarrow> Inr (provider_config, timeout_config, api_key))))"

fun transport_for :: "vendor_sdk \<Rightarrow> provider_id \<Rightarrow> string \<Rightarrow> completion_request \<Rightarrow> timeout_budget \<Rightarrow> vendor_call_result pcall" where
  "transport_for K FAKE api_key = fake_complete (sdk_json_loads K)"
| "transport_for K OPENAI api_key = openai_complete (sdk_phased K) (sdk_openai K api_key None)"
| "transport_for K ANTHROPIC api_key = anthropic_complete (sdk_anthropic K api_key)"
| "transport_for K GEMINI api_key = gemini_complete (sdk_gemini K api_key)"
| "transport_for K KIMI api_key = openai_complete (sdk_phased K) (sdk_openai K api_key (Some MOONSHOT_API_BASE_URL))"

definition build_adapter ::
  "vendor_sdk \<Rightarrow> (nat \<Rightarrow> rat) \<Rightarrow> injection_registry option \<Rightarrow> provider_id \<Rightarrow> provider_config \<Rightarrow> loaded_timeout \<Rightarrow> string \<Rightarrow> remote_provider pcall"
where
  "build_adapter K clock registry p provider_config timeout_config api_key =
     bindE (monotonic clock) (\<lambda>now.
     bindE (modifyE (\<lambda>s. s\<lparr>pst_limiter := create_limiter (pvc_rate_limit_per_minute provider_config) now,
                           pst_fake := fake_idle\<rparr>)) (\<lambda>_.
     ret \<lparr>rmp_provider_id = p, rmp_pricing = pvc_pricing provider_config, rmp_timeout_config = timeout_config,
          rmp_registry = registry, rmp_transport = transport_for K p api_key, rmp_clock = clock\<rparr>))"

definition create_provider ::
  "vendor_sdk \<Rightarrow> config_host \<Rightarrow> (nat \<Rightarrow> rat) \<Rightarrow> injection_registry option \<Rightarrow> concrete_app_config \<Rightarrow> provider_id \<Rightarrow> remote_provider pcall"
where
  "create_provider K H clock registry c p =
     (case resolve_provider_inputs H c p of
        Inl e \<Rightarrow> raise e
      | Inr (provider_config, timeout_config, api_key) \<Rightarrow>
          build_adapter K clock registry p provider_config timeout_config api_key)"

text \<open>The method of the adapter: the fake overrides it.\<close>

definition provider_generate :: "remote_provider \<Rightarrow> completion_request \<Rightarrow> generate_response pcall" where
  "provider_generate P r = (if rmp_provider_id P = FAKE then fake_generate P r else generate P r)"

text \<open>The extraction by vendor, as the stub transport selects it.\<close>

fun extract_failure :: "provider_id \<Rightarrow> vendor_exn \<Rightarrow> vendor_failure_signal" where
  "extract_failure OPENAI e = extract_openai_failure e"
| "extract_failure KIMI e = extract_openai_failure e"
| "extract_failure ANTHROPIC e = extract_anthropic_failure e"
| "extract_failure GEMINI e = extract_gemini_failure e"
| "extract_failure FAKE e =
     (signal_of '''')\<lparr>vfs_vendor_message := None, vfs_exception_type := Some (exception_fqn e)\<rparr>"

datatype stub_outcome = StubResult vendor_call_result | StubProviderError provider_error
  | StubSignal vendor_failure_signal | StubException vendor_exn | StubUnsupported

definition stub_complete ::
  "provider_id option \<Rightarrow> (completion_request \<Rightarrow> stub_outcome) \<Rightarrow> completion_request \<Rightarrow> timeout_budget \<Rightarrow> vendor_call_result pcall"
where
  "stub_complete p outcome r b =
     (case outcome r of
        StubResult v \<Rightarrow> ret v
      | StubProviderError e \<Rightarrow> raise (ProviderExn e)
      | StubSignal sig \<Rightarrow> raise (VendorTransportError sig)
      | StubException e \<Rightarrow> raise (VendorTransportError (extract_failure (case p of Some q \<Rightarrow> q | None \<Rightarrow> OPENAI) e))
      | StubUnsupported \<Rightarrow> raise (OtherRaise TypeError))"

end
