(* ===== verification/Postgres.thy ===== *)
theory Postgres
  imports Leases Stage_Handlers "HOL-Library.Sublist"
begin

text \<open>
  The production repositories (\<open>persistence/repos/\<close>) over PostgreSQL, with the session and
  transaction of \<open>session.py\<close>, \<open>transaction.py\<close> and \<open>pool.py\<close> and the error translation of
  \<open>errors_internal.py\<close>.

  The tables are those of \<open>migrations/persistence/001_initial.sql\<close>, as lists of the row types of
  \<open>_mappers.py\<close> in the order of insertion; each SQL statement of the repositories is a function on
  them that either fails with the error of a violated constraint or returns its rows with the new
  tables. The driver may fail at any call: \<open>pge_fault\<close> says which call fails and how. Rows that an
  \<open>ORDER BY\<close> leaves tied come in the order \<open>pge_place\<close> gives them. As PostgreSQL does, a failed
  statement aborts the transaction: later statements are refused, and the commit rolls back. Other
  sessions and their interleaving are not modelled.
\<close>

section \<open>Rows and tables\<close>

record workflow_row =
  wr_workflow_id :: string
  wr_state :: string
  wr_state_version :: int
  wr_created_at :: datetime
  wr_updated_at :: datetime
  wr_revision_count :: int
  wr_failure_reason :: "string option"

record workflow_transition_row =
  wtr_transition_id :: string
  wtr_workflow_id :: string
  wtr_from_state :: string
  wtr_to_state :: string
  wtr_reason :: string
  wtr_occurred_at :: datetime
  wtr_actor :: "string option"

record task_payload_row =
  tpr_ref_id :: string
  tpr_payload :: json
  tpr_created_at :: datetime

record task_row =
  tkr_task_id :: string
  tkr_workflow_id :: string
  tkr_task_type :: string
  tkr_status :: string
  tkr_attempt :: int
  tkr_payload_ref_id :: string
  tkr_payload_ref_kind :: string
  tkr_idempotency_key :: string
  tkr_created_at :: datetime
  tkr_updated_at :: datetime
  tkr_failure_reason :: "string option"
  tkr_completed_at :: "datetime option"

record artifact_row =
  arr_artifact_id :: string
  arr_workflow_id :: string
  arr_artifact_type :: string
  arr_name :: string
  arr_version :: int
  arr_logical_version :: int
  arr_is_active :: bool
  arr_created_at :: datetime
  arr_content_hash :: "string option"

record artifact_content_row =
  acr_artifact_id :: string
  acr_content :: json
  acr_created_at :: datetime

record idempotency_row =
  idr_idempotency_key :: string
  idr_workflow_id :: string
  idr_task_id :: string
  idr_completed_at :: datetime
  idr_result_artifact_id :: "string option"

record outbox_row =
  obw_outbox_id :: string
  obw_workflow_id :: string
  obw_task_id :: string
  obw_task_type :: string
  obw_payload_ref_id :: string
  obw_payload_ref_kind :: string
  obw_idempotency_key :: string
  obw_status :: string
  obw_created_at :: datetime
  obw_published_at :: "datetime option"

record task_lease_row =
  ler_lease_id :: string
  ler_task_id :: string
  ler_worker_id :: string
  ler_acquired_at :: datetime
  ler_expires_at :: datetime

record ai_invocation_row =
  air_invocation_id :: string
  air_workflow_id :: string
  air_task_id :: string
  air_agent_name :: string
  air_agent_version :: string
  air_prompt_version :: string
  air_provider :: string
  air_model :: string
  air_input_artifact_id :: "string option"
  air_output_artifact_id :: "string option"
  air_attempt :: int
  air_started_at :: datetime
  air_completed_at :: "datetime option"
  air_status :: string
  air_input_tokens :: "int option"
  air_output_tokens :: "int option"
  air_estimated_cost_usd :: "rat option"

record pg_tables =
  t_workflows :: "workflow_row list"
  t_transitions :: "workflow_transition_row list"
  t_payloads :: "task_payload_row list"
  t_tasks :: "task_row list"
  t_artifacts :: "artifact_row list"
  t_contents :: "artifact_content_row list"
  t_idempotency :: "idempotency_row list"
  t_outbox :: "outbox_row list"
  t_leases :: "task_lease_row list"
  t_invocations :: "ai_invocation_row list"

section \<open>Errors of the driver\<close>

text \<open>
  An exception of psycopg: its class name, whether it is an \<open>OperationalError\<close>, a
  \<open>SerializationFailure\<close>, an \<open>InternalError\<close> or a \<open>PoolTimeout\<close>, and its text. \<open>SerializationFailure\<close> is a
  subclass of \<open>OperationalError\<close> there, \<open>InFailedSqlTransaction\<close> one of \<open>InternalError\<close>.
\<close>

record db_error =
  dbe_class :: string
  dbe_operational :: bool
  dbe_serialization :: bool
  dbe_internal :: bool
  dbe_timeout :: bool
  dbe_message :: string

definition integrity_error :: "string \<Rightarrow> string \<Rightarrow> db_error" where
  "integrity_error cls message =
     \<lparr>dbe_class = cls, dbe_operational = False, dbe_serialization = False, dbe_internal = False, dbe_timeout = False,
      dbe_message = message\<rparr>"

definition unique_violation :: db_error where
  "unique_violation = integrity_error ''UniqueViolation'' ''duplicate key value violates unique constraint''"

definition foreign_key_violation :: db_error where
  "foreign_key_violation = integrity_error ''ForeignKeyViolation'' ''insert or update violates foreign key constraint''"

definition out_of_range :: db_error where
  "out_of_range = integrity_error ''NumericValueOutOfRange'' ''integer out of range''"

definition negative_limit :: db_error where
  "negative_limit = integrity_error ''InvalidRowCountInLimitClause'' ''LIMIT must not be negative''"

definition in_failed_transaction :: db_error where
  "in_failed_transaction =
     \<lparr>dbe_class = ''InFailedSqlTransaction'', dbe_operational = False, dbe_serialization = False, dbe_internal = True,
      dbe_timeout = False, dbe_message = ''current transaction is aborted, commands ignored until end of transaction block''\<rparr>"

section \<open>Statements\<close>

type_synonym 'a stmt = "pg_tables \<Rightarrow> db_error + ('a \<times> pg_tables)"

definition int4 :: "int \<Rightarrow> bool" where
  "int4 i \<longleftrightarrow> - (2 ^ 31) \<le> i \<and> i < 2 ^ 31"

text \<open>An \<open>INSERT\<close>: integers in range, then unique keys, then foreign keys.\<close>

definition insert_into ::
  "int list \<Rightarrow> bool \<Rightarrow> bool \<Rightarrow> (pg_tables \<Rightarrow> pg_tables) \<Rightarrow> unit stmt"
where
  "insert_into integers taken dangling put t =
     (if \<not> list_all int4 integers then Inl out_of_range
      else if taken then Inl unique_violation
      else if dangling then Inl foreign_key_violation
      else Inr ((), put t))"

definition has_workflow :: "string \<Rightarrow> pg_tables \<Rightarrow> bool" where
  "has_workflow wid t = list_ex (\<lambda>r. wr_workflow_id r = wid) (t_workflows t)"

text \<open>\<open>WORKFLOWS\<close>: the row of a workflow; its key is primary, so there is at most one.\<close>

definition WORKFLOWS :: "string \<Rightarrow> workflow_row option stmt" where
  "WORKFLOWS wid t = Inr (find (\<lambda>r. wr_workflow_id r = wid) (t_workflows t), t)"

definition insert_workflow :: "workflow_row \<Rightarrow> unit stmt" where
  "insert_workflow r t =
     insert_into [wr_state_version r, wr_revision_count r] (has_workflow (wr_workflow_id r) t) False
       (\<lambda>t. t\<lparr>t_workflows := t_workflows t @ [r]\<rparr>) t"

definition update_where :: "('r \<Rightarrow> bool) \<Rightarrow> ('r \<Rightarrow> 'r) \<Rightarrow> 'r list \<Rightarrow> 'r list" where
  "update_where P f rows = map (\<lambda>r. if P r then f r else r) rows"

definition update_workflow ::
  "string \<Rightarrow> datetime \<Rightarrow> string option \<Rightarrow> string \<Rightarrow> int \<Rightarrow> workflow_row option stmt"
where
  "update_workflow state now failure_reason wid expected_version t =
     (let P = (\<lambda>r. wr_workflow_id r = wid \<and> wr_state_version r = expected_version);
          f = (\<lambda>r. r\<lparr>wr_state := state, wr_state_version := wr_state_version r + 1, wr_updated_at := now,
                      wr_failure_reason := failure_reason\<rparr>)
      in if \<not> int4 expected_version \<or> list_ex (\<lambda>r. P r \<and> \<not> int4 (wr_state_version r + 1)) (t_workflows t)
         then Inl out_of_range
         else Inr (map_option f (find P (t_workflows t)), t\<lparr>t_workflows := update_where P f (t_workflows t)\<rparr>))"

definition WORKFLOW_TRANSITIONS :: "workflow_transition_row \<Rightarrow> unit stmt" where
  "WORKFLOW_TRANSITIONS r t =
     insert_into [] (list_ex (\<lambda>x. wtr_transition_id x = wtr_transition_id r) (t_transitions t))
       (\<not> has_workflow (wtr_workflow_id r) t) (\<lambda>t. t\<lparr>t_transitions := t_transitions t @ [r]\<rparr>) t"

text \<open>\<open>ORDER BY occurred_at, id\<close>: the identifiers count the insertions.\<close>

definition select_transitions :: "string \<Rightarrow> workflow_transition_row list stmt" where
  "select_transitions wid t =
     Inr (sort_key wtr_occurred_at (filter (\<lambda>r. wtr_workflow_id r = wid) (t_transitions t)), t)"

definition TASK_PAYLOADS :: "task_payload_row \<Rightarrow> unit stmt" where
  "TASK_PAYLOADS r t =
     insert_into [] (list_ex (\<lambda>x. tpr_ref_id x = tpr_ref_id r) (t_payloads t)) False
       (\<lambda>t. t\<lparr>t_payloads := t_payloads t @ [r]\<rparr>) t"

text \<open>The foreign key to \<open>task_payloads\<close> is deferred to the commit.\<close>

definition TASKS :: "task_row \<Rightarrow> unit stmt" where
  "TASKS r t =
     insert_into [tkr_attempt r] (list_ex (\<lambda>x. tkr_task_id x = tkr_task_id r) (t_tasks t))
       (\<not> has_workflow (tkr_workflow_id r) t) (\<lambda>t. t\<lparr>t_tasks := t_tasks t @ [r]\<rparr>) t"

definition select_task :: "string \<Rightarrow> task_row option stmt" where
  "select_task tid t = Inr (find (\<lambda>r. tkr_task_id r = tid) (t_tasks t), t)"

definition update_task_row ::
  "string \<Rightarrow> datetime \<Rightarrow> int option \<Rightarrow> string option \<Rightarrow> datetime option \<Rightarrow> string \<Rightarrow> task_row option stmt"
where
  "update_task_row status now attempt failure_reason completed_at tid t =
     (let P = (\<lambda>r. tkr_task_id r = tid);
          f = (\<lambda>r. r\<lparr>tkr_status := status, tkr_updated_at := now,
                      tkr_attempt := (case attempt of None \<Rightarrow> tkr_attempt r | Some a \<Rightarrow> a),
                      tkr_failure_reason := (case failure_reason of None \<Rightarrow> tkr_failure_reason r | Some x \<Rightarrow> Some x),
                      tkr_completed_at := (case completed_at of None \<Rightarrow> tkr_completed_at r | Some x \<Rightarrow> Some x)\<rparr>)
      in if \<not> pred_option int4 attempt then Inl out_of_range
         else Inr (map_option f (find P (t_tasks t)), t\<lparr>t_tasks := update_where P f (t_tasks t)\<rparr>))"

definition select_payload :: "string \<Rightarrow> json option stmt" where
  "select_payload rid t = Inr (map_option tpr_payload (find (\<lambda>r. tpr_ref_id r = rid) (t_payloads t)), t)"

definition same_artifact_slot :: "string \<Rightarrow> string \<Rightarrow> artifact_row \<Rightarrow> bool" where
  "same_artifact_slot wid ty r \<longleftrightarrow> arr_workflow_id r = wid \<and> arr_artifact_type r = ty"

text \<open>Three unique constraints: the key, the version in its slot, one active artifact per slot.\<close>

definition ARTIFACTS :: "artifact_row \<Rightarrow> unit stmt" where
  "ARTIFACTS r t =
     (let slot = same_artifact_slot (arr_workflow_id r) (arr_artifact_type r) in
      insert_into [arr_version r, arr_logical_version r]
        (list_ex (\<lambda>x. arr_artifact_id x = arr_artifact_id r
            \<or> slot x \<and> (arr_version x = arr_version r \<or> arr_is_active x \<and> arr_is_active r)) (t_artifacts t))
        (\<not> has_workflow (arr_workflow_id r) t) (\<lambda>t. t\<lparr>t_artifacts := t_artifacts t @ [r]\<rparr>) t)"

definition deactivate_artifacts :: "string \<Rightarrow> string \<Rightarrow> unit stmt" where
  "deactivate_artifacts wid ty t =
     Inr ((), t\<lparr>t_artifacts := update_where (\<lambda>r. same_artifact_slot wid ty r \<and> arr_is_active r)
       (\<lambda>r. r\<lparr>arr_is_active := False\<rparr>) (t_artifacts t)\<rparr>)"

definition ARTIFACT_CONTENT :: "artifact_content_row \<Rightarrow> unit stmt" where
  "ARTIFACT_CONTENT r t =
     insert_into [] (list_ex (\<lambda>x. acr_artifact_id x = acr_artifact_id r) (t_contents t))
       (\<not> list_ex (\<lambda>x. arr_artifact_id x = acr_artifact_id r) (t_artifacts t))
       (\<lambda>t. t\<lparr>t_contents := t_contents t @ [r]\<rparr>) t"

definition select_artifact :: "string \<Rightarrow> artifact_row option stmt" where
  "select_artifact aid t = Inr (find (\<lambda>r. arr_artifact_id r = aid) (t_artifacts t), t)"

definition select_content :: "string \<Rightarrow> json option stmt" where
  "select_content aid t = Inr (map_option acr_content (find (\<lambda>r. acr_artifact_id r = aid) (t_contents t)), t)"

text \<open>Rows without a total order: \<open>place\<close> is where the plan finds the row inserted as number \<open>i\<close>.\<close>

definition scan_order :: "(nat \<Rightarrow> nat) \<Rightarrow> 'r list \<Rightarrow> 'r list" where
  "scan_order place rows = map snd (sort_key (\<lambda>(i, r). place i) (enumerate 0 rows))"

definition select_artifacts :: "(nat \<Rightarrow> nat) \<Rightarrow> string \<Rightarrow> string option \<Rightarrow> bool \<Rightarrow> artifact_row list stmt" where
  "select_artifacts place wid ty active_only t =
     Inr (sort_key arr_version (filter (\<lambda>r. arr_workflow_id r = wid
            \<and> (case ty of None \<Rightarrow> True | Some x \<Rightarrow> arr_artifact_type r = x) \<and> (active_only \<longrightarrow> arr_is_active r))
          (scan_order place (t_artifacts t))), t)"

text \<open>\<open>NUMERIC(12, 6)\<close>: six digits before the point, halves rounded away from zero.\<close>

definition numeric_12_6 :: "rat \<Rightarrow> rat" where
  "numeric_12_6 x =
     (let m = \<lfloor>\<bar>x\<bar> * 1000000 + 1 / 2\<rfloor> in (if x < 0 then - of_int m else of_int m) / 1000000)"

definition numeric_fits :: "rat \<Rightarrow> bool" where
  "numeric_fits x \<longleftrightarrow> \<bar>numeric_12_6 x\<bar> < 1000000"

definition AI_INVOCATIONS :: "ai_invocation_row \<Rightarrow> unit stmt" where
  "AI_INVOCATIONS r t =
     (if \<not> pred_option numeric_fits (air_estimated_cost_usd r) then Inl out_of_range
      else insert_into (air_attempt r # map the (filter (\<lambda>x. x \<noteq> None) [air_input_tokens r, air_output_tokens r]))
             (list_ex (\<lambda>x. air_invocation_id x = air_invocation_id r) (t_invocations t)) False
             (\<lambda>t. t\<lparr>t_invocations := t_invocations t
                @ [r\<lparr>air_estimated_cost_usd := map_option numeric_12_6 (air_estimated_cost_usd r)\<rparr>]\<rparr>) t)"

definition select_invocations :: "(nat \<Rightarrow> nat) \<Rightarrow> string \<Rightarrow> string option \<Rightarrow> ai_invocation_row list stmt" where
  "select_invocations place wid task_id t =
     Inr (sort_key air_started_at (filter (\<lambda>r. air_workflow_id r = wid
            \<and> (case task_id of None \<Rightarrow> True | Some x \<Rightarrow> air_task_id r = x)) (scan_order place (t_invocations t))), t)"

text \<open>\<open>ON CONFLICT DO NOTHING RETURNING\<close>: the row when it was inserted.\<close>

definition IDEMPOTENCY_TRY_INSERT :: "idempotency_row \<Rightarrow> idempotency_row option stmt" where
  "IDEMPOTENCY_TRY_INSERT r t =
     (if list_ex (\<lambda>x. idr_idempotency_key x = idr_idempotency_key r) (t_idempotency t) then Inr (None, t)
      else Inr (Some r, t\<lparr>t_idempotency := t_idempotency t @ [r]\<rparr>))"

definition select_key :: "string \<Rightarrow> idempotency_row option stmt" where
  "select_key key t = Inr (find (\<lambda>r. idr_idempotency_key r = key) (t_idempotency t), t)"

definition OUTBOX :: "outbox_row \<Rightarrow> unit stmt" where
  "OUTBOX r t =
     insert_into [] (list_ex (\<lambda>x. obw_outbox_id x = obw_outbox_id r) (t_outbox t)) False
       (\<lambda>t. t\<lparr>t_outbox := t_outbox t @ [r]\<rparr>) t"

definition select_outbox :: "(nat \<Rightarrow> nat) \<Rightarrow> string \<Rightarrow> int \<Rightarrow> outbox_row list stmt" where
  "select_outbox place status limit t =
     (if limit < 0 then Inl negative_limit
      else Inr (take (nat limit) (sort_key obw_created_at (filter (\<lambda>r. obw_status r = status)
             (scan_order place (t_outbox t)))), t))"

definition select_outbox_entry :: "string \<Rightarrow> outbox_row option stmt" where
  "select_outbox_entry oid t = Inr (find (\<lambda>r. obw_outbox_id r = oid) (t_outbox t), t)"

definition update_outbox :: "string \<Rightarrow> datetime \<Rightarrow> string \<Rightarrow> string \<Rightarrow> outbox_row option stmt" where
  "update_outbox published published_at oid pending t =
     (let P = (\<lambda>r. obw_outbox_id r = oid \<and> obw_status r = pending);
          f = (\<lambda>r. r\<lparr>obw_status := published, obw_published_at := Some published_at\<rparr>)
      in Inr (map_option f (find P (t_outbox t)), t\<lparr>t_outbox := update_where P f (t_outbox t)\<rparr>))"

text \<open>A lease: its key is primary, and the index on the task is unique.\<close>

definition TASK_LEASES :: "task_lease_row \<Rightarrow> unit stmt" where
  "TASK_LEASES r t =
     insert_into [] (list_ex (\<lambda>x. ler_lease_id x = ler_lease_id r \<or> ler_task_id x = ler_task_id r) (t_leases t)) False
       (\<lambda>t. t\<lparr>t_leases := t_leases t @ [r]\<rparr>) t"

definition delete_expired_leases :: "string \<Rightarrow> datetime \<Rightarrow> unit stmt" where
  "delete_expired_leases tid now t =
     Inr ((), t\<lparr>t_leases := filter (\<lambda>r. \<not> (ler_task_id r = tid \<and> ler_expires_at r < now)) (t_leases t)\<rparr>)"

definition delete_lease :: "string \<Rightarrow> unit stmt" where
  "delete_lease lid t = Inr ((), t\<lparr>t_leases := filter (\<lambda>r. ler_lease_id r \<noteq> lid) (t_leases t)\<rparr>)"

definition update_lease :: "datetime \<Rightarrow> string \<Rightarrow> datetime \<Rightarrow> task_lease_row option stmt" where
  "update_lease expires_at lid now t =
     (let P = (\<lambda>r. ler_lease_id r = lid \<and> now < ler_expires_at r); f = (\<lambda>r. r\<lparr>ler_expires_at := expires_at\<rparr>)
      in Inr (map_option f (find P (t_leases t)), t\<lparr>t_leases := update_where P f (t_leases t)\<rparr>))"

definition select_active_lease :: "string \<Rightarrow> datetime \<Rightarrow> task_lease_row option stmt" where
  "select_active_lease tid now t = Inr (find (\<lambda>r. ler_task_id r = tid \<and> now < ler_expires_at r) (t_leases t), t)"

section \<open>Session and driver\<close>

datatype pg_exn = Driver db_error | PersConnection string | Pers exn | TimeoutExn

text \<open>
  \<open>pge_lost\<close>: whether a commit that failed took effect all the same, when the connection broke
  before the answer arrived.
\<close>

record pg_env =
  pge_env :: env
  pge_fault :: "nat \<Rightarrow> db_error option"
  pge_lost :: "nat \<Rightarrow> bool"
  pge_place :: "nat \<Rightarrow> nat \<Rightarrow> nat"

text \<open>
  \<open>pgs_session\<close> is the active session with the tables at \<open>BEGIN\<close>; \<open>pgs_aborted\<close> marks a transaction in
  which a statement has failed.
\<close>

record pg_state =
  pgs_tables :: pg_tables
  pgs_session :: "pg_tables option"
  pgs_aborted :: bool
  pgs_calls :: nat
  pgs_ticks :: nat

type_synonym 'a pgm = "(pg_exn, pg_state, 'a) py"

definition pg_now :: "pg_env \<Rightarrow> datetime pgm" where
  "pg_now E s = (Inr (env_now (pge_env E) (pgs_ticks s)), s\<lparr>pgs_ticks := Suc (pgs_ticks s)\<rparr>)"

definition pg_uuid :: "pg_env \<Rightarrow> string pgm" where
  "pg_uuid E s = (Inr (env_uuid (pge_env E) (pgs_ticks s)), s\<lparr>pgs_ticks := Suc (pgs_ticks s)\<rparr>)"

definition driver_call :: "pg_env \<Rightarrow> unit pgm" where
  "driver_call E s =
     (let s' = s\<lparr>pgs_calls := Suc (pgs_calls s)\<rparr>
      in case pge_fault E (pgs_calls s) of None \<Rightarrow> (Inr (), s') | Some d \<Rightarrow> (Inl (Driver d), s'))"

definition execute :: "pg_env \<Rightarrow> 'a stmt \<Rightarrow> 'a pgm" where
  "execute E st s =
     (if pgs_aborted s then (Inl (Driver in_failed_transaction), s)
      else case driver_call E s of
        (Inl x, s1) \<Rightarrow> (Inl x, s1\<lparr>pgs_aborted := True\<rparr>)
      | (Inr _, s1) \<Rightarrow>
          (case st (pgs_tables s1) of
             Inl d \<Rightarrow> (Inl (Driver d), s1\<lparr>pgs_aborted := True\<rparr>)
           | Inr (a, t) \<Rightarrow> (Inr a, s1\<lparr>pgs_tables := t\<rparr>)))"

text \<open>A \<open>SELECT\<close> whose rows come in the order of this call.\<close>

definition execute_scan :: "pg_env \<Rightarrow> ((nat \<Rightarrow> nat) \<Rightarrow> 'a stmt) \<Rightarrow> 'a pgm" where
  "execute_scan E st s = execute E (st (pge_place E (pgs_calls s))) s"

definition pg_in_transaction :: "pg_state \<Rightarrow> bool" where
  "pg_in_transaction s \<longleftrightarrow> pgs_session s \<noteq> None"

definition deferred_ok :: "pg_tables \<Rightarrow> bool" where
  "deferred_ok t =
     list_all (\<lambda>r. list_ex (\<lambda>p. tpr_ref_id p = tkr_payload_ref_id r) (t_payloads t)) (t_tasks t)"

text \<open>
  The end of a transaction that began with the tables \<open>t0\<close>: \<open>COMMIT\<close> of an aborted one rolls back without
  an error.
\<close>

definition commit_connection :: "pg_env \<Rightarrow> pg_tables \<Rightarrow> unit pgm" where
  "commit_connection E t0 s =
     (if pgs_aborted s then (Inr (), s\<lparr>pgs_tables := t0, pgs_aborted := False\<rparr>)
      else case driver_call E s of
        (Inl x, s1) \<Rightarrow> (Inl x, if pge_lost E (pgs_calls s) \<and> deferred_ok (pgs_tables s1) then s1 else s1\<lparr>pgs_tables := t0\<rparr>)
      | (Inr _, s1) \<Rightarrow>
          if deferred_ok (pgs_tables s1) then (Inr (), s1)
          else (Inl (Driver foreign_key_violation), s1\<lparr>pgs_tables := t0\<rparr>))"

definition rollback_connection :: "pg_env \<Rightarrow> pg_tables \<Rightarrow> unit pgm" where
  "rollback_connection E t0 s =
     (case driver_call E s of (r, s1) \<Rightarrow> (r, s1\<lparr>pgs_tables := t0, pgs_aborted := False\<rparr>))"

definition acquire_error :: "pg_exn \<Rightarrow> pg_exn" where
  "acquire_error x =
     (case x of
        TimeoutExn \<Rightarrow> PersConnection ''acquire''
      | Driver d \<Rightarrow> if dbe_timeout d then PersConnection ''acquire'' else x
      | _ \<Rightarrow> x)"

text \<open>\<open>with pool.connection()\<close>: commits when the body returns and rolls back when it raises.\<close>

definition pool_connection :: "pg_env \<Rightarrow> 'a pgm \<Rightarrow> 'a pgm" where
  "pool_connection E body s =
     (case driver_call E s of
        (Inl x, s1) \<Rightarrow> (Inl (acquire_error x), s1)
      | (Inr _, s1) \<Rightarrow>
          (case body s1 of
             (Inr a, s2) \<Rightarrow>
               (case commit_connection E (pgs_tables s) s2 of
                  (Inr _, s3) \<Rightarrow> (Inr a, s3) | (Inl x, s3) \<Rightarrow> (Inl (acquire_error x), s3))
           | (Inl x, s2) \<Rightarrow> (Inl (acquire_error x), s2\<lparr>pgs_tables := pgs_tables s, pgs_aborted := False\<rparr>)))"

definition borrow_connection :: "pg_env \<Rightarrow> 'a pgm \<Rightarrow> 'a pgm" where
  "borrow_connection E body s = (if pg_in_transaction s then body s else pool_connection E body s)"

definition health_check :: "pg_env \<Rightarrow> unit pgm" where
  "health_check E s =
     (case pool_connection E (execute E (\<lambda>t. Inr ((), t))) s of
        (Inr _, s') \<Rightarrow> (Inr (), s') | (Inl _, s') \<Rightarrow> (Inl (PersConnection ''health_check''), s'))"

section \<open>Translation of errors\<close>

definition CONNECTION_CLASS_NAMES :: "string list" where
  "CONNECTION_CLASS_NAMES = [''OperationalError'', ''InterfaceError'', ''ConnectionException'', ''ConnectionDoesNotExist'',
     ''ConnectionFailure'', ''ConnectionTimeout'', ''CannotConnectNow'']"

definition TRANSACTION_CLASS_NAMES :: "string list" where
  "TRANSACTION_CLASS_NAMES = [''InternalError'', ''InFailedSqlTransaction'']"

definition mentions_end :: "string \<Rightarrow> bool" where
  "mentions_end s \<longleftrightarrow> sublist ''commit'' s \<or> sublist ''rollback'' s"

text \<open>The part of the text of a \<open>PersistenceError\<close> that is not fixed.\<close>

fun persistence_text :: "exn \<Rightarrow> string" where
  "persistence_text (PersistenceValidationError t) = t" | "persistence_text (PersistenceConflictError t) = t"
| "persistence_text (PersistenceNotFoundError t) = t" | "persistence_text (PersistenceDuplicateError t) = t" | "persistence_text _ = ''''"

fun is_transaction_failure :: "pg_exn \<Rightarrow> string \<Rightarrow> bool" where
  "is_transaction_failure (Driver d) operation \<longleftrightarrow>
     mentions_end (lower (dbe_message d))
     \<or> mentions_end operation \<and> (dbe_internal d \<or> dbe_class d \<in> set TRANSACTION_CLASS_NAMES)"
| "is_transaction_failure (Pers e) operation \<longleftrightarrow> mentions_end (lower (persistence_text e))"
| "is_transaction_failure (PersConnection c) operation \<longleftrightarrow> mentions_end (lower c)"
| "is_transaction_failure TimeoutExn operation \<longleftrightarrow> False"

fun is_serialization :: "pg_exn \<Rightarrow> bool" where
  "is_serialization (Driver d) \<longleftrightarrow> dbe_serialization d \<or> dbe_class d = ''SerializationFailure''"
| "is_serialization _ \<longleftrightarrow> False"

fun is_connection_failure :: "pg_exn \<Rightarrow> bool" where
  "is_connection_failure (Driver d) \<longleftrightarrow> dbe_operational d \<or> dbe_class d \<in> set CONNECTION_CLASS_NAMES"
| "is_connection_failure _ \<longleftrightarrow> False"

definition translate :: "pg_exn \<Rightarrow> string \<Rightarrow> string option \<Rightarrow> pg_exn" where
  "translate x operation entity_id =
     (if is_serialization x then Pers (PersistenceConflictError (case entity_id of None \<Rightarrow> '''' | Some e \<Rightarrow> e))
      else if is_connection_failure x then PersConnection operation
      else if is_transaction_failure x operation then Pers (PersistenceTransactionError operation)
      else PersConnection operation)"

section \<open>Transaction manager\<close>

definition pg_transaction :: "pg_env \<Rightarrow> 'a pgm \<Rightarrow> 'a pgm" where
  "pg_transaction E body s =
     (if pg_in_transaction s then (Inl (Pers (PersistenceTransactionError ''Nested transaction not supported'')), s)
      else case bindE (driver_call E) (\<lambda>_. driver_call E) s of
        (Inl x, s1) \<Rightarrow> (Inl (acquire_error x), s1)
      | (Inr _, s1) \<Rightarrow>
          (let t0 = pgs_tables s1 in
           case body (s1\<lparr>pgs_session := Some t0\<rparr>) of
             (Inr a, s2) \<Rightarrow>
               (case commit_connection E t0 s2 of
                  (Inr _, s3) \<Rightarrow> (Inr a, s3\<lparr>pgs_session := None\<rparr>)
                | (Inl x, s3) \<Rightarrow> (Inl (translate x ''commit'' None), s3\<lparr>pgs_session := None\<rparr>))
           | (Inl x, s2) \<Rightarrow>
               (case rollback_connection E t0 s2 of
                  (Inr _, s3) \<Rightarrow> (Inl (acquire_error x), s3\<lparr>pgs_session := None\<rparr>)
                | (Inl y, s3) \<Rightarrow> (Inl (translate y ''rollback'' None), s3\<lparr>pgs_session := None\<rparr>))))"

section \<open>Helpers of the repositories\<close>

definition require_active_transaction :: "string \<Rightarrow> unit pgm" where
  "require_active_transaction operation s =
     (if pg_in_transaction s then (Inr (), s) else (Inl (Pers (PersistenceTransactionError operation)), s))"

text \<open>\<open>except Exception: self._raise_mapped(...)\<close>, after the clauses that let \<open>passing\<close> exceptions through.\<close>

definition mapped :: "(pg_exn \<Rightarrow> bool) \<Rightarrow> string \<Rightarrow> string option \<Rightarrow> 'a pgm \<Rightarrow> 'a pgm" where
  "mapped passing operation entity_id m =
     catchE m (\<lambda>x. raise (if passing x then x else translate x operation entity_id))"

fun is_not_found :: "pg_exn \<Rightarrow> bool" where
  "is_not_found (Pers (PersistenceNotFoundError _)) = True" | "is_not_found _ = False"

fun is_unique_violation :: "pg_exn \<Rightarrow> bool" where
  "is_unique_violation (Driver d) \<longleftrightarrow> dbe_class d = ''UniqueViolation''" | "is_unique_violation _ \<longleftrightarrow> False"

section \<open>Row mapper\<close>

fun task_status_value :: "task_status \<Rightarrow> string" where
  "task_status_value TS_PENDING = ''PENDING''" | "task_status_value TS_DISPATCHED = ''DISPATCHED''"
| "task_status_value TS_IN_PROGRESS = ''IN_PROGRESS''" | "task_status_value TS_COMPLETED = ''COMPLETED''"
| "task_status_value TS_FAILED = ''FAILED''" | "task_status_value TS_DEAD_LETTER = ''DEAD_LETTER''"

fun outbox_status_value :: "outbox_status \<Rightarrow> string" where
  "outbox_status_value OB_PENDING = ''PENDING''" | "outbox_status_value OB_PUBLISHED = ''PUBLISHED''"

definition enum_from_db :: "('e \<Rightarrow> string) \<Rightarrow> 'e list \<Rightarrow> string \<Rightarrow> 'e pgm" where
  "enum_from_db value_of members token =
     (case find (\<lambda>m. value_of m = token) members of
        None \<Rightarrow> raise (Pers (PersistenceValidationError token)) | Some m \<Rightarrow> ret m)"

definition workflow_state_from_db :: "string \<Rightarrow> workflow_state pgm" where
  "workflow_state_from_db = enum_from_db state_value all_workflow_states"

definition task_type_from_db :: "string \<Rightarrow> task_type pgm" where
  "task_type_from_db = enum_from_db task_type_value [COLLECT, SELECT_TOPIC, GENERATE_SCENARIO, REVIEW_SCENARIO]"

definition artifact_type_from_db :: "string \<Rightarrow> artifact_type pgm" where
  "artifact_type_from_db =
     enum_from_db artifact_type_value [COLLECTED_STORIES, TOPIC_SELECTION, SCENARIO, CRITIC_REVIEW, PROMPT_RESPONSE]"

definition task_status_from_db :: "string \<Rightarrow> task_status pgm" where
  "task_status_from_db =
     enum_from_db task_status_value [TS_PENDING, TS_DISPATCHED, TS_IN_PROGRESS, TS_COMPLETED, TS_FAILED, TS_DEAD_LETTER]"

definition outbox_status_from_db :: "string \<Rightarrow> outbox_status pgm" where
  "outbox_status_from_db = enum_from_db outbox_status_value [OB_PENDING, OB_PUBLISHED]"

definition invocation_status_from_db :: "string \<Rightarrow> invocation_status pgm" where
  "invocation_status_from_db =
     enum_from_db invocation_status_value [INV_SUCCESS, INV_VALIDATION_FAILED, INV_PROVIDER_ERROR, INV_TIMEOUT]"

definition to_workflow_record :: "workflow_row \<Rightarrow> workflow_record pgm" where
  "to_workflow_record r =
     bindE (workflow_state_from_db (wr_state r)) (\<lambda>state.
     ret \<lparr>wf_id = wr_workflow_id r, wf_state = state, wf_version = wr_state_version r, wf_created_at = wr_created_at r,
          wf_updated_at = wr_updated_at r, wf_revision_count = wr_revision_count r,
          wf_failure_reason = wr_failure_reason r\<rparr>)"

definition to_workflow_transition_record :: "workflow_transition_row \<Rightarrow> workflow_transition_record pgm" where
  "to_workflow_transition_record r =
     bindE (workflow_state_from_db (wtr_from_state r)) (\<lambda>from_state.
     bindE (workflow_state_from_db (wtr_to_state r)) (\<lambda>to_state.
     ret \<lparr>tr_id = wtr_transition_id r, tr_workflow_id = wtr_workflow_id r, tr_from = from_state, tr_to = to_state,
          tr_reason = wtr_reason r, tr_occurred_at = wtr_occurred_at r, tr_actor = wtr_actor r\<rparr>))"

definition to_task_record :: "task_row \<Rightarrow> payload_reference \<Rightarrow> task_record pgm" where
  "to_task_record r payload_ref =
     bindE (task_type_from_db (tkr_task_type r)) (\<lambda>task_type.
     bindE (task_status_from_db (tkr_status r)) (\<lambda>status.
     ret \<lparr>tk_id = tkr_task_id r, tk_workflow_id = tkr_workflow_id r, tk_type = task_type, tk_attempt = tkr_attempt r,
          tk_status = status, tk_payload_reference = payload_ref, tk_idempotency_key = tkr_idempotency_key r,
          tk_created_at = tkr_created_at r, tk_updated_at = tkr_updated_at r, tk_completed_at = tkr_completed_at r,
          tk_failure_reason = tkr_failure_reason r\<rparr>))"

definition row_payload_reference :: "task_row \<Rightarrow> payload_reference" where
  "row_payload_reference r = \<lparr>ref_id = tkr_payload_ref_id r, ref_kind = tkr_payload_ref_kind r\<rparr>"

definition to_artifact_record :: "artifact_row \<Rightarrow> artifact_record pgm" where
  "to_artifact_record r =
     bindE (artifact_type_from_db (arr_artifact_type r)) (\<lambda>artifact_type.
     ret \<lparr>ar_id = arr_artifact_id r, ar_workflow_id = arr_workflow_id r, ar_type = artifact_type, ar_name = arr_name r,
          ar_version = arr_version r, ar_logical_version = arr_logical_version r, ar_is_active = arr_is_active r,
          ar_created_at = arr_created_at r, ar_content_hash = arr_content_hash r\<rparr>)"

definition to_idempotency_record :: "idempotency_row \<Rightarrow> idempotency_record" where
  "to_idempotency_record r =
     \<lparr>id_key = idr_idempotency_key r, id_workflow_id = idr_workflow_id r, id_task_id = idr_task_id r,
      id_completed_at = idr_completed_at r, id_result_artifact_id = idr_result_artifact_id r\<rparr>"

definition to_outbox_entry :: "outbox_row \<Rightarrow> outbox_entry pgm" where
  "to_outbox_entry r =
     bindE (task_type_from_db (obw_task_type r)) (\<lambda>task_type.
     bindE (outbox_status_from_db (obw_status r)) (\<lambda>status.
     ret \<lparr>ob_id = obw_outbox_id r, ob_workflow_id = obw_workflow_id r, ob_task_id = obw_task_id r,
          ob_task_type = task_type,
          ob_payload_reference = \<lparr>ref_id = obw_payload_ref_id r, ref_kind = obw_payload_ref_kind r\<rparr>,
          ob_idempotency_key = obw_idempotency_key r, ob_status = status, ob_created_at = obw_created_at r,
          ob_published_at = obw_published_at r\<rparr>))"

definition to_task_lease :: "task_lease_row \<Rightarrow> task_lease" where
  "to_task_lease r =
     \<lparr>le_id = ler_lease_id r, le_task_id = ler_task_id r, le_worker_id = ler_worker_id r,
      le_acquired_at = ler_acquired_at r, le_expires_at = ler_expires_at r\<rparr>"

definition to_ai_invocation_record :: "ai_invocation_row \<Rightarrow> ai_invocation_record pgm" where
  "to_ai_invocation_record r =
     bindE (invocation_status_from_db (air_status r)) (\<lambda>status.
     ret \<lparr>ai_id = air_invocation_id r,
          ai_spec = \<lparr>ais_workflow_id = air_workflow_id r, ais_task_id = air_task_id r, ais_agent_name = air_agent_name r,
            ais_agent_version = air_agent_version r, ais_prompt_version = air_prompt_version r,
            ais_provider = air_provider r, ais_model = air_model r, ais_input_artifact_id = air_input_artifact_id r,
            ais_output_artifact_id = air_output_artifact_id r, ais_attempt = air_attempt r,
            ais_started_at = air_started_at r, ais_completed_at = air_completed_at r, ais_status = status,
            ais_input_tokens = air_input_tokens r, ais_output_tokens = air_output_tokens r,
            ais_estimated_cost_usd = air_estimated_cost_usd r\<rparr>\<rparr>)"

section \<open>Workflow repository\<close>

definition pg_get_workflow :: "pg_env \<Rightarrow> string \<Rightarrow> workflow_record option pgm" where
  "pg_get_workflow E wid =
     mapped (\<lambda>_. False) ''get_workflow'' (Some wid)
       (bindE (borrow_connection E (execute E (WORKFLOWS wid))) (\<lambda>row.
        case row of None \<Rightarrow> ret None | Some r \<Rightarrow> bindE (to_workflow_record r) (\<lambda>record. ret (Some record))))"

definition pg_create_workflow :: "pg_env \<Rightarrow> string \<Rightarrow> workflow_state \<Rightarrow> workflow_record pgm" where
  "pg_create_workflow E wid initial_state =
     bindE (pg_now E) (\<lambda>now.
     mapped (\<lambda>_. False) ''create_workflow'' (Some wid)
       (bindE (borrow_connection E (execute E (insert_workflow
          \<lparr>wr_workflow_id = wid, wr_state = state_value initial_state, wr_state_version = 1, wr_created_at = now,
           wr_updated_at = now, wr_revision_count = 0, wr_failure_reason = None\<rparr>))) (\<lambda>_.
        ret \<lparr>wf_id = wid, wf_state = initial_state, wf_version = 1, wf_created_at = now, wf_updated_at = now,
             wf_revision_count = 0, wf_failure_reason = None\<rparr>)))"

definition workflow_exists :: "pg_env \<Rightarrow> string \<Rightarrow> bool pgm" where
  "workflow_exists E wid =
     bindE (borrow_connection E (execute E (WORKFLOWS wid))) (\<lambda>row. ret (row \<noteq> None))"

fun update_passes :: "pg_exn \<Rightarrow> bool" where
  "update_passes (Pers (PersistenceConflictError _)) = True" | "update_passes (Pers (PersistenceNotFoundError _)) = True"
| "update_passes (Pers (PersistenceValidationError _)) = True" | "update_passes _ = False"

text \<open>A call with the keyword \<open>revision_count\<close> raises \<open>TypeError\<close>, as the parameter does not exist.\<close>

definition pg_update_workflow_state ::
  "pg_env \<Rightarrow> string \<Rightarrow> int \<Rightarrow> workflow_state \<Rightarrow> string option \<Rightarrow> int option \<Rightarrow> workflow_record pgm"
where
  "pg_update_workflow_state E wid expected_version new_state failure_reason revision_count =
     (if revision_count \<noteq> None then raise (Pers TypeError)
      else
        bindE (require_active_transaction ''update_workflow_state'') (\<lambda>_.
        bindE (pg_now E) (\<lambda>now.
        mapped update_passes ''update_workflow_state'' (Some wid)
          (bindE (execute E (update_workflow (state_value new_state) now failure_reason wid expected_version)) (\<lambda>row.
           case row of
             None \<Rightarrow>
               bindE (workflow_exists E wid) (\<lambda>exists.
               raise (Pers (if exists then PersistenceConflictError wid else PersistenceNotFoundError wid)))
           | Some r \<Rightarrow> to_workflow_record r)))))"

definition transition_to_row :: "workflow_transition_record \<Rightarrow> workflow_transition_row" where
  "transition_to_row t =
     \<lparr>wtr_transition_id = tr_id t, wtr_workflow_id = tr_workflow_id t, wtr_from_state = state_value (tr_from t),
      wtr_to_state = state_value (tr_to t), wtr_reason = tr_reason t, wtr_occurred_at = tr_occurred_at t,
      wtr_actor = tr_actor t\<rparr>"

definition pg_append_transition :: "pg_env \<Rightarrow> workflow_transition_record \<Rightarrow> workflow_transition_record pgm" where
  "pg_append_transition E transition =
     bindE (require_active_transaction ''append_transition'') (\<lambda>_.
     catchE (bindE (execute E (WORKFLOW_TRANSITIONS (transition_to_row transition))) (\<lambda>_. ret transition)) (\<lambda>x.
       raise (if is_unique_violation x then Pers (PersistenceDuplicateError (tr_id transition))
              else translate x ''append_transition'' (Some (tr_id transition)))))"

definition pg_list_transitions :: "pg_env \<Rightarrow> string \<Rightarrow> workflow_transition_record list pgm" where
  "pg_list_transitions E wid =
     mapped (\<lambda>_. False) ''list_transitions'' (Some wid)
       (bindE (borrow_connection E (execute E (select_transitions wid))) (\<lambda>rows.
        forE rows to_workflow_transition_record))"

definition task_to_row :: "task_record \<Rightarrow> task_row" where
  "task_to_row task =
     \<lparr>tkr_task_id = tk_id task, tkr_workflow_id = tk_workflow_id task, tkr_task_type = task_type_value (tk_type task),
      tkr_status = task_status_value (tk_status task), tkr_attempt = tk_attempt task,
      tkr_payload_ref_id = ref_id (tk_payload_reference task), tkr_payload_ref_kind = ref_kind (tk_payload_reference task),
      tkr_idempotency_key = tk_idempotency_key task, tkr_created_at = tk_created_at task,
      tkr_updated_at = tk_updated_at task, tkr_failure_reason = tk_failure_reason task,
      tkr_completed_at = tk_completed_at task\<rparr>"

definition pg_create_task :: "pg_env \<Rightarrow> task_record \<Rightarrow> json option \<Rightarrow> task_record pgm" where
  "pg_create_task E task payload =
     bindE (require_active_transaction ''create_task'') (\<lambda>_.
     if ref_kind (tk_payload_reference task) \<noteq> TASK_PAYLOAD_REF_KIND
     then raise (Pers (PersistenceValidationError (ref_kind (tk_payload_reference task))))
     else
       let payload_body = (case payload of None \<Rightarrow> JObj [] | Some p \<Rightarrow> p) in
       mapped (\<lambda>_. False) ''create_task'' (Some (tk_id task))
         (bindE (pg_now E) (\<lambda>now.
          bindE (execute E (TASK_PAYLOADS \<lparr>tpr_ref_id = ref_id (tk_payload_reference task), tpr_payload = payload_body,
                   tpr_created_at = now\<rparr>)) (\<lambda>_.
          bindE (execute E (TASKS (task_to_row task))) (\<lambda>_.
          ret task)))))"

definition pg_get_task :: "pg_env \<Rightarrow> string \<Rightarrow> task_record option pgm" where
  "pg_get_task E tid =
     mapped (\<lambda>_. False) ''get_task'' (Some tid)
       (bindE (borrow_connection E (execute E (select_task tid))) (\<lambda>row.
        case row of
          None \<Rightarrow> ret None
        | Some r \<Rightarrow> bindE (to_task_record r (row_payload_reference r)) (\<lambda>record. ret (Some record))))"

definition pg_update_task ::
  "pg_env \<Rightarrow> string \<Rightarrow> task_status \<Rightarrow> int option \<Rightarrow> string option \<Rightarrow> datetime option \<Rightarrow> task_record pgm"
where
  "pg_update_task E tid status attempt failure_reason completed_at =
     bindE (require_active_transaction ''update_task'') (\<lambda>_.
     bindE (pg_now E) (\<lambda>now.
     mapped is_not_found ''update_task'' (Some tid)
       (bindE (execute E (update_task_row (task_status_value status) now attempt failure_reason completed_at tid)) (\<lambda>row.
        case row of
          None \<Rightarrow> raise (Pers (PersistenceNotFoundError tid))
        | Some r \<Rightarrow> to_task_record r (row_payload_reference r)))))"

definition pg_get_task_payload :: "pg_env \<Rightarrow> payload_reference \<Rightarrow> json pgm" where
  "pg_get_task_payload E reference =
     (if ref_kind reference \<noteq> TASK_PAYLOAD_REF_KIND then raise (Pers (PersistenceValidationError (ref_kind reference)))
      else
        mapped is_not_found ''get_task_payload'' (Some (ref_id reference))
          (bindE (borrow_connection E (execute E (select_payload (ref_id reference)))) (\<lambda>row.
           case row of None \<Rightarrow> raise (Pers (PersistenceNotFoundError (ref_id reference))) | Some p \<Rightarrow> ret p)))"

section \<open>Artifact repository\<close>

definition insert_artifact_rows ::
  "pg_env \<Rightarrow> string \<Rightarrow> artifact_create_spec \<Rightarrow> string \<Rightarrow> datetime \<Rightarrow> bool \<Rightarrow> unit pgm"
where
  "insert_artifact_rows E artifact_id spec artifact_type_token now deactivate_active =
     bindE (whenE deactivate_active (execute E (deactivate_artifacts (acs_workflow_id spec) artifact_type_token))) (\<lambda>_.
     bindE (execute E (ARTIFACTS
       \<lparr>arr_artifact_id = artifact_id, arr_workflow_id = acs_workflow_id spec, arr_artifact_type = artifact_type_token,
        arr_name = acs_name spec, arr_version = acs_version spec, arr_logical_version = acs_logical_version spec,
        arr_is_active = acs_is_active spec, arr_created_at = now, arr_content_hash = None\<rparr>)) (\<lambda>_.
     execute E (ARTIFACT_CONTENT \<lparr>acr_artifact_id = artifact_id, acr_content = acs_content spec, acr_created_at = now\<rparr>)))"

definition pg_create_artifact :: "pg_env \<Rightarrow> artifact_create_spec \<Rightarrow> artifact_record pgm" where
  "pg_create_artifact E spec =
     bindE (whenE (acs_is_active spec) (require_active_transaction ''create_artifact'')) (\<lambda>_.
     bindE (pg_uuid E) (\<lambda>artifact_id.
     bindE (pg_now E) (\<lambda>now.
     (let token = artifact_type_value (acs_type spec) in
      catchE
        (bindE (if acs_is_active spec then insert_artifact_rows E artifact_id spec token now True
                else borrow_connection E (insert_artifact_rows E artifact_id spec token now False)) (\<lambda>_.
         ret (new_artifact artifact_id now spec)))
        (\<lambda>x. raise (if is_unique_violation x then Pers (PersistenceDuplicateError (acs_workflow_id spec))
                     else translate x ''create_artifact'' (Some (acs_workflow_id spec))))))))"

definition pg_get_artifact :: "pg_env \<Rightarrow> string \<Rightarrow> artifact_record option pgm" where
  "pg_get_artifact E aid =
     mapped (\<lambda>_. False) ''get_artifact'' (Some aid)
       (bindE (borrow_connection E (execute E (select_artifact aid))) (\<lambda>row.
        case row of None \<Rightarrow> ret None | Some r \<Rightarrow> bindE (to_artifact_record r) (\<lambda>record. ret (Some record))))"

definition pg_get_artifact_content :: "pg_env \<Rightarrow> string \<Rightarrow> json pgm" where
  "pg_get_artifact_content E aid =
     mapped is_not_found ''get_artifact_content'' (Some aid)
       (bindE (borrow_connection E (execute E (select_content aid))) (\<lambda>row.
        case row of None \<Rightarrow> raise (Pers (PersistenceNotFoundError aid)) | Some c \<Rightarrow> ret c))"

definition pg_list_artifacts :: "pg_env \<Rightarrow> string \<Rightarrow> artifact_type option \<Rightarrow> bool \<Rightarrow> artifact_record list pgm" where
  "pg_list_artifacts E wid artifact_type active_only =
     mapped (\<lambda>_. False) ''list_artifacts'' (Some wid)
       (bindE (borrow_connection E (execute_scan E (\<lambda>place.
          select_artifacts place wid (map_option artifact_type_value artifact_type) active_only))) (\<lambda>rows.
        forE rows to_artifact_record))"

definition pg_get_active_artifact :: "pg_env \<Rightarrow> string \<Rightarrow> artifact_type \<Rightarrow> artifact_record option pgm" where
  "pg_get_active_artifact E wid artifact_type =
     bindE (pg_list_artifacts E wid (Some artifact_type) True) (\<lambda>records.
     ret (case records of [] \<Rightarrow> None | r # _ \<Rightarrow> Some r))"

definition invocation_to_row :: "string \<Rightarrow> ai_invocation_insert_spec \<Rightarrow> ai_invocation_row" where
  "invocation_to_row iid spec =
     \<lparr>air_invocation_id = iid, air_workflow_id = ais_workflow_id spec, air_task_id = ais_task_id spec,
      air_agent_name = ais_agent_name spec, air_agent_version = ais_agent_version spec,
      air_prompt_version = ais_prompt_version spec, air_provider = ais_provider spec, air_model = ais_model spec,
      air_input_artifact_id = ais_input_artifact_id spec, air_output_artifact_id = ais_output_artifact_id spec,
      air_attempt = ais_attempt spec, air_started_at = ais_started_at spec, air_completed_at = ais_completed_at spec,
      air_status = invocation_status_value (ais_status spec), air_input_tokens = ais_input_tokens spec,
      air_output_tokens = ais_output_tokens spec, air_estimated_cost_usd = ais_estimated_cost_usd spec\<rparr>"

definition pg_append_ai_invocation :: "pg_env \<Rightarrow> ai_invocation_insert_spec \<Rightarrow> ai_invocation_record pgm" where
  "pg_append_ai_invocation E spec =
     bindE (pg_uuid E) (\<lambda>invocation_id.
     mapped (\<lambda>_. False) ''append_ai_invocation'' (Some invocation_id)
       (bindE (borrow_connection E (execute E (AI_INVOCATIONS (invocation_to_row invocation_id spec)))) (\<lambda>_.
        ret \<lparr>ai_id = invocation_id, ai_spec = spec\<rparr>)))"

definition pg_list_ai_invocations :: "pg_env \<Rightarrow> string \<Rightarrow> string option \<Rightarrow> ai_invocation_record list pgm" where
  "pg_list_ai_invocations E wid task_id =
     mapped (\<lambda>_. False) ''list_ai_invocations'' (Some wid)
       (bindE (borrow_connection E (execute_scan E (\<lambda>place. select_invocations place wid task_id))) (\<lambda>rows.
        forE rows to_ai_invocation_record))"

section \<open>Idempotency repository\<close>

definition pg_select_by_key :: "pg_env \<Rightarrow> string \<Rightarrow> idempotency_row option pgm" where
  "pg_select_by_key E key = borrow_connection E (execute E (select_key key))"

definition pg_insert_row :: "pg_env \<Rightarrow> idempotency_insert_spec \<Rightarrow> idempotency_record option pgm" where
  "pg_insert_row E spec =
     bindE (pg_now E) (\<lambda>completed_at.
     bindE (execute E (IDEMPOTENCY_TRY_INSERT
       \<lparr>idr_idempotency_key = iis_key spec, idr_workflow_id = iis_workflow_id spec, idr_task_id = iis_task_id spec,
        idr_completed_at = completed_at, idr_result_artifact_id = iis_result_artifact_id spec\<rparr>)) (\<lambda>row.
     ret (map_option to_idempotency_record row)))"

fun is_conflict :: "pg_exn \<Rightarrow> bool" where
  "is_conflict (Pers (PersistenceConflictError _)) = True" | "is_conflict _ = False"

text \<open>The handler reads the key again before it gives up; that read is outside the \<open>try\<close>.\<close>

definition pg_try_insert :: "pg_env \<Rightarrow> idempotency_insert_spec \<Rightarrow> idempotency_insert_result pgm" where
  "pg_try_insert E spec =
     bindE (require_active_transaction ''try_insert'') (\<lambda>_.
     catchE
       (bindE (pg_insert_row E spec) (\<lambda>inserted.
        case inserted of
          Some record \<Rightarrow> ret \<lparr>iir_outcome = INSERTED, iir_record = Some record\<rparr>
        | None \<Rightarrow>
            bindE (pg_select_by_key E (iis_key spec)) (\<lambda>existing.
            case existing of
              None \<Rightarrow> raise (Pers (PersistenceConflictError (iis_key spec)))
            | Some found \<Rightarrow> ret \<lparr>iir_outcome = DUPLICATE, iir_record = Some (to_idempotency_record found)\<rparr>)))
       (\<lambda>x.
        if is_conflict x then raise (translate x ''try_insert'' (Some (iis_key spec)))
        else
          bindE (pg_select_by_key E (iis_key spec)) (\<lambda>existing.
          case existing of
            None \<Rightarrow> raise (translate x ''try_insert'' (Some (iis_key spec)))
          | Some found \<Rightarrow> ret \<lparr>iir_outcome = DUPLICATE, iir_record = Some (to_idempotency_record found)\<rparr>)))"

definition pg_get_by_key :: "pg_env \<Rightarrow> string \<Rightarrow> idempotency_record option pgm" where
  "pg_get_by_key E key =
     mapped (\<lambda>_. False) ''get_by_key'' (Some key)
       (bindE (pg_select_by_key E key) (\<lambda>row. ret (map_option to_idempotency_record row)))"

section \<open>Outbox repository\<close>

definition pg_outbox_insert :: "pg_env \<Rightarrow> outbox_insert_spec \<Rightarrow> outbox_entry pgm" where
  "pg_outbox_insert E spec =
     bindE (require_active_transaction ''insert'') (\<lambda>_.
     bindE (pg_uuid E) (\<lambda>outbox_id.
     bindE (pg_now E) (\<lambda>now.
     mapped (\<lambda>_. False) ''insert'' (Some outbox_id)
       (bindE (execute E (OUTBOX
          \<lparr>obw_outbox_id = outbox_id, obw_workflow_id = ois_workflow_id spec, obw_task_id = ois_task_id spec,
           obw_task_type = task_type_value (ois_task_type spec), obw_payload_ref_id = ref_id (ois_payload_reference spec),
           obw_payload_ref_kind = ref_kind (ois_payload_reference spec), obw_idempotency_key = ois_idempotency_key spec,
           obw_status = outbox_status_value OB_PENDING, obw_created_at = now, obw_published_at = None\<rparr>)) (\<lambda>_.
        ret \<lparr>ob_id = outbox_id, ob_workflow_id = ois_workflow_id spec, ob_task_id = ois_task_id spec,
             ob_task_type = ois_task_type spec, ob_payload_reference = ois_payload_reference spec,
             ob_idempotency_key = ois_idempotency_key spec, ob_status = OB_PENDING, ob_created_at = now,
             ob_published_at = None\<rparr>)))))"

definition pg_fetch_unpublished :: "pg_env \<Rightarrow> int \<Rightarrow> outbox_entry list pgm" where
  "pg_fetch_unpublished E limit =
     mapped (\<lambda>_. False) ''fetch_unpublished'' None
       (bindE (borrow_connection E (execute_scan E (\<lambda>place. select_outbox place (outbox_status_value OB_PENDING) limit))) (\<lambda>rows.
        forE rows to_outbox_entry))"

definition pg_fetch_entry :: "pg_env \<Rightarrow> string \<Rightarrow> outbox_entry option pgm" where
  "pg_fetch_entry E oid =
     bindE (borrow_connection E (execute E (select_outbox_entry oid))) (\<lambda>row.
     case row of None \<Rightarrow> ret None | Some r \<Rightarrow> bindE (to_outbox_entry r) (\<lambda>entry. ret (Some entry)))"

definition pg_update_published :: "pg_env \<Rightarrow> string \<Rightarrow> datetime \<Rightarrow> outbox_entry option pgm" where
  "pg_update_published E oid published_at =
     bindE (borrow_connection E (execute E
       (update_outbox (outbox_status_value OB_PUBLISHED) published_at oid (outbox_status_value OB_PENDING)))) (\<lambda>row.
     case row of None \<Rightarrow> ret None | Some r \<Rightarrow> bindE (to_outbox_entry r) (\<lambda>entry. ret (Some entry)))"

definition pg_mark_published :: "pg_env \<Rightarrow> string \<Rightarrow> datetime \<Rightarrow> outbox_entry pgm" where
  "pg_mark_published E oid published_at =
     mapped is_not_found ''mark_published'' (Some oid)
       (bindE (pg_fetch_entry E oid) (\<lambda>existing.
        case existing of
          None \<Rightarrow> raise (Pers (PersistenceNotFoundError oid))
        | Some entry \<Rightarrow>
            if ob_status entry = OB_PUBLISHED then ret entry
            else
              bindE (pg_update_published E oid published_at) (\<lambda>updated.
              case updated of
                Some u \<Rightarrow> ret u
              | None \<Rightarrow>
                  bindE (pg_fetch_entry E oid) (\<lambda>refreshed.
                  case refreshed of
                    Some e \<Rightarrow> if ob_status e = OB_PUBLISHED then ret e else raise (Pers (PersistenceNotFoundError oid))
                  | None \<Rightarrow> raise (Pers (PersistenceNotFoundError oid))))))"

section \<open>Lease repository\<close>

definition pg_delete_expired :: "pg_env \<Rightarrow> string \<Rightarrow> unit pgm" where
  "pg_delete_expired E tid =
     borrow_connection E (bindE (pg_now E) (\<lambda>now. execute E (delete_expired_leases tid now)))"

definition pg_insert_lease :: "pg_env \<Rightarrow> string \<Rightarrow> string \<Rightarrow> microseconds \<Rightarrow> task_lease pgm" where
  "pg_insert_lease E tid worker_id ttl =
     bindE (pg_uuid E) (\<lambda>lease_id.
     bindE (pg_now E) (\<lambda>acquired_at.
     (let row = \<lparr>ler_lease_id = lease_id, ler_task_id = tid, ler_worker_id = worker_id, ler_acquired_at = acquired_at,
                 ler_expires_at = acquired_at + ttl\<rparr>
      in bindE (borrow_connection E (execute E (TASK_LEASES row))) (\<lambda>_. ret (to_task_lease row)))))"

definition pg_try_acquire :: "pg_env \<Rightarrow> string \<Rightarrow> string \<Rightarrow> microseconds \<Rightarrow> task_lease option pgm" where
  "pg_try_acquire E tid worker_id ttl =
     bindE (pg_delete_expired E tid) (\<lambda>_.
     catchE (bindE (pg_insert_lease E tid worker_id ttl) (\<lambda>lease. ret (Some lease))) (\<lambda>x.
       if is_unique_violation x then ret None else raise (translate x ''try_acquire'' (Some tid))))"

definition pg_renew :: "pg_env \<Rightarrow> string \<Rightarrow> microseconds \<Rightarrow> task_lease pgm" where
  "pg_renew E lease_id ttl =
     bindE (pg_now E) (\<lambda>now.
     mapped is_not_found ''renew'' (Some lease_id)
       (bindE (borrow_connection E (bindE (pg_now E) (\<lambda>now2. execute E (update_lease (now + ttl) lease_id now2)))) (\<lambda>row.
        case row of
          None \<Rightarrow> raise (Pers (PersistenceNotFoundError lease_id)) | Some r \<Rightarrow> ret (to_task_lease r))))"

definition pg_release :: "pg_env \<Rightarrow> string \<Rightarrow> unit pgm" where
  "pg_release E lease_id =
     mapped (\<lambda>_. False) ''release'' (Some lease_id) (borrow_connection E (execute E (delete_lease lease_id)))"

definition pg_get_active_lease :: "pg_env \<Rightarrow> string \<Rightarrow> task_lease option pgm" where
  "pg_get_active_lease E tid =
     mapped (\<lambda>_. False) ''get_active_lease'' (Some tid)
       (bindE (borrow_connection E (bindE (pg_now E) (\<lambda>now. execute E (select_active_lease tid now)))) (\<lambda>row.
        ret (map_option to_task_lease row)))"

end
