(* ===== verification/Postgres_Properties.thy ===== *)
theory Postgres_Properties
  imports Postgres Engine_Properties
begin

text \<open>
  The production repositories against the in-memory ones. \<open>stores\<close> relates the tables of the database to the
  state of the in-memory repositories; the locale \<open>stored_table\<close> carries the proofs that a statement on
  one table does what the dictionary operation does. Then come the constraints that every call
  keeps whatever fails, the atomic transaction, and the errors that leave a repository.
\<close>

section \<open>A table and its dictionary\<close>

lemma find_map: "find P (map f xs) = map_option f (find (P \<circ> f) xs)"
  by (induction xs) auto

lemma find_keyed: "keys_ok key d \<Longrightarrow> find (\<lambda>x. key x = k) (dict_values d) = dict_get d k"
  by (induction d) (auto simp: keys_ok_def)

lemma values_dict_set_new: "dict_get d k = None \<Longrightarrow> dict_values (dict_set k v d) = dict_values d @ [v]"
  by (simp add: dict_set_append)

lemma values_dict_set_old:
  "keys_ok key d \<Longrightarrow> dict_get d k = Some v0 \<Longrightarrow>
    dict_values (dict_set k v d) = map (\<lambda>x. if key x = k then v else x) (dict_values d)"
proof (induction d)
  case (Cons p d)
  obtain i x where p: "p = (i, x)" by (cases p)
  show ?case
  proof (cases "i = k")
    case True
    with Cons.prems(1) p have "map (\<lambda>x. if key x = k then v else x) (dict_values d) = dict_values d"
      by (intro map_idI) (force simp: keys_ok_def)
    with True Cons.prems(1) p show ?thesis by (simp add: keys_ok_def)
  next
    case False
    with Cons p show ?thesis by (auto simp: keys_ok_def)
  qed
qed simp

definition table_holds :: "('v \<Rightarrow> string) \<Rightarrow> ('v \<Rightarrow> 'r) \<Rightarrow> 'r list \<Rightarrow> (string, 'v) dict \<Rightarrow> bool" where
  "table_holds key to_row rows d \<longleftrightarrow> keys_ok key d \<and> rows = map to_row (dict_values d)"

lemma list_ex_find: "list_ex P xs \<longleftrightarrow> find P xs \<noteq> None"
  by (induction xs) auto

locale stored_table =
  fixes key :: "'v \<Rightarrow> string" and to_row :: "'v \<Rightarrow> 'r" and row_key :: "'r \<Rightarrow> string"
  assumes row_key: "row_key (to_row x) = key x"
begin

lemma holds_find:
  assumes "table_holds key to_row rows d"
  shows "find (\<lambda>r. row_key r = k) rows = map_option to_row (dict_get d k)"
proof -
  define vals where "vals = dict_values d"
  have "find (\<lambda>x. key x = k) vals = dict_get d k" and "rows = map to_row vals"
    using assms find_keyed [of key d k] by (simp_all only: table_holds_def vals_def)
  then show ?thesis by (simp add: find_map o_def row_key)
qed

lemma holds_ex: "table_holds key to_row rows d \<Longrightarrow> list_ex (\<lambda>r. row_key r = k) rows \<longleftrightarrow> dict_get d k \<noteq> None"
  by (simp add: list_ex_find holds_find)

lemma holds_append:
  assumes "table_holds key to_row rows d" and "key v = k" and "dict_get d k = None"
  shows "table_holds key to_row (rows @ [to_row v]) (dict_set k v d)"
  using assms values_dict_set_new [OF assms(3), of v] by (simp add: table_holds_def keys_ok_set')

lemma holds_update:
  assumes "table_holds key to_row rows d" and "dict_get d k = Some v0" and "key v = k" and "f (to_row v0) = to_row v"
    and "P (to_row v0)" and "\<And>r. P r \<Longrightarrow> row_key r = k"
  shows "table_holds key to_row (update_where P f rows) (dict_set k v d)"
proof -
  define vals where "vals = dict_values d"
  have keys: "keys_ok key d" and rows: "rows = map to_row vals" using assms(1) by (simp_all add: table_holds_def vals_def)
  have "update_where P f rows = map to_row (map (\<lambda>x. if key x = k then v else x) vals)"
    unfolding rows update_where_def map_map
  proof (rule map_cong [OF refl])
    fix x assume x: "x \<in> set vals"
    have "x = v0" if "key x = k" using keys_ok_values [OF keys, of x] x that assms(2) by (simp add: vals_def)
    moreover have "key x = k" if "P (to_row x)" using assms(6) [OF that] by (simp add: row_key)
    ultimately show "((\<lambda>r. if P r then f r else r) \<circ> to_row) x = (to_row \<circ> (\<lambda>x. if key x = k then v else x)) x"
      using assms(4,5) by auto
  qed
  then show ?thesis
    using keys_ok_set' [OF keys assms(3)] values_dict_set_old [OF keys assms(2), of v] by (simp add: table_holds_def vals_def)
qed

lemma holds_find_where:
  assumes "table_holds key to_row rows d"
  shows "find (\<lambda>r. row_key r = k \<and> Q r) rows =
    (case dict_get d k of None \<Rightarrow> None | Some v \<Rightarrow> if Q (to_row v) then Some (to_row v) else None)"
proof -
  have "find (\<lambda>r. row_key r = k \<and> Q r) (map to_row (dict_values d)) =
      (case dict_get d k of None \<Rightarrow> None | Some v \<Rightarrow> if Q (to_row v) then Some (to_row v) else None)"
    if "keys_ok key d"
    using that
  proof (induction d)
    case (Cons p d)
    obtain i x where p: "p = (i, x)" by (cases p)
    have keys: "keys_ok key d" "key x = i" "dict_get d i = None"
      using Cons.prems p by (auto simp: keys_ok_def map_of_eq_None_iff)
    show ?case using Cons.IH [OF keys(1)] keys(2,3) p by (cases "i = k") (simp_all add: row_key)
  qed simp
  with assms show ?thesis unfolding table_holds_def by (elim conjE) (simp only: simp_thms)
qed

end

section \<open>The database and the in-memory state\<close>

definition workflow_to_row :: "workflow_record \<Rightarrow> workflow_row" where
  "workflow_to_row x =
     \<lparr>wr_workflow_id = wf_id x, wr_state = state_value (wf_state x), wr_state_version = wf_version x,
      wr_created_at = wf_created_at x, wr_updated_at = wf_updated_at x, wr_revision_count = wf_revision_count x,
      wr_failure_reason = wf_failure_reason x\<rparr>"

definition artifact_to_row :: "artifact_record \<Rightarrow> artifact_row" where
  "artifact_to_row x =
     \<lparr>arr_artifact_id = ar_id x, arr_workflow_id = ar_workflow_id x, arr_artifact_type = artifact_type_value (ar_type x),
      arr_name = ar_name x, arr_version = ar_version x, arr_logical_version = ar_logical_version x,
      arr_is_active = ar_is_active x, arr_created_at = ar_created_at x, arr_content_hash = ar_content_hash x\<rparr>"

definition idempotency_to_row :: "idempotency_record \<Rightarrow> idempotency_row" where
  "idempotency_to_row x =
     \<lparr>idr_idempotency_key = id_key x, idr_workflow_id = id_workflow_id x, idr_task_id = id_task_id x,
      idr_completed_at = id_completed_at x, idr_result_artifact_id = id_result_artifact_id x\<rparr>"

definition outbox_to_row :: "outbox_entry \<Rightarrow> outbox_row" where
  "outbox_to_row x =
     \<lparr>obw_outbox_id = ob_id x, obw_workflow_id = ob_workflow_id x, obw_task_id = ob_task_id x,
      obw_task_type = task_type_value (ob_task_type x), obw_payload_ref_id = ref_id (ob_payload_reference x),
      obw_payload_ref_kind = ref_kind (ob_payload_reference x), obw_idempotency_key = ob_idempotency_key x,
      obw_status = outbox_status_value (ob_status x), obw_created_at = ob_created_at x,
      obw_published_at = ob_published_at x\<rparr>"

definition lease_to_row :: "task_lease \<Rightarrow> task_lease_row" where
  "lease_to_row x =
     \<lparr>ler_lease_id = le_id x, ler_task_id = le_task_id x, ler_worker_id = le_worker_id x,
      ler_acquired_at = le_acquired_at x, ler_expires_at = le_expires_at x\<rparr>"

text \<open>An invocation as it is stored: the estimated cost has six decimals.\<close>

definition stored_invocation :: "ai_invocation_record \<Rightarrow> ai_invocation_row" where
  "stored_invocation x =
     (invocation_to_row (ai_id x) (ai_spec x))\<lparr>air_estimated_cost_usd :=
        map_option numeric_12_6 (ais_estimated_cost_usd (ai_spec x))\<rparr>"

interpretation workflows: stored_table wf_id workflow_to_row wr_workflow_id
  by unfold_locales (simp add: workflow_to_row_def)

interpretation tasks: stored_table tk_id task_to_row tkr_task_id
  by unfold_locales (simp add: task_to_row_def)

interpretation artifacts: stored_table ar_id artifact_to_row arr_artifact_id
  by unfold_locales (simp add: artifact_to_row_def)

interpretation keys: stored_table id_key idempotency_to_row idr_idempotency_key
  by unfold_locales (simp add: idempotency_to_row_def)

interpretation entries: stored_table ob_id outbox_to_row obw_outbox_id
  by unfold_locales (simp add: outbox_to_row_def)

definition stores :: "pg_tables \<Rightarrow> world \<Rightarrow> bool" where
  "stores t w \<longleftrightarrow>
     table_holds wf_id workflow_to_row (t_workflows t) (wf_rows w)
     \<and> t_transitions t = map transition_to_row (tr_rows w)
     \<and> map (\<lambda>r. (tpr_ref_id r, tpr_payload r)) (t_payloads t) = payload_rows w
     \<and> table_holds tk_id task_to_row (t_tasks t) (task_rows w)
     \<and> table_holds ar_id artifact_to_row (t_artifacts t) (art_rows w)
     \<and> map (\<lambda>r. (acr_artifact_id r, acr_content r)) (t_contents t) = content_rows w
     \<and> table_holds id_key idempotency_to_row (t_idempotency t) (idem_rows w)
     \<and> table_holds ob_id outbox_to_row (t_outbox t) (outbox_rows w)
     \<and> table_holds le_task_id lease_to_row (t_leases t) (lease_rows w)
     \<and> t_invocations t = map stored_invocation (inv_rows w)"

text \<open>Reading back what the mapper has written.\<close>

lemma enum_back: "distinct (map f ms) \<Longrightarrow> m \<in> set ms \<Longrightarrow> enum_from_db f ms (f m) = ret m"
proof -
  assume "distinct (map f ms)" and "m \<in> set ms"
  then have "find (\<lambda>x. f x = f m) ms = Some m" by (induction ms) auto
  then show ?thesis by (simp add: enum_from_db_def)
qed

lemma workflow_state_back [simp]: "workflow_state_from_db (state_value x) = ret x"
  unfolding workflow_state_from_db_def by (rule enum_back; cases x; simp add: all_workflow_states_def)

lemma task_type_back [simp]: "task_type_from_db (task_type_value x) = ret x"
  unfolding task_type_from_db_def by (rule enum_back; cases x; simp)

lemma artifact_type_back [simp]: "artifact_type_from_db (artifact_type_value x) = ret x"
  unfolding artifact_type_from_db_def by (rule enum_back; cases x; simp)

lemma task_status_back [simp]: "task_status_from_db (task_status_value x) = ret x"
  unfolding task_status_from_db_def by (rule enum_back; cases x; simp)

lemma outbox_status_back [simp]: "outbox_status_from_db (outbox_status_value x) = ret x"
  unfolding outbox_status_from_db_def by (rule enum_back; cases x; simp)

lemma invocation_status_back [simp]: "invocation_status_from_db (invocation_status_value x) = ret x"
  unfolding invocation_status_from_db_def by (rule enum_back; cases x; simp)

lemma payload_reference_eta [simp]: "\<lparr>ref_id = ref_id p, ref_kind = ref_kind p\<rparr> = p"
  by (cases p) simp

lemma records_back [simp]:
  "to_workflow_record (workflow_to_row x) = ret x" "to_workflow_transition_record (transition_to_row t) = ret t"
  "to_task_record (task_to_row k) (row_payload_reference (task_to_row k)) = ret k"
  "to_artifact_record (artifact_to_row a) = ret a" "to_idempotency_record (idempotency_to_row i) = i"
  "to_outbox_entry (outbox_to_row ob) = ret ob" "to_task_lease (lease_to_row l) = l"
  by (cases x; cases t; cases k; cases a; cases i; cases ob; cases l; simp add: to_workflow_record_def workflow_to_row_def to_workflow_transition_record_def transition_to_row_def
      to_task_record_def task_to_row_def row_payload_reference_def to_artifact_record_def artifact_to_row_def
      to_idempotency_record_def idempotency_to_row_def to_outbox_entry_def outbox_to_row_def to_task_lease_def lease_to_row_def)+

section \<open>Calls of the two stores\<close>

datatype store_call =
    CreateWorkflow string workflow_state
  | UpdateState string int workflow_state "string option"
  | AppendTransition workflow_transition_record
  | CreateTask task_record "json option"
  | UpdateTask string task_status "int option" "string option" "datetime option"
  | InsertOutbox outbox_insert_spec
  | MarkPublished string datetime
  | ClaimKey idempotency_insert_spec
  | CreateArtifact artifact_create_spec
  | AppendInvocation ai_invocation_insert_spec

datatype store_reply = RWorkflow workflow_record | RTransition workflow_transition_record | RTask task_record
  | REntry outbox_entry | RClaim idempotency_insert_result | RArtifact artifact_record | RInvocation ai_invocation_record

definition mapE :: "('a \<Rightarrow> 'b) \<Rightarrow> ('e, 's, 'a) py \<Rightarrow> ('e, 's, 'b) py" where
  "mapE f m = bindE m (\<lambda>x. ret (f x))"

fun pg_call :: "pg_env \<Rightarrow> store_call \<Rightarrow> store_reply pgm" where
  "pg_call E (CreateWorkflow wid st) = mapE RWorkflow (pg_create_workflow E wid st)"
| "pg_call E (UpdateState wid v st fr) = mapE RWorkflow (pg_update_workflow_state E wid v st fr None)"
| "pg_call E (AppendTransition t) = mapE RTransition (pg_append_transition E t)"
| "pg_call E (CreateTask k p) = mapE RTask (pg_create_task E k p)"
| "pg_call E (UpdateTask tid st att fr ca) = mapE RTask (pg_update_task E tid st att fr ca)"
| "pg_call E (InsertOutbox spec) = mapE REntry (pg_outbox_insert E spec)"
| "pg_call E (MarkPublished oid t) = mapE REntry (pg_mark_published E oid t)"
| "pg_call E (ClaimKey spec) = mapE RClaim (pg_try_insert E spec)"
| "pg_call E (CreateArtifact spec) = mapE RArtifact (pg_create_artifact E spec)"
| "pg_call E (AppendInvocation spec) = mapE RInvocation (pg_append_ai_invocation E spec)"

fun memory_call :: "env \<Rightarrow> store_call \<Rightarrow> (world, store_reply) prog" where
  "memory_call E (CreateWorkflow wid st) = mapE RWorkflow (pf_create_workflow E wid st)"
| "memory_call E (UpdateState wid v st fr) = mapE RWorkflow (pf_update_workflow_state E wid v st fr None)"
| "memory_call E (AppendTransition t) = mapE RTransition (pf_append_transition t)"
| "memory_call E (CreateTask k p) = mapE RTask (pf_create_task k p)"
| "memory_call E (UpdateTask tid st att fr ca) = mapE RTask (pf_update_task E tid st att fr ca)"
| "memory_call E (InsertOutbox spec) = mapE REntry (pf_outbox_insert E spec)"
| "memory_call E (MarkPublished oid t) = mapE REntry (pf_mark_published oid t)"
| "memory_call E (ClaimKey spec) = mapE RClaim (pf_try_insert E spec)"
| "memory_call E (CreateArtifact spec) = mapE RArtifact (pf_create_artifact E spec)"
| "memory_call E (AppendInvocation spec) = mapE RInvocation (append_ai_invocation E spec)"

text \<open>
  What the database asks for and the in-memory store does not: integers of 32 bits, identifiers that are
  new, the workflow of a row, and a cost with six digits before the point.
\<close>

fun call_fits :: "env \<Rightarrow> store_call \<Rightarrow> world \<Rightarrow> bool" where
  "call_fits E (CreateWorkflow wid st) w \<longleftrightarrow> get_workflow wid w = None"
| "call_fits E (UpdateState wid v st fr) w \<longleftrightarrow> int4 v \<and> int4 (v + 1)"
| "call_fits E (AppendTransition t) w \<longleftrightarrow> get_workflow (tr_workflow_id t) w \<noteq> None"
| "call_fits E (CreateTask k p) w \<longleftrightarrow>
     get_workflow (tk_workflow_id k) w \<noteq> None \<and> int4 (tk_attempt k) \<and> get_task (tk_id k) w = None
     \<and> dict_get (payload_rows w) (ref_id (tk_payload_reference k)) = None"
| "call_fits E (UpdateTask tid st att fr ca) w \<longleftrightarrow> pred_option int4 att"
| "call_fits E (InsertOutbox spec) w \<longleftrightarrow> dict_get (outbox_rows w) (env_uuid E (ticks w)) = None"
| "call_fits E (MarkPublished oid t) w \<longleftrightarrow> True"
| "call_fits E (ClaimKey spec) w \<longleftrightarrow> True"
| "call_fits E (CreateArtifact spec) w \<longleftrightarrow>
     get_workflow (acs_workflow_id spec) w \<noteq> None \<and> int4 (acs_version spec) \<and> int4 (acs_logical_version spec)
     \<and> dict_get (art_rows w) (env_uuid E (ticks w)) = None \<and> dict_get (content_rows w) (env_uuid E (ticks w)) = None"
| "call_fits E (AppendInvocation spec) w \<longleftrightarrow>
     int4 (ais_attempt spec) \<and> pred_option int4 (ais_input_tokens spec) \<and> pred_option int4 (ais_output_tokens spec)
     \<and> pred_option numeric_fits (ais_estimated_cost_usd spec)
     \<and> (\<forall>x \<in> set (inv_rows w). ai_id x \<noteq> env_uuid E (ticks w))"

definition calm :: "pg_env \<Rightarrow> bool" where
  "calm E \<longleftrightarrow> pge_fault E = (\<lambda>_. None)"

definition linked :: "pg_state \<Rightarrow> world \<Rightarrow> bool" where
  "linked s w \<longleftrightarrow> stores (pgs_tables s) w \<and> deferred_ok (pgs_tables s) \<and> \<not> pgs_aborted s
     \<and> (pg_in_transaction s \<longleftrightarrow> in_txn w) \<and> pgs_ticks s = ticks w"

text \<open>The same result, and tables that still correspond; after an error the transaction may be aborted instead.\<close>

fun agree :: "(pg_exn + 'a) \<times> pg_state \<Rightarrow> (exn + 'a) \<times> world \<Rightarrow> bool" where
  "agree (Inr a, s) (Inr b, w) \<longleftrightarrow> a = b \<and> stores (pgs_tables s) w \<and> deferred_ok (pgs_tables s) \<and> \<not> pgs_aborted s
     \<and> (pg_in_transaction s \<longleftrightarrow> in_txn w)"
| "agree (Inl x, s) (Inl e, w) \<longleftrightarrow> x = Pers e \<and> (stores (pgs_tables s) w \<or> pgs_aborted s) \<and> (pg_in_transaction s \<longleftrightarrow> in_txn w)"
| "agree _ _ \<longleftrightarrow> False"

lemma agree_mapE: "agree (m s) (p w) \<Longrightarrow> agree (mapE f m s) (mapE f p w)"
  by (cases "(m s, p w)" rule: agree.cases) (auto simp: mapE_def bindE_def ret_def)

lemma execute_calm:
  assumes "calm E" and "\<not> pgs_aborted s"
  shows "execute E st s = (case st (pgs_tables s) of
      Inl d \<Rightarrow> (Inl (Driver d), s\<lparr>pgs_calls := Suc (pgs_calls s), pgs_aborted := True\<rparr>)
    | Inr (a, t) \<Rightarrow> (Inr a, s\<lparr>pgs_calls := Suc (pgs_calls s), pgs_tables := t\<rparr>))"
  using assms by (simp add: execute_def driver_call_def calm_def Let_def split: sum.splits prod.splits)

lemma borrow_calm:
  assumes "calm E" and "\<not> pgs_aborted s" and "st (pgs_tables s) = Inr (a, t)" and "deferred_ok t"
  shows "\<exists>n. borrow_connection E (execute E st) s = (Inr a, s\<lparr>pgs_calls := n, pgs_tables := t\<rparr>)"
proof (cases "pg_in_transaction s")
  case True
  with assms show ?thesis by (auto simp: borrow_connection_def execute_calm)
next
  case False
  with assms show ?thesis
    by (intro exI [of _ "Suc (Suc (Suc (pgs_calls s)))"])
       (simp add: borrow_connection_def pool_connection_def driver_call_def calm_def Let_def execute_calm commit_connection_def)
qed

lemma pg_in_transaction_simps [simp]:
  "pg_in_transaction (s\<lparr>pgs_calls := n\<rparr>) = pg_in_transaction s" "pg_in_transaction (s\<lparr>pgs_tables := t\<rparr>) = pg_in_transaction s"
  "pg_in_transaction (s\<lparr>pgs_ticks := n\<rparr>) = pg_in_transaction s" "pg_in_transaction (s\<lparr>pgs_aborted := b\<rparr>) = pg_in_transaction s"
  by (simp_all add: pg_in_transaction_def)

lemma stores_simps [simp]:
  "stores t (w\<lparr>ticks := n\<rparr>) = stores t w"
  by (simp add: stores_def)

lemma has_workflow_stored: "stores t w \<Longrightarrow> has_workflow wid t \<longleftrightarrow> get_workflow wid w \<noteq> None"
  using workflows.holds_ex [of "t_workflows t" "wf_rows w" wid] by (simp add: stores_def has_workflow_def get_workflow_def)

lemma deferred_ok_frame [simp]:
  "deferred_ok (t\<lparr>t_workflows := a\<rparr>) = deferred_ok t" "deferred_ok (t\<lparr>t_transitions := b\<rparr>) = deferred_ok t"
  "deferred_ok (t\<lparr>t_artifacts := c\<rparr>) = deferred_ok t" "deferred_ok (t\<lparr>t_contents := d\<rparr>) = deferred_ok t"
  "deferred_ok (t\<lparr>t_idempotency := e\<rparr>) = deferred_ok t" "deferred_ok (t\<lparr>t_outbox := f\<rparr>) = deferred_ok t"
  "deferred_ok (t\<lparr>t_leases := g\<rparr>) = deferred_ok t" "deferred_ok (t\<lparr>t_invocations := h\<rparr>) = deferred_ok t"
  by (simp_all add: deferred_ok_def)

lemma linkedD:
  assumes "linked s w"
  shows "stores (pgs_tables s) w" "deferred_ok (pgs_tables s)" "\<not> pgs_aborted s" "pg_in_transaction s \<longleftrightarrow> in_txn w"
    "pgs_ticks s = ticks w"
  using assms by (simp_all add: linked_def)

lemmas pg_simps = pg_now_def pg_uuid_def mapped_def bindE_def catchE_def require_active_transaction_def py_simps

lemma create_workflow_agrees:
  assumes "calm E" and "linked s w" and "get_workflow wid w = None"
  shows "agree (pg_create_workflow E wid st s) (pf_create_workflow (pge_env E) wid st w)"
proof -
  note l = linkedD [OF assms(2)]
  let ?now = "env_now (pge_env E) (ticks w)"
  let ?x = "\<lparr>wf_id = wid, wf_state = st, wf_version = 1, wf_created_at = ?now, wf_updated_at = ?now,
    wf_revision_count = 0, wf_failure_reason = None\<rparr>"
  let ?t = "(pgs_tables s)\<lparr>t_workflows := t_workflows (pgs_tables s) @ [workflow_to_row ?x]\<rparr>"
  let ?s = "s\<lparr>pgs_ticks := Suc (ticks w)\<rparr>"
  have row: "workflow_to_row ?x = \<lparr>wr_workflow_id = wid, wr_state = state_value st, wr_state_version = 1, wr_created_at = ?now,
      wr_updated_at = ?now, wr_revision_count = 0, wr_failure_reason = None\<rparr>" by (simp add: workflow_to_row_def)
  have "insert_workflow (workflow_to_row ?x) (pgs_tables ?s) = Inr ((), ?t)"
    using assms(3) has_workflow_stored [OF l(1), of wid]
    by (simp add: insert_workflow_def insert_into_def int4_def workflow_to_row_def)
  from borrow_calm [of E ?s "insert_workflow (workflow_to_row ?x)", OF assms(1) _ this] l
  obtain n where "borrow_connection E (execute E (insert_workflow (workflow_to_row ?x))) ?s = (Inr (), ?s\<lparr>pgs_calls := n, pgs_tables := ?t\<rparr>)"
    by auto
  then have "pg_create_workflow E wid st s = (Inr ?x, ?s\<lparr>pgs_calls := n, pgs_tables := ?t\<rparr>)"
    unfolding row using l(5) by (simp add: pg_create_workflow_def pg_simps)
  moreover have "table_holds wf_id workflow_to_row (t_workflows ?t) (dict_set wid ?x (wf_rows w))"
    using l(1) assms(3) workflows.holds_append [of _ _ ?x wid] by (simp add: stores_def get_workflow_def)
  ultimately show ?thesis using l by (simp add: pf_create_workflow_def pg_simps stores_def Let_def)
qed

lemma update_state_agrees:
  assumes "calm E" and "linked s w" and "int4 v" and "int4 (v + 1)"
  shows "agree (pg_update_workflow_state E wid v st fr None s) (pf_update_workflow_state (pge_env E) wid v st fr None w)"
proof (cases "in_txn w")
  case False
  with linkedD [OF assms(2)] show ?thesis
    by (simp add: pg_update_workflow_state_def pf_update_workflow_state_def pg_simps pf_require_active)
next
  case True
  note l = linkedD [OF assms(2)]
  have tx: "pg_in_transaction s" using l True by simp
  have keys: "table_holds wf_id workflow_to_row (t_workflows (pgs_tables s)) (wf_rows w)" using l(1) by (simp add: stores_def)
  let ?now = "env_now (pge_env E) (ticks w)"
  let ?f = "\<lambda>r. r\<lparr>wr_state := state_value st, wr_state_version := wr_state_version r + 1, wr_updated_at := ?now, wr_failure_reason := fr\<rparr>"
  let ?P = "\<lambda>r. wr_workflow_id r = wid \<and> wr_state_version r = v"
  let ?t = "(pgs_tables s)\<lparr>t_workflows := update_where ?P ?f (t_workflows (pgs_tables s))\<rparr>"
  have "list_ex (\<lambda>r. ?P r \<and> \<not> int4 (wr_state_version r + 1)) (t_workflows (pgs_tables s)) = False"
    using assms(4) by (auto simp: list_ex_iff)
  then have upd: "update_workflow (state_value st) ?now fr wid v (pgs_tables s) = Inr (map_option ?f (find ?P (t_workflows (pgs_tables s))), ?t)"
    using assms(3) by (simp add: update_workflow_def Let_def)
  have found: "find ?P (t_workflows (pgs_tables s)) =
      (case get_workflow wid w of None \<Rightarrow> None | Some x \<Rightarrow> if wf_version x = v then Some (workflow_to_row x) else None)"
    using workflows.holds_find_where [OF keys, of wid "\<lambda>r. wr_state_version r = v"]
    by (simp add: get_workflow_def workflow_to_row_def cong: option.case_cong if_cong)
  show ?thesis
  proof (cases "\<exists>x. get_workflow wid w = Some x \<and> wf_version x = v")
    case True
    then obtain x where x: "get_workflow wid w = Some x" "wf_version x = v" by blast
    let ?x = "\<lparr>wf_id = wf_id x, wf_state = st, wf_version = wf_version x + 1, wf_created_at = wf_created_at x,
        wf_updated_at = ?now, wf_revision_count = wf_revision_count x, wf_failure_reason = fr\<rparr>"
    have row: "?f (workflow_to_row x) = workflow_to_row ?x" by (simp add: workflow_to_row_def)
    have xid: "wf_id x = wid" using keys x(1) by (auto simp: table_holds_def get_workflow_def dest: keys_ok_get)
    have "table_holds wf_id workflow_to_row (t_workflows ?t) (dict_set wid ?x (wf_rows w))"
      using workflows.holds_update [OF keys, of wid x ?x ?f ?P] x xid row by (simp add: get_workflow_def workflow_to_row_def)
    moreover have "pg_update_workflow_state E wid v st fr None s = (Inr ?x, s\<lparr>pgs_ticks := Suc (ticks w), pgs_calls := Suc (pgs_calls s), pgs_tables := ?t\<rparr>)"
      using upd found x row tx l assms(1) by (simp add: pg_update_workflow_state_def pg_simps execute_calm)
    ultimately show ?thesis using x \<open>in_txn w\<close> l tx
      by (simp add: pf_update_workflow_state_def pg_simps pf_require_active stores_def Let_def)
  next
    case False
    then have none: "find ?P (t_workflows (pgs_tables s)) = None" using found by (auto split: option.splits)
    then have same: "update_where ?P ?f (t_workflows (pgs_tables s)) = t_workflows (pgs_tables s)"
      unfolding update_where_def by (intro map_idI) (auto simp: find_None_iff)
    have ex: "find (\<lambda>r. wr_workflow_id r = wid) (t_workflows (pgs_tables s)) = map_option workflow_to_row (get_workflow wid w)"
      using workflows.holds_find [OF keys, of wid] by (simp add: get_workflow_def)
    show ?thesis using False none same ex upd tx \<open>in_txn w\<close> l assms(1)
      by (cases "get_workflow wid w")
         (simp_all add: pg_update_workflow_state_def pf_update_workflow_state_def workflow_exists_def borrow_connection_def
           WORKFLOWS_def pg_simps pf_require_active execute_calm)
  qed
qed

lemma append_transition_agrees:
  assumes "calm E" and "linked s w" and "get_workflow (tr_workflow_id t) w \<noteq> None"
  shows "agree (pg_append_transition E t s) (pf_append_transition t w)"
proof (cases "in_txn w")
  case False
  with linkedD [OF assms(2)] show ?thesis
    by (simp add: pg_append_transition_def pf_append_transition_def pg_simps pf_require_active)
next
  case True
  note l = linkedD [OF assms(2)]
  have tr: "t_transitions (pgs_tables s) = map transition_to_row (tr_rows w)" using l(1) by (simp add: stores_def)
  have dup: "list_ex (\<lambda>x. wtr_transition_id x = tr_id t) (t_transitions (pgs_tables s)) \<longleftrightarrow> (\<exists>x \<in> set (tr_rows w). tr_id x = tr_id t)"
    unfolding tr list_ex_iff by (auto simp: transition_to_row_def)
  have wf: "has_workflow (tr_workflow_id t) (pgs_tables s)" using has_workflow_stored [OF l(1)] assms(3) by simp
  show ?thesis
    using l True assms(1) dup wf tr
    by (simp add: pg_append_transition_def pf_append_transition_def pg_simps pf_require_active execute_calm
        WORKFLOW_TRANSITIONS_def insert_into_def unique_violation_def integrity_error_def stores_def)
       (simp_all add: transition_to_row_def)
qed

lemma pairs_get: "map (\<lambda>r. (kf r, vf r)) rows = d \<Longrightarrow> dict_get d k = map_option vf (find (\<lambda>r. kf r = k) rows)"
  by (induction rows arbitrary: d) auto

lemma pairs_ex: "map (\<lambda>r. (kf r, vf r)) rows = d \<Longrightarrow> list_ex (\<lambda>r. kf r = k) rows \<longleftrightarrow> dict_get d k \<noteq> None"
  by (simp add: list_ex_find pairs_get)

lemma create_task_agrees:
  assumes "calm E" and "linked s w" and "call_fits (pge_env E) (CreateTask k p) w"
  shows "agree (pg_create_task E k p s) (pf_create_task k p w)"
proof (cases "in_txn w \<and> ref_kind (tk_payload_reference k) = TASK_PAYLOAD_REF_KIND")
  case False
  with linkedD [OF assms(2)] show ?thesis
    by (auto simp: pg_create_task_def pf_create_task_def pg_simps pf_require_active)
next
  case True
  note l = linkedD [OF assms(2)]
  let ?t = "pgs_tables s" and ?ref = "ref_id (tk_payload_reference k)"
  have pay: "map (\<lambda>r. (tpr_ref_id r, tpr_payload r)) (t_payloads ?t) = payload_rows w"
    and tasks: "table_holds tk_id task_to_row (t_tasks ?t) (task_rows w)" using l(1) by (simp_all add: stores_def)
  have free: "\<not> list_ex (\<lambda>r. tpr_ref_id r = ?ref) (t_payloads ?t)" "\<not> list_ex (\<lambda>r. tkr_task_id r = tk_id k) (t_tasks ?t)"
    using pairs_ex [OF pay, of ?ref] tasks.holds_ex [OF tasks, of "tk_id k"] assms(3) by (simp_all add: get_task_def)
  have wf: "has_workflow (tk_workflow_id k) ?t" using has_workflow_stored [OF l(1)] assms(3) by simp
  define body where "body = (case p of None \<Rightarrow> JObj [] | Some x \<Rightarrow> x)"
  define r where "r = \<lparr>tpr_ref_id = ?ref, tpr_payload = body, tpr_created_at = env_now (pge_env E) (ticks w)\<rparr>"
  let ?t' = "?t\<lparr>t_payloads := t_payloads ?t @ [r], t_tasks := t_tasks ?t @ [task_to_row k]\<rparr>"
  have "pg_create_task E k p s = (Inr k, s\<lparr>pgs_ticks := Suc (ticks w), pgs_calls := Suc (Suc (pgs_calls s)), pgs_tables := ?t'\<rparr>)"
    using True l assms(1,3) free wf
    by (simp add: pg_create_task_def pg_simps execute_calm TASK_PAYLOADS_def TASKS_def insert_into_def r_def body_def Let_def
        has_workflow_def) (simp add: task_to_row_def)
  moreover have "map (\<lambda>r. (tpr_ref_id r, tpr_payload r)) (t_payloads ?t') = dict_set ?ref body (payload_rows w)"
    using pay assms(3) by (simp add: dict_set_append r_def)
  moreover have "table_holds tk_id task_to_row (t_tasks ?t') (dict_set (tk_id k) k (task_rows w))"
    using tasks.holds_append [OF tasks refl] assms(3) by (simp add: get_task_def)
  moreover have "deferred_ok ?t'"
    using l(2) by (auto simp: deferred_ok_def list_all_iff list_ex_iff r_def task_to_row_def)
  ultimately show ?thesis using True l by (simp add: pf_create_task_def pg_simps pf_require_active stores_def body_def Let_def)
qed

lemma update_task_agrees:
  assumes "calm E" and "linked s w" and "pred_option int4 att"
  shows "agree (pg_update_task E tid st att fr ca s) (pf_update_task (pge_env E) tid st att fr ca w)"
proof (cases "in_txn w")
  case False
  with linkedD [OF assms(2)] show ?thesis
    by (simp add: pg_update_task_def pf_update_task_def pg_simps pf_require_active)
next
  case True
  note l = linkedD [OF assms(2)]
  have tx: "pg_in_transaction s" using l True by simp
  let ?t = "pgs_tables s" and ?now = "env_now (pge_env E) (ticks w)"
  let ?P = "\<lambda>r. tkr_task_id r = tid"
  let ?f = "\<lambda>r. r\<lparr>tkr_status := task_status_value st, tkr_updated_at := ?now,
      tkr_attempt := (case att of None \<Rightarrow> tkr_attempt r | Some a \<Rightarrow> a),
      tkr_failure_reason := (case fr of None \<Rightarrow> tkr_failure_reason r | Some x \<Rightarrow> Some x),
      tkr_completed_at := (case ca of None \<Rightarrow> tkr_completed_at r | Some x \<Rightarrow> Some x)\<rparr>"
  let ?t' = "?t\<lparr>t_tasks := update_where ?P ?f (t_tasks ?t)\<rparr>"
  have tasks: "table_holds tk_id task_to_row (t_tasks ?t) (task_rows w)" using l(1) by (simp add: stores_def)
  have found: "find ?P (t_tasks ?t) = map_option task_to_row (get_task tid w)"
    using tasks.holds_find [OF tasks, of tid] by (simp add: get_task_def)
  have upd: "update_task_row (task_status_value st) ?now att fr ca tid ?t = Inr (map_option ?f (find ?P (t_tasks ?t)), ?t')"
    using assms(3) by (simp add: update_task_row_def Let_def)
  have def_ok: "deferred_ok ?t'" using l(2) by (auto simp: deferred_ok_def update_where_def list_all_iff)
  show ?thesis
  proof (cases "get_task tid w")
    case None
    then have "update_where ?P ?f (t_tasks ?t) = t_tasks ?t"
      using found unfolding update_where_def by (intro map_idI) (auto simp: find_None_iff)
    with None found upd tx True l assms(1) show ?thesis
      by (simp add: pg_update_task_def pf_update_task_def pg_simps pf_require_active execute_calm)
  next
    case (Some k)
    let ?k = "merge_task k ?now st att fr ca"
    have row: "?f (task_to_row k) = task_to_row ?k" by (simp add: task_to_row_def merge_task_def split: option.split)
    have kid: "tk_id k = tid" using tasks Some by (auto simp: table_holds_def get_task_def dest: keys_ok_get)
    have "table_holds tk_id task_to_row (t_tasks ?t') (dict_set tid ?k (task_rows w))"
      using tasks.holds_update [OF tasks, of tid k ?k ?f ?P] Some kid row by (simp add: get_task_def task_to_row_def merge_task_def)
    moreover have "pg_update_task E tid st att fr ca s = (Inr ?k, s\<lparr>pgs_ticks := Suc (ticks w), pgs_calls := Suc (pgs_calls s), pgs_tables := ?t'\<rparr>)"
      using upd found Some row tx l assms(1) by (simp add: pg_update_task_def pg_simps execute_calm)
    ultimately show ?thesis using Some True l tx def_ok
      by (simp add: pf_update_task_def pg_simps pf_require_active stores_def Let_def)
  qed
qed

lemma outbox_insert_agrees:
  assumes "calm E" and "linked s w" and "dict_get (outbox_rows w) (env_uuid (pge_env E) (ticks w)) = None"
  shows "agree (pg_outbox_insert E spec s) (pf_outbox_insert (pge_env E) spec w)"
proof (cases "in_txn w")
  case False
  with linkedD [OF assms(2)] show ?thesis
    by (simp add: pg_outbox_insert_def pf_outbox_insert_def pg_simps pf_require_active)
next
  case True
  note l = linkedD [OF assms(2)]
  let ?t = "pgs_tables s"
  have entries: "table_holds ob_id outbox_to_row (t_outbox ?t) (outbox_rows w)" using l(1) by (simp add: stores_def)
  have free: "\<not> list_ex (\<lambda>r. obw_outbox_id r = env_uuid (pge_env E) (ticks w)) (t_outbox ?t)"
    using entries.holds_ex [OF entries] assms(3) by simp
  let ?e = "\<lparr>ob_id = env_uuid (pge_env E) (ticks w), ob_workflow_id = ois_workflow_id spec, ob_task_id = ois_task_id spec,
      ob_task_type = ois_task_type spec, ob_payload_reference = ois_payload_reference spec,
      ob_idempotency_key = ois_idempotency_key spec, ob_status = OB_PENDING,
      ob_created_at = env_now (pge_env E) (Suc (ticks w)), ob_published_at = None\<rparr>"
  have "table_holds ob_id outbox_to_row (t_outbox ?t @ [outbox_to_row ?e]) (dict_set (ob_id ?e) ?e (outbox_rows w))"
    by (rule entries.holds_append [OF entries refl]) (use assms(3) in simp)
  then show ?thesis
    using l True assms(1,3) free
    by (simp add: pg_outbox_insert_def pf_outbox_insert_def pg_simps pf_require_active execute_calm OUTBOX_def insert_into_def
        outbox_to_row_def stores_def Let_def)
qed

lemma try_insert_agrees:
  assumes "calm E" and "linked s w"
  shows "agree (pg_try_insert E spec s) (pf_try_insert (pge_env E) spec w)"
proof (cases "in_txn w")
  case False
  with linkedD [OF assms(2)] show ?thesis
    by (simp add: pg_try_insert_def pf_try_insert_def pg_simps pf_require_active)
next
  case True
  note l = linkedD [OF assms(2)]
  let ?t = "pgs_tables s"
  have tx: "pg_in_transaction s" using l True by simp
  have keys: "table_holds id_key idempotency_to_row (t_idempotency ?t) (idem_rows w)" using l(1) by (simp add: stores_def)
  have found: "find (\<lambda>r. idr_idempotency_key r = iis_key spec) (t_idempotency ?t) = map_option idempotency_to_row (pf_get_by_key (iis_key spec) w)"
    using keys.holds_find [OF keys] by (simp add: pf_get_by_key_def)
  show ?thesis
  proof (cases "pf_get_by_key (iis_key spec) w")
    case None
    let ?r = "\<lparr>id_key = iis_key spec, id_workflow_id = iis_workflow_id spec, id_task_id = iis_task_id spec,
        id_completed_at = env_now (pge_env E) (ticks w), id_result_artifact_id = iis_result_artifact_id spec\<rparr>"
    have "table_holds id_key idempotency_to_row (t_idempotency ?t @ [idempotency_to_row ?r]) (dict_set (iis_key spec) ?r (idem_rows w))"
      by (rule keys.holds_append [OF keys]) (use None in \<open>simp_all add: pf_get_by_key_def\<close>)
    then show ?thesis using None found tx True l assms(1)
      by (simp add: pg_try_insert_def pf_try_insert_def pg_insert_row_def pg_simps pf_require_active execute_calm
          IDEMPOTENCY_TRY_INSERT_def list_ex_find idempotency_to_row_def to_idempotency_record_def stores_def Let_def)
  next
    case (Some x)
    then show ?thesis using found tx True l assms(1)
      by (simp add: pg_try_insert_def pf_try_insert_def pg_insert_row_def pg_select_by_key_def pg_simps pf_require_active
          execute_calm IDEMPOTENCY_TRY_INSERT_def select_key_def borrow_connection_def list_ex_find)
  qed
qed

lemma append_invocation_agrees:
  assumes "calm E" and "linked s w" and "call_fits (pge_env E) (AppendInvocation spec) w"
  shows "agree (pg_append_ai_invocation E spec s) (append_ai_invocation (pge_env E) spec w)"
proof -
  note l = linkedD [OF assms(2)]
  let ?id = "env_uuid (pge_env E) (ticks w)" and ?s = "s\<lparr>pgs_ticks := Suc (ticks w)\<rparr>"
  let ?r = "invocation_to_row ?id spec"
  let ?t = "(pgs_tables s)\<lparr>t_invocations := t_invocations (pgs_tables s) @ [stored_invocation \<lparr>ai_id = ?id, ai_spec = spec\<rparr>]\<rparr>"
  have inv: "t_invocations (pgs_tables s) = map stored_invocation (inv_rows w)" using l(1) by (simp add: stores_def)
  then have free: "\<not> list_ex (\<lambda>x. air_invocation_id x = ?id) (t_invocations (pgs_tables s))"
    using assms(3) by (auto simp: list_ex_iff stored_invocation_def invocation_to_row_def)
  have "AI_INVOCATIONS ?r (pgs_tables ?s) = Inr ((), ?t)"
    using assms(3) free
    by (auto simp: AI_INVOCATIONS_def insert_into_def invocation_to_row_def stored_invocation_def pred_option_def list_all_iff)
  from borrow_calm [of E ?s "AI_INVOCATIONS ?r", OF assms(1) _ this] l
  obtain n where "borrow_connection E (execute E (AI_INVOCATIONS ?r)) ?s = (Inr (), ?s\<lparr>pgs_calls := n, pgs_tables := ?t\<rparr>)"
    by auto
  then show ?thesis using l inv by (simp add: pg_append_ai_invocation_def append_ai_invocation_def pg_simps stores_def Let_def)
qed

lemma mark_published_agrees:
  assumes "calm E" and "linked s w"
  shows "agree (pg_mark_published E oid at0 s) (pf_mark_published oid at0 w)"
proof -
  note l = linkedD [OF assms(2)]
  let ?t = "pgs_tables s"
  have entries: "table_holds ob_id outbox_to_row (t_outbox ?t) (outbox_rows w)" using l(1) by (simp add: stores_def)
  let ?P = "\<lambda>r. obw_outbox_id r = oid \<and> obw_status r = outbox_status_value OB_PENDING"
  let ?f = "\<lambda>r. r\<lparr>obw_status := outbox_status_value OB_PUBLISHED, obw_published_at := Some at0\<rparr>"
  have "select_outbox_entry oid ?t = Inr (map_option outbox_to_row (dict_get (outbox_rows w) oid), ?t)"
    using entries.holds_find [OF entries] by (simp add: select_outbox_entry_def)
  from borrow_calm [of E s "select_outbox_entry oid", OF assms(1) _ this] l
  obtain n where sel: "borrow_connection E (execute E (select_outbox_entry oid)) s =
      (Inr (map_option outbox_to_row (dict_get (outbox_rows w) oid)), s\<lparr>pgs_calls := n\<rparr>)" by auto
  show ?thesis
  proof (cases "dict_get (outbox_rows w) oid")
    case None
    then show ?thesis using sel l
      by (simp add: pg_mark_published_def pf_mark_published_def pg_fetch_entry_def pg_simps)
  next
    case (Some e)
    show ?thesis
    proof (cases "ob_status e")
      case OB_PUBLISHED
      with Some show ?thesis using sel l
        by (simp add: pg_mark_published_def pf_mark_published_def pg_fetch_entry_def pg_simps)
    next
      case OB_PENDING
      let ?e = "e\<lparr>ob_status := OB_PUBLISHED, ob_published_at := Some at0\<rparr>"
      let ?t' = "?t\<lparr>t_outbox := update_where ?P ?f (t_outbox ?t)\<rparr>"
      have row: "?f (outbox_to_row e) = outbox_to_row ?e" by (simp add: outbox_to_row_def)
      have eid: "ob_id e = oid" using entries Some by (auto simp: table_holds_def dest: keys_ok_get)
      have held: "table_holds ob_id outbox_to_row (t_outbox ?t') (dict_set oid ?e (outbox_rows w))"
        using entries.holds_update [OF entries, of oid e ?e ?f ?P] Some eid row OB_PENDING by (simp add: outbox_to_row_def)
      have "find ?P (t_outbox ?t) = Some (outbox_to_row e)"
        using entries.holds_find_where [OF entries, of oid "\<lambda>r. obw_status r = outbox_status_value OB_PENDING"] Some OB_PENDING
        by (simp add: outbox_to_row_def)
      then have "update_outbox (outbox_status_value OB_PUBLISHED) at0 oid (outbox_status_value OB_PENDING) ?t = Inr (Some (outbox_to_row ?e), ?t')"
        using row by (simp add: update_outbox_def Let_def)
      with borrow_calm [of E "s\<lparr>pgs_calls := n\<rparr>"
          "update_outbox (outbox_status_value OB_PUBLISHED) at0 oid (outbox_status_value OB_PENDING)" _ ?t', OF assms(1)] l
      obtain m where "borrow_connection E (execute E (update_outbox (outbox_status_value OB_PUBLISHED) at0 oid (outbox_status_value OB_PENDING)))
          (s\<lparr>pgs_calls := n\<rparr>) = (Inr (Some (outbox_to_row ?e)), s\<lparr>pgs_calls := m, pgs_tables := ?t'\<rparr>)" by auto
      then have "pg_mark_published E oid at0 s = (Inr ?e, s\<lparr>pgs_calls := m, pgs_tables := ?t'\<rparr>)"
        using sel Some OB_PENDING
        by (simp add: pg_mark_published_def pg_fetch_entry_def pg_update_published_def pg_simps)
      with held Some OB_PENDING l show ?thesis
        by (simp add: pf_mark_published_def pg_simps stores_def Let_def)
    qed
  qed
qed

lemma slot_to_row:
  "same_artifact_slot (acs_workflow_id spec) (artifact_type_value (acs_type spec)) (artifact_to_row r) \<longleftrightarrow> same_slot spec r"
  by (cases "acs_type spec"; cases "ar_type r") (auto simp: same_artifact_slot_def same_slot_def artifact_to_row_def)

lemma deactivate_keys: "dict_keys (deactivate_slot spec d) = dict_keys d"
  by (simp add: deactivate_slot_def case_prod_unfold)

lemma deactivate_values:
  "dict_values (deactivate_slot spec d) =
    map (\<lambda>r. if same_slot spec r \<and> ar_is_active r then r\<lparr>ar_is_active := False\<rparr> else r) (dict_values d)"
  by (auto simp: deactivate_slot_def)

lemma deactivate_get: "dict_get (deactivate_slot spec d) k = None \<longleftrightarrow> dict_get d k = None"
  unfolding map_of_eq_None_iff set_map [symmetric] deactivate_keys ..

lemma keys_ok_deactivate: "keys_ok ar_id d \<Longrightarrow> keys_ok ar_id (deactivate_slot spec d)"
  unfolding keys_ok_def deactivate_keys by (auto simp: deactivate_slot_def split: if_splits)

lemma deactivate_holds:
  assumes "table_holds ar_id artifact_to_row rows d"
  shows "table_holds ar_id artifact_to_row
    (update_where (\<lambda>r. same_artifact_slot (acs_workflow_id spec) (artifact_type_value (acs_type spec)) r \<and> arr_is_active r)
      (\<lambda>r. r\<lparr>arr_is_active := False\<rparr>) rows) (deactivate_slot spec d)"
proof -
  have "arr_is_active (artifact_to_row r) = ar_is_active r"
    "(artifact_to_row r)\<lparr>arr_is_active := False\<rparr> = artifact_to_row (r\<lparr>ar_is_active := False\<rparr>)" for r
    by (simp_all add: artifact_to_row_def)
  moreover have "keys_ok ar_id d" and "rows = map artifact_to_row (dict_values d)" using assms by (simp_all only: table_holds_def)
  ultimately show ?thesis
    unfolding table_holds_def deactivate_values using keys_ok_deactivate by (auto simp: update_where_def slot_to_row)
qed

lemma artifact_taken:
  assumes "table_holds ar_id artifact_to_row rows d" and "dict_get d aid = None"
  shows "list_ex (\<lambda>x. arr_artifact_id x = aid
      \<or> same_artifact_slot (acs_workflow_id spec) (artifact_type_value (acs_type spec)) x \<and> (arr_version x = v \<or> arr_is_active x \<and> act)) rows
    \<longleftrightarrow> (\<exists>r \<in> set (dict_values d). same_slot spec r \<and> (ar_version r = v \<or> ar_is_active r \<and> act))"
proof -
  have "ar_id r \<noteq> aid" if "r \<in> set (dict_values d)" for r
    using assms that keys_ok_values [of ar_id d r] by (auto simp: table_holds_def)
  moreover have "arr_artifact_id (artifact_to_row r) = ar_id r" "arr_version (artifact_to_row r) = ar_version r"
    "arr_is_active (artifact_to_row r) = ar_is_active r" for r by (simp_all add: artifact_to_row_def)
  ultimately show ?thesis using assms(1) by (auto simp: table_holds_def list_ex_iff slot_to_row)
qed

text \<open>The table of artifacts that the insertion meets, after the active one of the slot is set aside.\<close>

abbreviation slot_freed :: "artifact_create_spec \<Rightarrow> (string, artifact_record) dict \<Rightarrow> (string, artifact_record) dict" where
  "slot_freed spec d \<equiv> if acs_is_active spec then deactivate_slot spec d else d"

lemma slot_freed_taken:
  "(\<exists>r \<in> set (dict_values (slot_freed spec d)). same_slot spec r \<and> (ar_version r = acs_version spec \<or> ar_is_active r \<and> acs_is_active spec))
    \<longleftrightarrow> (\<exists>r \<in> set (dict_values d). same_slot spec r \<and> ar_version r = acs_version spec)"
proof (cases "acs_is_active spec")
  case True
  let ?f = "\<lambda>r. if same_slot spec r \<and> ar_is_active r then r\<lparr>ar_is_active := False\<rparr> else r"
  have "same_slot spec (?f r) \<and> (ar_version (?f r) = acs_version spec \<or> ar_is_active (?f r))
      \<longleftrightarrow> same_slot spec r \<and> ar_version r = acs_version spec" for r
    by (auto simp: same_slot_def)
  with True show ?thesis unfolding if_P [OF True] deactivate_values set_map [of ?f] bex_simps(7) by (simp only: simp_thms)
qed auto

lemma insert_artifact_calm:
  assumes "calm E" and "\<not> pgs_aborted s" and "stores (pgs_tables s) w" and "call_fits (pge_env E) (CreateArtifact spec) w"
    and aid: "aid = env_uuid (pge_env E) (ticks w)"
    and run: "run = insert_artifact_rows E aid spec (artifact_type_value (acs_type spec)) now (acs_is_active spec)"
  shows "if \<exists>r \<in> set (dict_values (art_rows w)). same_slot spec r \<and> ar_version r = acs_version spec
    then \<exists>t n. run s = (Inl (Driver unique_violation), s\<lparr>pgs_calls := n, pgs_aborted := True, pgs_tables := t\<rparr>)
    else \<exists>t n. run s = (Inr (), s\<lparr>pgs_calls := n, pgs_tables := t\<rparr>) \<and> deferred_ok t = deferred_ok (pgs_tables s)
      \<and> stores t (w\<lparr>art_rows := dict_set aid (new_artifact aid now spec) (slot_freed spec (art_rows w)),
                     content_rows := dict_set aid (acs_content spec) (content_rows w)\<rparr>)"
proof -
  let ?t = "pgs_tables s" and ?ty = "artifact_type_value (acs_type spec)"
  have arts: "table_holds ar_id artifact_to_row (t_artifacts ?t) (art_rows w)"
    and cont: "map (\<lambda>r. (acr_artifact_id r, acr_content r)) (t_contents ?t) = content_rows w"
    using assms(3) by (simp_all add: stores_def)
  define rows where "rows = (if acs_is_active spec
    then update_where (\<lambda>r. same_artifact_slot (acs_workflow_id spec) ?ty r \<and> arr_is_active r) (\<lambda>r. r\<lparr>arr_is_active := False\<rparr>) (t_artifacts ?t)
    else t_artifacts ?t)"
  have held: "table_holds ar_id artifact_to_row rows (slot_freed spec (art_rows w))"
    using arts deactivate_holds [OF arts, of spec] by (simp add: rows_def)
  have new: "dict_get (slot_freed spec (art_rows w)) aid = None"
    using assms(4) aid by (simp add: deactivate_get)
  have wf: "has_workflow (acs_workflow_id spec) (?t\<lparr>t_artifacts := rows\<rparr>)"
    using has_workflow_stored [OF assms(3)] assms(4) by (simp add: has_workflow_def)
  have nocont: "\<not> list_ex (\<lambda>r. acr_artifact_id r = aid) (t_contents ?t)"
    using pairs_ex [OF cont, of aid] assms(4) aid by simp
  let ?a = "artifact_to_row (new_artifact aid now spec)"
  let ?c = "\<lparr>acr_artifact_id = aid, acr_content = acs_content spec, acr_created_at = now\<rparr>"
  have row: "?a = \<lparr>arr_artifact_id = aid, arr_workflow_id = acs_workflow_id spec, arr_artifact_type = ?ty, arr_name = acs_name spec,
      arr_version = acs_version spec, arr_logical_version = acs_logical_version spec, arr_is_active = acs_is_active spec,
      arr_created_at = now, arr_content_hash = None\<rparr>" by (simp add: artifact_to_row_def new_artifact_def)
  have first: "ARTIFACTS ?a (?t\<lparr>t_artifacts := rows\<rparr>) =
      (if \<exists>r \<in> set (dict_values (art_rows w)). same_slot spec r \<and> ar_version r = acs_version spec then Inl unique_violation
       else Inr ((), ?t\<lparr>t_artifacts := rows @ [?a]\<rparr>))"
    using artifact_taken [OF held new, of spec "acs_version spec" "acs_is_active spec"] slot_freed_taken [of spec "art_rows w"] assms(4) wf
    by (simp add: ARTIFACTS_def insert_into_def row Let_def)
  have second: "ARTIFACT_CONTENT ?c (?t\<lparr>t_artifacts := rows @ [?a]\<rparr>) =
      Inr ((), ?t\<lparr>t_artifacts := rows @ [?a], t_contents := t_contents ?t @ [?c]\<rparr>)"
    using nocont by (simp add: ARTIFACT_CONTENT_def insert_into_def row)
  have start: "whenE (acs_is_active spec) (execute E (deactivate_artifacts (acs_workflow_id spec) ?ty)) s =
      (Inr (), s\<lparr>pgs_calls := (if acs_is_active spec then Suc (pgs_calls s) else pgs_calls s), pgs_tables := ?t\<lparr>t_artifacts := rows\<rparr>\<rparr>)"
    using assms(1,2) by (auto simp: execute_calm deactivate_artifacts_def rows_def ret_def)
  have "table_holds ar_id artifact_to_row (rows @ [?a]) (dict_set aid (new_artifact aid now spec) (slot_freed spec (art_rows w)))"
    by (rule artifacts.holds_append [OF held _ new]) (simp add: new_artifact_def)
  moreover have "dict_set aid (acs_content spec) (content_rows w) = content_rows w @ [(aid, acs_content spec)]"
    using assms(4) aid by (simp add: dict_set_append)
  ultimately have held2: "stores (?t\<lparr>t_artifacts := rows @ [?a], t_contents := t_contents ?t @ [?c]\<rparr>)
      (w\<lparr>art_rows := dict_set aid (new_artifact aid now spec) (slot_freed spec (art_rows w)),
         content_rows := dict_set aid (acs_content spec) (content_rows w)\<rparr>)"
    using assms(3) by (simp add: stores_def)
  have result: "run s = (if \<exists>r \<in> set (dict_values (art_rows w)). same_slot spec r \<and> ar_version r = acs_version spec
      then (Inl (Driver unique_violation), s\<lparr>pgs_calls := Suc (if acs_is_active spec then Suc (pgs_calls s) else pgs_calls s),
        pgs_aborted := True, pgs_tables := ?t\<lparr>t_artifacts := rows\<rparr>\<rparr>)
      else (Inr (), s\<lparr>pgs_calls := Suc (Suc (if acs_is_active spec then Suc (pgs_calls s) else pgs_calls s)),
        pgs_tables := ?t\<lparr>t_artifacts := rows @ [?a], t_contents := t_contents ?t @ [?c]\<rparr>\<rparr>))"
    unfolding run insert_artifact_rows_def bindE_def [of "whenE _ _"] start row [symmetric]
    using first second assms(1,2) by (simp add: bindE_def execute_calm)
  show ?thesis
  proof (cases "\<exists>r \<in> set (dict_values (art_rows w)). same_slot spec r \<and> ar_version r = acs_version spec")
    case True
    then show ?thesis using result unfolding if_P [OF True] by blast
  next
    case False
    note eq = result [unfolded if_not_P [OF False]]
    show ?thesis unfolding if_not_P [OF False]
      by (rule exI, rule exI, rule conjI, rule eq) (simp only: deferred_ok_frame held2 simp_thms)
  qed
qed

lemma borrow_returns:
  assumes "calm E" and "\<not> pgs_aborted s"
    and "\<And>k. \<exists>t n. body (s\<lparr>pgs_calls := k\<rparr>) = (Inr a, s\<lparr>pgs_calls := n, pgs_tables := t\<rparr>) \<and> deferred_ok t \<and> Q t"
  shows "\<exists>t n. borrow_connection E body s = (Inr a, s\<lparr>pgs_calls := n, pgs_tables := t\<rparr>) \<and> deferred_ok t \<and> Q t"
proof (cases "pg_in_transaction s")
  case True
  then show ?thesis using assms(3) [of "pgs_calls s"] by (simp add: borrow_connection_def)
next
  case False
  with assms(1,2) obtain t n where "body (s\<lparr>pgs_calls := Suc (pgs_calls s)\<rparr>) = (Inr a, s\<lparr>pgs_calls := n, pgs_tables := t\<rparr>)"
    and "deferred_ok t" "Q t" using assms(3) by blast
  with False assms(1,2) show ?thesis
    by (intro exI [of _ t] exI [of _ "Suc n"])
       (simp add: borrow_connection_def pool_connection_def driver_call_def calm_def Let_def commit_connection_def)
qed

lemma borrow_raises:
  assumes "calm E" and "\<not> dbe_timeout d"
    and "\<And>k. \<exists>t n. body (s\<lparr>pgs_calls := k\<rparr>) = (Inl (Driver d), s\<lparr>pgs_calls := n, pgs_aborted := True, pgs_tables := t\<rparr>)"
  shows "\<exists>s'. borrow_connection E body s = (Inl (Driver d), s') \<and> (pgs_tables s' = pgs_tables s \<or> pgs_aborted s')
    \<and> pg_in_transaction s' = pg_in_transaction s"
proof (cases "pg_in_transaction s")
  case True
  then show ?thesis using assms(3) [of "pgs_calls s"] by (auto simp: borrow_connection_def)
next
  case False
  obtain t n where "body (s\<lparr>pgs_calls := Suc (pgs_calls s)\<rparr>) = (Inl (Driver d), s\<lparr>pgs_calls := n, pgs_aborted := True, pgs_tables := t\<rparr>)"
    using assms(3) by blast
  with False assms(1,2) show ?thesis
    by (simp add: borrow_connection_def pool_connection_def driver_call_def calm_def Let_def acquire_error_def)
qed

lemma create_artifact_agrees:
  assumes "calm E" and "linked s w" and "call_fits (pge_env E) (CreateArtifact spec) w"
  shows "agree (pg_create_artifact E spec s) (pf_create_artifact (pge_env E) spec w)"
proof (cases "acs_is_active spec \<and> \<not> in_txn w")
  case True
  with linkedD [OF assms(2)] show ?thesis
    by (simp add: pg_create_artifact_def pf_create_artifact_def pg_simps pf_require_active)
next
  case ok: False
  note l = linkedD [OF assms(2)]
  let ?aid = "env_uuid (pge_env E) (ticks w)" and ?now = "env_now (pge_env E) (Suc (ticks w))"
  let ?s = "s\<lparr>pgs_ticks := Suc (Suc (ticks w))\<rparr>"
  define run where "run = insert_artifact_rows E ?aid spec (artifact_type_value (acs_type spec)) ?now (acs_is_active spec)"
  define taken where "taken \<longleftrightarrow> (\<exists>r \<in> set (dict_values (art_rows w)). same_slot spec r \<and> ar_version r = acs_version spec)"
  let ?w = "w\<lparr>art_rows := dict_set ?aid (new_artifact ?aid ?now spec) (slot_freed spec (art_rows w)),
      content_rows := dict_set ?aid (acs_content spec) (content_rows w)\<rparr>"
  have ran: "if taken then \<exists>t n. run (?s\<lparr>pgs_calls := k\<rparr>) = (Inl (Driver unique_violation), ?s\<lparr>pgs_calls := n, pgs_aborted := True, pgs_tables := t\<rparr>)
    else \<exists>t n. run (?s\<lparr>pgs_calls := k\<rparr>) = (Inr (), ?s\<lparr>pgs_calls := n, pgs_tables := t\<rparr>) \<and> deferred_ok t \<and> stores t ?w" for k
  proof -
    have "\<not> pgs_aborted (?s\<lparr>pgs_calls := k\<rparr>)" "stores (pgs_tables (?s\<lparr>pgs_calls := k\<rparr>)) w" "deferred_ok (pgs_tables s)"
      using l by simp_all
    from insert_artifact_calm [OF assms(1) this(1,2) assms(3) refl run_def] this(3) show ?thesis
      unfolding taken_def [symmetric] by (cases taken) simp_all
  qed
  have pg: "pg_create_artifact E spec s = (case borrow_connection E run ?s of
      (Inr _, s') \<Rightarrow> (Inr (new_artifact ?aid ?now spec), s')
    | (Inl x, s') \<Rightarrow> (Inl (if is_unique_violation x then Pers (PersistenceDuplicateError (acs_workflow_id spec))
        else translate x ''create_artifact'' (Some (acs_workflow_id spec))), s'))"
    using l ok by (cases "acs_is_active spec")
      (auto simp: pg_create_artifact_def pg_simps run_def borrow_connection_def Let_def split: prod.split sum.split)
  show ?thesis
  proof (cases taken)
    case True
    with borrow_raises [of E unique_violation run ?s] ran assms(1)
    obtain s' where "borrow_connection E run ?s = (Inl (Driver unique_violation), s')"
      "pgs_tables s' = pgs_tables s \<or> pgs_aborted s'" "pg_in_transaction s' = pg_in_transaction s"
      by (auto simp: unique_violation_def integrity_error_def)
    with pg True ok l show ?thesis
      by (auto simp: pf_create_artifact_def pg_simps pf_require_active taken_def unique_violation_def integrity_error_def)
  next
    case False
    with borrow_returns [of E ?s run "()" "\<lambda>t. stores t ?w"] ran assms(1) l
    obtain t n where "borrow_connection E run ?s = (Inr (), ?s\<lparr>pgs_calls := n, pgs_tables := t\<rparr>)" "deferred_ok t" "stores t ?w"
      by auto
    with pg False ok l show ?thesis
      by (cases "acs_is_active spec")
         (simp_all add: pf_create_artifact_def pg_simps pf_require_active taken_def Let_def stores_def)
  qed
qed

text \<open>
  C31. The production repositories do what the in-memory ones do. When the driver does not fail, the tables hold what the in-memory store
  holds, and the call asks nothing of the database that the in-memory store does not check (integers of 32 bits,
  fresh identifiers, the workflow of a row, a cost of six digits), then every writing call (a new workflow, a state
  update under its version, a transition, a task with its payload, an update of a task, an outbox entry, the mark of a
  published entry, the claim of an idempotency key, an artifact with its content, an AI invocation)
  returns the same record or raises the same error in both, and leaves tables that hold what the in-memory store holds
  afterwards, ready for a commit; after an error the transaction may be aborted instead.
\<close>

theorem stores_agree:
  assumes "calm E" and "linked s w" and "call_fits (pge_env E) call w"
  shows "agree (pg_call E call s) (memory_call (pge_env E) call w)"
proof (cases call)
  case (AppendTransition t)
  then show ?thesis using append_transition_agrees [of E s w t] assms by (simp add: agree_mapE)
next
  case (CreateArtifact spec)
  then show ?thesis using create_artifact_agrees [of E s w spec] assms by (simp only: pg_call.simps memory_call.simps agree_mapE)
next
  case (AppendInvocation spec)
  then show ?thesis using append_invocation_agrees [of E s w spec] assms by (simp only: pg_call.simps memory_call.simps agree_mapE)
next
  case (CreateTask k p)
  then show ?thesis using create_task_agrees [of E s w k p] assms by (simp only: pg_call.simps memory_call.simps agree_mapE)
qed (use assms in \<open>simp_all add: agree_mapE create_workflow_agrees update_state_agrees update_task_agrees outbox_insert_agrees
  mark_published_agrees try_insert_agrees\<close>)

definition calm_env :: "env \<Rightarrow> pg_env" where
  "calm_env E = \<lparr>pge_env = E, pge_fault = (\<lambda>_. None), pge_lost = (\<lambda>_. False), pge_place = (\<lambda>_ i. i)\<rparr>"

definition empty_tables :: pg_tables where
  "empty_tables = \<lparr>t_workflows = [], t_transitions = [], t_payloads = [], t_tasks = [], t_artifacts = [], t_contents = [],
     t_idempotency = [], t_outbox = [], t_leases = [], t_invocations = []\<rparr>"

definition pg_start :: "pg_tables \<Rightarrow> pg_state" where
  "pg_start t = \<lparr>pgs_tables = t, pgs_session = None, pgs_aborted = False, pgs_calls = 0, pgs_ticks = 0\<rparr>"

theorem stores_agree_witness:
  "agree (pg_call (calm_env demo_env) (CreateWorkflow ''w1'' CREATED) (pg_start empty_tables))
     (memory_call (pge_env (calm_env demo_env)) (CreateWorkflow ''w1'' CREATED) empty_world)"
  by (rule stores_agree)
     (simp_all add: calm_def calm_env_def linked_def pg_start_def empty_tables_def empty_world_def stores_def
       table_holds_def deferred_ok_def pg_in_transaction_def get_workflow_def)

section \<open>Transactions under any failure\<close>

lemma driver_call_frame:
  "driver_call E s = (r, s') \<Longrightarrow> s' = s\<lparr>pgs_calls := Suc (pgs_calls s)\<rparr>"
  by (auto simp: driver_call_def Let_def split: option.splits)

lemma commit_cases:
  assumes "commit_connection E t0 s = (r, s')"
  shows "\<not> pgs_aborted s'" and "pgs_session s' = pgs_session s"
    and "r = Inr () \<Longrightarrow> pgs_tables s' = (if pgs_aborted s then t0 else pgs_tables s)"
    and "pgs_tables s' = t0 \<or> \<not> pgs_aborted s \<and> pgs_tables s' = pgs_tables s \<and> deferred_ok (pgs_tables s)
      \<and> (r \<noteq> Inr () \<longrightarrow> pge_lost E (pgs_calls s))"
  using assms by (auto simp: commit_connection_def driver_call_def Let_def split: if_splits option.splits)

lemma commit_stored: "commit_connection E t0 s = (Inr u, s') \<Longrightarrow> \<not> pgs_aborted s \<Longrightarrow> deferred_ok (pgs_tables s)"
  by (auto simp: commit_connection_def driver_call_def Let_def split: if_splits option.splits)

lemma rollback_cases:
  "rollback_connection E t0 s = (r, s') \<Longrightarrow> pgs_tables s' = t0 \<and> \<not> pgs_aborted s' \<and> pgs_session s' = pgs_session s"
  by (auto simp: rollback_connection_def driver_call_def Let_def split: if_splits option.splits prod.splits)

lemma begin_cases:
  assumes "bindE (driver_call E) (\<lambda>_. driver_call E) s = (r, s')"
  shows "\<exists>n. s' = s\<lparr>pgs_calls := n\<rparr>"
  using assms by (auto simp: bindE_def driver_call_def Let_def split: option.splits sum.splits prod.splits)

lemma transaction_outcome:
  assumes "pg_transaction E body s = (r, s')" and "\<not> pg_in_transaction s \<Longrightarrow> \<not> pgs_aborted s"
  shows "if pg_in_transaction s then r = Inl (Pers (PersistenceTransactionError ''Nested transaction not supported'')) \<and> s' = s
    else \<not> pg_in_transaction s' \<and> \<not> pgs_aborted s'
    \<and> (case r of
         Inr a \<Rightarrow> \<exists>n s2. body (s\<lparr>pgs_calls := n, pgs_session := Some (pgs_tables s)\<rparr>) = (Inr a, s2)
           \<and> (if pgs_aborted s2 then pgs_tables s' = pgs_tables s
              else pgs_tables s' = pgs_tables s2 \<and> deferred_ok (pgs_tables s2))
       | Inl x \<Rightarrow> pgs_tables s' = pgs_tables s
           \<or> (\<exists>n a s2. body (s\<lparr>pgs_calls := n, pgs_session := Some (pgs_tables s)\<rparr>) = (Inr a, s2) \<and> \<not> pgs_aborted s2
                \<and> pge_lost E (pgs_calls s2) \<and> pgs_tables s' = pgs_tables s2 \<and> deferred_ok (pgs_tables s2)))"
proof (cases "pg_in_transaction s")
  case True
  then show ?thesis using assms(1) by (simp add: pg_transaction_def)
next
  case out: False
  obtain r1 s1 where b: "bindE (driver_call E) (\<lambda>_. driver_call E) s = (r1, s1)" by fastforce
  obtain n where s1: "s1 = s\<lparr>pgs_calls := n\<rparr>" using begin_cases [OF b] by blast
  obtain r2 s2 where body: "body (s\<lparr>pgs_calls := n, pgs_session := Some (pgs_tables s)\<rparr>) = (r2, s2)" by fastforce
  obtain r3 s3 where com: "commit_connection E (pgs_tables s) s2 = (r3, s3)" by fastforce
  obtain r4 s4 where rb: "rollback_connection E (pgs_tables s) s2 = (r4, s4)" by fastforce
  note com' = commit_cases [OF com]
  show ?thesis
  proof (cases r1)
    case (Inl x)
    then show ?thesis using assms out b s1 by (auto simp: pg_transaction_def pg_in_transaction_def)
  next
    case Inr1: (Inr u)
    show ?thesis
    proof (cases r2)
      case (Inl y)
      then show ?thesis using assms(1) out b s1 body rb Inr1 rollback_cases [OF rb]
        by (auto simp: pg_transaction_def pg_in_transaction_def Let_def split: sum.splits)
    next
      case (Inr a)
      note taken = assms(1) out b s1 body com Inr1 Inr
      show ?thesis
      proof (cases r3)
        case Inl3: (Inl y)
        then have "r = Inl (translate y ''commit'' None)" "s' = s3\<lparr>pgs_session := None\<rparr>"
          using taken by (auto simp: pg_transaction_def Let_def)
        then show ?thesis using com'(1,4) Inl3 out body Inr by (auto simp: pg_in_transaction_def)
      next
        case Inr3: (Inr u)
        then have "r = Inr a" "s' = s3\<lparr>pgs_session := None\<rparr>"
          using taken by (auto simp: pg_transaction_def Let_def)
        then show ?thesis using com'(1,3,4) Inr3 out body Inr commit_stored [OF com [unfolded Inr3]] by (auto simp: pg_in_transaction_def)
      qed
    qed
  qed
qed

text \<open>
  C10. A transaction of the production store is all or nothing, whatever the driver does. It ends with no session open and no aborted
  transaction behind. When it returns, its body has returned, and the tables are those the body left, with
  the deferred foreign keys in order, unless a statement inside failed: then nothing at all is stored although the
  call returns. When it raises, the tables are those at its start, except after a commit whose answer was lost.
  A transaction inside a transaction is refused and changes nothing.
\<close>

theorem pg_transaction_atomic:
  assumes "pg_transaction E body s = (r, s')" and "\<not> pg_in_transaction s \<Longrightarrow> \<not> pgs_aborted s"
  shows "if pg_in_transaction s then r = Inl (Pers (PersistenceTransactionError ''Nested transaction not supported'')) \<and> s' = s
    else \<not> pg_in_transaction s' \<and> \<not> pgs_aborted s'
    \<and> (case r of
         Inr a \<Rightarrow> \<exists>n s2. body (s\<lparr>pgs_calls := n, pgs_session := Some (pgs_tables s)\<rparr>) = (Inr a, s2)
           \<and> (if pgs_aborted s2 then pgs_tables s' = pgs_tables s
              else pgs_tables s' = pgs_tables s2 \<and> deferred_ok (pgs_tables s2))
       | Inl x \<Rightarrow> pgs_tables s' = pgs_tables s
           \<or> (\<exists>n a s2. body (s\<lparr>pgs_calls := n, pgs_session := Some (pgs_tables s)\<rparr>) = (Inr a, s2) \<and> \<not> pgs_aborted s2
                \<and> pge_lost E (pgs_calls s2) \<and> pgs_tables s' = pgs_tables s2 \<and> deferred_ok (pgs_tables s2)))"
  using transaction_outcome [OF assms] .

text \<open>A body that swallows a failed statement: the transaction returns, and neither of its two rows is stored.\<close>

definition swallowing_body :: "pg_env \<Rightarrow> unit pgm" where
  "swallowing_body E =
     bindE (pg_create_workflow E ''w1'' CREATED) (\<lambda>_.
     catchE (bindE (pg_create_workflow E ''w1'' CREATED) (\<lambda>_. ret ())) (\<lambda>_. ret ()))"

theorem pg_transaction_atomic_witness:
  "\<exists>s'. pg_transaction (calm_env demo_env) (swallowing_body (calm_env demo_env)) (pg_start empty_tables) = (Inr (), s')
    \<and> pgs_tables s' = empty_tables \<and> \<not> pg_in_transaction s'"
proof -
  let ?E = "calm_env demo_env" and ?s = "pg_start empty_tables"
  obtain r s' where run: "pg_transaction ?E (swallowing_body ?E) ?s = (r, s')" by fastforce
  have "\<not> pg_in_transaction ?s" "\<not> pgs_aborted ?s" by (simp_all add: pg_start_def pg_in_transaction_def)
  moreover have "r = Inr () \<and> pgs_tables s' = empty_tables"
    using run by (auto simp: pg_transaction_def swallowing_body_def pg_in_transaction_def pg_start_def calm_env_def bindE_def driver_call_def
        Let_def pg_create_workflow_def pg_simps borrow_connection_def execute_def insert_workflow_def insert_into_def
        empty_tables_def int4_def has_workflow_def commit_connection_def)
  ultimately show ?thesis using pg_transaction_atomic [OF run] run by auto
qed

end
