(* ===== verification/Postgres_Constraints.thy ===== *)
theory Postgres_Constraints
  imports Postgres_Properties
begin

text \<open>
  The constraints of the database (\<open>constraints\<close>) and the states that the repositories can reach
  (\<open>pg_reachable\<close>), whatever the driver does. \<open>kept\<close> and \<open>kept_body\<close> are the invariants of one
  operation, with a rule per way the repositories are put together; then come the errors that leave a repository.
\<close>

section \<open>The constraints\<close>

definition unique_on :: "('r \<Rightarrow> 'k) \<Rightarrow> 'r list \<Rightarrow> bool" where
  "unique_on key rows \<longleftrightarrow> distinct (map key rows)"

definition constraints :: "pg_tables \<Rightarrow> bool" where
  "constraints t \<longleftrightarrow>
     unique_on wr_workflow_id (t_workflows t) \<and> unique_on wtr_transition_id (t_transitions t)
     \<and> unique_on tpr_ref_id (t_payloads t) \<and> unique_on tkr_task_id (t_tasks t)
     \<and> unique_on arr_artifact_id (t_artifacts t)
     \<and> unique_on (\<lambda>r. (arr_workflow_id r, arr_artifact_type r, arr_version r)) (t_artifacts t)
     \<and> unique_on (\<lambda>r. (arr_workflow_id r, arr_artifact_type r)) (filter arr_is_active (t_artifacts t))
     \<and> unique_on acr_artifact_id (t_contents t) \<and> unique_on idr_idempotency_key (t_idempotency t)
     \<and> unique_on obw_outbox_id (t_outbox t) \<and> unique_on ler_lease_id (t_leases t) \<and> unique_on ler_task_id (t_leases t)
     \<and> unique_on air_invocation_id (t_invocations t)
     \<and> list_all (\<lambda>r. has_workflow (wtr_workflow_id r) t) (t_transitions t)
     \<and> list_all (\<lambda>r. has_workflow (tkr_workflow_id r) t) (t_tasks t)
     \<and> list_all (\<lambda>r. has_workflow (arr_workflow_id r) t) (t_artifacts t)
     \<and> list_all (\<lambda>r. list_ex (\<lambda>x. arr_artifact_id x = acr_artifact_id r) (t_artifacts t)) (t_contents t)"

lemma unique_on_Nil [simp]: "unique_on key []"
  by (simp add: unique_on_def)

lemma unique_on_append [simp]:
  "unique_on key (rows @ [r]) \<longleftrightarrow> unique_on key rows \<and> \<not> list_ex (\<lambda>x. key x = key r) rows"
  by (simp add: unique_on_def list_ex_iff image_iff) metis

lemma unique_on_update [simp]: "(\<And>r. key (f r) = key r) \<Longrightarrow> unique_on key (update_where P f rows) = unique_on key rows"
  by (simp add: unique_on_def update_where_def o_def if_distrib cong: if_cong)

lemma unique_on_filter [simp]: "unique_on key rows \<Longrightarrow> unique_on key (filter P rows)"
  by (simp add: unique_on_def distinct_map_filter)

lemma list_all_update [simp]:
  "(\<And>r. Q (f r) = Q r) \<Longrightarrow> list_all Q (update_where P f rows) = list_all Q rows"
  by (simp add: update_where_def list.pred_map o_def if_distrib cong: if_cong)

lemma list_ex_update [simp]:
  "(\<And>r. Q (f r) = Q r) \<Longrightarrow> list_ex Q (update_where P f rows) = list_ex Q rows"
  by (induction rows) (simp_all add: update_where_def)

lemma has_workflow_frame [simp]:
  "has_workflow wid (t\<lparr>t_transitions := b\<rparr>) = has_workflow wid t" "has_workflow wid (t\<lparr>t_payloads := p\<rparr>) = has_workflow wid t"
  "has_workflow wid (t\<lparr>t_tasks := k\<rparr>) = has_workflow wid t" "has_workflow wid (t\<lparr>t_artifacts := c\<rparr>) = has_workflow wid t"
  "has_workflow wid (t\<lparr>t_contents := d\<rparr>) = has_workflow wid t" "has_workflow wid (t\<lparr>t_idempotency := e\<rparr>) = has_workflow wid t"
  "has_workflow wid (t\<lparr>t_outbox := f\<rparr>) = has_workflow wid t" "has_workflow wid (t\<lparr>t_leases := g\<rparr>) = has_workflow wid t"
  "has_workflow wid (t\<lparr>t_invocations := h\<rparr>) = has_workflow wid t"
  by (simp_all add: has_workflow_def)

section \<open>Statements keep the constraints\<close>

definition stmt_keeps :: "'a stmt \<Rightarrow> bool" where
  "stmt_keeps st \<longleftrightarrow> (\<forall>t a t'. constraints t \<longrightarrow> st t = Inr (a, t') \<longrightarrow> constraints t')"

named_theorems keeps

lemma stmt_keepsI: "(\<And>t a t'. constraints t \<Longrightarrow> st t = Inr (a, t') \<Longrightarrow> constraints t') \<Longrightarrow> stmt_keeps st"
  by (auto simp: stmt_keeps_def)

lemma insert_into_Inr:
  "insert_into ints taken dangling put t = Inr (a, t') \<longleftrightarrow> list_all int4 ints \<and> \<not> taken \<and> \<not> dangling \<and> t' = put t"
  by (auto simp: insert_into_def)

lemma list_all_has_workflow:
  "list_all (\<lambda>x. has_workflow (g x) t) rows \<Longrightarrow> list_all (\<lambda>x. has_workflow (g x) (t\<lparr>t_workflows := t_workflows t @ [r]\<rparr>)) rows"
  by (auto simp: list_all_iff has_workflow_def)

lemma insert_workflow_keeps [keeps]: "stmt_keeps (insert_workflow r)"
proof (rule stmt_keepsI)
  fix t a t' assume c: "constraints t" and st: "insert_workflow r t = Inr (a, t')"
  then have t': "t' = t\<lparr>t_workflows := t_workflows t @ [r]\<rparr>" and free: "\<not> has_workflow (wr_workflow_id r) t"
    by (simp_all add: insert_workflow_def insert_into_Inr)
  show "constraints t'" using c free unfolding constraints_def t'
    by (simp add: list_all_has_workflow) (simp add: has_workflow_def)
qed

lemma update_workflow_keeps [keeps]: "stmt_keeps (update_workflow st now fr wid v)"
  by (rule stmt_keepsI) (auto simp: update_workflow_def Let_def constraints_def has_workflow_def split: if_splits)

lemma inserts_keep [keeps]:
  "stmt_keeps (WORKFLOW_TRANSITIONS tr)" "stmt_keeps (TASK_PAYLOADS p)" "stmt_keeps (TASKS k)" "stmt_keeps (ARTIFACT_CONTENT c)"
  "stmt_keeps (OUTBOX ob)"
  by (rule stmt_keepsI; simp add: constraints_def WORKFLOW_TRANSITIONS_def TASK_PAYLOADS_def TASKS_def ARTIFACT_CONTENT_def OUTBOX_def insert_into_Inr)+

lemma artifacts_keep [keeps]: "stmt_keeps (ARTIFACTS r)"
proof (rule stmt_keepsI)
  fix t a t' assume c: "constraints t" and st: "ARTIFACTS r t = Inr (a, t')"
  let ?slot = "same_artifact_slot (arr_workflow_id r) (arr_artifact_type r)"
  have t': "t' = t\<lparr>t_artifacts := t_artifacts t @ [r]\<rparr>" and wf: "has_workflow (arr_workflow_id r) t"
    and free: "\<not> list_ex (\<lambda>x. arr_artifact_id x = arr_artifact_id r) (t_artifacts t)"
      "\<not> list_ex (\<lambda>x. (arr_workflow_id x, arr_artifact_type x, arr_version x) = (arr_workflow_id r, arr_artifact_type r, arr_version r)) (t_artifacts t)"
      "arr_is_active r \<Longrightarrow> \<not> list_ex (\<lambda>x. (arr_workflow_id x, arr_artifact_type x) = (arr_workflow_id r, arr_artifact_type r)) (filter arr_is_active (t_artifacts t))"
    using st by (auto simp: ARTIFACTS_def insert_into_Inr Let_def list_ex_iff same_artifact_slot_def)
  have "list_all (\<lambda>x. list_ex (\<lambda>y. arr_artifact_id y = acr_artifact_id x) (t_artifacts t @ [r])) (t_contents t)"
    using c by (auto simp: constraints_def list_all_iff)
  with c free wf show "constraints t'" unfolding constraints_def t' by (cases "arr_is_active r") simp_all
qed

lemma deactivate_keeps [keeps]: "stmt_keeps (deactivate_artifacts wid ty)"
proof (rule stmt_keepsI)
  fix t a t' assume c: "constraints t" and st: "deactivate_artifacts wid ty t = Inr (a, t')"
  let ?P = "\<lambda>r. same_artifact_slot wid ty r \<and> arr_is_active r"
  let ?rows = "update_where ?P (\<lambda>r. r\<lparr>arr_is_active := False\<rparr>) (t_artifacts t)"
  have t': "t' = t\<lparr>t_artifacts := ?rows\<rparr>" using st by (simp add: deactivate_artifacts_def)
  have "filter arr_is_active (update_where ?P (\<lambda>r. r\<lparr>arr_is_active := False\<rparr>) rows) = filter (\<lambda>r. \<not> ?P r) (filter arr_is_active rows)" for rows
    by (induction rows) (auto simp: update_where_def)
  then have "unique_on (\<lambda>r. (arr_workflow_id r, arr_artifact_type r)) (filter arr_is_active ?rows)"
    using c unfolding constraints_def by (simp only: unique_on_filter)
  with c show "constraints t'" unfolding constraints_def t' by simp
qed

lemma updates_keep [keeps]:
  "stmt_keeps (update_task_row status now att fr ca tid)" "stmt_keeps (update_outbox pub at0 oid pend)" "stmt_keeps (update_lease e lid now)"
  by (rule stmt_keepsI; auto simp: update_task_row_def update_outbox_def update_lease_def Let_def constraints_def split: if_splits)+

lemma deletes_keep [keeps]: "stmt_keeps (delete_expired_leases tid now)" "stmt_keeps (delete_lease lid)"
  by (rule stmt_keepsI; auto simp: delete_expired_leases_def delete_lease_def constraints_def)+

lemma leases_keep [keeps]: "stmt_keeps (TASK_LEASES r)"
  by (rule stmt_keepsI) (auto simp: TASK_LEASES_def insert_into_Inr constraints_def list_ex_iff)

lemma claims_keep [keeps]: "stmt_keeps (IDEMPOTENCY_TRY_INSERT r)"
  by (rule stmt_keepsI) (auto simp: IDEMPOTENCY_TRY_INSERT_def constraints_def split: if_splits)

lemma invocations_keep [keeps]: "stmt_keeps (AI_INVOCATIONS r)"
  by (rule stmt_keepsI) (auto simp: AI_INVOCATIONS_def insert_into_Inr constraints_def list_ex_iff split: if_splits)

lemma selects_keep [keeps]:
  "stmt_keeps (WORKFLOWS wid)" "stmt_keeps (select_transitions wid)" "stmt_keeps (select_task tid)" "stmt_keeps (select_payload rid)"
  "stmt_keeps (select_artifact aid)" "stmt_keeps (select_content aid)" "stmt_keeps (select_artifacts place wid ty act)"
  "stmt_keeps (select_invocations place wid tk)" "stmt_keeps (select_key key)" "stmt_keeps (select_outbox place status limit)"
  "stmt_keeps (select_outbox_entry oid)" "stmt_keeps (select_active_lease tid now)"
  by (rule stmt_keepsI; auto simp: WORKFLOWS_def select_transitions_def select_task_def select_payload_def select_artifact_def
      select_content_def select_artifacts_def select_invocations_def select_key_def select_outbox_def select_outbox_entry_def
      select_active_lease_def split: if_splits)+

section \<open>Operations keep the constraints\<close>

text \<open>
  \<open>kept_body\<close>: inside a transaction, or on a borrowed connection. \<open>kept\<close>: outside of a transaction too, where in
  addition no aborted transaction and no dangling deferred key is left behind.
\<close>

definition at_rest :: "pg_state \<Rightarrow> bool" where
  "at_rest s \<longleftrightarrow> (pgs_session s = None \<longrightarrow> \<not> pgs_aborted s \<and> deferred_ok (pgs_tables s))"

definition kept_body :: "'a pgm \<Rightarrow> bool" where
  "kept_body m \<longleftrightarrow> (\<forall>s. constraints (pgs_tables s) \<longrightarrow>
     constraints (pgs_tables (snd (m s))) \<and> pgs_session (snd (m s)) = pgs_session s)"

definition kept :: "'a pgm \<Rightarrow> bool" where
  "kept m \<longleftrightarrow> kept_body m \<and> (\<forall>s. constraints (pgs_tables s) \<longrightarrow> at_rest s \<longrightarrow> at_rest (snd (m s)))"

lemma kept_bodyD:
  "kept_body m \<Longrightarrow> m s = (r, s') \<Longrightarrow> constraints (pgs_tables s) \<Longrightarrow> constraints (pgs_tables s') \<and> pgs_session s' = pgs_session s"
  unfolding kept_body_def by (metis snd_conv)

lemma keptD: "kept m \<Longrightarrow> m s = (r, s') \<Longrightarrow> constraints (pgs_tables s) \<Longrightarrow> at_rest s \<Longrightarrow> at_rest s'"
  unfolding kept_def by (metis snd_conv)

lemma kept_bodyI:
  "(\<And>s r s'. m s = (r, s') \<Longrightarrow> constraints (pgs_tables s) \<Longrightarrow> constraints (pgs_tables s') \<and> pgs_session s' = pgs_session s) \<Longrightarrow> kept_body m"
  unfolding kept_body_def by (metis prod.collapse)

lemma keptI:
  "kept_body m \<Longrightarrow> (\<And>s r s'. m s = (r, s') \<Longrightarrow> constraints (pgs_tables s) \<Longrightarrow> at_rest s \<Longrightarrow> at_rest s') \<Longrightarrow> kept m"
  unfolding kept_def by (metis prod.collapse)

lemma keptE: "kept m \<Longrightarrow> kept_body m"
  by (simp add: kept_def)

lemma kept_silent: "(\<And>s. \<exists>r n k. m s = (r, s\<lparr>pgs_calls := n, pgs_ticks := k\<rparr>)) \<Longrightarrow> kept m"
  unfolding kept_def kept_body_def at_rest_def
proof (intro conjI allI impI)
  fix s assume "\<And>s. \<exists>r n k. m s = (r, s\<lparr>pgs_calls := n, pgs_ticks := k\<rparr>)"
  then obtain r n k where "m s = (r, s\<lparr>pgs_calls := n, pgs_ticks := k\<rparr>)" by blast
  then have "pgs_tables (snd (m s)) = pgs_tables s" "pgs_session (snd (m s)) = pgs_session s" "pgs_aborted (snd (m s)) = pgs_aborted s"
    by simp_all
  note this [simp]
  show "constraints (pgs_tables s) \<Longrightarrow> constraints (pgs_tables (snd (m s)))" "pgs_session (snd (m s)) = pgs_session s" by simp_all
  assume "pgs_session s = None \<longrightarrow> \<not> pgs_aborted s \<and> deferred_ok (pgs_tables s)" "pgs_session (snd (m s)) = None"
  then show "\<not> pgs_aborted (snd (m s))" "deferred_ok (pgs_tables (snd (m s)))" by simp_all
qed

lemma same_state: "s = s\<lparr>pgs_calls := pgs_calls s, pgs_ticks := pgs_ticks s\<rparr>" "s\<lparr>pgs_ticks := k\<rparr> = s\<lparr>pgs_calls := pgs_calls s, pgs_ticks := k\<rparr>"
  by simp_all

lemma kept_basic [keeps]:
  "kept (ret a)" "kept (raise x)" "kept (pg_now E)" "kept (pg_uuid E)" "kept (require_active_transaction op)" "kept (enum_from_db f ms tok)"
  by (rule kept_silent; fastforce simp: py_simps pg_now_def pg_uuid_def require_active_transaction_def enum_from_db_def
      split: option.splits intro: same_state)+

lemmas kept_body_basic [keeps] = kept_basic [THEN keptE]

lemma bind_run: "bindE m f s = (r, s') \<Longrightarrow> (\<exists>x. m s = (Inl x, s') \<and> r = Inl x) \<or> (\<exists>a s1. m s = (Inr a, s1) \<and> f a s1 = (r, s'))"
  by (auto simp: bindE_def split: prod.splits sum.splits)

lemma catch_run: "catchE m h s = (r, s') \<Longrightarrow> (\<exists>a. m s = (Inr a, s') \<and> r = Inr a) \<or> (\<exists>x s1. m s = (Inl x, s1) \<and> h x s1 = (r, s'))"
  by (auto simp: catchE_def split: prod.splits sum.splits)

lemma kept_body_bind [keeps]: "kept_body m \<Longrightarrow> (\<And>x. kept_body (f x)) \<Longrightarrow> kept_body (bindE m f)"
  by (rule kept_bodyI, drule bind_run) (metis kept_bodyD)

lemma kept_bind [keeps]: "kept m \<Longrightarrow> (\<And>x. kept (f x)) \<Longrightarrow> kept (bindE m f)"
  by (rule keptI, simp add: kept_body_bind keptE, drule bind_run) (metis kept_bodyD keptD keptE)

lemma kept_body_catch [keeps]: "kept_body m \<Longrightarrow> (\<And>x. kept_body (h x)) \<Longrightarrow> kept_body (catchE m h)"
  by (rule kept_bodyI, drule catch_run) (metis kept_bodyD)

lemma kept_catch [keeps]: "kept m \<Longrightarrow> (\<And>x. kept (h x)) \<Longrightarrow> kept (catchE m h)"
  by (rule keptI, simp add: kept_body_catch keptE, drule catch_run) (metis kept_bodyD keptD keptE)

lemma kept_mapped [keeps]: "kept_body m \<Longrightarrow> kept_body (mapped p op eid m)" "kept m \<Longrightarrow> kept (mapped p op eid m)"
  unfolding mapped_def by (intro keeps; assumption)+

lemma kept_choice [keeps]:
  "kept_body m \<Longrightarrow> kept_body n \<Longrightarrow> kept_body (if b then m else n)" "kept m \<Longrightarrow> kept n \<Longrightarrow> kept (if b then m else n)"
  "kept_body m \<Longrightarrow> (\<And>x. kept_body (g x)) \<Longrightarrow> kept_body (case_option m g opt)"
  "kept m \<Longrightarrow> (\<And>x. kept (g x)) \<Longrightarrow> kept (case_option m g opt)"
  by (simp_all split: option.split)

lemma kept_body_execute [keeps]: "stmt_keeps st \<Longrightarrow> kept_body (execute E st)"
  by (rule kept_bodyI)
     (auto simp: execute_def driver_call_def Let_def stmt_keeps_def split: if_splits option.splits sum.splits prod.splits)

lemma kept_body_scan [keeps]: "(\<And>place. stmt_keeps (st place)) \<Longrightarrow> kept_body (execute_scan E st)"
  by (rule kept_bodyI, unfold execute_scan_def) (metis kept_bodyD kept_body_execute)

text \<open>Past the guard the operation runs inside a transaction.\<close>

lemma kept_guarded [keeps]:
  assumes "kept_body m" shows "kept (bindE (require_active_transaction op) (\<lambda>_. m))"
proof (rule keptI)
  show "kept_body (bindE (require_active_transaction op) (\<lambda>_. m))" by (intro keeps assms)
next
  fix s r s' assume run: "bindE (require_active_transaction op) (\<lambda>_. m) s = (r, s')" and c: "constraints (pgs_tables s)" "at_rest s"
  show "at_rest s'"
  proof (cases "pg_in_transaction s")
    case True
    then have "m s = (r, s')" using run by (simp add: require_active_transaction_def bindE_def)
    with True kept_bodyD [OF assms this c(1)] show ?thesis by (auto simp: at_rest_def pg_in_transaction_def)
  next
    case False
    then show ?thesis using run c(2) by (auto simp: require_active_transaction_def bindE_def)
  qed
qed

lemma pool_connection_kept:
  assumes "kept_body body" and "pool_connection E body s = (r, s')" and "constraints (pgs_tables s)"
  shows "constraints (pgs_tables s')" and "pgs_session s' = pgs_session s"
    and "deferred_ok (pgs_tables s) \<Longrightarrow> \<not> pgs_aborted s \<Longrightarrow> deferred_ok (pgs_tables s') \<and> \<not> pgs_aborted s'"
proof -
  let ?s1 = "s\<lparr>pgs_calls := Suc (pgs_calls s)\<rparr>"
  obtain r2 s2 where b: "body ?s1 = (r2, s2)" by fastforce
  obtain r3 s3 where com: "commit_connection E (pgs_tables s) s2 = (r3, s3)" by fastforce
  note kb = kept_bodyD [OF assms(1) b] and com' = commit_cases [OF com]
  have "constraints (pgs_tables s') \<and> pgs_session s' = pgs_session s
      \<and> (deferred_ok (pgs_tables s) \<longrightarrow> \<not> pgs_aborted s \<longrightarrow> deferred_ok (pgs_tables s') \<and> \<not> pgs_aborted s')"
    using assms(2,3) b com kb com'
    by (auto simp: pool_connection_def driver_call_def Let_def split: option.splits sum.splits)
  then show "constraints (pgs_tables s')" "pgs_session s' = pgs_session s"
    "deferred_ok (pgs_tables s) \<Longrightarrow> \<not> pgs_aborted s \<Longrightarrow> deferred_ok (pgs_tables s') \<and> \<not> pgs_aborted s'" by auto
qed

lemma kept_borrow [keeps]: "kept_body body \<Longrightarrow> kept (borrow_connection E body)"
proof (rule keptI)
  assume k: "kept_body body"
  show "kept_body (borrow_connection E body)"
    by (rule kept_bodyI) (auto simp: borrow_connection_def split: if_splits dest: kept_bodyD [OF k] pool_connection_kept(1,2) [OF k])
  fix s r s' assume run: "borrow_connection E body s = (r, s')" and c: "constraints (pgs_tables s)" "at_rest s"
  show "at_rest s'"
  proof (cases "pg_in_transaction s")
    case True
    with run kept_bodyD [OF k, of s r s'] c show ?thesis by (auto simp: borrow_connection_def at_rest_def pg_in_transaction_def)
  next
    case False
    with run pool_connection_kept [OF k, of E s r s'] c show ?thesis by (simp add: borrow_connection_def at_rest_def pg_in_transaction_def)
  qed
qed

lemmas kept_body_borrow [keeps] = kept_borrow [THEN keptE]

lemma kept_body_for [keeps]: "(\<And>x. kept_body (f x)) \<Longrightarrow> kept_body (forE xs f)"
  by (induction xs) (simp_all add: keeps)

lemma kept_for [keeps]: "(\<And>x. kept (f x)) \<Longrightarrow> kept (forE xs f)"
  by (induction xs) (simp_all add: keeps)

lemma kept_mappers [keeps]:
  "kept (to_workflow_record r1)" "kept (to_workflow_transition_record r2)" "kept (to_task_record r3 ref)" "kept (to_artifact_record r4)"
  "kept (to_outbox_entry r5)" "kept (to_ai_invocation_record r6)"
  unfolding to_workflow_record_def to_workflow_transition_record_def to_task_record_def to_artifact_record_def to_outbox_entry_def
    to_ai_invocation_record_def workflow_state_from_db_def task_type_from_db_def artifact_type_from_db_def task_status_from_db_def
    outbox_status_from_db_def invocation_status_from_db_def
  by (intro keeps)+

lemmas kept_body_mappers [keeps] = kept_mappers [THEN keptE]

text \<open>Every operation of the repositories.\<close>

datatype pg_op =
    Write store_call
  | GetWorkflow string | ListTransitions string | GetTask string | GetTaskPayload payload_reference
  | GetArtifact string | GetArtifactContent string | ListArtifacts string "artifact_type option" bool
  | ListInvocations string "string option" | GetByKey string | FetchUnpublished int
  | TryAcquire string string microseconds | Renew string microseconds | Release string | GetActiveLease string

definition unitE :: "'a pgm \<Rightarrow> unit pgm" where
  "unitE m = bindE m (\<lambda>_. ret ())"

fun pg_run :: "pg_env \<Rightarrow> pg_op \<Rightarrow> unit pgm" where
  "pg_run E (Write c) = unitE (pg_call E c)"
| "pg_run E (GetWorkflow wid) = unitE (pg_get_workflow E wid)"
| "pg_run E (ListTransitions wid) = unitE (pg_list_transitions E wid)"
| "pg_run E (GetTask tid) = unitE (pg_get_task E tid)"
| "pg_run E (GetTaskPayload ref) = unitE (pg_get_task_payload E ref)"
| "pg_run E (GetArtifact aid) = unitE (pg_get_artifact E aid)"
| "pg_run E (GetArtifactContent aid) = unitE (pg_get_artifact_content E aid)"
| "pg_run E (ListArtifacts wid ty act) = unitE (pg_list_artifacts E wid ty act)"
| "pg_run E (ListInvocations wid tk) = unitE (pg_list_ai_invocations E wid tk)"
| "pg_run E (GetByKey key) = unitE (pg_get_by_key E key)"
| "pg_run E (FetchUnpublished n) = unitE (pg_fetch_unpublished E n)"
| "pg_run E (TryAcquire tid wk ttl) = unitE (pg_try_acquire E tid wk ttl)"
| "pg_run E (Renew lid ttl) = unitE (pg_renew E lid ttl)"
| "pg_run E (Release lid) = unitE (pg_release E lid)"
| "pg_run E (GetActiveLease tid) = unitE (pg_get_active_lease E tid)"

lemma kept_mapE [keeps]: "kept m \<Longrightarrow> kept (mapE f m)" "kept m \<Longrightarrow> kept (unitE m)"
  unfolding mapE_def unitE_def by (intro keeps; assumption)+

lemma kept_workflow_ops [keeps]:
  "kept (pg_create_workflow E wid st)" "kept (pg_update_workflow_state E wid v st fr None)" "kept (pg_append_transition E t)"
  "kept (pg_create_task E k p)" "kept (pg_update_task E tid ts att fr ca)" "kept (pg_get_workflow E wid)"
  "kept (pg_list_transitions E wid)" "kept (pg_get_task E tid)" "kept (pg_get_task_payload E ref)"
  unfolding pg_create_workflow_def pg_update_workflow_state_def pg_append_transition_def pg_create_task_def pg_update_task_def
    pg_get_workflow_def pg_list_transitions_def pg_get_task_def pg_get_task_payload_def workflow_exists_def Let_def simp_thms if_False
  by (intro keeps)+

lemma kept_artifact_rows [keeps]: "kept_body (insert_artifact_rows E aid spec token now b)"
  unfolding insert_artifact_rows_def by (intro keeps)

lemma kept_create_artifact [keeps]: "kept (pg_create_artifact E spec)"
proof (cases "acs_is_active spec")
  case True
  then show ?thesis unfolding pg_create_artifact_def Let_def by (simp only: if_True) (intro keeps)
next
  case False
  then show ?thesis unfolding pg_create_artifact_def Let_def by (simp only: if_False) (intro keeps)
qed

lemma kept_other_ops [keeps]:
  "kept (pg_get_artifact E aid)" "kept (pg_get_artifact_content E aid)" "kept (pg_list_artifacts E wid ty act)"
  "kept (pg_append_ai_invocation E ispec)" "kept (pg_list_ai_invocations E wid tk)" "kept (pg_try_insert E kspec)" "kept (pg_get_by_key E key)"
  "kept (pg_outbox_insert E ospec)" "kept (pg_fetch_unpublished E n)" "kept (pg_mark_published E oid at0)"
  "kept (pg_try_acquire E tid wk ttl)" "kept (pg_renew E lid ttl)" "kept (pg_release E lid)" "kept (pg_get_active_lease E tid)"
  unfolding pg_get_artifact_def pg_get_artifact_content_def pg_list_artifacts_def pg_append_ai_invocation_def pg_list_ai_invocations_def
    pg_try_insert_def pg_insert_row_def pg_select_by_key_def pg_get_by_key_def pg_outbox_insert_def pg_fetch_unpublished_def
    pg_mark_published_def pg_fetch_entry_def pg_update_published_def pg_try_acquire_def pg_delete_expired_def pg_insert_lease_def
    pg_renew_def pg_release_def pg_get_active_lease_def Let_def
  by (intro keeps)+

lemma kept_call [keeps]: "kept (pg_call E c)"
  by (cases c) (simp_all add: keeps)

lemma kept_run [keeps]: "kept (pg_run E op)"
  by (cases op) (simp_all only: pg_run.simps keeps)

section \<open>Reachable states\<close>

text \<open>
  What a process can do with the store: single operations, and transactions of operations of which some may be
  allowed to fail.
\<close>

fun pg_steps :: "pg_env \<Rightarrow> (pg_op \<times> bool) list \<Rightarrow> unit pgm" where
  "pg_steps E [] = ret ()"
| "pg_steps E ((op, tolerated) # ops) =
     bindE (if tolerated then catchE (pg_run E op) (\<lambda>_. ret ()) else pg_run E op) (\<lambda>_. pg_steps E ops)"

inductive pg_reachable :: "pg_env \<Rightarrow> pg_state \<Rightarrow> bool" for E where
  start: "pg_reachable E (pg_start empty_tables)"
| operation: "pg_reachable E s \<Longrightarrow> pg_run E op s = (r, s') \<Longrightarrow> pg_reachable E s'"
| transaction: "pg_reachable E s \<Longrightarrow> pg_transaction E (pg_steps E ops) s = (r, s') \<Longrightarrow> pg_reachable E s'"

lemma kept_steps [keeps]: "kept (pg_steps E ops)"
  by (induction E ops rule: pg_steps.induct) (simp_all add: keeps)

lemma transaction_kept:
  assumes "kept_body body" and "pg_transaction E body s = (r, s')" and "constraints (pgs_tables s)" and "pgs_session s = None" and "at_rest s"
  shows "constraints (pgs_tables s') \<and> pgs_session s' = None \<and> at_rest s'"
proof -
  have rest: "\<not> pgs_aborted s" "deferred_ok (pgs_tables s)" using assms(4,5) by (simp_all add: at_rest_def)
  have out: "\<not> pg_in_transaction s" using assms(4) by (simp add: pg_in_transaction_def)
  have ends: "constraints (pgs_tables s2)" if "body (s\<lparr>pgs_calls := n, pgs_session := Some (pgs_tables s)\<rparr>) = (r2, s2)" for n r2 s2
    using kept_bodyD [OF assms(1) that] assms(3) by simp
  show ?thesis
    using transaction_outcome [OF assms(2)] rest out assms(3) ends
    by (auto simp: at_rest_def pg_in_transaction_def split: sum.splits if_splits)
qed

lemma reachable_ok: "pg_reachable E s \<Longrightarrow> constraints (pgs_tables s) \<and> pgs_session s = None \<and> at_rest s"
proof (induction rule: pg_reachable.induct)
  case start
  then show ?case by (simp add: pg_start_def empty_tables_def constraints_def at_rest_def deferred_ok_def)
next
  case (operation s op r s')
  then show ?case using kept_bodyD [OF kept_run [THEN keptE] operation.hyps(2)] keptD [OF kept_run operation.hyps(2)] by simp
next
  case (transaction s ops r s')
  then show ?case using transaction_kept [OF kept_steps [THEN keptE] transaction.hyps(2)] by simp
qed

text \<open>
  C13. The constraints of the database hold in every state the production repositories can reach, whatever the driver does, whatever
  operations and transactions are run and whichever of their errors are swallowed: keys are unique in every table, a workflow has no two
  artifacts of one type with the same version and at most one active artifact of each type, a task has at most one lease,
  an idempotency key one row, every transition, task and artifact has its workflow, every content its artifact and
  every task its payload; and no operation leaves a session open or an aborted transaction behind.
\<close>

theorem reachable_constraints:
  assumes "pg_reachable E s"
  shows "constraints (pgs_tables s) \<and> deferred_ok (pgs_tables s) \<and> \<not> pg_in_transaction s \<and> \<not> pgs_aborted s"
  using reachable_ok [OF assms] by (simp add: at_rest_def pg_in_transaction_def)

text \<open>A second worker asks for the lease of the same task while the insertion of a workflow fails half-way.\<close>

definition flaky_env :: pg_env where
  "flaky_env = (calm_env demo_env)\<lparr>pge_fault := (\<lambda>n. if n = 3 then Some in_failed_transaction else None)\<rparr>"

definition lease_history :: "pg_op list" where
  "lease_history = [Write (CreateWorkflow ''w1'' CREATED), Write (CreateWorkflow ''w2'' CREATED), TryAcquire ''t1'' ''a'' 60,
     TryAcquire ''t1'' ''b'' 60]"

fun pg_after :: "pg_env \<Rightarrow> pg_op list \<Rightarrow> pg_state \<Rightarrow> pg_state" where
  "pg_after E [] s = s"
| "pg_after E (op # ops) s = pg_after E ops (snd (pg_run E op s))"

lemma pg_after_reachable: "pg_reachable E s \<Longrightarrow> pg_reachable E (pg_after E ops s)"
  by (induction E ops s rule: pg_after.induct) (auto intro: pg_reachable.operation prod.collapse [symmetric])

theorem reachable_constraints_witness:
  "constraints (pgs_tables (pg_after flaky_env lease_history (pg_start empty_tables)))
    \<and> map wr_workflow_id (t_workflows (pgs_tables (pg_after flaky_env lease_history (pg_start empty_tables)))) = [''w1'']
    \<and> map ler_worker_id (t_leases (pgs_tables (pg_after flaky_env lease_history (pg_start empty_tables)))) = [''a'']"
proof (intro conjI)
  show "constraints (pgs_tables (pg_after flaky_env lease_history (pg_start empty_tables)))"
    using reachable_constraints [OF pg_after_reachable [OF pg_reachable.start]] by blast
  show "map wr_workflow_id (t_workflows (pgs_tables (pg_after flaky_env lease_history (pg_start empty_tables)))) = [''w1'']"
    by code_simp
  show "map ler_worker_id (t_leases (pgs_tables (pg_after flaky_env lease_history (pg_start empty_tables)))) = [''a'']"
    by code_simp
qed

section \<open>Errors of the repositories\<close>

fun persistence_error :: "pg_exn \<Rightarrow> bool" where
  "persistence_error (PersConnection _) = True"
| "persistence_error (Pers e) \<longleftrightarrow> (case e of PersistenceValidationError _ \<Rightarrow> True | PersistenceConflictError _ \<Rightarrow> True
     | PersistenceNotFoundError _ \<Rightarrow> True | PersistenceDuplicateError _ \<Rightarrow> True | PersistenceTransactionError _ \<Rightarrow> True | _ \<Rightarrow> False)"
| "persistence_error _ = False"

definition translated :: "'a pgm \<Rightarrow> bool" where
  "translated m \<longleftrightarrow> (\<forall>s x s'. m s = (Inl x, s') \<longrightarrow> persistence_error x)"

named_theorems translates

lemma translate_persistence [simp]: "persistence_error (translate x op eid)"
  by (simp add: translate_def)

lemma passes_persistence [simp]: "is_not_found x \<Longrightarrow> persistence_error x" "update_passes x \<Longrightarrow> persistence_error x"
  by (cases x rule: is_not_found.cases; simp; fail) (cases x rule: update_passes.cases; simp)

lemma translated_basic [translates]:
  "translated (ret a)" "persistence_error x \<Longrightarrow> translated (raise x)" "translated (pg_now E)" "translated (pg_uuid E)"
  "translated (require_active_transaction op)"
  by (auto simp: translated_def py_simps pg_now_def pg_uuid_def require_active_transaction_def split: if_splits)

lemma translated_bind [translates]: "translated m \<Longrightarrow> (\<And>a. translated (f a)) \<Longrightarrow> translated (bindE m f)"
  unfolding translated_def by (blast dest!: bind_run)

lemma translated_mapped [translates]: "(\<And>x. p x \<Longrightarrow> persistence_error x) \<Longrightarrow> translated (mapped p op eid m)"
  unfolding translated_def mapped_def by (auto dest!: catch_run simp: py_simps split: if_splits)

lemma translated_catch [translates]: "(\<And>x. translated (h x)) \<Longrightarrow> translated (catchE m h)"
  unfolding translated_def by (blast dest!: catch_run)

lemma translated_choice [translates]:
  "translated m \<Longrightarrow> translated n \<Longrightarrow> translated (if b then m else n)"
  "translated m \<Longrightarrow> (\<And>x. translated (g x)) \<Longrightarrow> translated (case_option m g opt)"
  by (simp_all split: option.split)

lemma translated_mapE [translates]: "translated m \<Longrightarrow> translated (mapE f m)" "translated m \<Longrightarrow> translated (unitE m)"
  unfolding mapE_def unitE_def by (intro translates; assumption)+

lemma translated_ops [translates]:
  "translated (pg_create_workflow E wid st)" "translated (pg_update_workflow_state E wid v st fr None)" "translated (pg_append_transition E t)"
  "translated (pg_create_task E k p)" "translated (pg_update_task E tid ts att fr ca)" "translated (pg_get_workflow E wid)"
  "translated (pg_list_transitions E wid)" "translated (pg_get_task E tid)" "translated (pg_get_task_payload E ref)"
  "translated (pg_create_artifact E spec)" "translated (pg_get_artifact E aid)" "translated (pg_get_artifact_content E aid)"
  "translated (pg_list_artifacts E wid ty act)" "translated (pg_append_ai_invocation E ispec)" "translated (pg_list_ai_invocations E wid tk)"
  "translated (pg_get_by_key E key)" "translated (pg_outbox_insert E ospec)" "translated (pg_fetch_unpublished E n)"
  "translated (pg_mark_published E oid at0)" "translated (pg_renew E lid ttl)" "translated (pg_release E lid)" "translated (pg_get_active_lease E tid)"
  unfolding pg_create_workflow_def pg_update_workflow_state_def pg_append_transition_def pg_create_task_def pg_update_task_def
    pg_get_workflow_def pg_list_transitions_def pg_get_task_def pg_get_task_payload_def pg_create_artifact_def pg_get_artifact_def
    pg_get_artifact_content_def pg_list_artifacts_def pg_append_ai_invocation_def pg_list_ai_invocations_def pg_get_by_key_def
    pg_outbox_insert_def pg_fetch_unpublished_def pg_mark_published_def pg_renew_def pg_release_def pg_get_active_lease_def Let_def
    simp_thms if_False
  by (intro translates; simp)+

text \<open>What a statement on a borrowed connection raises when nothing translates it.\<close>

definition raw_or_translated :: "'a pgm \<Rightarrow> bool" where
  "raw_or_translated m \<longleftrightarrow> (\<forall>s x s'. m s = (Inl x, s') \<longrightarrow> persistence_error x \<or> (\<exists>d. x = Driver d))"

lemma execute_raw: "execute E st s = (Inl x, s') \<Longrightarrow> \<exists>d. x = Driver d"
  by (auto simp: execute_def driver_call_def Let_def split: if_splits option.splits sum.splits prod.splits)

lemma borrow_raw:
  assumes "\<And>s x s'. body s = (Inl x, s') \<Longrightarrow> \<exists>d. x = Driver d"
  shows "raw_or_translated (borrow_connection E body)"
  unfolding raw_or_translated_def
proof (intro allI impI)
  fix s x s' assume run: "borrow_connection E body s = (Inl x, s')"
  have acq: "persistence_error (acquire_error y) \<or> (\<exists>d. acquire_error y = Driver d)" if "\<exists>d. y = Driver d" for y
    using that by (auto simp: acquire_error_def split: if_splits)
  have commit: "\<exists>d. y = Driver d" if "commit_connection E t0 s2 = (Inl y, s3)" for t0 s2 y s3
    using that by (auto simp: commit_connection_def driver_call_def Let_def split: if_splits option.splits)
  have start: "\<exists>d. y = Driver d" if "driver_call E s = (Inl y, s1)" for y s1
    using that by (auto simp: driver_call_def Let_def split: option.splits)
  show "persistence_error x \<or> (\<exists>d. x = Driver d)"
  proof (cases "pg_in_transaction s")
    case True
    then show ?thesis using run assms by (simp add: borrow_connection_def)
  next
    case False
    then have "pool_connection E body s = (Inl x, s')" using run by (simp add: borrow_connection_def)
    then obtain y where "x = acquire_error y" and "\<exists>d. y = Driver d"
      unfolding pool_connection_def by (auto split: sum.splits prod.splits dest: start commit assms)
    with acq show ?thesis by blast
  qed
qed

lemma raw_bind: "raw_or_translated m \<Longrightarrow> (\<And>a. raw_or_translated (f a)) \<Longrightarrow> raw_or_translated (bindE m f)"
  unfolding raw_or_translated_def by (blast dest!: bind_run)

lemma raw_translated: "translated m \<Longrightarrow> raw_or_translated m"
  by (auto simp: translated_def raw_or_translated_def)

lemma raw_basic: "raw_or_translated (ret a)" "persistence_error x \<Longrightarrow> raw_or_translated (raise x)"
  by (simp_all add: raw_translated translates)

lemma try_acquire_raw: "raw_or_translated (pg_try_acquire E tid wk ttl)"
  unfolding pg_try_acquire_def pg_delete_expired_def
proof (rule raw_bind)
  show "raw_or_translated (borrow_connection E (bindE (pg_now E) (\<lambda>now. execute E (delete_expired_leases tid now))))"
    by (rule borrow_raw) (auto simp: pg_now_def dest!: bind_run intro: execute_raw)
qed (rule raw_translated, intro translates, simp)

lemma try_insert_raw: "raw_or_translated (pg_try_insert E spec)"
proof -
  have read: "raw_or_translated (pg_select_by_key E key)" for key
    unfolding pg_select_by_key_def by (rule borrow_raw) (rule execute_raw)
  have handler: "raw_or_translated (if is_conflict x then raise (translate x ''try_insert'' (Some (iis_key spec)))
        else bindE (pg_select_by_key E (iis_key spec)) (\<lambda>existing.
          case existing of
            None \<Rightarrow> raise (translate x ''try_insert'' (Some (iis_key spec)))
          | Some found \<Rightarrow> ret \<lparr>iir_outcome = DUPLICATE, iir_record = Some (to_idempotency_record found)\<rparr>))" for x
    by (auto intro!: raw_bind read raw_basic split: option.split)
  show ?thesis unfolding pg_try_insert_def
    by (rule raw_bind, rule raw_translated, intro translates)
       (use handler in \<open>auto simp: raw_or_translated_def dest!: catch_run\<close>)
qed

text \<open>
  C17. Whatever the driver raises, an operation of the production repositories fails with an error of the persistence contract and
  never with an exception of psycopg, but for two gaps: taking a lease, where the deletion of expired leases comes before
  the handler, and claiming an idempotency key, where the handler itself reads the key again.
\<close>

theorem repository_errors:
  assumes "pg_run E op s = (Inl x, s')"
  shows "persistence_error x \<or> (\<exists>d. x = Driver d) \<and>
    ((\<exists>tid wk ttl. op = TryAcquire tid wk ttl) \<or> (\<exists>spec. op = Write (ClaimKey spec)))"
proof (cases "(\<exists>tid wk ttl. op = TryAcquire tid wk ttl) \<or> (\<exists>spec. op = Write (ClaimKey spec))")
  case True
  then have "raw_or_translated (pg_run E op)"
    by (auto simp: unitE_def mapE_def intro!: raw_bind try_acquire_raw try_insert_raw raw_basic)
  with True assms show ?thesis by (auto simp: raw_or_translated_def)
next
  case False
  have "translated (pg_run E op)"
  proof (cases op)
    case (Write c)
    with False show ?thesis by (cases c) (simp_all add: translates)
  qed (use False in \<open>simp_all add: translates\<close>)
  with assms have "persistence_error x" unfolding translated_def by blast
  then show ?thesis ..
qed

theorem repository_errors_witness:
  "\<exists>x. fst (pg_run ((calm_env demo_env)\<lparr>pge_fault := (\<lambda>n. Some foreign_key_violation)\<rparr>) (Release ''l1'') (pg_start empty_tables)) = Inl x
     \<and> persistence_error x"
proof -
  let ?E = "(calm_env demo_env)\<lparr>pge_fault := (\<lambda>n. Some foreign_key_violation)\<rparr>"
  obtain r s' where run: "pg_run ?E (Release ''l1'') (pg_start empty_tables) = (r, s')" by fastforce
  have "\<exists>x. r = Inl x"
    using run by (auto simp: unitE_def pg_release_def mapped_def bindE_def catchE_def borrow_connection_def pg_in_transaction_def pg_start_def
        pool_connection_def driver_call_def Let_def raise_def)
  then obtain x where "r = Inl x" ..
  with run repository_errors [of ?E "Release ''l1''" "pg_start empty_tables" x s'] show ?thesis by auto
qed

end
