(* ===== verification/Api.thy ===== *)
theory Api
  imports Engine Read_Models Stage_Handlers
begin

text \<open>
  The REST interface: the validation of \<open>api/validation.py\<close>, the error mapping of \<open>errors.py\<close> and
  \<open>routes/_helpers.py\<close>, the route handlers, the mappers with the serialization of their results, the
  route wrapper of \<open>router.py\<close>, and the transaction that \<open>runtime/http_server.py\<close> puts around the
  two mutating routes.

  A request runs on an \<open>api_state\<close>: the store of the engine and the telemetry emitted so far. The
  text of an exception of the engine, the \<open>repr\<close> of a JSON value, the trace context of a request and
  the readiness probes are fields of \<open>api_deps\<close>. FastAPI's matching of a path to its route and the
  worker thread of \<open>_run_sync\<close> are not modelled.
\<close>

section \<open>Errors\<close>

datatype api_error_type = ApiBaseError | ApiValidationError | ApiNotFoundError | ApiConflictError | ApiInternalError

fun api_error_class :: "api_error_type \<Rightarrow> string" where
  "api_error_class ApiBaseError = ''API_ERROR''" | "api_error_class ApiValidationError = ''API_VALIDATION''"
| "api_error_class ApiNotFoundError = ''WF_NOT_FOUND''" | "api_error_class ApiConflictError = ''WF_CONFLICT''"
| "api_error_class ApiInternalError = ''API_INTERNAL''"

fun api_http_status :: "api_error_type \<Rightarrow> int" where
  "api_http_status ApiBaseError = 500" | "api_http_status ApiValidationError = 400"
| "api_http_status ApiNotFoundError = 404" | "api_http_status ApiConflictError = 409"
| "api_http_status ApiInternalError = 500"

record api_error =
  aer_type :: api_error_type
  aer_message :: string
  aer_retryable :: "bool option"
  aer_workflow_id :: "string option"

text \<open>No error of the code sets \<open>details\<close>.\<close>

record api_error_envelope =
  env_error_class :: string
  env_message :: string
  env_retryable :: "bool option"
  env_workflow_id :: "string option"

definition to_envelope :: "api_error \<Rightarrow> api_error_envelope" where
  "to_envelope e =
     \<lparr>env_error_class = api_error_class (aer_type e), env_message = aer_message e,
      env_retryable = aer_retryable e, env_workflow_id = aer_workflow_id e\<rparr>"

text \<open>What a handler raises: an \<open>ApiError\<close>, an \<open>ApiHttpException\<close>, or any other exception.\<close>

datatype api_exn = ApiExn api_error | ApiHttpException int api_error_envelope | OtherApiExn exn

definition validation_error :: "string \<Rightarrow> api_exn" where
  "validation_error message =
     ApiExn \<lparr>aer_type = ApiValidationError, aer_message = message, aer_retryable = None, aer_workflow_id = None\<rparr>"

fun is_workflow_error :: "exn \<Rightarrow> bool" where
  "is_workflow_error (WorkflowNotFoundError _) = True" | "is_workflow_error (WorkflowConflictError _) = True"
| "is_workflow_error (InvalidTransitionError _ _ _) = True" | "is_workflow_error (InvalidApprovalActionError _ _ _) = True"
| "is_workflow_error (WorkflowTerminalError _ _) = True" | "is_workflow_error _ = False"

fun workflow_error_http_status :: "exn \<Rightarrow> int" where
  "workflow_error_http_status (WorkflowNotFoundError _) = 404"
| "workflow_error_http_status (InvalidApprovalActionError _ _ _) = 409"
| "workflow_error_http_status (WorkflowTerminalError _ _) = 409"
| "workflow_error_http_status (WorkflowConflictError _) = 409"
| "workflow_error_http_status (InvalidTransitionError _ _ _) = 409"
| "workflow_error_http_status _ = 500"

fun workflow_error_id :: "exn \<Rightarrow> string option" where
  "workflow_error_id (WorkflowNotFoundError i) = Some i" | "workflow_error_id (WorkflowConflictError i) = Some i"
| "workflow_error_id (InvalidTransitionError i _ _) = Some i" | "workflow_error_id (InvalidApprovalActionError i _ _) = Some i"
| "workflow_error_id (WorkflowTerminalError i _) = Some i" | "workflow_error_id _ = None"

definition map_workflow_error :: "(exn \<Rightarrow> string) \<Rightarrow> exn \<Rightarrow> api_error_envelope" where
  "map_workflow_error str_of e =
     (let envelope = (\<lambda>c r. \<lparr>env_error_class = c, env_message = str_of e, env_retryable = r, env_workflow_id = workflow_error_id e\<rparr>)
      in case e of
           WorkflowNotFoundError _ \<Rightarrow> envelope ''WF_NOT_FOUND'' (Some False)
         | WorkflowConflictError _ \<Rightarrow> envelope ''WF_CONFLICT'' (Some False)
         | InvalidApprovalActionError _ _ _ \<Rightarrow> envelope ''WF_INVALID_APPROVAL'' (Some False)
         | InvalidTransitionError _ _ _ \<Rightarrow> envelope ''WF_INVALID_TRANSITION'' (Some False)
         | WorkflowTerminalError _ _ \<Rightarrow> envelope ''WF_TERMINAL'' (Some False)
         | _ \<Rightarrow> envelope ''API_INTERNAL'' None)"

section \<open>Validation\<close>

definition MAX_WORKFLOW_ID_LEN :: nat where "MAX_WORKFLOW_ID_LEN = 128"
definition MAX_CORRELATION_ID_LEN :: nat where "MAX_CORRELATION_ID_LEN = 128"
definition MAX_ACTOR_LEN :: nat where "MAX_ACTOR_LEN = 256"
definition MAX_IDEMPOTENCY_KEY_LEN :: nat where "MAX_IDEMPOTENCY_KEY_LEN = 256"

definition id_char :: "char \<Rightarrow> bool" where
  "id_char c \<longleftrightarrow> (CHR ''A'' \<le> c \<and> c \<le> CHR ''Z'') \<or> (CHR ''a'' \<le> c \<and> c \<le> CHR ''z'')
     \<or> (CHR ''0'' \<le> c \<and> c \<le> CHR ''9'') \<or> c = CHR ''_'' \<or> c = CHR ''-''"

text \<open>A value of the request: null, a text, or a value that has no \<open>strip\<close>.\<close>

definition sanitize_string :: "json \<Rightarrow> string \<Rightarrow> nat \<Rightarrow> api_exn + string option" where
  "sanitize_string v field max_len =
     (case v of
        JNull \<Rightarrow> Inr None
      | JStr s \<Rightarrow>
          (let stripped = strip s in
           if stripped = '''' then Inl (validation_error (field @ '' must not be empty''))
           else if length stripped > max_len then Inl (validation_error (field @ '' exceeds maximum length''))
           else if list_ex (\<lambda>c. (of_char c :: nat) < 32 \<or> 126 < (of_char c :: nat)) stripped
             then Inl (validation_error (field @ '' contains invalid characters''))
           else Inr (Some stripped))
      | _ \<Rightarrow> Inl (OtherApiExn (OtherError ''AttributeError'')))"

text \<open>\<open>assert sanitized is not None\<close>: the callers pass a text.\<close>

definition validate_workflow_id :: "json \<Rightarrow> api_exn + string" where
  "validate_workflow_id raw =
     (case sanitize_string raw ''workflow_id'' MAX_WORKFLOW_ID_LEN of
        Inl e \<Rightarrow> Inl e
      | Inr None \<Rightarrow> Inl (OtherApiExn (OtherError ''AssertionError''))
      | Inr (Some s) \<Rightarrow>
          if \<not> list_all id_char s then Inl (validation_error ''workflow_id contains invalid characters'') else Inr s)"

record initiate_api_request =
  iar_workflow_id :: "string option"
  iar_correlation_id :: "string option"
  iar_actor :: "string option"

definition validate_initiate_body :: "json \<Rightarrow> json \<Rightarrow> json \<Rightarrow> api_exn + initiate_api_request" where
  "validate_initiate_body workflow_id correlation_id actor =
     (case (if workflow_id \<noteq> JNull then map_sum id Some (validate_workflow_id workflow_id) else Inr None) of
        Inl e \<Rightarrow> Inl e
      | Inr wid \<Rightarrow>
          (case sanitize_string correlation_id ''correlation_id'' MAX_CORRELATION_ID_LEN of
             Inl e \<Rightarrow> Inl e
           | Inr cid \<Rightarrow>
               (case sanitize_string actor ''actor'' MAX_ACTOR_LEN of
                  Inl e \<Rightarrow> Inl e
                | Inr who \<Rightarrow> Inr \<lparr>iar_workflow_id = wid, iar_correlation_id = cid, iar_actor = who\<rparr>)))"

record approval_api_request =
  aar_req_action :: approval_action
  aar_req_actor :: "string option"
  aar_req_idempotency_key :: "string option"

definition upper :: "string \<Rightarrow> string" where
  "upper s = map (\<lambda>c. if CHR ''a'' \<le> c \<and> c \<le> CHR ''z'' then char_of ((of_char c :: nat) - 32) else c) s"

definition parse_action :: "string \<Rightarrow> approval_action option" where
  "parse_action s = find (\<lambda>a. approval_action_value a = upper (strip s)) [APPROVE, REJECT, REQUEST_REGENERATION]"

definition validate_idempotency_header :: "json \<Rightarrow> api_exn + string option" where
  "validate_idempotency_header raw = sanitize_string raw ''idempotency_key'' MAX_IDEMPOTENCY_KEY_LEN"

definition validate_approval_body :: "string \<Rightarrow> json \<Rightarrow> json \<Rightarrow> json \<Rightarrow> api_exn + approval_api_request" where
  "validate_approval_body action actor idempotency_key header_key =
     (case parse_action action of
        None \<Rightarrow> Inl (validation_error ''action must be a valid ApprovalAction'')
      | Some parsed \<Rightarrow>
          (case sanitize_string actor ''actor'' MAX_ACTOR_LEN of
             Inl e \<Rightarrow> Inl e
           | Inr who \<Rightarrow>
               (case sanitize_string idempotency_key ''idempotency_key'' MAX_IDEMPOTENCY_KEY_LEN of
                  Inl e \<Rightarrow> Inl e
                | Inr body_key \<Rightarrow>
                    (case validate_idempotency_header header_key of
                       Inl e \<Rightarrow> Inl e
                     | Inr hkey \<Rightarrow>
                         Inr \<lparr>aar_req_action = parsed, aar_req_actor = who,
                              aar_req_idempotency_key = (if body_key \<noteq> None then body_key else hkey)\<rparr>))))"

section \<open>Requests, replies and state\<close>

record http_request =
  hrq_headers :: "(string \<times> string) list"
  hrq_json :: "exn + json"

record http_reply =
  hrp_status :: int
  hrp_body :: json
  hrp_headers :: "(string \<times> string) list"

datatype api_event =
    SpanStarted string "string option"
  | RequestSuccess string int
  | WorkflowInitiated string
  | ApprovalSubmitted string string
  | ValidationFailed string
  | WorkflowErrorSeen "string option" string string
  | InternalErrorSeen string
  | RequestMetric string string

record api_state =
  ast_world :: world
  ast_events :: "api_event list"

type_synonym 'a route = "(api_exn, api_state, 'a) py"

datatype dependency_check_status = DEP_OK | DEP_FAIL | DEP_UNKNOWN

fun dependency_status_value :: "dependency_check_status \<Rightarrow> string" where
  "dependency_status_value DEP_OK = ''ok''" | "dependency_status_value DEP_FAIL = ''fail''"
| "dependency_status_value DEP_UNKNOWN = ''unknown''"

record dependency_check =
  dck_name :: string
  dck_status :: dependency_check_status
  dck_detail :: "string option"

text \<open>A probe: its name and what \<open>check\<close> returns or raises. The trace context of a request: the
  trace id and the headers injected into its reply.\<close>

record api_deps =
  ad_env :: env
  ad_repos :: repos
  ad_str :: "exn \<Rightarrow> string"
  ad_repr :: "json \<Rightarrow> string"
  ad_probes :: "(string \<times> (exn + dependency_check)) list"
  ad_service_name :: string
  ad_trace_id :: "(string \<times> string) list \<Rightarrow> string option"
  ad_trace_headers :: "(string \<times> string) list \<Rightarrow> (string \<times> string) list"

definition emit_api :: "api_event \<Rightarrow> unit route" where
  "emit_api e = modifyE (\<lambda>s. s\<lparr>ast_events := ast_events s @ [e]\<rparr>)"

definition on_store :: "(world, 'a) prog \<Rightarrow> (exn, api_state, 'a) py" where
  "on_store m s = (case m (ast_world s) of (r, w) \<Rightarrow> (r, s\<lparr>ast_world := w\<rparr>))"

definition checked_input :: "api_exn + 'a \<Rightarrow> 'a route" where
  "checked_input r = (case r of Inl e \<Rightarrow> raise e | Inr a \<Rightarrow> ret a)"

section \<open>Mapping of errors\<close>

definition workflow_error_to_http :: "api_deps \<Rightarrow> string \<Rightarrow> exn \<Rightarrow> 'a route" where
  "workflow_error_to_http D route_id e =
     (let envelope = map_workflow_error (ad_str D) e in
      bindE (emit_api (WorkflowErrorSeen (workflow_error_id e) (env_error_class envelope) route_id)) (\<lambda>_.
      raise (ApiHttpException (workflow_error_http_status e) envelope)))"

definition map_unexpected_error :: "string \<Rightarrow> string option \<Rightarrow> 'a route" where
  "map_unexpected_error route_id workflow_id =
     bindE (emit_api (InternalErrorSeen route_id)) (\<lambda>_.
     raise (ApiHttpException 500
       (to_envelope \<lparr>aer_type = ApiInternalError, aer_message = ''An internal error occurred'', aer_retryable = None,
                     aer_workflow_id = workflow_id\<rparr>)))"

text \<open>The \<open>try\<close> around a call of the engine: a \<open>WorkflowError\<close> is mapped, any other exception is an
  internal error. The engine raises no \<open>ApiError\<close>.\<close>

definition engine_call :: "api_deps \<Rightarrow> string \<Rightarrow> string option \<Rightarrow> (world, 'a) prog \<Rightarrow> 'a route" where
  "engine_call D route_id workflow_id m s =
     (case on_store m s of
        (Inr a, s') \<Rightarrow> (Inr a, s')
      | (Inl e, s') \<Rightarrow>
          (if is_workflow_error e then workflow_error_to_http D route_id e
           else map_unexpected_error route_id workflow_id) s')"

section \<open>Mappers\<close>

text \<open>Each mapper with the serialization of its result: the object of the fields, in order.\<close>

fun json_opt_bool :: "bool option \<Rightarrow> json" where
  "json_opt_bool None = JNull" | "json_opt_bool (Some b) = JBool b"

definition envelope_json :: "api_error_envelope \<Rightarrow> json" where
  "envelope_json e =
     JObj [(''error_class'', JStr (env_error_class e)), (''message'', JStr (env_message e)),
       (''retryable'', json_opt_bool (env_retryable e)), (''workflow_id'', json_opt_str (env_workflow_id e)),
       (''details'', JNull)]"

definition map_to_initiate_request :: "initiate_api_request \<Rightarrow> initiate_workflow_request" where
  "map_to_initiate_request r =
     \<lparr>iwr_workflow_id = iar_workflow_id r, iwr_correlation_id = iar_correlation_id r, iwr_actor = iar_actor r\<rparr>"

definition map_transition_record :: "transition_record \<Rightarrow> json" where
  "map_transition_record t =
     JObj [(''transition_id'', JStr (tr_id t)), (''from_state'', JStr (state_value (tr_from t))),
       (''to_state'', JStr (state_value (tr_to t))), (''reason'', JStr (tr_reason t)),
       (''occurred_at'', JStr (isoformat (tr_occurred_at t))), (''actor'', json_opt_str (tr_actor t))]"

definition map_workflow_status :: "workflow_status \<Rightarrow> json" where
  "map_workflow_status st =
     JObj [(''workflow_id'', JStr (wst_workflow_id st)), (''state'', JStr (state_value (wst_state st))),
       (''state_version'', JInt (wst_version st)), (''created_at'', JStr (isoformat (wst_created_at st))),
       (''updated_at'', JStr (isoformat (wst_updated_at st))), (''revision_count'', JInt (wst_revision_count st)),
       (''failure_reason'', json_opt_str (wst_failure_reason st))]"

definition map_workflow_history :: "workflow_history \<Rightarrow> json" where
  "map_workflow_history h =
     JObj [(''workflow_id'', JStr (wh_workflow_id h)), (''transitions'', JList (map map_transition_record (wh_transitions h)))]"

definition map_workflow_output :: "workflow_output \<Rightarrow> json" where
  "map_workflow_output out =
     JObj [(''workflow_id'', JStr (wo_workflow_id out)), (''state'', JStr (state_value (wo_state out))),
       (''package'', JObj (wo_package out)), (''is_complete'', JBool (wo_is_complete out)),
       (''failure_reason'', json_opt_str (wo_failure_reason out))]"

definition map_timeline_event :: "timeline_event \<Rightarrow> json" where
  "map_timeline_event e =
     JObj [(''occurred_at'', JStr (isoformat (te_occurred_at e))), (''event_type'', JStr (te_event_type e)),
       (''summary'', JStr (te_summary e)),
       (''state'', json_opt_str (map_option state_value (te_state e))),
       (''task_type'', json_opt_str (map_option task_type_value (te_task_type e))),
       (''attributes'', JObj (map (\<lambda>(k, v). (k, JStr v)) (te_attributes e)))]"

definition map_workflow_timeline :: "workflow_timeline \<Rightarrow> json" where
  "map_workflow_timeline t =
     JObj [(''workflow_id'', JStr (wt_workflow_id t)),
       (''events'', JList (map map_timeline_event (sort_key te_occurred_at (wt_events t))))]"

definition map_initiate_result :: "initiate_workflow_result \<Rightarrow> string option \<Rightarrow> json" where
  "map_initiate_result r trace_id =
     JObj [(''workflow_id'', JStr (iws_workflow_id r)), (''state'', JStr (state_value (iws_state r))),
       (''state_version'', JInt (iws_version r)), (''created_at'', JStr (isoformat (tr_occurred_at (iws_transition r)))),
       (''trace_id'', json_opt_str trace_id)]"

definition map_approval_result :: "approval_action_result \<Rightarrow> json" where
  "map_approval_result r =
     JObj [(''workflow_id'', JStr (aar_workflow_id r)), (''action'', JStr (approval_action_value (aar_action r))),
       (''from_state'', JStr (state_value (aar_from r))), (''to_state'', JStr (state_value (aar_to r))),
       (''state_version'', JInt (aar_version r)), (''transition_id'', JStr (aar_transition_id r))]"

section \<open>Handlers\<close>

definition handle_initiate_workflow ::
  "api_deps \<Rightarrow> initiate_api_request \<Rightarrow> json \<Rightarrow> string option \<Rightarrow> json route"
where
  "handle_initiate_workflow D r idempotency_header trace_id =
     bindE (emit_api (SpanStarted ''api.initiate_workflow'' None)) (\<lambda>_.
     bindE (checked_input (validate_initiate_body (json_opt_str (iar_workflow_id r))
              (json_opt_str (iar_correlation_id r)) (json_opt_str (iar_actor r)))) (\<lambda>validated.
     bindE (checked_input (validate_idempotency_header idempotency_header)) (\<lambda>_.
     bindE (engine_call D ''initiate'' None
              (initiate_workflow (ad_env D) (ad_repos D) (Some (map_to_initiate_request validated)))) (\<lambda>result.
     bindE (emit_api (WorkflowInitiated (iws_workflow_id result))) (\<lambda>_.
     ret (map_initiate_result result trace_id))))))"

text \<open>The four reading handlers share their code: route, span, query and mapper differ.\<close>

definition handle_query :: "api_deps \<Rightarrow> string \<Rightarrow> string \<Rightarrow> string \<Rightarrow> (string \<Rightarrow> (world, 'a) prog) \<Rightarrow> ('a \<Rightarrow> json) \<Rightarrow> json route" where
  "handle_query D route_id span_name workflow_id query mapper =
     bindE (checked_input (validate_workflow_id (JStr workflow_id))) (\<lambda>wid.
     bindE (emit_api (SpanStarted span_name (Some wid))) (\<lambda>_.
     bindE (engine_call D route_id (Some wid) (query wid)) (\<lambda>view.
     bindE (emit_api (RequestSuccess route_id 200)) (\<lambda>_.
     ret (mapper view)))))"

definition handle_get_workflow_status :: "api_deps \<Rightarrow> string \<Rightarrow> json route" where
  "handle_get_workflow_status D wid = handle_query D ''status'' ''api.get_status'' wid get_workflow_status map_workflow_status"

definition handle_get_workflow_history :: "api_deps \<Rightarrow> string \<Rightarrow> json route" where
  "handle_get_workflow_history D wid = handle_query D ''history'' ''api.get_history'' wid get_workflow_history map_workflow_history"

definition handle_get_workflow_output :: "api_deps \<Rightarrow> string \<Rightarrow> json route" where
  "handle_get_workflow_output D wid = handle_query D ''output'' ''api.get_output'' wid get_workflow_output map_workflow_output"

definition handle_get_workflow_timeline :: "api_deps \<Rightarrow> string \<Rightarrow> json route" where
  "handle_get_workflow_timeline D wid =
     handle_query D ''timeline'' ''api.get_timeline'' wid (get_workflow_timeline (ad_repos D)) map_workflow_timeline"

definition handle_submit_approval :: "api_deps \<Rightarrow> string \<Rightarrow> approval_api_request \<Rightarrow> json \<Rightarrow> json route" where
  "handle_submit_approval D workflow_id r header_key =
     bindE (checked_input (validate_workflow_id (JStr workflow_id))) (\<lambda>wid.
     bindE (checked_input (validate_approval_body (approval_action_value (aar_req_action r)) (json_opt_str (aar_req_actor r))
              (json_opt_str (aar_req_idempotency_key r)) header_key)) (\<lambda>validated.
     bindE (emit_api (SpanStarted ''api.submit_approval'' (Some wid))) (\<lambda>_.
     bindE (engine_call D ''approval'' (Some wid)
              (apply_approval_action (ad_env D) (ad_repos D) wid (aar_req_action validated) (aar_req_actor validated))) (\<lambda>result.
     bindE (emit_api (ApprovalSubmitted wid (approval_action_value (aar_req_action validated)))) (\<lambda>_.
     bindE (emit_api (RequestSuccess ''approval'' 200)) (\<lambda>_.
     ret (map_approval_result result)))))))"

definition now_text :: "api_deps \<Rightarrow> string route" where
  "now_text D s =
     (case utc_now (ad_env D) (ast_world s) of
        (Inr t, w) \<Rightarrow> (Inr (isoformat t), s\<lparr>ast_world := w\<rparr>) | (Inl e, w) \<Rightarrow> (Inl (OtherApiExn e), s\<lparr>ast_world := w\<rparr>))"

definition resolve_service_name :: "api_deps \<Rightarrow> string" where
  "resolve_service_name D = (if ad_service_name D \<noteq> '''' then ad_service_name D else ''cartoon-demo-api'')"

definition handle_health :: "api_deps \<Rightarrow> json route" where
  "handle_health D =
     bindE (emit_api (SpanStarted ''api.health'' None)) (\<lambda>_.
     bindE (emit_api (RequestSuccess ''health'' 200)) (\<lambda>_.
     bindE (now_text D) (\<lambda>t.
     ret (JObj [(''status'', JStr ''ok''), (''service_name'', JStr (resolve_service_name D)), (''timestamp'', JStr t)]))))"

definition probe_check :: "string \<times> (exn + dependency_check) \<Rightarrow> dependency_check" where
  "probe_check p =
     (case snd p of Inr c \<Rightarrow> c | Inl e \<Rightarrow> \<lparr>dck_name = fst p, dck_status = DEP_FAIL, dck_detail = Some ''probe_error''\<rparr>)"

definition all_ready :: "dependency_check list \<Rightarrow> bool" where
  "all_ready checks = list_all (\<lambda>c. dck_status c = DEP_OK) checks"

definition check_json :: "dependency_check \<Rightarrow> json" where
  "check_json c =
     JObj [(''name'', JStr (dck_name c)), (''status'', JStr (dependency_status_value (dck_status c))),
       (''detail'', json_opt_str (dck_detail c))]"

definition handle_readiness :: "api_deps \<Rightarrow> (json \<times> int) route" where
  "handle_readiness D =
     bindE (emit_api (SpanStarted ''api.ready'' None)) (\<lambda>_.
     (let checks = map probe_check (ad_probes D); status_code = (if all_ready checks then 200 else 503) in
      bindE (now_text D) (\<lambda>t.
      bindE (emit_api (RequestSuccess ''ready'' status_code)) (\<lambda>_.
      ret (JObj [(''status'', JStr (if all_ready checks then ''ready'' else ''not_ready'')),
             (''checks'', JList (map check_json checks)), (''timestamp'', JStr t)], status_code)))))"

section \<open>The route wrapper\<close>

definition header_lookup :: "(string \<times> string) list \<Rightarrow> string \<Rightarrow> json" where
  "header_lookup headers name =
     (case find (\<lambda>(k, v). lower k = lower name) headers of None \<Rightarrow> JNull | Some (k, v) \<Rightarrow> JStr v)"

definition HEADER_IDEMPOTENCY_KEY :: string where "HEADER_IDEMPOTENCY_KEY = ''idempotency-key''"

definition json_body :: "http_request \<Rightarrow> api_exn + (string \<times> json) list" where
  "json_body q =
     (case hrq_json q of
        Inl e \<Rightarrow> Inl (OtherApiExn e)
      | Inr (JObj body) \<Rightarrow> Inr body
      | Inr _ \<Rightarrow> Inl (validation_error ''request body must be a JSON object''))"

definition initiate_call :: "api_deps \<Rightarrow> http_request \<Rightarrow> json route" where
  "initiate_call D q =
     bindE (checked_input (json_body q)) (\<lambda>body.
     bindE (checked_input (validate_initiate_body (json_get body ''workflow_id'' JNull) (json_get body ''correlation_id'' JNull)
              (json_get body ''actor'' JNull))) (\<lambda>validated.
     handle_initiate_workflow D validated (header_lookup (hrq_headers q) HEADER_IDEMPOTENCY_KEY) (ad_trace_id D (hrq_headers q))))"

definition approval_call :: "api_deps \<Rightarrow> string \<Rightarrow> http_request \<Rightarrow> json route" where
  "approval_call D workflow_id q =
     bindE (checked_input (json_body q)) (\<lambda>body.
     (let header_key = header_lookup (hrq_headers q) HEADER_IDEMPOTENCY_KEY in
      bindE (checked_input (validate_approval_body (json_str (ad_repr D) (json_get body ''action'' (JStr '''')))
               (json_get body ''actor'' JNull) (json_get body ''idempotency_key'' JNull) header_key)) (\<lambda>validated.
      bindE (checked_input (validate_workflow_id (JStr workflow_id))) (\<lambda>wid.
      handle_submit_approval D wid validated header_key))))"

definition query_call :: "(string \<Rightarrow> json route) \<Rightarrow> string \<Rightarrow> json route" where
  "query_call handler workflow_id =
     bindE (checked_input (validate_workflow_id (JStr workflow_id))) (\<lambda>wid. handler wid)"

definition status_class :: "int \<Rightarrow> string" where
  "status_class code =
     (if 200 \<le> code \<and> code < 300 then ''2xx'' else if 400 \<le> code \<and> code < 500 then ''4xx'' else ''5xx'')"

text \<open>
  The \<open>finally\<close> clause records the metric under the status known at that moment: the success status
  when an exception that is neither an \<open>ApiHttpException\<close> nor an \<open>ApiError\<close> passes through.
\<close>

definition route_wrapper :: "api_deps \<Rightarrow> http_request \<Rightarrow> string \<Rightarrow> (json \<times> int) route \<Rightarrow> int \<Rightarrow> http_reply route" where
  "route_wrapper D q route_id handler_call success_status s =
     (let trace = ad_trace_headers D (hrq_headers q);
          metric = (\<lambda>code s. s\<lparr>ast_events := ast_events s @ [RequestMetric route_id (status_class code)]\<rparr>)
      in case handler_call s of
           (Inr (payload, code), s1) \<Rightarrow>
             (Inr \<lparr>hrp_status = code, hrp_body = payload, hrp_headers = trace\<rparr>,
              metric code (s1\<lparr>ast_events := ast_events s1 @ [RequestSuccess route_id code]\<rparr>))
         | (Inl x, s1) \<Rightarrow>
             (case x of
                ApiHttpException code envelope \<Rightarrow>
                  (Inr \<lparr>hrp_status = code, hrp_body = envelope_json envelope, hrp_headers = trace\<rparr>, metric code s1)
              | ApiExn e \<Rightarrow>
                  (Inr \<lparr>hrp_status = api_http_status (aer_type e), hrp_body = envelope_json (to_envelope e), hrp_headers = trace\<rparr>,
                   metric (api_http_status (aer_type e)) (s1\<lparr>ast_events := ast_events s1 @ [ValidationFailed route_id]\<rparr>))
              | OtherApiExn e \<Rightarrow> (Inl x, metric success_status s1)))"

definition with_status :: "int \<Rightarrow> json route \<Rightarrow> (json \<times> int) route" where
  "with_status code m = bindE m (\<lambda>payload. ret (payload, code))"

text \<open>\<open>TransactionMutatingContext.wrap_mutating\<close>: the handler runs inside a transaction, which is rolled
  back only when the handler raises.\<close>

definition wrap_mutating :: "repos \<Rightarrow> 'a route \<Rightarrow> 'a route" where
  "wrap_mutating R handler s =
     (case rp_tx_enter R (ast_world s) of
        (Inl e, w1) \<Rightarrow> (Inl (OtherApiExn e), s\<lparr>ast_world := w1\<rparr>)
      | (Inr _, w1) \<Rightarrow>
          (case handler (s\<lparr>ast_world := w1\<rparr>) of
             (r, s2) \<Rightarrow> (r, s2\<lparr>ast_world := rp_tx_exit R (ast_world s) (isl r) (ast_world s2)\<rparr>)))"

datatype api_call = CallInitiate | CallStatus string | CallHistory string | CallOutput string
  | CallApproval string | CallTimeline string | CallHealth | CallReady

fun create_router :: "api_deps \<Rightarrow> bool \<Rightarrow> api_call \<Rightarrow> http_request \<Rightarrow> http_reply route" where
  "create_router D mutating CallInitiate q =
     (let h = route_wrapper D q ''initiate'' (with_status 201 (initiate_call D q)) 201
      in if mutating then wrap_mutating (ad_repos D) h else h)"
| "create_router D mutating (CallApproval wid) q =
     (let h = route_wrapper D q ''approval'' (with_status 200 (approval_call D wid q)) 200
      in if mutating then wrap_mutating (ad_repos D) h else h)"
| "create_router D mutating (CallStatus wid) q =
     route_wrapper D q ''status'' (with_status 200 (query_call (handle_get_workflow_status D) wid)) 200"
| "create_router D mutating (CallHistory wid) q =
     route_wrapper D q ''history'' (with_status 200 (query_call (handle_get_workflow_history D) wid)) 200"
| "create_router D mutating (CallOutput wid) q =
     route_wrapper D q ''output'' (with_status 200 (query_call (handle_get_workflow_output D) wid)) 200"
| "create_router D mutating (CallTimeline wid) q =
     route_wrapper D q ''timeline'' (with_status 200 (query_call (handle_get_workflow_timeline D) wid)) 200"
| "create_router D mutating CallHealth q = route_wrapper D q ''health'' (with_status 200 (handle_health D)) 200"
| "create_router D mutating CallReady q = route_wrapper D q ''ready'' (handle_readiness D) 200"

section \<open>Readiness probes\<close>

definition dependency_probe :: "string \<Rightarrow> string \<Rightarrow> bool \<Rightarrow> string \<times> (exn + dependency_check)" where
  "dependency_probe name detail healthy =
     (name, Inr \<lparr>dck_name = name, dck_status = (if healthy then DEP_OK else DEP_FAIL),
                 dck_detail = (if healthy then None else Some detail)\<rparr>)"

end
