(* ===== verification/Cli.thy ===== *)
theory Cli
  imports Api Instants Config_Loading
begin

text \<open>
  The command line client (\<open>cli/\<close>): argument parsing, validation, the configuration override, the HTTP client with
  its transport, the projection of an output package for approval, the renderers, the six handlers and the
  application with its exit codes.

  A command runs on a \<open>cli_state\<close>: the state of the server, what was written to the two output streams, and the
  telemetry. The environment, the HTTP library, \<open>json.loads\<close>, the conversions of texts to numbers and
  the forms of an instant other than \<open>isoformat\<close>'s are fields of \<open>cli_host\<close>. The client is built without a tracer and the
  telemetry without a meter, so that there are no spans of requests and no metrics.
\<close>

section \<open>Types and constants\<close>

datatype subcommand_id = SUB_INITIATE | SUB_STATUS | SUB_HISTORY | SUB_OUTPUT | SUB_TIMELINE | SUB_APPROVE

fun subcommand_value :: "subcommand_id \<Rightarrow> string" where
  "subcommand_value SUB_INITIATE = ''initiate''" | "subcommand_value SUB_STATUS = ''status''"
| "subcommand_value SUB_HISTORY = ''history''" | "subcommand_value SUB_OUTPUT = ''output''"
| "subcommand_value SUB_TIMELINE = ''timeline''" | "subcommand_value SUB_APPROVE = ''approve''"

datatype cli_exit_code = EXIT_SUCCESS | EXIT_ERROR | EXIT_USAGE | EXIT_CONNECTION

fun exit_number :: "cli_exit_code \<Rightarrow> int" where
  "exit_number EXIT_SUCCESS = 0" | "exit_number EXIT_ERROR = 1" | "exit_number EXIT_USAGE = 2" | "exit_number EXIT_CONNECTION = 3"

definition FLAG_API_URL :: string where "FLAG_API_URL = ''--api-url''"
definition FLAG_CONFIG_PATH :: string where "FLAG_CONFIG_PATH = ''--config-path''"
definition FLAG_TIMEOUT :: string where "FLAG_TIMEOUT = ''--timeout''"
definition FLAG_INJECT :: string where "FLAG_INJECT = ''--inject''"
definition FLAG_OUTPUT :: string where "FLAG_OUTPUT = ''--output''"
definition FLAG_WORKFLOW_ID :: string where "FLAG_WORKFLOW_ID = ''--workflow-id''"
definition FLAG_CORRELATION_ID :: string where "FLAG_CORRELATION_ID = ''--correlation-id''"
definition FLAG_ACTOR :: string where "FLAG_ACTOR = ''--actor''"
definition FLAG_ACTION :: string where "FLAG_ACTION = ''--action''"
definition DEFAULT_API_BASE_URL :: string where "DEFAULT_API_BASE_URL = ''http://127.0.0.1:8000''"

record cli_client_config =
  ccc_api_base_url :: string
  ccc_config_path :: "string option"
  ccc_request_timeout_seconds :: "py_float option"

text \<open>The identifiers of a \<open>frozenset\<close>, without repetition; an override of the parser is always enabled.\<close>

record cli_failure_injection_override =
  cfo_enabled :: bool
  cfo_active_injections :: "string list"

record parsed_cli_invocation =
  pci_subcommand_id :: subcommand_id
  pci_client_config :: cli_client_config
  pci_config_override :: "cli_failure_injection_override option"
  pci_workflow_id :: "string option"
  pci_initiate_request :: "initiate_api_request option"
  pci_approval_action :: "string option"
  pci_approval_actor :: "string option"
  pci_raw_args :: "string list"

section \<open>Errors\<close>

datatype cli_error_type = CliBaseError | CliUsageError | CliApiError | CliConnectionError | CliConfigError

fun cli_error_code :: "cli_error_type \<Rightarrow> string" where
  "cli_error_code CliBaseError = ''CLI_ERROR''" | "cli_error_code CliUsageError = ''CLI_USAGE''"
| "cli_error_code CliApiError = ''CLI_API''" | "cli_error_code CliConnectionError = ''CLI_CONNECTION''"
| "cli_error_code CliConfigError = ''CLI_CONFIG''"

fun cli_exit_code_of :: "cli_error_type \<Rightarrow> cli_exit_code" where
  "cli_exit_code_of CliBaseError = EXIT_ERROR" | "cli_exit_code_of CliUsageError = EXIT_USAGE"
| "cli_exit_code_of CliApiError = EXIT_ERROR" | "cli_exit_code_of CliConnectionError = EXIT_CONNECTION"
| "cli_exit_code_of CliConfigError = EXIT_USAGE"

record cli_error =
  cle_type :: cli_error_type
  cle_message :: string
  cle_workflow_id :: "json option"
  cle_api_error_class :: "string option"

text \<open>Any other exception: whether it is of one of the connection error types, and its text.\<close>

datatype cli_exn = CliErr cli_error | CliOther bool string

definition cli_error_of :: "cli_error_type \<Rightarrow> string \<Rightarrow> cli_error" where
  "cli_error_of ty message = \<lparr>cle_type = ty, cle_message = message, cle_workflow_id = None, cle_api_error_class = None\<rparr>"

definition usage :: "string \<Rightarrow> cli_exn + 'a" where
  "usage message = Inl (CliErr (cli_error_of CliUsageError message))"

abbreviation unexpected :: "cli_exn + 'a" where
  "unexpected \<equiv> Inl (CliOther False '''')"

definition map_to_connection_error :: "cli_exn \<Rightarrow> cli_error" where
  "map_to_connection_error x =
     (case x of
        CliErr e \<Rightarrow> if cle_type e = CliConnectionError then e else cli_error_of CliConnectionError ''Unexpected CLI error''
      | CliOther connection message \<Rightarrow>
          cli_error_of CliConnectionError (if connection then message else ''Unexpected CLI error''))"

section \<open>The host\<close>

record wire_request =
  wr_method :: string
  wr_url :: string
  wr_json :: "json option"
  wr_headers :: "(string \<times> string) list"
  wr_timeout :: py_float

record 's cli_host =
  clh_environ :: "string \<rightharpoonup> string"
  clh_sys_argv :: "string list"
  clh_float :: "string \<Rightarrow> py_float option"
  clh_int_text :: "string \<Rightarrow> int option"
  clh_repr :: "json \<Rightarrow> string"
  clh_format :: "string \<Rightarrow> json \<Rightarrow> cli_exn + string"
  clh_fromiso :: "string \<Rightarrow> datetime option"
  clh_loads :: "string \<Rightarrow> (bool \<times> string) + json"
  clh_carrier :: "(string \<times> string) list"
  clh_http :: "wire_request \<Rightarrow> (cli_exn, 's, int \<times> string) py"
  clh_close :: "(cli_exn, 's, unit) py"
  clh_config :: config_host

section \<open>Validation\<close>

definition cli_validate_workflow_id :: "string option \<Rightarrow> bool \<Rightarrow> cli_exn + string" where
  "cli_validate_workflow_id raw required =
     (case raw of
        None \<Rightarrow> if required then usage ''workflow_id is required'' else Inr ''''
      | Some s \<Rightarrow>
          (let stripped = strip s in
           if required \<and> stripped = '''' then usage ''workflow_id must not be empty''
           else if length stripped > MAX_WORKFLOW_ID_LEN then usage ''workflow_id exceeds maximum length of 128''
           else if stripped \<noteq> '''' \<and> \<not> list_all id_char stripped then usage ''workflow_id contains invalid characters''
           else Inr stripped))"

definition sanitize_printable_ascii :: "string option \<Rightarrow> string \<Rightarrow> nat \<Rightarrow> bool \<Rightarrow> cli_exn + string option" where
  "sanitize_printable_ascii v field max_len required =
     (case v of
        None \<Rightarrow> if required then usage (field @ '' is required'') else Inr None
      | Some s \<Rightarrow>
          (let stripped = strip s in
           if required \<and> stripped = '''' then usage (field @ '' must not be empty'')
           else if stripped = '''' then Inr None
           else if length stripped > max_len then usage (field @ '' exceeds maximum length of '' @ show_nat max_len)
           else if list_ex (\<lambda>c. (of_char c :: nat) < 32 \<or> 126 < (of_char c :: nat)) stripped
             then usage (field @ '' contains invalid characters'')
           else Inr (Some stripped)))"

definition validate_initiate_fields ::
  "string option \<Rightarrow> string option \<Rightarrow> string option \<Rightarrow> cli_exn + initiate_api_request"
where
  "validate_initiate_fields workflow_id correlation_id actor =
     and_then (case workflow_id of
                 None \<Rightarrow> Inr None | Some w \<Rightarrow> map_sum id Some (cli_validate_workflow_id (Some w) True)) (\<lambda>wid.
     and_then (sanitize_printable_ascii correlation_id ''correlation_id'' MAX_CORRELATION_ID_LEN False) (\<lambda>cid.
     and_then (sanitize_printable_ascii actor ''actor'' MAX_ACTOR_LEN False) (\<lambda>who.
     if wid = None \<and> cid = None \<and> who = None
     then usage ''initiate requires at least one of --workflow-id, --correlation-id, or --actor''
     else Inr \<lparr>iar_workflow_id = wid, iar_correlation_id = cid, iar_actor = who\<rparr>)))"

definition VALID_APPROVAL_ACTIONS :: "string list" where
  "VALID_APPROVAL_ACTIONS = [''APPROVE'', ''REJECT'', ''REQUEST_REGENERATION'']"

definition validate_approval_action :: "string option \<Rightarrow> cli_exn + string" where
  "validate_approval_action raw =
     (case raw of
        None \<Rightarrow> usage ''action is required''
      | Some s \<Rightarrow>
          (let token = upper (strip s) in
           if token \<notin> set VALID_APPROVAL_ACTIONS then usage (''Unknown approval action: '' @ strip s) else Inr token))"

definition validate_actor :: "string option \<Rightarrow> bool \<Rightarrow> cli_exn + string option" where
  "validate_actor raw required = sanitize_printable_ascii raw ''actor'' MAX_ACTOR_LEN required"

section \<open>Argument parser\<close>

fun extract_ids :: "string list \<Rightarrow> cli_exn + string list" where
  "extract_ids [] = Inr []"
| "extract_ids [token] = (if token = FLAG_INJECT then usage (FLAG_INJECT @ '' requires a value'') else Inr [])"
| "extract_ids (token # v # rest) =
     (if token = FLAG_INJECT then
        (case member_of injection_value injection_members v of
           None \<Rightarrow> usage (''Unknown failure injection id: '' @ v)
         | Some i \<Rightarrow> and_then (extract_ids rest) (\<lambda>ids. Inr (v # ids)))
      else extract_ids (v # rest))"

definition extract_flags :: "string list \<Rightarrow> cli_exn + cli_failure_injection_override option" where
  "extract_flags argv =
     and_then (extract_ids argv) (\<lambda>ids.
     Inr (if ids = [] then None else Some \<lparr>cfo_enabled = True, cfo_active_injections = remdups ids\<rparr>))"

definition GLOBAL_FLAGS_WITH_VALUE :: "string list" where
  "GLOBAL_FLAGS_WITH_VALUE = [FLAG_API_URL, FLAG_CONFIG_PATH, FLAG_TIMEOUT, FLAG_OUTPUT]"

definition flag_key :: "string \<Rightarrow> string" where
  "flag_key token = map (\<lambda>c. if c = CHR ''-'' then CHR ''_'' else c) (dropWhile (\<lambda>c. c = CHR ''-'') token)"

fun parse_global_flags :: "string list \<Rightarrow> (string, string) dict \<Rightarrow> string list \<Rightarrow> cli_exn + (string, string) dict \<times> string list" where
  "parse_global_flags [] vals rest = Inr (vals, rest)"
| "parse_global_flags (token # argv) vals rest =
     (if token = FLAG_INJECT then parse_global_flags (drop 1 argv) vals rest
      else if token \<in> set GLOBAL_FLAGS_WITH_VALUE then
        (case argv of
           [] \<Rightarrow> usage (token @ '' requires a value'')
         | v # argv' \<Rightarrow> parse_global_flags argv' (dict_set (flag_key token) v vals) rest)
      else parse_global_flags argv vals (rest @ [token]))"

record subcommand_spec =
  sub_name :: string
  sub_description :: string
  sub_requires_workflow_id :: bool

definition default_specs :: "(subcommand_id, subcommand_spec) dict" where
  "default_specs =
     (let spec = (\<lambda>n d r. \<lparr>sub_name = n, sub_description = d, sub_requires_workflow_id = r\<rparr>) in
      [(SUB_INITIATE, spec ''initiate'' ''Initiate a new workflow run'' False),
       (SUB_STATUS, spec ''status'' ''Query workflow status'' True),
       (SUB_HISTORY, spec ''history'' ''Query workflow transition history'' True),
       (SUB_OUTPUT, spec ''output'' ''Review workflow output for human approval'' True),
       (SUB_TIMELINE, spec ''timeline'' ''Display workflow timeline'' True),
       (SUB_APPROVE, spec ''approve'' ''Submit human approval action'' True)])"

definition subcommand_id_from_registry :: "string \<Rightarrow> cli_exn + subcommand_id" where
  "subcommand_id_from_registry token =
     (case find (\<lambda>(i, spec). sub_name spec = token) default_specs of
        None \<Rightarrow> usage (''Unknown subcommand: '' @ token) | Some (i, spec) \<Rightarrow> Inr i)"

fun parse_initiate_args ::
  "string list \<Rightarrow> string option \<times> string option \<times> string option \<Rightarrow> cli_exn + string option \<times> string option \<times> string option"
where
  "parse_initiate_args [] vals = Inr vals"
| "parse_initiate_args (token # args) (wid, cid, who) =
     (if token = FLAG_WORKFLOW_ID \<or> token = FLAG_CORRELATION_ID \<or> token = FLAG_ACTOR then
        (case args of
           [] \<Rightarrow> usage (token @ '' requires a value'')
         | v # args' \<Rightarrow>
             parse_initiate_args args'
               (if token = FLAG_WORKFLOW_ID then (Some v, cid, who)
                else if token = FLAG_CORRELATION_ID then (wid, Some v, who) else (wid, cid, Some v)))
      else usage (''Unknown initiate flag: '' @ token))"

fun parse_workflow_id_args :: "string list \<Rightarrow> string \<Rightarrow> string option \<Rightarrow> cli_exn + string" where
  "parse_workflow_id_args [] subcommand None = usage (subcommand @ '' requires a workflow_id argument'')"
| "parse_workflow_id_args [] subcommand (Some wid) = Inr wid"
| "parse_workflow_id_args (token # args) subcommand wid =
     (if token = FLAG_WORKFLOW_ID then
        if wid \<noteq> None then usage (subcommand @ '' accepts only one workflow_id argument'')
        else
          (case args of
             [] \<Rightarrow> usage (token @ '' requires a value'')
           | v # args' \<Rightarrow> parse_workflow_id_args args' subcommand (Some v))
      else if take 1 token = ''-'' then usage (''Unknown '' @ subcommand @ '' flag: '' @ token)
      else if wid \<noteq> None then usage (subcommand @ '' accepts only one workflow_id argument'')
      else parse_workflow_id_args args subcommand (Some token))"

fun parse_approve_args ::
  "string list \<Rightarrow> string option \<times> string option \<times> string option \<Rightarrow> cli_exn + string \<times> string option \<times> string option"
where
  "parse_approve_args [] (None, action, actor) = usage ''approve requires a workflow_id argument''"
| "parse_approve_args [] (Some wid, action, actor) = Inr (wid, action, actor)"
| "parse_approve_args (token # args) (wid, action, actor) =
     (if token = FLAG_WORKFLOW_ID \<and> wid \<noteq> None then usage ''approve accepts only one workflow_id argument''
      else if token = FLAG_WORKFLOW_ID \<or> token = FLAG_ACTION \<or> token = FLAG_ACTOR then
        (case args of
           [] \<Rightarrow> usage (token @ '' requires a value'')
         | v # args' \<Rightarrow>
             parse_approve_args args'
               (if token = FLAG_WORKFLOW_ID then (Some v, action, actor)
                else if token = FLAG_ACTION then (wid, Some v, actor) else (wid, action, Some v)))
      else if take 1 token = ''-'' then usage (''Unknown approve flag: '' @ token)
      else if wid \<noteq> None then usage ''approve accepts only one workflow_id argument''
      else parse_approve_args args (Some token, action, actor))"

text \<open>Python's \<open>a or b\<close> on optional texts.\<close>

definition or_text :: "string option \<Rightarrow> string option \<Rightarrow> string option" where
  "or_text a b = (if a = None \<or> a = Some '''' then b else a)"

definition client_config_of :: "'s cli_host \<Rightarrow> (string, string) dict \<Rightarrow> cli_exn + cli_client_config" where
  "client_config_of H vals =
     (let base_url = (case or_text (or_text (dict_get vals ''api_url'') (clh_environ H ''CARTOON_API_URL'')) (Some DEFAULT_API_BASE_URL) of
                        None \<Rightarrow> DEFAULT_API_BASE_URL | Some u \<Rightarrow> u);
          config_path = or_text (or_text (dict_get vals ''config_path'') (clh_environ H ''CARTOON_CONFIG_PATH'')) None;
          timeout_raw = or_text (dict_get vals ''timeout'') (clh_environ H ''CARTOON_CLI_TIMEOUT'')
      in and_then (case timeout_raw of
                     None \<Rightarrow> Inr (Finite 30)
                   | Some t \<Rightarrow> (case clh_float H t of None \<Rightarrow> usage ''timeout must be a number'' | Some x \<Rightarrow> Inr x)) (\<lambda>seconds.
         Inr \<lparr>ccc_api_base_url = base_url, ccc_config_path = config_path, ccc_request_timeout_seconds = Some seconds\<rparr>))"

definition parse_subcommand ::
  "subcommand_id \<Rightarrow> string \<Rightarrow> string list \<Rightarrow>
     cli_exn + string option \<times> initiate_api_request option \<times> string option \<times> string option"
where
  "parse_subcommand sub token args =
     (case sub of
        SUB_INITIATE \<Rightarrow>
          and_then (parse_initiate_args args (None, None, None)) (\<lambda>(wid, cid, who).
          and_then (validate_initiate_fields wid cid who) (\<lambda>request.
          Inr (None, Some request, None, None)))
      | SUB_APPROVE \<Rightarrow>
          and_then (parse_approve_args args (None, None, None)) (\<lambda>(wid, action, actor).
          and_then (cli_validate_workflow_id (Some wid) True) (\<lambda>workflow_id.
          and_then (validate_approval_action action) (\<lambda>approval_action.
          and_then (if actor = None then Inr None else validate_actor actor True) (\<lambda>approval_actor.
          Inr (Some workflow_id, None, Some approval_action, approval_actor)))))
      | _ \<Rightarrow>
          and_then (parse_workflow_id_args args token None) (\<lambda>wid.
          and_then (cli_validate_workflow_id (Some wid) True) (\<lambda>workflow_id.
          Inr (Some workflow_id, None, None, None))))"

definition cli_parse :: "'s cli_host \<Rightarrow> string list \<Rightarrow> cli_exn + parsed_cli_invocation" where
  "cli_parse H argv =
     and_then (extract_flags argv) (\<lambda>injection_override.
     and_then (parse_global_flags argv [] []) (\<lambda>(vals, rest).
     if dict_get vals ''output'' = Some ''json'' then usage ''unsupported output format''
     else
       (case rest of
          [] \<Rightarrow> usage ''subcommand is required''
        | token # args \<Rightarrow>
            and_then (subcommand_id_from_registry token) (\<lambda>sub.
            and_then (client_config_of H vals) (\<lambda>client_config.
            and_then (parse_subcommand sub token args) (\<lambda>(workflow_id, request, action, actor).
            Inr \<lparr>pci_subcommand_id = sub, pci_client_config = client_config, pci_config_override = injection_override,
                 pci_workflow_id = workflow_id, pci_initiate_request = request, pci_approval_action = action,
                 pci_approval_actor = actor, pci_raw_args = argv\<rparr>))))))"

section \<open>Configuration override\<close>

definition validate_injection_ids :: "string list \<Rightarrow> cli_exn + injection_id list" where
  "validate_injection_ids ids =
     traverse (\<lambda>raw. case member_of injection_value injection_members raw of
       None \<Rightarrow> usage (''Unknown failure injection id: '' @ raw) | Some i \<Rightarrow> Inr i) ids"

definition merge_failure_injection_override ::
  "loaded_injection \<Rightarrow> cli_failure_injection_override option \<Rightarrow> cli_exn + loaded_injection"
where
  "merge_failure_injection_override base override =
     (case override of
        None \<Rightarrow> Inr base
      | Some ov \<Rightarrow>
          if \<not> cfo_enabled ov then Inr base
          else
            and_then (validate_injection_ids (cfo_active_injections ov)) (\<lambda>active.
            if active = [] then usage ''Failure injection enabled but no injection ids specified''
            else Inr \<lparr>ldi_enabled = True, ldi_active_injections = map Inl active\<rparr>))"

definition merge_cli_config_override ::
  "concrete_app_config \<Rightarrow> cli_failure_injection_override option \<Rightarrow> cli_exn + concrete_app_config"
where
  "merge_cli_config_override base override =
     (if override = None then Inr base
      else
        and_then (merge_failure_injection_override (cac_failure_injection base) override) (\<lambda>merged.
        Inr (base\<lparr>cac_failure_injection := merged\<rparr>)))"

section \<open>State\<close>

datatype cli_event = CommandStarted subcommand_id | CommandCompleted subcommand_id int
  | CommandFailed subcommand_id string int | SubcommandSpan subcommand_id string

record 's cli_state =
  cst_server :: 's
  cst_out :: string
  cst_err :: string
  cst_events :: "cli_event list"

type_synonym ('s, 'a) command = "(cli_exn, 's cli_state, 'a) py"

definition write_out :: "string \<Rightarrow> ('s, unit) command" where
  "write_out text = modifyE (\<lambda>s. s\<lparr>cst_out := cst_out s @ text\<rparr>)"

definition write_err :: "string \<Rightarrow> ('s, unit) command" where
  "write_err text = modifyE (\<lambda>s. s\<lparr>cst_err := cst_err s @ text\<rparr>)"

definition emit_cli :: "cli_event \<Rightarrow> ('s, unit) command" where
  "emit_cli e = modifyE (\<lambda>s. s\<lparr>cst_events := cst_events s @ [e]\<rparr>)"

definition returned :: "cli_exn + 'a \<Rightarrow> ('s, 'a) command" where
  "returned r = (case r of Inl x \<Rightarrow> raise x | Inr a \<Rightarrow> ret a)"

definition on_server :: "(cli_exn, 's, 'a) py \<Rightarrow> ('s, 'a) command" where
  "on_server m s = (case m (cst_server s) of (r, w) \<Rightarrow> (r, s\<lparr>cst_server := w\<rparr>))"

section \<open>HTTP transport and client\<close>

definition USER_AGENT :: string where "USER_AGENT = ''cartoon-cli/1.0.0''"

definition rstrip_slashes :: "string \<Rightarrow> string" where
  "rstrip_slashes s = rev (dropWhile (\<lambda>c. c = CHR ''/'') (rev s))"

definition api_failure :: "string \<Rightarrow> cli_exn" where
  "api_failure message = CliErr (cli_error_of CliApiError message)"

definition decode_body :: "'s cli_host \<Rightarrow> int \<Rightarrow> string \<Rightarrow> cli_exn + (string \<times> json) list option" where
  "decode_body H status text =
     (let failure = api_failure (if status \<ge> 400 then ''API request failed'' else ''API response was malformed'') in
      if strip text = '''' then (if status \<ge> 400 then Inl failure else Inr None)
      else
        (case clh_loads H text of
           Inl (decode_error, message) \<Rightarrow> Inl (if decode_error then failure else CliOther False message)
         | Inr (JObj body) \<Rightarrow> Inr (Some body)
         | Inr _ \<Rightarrow> Inl failure))"

fun is_api_failure :: "cli_exn \<Rightarrow> bool" where
  "is_api_failure (CliErr e) \<longleftrightarrow> cle_type e = CliApiError" | "is_api_failure (CliOther c m) \<longleftrightarrow> False"

definition effective_timeout :: "cli_client_config \<Rightarrow> py_float" where
  "effective_timeout config =
     (case ccc_request_timeout_seconds config of
        None \<Rightarrow> Finite 30 | Some t \<Rightarrow> if t = Finite 0 then Finite 30 else t)"

definition transport_request ::
  "'s cli_host \<Rightarrow> cli_client_config \<Rightarrow> string \<Rightarrow> string \<Rightarrow> json option \<Rightarrow> ('s, int \<times> (string \<times> json) list option) command"
where
  "transport_request H config method route body =
     catchE
       (bindE (on_server (clh_http H
          \<lparr>wr_method = method, wr_url = rstrip_slashes (ccc_api_base_url config) @ route, wr_json = body,
           wr_headers = fold (\<lambda>(k, v). dict_set k v) (clh_carrier H) [(''User-Agent'', USER_AGENT)],
           wr_timeout = effective_timeout config\<rparr>)) (\<lambda>(status, text).
        bindE (returned (decode_body H status text)) (\<lambda>parsed.
        ret (status, parsed))))
       (\<lambda>x. raise (if is_api_failure x then x else CliErr (map_to_connection_error x)))"

text \<open>
  \<open>str.format\<close> with the one keyword \<open>workflow_id\<close>: literal braces are doubled, a name that is not the keyword raises
  \<open>KeyError\<close> or \<open>IndexError\<close> (\<open>FormatMissing\<close>), an unbalanced brace \<open>ValueError\<close>. A field with an attribute, an
  index, a conversion or a format specification is left to the host (\<open>None\<close>).
\<close>

datatype format_exn = FormatMissing | FormatValueError

definition map_formatted :: "(string \<Rightarrow> string) \<Rightarrow> (format_exn + string) option \<Rightarrow> (format_exn + string) option" where
  "map_formatted f r = map_option (map_sum id f) r"

function plain_format :: "string \<Rightarrow> string \<Rightarrow> (format_exn + string) option" where
  "plain_format v [] = Some (Inr [])"
| "plain_format v (c # s) =
     (if c = CHR ''{'' then
        if take 1 s = ''{'' then map_formatted (\<lambda>r. CHR ''{'' # r) (plain_format v (drop 1 s))
        else
          (let field = takeWhile (\<lambda>c. c \<noteq> CHR ''}'') s; rest = dropWhile (\<lambda>c. c \<noteq> CHR ''}'') s in
           if rest = [] then Some (Inl FormatValueError)
           else if list_ex (\<lambda>c. c \<in> set ''.[!:{'') field then None
           else if field = ''workflow_id'' then map_formatted (\<lambda>r. v @ r) (plain_format v (drop 1 rest))
           else Some (Inl FormatMissing))
      else if c = CHR ''}'' then
        if take 1 s = ''}'' then map_formatted (\<lambda>r. CHR ''}'' # r) (plain_format v (drop 1 s))
        else Some (Inl FormatValueError)
      else map_formatted (\<lambda>r. c # r) (plain_format v s))"
  by pat_completeness auto

termination
proof (relation "measure (\<lambda>(v, s). length s)")
  fix c s x xa
  assume "xa = dropWhile (\<lambda>c. c \<noteq> CHR ''}'') s"
  then have "length xa \<le> length s" by (simp add: length_dropWhile_le)
  then show "((v, drop 1 xa), v, c # s) \<in> measure (\<lambda>(v, s). length s)" for v by simp
qed auto

definition str_format :: "'s cli_host \<Rightarrow> string \<Rightarrow> json \<Rightarrow> format_exn + string" where
  "str_format H template v =
     (case plain_format (json_str (clh_repr H) v) template of
        Some r \<Rightarrow> r
      | None \<Rightarrow>
          (case clh_format H template v of
             Inr r \<Rightarrow> Inr r | Inl (CliOther missing m) \<Rightarrow> Inl (if missing then FormatMissing else FormatValueError)
           | Inl (CliErr e) \<Rightarrow> Inl FormatValueError))"

definition about_workflow :: "string \<Rightarrow> string \<Rightarrow> string" where
  "about_workflow lead trail = lead @ [CHR 0x27] @ ''{workflow_id}'' @ [CHR 0x27] @ trail"

definition API_ERROR_MESSAGES :: "(string, string) dict" where
  "API_ERROR_MESSAGES =
     [(''WF_NOT_FOUND'', about_workflow ''Workflow '' '' was not found.''),
      (''WF_INVALID_APPROVAL'', about_workflow ''Approval action is not valid for workflow '' ''.''),
      (''WF_TERMINAL'', about_workflow ''Workflow '' '' is in a terminal state.''),
      (''WF_CONFLICT'', about_workflow ''Workflow '' '' has a concurrent modification conflict.''),
      (''WF_INVALID_TRANSITION'', about_workflow ''Invalid state transition for workflow '' ''.''),
      (''API_VALIDATION'', ''Request validation failed.''),
      (''API_INTERNAL'', ''An internal server error occurred.'')]"

definition or_json :: "json option \<Rightarrow> json option \<Rightarrow> json option" where
  "or_json a b = (case a of Some v \<Rightarrow> if truthy v then a else b | None \<Rightarrow> b)"

record client_envelope =
  cev_error_class :: string
  cev_message :: string
  cev_workflow_id :: "json option"

text \<open>A template that cannot be formatted for another reason than a missing field raises \<open>ValueError\<close>.\<close>

definition map_api_error_envelope :: "'s cli_host \<Rightarrow> client_envelope \<Rightarrow> string option \<Rightarrow> cli_exn" where
  "map_api_error_envelope H envelope workflow_id =
     (let template = (case dict_get API_ERROR_MESSAGES (cev_error_class envelope) of None \<Rightarrow> cev_message envelope | Some t \<Rightarrow> t);
          resolved = (case or_json (map_option JStr workflow_id) (cev_workflow_id envelope) of
                        None \<Rightarrow> JStr ''unknown'' | Some v \<Rightarrow> if truthy v then v else JStr ''unknown'')
      in case str_format H template resolved of
           Inl FormatValueError \<Rightarrow> CliOther False ''''
         | r \<Rightarrow>
             CliErr \<lparr>cle_type = CliApiError,
                     cle_message = (case r of Inr m \<Rightarrow> m | Inl _ \<Rightarrow> cev_message envelope),
                     cle_workflow_id = or_json (cev_workflow_id envelope) (map_option JStr workflow_id),
                     cle_api_error_class = Some (cev_error_class envelope)\<rparr>)"

definition error_envelope_of :: "'s cli_host \<Rightarrow> (string \<times> json) list \<Rightarrow> string option \<Rightarrow> client_envelope" where
  "error_envelope_of H body workflow_id =
     \<lparr>cev_error_class = json_str (clh_repr H) (json_get body ''error_class'' (JStr ''API_INTERNAL'')),
      cev_message = json_str (clh_repr H) (json_get body ''message'' (JStr ''API request failed'')),
      cev_workflow_id = or_json (Some (json_get body ''workflow_id'' JNull)) (map_option JStr workflow_id)\<rparr>"

definition client_request ::
  "'s cli_host \<Rightarrow> cli_client_config \<Rightarrow> string \<Rightarrow> string \<Rightarrow> json option \<Rightarrow> string option \<Rightarrow> ('s, (string \<times> json) list) command"
where
  "client_request H config method route body workflow_id =
     bindE (transport_request H config method route body) (\<lambda>(status, parsed).
     if status \<ge> 400 then
       raise (map_api_error_envelope H (error_envelope_of H (case parsed of None \<Rightarrow> [] | Some b \<Rightarrow> b) workflow_id) workflow_id)
     else
       (case parsed of None \<Rightarrow> raise (api_failure ''API response was empty'') | Some b \<Rightarrow> ret b))"

section \<open>Responses\<close>

text \<open>
  The parsed responses; \<open>trace_id\<close>, \<open>failure_reason\<close>, \<open>actor\<close>, \<open>task_type\<close> and \<open>attributes\<close> are passed on as they come.
\<close>

record initiate_response =
  ini_workflow_id :: string
  ini_state :: workflow_state
  ini_state_version :: int
  ini_created_at :: datetime
  ini_trace_id :: json

record status_response =
  sta_workflow_id :: string
  sta_state :: workflow_state
  sta_state_version :: int
  sta_created_at :: datetime
  sta_updated_at :: datetime
  sta_revision_count :: int
  sta_failure_reason :: json

record transition_response =
  trs_transition_id :: string
  trs_from_state :: workflow_state
  trs_to_state :: workflow_state
  trs_reason :: string
  trs_occurred_at :: datetime
  trs_actor :: json

record history_response =
  his_workflow_id :: string
  his_transitions :: "transition_response list"

record output_response =
  out_workflow_id :: string
  out_state :: workflow_state
  out_package :: "(string \<times> json) list"
  out_is_complete :: bool
  out_failure_reason :: json

record timeline_event_response =
  evr_occurred_at :: datetime
  evr_event_type :: string
  evr_summary :: string
  evr_state :: "workflow_state option"
  evr_task_type :: json
  evr_attributes :: json

record timeline_response =
  tlr_workflow_id :: string
  tlr_events :: "timeline_event_response list"

record approval_response =
  apr_workflow_id :: string
  apr_action :: approval_action
  apr_from_state :: workflow_state
  apr_to_state :: workflow_state
  apr_state_version :: int
  apr_transition_id :: string

text \<open>\<open>data[key]\<close>, \<open>data.get(key, default)\<close> and iteration, on a value that need not be a dictionary.\<close>

definition body_item :: "json \<Rightarrow> string \<Rightarrow> cli_exn + json" where
  "body_item v key = (case v of JObj d \<Rightarrow> (case dict_get d key of None \<Rightarrow> unexpected | Some x \<Rightarrow> Inr x) | _ \<Rightarrow> unexpected)"

definition item_get :: "json \<Rightarrow> string \<Rightarrow> json \<Rightarrow> cli_exn + json" where
  "item_get v key dflt = (case v of JObj d \<Rightarrow> Inr (json_get d key dflt) | _ \<Rightarrow> unexpected)"

definition items_of :: "json \<Rightarrow> cli_exn + json list" where
  "items_of v =
     (case v of JList xs \<Rightarrow> Inr xs | JObj d \<Rightarrow> Inr (map (\<lambda>(k, _). JStr k) d) | JStr s \<Rightarrow> Inr (map (\<lambda>c. JStr [c]) s) | _ \<Rightarrow> unexpected)"

definition text_at :: "'s cli_host \<Rightarrow> json \<Rightarrow> string \<Rightarrow> cli_exn + string" where
  "text_at H v key = and_then (body_item v key) (\<lambda>x. Inr (json_str (clh_repr H) x))"

text \<open>\<open>int(x)\<close>\<close>

definition int_value :: "'s cli_host \<Rightarrow> json \<Rightarrow> cli_exn + int" where
  "int_value H v =
     (case v of
        JInt i \<Rightarrow> Inr i
      | JBool b \<Rightarrow> Inr (if b then 1 else 0)
      | JFloat r \<Rightarrow> Inr (if r < 0 then - \<lfloor>- r\<rfloor> else \<lfloor>r\<rfloor>)
      | JStr s \<Rightarrow> (case clh_int_text H s of None \<Rightarrow> unexpected | Some i \<Rightarrow> Inr i)
      | _ \<Rightarrow> unexpected)"

text \<open>The text that \<open>isoformat\<close> prints, read back from its fields; other forms are left to the host.\<close>

definition read_iso :: "string \<Rightarrow> datetime" where
  "read_iso s = (if take 1 (drop 19 s) = ''.'' then read_stamp s else read_stamp (take 19 s @ ''.000000''))"

fun replace_z :: "string \<Rightarrow> string" where
  "replace_z [] = []"
| "replace_z (c # s) = (if c = CHR ''Z'' then ''+00:00'' @ replace_z s else c # replace_z s)"

definition parse_datetime :: "'s cli_host \<Rightarrow> string \<Rightarrow> cli_exn + datetime" where
  "parse_datetime H v =
     (let s = replace_z v in
      if isoformat (read_iso s) = s then Inr (read_iso s)
      else (case clh_fromiso H s of None \<Rightarrow> unexpected | Some t \<Rightarrow> Inr t))"

definition datetime_at :: "'s cli_host \<Rightarrow> json \<Rightarrow> string \<Rightarrow> cli_exn + datetime" where
  "datetime_at H v key = and_then (text_at H v key) (parse_datetime H)"

definition parse_state :: "'s cli_host \<Rightarrow> json \<Rightarrow> cli_exn + workflow_state" where
  "parse_state H v = (case workflow_state_of (json_str (clh_repr H) v) of None \<Rightarrow> unexpected | Some st \<Rightarrow> Inr st)"

definition state_at :: "'s cli_host \<Rightarrow> json \<Rightarrow> string \<Rightarrow> cli_exn + workflow_state" where
  "state_at H v key = and_then (body_item v key) (parse_state H)"

definition parse_reply_action :: "'s cli_host \<Rightarrow> json \<Rightarrow> cli_exn + approval_action" where
  "parse_reply_action H v =
     (case find (\<lambda>a. approval_action_value a = json_str (clh_repr H) v) [APPROVE, REJECT, REQUEST_REGENERATION] of
        None \<Rightarrow> unexpected | Some a \<Rightarrow> Inr a)"

definition parse_initiate_response :: "'s cli_host \<Rightarrow> json \<Rightarrow> cli_exn + initiate_response" where
  "parse_initiate_response H data =
     and_then (text_at H data ''workflow_id'') (\<lambda>wid.
     and_then (state_at H data ''state'') (\<lambda>state.
     and_then (and_then (body_item data ''state_version'') (int_value H)) (\<lambda>version.
     and_then (datetime_at H data ''created_at'') (\<lambda>created_at.
     and_then (item_get data ''trace_id'' JNull) (\<lambda>trace_id.
     Inr \<lparr>ini_workflow_id = wid, ini_state = state, ini_state_version = version, ini_created_at = created_at,
          ini_trace_id = trace_id\<rparr>)))))"

definition parse_status_response :: "'s cli_host \<Rightarrow> json \<Rightarrow> cli_exn + status_response" where
  "parse_status_response H data =
     and_then (text_at H data ''workflow_id'') (\<lambda>wid.
     and_then (state_at H data ''state'') (\<lambda>state.
     and_then (and_then (body_item data ''state_version'') (int_value H)) (\<lambda>version.
     and_then (datetime_at H data ''created_at'') (\<lambda>created_at.
     and_then (datetime_at H data ''updated_at'') (\<lambda>updated_at.
     and_then (and_then (item_get data ''revision_count'' (JInt 0)) (int_value H)) (\<lambda>revision_count.
     and_then (item_get data ''failure_reason'' JNull) (\<lambda>failure_reason.
     Inr \<lparr>sta_workflow_id = wid, sta_state = state, sta_state_version = version, sta_created_at = created_at,
          sta_updated_at = updated_at, sta_revision_count = revision_count, sta_failure_reason = failure_reason\<rparr>)))))))"

definition parse_transition_item :: "'s cli_host \<Rightarrow> json \<Rightarrow> cli_exn + transition_response" where
  "parse_transition_item H item =
     and_then (text_at H item ''transition_id'') (\<lambda>tid.
     and_then (state_at H item ''from_state'') (\<lambda>from_state.
     and_then (state_at H item ''to_state'') (\<lambda>to_state.
     and_then (text_at H item ''reason'') (\<lambda>reason.
     and_then (datetime_at H item ''occurred_at'') (\<lambda>occurred_at.
     and_then (item_get item ''actor'' JNull) (\<lambda>actor.
     Inr \<lparr>trs_transition_id = tid, trs_from_state = from_state, trs_to_state = to_state, trs_reason = reason,
          trs_occurred_at = occurred_at, trs_actor = actor\<rparr>))))))"

definition parse_history_response :: "'s cli_host \<Rightarrow> json \<Rightarrow> cli_exn + history_response" where
  "parse_history_response H data =
     and_then (item_get data ''transitions'' (JList [])) (\<lambda>items.
     and_then (items_of items) (\<lambda>xs.
     and_then (traverse (parse_transition_item H) xs) (\<lambda>transitions.
     and_then (text_at H data ''workflow_id'') (\<lambda>wid.
     Inr \<lparr>his_workflow_id = wid, his_transitions = transitions\<rparr>))))"

definition parse_output_response :: "'s cli_host \<Rightarrow> json \<Rightarrow> cli_exn + output_response" where
  "parse_output_response H data =
     and_then (item_get data ''package'' (JObj [])) (\<lambda>package.
     and_then (text_at H data ''workflow_id'') (\<lambda>wid.
     and_then (state_at H data ''state'') (\<lambda>state.
     and_then (item_get data ''is_complete'' (JBool False)) (\<lambda>is_complete.
     and_then (item_get data ''failure_reason'' JNull) (\<lambda>failure_reason.
     Inr \<lparr>out_workflow_id = wid, out_state = state, out_package = (case package of JObj d \<Rightarrow> d | _ \<Rightarrow> []),
          out_is_complete = truthy is_complete, out_failure_reason = failure_reason\<rparr>)))))"

definition parse_timeline_item :: "'s cli_host \<Rightarrow> json \<Rightarrow> cli_exn + timeline_event_response" where
  "parse_timeline_item H item =
     and_then (datetime_at H item ''occurred_at'') (\<lambda>occurred_at.
     and_then (text_at H item ''event_type'') (\<lambda>event_type.
     and_then (text_at H item ''summary'') (\<lambda>summary.
     and_then (item_get item ''state'' JNull) (\<lambda>raw.
     and_then (if truthy raw then map_sum id Some (parse_state H raw) else Inr None) (\<lambda>state.
     and_then (item_get item ''task_type'' JNull) (\<lambda>task_type.
     and_then (item_get item ''attributes'' (JObj [])) (\<lambda>attributes.
     Inr \<lparr>evr_occurred_at = occurred_at, evr_event_type = event_type, evr_summary = summary, evr_state = state,
          evr_task_type = task_type, evr_attributes = attributes\<rparr>)))))))"

definition parse_timeline_response :: "'s cli_host \<Rightarrow> json \<Rightarrow> cli_exn + timeline_response" where
  "parse_timeline_response H data =
     and_then (item_get data ''events'' (JList [])) (\<lambda>items.
     and_then (items_of items) (\<lambda>xs.
     and_then (traverse (parse_timeline_item H) xs) (\<lambda>events.
     and_then (text_at H data ''workflow_id'') (\<lambda>wid.
     Inr \<lparr>tlr_workflow_id = wid, tlr_events = events\<rparr>))))"

definition parse_approval_response :: "'s cli_host \<Rightarrow> json \<Rightarrow> cli_exn + approval_response" where
  "parse_approval_response H data =
     and_then (text_at H data ''workflow_id'') (\<lambda>wid.
     and_then (and_then (body_item data ''action'') (parse_reply_action H)) (\<lambda>action.
     and_then (state_at H data ''from_state'') (\<lambda>from_state.
     and_then (state_at H data ''to_state'') (\<lambda>to_state.
     and_then (and_then (body_item data ''state_version'') (int_value H)) (\<lambda>version.
     and_then (text_at H data ''transition_id'') (\<lambda>tid.
     Inr \<lparr>apr_workflow_id = wid, apr_action = action, apr_from_state = from_state, apr_to_state = to_state,
          apr_state_version = version, apr_transition_id = tid\<rparr>))))))"

section \<open>Client methods\<close>

definition workflow_route :: "string \<Rightarrow> string \<Rightarrow> string" where
  "workflow_route wid ending = ''/workflows/'' @ wid @ ending"

definition initiate_request_to_json :: "initiate_api_request \<Rightarrow> json" where
  "initiate_request_to_json r =
     (let field = (\<lambda>key v. case v of None \<Rightarrow> [] | Some s \<Rightarrow> [(key, JStr s)]) in
      JObj (field ''workflow_id'' (iar_workflow_id r) @ field ''correlation_id'' (iar_correlation_id r) @ field ''actor'' (iar_actor r)))"

definition client_initiate_workflow :: "'s cli_host \<Rightarrow> cli_client_config \<Rightarrow> initiate_api_request \<Rightarrow> ('s, initiate_response) command" where
  "client_initiate_workflow H config r =
     bindE (client_request H config ''POST'' ''/workflows'' (Some (initiate_request_to_json r)) None) (\<lambda>body.
     returned (parse_initiate_response H (JObj body)))"

definition client_query ::
  "'s cli_host \<Rightarrow> cli_client_config \<Rightarrow> string \<Rightarrow> (json \<Rightarrow> cli_exn + 'a) \<Rightarrow> string \<Rightarrow> ('s, 'a) command"
where
  "client_query H config ending parse_response wid =
     bindE (client_request H config ''GET'' (workflow_route wid ending) None (Some wid)) (\<lambda>body.
     returned (parse_response (JObj body)))"

definition client_get_workflow_status :: "'s cli_host \<Rightarrow> cli_client_config \<Rightarrow> string \<Rightarrow> ('s, status_response) command" where
  "client_get_workflow_status H config = client_query H config '''' (parse_status_response H)"

definition client_get_workflow_history :: "'s cli_host \<Rightarrow> cli_client_config \<Rightarrow> string \<Rightarrow> ('s, history_response) command" where
  "client_get_workflow_history H config = client_query H config ''/history'' (parse_history_response H)"

definition client_get_workflow_output :: "'s cli_host \<Rightarrow> cli_client_config \<Rightarrow> string \<Rightarrow> ('s, output_response) command" where
  "client_get_workflow_output H config = client_query H config ''/output'' (parse_output_response H)"

definition client_get_workflow_timeline :: "'s cli_host \<Rightarrow> cli_client_config \<Rightarrow> string \<Rightarrow> ('s, timeline_response) command" where
  "client_get_workflow_timeline H config = client_query H config ''/timeline'' (parse_timeline_response H)"

text \<open>The handler passes the action as a text and no idempotency key.\<close>

definition client_submit_approval ::
  "'s cli_host \<Rightarrow> cli_client_config \<Rightarrow> string \<Rightarrow> string \<Rightarrow> string option \<Rightarrow> string option \<Rightarrow> ('s, approval_response) command"
where
  "client_submit_approval H config wid action actor idempotency_key =
     (let field = (\<lambda>key v. case v of None \<Rightarrow> [] | Some s \<Rightarrow> [(key, JStr s)]) in
      bindE (client_request H config ''POST'' (workflow_route wid ''/approval'')
        (Some (JObj ([(''action'', JStr action)] @ field ''actor'' actor @ field ''idempotency_key'' idempotency_key))) (Some wid)) (\<lambda>body.
      returned (parse_approval_response H (JObj body))))"

definition client_health_check :: "'s cli_host \<Rightarrow> cli_client_config \<Rightarrow> ('s, json \<times> string \<times> datetime) command" where
  "client_health_check H config =
     bindE (client_request H config ''GET'' ''/health'' None None) (\<lambda>body.
     returned (and_then (body_item (JObj body) ''status'') (\<lambda>status.
       and_then (text_at H (JObj body) ''service_name'') (\<lambda>service_name.
       and_then (datetime_at H (JObj body) ''timestamp'') (\<lambda>timestamp.
       Inr (status, service_name, timestamp))))))"

definition async_run :: "('s, 'a) command \<Rightarrow> ('s, 'a) command" where
  "async_run m =
     catchE m (\<lambda>x. raise (CliErr (case x of CliErr e \<Rightarrow> e | CliOther c t \<Rightarrow> map_to_connection_error x)))"

section \<open>Approval review\<close>

record panel_review =
  pnr_index :: nat
  pnr_scene :: "string option"
  pnr_dialogue :: "string option"

record approval_review =
  rev_workflow_id :: string
  rev_topic_selected :: "string option"
  rev_topic_rationale :: "string option"
  rev_scenario_artifact_id :: "string option"
  rev_scenario_logical_version :: "int option"
  rev_premise :: "string option"
  rev_characters :: "string list"
  rev_panels :: "panel_review list"
  rev_punchline :: "string option"
  rev_critic_verdict :: "string option"
  rev_critic_issues :: "(string \<times> string) list"

fun object_of :: "json \<Rightarrow> (string \<times> json) list option" where
  "object_of (JObj d) = Some d" | "object_of _ = None"

definition review_section :: "(string \<times> json) list \<Rightarrow> string \<Rightarrow> (string \<times> json) list" where
  "review_section package key = (case object_of (json_get package key JNull) of None \<Rightarrow> [] | Some d \<Rightarrow> d)"

definition optional_str :: "(json \<Rightarrow> string) \<Rightarrow> json \<Rightarrow> string option" where
  "optional_str rp v =
     (case v of JNull \<Rightarrow> None | JStr s \<Rightarrow> (if strip s = '''' then None else Some (strip s)) | _ \<Rightarrow> Some (json_str rp v))"

definition optional_int :: "json \<Rightarrow> int option" where
  "optional_int v = (case v of JInt i \<Rightarrow> Some i | _ \<Rightarrow> None)"

definition character_name :: "(json \<Rightarrow> string) \<Rightarrow> json \<Rightarrow> string option" where
  "character_name rp item =
     (case item of JStr s \<Rightarrow> optional_str rp item | JObj d \<Rightarrow> optional_str rp (json_get d ''name'' JNull) | _ \<Rightarrow> None)"

definition characters_of :: "(json \<Rightarrow> string) \<Rightarrow> json \<Rightarrow> string list" where
  "characters_of rp v = (case v of JList xs \<Rightarrow> List.map_filter (character_name rp) xs | _ \<Rightarrow> [])"

definition first_str :: "(json \<Rightarrow> string) \<Rightarrow> (string \<times> json) list \<Rightarrow> string list \<Rightarrow> string option" where
  "first_str rp d keys =
     (case List.map_filter (\<lambda>k. optional_str rp (json_get d k JNull)) keys of [] \<Rightarrow> None | x # _ \<Rightarrow> Some x)"

definition panels_of :: "(json \<Rightarrow> string) \<Rightarrow> json \<Rightarrow> panel_review list" where
  "panels_of rp v =
     (case v of
        JList xs \<Rightarrow>
          List.map_filter (\<lambda>(i, item). map_option (\<lambda>d.
            \<lparr>pnr_index = i, pnr_scene = first_str rp d [''scene'', ''caption''],
             pnr_dialogue = optional_str rp (json_get d ''dialogue'' JNull)\<rparr>) (object_of item)) (enumerate 1 xs)
      | _ \<Rightarrow> [])"

definition issue_entries :: "(json \<Rightarrow> string) \<Rightarrow> json \<Rightarrow> (string \<times> string) list" where
  "issue_entries rp v =
     (case v of
        JList xs \<Rightarrow>
          List.map_filter (\<lambda>item. case object_of item of
            None \<Rightarrow> None
          | Some d \<Rightarrow>
              (case (optional_str rp (json_get d ''dimension'' JNull), optional_str rp (json_get d ''description'' JNull)) of
                 (Some dimension, Some description) \<Rightarrow> Some (dimension, description) | _ \<Rightarrow> None)) xs
      | _ \<Rightarrow> [])"

definition score_dimensions :: "(json \<Rightarrow> string) \<Rightarrow> json \<Rightarrow> (string \<times> string) list" where
  "score_dimensions rp v =
     (case v of
        JObj d \<Rightarrow> List.map_filter (\<lambda>k. map_option (\<lambda>t. (k, t)) (optional_str rp (json_get d k JNull))) (sort (dict_keys d))
      | _ \<Rightarrow> [])"

definition critic_issues :: "(json \<Rightarrow> string) \<Rightarrow> json \<Rightarrow> json \<Rightarrow> (string \<times> string) list" where
  "critic_issues rp dimensions issues =
     (let rendered = issue_entries rp issues in if rendered \<noteq> [] then rendered else score_dimensions rp dimensions)"

definition build_approval_review :: "(json \<Rightarrow> string) \<Rightarrow> output_response \<Rightarrow> approval_review" where
  "build_approval_review rp response =
     (let topic = review_section (out_package response) ''topic'';
          scenario = review_section (out_package response) ''scenario'';
          critic = review_section (out_package response) ''critic'';
          get = (\<lambda>d k. json_get d k JNull)
      in \<lparr>rev_workflow_id = out_workflow_id response,
          rev_topic_selected = optional_str rp (get topic ''selected_topic''),
          rev_topic_rationale = first_str rp topic [''rationale'', ''why_interesting''],
          rev_scenario_artifact_id = optional_str rp (get scenario ''artifact_id''),
          rev_scenario_logical_version = optional_int (get scenario ''logical_version''),
          rev_premise = optional_str rp (get scenario ''premise''),
          rev_characters = characters_of rp (get scenario ''characters''),
          rev_panels = panels_of rp (get scenario ''panels''),
          rev_punchline = optional_str rp (get scenario ''punchline''),
          rev_critic_verdict = first_str rp critic [''verdict'', ''status''],
          rev_critic_issues = critic_issues rp (get critic ''dimensions'') (get critic ''issues'')\<rparr>)"

definition field_line :: "string \<Rightarrow> string option \<Rightarrow> nat \<Rightarrow> string" where
  "field_line label v indent =
     replicate indent CHR '' '' @ label @ '': '' @ (case v of None \<Rightarrow> ''(not available yet)'' | Some s \<Rightarrow> s)"

definition panel_lines :: "panel_review \<Rightarrow> string list" where
  "panel_lines p =
     [''  panel '' @ show_nat (pnr_index p) @ '':'', field_line ''scene'' (pnr_scene p) 4, field_line ''dialogue'' (pnr_dialogue p) 4]"

definition format_approval_review :: "approval_review \<Rightarrow> string" where
  "format_approval_review r =
     join [CHR 0x0A]
       ([''workflow_id: '' @ rev_workflow_id r]
        @ (case rev_scenario_artifact_id r of None \<Rightarrow> [] | Some a \<Rightarrow> [''scenario_artifact_id: '' @ a])
        @ (case rev_scenario_logical_version r of None \<Rightarrow> [] | Some v \<Rightarrow> [''scenario_logical_version: '' @ show_int v])
        @ ['''', ''topic:'', field_line ''selected_topic'' (rev_topic_selected r) 2,
           field_line ''rationale'' (rev_topic_rationale r) 2, '''', ''scenario:'', field_line ''premise'' (rev_premise r) 2,
           ''  characters: '' @ (if rev_characters r \<noteq> [] then join '', '' (rev_characters r) else ''(not available yet)'')]
        @ concat (map panel_lines (rev_panels r))
        @ (if rev_panels r = [] then [''  panels: (not available yet)''] else [])
        @ [field_line ''punchline'' (rev_punchline r) 2, '''', ''critic:'', field_line ''verdict'' (rev_critic_verdict r) 2]
        @ (if rev_critic_issues r \<noteq> [] then
             ''  issues:'' # map (\<lambda>(d, t). ''    '' @ d @ '': '' @ t) (rev_critic_issues r)
           else if rev_critic_verdict r = Some ''REVISE'' then [''  issues: (not reported)''] else []))
     @ [CHR 0x0A]"

section \<open>Renderers\<close>

definition line :: "string \<Rightarrow> string" where
  "line s = s @ [CHR 0x0A]"

definition render_initiate :: "initiate_response \<Rightarrow> string" where
  "render_initiate r = line (''workflow_id: '' @ ini_workflow_id r) @ line (''state: '' @ state_value (ini_state r))"

definition render_status :: "status_response \<Rightarrow> string" where
  "render_status r =
     line (''workflow_id: '' @ sta_workflow_id r) @ line (''state: '' @ state_value (sta_state r))
     @ line (''state_version: '' @ show_int (sta_state_version r)) @ line (''created_at: '' @ isoformat (sta_created_at r))
     @ line (''updated_at: '' @ isoformat (sta_updated_at r))"

definition render_history :: "history_response \<Rightarrow> string" where
  "render_history r =
     concat (map (\<lambda>t. line (isoformat (trs_occurred_at t) @ '' '' @ state_value (trs_from_state t) @ '' -> ''
       @ state_value (trs_to_state t))) (his_transitions r))"

definition render_output :: "(json \<Rightarrow> string) \<Rightarrow> output_response \<Rightarrow> string" where
  "render_output rp r = format_approval_review (build_approval_review rp r)"

definition render_timeline :: "timeline_response \<Rightarrow> string" where
  "render_timeline r =
     concat (map (\<lambda>e. line (isoformat (evr_occurred_at e) @ '' ['' @ evr_event_type e @ ''] '' @ evr_summary e))
       (sort_key evr_occurred_at (tlr_events r)))"

definition render_approve :: "approval_response \<Rightarrow> string" where
  "render_approve r =
     line (''to_state: '' @ state_value (apr_to_state r)) @ line (''state_version: '' @ show_int (apr_state_version r))"

definition render_error :: "(json \<Rightarrow> string) \<Rightarrow> cli_error \<Rightarrow> string" where
  "render_error rp e =
     line (join '' '' ([''code='' @ cli_error_code (cle_type e), ''message='' @ cle_message e]
       @ (case cle_workflow_id e of None \<Rightarrow> [] | Some w \<Rightarrow> [''workflow_id='' @ json_str rp w])
       @ (case cle_api_error_class e of None \<Rightarrow> [] | Some c \<Rightarrow> [''api_error_class='' @ c])))"

section \<open>Handlers\<close>

definition initiate_execute :: "'s cli_host \<Rightarrow> parsed_cli_invocation \<Rightarrow> ('s, unit) command" where
  "initiate_execute H p =
     (case pci_initiate_request p of
        None \<Rightarrow> raise (CliOther False ''initiate request missing from parse result'')
      | Some request \<Rightarrow>
          bindE (async_run (client_initiate_workflow H (pci_client_config p) request)) (\<lambda>response.
          write_out (render_initiate response)))"

definition query_execute ::
  "parsed_cli_invocation \<Rightarrow> (string \<Rightarrow> ('s, 'a) command) \<Rightarrow> ('a \<Rightarrow> string) \<Rightarrow> ('s, unit) command"
where
  "query_execute p client render =
     bindE (returned (cli_validate_workflow_id (pci_workflow_id p) True)) (\<lambda>wid.
     bindE (async_run (client wid)) (\<lambda>response.
     write_out (render response)))"

definition approve_execute :: "'s cli_host \<Rightarrow> parsed_cli_invocation \<Rightarrow> ('s, unit) command" where
  "approve_execute H p =
     bindE (returned (cli_validate_workflow_id (pci_workflow_id p) True)) (\<lambda>wid.
     bindE (returned (validate_approval_action (pci_approval_action p))) (\<lambda>action.
     bindE (async_run (client_submit_approval H (pci_client_config p) wid action (pci_approval_actor p) None)) (\<lambda>response.
     write_out (render_approve response))))"

definition status_execute :: "'s cli_host \<Rightarrow> parsed_cli_invocation \<Rightarrow> ('s, unit) command" where
  "status_execute H p = query_execute p (client_get_workflow_status H (pci_client_config p)) render_status"

definition history_execute :: "'s cli_host \<Rightarrow> parsed_cli_invocation \<Rightarrow> ('s, unit) command" where
  "history_execute H p = query_execute p (client_get_workflow_history H (pci_client_config p)) render_history"

definition output_execute :: "'s cli_host \<Rightarrow> parsed_cli_invocation \<Rightarrow> ('s, unit) command" where
  "output_execute H p = query_execute p (client_get_workflow_output H (pci_client_config p)) (render_output (clh_repr H))"

definition timeline_execute :: "'s cli_host \<Rightarrow> parsed_cli_invocation \<Rightarrow> ('s, unit) command" where
  "timeline_execute H p = query_execute p (client_get_workflow_timeline H (pci_client_config p)) render_timeline"

definition execute_subcommand :: "'s cli_host \<Rightarrow> parsed_cli_invocation \<Rightarrow> ('s, unit) command" where
  "execute_subcommand H p =
     (case pci_subcommand_id p of
        SUB_INITIATE \<Rightarrow> initiate_execute H p | SUB_STATUS \<Rightarrow> status_execute H p | SUB_HISTORY \<Rightarrow> history_execute H p
      | SUB_OUTPUT \<Rightarrow> output_execute H p | SUB_TIMELINE \<Rightarrow> timeline_execute H p | SUB_APPROVE \<Rightarrow> approve_execute H p)"

text \<open>\<open>BaseSubcommandHandler.run\<close>: the span ends with OK or ERROR, and any exception becomes a \<open>CliError\<close>.\<close>

definition handler_run :: "'s cli_host \<Rightarrow> parsed_cli_invocation \<Rightarrow> ('s, cli_exit_code) command" where
  "handler_run H p =
     (let sub = pci_subcommand_id p in
      bindE (emit_cli (CommandStarted sub)) (\<lambda>_.
      catchE
        (bindE (execute_subcommand H p) (\<lambda>_.
         bindE (emit_cli (CommandCompleted sub (exit_number EXIT_SUCCESS))) (\<lambda>_.
         bindE (emit_cli (SubcommandSpan sub ''OK'')) (\<lambda>_.
         ret EXIT_SUCCESS))))
        (\<lambda>x. bindE (emit_cli (SubcommandSpan sub ''ERROR'')) (\<lambda>_.
             raise (CliErr (case x of CliErr e \<Rightarrow> e | CliOther c t \<Rightarrow> map_to_connection_error x))))))"

section \<open>The application\<close>

fun config_error_text :: "config_exn \<Rightarrow> string" where
  "config_error_text (ConfigLoadError m) = m" | "config_error_text (ConfigMissingError m k) = m"
| "config_error_text (ConfigFormatError m k) = m" | "config_error_text (ConfigValueError m k) = m"
| "config_error_text (ConfigSecretDetectedError m k) = m" | "config_error_text (ConfigCredentialMissingError m v) = m"
| "config_error_text (ConfigPromptNotFoundError m p) = m" | "config_error_text (ForeignError c) = ''''"

definition maybe_bootstrap :: "'s cli_host \<Rightarrow> parsed_cli_invocation \<Rightarrow> cli_exn + concrete_app_config option" where
  "maybe_bootstrap H p =
     (if pci_subcommand_id p \<noteq> SUB_INITIATE then Inr None
      else
        (case ccc_config_path (pci_client_config p) of
           None \<Rightarrow> Inr None
         | Some file \<Rightarrow>
             (case fst (load_config (clh_config H) (Some file) ()) of
                Inl e \<Rightarrow> Inl (if is_config_error e then CliErr (cli_error_of CliConfigError (config_error_text e)) else CliOther False '''')
              | Inr base \<Rightarrow> map_sum id Some (merge_cli_config_override base (pci_config_override p)))))"

definition report_failure :: "'s cli_host \<Rightarrow> subcommand_id option \<Rightarrow> cli_exn \<Rightarrow> ('s, int) command" where
  "report_failure H sub x =
     (let e = (case x of CliErr e \<Rightarrow> e | CliOther c t \<Rightarrow> map_to_connection_error x);
          code = exit_number (cli_exit_code_of (cle_type e))
      in bindE (write_err (render_error (clh_repr H) e)) (\<lambda>_.
         bindE (case sub of None \<Rightarrow> ret () | Some i \<Rightarrow> emit_cli (CommandFailed i (cli_error_code (cle_type e)) code)) (\<lambda>_.
         ret code)))"

text \<open>The \<open>finally\<close> clause closes the client; an error of it replaces the exit code.\<close>

definition cli_run :: "'s cli_host \<Rightarrow> string list \<Rightarrow> ('s, int) command" where
  "cli_run H argv =
     (case cli_parse H (if argv = [] then clh_sys_argv H else argv) of
        Inl x \<Rightarrow> report_failure H None x
      | Inr p \<Rightarrow>
          bindE
            (catchE
               (bindE (returned (maybe_bootstrap H p)) (\<lambda>_.
                bindE (handler_run H p) (\<lambda>code.
                ret (exit_number code))))
               (report_failure H (Some (pci_subcommand_id p)))) (\<lambda>code.
          bindE (async_run (on_server (clh_close H))) (\<lambda>_.
          ret code)))"

end
