(* ===== verification/Api_Properties.thy ===== *)
theory Api_Properties
  imports Api Engine_Properties Collector_Properties Queue_Properties
begin

text \<open>
  The REST interface on top of the engine. The locale \<open>request_frame\<close> lifts a relation between the
  stores before and after a computation to whole requests; it is interpreted on the guarantee of the
  engine and on the relation that only the clock moves. Then come the validation, whose results are
  fixed points of it, and the answers to an approval and to malformed requests.
\<close>

section \<open>What a request does to the store\<close>

definition on_worlds :: "(world \<Rightarrow> world \<Rightarrow> bool) \<Rightarrow> api_state \<Rightarrow> api_state \<Rightarrow> bool" where
  "on_worlds G s s' = G (ast_world s) (ast_world s')"

locale request_frame =
  fixes G :: "world \<Rightarrow> world \<Rightarrow> bool"
  assumes frame_refl: "reflp G" and frame_trans: "transp G" and frame_clock: "evolves G (utc_now E)"
begin

lemma lifted_refl: "reflp (on_worlds G)"
  using frame_refl by (simp add: reflp_def on_worlds_def)

lemma lifted_trans: "transp (on_worlds G)"
  using frame_trans unfolding transp_def on_worlds_def by blast

lemmas lifted = evolves_intro lifted_refl lifted_trans evolves_option

lemma emit_frame: "evolves (on_worlds G) (emit_api e)"
  using frame_refl by (simp add: emit_api_def evolves_modifyE on_worlds_def reflpD)

lemma input_frame: "evolves (on_worlds G) (checked_input r)"
  by (cases r) (simp_all add: checked_input_def lifted)

lemma engine_call_frame:
  assumes "evolves G m"
  shows "evolves (on_worlds G) (engine_call D route_id wid m)"
proof -
  have "on_worlds G s (snd (engine_call D route_id wid m s))" for s
  proof -
    obtain r w where m: "m (ast_world s) = (r, w)" by (cases "m (ast_world s)")
    with assms have "G (ast_world s) w" by (auto dest: evolvesD)
    then show ?thesis using m
      by (cases r) (simp_all add: engine_call_def on_store_def on_worlds_def workflow_error_to_http_def
          map_unexpected_error_def emit_api_def Let_def raise_def)
  qed
  then show ?thesis by (simp add: evolves_def)
qed

lemma now_text_frame: "evolves (on_worlds G) (now_text D)"
  using frame_clock [of "ad_env D"] by (simp add: evolves_def on_worlds_def now_text_def utc_now_def)

lemma wrapper_frame:
  assumes "evolves (on_worlds G) m"
  shows "evolves (on_worlds G) (route_wrapper D q route_id m code)"
proof -
  have "on_worlds G s (snd (route_wrapper D q route_id m code s))" for s
  proof -
    obtain r s1 where m: "m s = (r, s1)" by (cases "m s")
    with assms have "on_worlds G s s1" by (auto dest: evolvesD)
    then show ?thesis using m
      by (cases r) (auto simp: route_wrapper_def on_worlds_def Let_def split: api_exn.splits)
  qed
  then show ?thesis by (simp add: evolves_def)
qed

lemma query_frame:
  assumes "\<And>i. handler i = handle_query D rt sp i query view" and "\<And>i. evolves G (query i)"
  shows "evolves (on_worlds G) (route_wrapper D q rt (with_status code (query_call handler wid)) code)"
  unfolding with_status_def query_call_def assms(1) handle_query_def
  by (intro wrapper_frame lifted emit_frame input_frame engine_call_frame assms(2))

lemma section_frame: "evolves G (active_section wid ty key render)"
  using frame_refl by (simp add: evolves_def active_section_state reflpD)

lemma queries_frame:
  "evolves G (get_workflow_status wid)" "evolves G (get_workflow_history wid)"
  "evolves G (get_workflow_output wid)" "evolves G (get_workflow_timeline R wid)"
  unfolding get_workflow_status_def get_workflow_history_def get_workflow_output_def get_workflow_timeline_def
    query_workflow_def assemble_status_def assemble_history_def assemble_output_def assemble_timeline_def
    to_domain_transition_def to_domain_workflow_state_def Let_def
  by (intro evolves_intro evolves_option frame_refl frame_trans section_frame)+

lemma read_frame:
  assumes "call \<noteq> CallInitiate" and "\<And>wid. call \<noteq> CallApproval wid"
  shows "evolves (on_worlds G) (create_router D mutating call q)"
proof (cases call)
  case CallHealth
  show ?thesis unfolding CallHealth create_router.simps with_status_def handle_health_def
    by (intro wrapper_frame lifted emit_frame now_text_frame)
next
  case CallReady
  show ?thesis unfolding CallReady create_router.simps handle_readiness_def Let_def
    by (intro wrapper_frame lifted emit_frame now_text_frame)
qed (use assms in \<open>simp_all add: queries_frame query_frame [OF handle_get_workflow_status_def]
      query_frame [OF handle_get_workflow_history_def] query_frame [OF handle_get_workflow_output_def]
      query_frame [OF handle_get_workflow_timeline_def]\<close>)

lemma initiate_frame:
  assumes "\<And>r. evolves G (initiate_workflow (ad_env D) (ad_repos D) (Some r))"
  shows "evolves (on_worlds G) (route_wrapper D q rt (with_status code (initiate_call D q)) code)"
  unfolding with_status_def initiate_call_def handle_initiate_workflow_def
  by (intro wrapper_frame lifted emit_frame input_frame engine_call_frame assms)

lemma approval_frame:
  assumes "\<And>wid a who. evolves G (apply_approval_action (ad_env D) (ad_repos D) wid a who)"
  shows "evolves (on_worlds G) (route_wrapper D q rt (with_status code (approval_call D wid q)) code)"
  unfolding with_status_def approval_call_def handle_submit_approval_def Let_def
  by (intro wrapper_frame lifted emit_frame input_frame engine_call_frame assms)

text \<open>The transaction around a route is the one around a computation on the store.\<close>

lemma mutating_frame:
  assumes tx: "\<And>body :: (world, unit) prog. evolves G body \<Longrightarrow> evolves G (with_transaction R body)"
    and h: "evolves (on_worlds G) h"
  shows "evolves (on_worlds G) (wrap_mutating R h)"
proof -
  have "on_worlds G s (snd (wrap_mutating R h s))" for s
  proof -
    define body :: "(world, unit) prog" where
      "body = (\<lambda>w. case h (s\<lparr>ast_world := w\<rparr>) of (r, s2) \<Rightarrow>
         (case r of Inl _ \<Rightarrow> Inl ValueError | Inr _ \<Rightarrow> Inr (), ast_world s2))"
    have "G w (snd (body w))" for w
    proof -
      obtain r s2 where hr: "h (s\<lparr>ast_world := w\<rparr>) = (r, s2)" by (cases "h (s\<lparr>ast_world := w\<rparr>)")
      with h have "on_worlds G (s\<lparr>ast_world := w\<rparr>) s2" by (auto dest: evolvesD)
      with hr show ?thesis by (simp add: body_def on_worlds_def)
    qed
    then have "G (ast_world s) (snd (with_transaction R body (ast_world s)))"
      using tx [of body] by (simp add: evolves_def)
    moreover have "snd (with_transaction R body (ast_world s)) = ast_world (snd (wrap_mutating R h s))"
      by (auto simp: with_transaction_def wrap_mutating_def body_def split: prod.splits sum.splits)
    ultimately show ?thesis by (simp add: on_worlds_def)
  qed
  then show ?thesis by (simp add: evolves_def)
qed

lemma router_frame:
  assumes "\<And>r. evolves G (initiate_workflow (ad_env D) (ad_repos D) (Some r))"
    and "\<And>wid a who. evolves G (apply_approval_action (ad_env D) (ad_repos D) wid a who)"
    and "\<And>body :: (world, unit) prog. evolves G body \<Longrightarrow> evolves G (with_transaction (ad_repos D) body)"
  shows "evolves (on_worlds G) (create_router D mutating call q)"
proof (cases call)
  case CallInitiate
  with assms show ?thesis by (simp add: Let_def initiate_frame mutating_frame)
next
  case (CallApproval wid)
  with assms show ?thesis by (simp add: Let_def approval_frame mutating_frame)
qed (intro read_frame; simp)+

end

interpretation histories: request_frame "engine_guar E C" for E C
  by unfold_locales (fact engine_guar_refl engine_guar_trans guar_utc_now)+

interpretation reading: request_frame clock_only
  by unfold_locales (fact clock_only_refl clock_only_trans utc_now_clock_only)+

lemma in_memory_router_frame:
  assumes "R \<in> in_memory_repos E" and "fresh_uuids E" and "ad_env D = E" and "ad_repos D = R"
  shows "evolves (on_worlds (engine_guar E C)) (create_router D mutating call q)"
  using assms wk.guar_initiate wk.guar_apply_approval wk.guar_with_transaction
    pf.guar_initiate pf.guar_apply_approval pf.guar_with_transaction
  by (intro histories.router_frame) auto

text \<open>
  C9. Whatever a client sends, on whatever route, with or without the transaction of the server, the
  stored histories stay paths of the state diagram and are only extended, whether the request is
  answered or raises; the four queries, the health and the readiness route write no table at all.
\<close>

theorem request_keeps_histories:
  assumes "ad_repos D \<in> in_memory_repos (ad_env D)" and "fresh_uuids (ad_env D)"
    and "engine_inv (ad_env D) C (ast_world s)" and "create_router D mutating call q s = (r, s')"
  shows "engine_inv (ad_env D) C (ast_world s') \<and> extends (ast_world s) (ast_world s')
    \<and> (call \<noteq> CallInitiate \<and> call \<notin> range CallApproval \<longrightarrow> clock_only (ast_world s) (ast_world s'))"
proof -
  have "on_worlds (engine_guar (ad_env D) C) s s'"
    using in_memory_router_frame [OF assms(1,2) refl refl] assms(4) by (rule evolvesD)
  moreover have "on_worlds clock_only s s'" if "call \<noteq> CallInitiate \<and> call \<notin> range CallApproval"
    using reading.read_frame [of call] that assms(4) by (blast dest: evolvesD)
  ultimately show ?thesis using assms(3) by (simp add: on_worlds_def engine_guar_def)
qed

section \<open>Validation\<close>

text \<open>The handlers validate a second time what the router has validated: the result stays the same.\<close>

lemma sanitize_fixed:
  assumes "sanitize_string v f n = Inr r"
  shows "sanitize_string (json_opt_str r) f n = Inr r"
  using assms by (cases v) (auto simp: sanitize_string_def Let_def split: if_splits)

lemma sanitize_some:
  assumes "sanitize_string v f n = Inr (Some t)"
  shows "t \<noteq> '''' \<and> strip t = t \<and> length t \<le> n \<and> list_all (\<lambda>c. 32 \<le> (of_char c :: nat) \<and> (of_char c :: nat) \<le> 126) t"
  using assms by (cases v) (auto simp: sanitize_string_def Let_def list_all_iff list_ex_iff not_less split: if_splits)

lemma workflow_id_fixed: "validate_workflow_id v = Inr wid \<Longrightarrow> validate_workflow_id (JStr wid) = Inr wid"
  using sanitize_fixed [of v "''workflow_id''" MAX_WORKFLOW_ID_LEN "Some wid"]
  by (auto simp: validate_workflow_id_def split: sum.splits option.splits if_splits)

lemma parse_action_value [simp]: "parse_action (approval_action_value a) = Some a"
  by (induction a) code_simp+

lemma approval_fixed:
  assumes "validate_approval_body act who key hdr = Inr v"
  shows "validate_approval_body (approval_action_value (aar_req_action v)) (json_opt_str (aar_req_actor v))
           (json_opt_str (aar_req_idempotency_key v)) hdr = Inr v"
proof -
  let ?clean = "\<lambda>x. sanitize_string x ''idempotency_key'' MAX_IDEMPOTENCY_KEY_LEN"
  from assms obtain a w b h where a: "parse_action act = Some a"
    and w: "sanitize_string who ''actor'' MAX_ACTOR_LEN = Inr w" and b: "?clean key = Inr b" and h: "?clean hdr = Inr h"
    and v: "v = \<lparr>aar_req_action = a, aar_req_actor = w, aar_req_idempotency_key = (if b \<noteq> None then b else h)\<rparr>"
    unfolding validate_approval_body_def validate_idempotency_header_def
    by (simp split: option.splits sum.splits)
  show ?thesis
    using sanitize_fixed [OF w] sanitize_fixed [OF b] sanitize_fixed [OF h] h
    by (cases b) (simp_all add: validate_approval_body_def validate_idempotency_header_def v)
qed

lemma initiate_fixed:
  assumes "validate_initiate_body wid cid who = Inr v"
  shows "validate_initiate_body (json_opt_str (iar_workflow_id v)) (json_opt_str (iar_correlation_id v))
           (json_opt_str (iar_actor v)) = Inr v"
proof -
  let ?wid = "\<lambda>x. if x \<noteq> JNull then map_sum id Some (validate_workflow_id x) else Inr None"
  from assms obtain i c w where i: "?wid wid = Inr i"
    and c: "sanitize_string cid ''correlation_id'' MAX_CORRELATION_ID_LEN = Inr c"
    and w: "sanitize_string who ''actor'' MAX_ACTOR_LEN = Inr w"
    and v: "v = \<lparr>iar_workflow_id = i, iar_correlation_id = c, iar_actor = w\<rparr>"
    unfolding validate_initiate_body_def by (simp split: sum.splits)
  have "?wid (json_opt_str i) = Inr i"
  proof (cases i)
    case (Some k)
    with i have "validate_workflow_id wid = Inr k" by (cases "validate_workflow_id wid") (auto split: if_splits)
    with Some show ?thesis by (simp add: workflow_id_fixed)
  qed simp
  then show ?thesis using sanitize_fixed [OF c] sanitize_fixed [OF w]
    unfolding validate_initiate_body_def v by (cases i) simp_all
qed

section \<open>Approval over HTTP\<close>

definition approval_input :: "api_deps \<Rightarrow> http_request \<Rightarrow> api_exn + approval_api_request" where
  "approval_input D q =
     (case json_body q of
        Inl e \<Rightarrow> Inl e
      | Inr body \<Rightarrow>
          validate_approval_body (json_str (ad_repr D) (json_get body ''action'' (JStr '''')))
            (json_get body ''actor'' JNull) (json_get body ''idempotency_key'' JNull)
            (header_lookup (hrq_headers q) HEADER_IDEMPOTENCY_KEY))"

lemma approval_call_valid:
  assumes "approval_input D q = Inr v" and "validate_workflow_id (JStr raw) = Inr wid"
  shows "approval_call D raw q =
     bindE (emit_api (SpanStarted ''api.submit_approval'' (Some wid))) (\<lambda>_.
     bindE (engine_call D ''approval'' (Some wid)
              (apply_approval_action (ad_env D) (ad_repos D) wid (aar_req_action v) (aar_req_actor v))) (\<lambda>result.
     bindE (emit_api (ApprovalSubmitted wid (approval_action_value (aar_req_action v)))) (\<lambda>_.
     bindE (emit_api (RequestSuccess ''approval'' 200)) (\<lambda>_.
     ret (map_approval_result result)))))"
proof -
  obtain body where body: "json_body q = Inr body"
    and v: "validate_approval_body (json_str (ad_repr D) (json_get body ''action'' (JStr '''')))
        (json_get body ''actor'' JNull) (json_get body ''idempotency_key'' JNull)
        (header_lookup (hrq_headers q) HEADER_IDEMPOTENCY_KEY) = Inr v"
    using assms(1) by (auto simp: approval_input_def split: sum.splits)
  show ?thesis
    unfolding approval_call_def handle_submit_approval_def
    by (simp add: body v assms(2) checked_input_def approval_fixed [OF v] workflow_id_fixed [OF assms(2)])
qed

definition error_reply :: "api_deps \<Rightarrow> http_request \<Rightarrow> exn \<Rightarrow> http_reply" where
  "error_reply D q e =
     \<lparr>hrp_status = workflow_error_http_status e, hrp_body = envelope_json (map_workflow_error (ad_str D) e),
      hrp_headers = ad_trace_headers D (hrq_headers q)\<rparr>"

context transaction_store
begin

lemma approval_route:
  assumes D: "ad_env D = E" "ad_repos D = R"
    and enter: "rp_tx_enter R (ast_world s) = (Inr (), w1)"
    and valid: "approval_input D q = Inr v" "validate_workflow_id (JStr raw) = Inr wid"
    and run: "apply_approval_action E R wid (aar_req_action v) (aar_req_actor v) w1 = (r, w2)"
    and known: "\<And>e. r = Inl e \<Longrightarrow> is_workflow_error e"
  shows "\<exists>s'. create_router D True (CallApproval raw) q s =
      (Inr (case r of
              Inl e \<Rightarrow> error_reply D q e
            | Inr res \<Rightarrow> \<lparr>hrp_status = 200, hrp_body = map_approval_result res,
                          hrp_headers = ad_trace_headers D (hrq_headers q)\<rparr>), s')
    \<and> same_tables w2 (ast_world s')"
proof (cases r)
  case (Inl e)
  with known have "is_workflow_error e" by simp
  with Inl run enter show ?thesis
    by (simp add: D approval_call_valid [OF valid] wrap_mutating_def route_wrapper_def with_status_def Let_def
        emit_api_def engine_call_def on_store_def workflow_error_to_http_def error_reply_def bindE_assoc py_simps tx_commit)
next
  case (Inr res)
  with run enter show ?thesis
    by (simp add: D approval_call_valid [OF valid] wrap_mutating_def route_wrapper_def with_status_def Let_def
        emit_api_def engine_call_def on_store_def bindE_assoc py_simps tx_commit)
qed

end

lemma in_memory_enter:
  assumes "R \<in> in_memory_repos E" and "\<not> in_txn w"
  shows "\<exists>w1. rp_tx_enter R w = (Inr (), w1) \<and> same_tables w w1 \<and> in_txn w1 \<and> ticks w1 = ticks w"
proof -
  have "\<exists>w1. rp_tx_enter R w = (Inr (), w1)"
    using assms pf.tx_idle by (auto simp: workflow_repos_def wk_tx_enter_def)
  moreover have "\<exists>r w1. rp_tx_enter R w = (r, w1) \<and> same_tables w w1 \<and> ticks w1 = ticks w \<and> (\<not> isl r \<longrightarrow> in_txn w1)"
    using assms(1) pf.tx_enter [of E w] wk.tx_enter [of E w] by blast
  ultimately show ?thesis by force
qed

text \<open>What the engine decides, with the reply's payload written out.\<close>

lemma in_memory_approval:
  assumes "R \<in> in_memory_repos E" and "ids_fresh E w" and "keys_ok wf_id (wf_rows w)"
  shows "case approval_refusal wid action w of
      Some e \<Rightarrow> apply_approval_action E R wid action actor w = (Inl e, w)
    | None \<Rightarrow> \<exists>x res t ob w'. get_workflow wid w = Some x \<and> wf_state x = AWAITING_HUMAN_APPROVAL
        \<and> apply_approval_action E R wid action actor w = (Inr res, w')
        \<and> step_effect E wid x (ad_to (lookup_approval action)) None None (''approval_'' @ approval_action_value action)
            actor (ad_outbox_task_type (lookup_approval action)) (ad_increment_logical_version (lookup_approval action))
            w ob t w'
        \<and> map_approval_result res = JObj [(''workflow_id'', JStr wid), (''action'', JStr (approval_action_value action)),
            (''from_state'', JStr ''AWAITING_HUMAN_APPROVAL''), (''to_state'', JStr (state_value (ad_to (lookup_approval action)))),
            (''state_version'', JInt (wf_version x + 1)), (''transition_id'', JStr (tr_id t))]"
proof (cases "approval_refusal wid action w")
  case (Some e)
  with assms(1) show ?thesis using wk.apply_approval_refused pf.apply_approval_refused by auto
next
  case None
  then obtain x where x: "get_workflow wid w = Some x" "wf_state x = AWAITING_HUMAN_APPROVAL"
    by (auto simp: approval_refusal_def split: if_splits option.splits)
  then have xid: "wf_id x = wid" using assms(3) by (auto simp: get_workflow_def dest: keys_ok_get)
  note accepted = wk.apply_approval_accepted [OF None assms(2) x(1) xid, of actor]
    pf.apply_approval_accepted [OF None assms(2) x(1) xid, of actor]
  obtain res t ob w' where run: "apply_approval_action E R wid action actor w = (Inr res, w')"
    and eff: "step_effect E wid x (ad_to (lookup_approval action)) None None (''approval_'' @ approval_action_value action)
            actor (ad_outbox_task_type (lookup_approval action)) (ad_increment_logical_version (lookup_approval action))
            w ob t w'"
    and res: "aar_from res = AWAITING_HUMAN_APPROVAL" "aar_to res = ad_to (lookup_approval action)"
      "aar_action res = action" "aar_version res = wf_version x + 1" "aar_workflow_id res = wid" "aar_transition_id res = tr_id t"
    using assms(1) accepted by (elim insertE emptyE) (hypsubst, blast)+
  have "map_approval_result res = JObj [(''workflow_id'', JStr wid), (''action'', JStr (approval_action_value action)),
      (''from_state'', JStr ''AWAITING_HUMAN_APPROVAL''), (''to_state'', JStr (state_value (ad_to (lookup_approval action)))),
      (''state_version'', JInt (wf_version x + 1)), (''transition_id'', JStr (tr_id t))]"
    by (simp add: map_approval_result_def res)
  with x run eff show ?thesis unfolding None option.case by blast
qed

lemma in_memory_approval_route:
  assumes "ad_repos D \<in> in_memory_repos (ad_env D)"
    and "rp_tx_enter (ad_repos D) (ast_world s) = (Inr (), w1)"
    and "approval_input D q = Inr v" and "validate_workflow_id (JStr raw) = Inr wid"
    and "apply_approval_action (ad_env D) (ad_repos D) wid (aar_req_action v) (aar_req_actor v) w1 = (r, w2)"
    and "\<And>e. r = Inl e \<Longrightarrow> is_workflow_error e"
  shows "\<exists>s'. create_router D True (CallApproval raw) q s =
      (Inr (case r of
              Inl e \<Rightarrow> error_reply D q e
            | Inr res \<Rightarrow> \<lparr>hrp_status = 200, hrp_body = map_approval_result res,
                          hrp_headers = ad_trace_headers D (hrq_headers q)\<rparr>), s')
    \<and> same_tables w2 (ast_world s')"
proof -
  consider "workflow_repos (ad_env D) = ad_repos D" | "persistence_repos (ad_env D) = ad_repos D" using assms(1) by auto
  then show ?thesis
  proof cases
    case 1
    show ?thesis using wk.approval_route [of D "ad_env D" s w1 q v raw wid r w2, unfolded 1] assms(2-6) by blast
  next
    case 2
    show ?thesis using pf.approval_route [of D "ad_env D" s w1 q v raw wid r w2, unfolded 2] assms(2-6) by blast
  qed
qed

text \<open>The answer to an approval, and the store it leaves.\<close>

definition approval_answer ::
  "api_deps \<Rightarrow> string \<Rightarrow> approval_action \<Rightarrow> string option \<Rightarrow> api_state \<Rightarrow> http_reply \<Rightarrow> api_state \<Rightarrow> bool"
where
  "approval_answer D wid action actor s reply s' \<longleftrightarrow>
    (let refused = (\<lambda>code cls. hrp_status reply = code \<and> same_tables (ast_world s) (ast_world s')
           \<and> (\<exists>msg. hrp_body reply = envelope_json \<lparr>env_error_class = cls, env_message = msg,
                        env_retryable = Some False, env_workflow_id = Some wid\<rparr>))
     in case get_workflow wid (ast_world s) of
          None \<Rightarrow> refused 404 ''WF_NOT_FOUND''
        | Some x \<Rightarrow>
            if wf_state x \<in> TERMINAL_STATES then refused 409 ''WF_TERMINAL''
            else if wf_state x \<noteq> AWAITING_HUMAN_APPROVAL then refused 409 ''WF_INVALID_APPROVAL''
            else \<exists>w1 w2 t ob. same_tables (ast_world s) w1
              \<and> step_effect (ad_env D) wid x (ad_to (lookup_approval action)) None None
                  (''approval_'' @ approval_action_value action) actor
                  (ad_outbox_task_type (lookup_approval action))
                  (ad_increment_logical_version (lookup_approval action)) w1 ob t w2
              \<and> same_tables w2 (ast_world s') \<and> hrp_status reply = 200
              \<and> hrp_body reply =
                  JObj [(''workflow_id'', JStr wid), (''action'', JStr (approval_action_value action)),
                    (''from_state'', JStr ''AWAITING_HUMAN_APPROVAL''),
                    (''to_state'', JStr (state_value (ad_to (lookup_approval action)))),
                    (''state_version'', JInt (wf_version x + 1)), (''transition_id'', JStr (tr_id t))])"

lemma approval_reply:
  assumes "ad_repos D \<in> in_memory_repos (ad_env D)" and "\<not> in_txn (ast_world s)"
    and "ids_fresh (ad_env D) (ast_world s)" and "keys_ok wf_id (wf_rows (ast_world s))"
    and valid: "approval_input D q = Inr v" "validate_workflow_id (JStr raw) = Inr wid"
  shows "\<exists>reply s'. create_router D True (CallApproval raw) q s = (Inr reply, s')
    \<and> approval_answer D wid (aar_req_action v) (aar_req_actor v) s reply s'" (is "\<exists>reply s'. _ \<and> ?answer reply s'")
proof -
  let ?E = "ad_env D" and ?w = "ast_world s"
  let ?act = "aar_req_action v"
  let ?apply = "apply_approval_action ?E (ad_repos D) wid ?act (aar_req_actor v)"
  obtain w1 where enter: "rp_tx_enter (ad_repos D) ?w = (Inr (), w1)" and w1: "same_tables ?w w1" "in_txn w1"
      "ticks w1 = ticks ?w"
    using in_memory_enter [OF assms(1,2)] by blast
  have get: "get_workflow i w1 = get_workflow i ?w" for i
    using w1(1) by (simp add: get_workflow_def same_tables_def)
  obtain r w2 where run: "?apply w1 = (r, w2)" by (cases "?apply w1")
  have fresh: "ids_fresh ?E w1" "keys_ok wf_id (wf_rows w1)"
    using assms(3,4) w1 by (simp_all add: ids_fresh_def same_tables_def)
  note decided = in_memory_approval [OF assms(1) fresh, of wid ?act "aar_req_actor v", unfolded run]
  have known: "is_workflow_error e" if "r = Inl e" for e
    using decided that w1(2) by (auto simp: approval_refusal_def split: option.splits if_splits)
  obtain s' where router: "create_router D True (CallApproval raw) q s =
      (Inr (case r of Inl e \<Rightarrow> error_reply D q e
            | Inr res \<Rightarrow> \<lparr>hrp_status = 200, hrp_body = map_approval_result res,
                          hrp_headers = ad_trace_headers D (hrq_headers q)\<rparr>), s')"
    and tables: "same_tables w2 (ast_world s')"
    using in_memory_approval_route [OF assms(1) enter valid run known] by blast
  show ?thesis
  proof (cases "approval_refusal wid ?act w1")
    case (Some e)
    with decided have r: "r = Inl e" "w2 = w1" by simp_all
    have same: "same_tables ?w (ast_world s')" using tables w1(1) r(2) by (simp add: same_tables_def)
    have "?answer (error_reply D q e) s'"
      using Some w1(2) same by (auto simp: approval_answer_def approval_refusal_def get error_reply_def map_workflow_error_def TERMINAL_STATES_eq
          split: option.splits if_splits)
    with router r show ?thesis by auto
  next
    case None
    with decided w1(2) obtain x res t ob where x: "get_workflow wid ?w = Some x" "wf_state x = AWAITING_HUMAN_APPROVAL"
      and r: "r = Inr res" and eff: "step_effect ?E wid x (ad_to (lookup_approval ?act)) None None
          (''approval_'' @ approval_action_value ?act) (aar_req_actor v) (ad_outbox_task_type (lookup_approval ?act))
          (ad_increment_logical_version (lookup_approval ?act)) w1 ob t w2"
      and res: "map_approval_result res = JObj [(''workflow_id'', JStr wid), (''action'', JStr (approval_action_value ?act)),
          (''from_state'', JStr ''AWAITING_HUMAN_APPROVAL''), (''to_state'', JStr (state_value (ad_to (lookup_approval ?act)))),
          (''state_version'', JInt (wf_version x + 1)), (''transition_id'', JStr (tr_id t))]"
      by (auto simp: get)
    have active: "AWAITING_HUMAN_APPROVAL \<notin> TERMINAL_STATES" by (simp add: TERMINAL_STATES_def)
    have ans: "?answer \<lparr>hrp_status = 200, hrp_body = map_approval_result res,
        hrp_headers = ad_trace_headers D (hrq_headers q)\<rparr> s'"
      by (simp only: approval_answer_def Let_def x active option.case if_False simp_thms http_reply.simps)
         (intro exI conjI, rule w1(1), rule eff, rule tables, rule res)
    show ?thesis by (rule exI, rule exI, rule conjI [OF _ ans]) (simp only: router r sum.case)
  qed
qed

text \<open>
  A well-formed approval request, sent to the server with its transaction, is always answered. If
  the workflow awaits approval the answer is 200 with the transition that was written, and the store
  has changed by exactly that decision: state of the approval matrix, next version, one history row
  with the sanitized actor, and the regeneration task where the matrix asks for one. An unknown
  workflow is answered 404, a finished one 409 \<open>WF_TERMINAL\<close>, any other 409 \<open>WF_INVALID_APPROVAL\<close>, and
  these leave every table as it was. That handlers validate twice makes no difference.
\<close>

theorem approval_over_http:
  assumes "ad_repos D \<in> in_memory_repos (ad_env D)" and "\<not> in_txn (ast_world s)"
    and "ids_fresh (ad_env D) (ast_world s)" and "keys_ok wf_id (wf_rows (ast_world s))"
    and valid: "approval_input D q = Inr v" "validate_workflow_id (JStr raw) = Inr wid"
  shows "\<exists>reply s'. create_router D True (CallApproval raw) q s = (Inr reply, s') \<and>
    (let action = aar_req_action v;
         refused = (\<lambda>code cls. hrp_status reply = code \<and> same_tables (ast_world s) (ast_world s')
           \<and> (\<exists>msg. hrp_body reply = envelope_json \<lparr>env_error_class = cls, env_message = msg,
                        env_retryable = Some False, env_workflow_id = Some wid\<rparr>))
     in case get_workflow wid (ast_world s) of
          None \<Rightarrow> refused 404 ''WF_NOT_FOUND''
        | Some x \<Rightarrow>
            if wf_state x \<in> TERMINAL_STATES then refused 409 ''WF_TERMINAL''
            else if wf_state x \<noteq> AWAITING_HUMAN_APPROVAL then refused 409 ''WF_INVALID_APPROVAL''
            else \<exists>w1 w2 t ob. same_tables (ast_world s) w1
              \<and> step_effect (ad_env D) wid x (ad_to (lookup_approval action)) None None
                  (''approval_'' @ approval_action_value action) (aar_req_actor v)
                  (ad_outbox_task_type (lookup_approval action))
                  (ad_increment_logical_version (lookup_approval action)) w1 ob t w2
              \<and> same_tables w2 (ast_world s') \<and> hrp_status reply = 200
              \<and> hrp_body reply =
                  JObj [(''workflow_id'', JStr wid), (''action'', JStr (approval_action_value action)),
                    (''from_state'', JStr ''AWAITING_HUMAN_APPROVAL''),
                    (''to_state'', JStr (state_value (ad_to (lookup_approval action)))),
                    (''state_version'', JInt (wf_version x + 1)), (''transition_id'', JStr (tr_id t))])"
  using approval_reply [OF assms] unfolding approval_answer_def Let_def .

section \<open>A server on the demonstration store\<close>

definition demo_api :: api_deps where
  "demo_api = \<lparr>ad_env = demo_env, ad_repos = persistence_repos demo_env, ad_str = (\<lambda>_. ''refused''), ad_repr = (\<lambda>_. ''{}''),
     ad_probes = [], ad_service_name = '''', ad_trace_id = (\<lambda>_. None), ad_trace_headers = (\<lambda>_. [])\<rparr>"

definition demo_post :: "json \<Rightarrow> http_request" where
  "demo_post body = \<lparr>hrq_headers = [(''Idempotency-Key'', ''k-1'')], hrq_json = Inr body\<rparr>"

definition demo_serving :: "workflow_state \<Rightarrow> api_state" where
  "demo_serving st = \<lparr>ast_world = (demo_in_state st)\<lparr>in_txn := False, txn_depth := 0\<rparr>, ast_events = []\<rparr>"

definition demo_idle :: api_state where
  "demo_idle = \<lparr>ast_world = empty_world, ast_events = []\<rparr>"

lemma demo_api_simps [simp]:
  "ad_env demo_api = demo_env" "ad_repos demo_api = persistence_repos demo_env"
  by (simp_all add: demo_api_def)

theorem request_keeps_histories_witness:
  "engine_inv demo_env demo_config (ast_world (snd (create_router demo_api True CallInitiate (demo_post (JObj [])) demo_idle)))"
  using request_keeps_histories [of demo_api demo_config demo_idle True CallInitiate "demo_post (JObj [])"
      "fst (create_router demo_api True CallInitiate (demo_post (JObj [])) demo_idle)"
      "snd (create_router demo_api True CallInitiate (demo_post (JObj [])) demo_idle)"]
    demo_fresh engine_inv_empty by (simp add: demo_idle_def del: create_router.simps)

theorem approval_over_http_witness:
  "\<exists>reply s'. create_router demo_api True (CallApproval '' wf-1 '') (demo_post (JObj [(''action'', JStr '' approve'')]))
       (demo_serving AWAITING_HUMAN_APPROVAL) = (Inr reply, s') \<and> hrp_status reply = 200"
proof -
  let ?q = "demo_post (JObj [(''action'', JStr '' approve'')])"
  have v: "approval_input demo_api ?q
      = Inr \<lparr>aar_req_action = APPROVE, aar_req_actor = None, aar_req_idempotency_key = Some ''k-1''\<rparr>"
    "validate_workflow_id (JStr '' wf-1 '') = Inr ''wf-1''" by code_simp+
  have w: "get_workflow ''wf-1'' (ast_world (demo_serving AWAITING_HUMAN_APPROVAL)) = Some (demo_row AWAITING_HUMAN_APPROVAL)"
    "\<not> in_txn (ast_world (demo_serving AWAITING_HUMAN_APPROVAL))"
    "ids_fresh demo_env (ast_world (demo_serving AWAITING_HUMAN_APPROVAL))"
    "keys_ok wf_id (wf_rows (ast_world (demo_serving AWAITING_HUMAN_APPROVAL)))"
    "AWAITING_HUMAN_APPROVAL \<notin> TERMINAL_STATES"
    by (simp_all add: demo_serving_def demo_in_state_def demo_open_def empty_world_def get_workflow_def ids_fresh_def
        keys_ok_def TERMINAL_STATES_def demo_row_def)
  show ?thesis
    using approval_over_http [of demo_api "demo_serving AWAITING_HUMAN_APPROVAL" ?q _ "'' wf-1 ''" "''wf-1''", OF _ _ _ _ v] w
    by (simp add: Let_def del: create_router.simps) blast
qed

section \<open>Malformed requests\<close>

text \<open>A value that \<open>strip\<close> accepts, and the bodies that lead to an exception the router does not handle.\<close>

definition textual :: "json \<Rightarrow> bool" where
  "textual v = (case v of JNull \<Rightarrow> True | JStr _ \<Rightarrow> True | _ \<Rightarrow> False)"

definition unhandled_body :: "http_request \<Rightarrow> bool" where
  "unhandled_body q =
     (case hrq_json q of
        Inl _ \<Rightarrow> True
      | Inr (JObj body) \<Rightarrow>
          \<not> list_all (\<lambda>k. textual (json_get body k JNull)) [''workflow_id'', ''correlation_id'', ''actor'', ''idempotency_key'']
      | Inr _ \<Rightarrow> False)"

definition input_error :: "bool \<Rightarrow> api_exn \<Rightarrow> bool" where
  "input_error bad x =
     (case x of ApiExn e \<Rightarrow> aer_type e = ApiValidationError | OtherApiExn _ \<Rightarrow> bad | ApiHttpException _ _ \<Rightarrow> False)"

fun answer_ok :: "bool \<Rightarrow> api_state \<Rightarrow> (api_exn + json \<times> int) \<times> api_state \<Rightarrow> bool" where
  "answer_ok bad s (Inr (_, code), s') \<longleftrightarrow> code \<in> {200, 201, 503}"
| "answer_ok bad s (Inl (ApiHttpException code _), s') \<longleftrightarrow> code \<in> {404, 409, 500}"
| "answer_ok bad s (Inl x, s') \<longleftrightarrow> input_error bad x \<and> ast_world s' = ast_world s"

definition well_answered :: "bool \<Rightarrow> (json \<times> int) route \<Rightarrow> bool" where
  "well_answered bad m \<longleftrightarrow> (\<forall>s. answer_ok bad s (m s))"

definition quiet_route :: "(json \<times> int) route \<Rightarrow> bool" where
  "quiet_route m \<longleftrightarrow> (\<forall>s. \<exists>v code s'. m s = (Inr (v, code), s') \<and> code \<in> {200, 201, 503})"

lemma quiet_ret: "code \<in> {200, 201, 503} \<Longrightarrow> quiet_route (ret (v, code))"
  by (simp add: quiet_route_def)

lemma quiet_emit: "quiet_route m \<Longrightarrow> quiet_route (bindE (emit_api e) (\<lambda>_. m))"
  by (simp add: quiet_route_def emit_api_def)

lemma quiet_now: "(\<And>t. quiet_route (f t)) \<Longrightarrow> quiet_route (bindE (now_text D) f)"
  by (simp add: quiet_route_def now_text_def utc_now_def bindE_def)

lemma quiet_answered: "quiet_route m \<Longrightarrow> well_answered bad m"
  unfolding quiet_route_def well_answered_def
proof
  fix s assume "\<forall>s. \<exists>v code s'. m s = (Inr (v, code), s') \<and> code \<in> {200, 201, 503}"
  then obtain v code s' where "m s = (Inr (v, code), s')" "code \<in> {200, 201, 503}" by blast
  then show "answer_ok bad s (m s)" by simp
qed

lemma answer_ok_world:
  assumes "answer_ok bad s1 out" and "ast_world s1 = ast_world s"
  shows "answer_ok bad s out"
  using assms by (induction bad s1 out rule: answer_ok.induct) simp_all

lemma answered_emit: "well_answered bad m \<Longrightarrow> well_answered bad (bindE (emit_api e) (\<lambda>_. m))"
  by (auto simp: well_answered_def emit_api_def intro: answer_ok_world)

lemma answered_input:
  assumes "\<And>x. r = Inl x \<Longrightarrow> input_error bad x" and "\<And>a. r = Inr a \<Longrightarrow> well_answered bad (f a)"
  shows "well_answered bad (bindE (checked_input r) f)"
proof (cases r)
  case (Inl x)
  then show ?thesis using assms(1) [OF Inl]
    by (cases x) (simp_all add: checked_input_def well_answered_def raise_def input_error_def)
qed (use assms in \<open>simp add: checked_input_def\<close>)

lemma answered_engine:
  assumes "\<And>a. quiet_route (f a)"
  shows "well_answered bad (bindE (engine_call D rt wid m) f)"
proof -
  have status: "workflow_error_http_status e \<in> {404, 409, 500}" for e by (cases e) simp_all
  have "answer_ok bad s (bindE (engine_call D rt wid m) f s)" for s
  proof -
    obtain r w where m: "m (ast_world s) = (r, w)" by (cases "m (ast_world s)")
    show ?thesis
    proof (cases r)
      case (Inl e)
      then show ?thesis using m status [of e]
        by (simp add: bindE_def engine_call_def on_store_def workflow_error_to_http_def map_unexpected_error_def
            emit_api_def Let_def raise_def modifyE_def)
    next
      case (Inr a)
      then have "bindE (engine_call D rt wid m) f s = f a (s\<lparr>ast_world := w\<rparr>)"
        using m by (simp add: bindE_def engine_call_def on_store_def)
      then show ?thesis using assms [of a] unfolding quiet_route_def by (metis answer_ok.simps(1))
    qed
  qed
  then show ?thesis by (simp add: well_answered_def)
qed

lemma sanitize_error: "sanitize_string v f n = Inl x \<Longrightarrow> input_error (\<not> textual v) x"
  by (cases v) (auto simp: sanitize_string_def validation_error_def input_error_def textual_def Let_def split: if_splits)

lemma workflow_id_error: "validate_workflow_id v = Inl x \<Longrightarrow> v \<noteq> JNull \<Longrightarrow> input_error (\<not> textual v) x"
  using sanitize_error [of v "''workflow_id''" MAX_WORKFLOW_ID_LEN x]
  by (cases v) (auto simp: validate_workflow_id_def sanitize_string_def validation_error_def input_error_def textual_def
      Let_def split: sum.splits option.splits if_splits)

lemma input_error_mono: "input_error b x \<Longrightarrow> (b \<Longrightarrow> b') \<Longrightarrow> input_error b' x"
  by (auto simp: input_error_def split: api_exn.splits)

lemma header_textual [simp]: "textual (header_lookup hs k)"
  by (simp add: header_lookup_def textual_def split: option.splits prod.splits)

lemma idempotency_error: "validate_idempotency_header v = Inl x \<Longrightarrow> textual v \<Longrightarrow> input_error bad x"
  unfolding validate_idempotency_header_def by (blast dest: sanitize_error intro: input_error_mono)

lemma initiate_error:
  assumes "validate_initiate_body wid cid who = Inl x"
  shows "input_error (\<not> (textual wid \<and> textual cid \<and> textual who)) x"
proof -
  from assms consider "validate_workflow_id wid = Inl x" "wid \<noteq> JNull"
    | "sanitize_string cid ''correlation_id'' MAX_CORRELATION_ID_LEN = Inl x"
    | "sanitize_string who ''actor'' MAX_ACTOR_LEN = Inl x"
    unfolding validate_initiate_body_def
    by (cases "validate_workflow_id wid") (auto split: sum.splits if_splits)
  then show ?thesis by cases (auto dest!: workflow_id_error sanitize_error intro: input_error_mono)
qed

lemma approval_error:
  assumes "validate_approval_body act who key hdr = Inl x" and "textual hdr"
  shows "input_error (\<not> (textual who \<and> textual key)) x"
proof -
  from assms(1) consider "x = validation_error ''action must be a valid ApprovalAction''"
    | "sanitize_string who ''actor'' MAX_ACTOR_LEN = Inl x"
    | "sanitize_string key ''idempotency_key'' MAX_IDEMPOTENCY_KEY_LEN = Inl x"
    | "validate_idempotency_header hdr = Inl x"
    unfolding validate_approval_body_def by (auto split: sum.splits option.splits)
  then show ?thesis
  proof cases
    case 4
    then show ?thesis using idempotency_error assms(2) by blast
  qed (auto simp: validation_error_def input_error_def dest!: sanitize_error split: api_exn.splits)
qed

lemma body_error: "json_body q = Inl x \<Longrightarrow> input_error (unhandled_body q) x"
  by (auto simp: json_body_def unhandled_body_def validation_error_def input_error_def split: sum.splits json.splits)

lemma body_fields:
  assumes "json_body q = Inr body" and "k \<in> {''workflow_id'', ''correlation_id'', ''actor'', ''idempotency_key''}"
    and "\<not> textual (json_get body k JNull)"
  shows "unhandled_body q"
  using assms by (auto simp: json_body_def unhandled_body_def split: sum.splits json.splits)

lemma path_error:
  assumes "validate_workflow_id (JStr raw) = Inl x"
  shows "input_error bad x"
proof -
  from workflow_id_error [OF assms] have "input_error (\<not> textual (JStr raw)) x" by simp
  then show ?thesis by (rule input_error_mono) (simp add: textual_def)
qed

lemmas answered = answered_input answered_emit answered_engine quiet_emit quiet_ret

lemma initiate_answered: "well_answered (unhandled_body q) (with_status 201 (initiate_call D q))"
proof -
  have again: "input_error (unhandled_body q) x"
    if "validate_initiate_body w c a = Inr v" and "validate_initiate_body (json_opt_str (iar_workflow_id v))
        (json_opt_str (iar_correlation_id v)) (json_opt_str (iar_actor v)) = Inl x" for w c a v x
    using initiate_fixed [OF that(1)] that(2) by simp
  have first: "input_error (unhandled_body q) x"
    if "json_body q = Inr body" and "validate_initiate_body (json_get body ''workflow_id'' JNull)
        (json_get body ''correlation_id'' JNull) (json_get body ''actor'' JNull) = Inl x" for body x
    using initiate_error [OF that(2)] by (rule input_error_mono) (use body_fields [OF that(1)] in blast)
  show ?thesis
    unfolding with_status_def initiate_call_def handle_initiate_workflow_def bindE_assoc
    by (intro answered) (simp_all add: body_error first again idempotency_error quiet_ret)
qed

lemma approval_answered: "well_answered (unhandled_body q) (with_status 200 (approval_call D raw q))"
proof -
  let ?hdr = "header_lookup (hrq_headers q) HEADER_IDEMPOTENCY_KEY"
  have again: "input_error (unhandled_body q) x"
    if "validate_approval_body act a k ?hdr = Inr v" and "validate_approval_body (approval_action_value (aar_req_action v))
        (json_opt_str (aar_req_actor v)) (json_opt_str (aar_req_idempotency_key v)) ?hdr = Inl x" for act a k v x
    using approval_fixed [OF that(1)] that(2) by simp
  have first: "input_error (unhandled_body q) x"
    if "json_body q = Inr body" and "validate_approval_body act (json_get body ''actor'' JNull)
        (json_get body ''idempotency_key'' JNull) ?hdr = Inl x" for body act x
    using approval_error [OF that(2) header_textual] by (rule input_error_mono) (use body_fields [OF that(1)] in blast)
  show ?thesis
    unfolding with_status_def approval_call_def handle_submit_approval_def bindE_assoc Let_def
    by (intro answered) (simp_all add: body_error first again path_error quiet_ret)
qed

lemma query_answered:
  assumes "\<And>i. handler i = handle_query D rt sp i query view"
  shows "well_answered bad (with_status 200 (query_call handler raw))"
  unfolding with_status_def query_call_def assms handle_query_def bindE_assoc
  by (intro answered) (simp_all add: path_error quiet_ret)

lemma health_answered: "well_answered bad (with_status 200 (handle_health D))"
  unfolding with_status_def handle_health_def bindE_assoc
  by (intro quiet_answered quiet_emit quiet_now) (simp add: quiet_ret)

lemma readiness_answered: "well_answered bad (handle_readiness D)"
  unfolding handle_readiness_def Let_def
  by (intro quiet_answered quiet_emit quiet_now) (simp add: quiet_ret)

text \<open>What a client and the metrics see of a route.\<close>

definition route_outcome :: "bool \<Rightarrow> string \<Rightarrow> world \<Rightarrow> (api_exn + http_reply) \<times> api_state \<Rightarrow> bool" where
  "route_outcome bad route_id w out =
     (case out of
        (Inr reply, s') \<Rightarrow>
          hrp_status reply \<in> {200, 201, 400, 404, 409, 500, 503}
          \<and> (hrp_status reply = 400 \<longrightarrow> same_tables w (ast_world s'))
          \<and> last (ast_events s') = RequestMetric route_id (status_class (hrp_status reply))
      | (Inl x, s') \<Rightarrow>
          bad \<and> (\<exists>e. x = OtherApiExn e) \<and> same_tables w (ast_world s')
          \<and> last (ast_events s') = RequestMetric route_id ''2xx'')"

lemma wrapper_outcome:
  assumes "well_answered bad m" and "code \<in> {200, 201}"
  shows "route_outcome bad route_id (ast_world s) (route_wrapper D q route_id m code s)"
proof -
  obtain r s1 where m: "m s = (r, s1)" by (cases "m s")
  with assms(1) have ok: "answer_ok bad s (r, s1)" by (metis well_answered_def)
  have "status_class code = ''2xx''" using assms(2) by (auto simp: status_class_def)
  with m ok show ?thesis
    by (cases "(bad, s, (r, s1))" rule: answer_ok.cases)
       (auto simp: route_wrapper_def route_outcome_def input_error_def Let_def)
qed

context transaction_store
begin

lemma mutating_outcome:
  assumes "\<And>s. route_outcome bad route_id (ast_world s) (h s)" and "rp_tx_enter R (ast_world s) = (Inr (), w1)"
  shows "route_outcome bad route_id (ast_world s) (wrap_mutating R h s)"
proof -
  obtain r s2 where h: "h (s\<lparr>ast_world := w1\<rparr>) = (r, s2)" by (cases "h (s\<lparr>ast_world := w1\<rparr>)")
  have "same_tables (ast_world s) w1" using tx_enter [of "ast_world s"] assms(2) by auto
  moreover note tx_exit [of "ast_world s" "isl r" "ast_world s2"]
  moreover have "route_outcome bad route_id w1 (r, s2)" using assms(1) [of "s\<lparr>ast_world := w1\<rparr>"] h by simp
  ultimately show ?thesis using assms(2) h
    by (cases r) (auto simp: wrap_mutating_def route_outcome_def same_tables_def)
qed

end

fun route_name :: "api_call \<Rightarrow> string" where
  "route_name CallInitiate = ''initiate''" | "route_name (CallStatus _) = ''status''" | "route_name (CallHistory _) = ''history''"
| "route_name (CallOutput _) = ''output''" | "route_name (CallApproval _) = ''approval''"
| "route_name (CallTimeline _) = ''timeline''" | "route_name CallHealth = ''health''" | "route_name CallReady = ''ready''"

lemma in_memory_mutating_outcome:
  assumes "R \<in> in_memory_repos E" and "\<not> in_txn (ast_world s)"
    and "\<And>s. route_outcome bad route_id (ast_world s) (h s)"
  shows "route_outcome bad route_id (ast_world s) (wrap_mutating R h s)"
  using in_memory_enter [OF assms(1,2)] assms(1) pf.mutating_outcome [OF assms(3)] wk.mutating_outcome [OF assms(3)] by blast

text \<open>
  C29. Every request is answered with one of the statuses 200, 201, 400, 404, 409, 500 and 503, its metric
  is recorded under the class of that status, and a request answered 400 has changed no table. The one
  exception: a body that is not JSON, or in which a field of the request is neither a text nor null,
  makes a mutating route raise instead of answering 400, with the metric of a success; no table is
  changed.
\<close>

theorem requests_answered:
  assumes "ad_repos D \<in> in_memory_repos (ad_env D)" and "\<not> in_txn (ast_world s)"
    and "create_router D mutating call q s = (r, s')"
  shows "case r of
      Inr reply \<Rightarrow>
        hrp_status reply \<in> {200, 201, 400, 404, 409, 500, 503}
        \<and> (hrp_status reply = 400 \<longrightarrow> same_tables (ast_world s) (ast_world s'))
        \<and> last (ast_events s') = RequestMetric (route_name call) (status_class (hrp_status reply))
    | Inl x \<Rightarrow>
        (call = CallInitiate \<or> call \<in> range CallApproval) \<and> unhandled_body q \<and> (\<exists>e. x = OtherApiExn e)
        \<and> same_tables (ast_world s) (ast_world s') \<and> last (ast_events s') = RequestMetric (route_name call) ''2xx''"
proof -
  let ?bad = "(call = CallInitiate \<or> call \<in> range CallApproval) \<and> unhandled_body q"
  note mutating_outcome = in_memory_mutating_outcome [OF assms(1,2)]
  have "route_outcome ?bad (route_name call) (ast_world s) (create_router D mutating call q s)"
  proof (cases call)
    case CallInitiate
    then show ?thesis by (simp add: Let_def mutating_outcome wrapper_outcome initiate_answered)
  next
    case (CallApproval wid)
    then show ?thesis by (simp add: Let_def mutating_outcome wrapper_outcome approval_answered)
  next
    case CallReady
    then show ?thesis by (auto simp: readiness_answered intro!: wrapper_outcome)
  next
    case CallHealth
    then show ?thesis by (auto simp: health_answered intro!: wrapper_outcome)
  next
    case (CallStatus wid)
    then show ?thesis by (auto simp: query_answered [OF handle_get_workflow_status_def] intro!: wrapper_outcome)
  next
    case (CallHistory wid)
    then show ?thesis by (auto simp: query_answered [OF handle_get_workflow_history_def] intro!: wrapper_outcome)
  next
    case (CallOutput wid)
    then show ?thesis by (auto simp: query_answered [OF handle_get_workflow_output_def] intro!: wrapper_outcome)
  next
    case (CallTimeline wid)
    then show ?thesis by (auto simp: query_answered [OF handle_get_workflow_timeline_def] intro!: wrapper_outcome)
  qed
  then show ?thesis unfolding assms(3) route_outcome_def by (cases r) simp_all
qed

theorem requests_answered_witness:
  "\<exists>s'. create_router demo_api True CallInitiate (demo_post (JObj [(''actor'', JInt 7)])) demo_idle
      = (Inl (OtherApiExn (OtherError ''AttributeError'')), s')
    \<and> same_tables empty_world (ast_world s') \<and> last (ast_events s') = RequestMetric ''initiate'' ''2xx''"
proof -
  let ?q = "demo_post (JObj [(''actor'', JInt 7)])"
  have "fst (create_router demo_api True CallInitiate ?q demo_idle) = Inl (OtherApiExn (OtherError ''AttributeError''))"
    by code_simp
  then obtain s' where run: "create_router demo_api True CallInitiate ?q demo_idle
      = (Inl (OtherApiExn (OtherError ''AttributeError'')), s')" by (metis prod.collapse)
  with requests_answered [OF _ _ run] show ?thesis by (simp add: demo_idle_def empty_world_def del: create_router.simps)
qed

section \<open>Errors inside the transaction\<close>

text \<open>
  The wrapper of a mutating route turns an error of the engine into a reply before the transaction
  sees it, so the transaction commits what was written up to the error. Here an identifier is
  drawn twice: the second request is answered 500, yet its workflow stays stored in \<open>COLLECTING\<close>
  without a task, while the engine's own transaction would have been rolled back.
\<close>

definition repeating_api :: api_deps where
  "repeating_api =
     (let E = \<lparr>env_now = int, env_uuid = (\<lambda>_. ''u'')\<rparr>
      in demo_api\<lparr>ad_env := E, ad_repos := persistence_repos E\<rparr>)"

definition post_initiate :: "string \<Rightarrow> http_reply route" where
  "post_initiate i = create_router repeating_api True CallInitiate (demo_post (JObj [(''workflow_id'', JStr i)]))"

lemma failed_initiation_committed:
  "let s1 = snd (post_initiate ''a'' demo_idle); (r, s2) = post_initiate ''b'' s1 in
     map_sum id hrp_status r = Inr 500
     \<and> map_option wf_state (get_workflow ''b'' (ast_world s2)) = Some COLLECTING
     \<and> task_rows (ast_world s2) = task_rows (ast_world s1)
     \<and> wf_rows (snd (with_transaction (ad_repos repeating_api)
          (initiate_workflow (ad_env repeating_api) (ad_repos repeating_api) (Some demo_initiate)) (ast_world s1)))
         = wf_rows (ast_world s1)"
  by code_simp

end
