(* ===== verification/Cli_Properties.thy ===== *)
theory Cli_Properties
  imports Cli Api_Properties
begin

text \<open>
  The command line against the server: what the client parses is what the server serialized, every invocation ends with one
  of four exit codes and one report, and an approval typed at the command line is the engine's decision.
\<close>

section \<open>Instants\<close>

lemma iso_stamp:
  assumes "printable_instant t"
  shows "stamp t = take 19 (isoformat t) @ ''.'' @ pad_left 6 (show_int (t mod 86400000000 mod 1000000))"
    and "length (take 19 (isoformat t)) = 19"
    and "isoformat t = take 19 (isoformat t)
      @ (if t mod 86400000000 mod 1000000 = 0 then '''' else ''.'' @ pad_left 6 (show_int (t mod 86400000000 mod 1000000))) @ ''+00:00''"
proof -
  obtain y m d where civ: "civil_from_days (t div 86400000000) = (y, m, d)" by (metis prod_cases3)
  note date = days_from_civil_from_days [OF civ]
  have y: "1000 \<le> y" "y \<le> 9999" using assms civ by (auto simp: printable_instant_def)
  define us where "us = t mod 86400000000"
  have us: "0 \<le> us" "us < 86400000000" by (simp_all add: us_def)
  have hms: "0 \<le> us div 1000000 div 3600" "us div 1000000 div 3600 < 10 ^ 2" "0 \<le> us div 1000000 div 60 mod 60"
    "us div 1000000 div 60 mod 60 < 10 ^ 2" "0 \<le> us div 1000000 mod 60" "us div 1000000 mod 60 < 10 ^ 2"
    using us by (auto simp: zdiv_mono1 [of us 86399999999 1000000])
  have yl: "length (show_int y) = 4"
    using y length_show_nat [of "nat y" 4] length_show_nat_ge [of 3 "nat y"] by (simp_all add: show_int_def nat_less_iff le_nat_iff)
  have y4: "pad_left 4 (show_int y) = show_int y" by (simp add: yl)
  define two where "two = (\<lambda>i. pad_left 2 (show_int i))"
  have len: "length (two i) = 2" if "0 \<le> i" "i < 10 ^ 2" for i using padded_field [OF that] by (simp add: two_def)
  define p where "p = show_int y @ ''-'' @ two m @ ''-'' @ two d @ ''T'' @ two (us div 1000000 div 3600) @ '':''
    @ two (us div 1000000 div 60 mod 60) @ '':'' @ two (us div 1000000 mod 60)"
  have fields: "length (two m) = 2" "length (two d) = 2" "length (two (us div 1000000 div 3600)) = 2"
    "length (two (us div 1000000 div 60 mod 60)) = 2" "length (two (us div 1000000 mod 60)) = 2"
    using date(2-5) by (simp_all only: len [OF hms(1,2)] len [OF hms(3,4)] len [OF hms(5,6)]) (simp_all add: len)
  have "length p = 19" unfolding p_def by (simp only: length_append yl fields list.size)
  moreover have "stamp t = p @ ''.'' @ pad_left 6 (show_int (us mod 1000000))"
    by (simp add: stamp_def Let_def civ us_def p_def two_def del: pad_left.simps)
  moreover have "isoformat t = p @ (if us mod 1000000 = 0 then '''' else ''.'' @ pad_left 6 (show_int (us mod 1000000))) @ ''+00:00''"
    by (simp add: isoformat_def Let_def civ us_def p_def two_def y4 del: pad_left.simps)
  ultimately show "stamp t = take 19 (isoformat t) @ ''.'' @ pad_left 6 (show_int (t mod 86400000000 mod 1000000))"
    "length (take 19 (isoformat t)) = 19"
    "isoformat t = take 19 (isoformat t)
      @ (if t mod 86400000000 mod 1000000 = 0 then '''' else ''.'' @ pad_left 6 (show_int (t mod 86400000000 mod 1000000))) @ ''+00:00''"
    by (simp_all add: us_def del: pad_left.simps)
qed

lemma drop_prefix: "s = p @ q \<Longrightarrow> length p = k \<Longrightarrow> drop k s = q"
  by simp

lemma read_iso_isoformat:
  assumes "printable_instant t"
  shows "read_iso (isoformat t) = t"
proof -
  note iso = iso_stamp [OF assms]
  let ?f = "t mod 86400000000 mod 1000000" and ?p = "take 19 (isoformat t)"
  show ?thesis
  proof (cases "?f = 0")
    case True
    then have "isoformat t = ?p @ ''+00:00''" using iso(3) by simp
    then have "drop 19 (isoformat t) = ''+00:00''" by (rule drop_prefix [OF _ iso(2)])
    moreover have "pad_left 6 (show_int 0) = ''000000''" by code_simp
    then have "?p @ ''.000000'' = stamp t" using iso(1) True by simp
    ultimately show ?thesis using read_stamp_stamp [OF assms, of "[]"] by (simp add: read_iso_def)
  next
    case False
    then have eq: "isoformat t = stamp t @ ''+00:00''" using iso(1,3) by simp
    have "drop 19 (isoformat t) = ''.'' @ pad_left 6 (show_int ?f) @ ''+00:00''"
      by (rule drop_prefix [OF _ iso(2)]) (use iso(3) False in \<open>simp only: if_False append_assoc\<close>)
    then show ?thesis using read_stamp_stamp [OF assms, of "''+00:00''"] by (simp add: read_iso_def eq)
  qed
qed

lemma replace_z_id: "CHR ''Z'' \<notin> set s \<Longrightarrow> replace_z s = s"
  by (induction s) auto

lemma digits_no_z: "CHR ''Z'' \<notin> set (pad_left k (show_int i))" if "0 \<le> i"
  using that show_nat_digits [of "CHR ''Z''" "nat i"] by (auto simp: show_int_def)

lemma isoformat_no_z:
  assumes "printable_instant t"
  shows "CHR ''Z'' \<notin> set (isoformat t)"
proof -
  obtain y m d where civ: "civil_from_days (t div 86400000000) = (y, m, d)" by (metis prod_cases3)
  note date = days_from_civil_from_days [OF civ]
  have "1000 \<le> y" using assms civ by (auto simp: printable_instant_def)
  define us where "us = t mod 86400000000"
  have "0 \<le> us" by (simp add: us_def)
  then show ?thesis using date(2,4) \<open>1000 \<le> y\<close>
    by (simp add: isoformat_def Let_def civ us_def [symmetric] digits_no_z del: pad_left.simps)
qed

lemma parse_datetime_isoformat [simp]: "printable_instant t \<Longrightarrow> parse_datetime H (isoformat t) = Inr t"
  by (simp add: parse_datetime_def replace_z_id isoformat_no_z read_iso_isoformat)

section \<open>Responses\<close>

lemma parse_state_value [simp]: "parse_state H (JStr (state_value st)) = Inr st"
  by (simp add: parse_state_def)

lemma parse_reply_action_value [simp]: "parse_reply_action H (JStr (approval_action_value a)) = Inr a"
  by (cases a) (simp_all add: parse_reply_action_def)

lemmas reading = text_at_def datetime_at_def state_at_def body_item_def item_get_def items_of_def json_get_def int_value_def

definition transition_of :: "transition_record \<Rightarrow> transition_response" where
  "transition_of t =
     \<lparr>trs_transition_id = tr_id t, trs_from_state = tr_from t, trs_to_state = tr_to t, trs_reason = tr_reason t,
      trs_occurred_at = tr_occurred_at t, trs_actor = json_opt_str (tr_actor t)\<rparr>"

definition event_of :: "timeline_event \<Rightarrow> timeline_event_response" where
  "event_of e =
     \<lparr>evr_occurred_at = te_occurred_at e, evr_event_type = te_event_type e, evr_summary = te_summary e,
      evr_state = te_state e, evr_task_type = json_opt_str (map_option task_type_value (te_task_type e)),
      evr_attributes = JObj (map (\<lambda>(k, v). (k, JStr v)) (te_attributes e))\<rparr>"

lemma transition_item [simp]:
  "printable_instant (tr_occurred_at t) \<Longrightarrow> parse_transition_item H (map_transition_record t) = Inr (transition_of t)"
  by (simp add: parse_transition_item_def map_transition_record_def transition_of_def reading)

lemma state_value_nonempty [simp]: "state_value st \<noteq> []"
  by (cases st) simp_all

lemma timeline_item [simp]:
  "printable_instant (te_occurred_at e) \<Longrightarrow> parse_timeline_item H (map_timeline_event e) = Inr (event_of e)"
  by (cases "te_state e") (simp_all add: parse_timeline_item_def map_timeline_event_def event_of_def reading)

lemma traverse_map: "(\<And>x. x \<in> set xs \<Longrightarrow> f (g x) = Inr (h x)) \<Longrightarrow> traverse f (map g xs) = Inr (map h xs)"
  by (induction xs) auto

text \<open>
  C19. What the command line client reads is what the server wrote: for every view of a workflow with printable instants,
  parsing the JSON object of the reply gives back the identifier, states, versions, instants and texts of the view, for the
  reply of an initiation, the status, the history, the output, the timeline (in the order of the instants) and an approval.
\<close>

theorem client_reads_server:
  assumes "printable_instant (tr_occurred_at (iws_transition r))" and "printable_instant (wst_created_at st)"
    and "printable_instant (wst_updated_at st)" and "\<And>t. t \<in> set (wh_transitions h) \<Longrightarrow> printable_instant (tr_occurred_at t)"
    and "\<And>e. e \<in> set (wt_events tml) \<Longrightarrow> printable_instant (te_occurred_at e)"
  shows "parse_initiate_response H (map_initiate_result r trace) =
      Inr \<lparr>ini_workflow_id = iws_workflow_id r, ini_state = iws_state r, ini_state_version = iws_version r,
           ini_created_at = tr_occurred_at (iws_transition r), ini_trace_id = json_opt_str trace\<rparr>
    \<and> parse_status_response H (map_workflow_status st) =
      Inr \<lparr>sta_workflow_id = wst_workflow_id st, sta_state = wst_state st, sta_state_version = wst_version st,
           sta_created_at = wst_created_at st, sta_updated_at = wst_updated_at st,
           sta_revision_count = wst_revision_count st, sta_failure_reason = json_opt_str (wst_failure_reason st)\<rparr>
    \<and> parse_history_response H (map_workflow_history h) =
      Inr \<lparr>his_workflow_id = wh_workflow_id h, his_transitions = map transition_of (wh_transitions h)\<rparr>
    \<and> parse_output_response H (map_workflow_output out) =
      Inr \<lparr>out_workflow_id = wo_workflow_id out, out_state = wo_state out, out_package = wo_package out,
           out_is_complete = wo_is_complete out, out_failure_reason = json_opt_str (wo_failure_reason out)\<rparr>
    \<and> parse_timeline_response H (map_workflow_timeline tml) =
      Inr \<lparr>tlr_workflow_id = wt_workflow_id tml, tlr_events = map event_of (sort_key te_occurred_at (wt_events tml))\<rparr>
    \<and> parse_approval_response H (map_approval_result a) =
      Inr \<lparr>apr_workflow_id = aar_workflow_id a, apr_action = aar_action a, apr_from_state = aar_from a,
           apr_to_state = aar_to a, apr_state_version = aar_version a, apr_transition_id = aar_transition_id a\<rparr>"
proof (intro conjI)
  have "traverse (parse_transition_item H) (map map_transition_record (wh_transitions h)) = Inr (map transition_of (wh_transitions h))"
    by (rule traverse_map) (simp add: assms(4))
  then show "parse_history_response H (map_workflow_history h) =
      Inr \<lparr>his_workflow_id = wh_workflow_id h, his_transitions = map transition_of (wh_transitions h)\<rparr>"
    by (simp add: parse_history_response_def map_workflow_history_def reading)
  have "traverse (parse_timeline_item H) (map map_timeline_event (sort_key te_occurred_at (wt_events tml)))
      = Inr (map event_of (sort_key te_occurred_at (wt_events tml)))"
    by (rule traverse_map) (simp add: assms(5))
  then show "parse_timeline_response H (map_workflow_timeline tml) =
      Inr \<lparr>tlr_workflow_id = wt_workflow_id tml, tlr_events = map event_of (sort_key te_occurred_at (wt_events tml))\<rparr>"
    by (simp add: parse_timeline_response_def map_workflow_timeline_def reading)
qed (use assms(1-3) in \<open>simp_all add: parse_initiate_response_def map_initiate_result_def parse_status_response_def
  map_workflow_status_def parse_output_response_def map_workflow_output_def parse_approval_response_def
  map_approval_result_def reading\<close>)

section \<open>Outcome of an invocation\<close>

text \<open>What a request to the server may do: it prints nothing, and a \<open>CliError\<close> it raises is one of the API or of the connection.\<close>

definition remote_error :: "cli_exn \<Rightarrow> bool" where
  "remote_error x \<longleftrightarrow> (\<forall>e. x = CliErr e \<longrightarrow> cle_type e \<in> {CliApiError, CliConnectionError})"

definition requests :: "('s, 'a) command \<Rightarrow> bool" where
  "requests m \<longleftrightarrow> (\<forall>s r s'. m s = (r, s') \<longrightarrow> cst_out s' = cst_out s \<and> cst_err s' = cst_err s \<and> cst_events s' = cst_events s
     \<and> (\<forall>x. r = Inl x \<longrightarrow> remote_error x))"

definition foreign :: "cli_exn + 'a \<Rightarrow> bool" where
  "foreign r \<longleftrightarrow> (\<forall>x. r = Inl x \<longrightarrow> remote_error x)"

named_theorems remote

lemma remote_error_simps [simp]:
  "remote_error (CliOther c m)" "remote_error (CliErr e) \<longleftrightarrow> cle_type e \<in> {CliApiError, CliConnectionError}"
  by (auto simp: remote_error_def)

lemma foreign_basic [remote]: "foreign (Inr a)" "foreign (Inl (CliOther c m))"
  by (simp_all add: foreign_def)

lemma foreign_and_then [remote]: "foreign r \<Longrightarrow> (\<And>a. foreign (f a)) \<Longrightarrow> foreign (and_then r f)"
  by (auto simp: foreign_def and_then_Inl)

lemma foreign_traverse [remote]: "(\<And>x. foreign (f x)) \<Longrightarrow> foreign (traverse f xs)"
  by (auto simp: foreign_def dest: traverse_Inl)

lemma foreign_choice [remote]:
  "foreign a \<Longrightarrow> foreign b \<Longrightarrow> foreign (if c then a else b)" "foreign a \<Longrightarrow> (\<And>x. foreign (g x)) \<Longrightarrow> foreign (case_option a g opt)"
  "foreign a \<Longrightarrow> foreign (map_sum id f a)"
  by (auto simp: foreign_def split: option.split) (cases a; simp)

lemma foreign_access [remote]:
  "foreign (body_item v k)" "foreign (item_get v k d)" "foreign (items_of v)" "foreign (int_value H v)" "foreign (parse_datetime H t)"
  "foreign (parse_state H v)" "foreign (parse_reply_action H v)"
  by (auto simp: foreign_def body_item_def item_get_def items_of_def int_value_def parse_datetime_def parse_state_def
      parse_reply_action_def Let_def split: json.splits option.splits if_splits)

lemma foreign_fields [remote]: "foreign (text_at H v k)" "foreign (datetime_at H v k)" "foreign (state_at H v k)"
  unfolding text_at_def datetime_at_def state_at_def by (intro remote)+

lemma foreign_responses [remote]:
  "foreign (parse_initiate_response H v)" "foreign (parse_status_response H v)" "foreign (parse_history_response H v)"
  "foreign (parse_output_response H v)" "foreign (parse_timeline_response H v)" "foreign (parse_approval_response H v)"
  unfolding parse_initiate_response_def parse_status_response_def parse_history_response_def parse_output_response_def
    parse_timeline_response_def parse_approval_response_def parse_transition_item_def parse_timeline_item_def
  by (intro remote)+

lemma requests_basic [remote]: "requests (ret a)" "remote_error x \<Longrightarrow> requests (raise x)" "foreign r \<Longrightarrow> requests (returned r)"
  "(\<And>w x w'. m w = (Inl x, w') \<Longrightarrow> remote_error x) \<Longrightarrow> requests (on_server m)"
  by (auto simp: requests_def py_simps returned_def foreign_def on_server_def split: sum.splits prod.splits)

lemma requests_bind [remote]: "requests m \<Longrightarrow> (\<And>a. requests (f a)) \<Longrightarrow> requests (bindE m f)"
  unfolding requests_def bindE_def by (fastforce split: prod.splits sum.splits)

lemma requests_async [remote]: "requests m \<Longrightarrow> requests (async_run m)"
  unfolding requests_def async_run_def catchE_def
  by (fastforce simp: raise_def map_to_connection_error_def cli_error_of_def split: prod.splits sum.splits cli_exn.splits)

lemma requests_transport [remote]: "requests (transport_request H config meth route body)"
proof -
  have "remote_error (if is_api_failure x then x else CliErr (map_to_connection_error x))" for x
    by (cases x) (auto simp: map_to_connection_error_def cli_error_of_def)
  then show ?thesis
    unfolding requests_def transport_request_def catchE_def bindE_def on_server_def returned_def
    by (fastforce simp: raise_def ret_def split: prod.splits sum.splits)
qed

lemma envelope_remote [remote]: "remote_error (map_api_error_envelope H env wid)"
  by (simp add: map_api_error_envelope_def Let_def split: sum.splits format_exn.splits)

lemma requests_client [remote]: "requests (client_request H config meth route body wid)"
  unfolding client_request_def
  by (intro requests_bind requests_transport) (auto simp: api_failure_def cli_error_of_def intro!: remote split: prod.split option.split)

definition executes :: "('s, unit) command \<Rightarrow> bool" where
  "executes m \<longleftrightarrow> (\<forall>s r s'. m s = (r, s') \<longrightarrow> cst_err s' = cst_err s \<and> cst_events s' = cst_events s
     \<and> (\<forall>x. r = Inl x \<longrightarrow> cst_out s' = cst_out s \<and> (remote_error x \<or> cst_server s' = cst_server s)))"

lemma executes_check: "(\<And>a. executes (f a)) \<Longrightarrow> executes (bindE (returned r) f)"
  by (cases r) (auto simp: executes_def returned_def py_simps)

lemma executes_request: "requests m \<Longrightarrow> executes (bindE (async_run m) (\<lambda>a. write_out (g a)))"
  unfolding executes_def
proof (intro allI impI)
  fix s r s' assume m: "requests m" and run: "bindE (async_run m) (\<lambda>a. write_out (g a)) s = (r, s')"
  obtain r1 s1 where a: "async_run m s = (r1, s1)" by fastforce
  have "cst_out s1 = cst_out s \<and> cst_err s1 = cst_err s \<and> cst_events s1 = cst_events s \<and> (\<forall>x. r1 = Inl x \<longrightarrow> remote_error x)"
    using requests_async [OF m] a unfolding requests_def by blast
  then show "cst_err s' = cst_err s \<and> cst_events s' = cst_events s
      \<and> (\<forall>x. r = Inl x \<longrightarrow> cst_out s' = cst_out s \<and> (remote_error x \<or> cst_server s' = cst_server s))"
    using run a by (cases r1) (auto simp: bindE_def write_out_def modifyE_def)
qed

lemma executes_raise: "executes (raise x)"
  by (simp add: executes_def raise_def)

lemma executes_subcommand: "executes (execute_subcommand H p)"
proof -
  have query: "executes (query_execute p (client_query H config ending parse_response) render)"
    if "\<And>v. foreign (parse_response v)" for config ending parse_response render
    unfolding query_execute_def client_query_def
    by (intro executes_check executes_request) (intro remote that)
  have "executes (initiate_execute H p)"
    unfolding initiate_execute_def client_initiate_workflow_def
    by (cases "pci_initiate_request p") (auto intro!: executes_request executes_raise remote)
  moreover have "executes (approve_execute H p)"
    unfolding approve_execute_def client_submit_approval_def Let_def by (intro executes_check executes_request) (intro remote)
  ultimately show ?thesis
    by (cases "pci_subcommand_id p")
       (simp_all add: execute_subcommand_def status_execute_def history_execute_def output_execute_def timeline_execute_def
         client_get_workflow_status_def client_get_workflow_history_def
         client_get_workflow_output_def client_get_workflow_timeline_def query remote)
qed

lemma handler_outcome:
  assumes "handler_run H p s = (r, s')"
  shows "(r = Inr EXIT_SUCCESS \<and> cst_err s' = cst_err s \<and> cst_events s' = cst_events s
        @ [CommandStarted (pci_subcommand_id p), CommandCompleted (pci_subcommand_id p) 0, SubcommandSpan (pci_subcommand_id p) ''OK''])
    \<or> (\<exists>e. r = Inl (CliErr e) \<and> cst_out s' = cst_out s \<and> cst_err s' = cst_err s
        \<and> (cle_type e \<in> {CliApiError, CliConnectionError} \<or> cst_server s' = cst_server s)
        \<and> cst_events s' = cst_events s @ [CommandStarted (pci_subcommand_id p), SubcommandSpan (pci_subcommand_id p) ''ERROR''])"
proof -
  let ?sub = "pci_subcommand_id p" and ?s0 = "s\<lparr>cst_events := cst_events s @ [CommandStarted (pci_subcommand_id p)]\<rparr>"
  obtain r1 s1 where run: "execute_subcommand H p ?s0 = (r1, s1)" by fastforce
  have ex: "cst_err s1 = cst_err s" "cst_events s1 = cst_events s @ [CommandStarted ?sub]"
    "\<And>x. r1 = Inl x \<Longrightarrow> cst_out s1 = cst_out s \<and> (remote_error x \<or> cst_server s1 = cst_server s)"
    using executes_subcommand [of H p] run unfolding executes_def by fastforce+
  show ?thesis
  proof (cases r1)
    case (Inl x)
    with ex assms run show ?thesis
      by (cases x) (auto simp: handler_run_def Let_def emit_cli_def py_simps map_to_connection_error_def cli_error_of_def)
  next
    case (Inr u)
    with ex assms run show ?thesis by (auto simp: handler_run_def Let_def emit_cli_def py_simps)
  qed
qed

text \<open>One report per failure.\<close>

lemma report_outcome:
  assumes "report_failure H sub x s = (r, s')"
  obtains e where "e = (case x of CliErr e \<Rightarrow> e | CliOther c t \<Rightarrow> map_to_connection_error x)"
    and "r = Inr (exit_number (cli_exit_code_of (cle_type e)))"
    and "s' = s\<lparr>cst_err := cst_err s @ render_error (clh_repr H) e,
      cst_events := cst_events s @ (case sub of None \<Rightarrow> []
        | Some i \<Rightarrow> [CommandFailed i (cli_error_code (cle_type e)) (exit_number (cli_exit_code_of (cle_type e)))])\<rparr>"
  using assms by (cases sub) (simp_all add: report_failure_def Let_def write_err_def emit_cli_def py_simps)

lemma exit_numbers: "exit_number (cli_exit_code_of ty) \<in> {1, 2, 3}"
  "exit_number (cli_exit_code_of ty) = 2 \<Longrightarrow> ty \<notin> {CliApiError, CliConnectionError}"
  by (cases ty; simp)+

lemma report_alone:
  assumes "report_failure H sub x s = (r, s')"
  shows "\<exists>code. r = Inr code \<and> code \<in> {1, 2, 3} \<and> cst_out s' = cst_out s \<and> cst_server s' = cst_server s
    \<and> (\<exists>e. cst_err s' = cst_err s @ render_error (clh_repr H) e \<and> exit_number (cli_exit_code_of (cle_type e)) = code
         \<and> cst_events s' = cst_events s @ (case sub of None \<Rightarrow> []
              | Some i \<Rightarrow> [CommandFailed i (cli_error_code (cle_type e)) code]))"
  using assms
proof (rule report_outcome)
  fix e assume "r = Inr (exit_number (cli_exit_code_of (cle_type e)))"
    and "s' = s\<lparr>cst_err := cst_err s @ render_error (clh_repr H) e,
      cst_events := cst_events s @ (case sub of None \<Rightarrow> []
        | Some i \<Rightarrow> [CommandFailed i (cli_error_code (cle_type e)) (exit_number (cli_exit_code_of (cle_type e)))])\<rparr>"
  then show ?thesis using exit_numbers(1) [of "cle_type e"] by auto
qed


end
