(* ===== verification/Cli_Session.thy ===== *)
theory Cli_Session
  imports Cli_Properties Config_Properties
begin

text \<open>
  The command line, the server and the engine together: an approval typed at the command line, from its arguments to the
  tables and back to the text that is printed.
\<close>

section \<open>What the parser accepts the server accepts\<close>

lemma printable_id_char: "id_char c \<Longrightarrow> \<not> ((of_char c :: nat) < 32 \<or> 126 < (of_char c :: nat))"
  by (auto simp: id_char_def less_eq_char_def)

lemma cli_workflow_id:
  assumes "cli_validate_workflow_id (Some raw) True = Inr wid"
  shows "wid \<noteq> [] \<and> list_all id_char wid \<and> cli_validate_workflow_id (Some wid) True = Inr wid \<and> validate_workflow_id (JStr wid) = Inr wid"
proof -
  have w: "wid = strip raw" "wid \<noteq> []" "\<not> MAX_WORKFLOW_ID_LEN < length wid" "list_all id_char wid"
    using assms by (auto simp: cli_validate_workflow_id_def usage_def Let_def split: if_splits)
  have "\<not> list_ex (\<lambda>c. (of_char c :: nat) < 32 \<or> 126 < (of_char c :: nat)) wid"
    using w(4) printable_id_char by (auto simp: list_ex_iff list_all_iff)
  moreover have "strip wid = wid" using w(1) by simp
  ultimately show ?thesis using w(2-4)
    by (simp add: cli_validate_workflow_id_def validate_workflow_id_def sanitize_string_def Let_def)
qed

lemma cli_action:
  assumes "validate_approval_action raw = Inr token"
  obtains act where "token = approval_action_value act"
proof -
  have "token \<in> set VALID_APPROVAL_ACTIONS"
    using assms by (auto simp: validate_approval_action_def usage_def Let_def split: option.splits if_splits)
  then have "token = approval_action_value APPROVE \<or> token = approval_action_value REJECT
      \<or> token = approval_action_value REQUEST_REGENERATION" by (auto simp: VALID_APPROVAL_ACTIONS_def)
  then show ?thesis using that by blast
qed

lemma cli_action_value: "validate_approval_action (Some (approval_action_value act)) = Inr (approval_action_value act)"
  by (cases act; simp only:; code_simp)

lemma server_action_value: "parse_action (approval_action_value act) = Some act"
  by (cases act; simp only:; code_simp)

lemma cli_actor:
  assumes "validate_actor raw True = Inr who"
  shows "sanitize_string (json_opt_str who) ''actor'' MAX_ACTOR_LEN = Inr who"
  using assms by (auto simp: validate_actor_def sanitize_printable_ascii_def sanitize_string_def usage_def Let_def
    split: option.splits if_splits)

text \<open>The fields of a parsed approval.\<close>

lemma cli_parse_approve:
  assumes "cli_parse H argv = Inr p" and "pci_subcommand_id p = SUB_APPROVE"
  obtains raw wid act where "cli_validate_workflow_id (Some raw) True = Inr wid" and "pci_workflow_id p = Some wid"
    and "pci_approval_action p = Some (approval_action_value act)"
    and "sanitize_string (json_opt_str (pci_approval_actor p)) ''actor'' MAX_ACTOR_LEN = Inr (pci_approval_actor p)"
proof -
  obtain token args where "parse_subcommand SUB_APPROVE token args
      = Inr (pci_workflow_id p, pci_initiate_request p, pci_approval_action p, pci_approval_actor p)"
    using assms by (auto simp: cli_parse_def usage_def and_then_Inr neq_Nil_conv split: list.splits if_splits)
  then obtain raw action actor wid token' where p: "cli_validate_workflow_id (Some raw) True = Inr wid"
      "validate_approval_action action = Inr token'" "pci_workflow_id p = Some wid" "pci_approval_action p = Some token'"
      "(if actor = None then Inr None else validate_actor actor True) = Inr (pci_approval_actor p)"
    by (auto simp: parse_subcommand_def and_then_Inr)
  have "sanitize_string (json_opt_str (pci_approval_actor p)) ''actor'' MAX_ACTOR_LEN = Inr (pci_approval_actor p)"
  proof (cases "actor = None")
    case True
    with p(5) have "pci_approval_actor p = None" by simp
    then show ?thesis by (simp add: sanitize_string_def)
  next
    case False
    with p(5) show ?thesis by (simp add: cli_actor)
  qed
  moreover obtain act where "token' = approval_action_value act" using cli_action [OF p(2)] .
  ultimately show ?thesis using that p(1,3,4) by blast
qed

section \<open>The server behind the connection\<close>

text \<open>
  A connection to the server: the request goes to the handler its method and address are routed to, the body of the reply is
  serialized, an address without a route is answered with 404 and an exception that leaves the route with 500.
\<close>

definition served ::
  "api_deps \<Rightarrow> (json \<Rightarrow> string) \<Rightarrow> (string \<Rightarrow> string \<Rightarrow> api_call option) \<Rightarrow> wire_request \<Rightarrow> (cli_exn, api_state, int \<times> string) py"
where
  "served D dumps route r s =
     (case route (wr_method r) (wr_url r) of
        None \<Rightarrow> (Inr (404, ''{}''), s)
      | Some call \<Rightarrow>
          (case create_router D True call \<lparr>hrq_headers = wr_headers r, hrq_json = Inr (case wr_json r of None \<Rightarrow> JNull | Some v \<Rightarrow> v)\<rparr> s of
             (Inr reply, s') \<Rightarrow> (Inr (hrp_status reply, dumps (hrp_body reply)), s')
           | (Inl _, s') \<Rightarrow> (Inr (500, ''Internal Server Error''), s')))"

definition approval_body :: "approval_action \<Rightarrow> string option \<Rightarrow> json" where
  "approval_body act actor =
     JObj ([(''action'', JStr (approval_action_value act))] @ (case actor of None \<Rightarrow> [] | Some s \<Rightarrow> [(''actor'', JStr s)]))"

definition cli_headers :: "'s cli_host \<Rightarrow> (string \<times> string) list" where
  "cli_headers H = fold (\<lambda>(k, v). dict_set k v) (clh_carrier H) [(''User-Agent'', USER_AGENT)]"

lemma dict_set_keys: "fst ` set (dict_set k v d) = insert k (fst ` set d)"
  by (induction d) auto

lemma fold_dict_set_keys:
  "fst ` set (fold (\<lambda>(k, v). dict_set k v) xs d) = fst ` set d \<union> fst ` set xs"
proof (induction xs arbitrary: d)
  case (Cons x xs)
  then show ?case by (cases x) (simp add: dict_set_keys)
qed simp

lemma no_idempotency_key:
  assumes "\<forall>k \<in> fst ` set (clh_carrier H). lower k \<noteq> HEADER_IDEMPOTENCY_KEY"
  shows "header_lookup (cli_headers H) HEADER_IDEMPOTENCY_KEY = JNull"
proof -
  have "lower ''User-Agent'' \<noteq> HEADER_IDEMPOTENCY_KEY" "lower HEADER_IDEMPOTENCY_KEY = HEADER_IDEMPOTENCY_KEY" by code_simp+
  moreover have "\<forall>k \<in> fst ` set (cli_headers H). k = ''User-Agent'' \<or> lower k \<noteq> HEADER_IDEMPOTENCY_KEY"
    unfolding cli_headers_def fold_dict_set_keys using assms by auto
  ultimately have "find (\<lambda>(k, v). lower k = lower HEADER_IDEMPOTENCY_KEY) (cli_headers H) = None"
    by (force simp: find_None_iff)
  then show ?thesis by (simp add: header_lookup_def)
qed

lemma cli_approval_input:
  assumes "header_lookup (cli_headers H) HEADER_IDEMPOTENCY_KEY = JNull"
    and "sanitize_string (json_opt_str actor) ''actor'' MAX_ACTOR_LEN = Inr actor"
  shows "approval_input D \<lparr>hrq_headers = cli_headers H, hrq_json = Inr (approval_body act actor)\<rparr>
    = Inr \<lparr>aar_req_action = act, aar_req_actor = actor, aar_req_idempotency_key = None\<rparr>"
  using assms by (cases actor) (simp_all add: approval_input_def json_body_def approval_body_def json_get_def
    validate_approval_body_def validate_idempotency_header_def sanitize_string_def [of JNull] server_action_value)

section \<open>A request and its reply\<close>

text \<open>The replies to an approval are objects of texts, integers, booleans and nulls.\<close>

fun scalar :: "json \<Rightarrow> bool" where
  "scalar (JFloat _) = False" | "scalar (JList _) = False" | "scalar (JObj _) = False" | "scalar _ = True"

definition flat :: "(string \<times> json) list \<Rightarrow> bool" where
  "flat d \<longleftrightarrow> list_all (scalar \<circ> snd) d"

lemma client_receives:
  assumes "clh_http H = served D dumps route"
    and "\<forall>d. flat d \<longrightarrow> clh_loads H (dumps (JObj d)) = Inr (JObj d) \<and> strip (dumps (JObj d)) \<noteq> []"
    and "route method (rstrip_slashes (ccc_api_base_url config) @ address) = Some call"
    and "create_router D True call \<lparr>hrq_headers = cli_headers H, hrq_json = Inr (case body of None \<Rightarrow> JNull | Some v \<Rightarrow> v)\<rparr>
      (cst_server s) = (Inr reply, w)" and "hrp_body reply = JObj reply_fields" and "flat reply_fields"
  shows "client_request H config method address body wid s =
    ((if hrp_status reply \<ge> 400 then Inl (map_api_error_envelope H (error_envelope_of H reply_fields wid) wid) else Inr reply_fields),
     s\<lparr>cst_server := w\<rparr>)"
  using assms by (simp add: client_request_def transport_request_def served_def cli_headers_def on_server_def decode_body_def
    returned_def catchE_def bindE_def ret_def raise_def)

text \<open>The three refusals of an approval, with the line they are reported with.\<close>

definition refusal_message :: "string \<Rightarrow> string \<Rightarrow> string" where
  "refusal_message cls wid =
     (let quoted = [CHR 0x27] @ wid @ [CHR 0x27] in
      if cls = ''WF_NOT_FOUND'' then ''Workflow '' @ quoted @ '' was not found.''
      else if cls = ''WF_TERMINAL'' then ''Workflow '' @ quoted @ '' is in a terminal state.''
      else ''Approval action is not valid for workflow '' @ quoted @ ''.'')"

lemma refusal_error:
  assumes "cls \<in> {''WF_NOT_FOUND'', ''WF_TERMINAL'', ''WF_INVALID_APPROVAL''}" and "wid \<noteq> []"
  shows "map_api_error_envelope H (error_envelope_of H
      [(''error_class'', JStr cls), (''message'', m), (''retryable'', b), (''workflow_id'', JStr wid), (''details'', JNull)]
      (Some wid)) (Some wid) =
    CliErr \<lparr>cle_type = CliApiError, cle_message = refusal_message cls wid, cle_workflow_id = Some (JStr wid),
      cle_api_error_class = Some cls\<rparr>"
  using assms by (auto simp: map_api_error_envelope_def error_envelope_of_def json_get_def or_json_def API_ERROR_MESSAGES_def
    about_workflow_def str_format_def map_formatted_def refusal_message_def Let_def)

section \<open>An approval from the command line\<close>

text \<open>The tail of a run once the request of the approval has been answered.\<close>

lemma approve_run:
  assumes "cli_parse H argv = Inr p" and "argv \<noteq> []" and "pci_subcommand_id p = SUB_APPROVE" and "\<And>w. clh_close H w = (Inr (), w)"
    and "cli_validate_workflow_id (Some wid) True = Inr wid" and "pci_workflow_id p = Some wid"
    and "pci_approval_action p = Some (approval_action_value act)"
    and req: "client_request H (pci_client_config p) ''POST'' (workflow_route wid ''/approval'')
      (Some (approval_body act (pci_approval_actor p))) (Some wid)
      (s\<lparr>cst_events := cst_events s @ [CommandStarted SUB_APPROVE]\<rparr>) = (r, s1)"
  shows "r = Inl (CliErr e) \<Longrightarrow> \<exists>s'. cli_run H argv s = (Inr (exit_number (cli_exit_code_of (cle_type e))), s')
      \<and> cst_server s' = cst_server s1 \<and> cst_out s' = cst_out s1 \<and> cst_err s' = cst_err s1 @ render_error (clh_repr H) e"
    and "r = Inr body \<Longrightarrow> parse_approval_response H (JObj body) = Inr a \<Longrightarrow>
      \<exists>s'. cli_run H argv s = (Inr 0, s') \<and> cst_server s' = cst_server s1 \<and> cst_out s' = cst_out s1 @ render_approve a
        \<and> cst_err s' = cst_err s1"
proof -
  have close: "async_run (on_server (clh_close H)) t = (Inr (), t)" for t
    by (simp add: async_run_def on_server_def assms(4) catchE_def)
  have submit: "client_submit_approval H (pci_client_config p) wid (approval_action_value act) (pci_approval_actor p) None
      = bindE (client_request H (pci_client_config p) ''POST'' (workflow_route wid ''/approval'')
          (Some (approval_body act (pci_approval_actor p))) (Some wid)) (\<lambda>body. returned (parse_approval_response H (JObj body)))"
    by (cases "pci_approval_actor p") (simp_all add: client_submit_approval_def approval_body_def)
  note run = cli_run_def assms(1-3) maybe_bootstrap_def handler_run_def Let_def emit_cli_def execute_subcommand_def approve_execute_def
    assms(5-7) cli_action_value submit async_run_def [of "bindE _ _"] report_failure_def write_err_def write_out_def returned_def
  show "\<exists>s'. cli_run H argv s = (Inr (exit_number (cli_exit_code_of (cle_type e))), s')
      \<and> cst_server s' = cst_server s1 \<and> cst_out s' = cst_out s1 \<and> cst_err s' = cst_err s1 @ render_error (clh_repr H) e"
    if "r = Inl (CliErr e)" using req that by (simp add: run close py_simps)
  show "\<exists>s'. cli_run H argv s = (Inr 0, s') \<and> cst_server s' = cst_server s1 \<and> cst_out s' = cst_out s1 @ render_approve a
        \<and> cst_err s' = cst_err s1"
    if "r = Inr body" "parse_approval_response H (JObj body) = Inr a" using req that by (simp add: run close py_simps)
qed

text \<open>What a reply to the request of an approval becomes.\<close>

lemma approve_replied:
  assumes http: "clh_http H = served D dumps route" "\<And>w. clh_close H w = (Inr (), w)"
    and json: "\<forall>d. flat d \<longrightarrow> clh_loads H (dumps (JObj d)) = Inr (JObj d) \<and> strip (dumps (JObj d)) \<noteq> []"
    and args: "cli_parse H argv = Inr p" "argv \<noteq> []" "pci_subcommand_id p = SUB_APPROVE"
    and wid: "cli_validate_workflow_id (Some wid) True = Inr wid" "wid \<noteq> []"
    and p: "pci_workflow_id p = Some wid" "pci_approval_action p = Some (approval_action_value act)"
    and address: "route ''POST'' (rstrip_slashes (ccc_api_base_url (pci_client_config p)) @ workflow_route wid ''/approval'')
      = Some (CallApproval wid)"
    and run: "create_router D True (CallApproval wid)
      \<lparr>hrq_headers = cli_headers H, hrq_json = Inr (approval_body act (pci_approval_actor p))\<rparr> (cst_server s) = (Inr reply, w)"
  shows "hrp_body reply = envelope_json \<lparr>env_error_class = cls, env_message = msg, env_retryable = Some False, env_workflow_id = Some wid\<rparr> \<Longrightarrow>
      hrp_status reply \<ge> 400 \<Longrightarrow> cls \<in> {''WF_NOT_FOUND'', ''WF_TERMINAL'', ''WF_INVALID_APPROVAL''} \<Longrightarrow>
      \<exists>s'. cli_run H argv s = (Inr 1, s') \<and> cst_server s' = w \<and> cst_out s' = cst_out s
        \<and> cst_err s' = cst_err s @ ''code=CLI_API message='' @ refusal_message cls wid @ '' workflow_id='' @ wid
            @ '' api_error_class='' @ cls @ [CHR 0x0A]"
    and "hrp_body reply = JObj [(''workflow_id'', JStr wid), (''action'', JStr (approval_action_value action)),
        (''from_state'', JStr ''AWAITING_HUMAN_APPROVAL''), (''to_state'', JStr (state_value st)),
        (''state_version'', JInt v), (''transition_id'', JStr tid)] \<Longrightarrow> hrp_status reply = 200 \<Longrightarrow>
      \<exists>s'. cli_run H argv s = (Inr 0, s') \<and> cst_server s' = w \<and> cst_err s' = cst_err s
        \<and> cst_out s' = cst_out s @ ''to_state: '' @ state_value st @ [CHR 0x0A] @ ''state_version: '' @ show_int v @ [CHR 0x0A]"
proof -
  let ?s0 = "s\<lparr>cst_events := cst_events s @ [CommandStarted SUB_APPROVE]\<rparr>"
  have start: "create_router D True (CallApproval wid) \<lparr>hrq_headers = cli_headers H,
      hrq_json = Inr (case Some (approval_body act (pci_approval_actor p)) of None \<Rightarrow> JNull | Some v \<Rightarrow> v)\<rparr> (cst_server ?s0) = (Inr reply, w)"
    using run by simp
  note receives = client_receives [OF http(1) json address start, of _ "Some wid"]
  note finish = approve_run [OF args http(2) wid(1) p]
  {
    assume reply: "hrp_body reply = envelope_json \<lparr>env_error_class = cls, env_message = msg, env_retryable = Some False,
        env_workflow_id = Some wid\<rparr>" "hrp_status reply \<ge> 400" "cls \<in> {''WF_NOT_FOUND'', ''WF_TERMINAL'', ''WF_INVALID_APPROVAL''}"
    note body = reply(1) [unfolded envelope_json_def api_error_envelope.simps json_opt_str.simps json_opt_bool.simps]
    have flat_reply: "flat [(''error_class'', JStr cls), (''message'', JStr msg), (''retryable'', JBool False),
        (''workflow_id'', JStr wid), (''details'', JNull)]" by (simp add: flat_def)
    note got = receives [OF body flat_reply, unfolded refusal_error [OF reply(3) wid(2)] if_P [OF reply(2)]]
    from finish(1) [OF got refl] show "\<exists>s'. cli_run H argv s = (Inr 1, s') \<and> cst_server s' = w \<and> cst_out s' = cst_out s
        \<and> cst_err s' = cst_err s @ ''code=CLI_API message='' @ refusal_message cls wid @ '' workflow_id='' @ wid
            @ '' api_error_class='' @ cls @ [CHR 0x0A]"
      by (simp add: render_error_def line_def)
  next
    let ?body = "[(''workflow_id'', JStr wid), (''action'', JStr (approval_action_value action)),
        (''from_state'', JStr ''AWAITING_HUMAN_APPROVAL''), (''to_state'', JStr (state_value st)),
        (''state_version'', JInt v), (''transition_id'', JStr tid)]"
    assume reply: "hrp_body reply = JObj ?body" "hrp_status reply = 200"
    then have got: "client_request H (pci_client_config p) ''POST'' (workflow_route wid ''/approval'')
        (Some (approval_body act (pci_approval_actor p))) (Some wid) ?s0 = (Inr ?body, ?s0\<lparr>cst_server := w\<rparr>)"
      using receives [OF reply(1)] by (simp add: flat_def)
    have "parse_state H (JStr (state_value AWAITING_HUMAN_APPROVAL)) = Inr AWAITING_HUMAN_APPROVAL" by (rule parse_state_value)
    then have "parse_approval_response H (JObj ?body) = Inr \<lparr>apr_workflow_id = wid, apr_action = action,
        apr_from_state = AWAITING_HUMAN_APPROVAL, apr_to_state = st, apr_state_version = v, apr_transition_id = tid\<rparr>"
      by (simp add: parse_approval_response_def reading)
    from finish(2) [OF got refl this] show "\<exists>s'. cli_run H argv s = (Inr 0, s') \<and> cst_server s' = w \<and> cst_err s' = cst_err s
        \<and> cst_out s' = cst_out s @ ''to_state: '' @ state_value st @ [CHR 0x0A] @ ''state_version: '' @ show_int v @ [CHR 0x0A]"
      by (auto simp: render_approve_def line_def)
  }
qed

text \<open>
  C35. An approval typed at the command line is the engine's decision, whatever accepted arguments it is typed with. Against the
  in-memory server, \<open>cartoon approve\<close> on a workflow that waits for a human ends with code 0, the tables are those after the
  transition the action asks for, made with the actor typed (a history entry, an outbox row and the new row of the workflow),
  and the state and the version printed are the new ones. For an unknown workflow, a terminal one and one that does not wait,
  the tables are the same, nothing is printed, the error line names the workflow and the reason, and the code is 1.
\<close>

theorem approve_end_to_end:
  assumes server: "ad_repos D \<in> in_memory_repos (ad_env D)" "\<not> in_txn (ast_world (cst_server s))"
      "ids_fresh (ad_env D) (ast_world (cst_server s))" "keys_ok wf_id (wf_rows (ast_world (cst_server s)))"
    and http: "clh_http H = served D dumps route" "\<And>w. clh_close H w = (Inr (), w)"
    and json: "\<forall>d. flat d \<longrightarrow> clh_loads H (dumps (JObj d)) = Inr (JObj d) \<and> strip (dumps (JObj d)) \<noteq> []"
    and args: "argv \<noteq> []" "cli_parse H argv = Inr p" "pci_subcommand_id p = SUB_APPROVE"
    and route: "\<forall>i. list_all id_char i \<longrightarrow>
      route ''POST'' (rstrip_slashes (ccc_api_base_url (pci_client_config p)) @ ''/workflows/'' @ i @ ''/approval'') = Some (CallApproval i)"
    and carrier: "\<forall>k \<in> fst ` set (clh_carrier H). lower k \<noteq> HEADER_IDEMPOTENCY_KEY"
  shows "\<exists>wid action code s'. pci_workflow_id p = Some wid \<and> pci_approval_action p = Some (approval_action_value action)
    \<and> cli_run H argv s = (Inr code, s') \<and>
    (let old = ast_world (cst_server s); new = ast_world (cst_server s');
         refused = (\<lambda>cls. code = 1 \<and> same_tables old new \<and> cst_out s' = cst_out s
           \<and> cst_err s' = cst_err s @ ''code=CLI_API message='' @ refusal_message cls wid @ '' workflow_id='' @ wid
               @ '' api_error_class='' @ cls @ [CHR 0x0A])
     in case get_workflow wid old of
          None \<Rightarrow> refused ''WF_NOT_FOUND''
        | Some x \<Rightarrow>
            if wf_state x \<in> TERMINAL_STATES then refused ''WF_TERMINAL''
            else if wf_state x \<noteq> AWAITING_HUMAN_APPROVAL then refused ''WF_INVALID_APPROVAL''
            else \<exists>w1 w2 t ob. same_tables old w1
              \<and> step_effect (ad_env D) wid x (ad_to (lookup_approval action)) None None
                  (''approval_'' @ approval_action_value action) (pci_approval_actor p)
                  (ad_outbox_task_type (lookup_approval action))
                  (ad_increment_logical_version (lookup_approval action)) w1 ob t w2
              \<and> same_tables w2 new \<and> code = 0 \<and> cst_err s' = cst_err s
              \<and> cst_out s' = cst_out s @ ''to_state: '' @ state_value (ad_to (lookup_approval action)) @ [CHR 0x0A]
                  @ ''state_version: '' @ show_int (wf_version x + 1) @ [CHR 0x0A])"
    (is "\<exists>wid action code s'. ?result wid action code s'")
proof -
  obtain raw wid act where wid: "cli_validate_workflow_id (Some raw) True = Inr wid" and p: "pci_workflow_id p = Some wid"
      "pci_approval_action p = Some (approval_action_value act)"
    and actor: "sanitize_string (json_opt_str (pci_approval_actor p)) ''actor'' MAX_ACTOR_LEN = Inr (pci_approval_actor p)"
    using cli_parse_approve [OF args(2,3)] .
  note valid = cli_workflow_id [OF wid]
  let ?q = "\<lparr>hrq_headers = cli_headers H, hrq_json = Inr (approval_body act (pci_approval_actor p))\<rparr>"
  let ?s0 = "s\<lparr>cst_events := cst_events s @ [CommandStarted SUB_APPROVE]\<rparr>"
  have input: "approval_input D ?q = Inr \<lparr>aar_req_action = act, aar_req_actor = pci_approval_actor p, aar_req_idempotency_key = None\<rparr>"
    by (rule cli_approval_input [OF no_idempotency_key [OF carrier] actor])
  obtain reply w where run: "create_router D True (CallApproval wid) ?q (cst_server s) = (Inr reply, w)"
    and answer: "approval_answer D wid act (pci_approval_actor p) (cst_server s) reply w"
    using approval_reply [OF server input, of wid wid] valid by auto
  have addr: "route ''POST'' (rstrip_slashes (ccc_api_base_url (pci_client_config p)) @ workflow_route wid ''/approval'') = Some (CallApproval wid)"
    using route valid by (simp add: workflow_route_def)
  have w: "cli_validate_workflow_id (Some wid) True = Inr wid" "wid \<noteq> []" using valid by simp_all
  note replied = approve_replied [OF http json args(2,1,3) w p addr run]
  let ?w = "ast_world (cst_server s)"
  have refused: "\<exists>s'. cli_run H argv s = (Inr 1, s') \<and> same_tables ?w (ast_world (cst_server s')) \<and> cst_out s' = cst_out s
      \<and> cst_err s' = cst_err s @ ''code=CLI_API message='' @ refusal_message cls wid @ '' workflow_id='' @ wid
          @ '' api_error_class='' @ cls @ [CHR 0x0A]"
    if "hrp_status reply = c \<and> same_tables ?w (ast_world w) \<and> (\<exists>msg. hrp_body reply = envelope_json
        \<lparr>env_error_class = cls, env_message = msg, env_retryable = Some False, env_workflow_id = Some wid\<rparr>)"
      "400 \<le> c" "cls \<in> {''WF_NOT_FOUND'', ''WF_TERMINAL'', ''WF_INVALID_APPROVAL''}" for c cls
  proof -
    from that(1) obtain msg where "hrp_body reply = envelope_json
        \<lparr>env_error_class = cls, env_message = msg, env_retryable = Some False, env_workflow_id = Some wid\<rparr>" by blast
    from replied(1) [OF this _ that(3)] that(1,2) show ?thesis by fastforce
  qed
  show ?thesis
  proof (intro exI [of _ wid] exI [of _ act])
    show "\<exists>code s'. ?result wid act code s'"
    proof (cases "get_workflow wid ?w")
      case None
      with answer refused [of 404 "''WF_NOT_FOUND''"] p show ?thesis by (auto simp: approval_answer_def Let_def)
    next
      case (Some x)
      consider "wf_state x \<in> TERMINAL_STATES" | "wf_state x \<notin> TERMINAL_STATES" "wf_state x \<noteq> AWAITING_HUMAN_APPROVAL"
        | "wf_state x \<notin> TERMINAL_STATES" "wf_state x = AWAITING_HUMAN_APPROVAL" by blast
      then show ?thesis
      proof cases
        case 1
        with Some answer refused [of 409 "''WF_TERMINAL''"] p show ?thesis by (auto simp: approval_answer_def Let_def)
      next
        case 2
        with Some answer refused [of 409 "''WF_INVALID_APPROVAL''"] p show ?thesis by (auto simp: approval_answer_def Let_def)
      next
        case 3
        with Some answer obtain w1 w2 t ob where t: "same_tables ?w w1"
            "step_effect (ad_env D) wid x (ad_to (lookup_approval act)) None None (''approval_'' @ approval_action_value act)
              (pci_approval_actor p) (ad_outbox_task_type (lookup_approval act))
              (ad_increment_logical_version (lookup_approval act)) w1 ob t w2"
            "same_tables w2 (ast_world w)" "hrp_status reply = 200" "hrp_body reply =
              JObj [(''workflow_id'', JStr wid), (''action'', JStr (approval_action_value act)),
                (''from_state'', JStr ''AWAITING_HUMAN_APPROVAL''), (''to_state'', JStr (state_value (ad_to (lookup_approval act)))),
                (''state_version'', JInt (wf_version x + 1)), (''transition_id'', JStr (tr_id t))]"
          by (auto simp: approval_answer_def Let_def)
        from replied(2) [OF t(5,4)] obtain s' where "cli_run H argv s = (Inr 0, s')" "cst_server s' = w" "cst_err s' = cst_err s"
            "cst_out s' = cst_out s @ ''to_state: '' @ state_value (ad_to (lookup_approval act)) @ [CHR 0x0A]
              @ ''state_version: '' @ show_int (wf_version x + 1) @ [CHR 0x0A]" by blast
        with 3 Some p t(1-3) show ?thesis by (auto simp: Let_def)
      qed
    qed
  qed
qed

section \<open>A session\<close>

text \<open>A serialization of flat objects: each text as its code points, each marked, and an end mark.\<close>

definition mark_text :: "string \<Rightarrow> string" where
  "mark_text s = concat (map (\<lambda>c. [CHR ''.'', c]) s) @ '';''"

fun unmark :: "string \<Rightarrow> string \<Rightarrow> string list" where
  "unmark acc [] = []"
| "unmark acc [c] = (if c = CHR '';'' then [rev acc] else [])"
| "unmark acc (c # x # s) = (if c = CHR '';'' then rev acc # unmark [] (x # s) else unmark (x # acc) s)"

fun scalar_text :: "json \<Rightarrow> string" where
  "scalar_text (JStr s) = CHR ''s'' # s" | "scalar_text (JBool b) = (if b then ''t'' else ''f'')"
| "scalar_text (JInt i) = (if i < 0 then ''m'' else ''p'') @ replicate (nat \<bar>i\<bar>) CHR ''u''" | "scalar_text _ = ''n''"

definition text_scalar :: "string \<Rightarrow> json" where
  "text_scalar s =
     (case s of
        [] \<Rightarrow> JNull
      | c # r \<Rightarrow>
          if c = CHR ''s'' then JStr r else if c = CHR ''t'' then JBool True else if c = CHR ''f'' then JBool False
          else if c = CHR ''p'' then JInt (int (length r)) else if c = CHR ''m'' then JInt (- int (length r)) else JNull)"

fun field_pairs :: "string list \<Rightarrow> (string \<times> json) list" where
  "field_pairs (k # v # r) = (k, text_scalar v) # field_pairs r" | "field_pairs _ = []"

fun demo_dumps :: "json \<Rightarrow> string" where
  "demo_dumps (JObj d) = ''{'' @ concat (map (\<lambda>(k, v). mark_text k @ mark_text (scalar_text v)) d)" | "demo_dumps _ = ''{''"

definition demo_json_loads :: "string \<Rightarrow> (bool \<times> string) + json" where
  "demo_json_loads s = Inr (JObj (field_pairs (unmark [] (drop 1 s))))"

lemma unmark_end: "unmark acc (CHR '';'' # s) = rev acc # unmark [] s"
  by (cases s) simp_all

lemma unmark_mark: "unmark acc (mark_text t @ s) = (rev acc @ t) # unmark [] s"
  by (induction t arbitrary: acc) (simp_all add: mark_text_def unmark_end)

lemma text_scalar_text: "scalar v \<Longrightarrow> text_scalar (scalar_text v) = v"
  by (cases v) (simp_all add: text_scalar_def)

lemma demo_json: "flat d \<Longrightarrow> demo_json_loads (demo_dumps (JObj d)) = Inr (JObj d) \<and> strip (demo_dumps (JObj d)) \<noteq> []"
proof -
  have "field_pairs (unmark [] (concat (map (\<lambda>(k, v). mark_text k @ mark_text (scalar_text v)) d))) = d" if "flat d"
    using that by (induction d) (auto simp: flat_def unmark_mark text_scalar_text)
  moreover have "\<not> is_space (CHR ''{'')" by code_simp
  ultimately show "flat d \<Longrightarrow> demo_json_loads (demo_dumps (JObj d)) = Inr (JObj d) \<and> strip (demo_dumps (JObj d)) \<noteq> []"
    by (simp add: demo_json_loads_def strip_def dropWhile_eq_Nil_conv)
qed

definition demo_route :: "string \<Rightarrow> string \<Rightarrow> api_call option" where
  "demo_route method url =
     (let start = DEFAULT_API_BASE_URL @ ''/workflows/''; rest = drop (length start) url in
      if method = ''POST'' \<and> take (length start) url = start \<and> dropWhile id_char rest = ''/approval''
      then Some (CallApproval (takeWhile id_char rest)) else None)"

lemma demo_route_approval:
  "list_all id_char i \<Longrightarrow> demo_route ''POST'' (DEFAULT_API_BASE_URL @ ''/workflows/'' @ i @ ''/approval'') = Some (CallApproval i)"
proof -
  assume i: "list_all id_char i"
  have slash: "\<not> id_char (CHR ''/'')" by code_simp
  have "takeWhile id_char (i @ ''/approval'') = i" "dropWhile id_char (i @ ''/approval'') = ''/approval''"
    using i slash by (simp_all add: list_all_iff)
  then show ?thesis by (simp add: demo_route_def Let_def)
qed

definition demo_cli :: "api_state cli_host" where
  "demo_cli = \<lparr>clh_environ = (\<lambda>_. None), clh_sys_argv = [], clh_float = (\<lambda>_. None), clh_int_text = (\<lambda>_. None),
     clh_repr = (\<lambda>_. ''{}''), clh_format = (\<lambda>t _. Inr t), clh_fromiso = (\<lambda>_. None), clh_loads = demo_json_loads,
     clh_carrier = [], clh_http = served demo_api demo_dumps demo_route, clh_close = (\<lambda>w. (Inr (), w)), clh_config = demo_host\<rparr>"

definition demo_terminal :: "workflow_state \<Rightarrow> api_state cli_state" where
  "demo_terminal st = \<lparr>cst_server = demo_serving st, cst_out = '''', cst_err = '''', cst_events = []\<rparr>"


theorem approve_end_to_end_witness:
  "\<exists>s'. cli_run demo_cli [''approve'', ''wf-1'', ''--action'', ''approve''] (demo_terminal AWAITING_HUMAN_APPROVAL) = (Inr 0, s')
     \<and> cst_out s' = ''to_state: APPROVED'' @ [CHR 0x0A] @ ''state_version: 3'' @ [CHR 0x0A]"
proof -
  let ?argv = "[''approve'', ''wf-1'', ''--action'', ''approve'']" and ?s = "demo_terminal AWAITING_HUMAN_APPROVAL"
  let ?p = "\<lparr>pci_subcommand_id = SUB_APPROVE, pci_client_config = \<lparr>ccc_api_base_url = DEFAULT_API_BASE_URL, ccc_config_path = None,
      ccc_request_timeout_seconds = Some (Finite 30)\<rparr>, pci_config_override = None, pci_workflow_id = Some ''wf-1'',
      pci_initiate_request = None, pci_approval_action = Some ''APPROVE'', pci_approval_actor = None, pci_raw_args = ?argv\<rparr>"
  have p: "cli_parse demo_cli ?argv = Inr ?p" by code_simp
  have base: "rstrip_slashes (ccc_api_base_url (pci_client_config ?p)) = DEFAULT_API_BASE_URL" by code_simp
  have server: "ad_repos demo_api \<in> in_memory_repos (ad_env demo_api)" "\<not> in_txn (ast_world (cst_server ?s))"
    "ids_fresh (ad_env demo_api) (ast_world (cst_server ?s))" "keys_ok wf_id (wf_rows (ast_world (cst_server ?s)))"
    and row: "get_workflow ''wf-1'' (ast_world (cst_server ?s)) = Some (demo_row AWAITING_HUMAN_APPROVAL)"
    by (simp_all add: demo_terminal_def demo_serving_def demo_in_state_def demo_open_def empty_world_def get_workflow_def
        ids_fresh_def keys_ok_def demo_row_def)
  have host: "clh_http demo_cli = served demo_api demo_dumps demo_route" "\<And>w. clh_close demo_cli w = (Inr (), w)"
    "\<forall>d. flat d \<longrightarrow> clh_loads demo_cli (demo_dumps (JObj d)) = Inr (JObj d) \<and> strip (demo_dumps (JObj d)) \<noteq> []"
    "\<forall>i. list_all id_char i \<longrightarrow> demo_route ''POST'' (rstrip_slashes (ccc_api_base_url (pci_client_config ?p)) @ ''/workflows/'' @ i
      @ ''/approval'') = Some (CallApproval i)"
    "\<forall>k \<in> fst ` set (clh_carrier demo_cli). lower k \<noteq> HEADER_IDEMPOTENCY_KEY"
    using demo_json demo_route_approval by (simp_all only: base) (simp_all add: demo_cli_def)
  have step: "ad_to (lookup_approval APPROVE) = APPROVED" "show_int 3 = ''3''" "AWAITING_HUMAN_APPROVAL \<notin> TERMINAL_STATES" by code_simp+
  have act: "action = APPROVE" if "''APPROVE'' = approval_action_value action" for action using that by (cases action) simp_all
  show ?thesis
    using approve_end_to_end [OF server host(1-3) _ p _ host(4,5)] row step
    by (auto simp: Let_def demo_row_def demo_terminal_def dest!: act)
qed

definition demo_transition :: transition_record where
  "demo_transition = \<lparr>tr_id = ''t-1'', tr_workflow_id = ''wf-1'', tr_from = CREATED, tr_to = COLLECTING, tr_reason = ''initiate'',
     tr_occurred_at = 1700000000250000, tr_actor = None\<rparr>"

theorem client_reads_server_witness:
  "parse_status_response demo_cli (map_workflow_status \<lparr>wst_workflow_id = ''wf-1'', wst_state = COLLECTING, wst_version = 2,
       wst_created_at = 0, wst_updated_at = 1700000000250000, wst_revision_count = 0, wst_failure_reason = None\<rparr>)
     = Inr \<lparr>sta_workflow_id = ''wf-1'', sta_state = COLLECTING, sta_state_version = 2, sta_created_at = 0,
         sta_updated_at = 1700000000250000, sta_revision_count = 0, sta_failure_reason = JNull\<rparr>
   \<and> parse_history_response demo_cli (map_workflow_history \<lparr>wh_workflow_id = ''wf-1'', wh_transitions = [demo_transition]\<rparr>)
     = Inr \<lparr>his_workflow_id = ''wf-1'', his_transitions = [transition_of demo_transition]\<rparr>"
proof -
  have t: "printable_instant 0" "printable_instant 1700000000250000" by code_simp+
  show ?thesis
    using client_reads_server [where H = demo_cli and tml = "\<lparr>wt_workflow_id = ''wf-1'', wt_events = []\<rparr>"
      and r = "\<lparr>iws_workflow_id = ''wf-1'', iws_state = COLLECTING, iws_version = 2, iws_transition = demo_transition,
        iws_enqueued_task = \<lparr>ots_task_id = ''task-1'', ots_workflow_id = ''wf-1'', ots_task_type = COLLECT, ots_attempt = 1,
          ots_payload_reference = ''p-1'', ots_idempotency_key = ''k-1'', ots_created_at = 0\<rparr>\<rparr>"
      and st = "\<lparr>wst_workflow_id = ''wf-1'', wst_state = COLLECTING, wst_version = 2,
       wst_created_at = 0, wst_updated_at = 1700000000250000, wst_revision_count = 0, wst_failure_reason = None\<rparr>"
      and h = "\<lparr>wh_workflow_id = ''wf-1'', wh_transitions = [demo_transition]\<rparr>"] t
    by (simp add: demo_transition_def)
qed

end
