(* ===== verification/Spec2Isabelle.thy ===== *)
theory Spec2Isabelle
  imports Engine_Properties Reconcile_Properties Read_Models Worker_Properties Stage_Properties
    Queue_Properties Publisher_Properties Collector_Properties Agent_Properties Config_Properties
    Provider_Properties Postgres_Constraints Cli_Session
begin

text \<open>
  Verification of the agentic cartoon workflow (\<open>src/src\<close>), a Python program that turns news stories
  into a cartoon scenario: it collects stories, lets a model select a topic, generate a scenario and
  review it, and asks a human for approval.

  \<^bold>\<open>The program.\<close> The workflow engine (\<open>workflow/\<close>) owns the state machine: a signal of a stage or a
  human decision is looked up in the transition table and written, in one transaction, as a new
  workflow row, a history row and, where the next stage needs one, a task with an outbox row. The outbox
  publisher (\<open>runtime/outbox.py\<close>) moves outbox rows to the task queue (\<open>task_queue/\<close>). A worker
  (\<open>worker/loop.py\<close>) takes a delivery, leases the task, claims its idempotency key, runs the handler of its
  stage (\<open>worker/handlers/\<close>), which calls the collector (\<open>collector/\<close>) or an agent (\<open>agents/\<close>) and stores an
  artifact, and commits the stage through the engine. The reconciliation scanner
  (\<open>workflow/reconcile.py\<close>) repairs workflows whose task got lost, and the read models
  (\<open>workflow/read_models.py\<close>) show status, history, output and timeline. Clients start, watch and approve
  workflows over HTTP (\<open>api/\<close>), operators with a command line client (\<open>cli/\<close>); every process reads one configuration file (\<open>config/\<close>), and agents call
  the models of four vendors (\<open>providers/\<close>).

  \<^bold>\<open>How Python is modelled.\<close> A computation takes the state and returns an exception or a value with the
  state it leaves (\<open>prog\<close>, in \<open>Prelude\<close>); an exception does not undo what was written. A dictionary is
  an association list in insertion order, a dataclass a record, an enumeration a datatype, Python's
  integer an \<open>int\<close>; a float is a rational, so rounding is left out except where the code rounds to
  microseconds or a configured integer becomes a float; a text is a list of code points below 256. The database is the record \<open>world\<close>; the clock
  and \<open>uuid4\<close> are the functions \<open>env_now\<close> and \<open>env_uuid\<close> of the number of calls made so far. Loops are
  recursive functions with a termination proof; none needs fuel. The one loop of a delivery that follows
  stages (the bridge) ends by a measure, and the rounds of the publisher are counted explicitly.

  \<^bold>\<open>Theories and what they model\<close>
  \<^item> \<open>Prelude\<close>, \<open>Domain_Types\<close>, \<open>World\<close>: effects and their proof rules (\<open>preserves\<close>, \<open>evolves\<close>, \<open>hoare\<close>),
    dictionaries, slices, texts of integers; the data of \<open>persistence/types.py\<close>, \<open>workflow/types.py\<close>,
    \<open>config/types.py\<close>; the shared state.
  \<^item> \<open>Repo_Contract\<close>, \<open>Persistence_Fakes\<close>, \<open>Workflow_Fakes\<close>, \<open>Leases\<close>: the repositories. The locales
    \<open>workflow_store\<close>, \<open>revision_store\<close>, \<open>transaction_store\<close>, \<open>atomic_store\<close>, \<open>task_store\<close> and \<open>lease_store\<close>
    state what the clients rely on; they are interpreted on \<open>persistence/fakes\<close> (\<open>pf\<close>, \<open>leases\<close>) and
    \<open>workflow/fakes\<close> (\<open>wk\<close>).
  \<^item> \<open>Transition_Table\<close>, \<open>Outbox_Builder\<close>, \<open>Executor\<close>, \<open>Engine\<close>, \<open>Engine_Invariants\<close>, \<open>Engine_Properties\<close>:
    \<open>workflow/\<close>'s write side. The abstract specification is the relation \<open>legal_step\<close>, the state diagram;
    the table refines it, and every reachable history is one of its paths.
  \<^item> \<open>Reconcile\<close>, \<open>Reconcile_Properties\<close>: the scanner and what it may change.
  \<^item> \<open>Read_Models\<close>, \<open>Instants\<close>: the queries, and the text of an instant with its inverse.
  \<^item> \<open>Worker_Support\<close>, \<open>Worker_Loop\<close>, \<open>Worker_Guarantees\<close>, \<open>Worker_Resources\<close>, \<open>Worker_Deliveries\<close>,
    \<open>Worker_Failures\<close>, \<open>Worker_Commit\<close>, \<open>Worker_Properties\<close>: one delivery, on every path. Handlers and hooks
    are arbitrary under the contracts \<open>worker_ok\<close> and \<open>leases_private\<close>.
  \<^item> \<open>Stage_Handlers\<close>, \<open>Stage_Guarantees\<close>, \<open>Stage_Properties\<close>: the four production handlers. The locales
    \<open>handler_frame\<close> and \<open>stage_store\<close> carry the frame of a handler; \<open>deps_ok\<close> and \<open>hooks_ok\<close> are the
    contracts of the collector, the agents and the hooks (they may read the clock and write no table).
  \<^item> \<open>Task_Queue\<close>, \<open>Queue_Properties\<close>: messages and the queue over Redis streams.
  \<^item> \<open>Outbox_Publisher\<close>, \<open>Publisher_Properties\<close>: the publisher.
  \<^item> \<open>Urls\<close>, \<open>Collector\<close>, \<open>Collector_Properties\<close>: the collector; the locale \<open>hn_source\<close> is the contract of its
    client, and \<open>clock_frame\<close> shows that it meets \<open>deps_ok\<close>.
  \<^item> \<open>Agents\<close>, \<open>Agent_Properties\<close>: the agents with the JSON schemas of \<open>agents/schemas/\<close>.
  \<^item> \<open>Config_Schema\<close>, \<open>Config_Loading\<close>, \<open>Config_Properties\<close>: \<open>config/\<close>, from the tree of the YAML file over
    schema, secret scan and validation to the accessors, with Python's floats including NaN and the
    infinities. \<open>render_draft\<close> is the documented layout that the schema mapper inverts.
  \<^item> \<open>Providers\<close>, \<open>Provider_Properties\<close>: \<open>providers/\<close> and \<open>failure_injection/\<close> with \<open>runtime/hooks.py\<close>: one call
    of a model with injections, token bucket, deadline, the vendors' transports and their failure
    classification, the events of the call, the factory and the fake provider.
  \<^item> \<open>Api\<close>, \<open>Api_Properties\<close>: \<open>api/\<close> with the transaction of \<open>runtime/http_server.py\<close> and the probes. The locale
    \<open>request_frame\<close> lifts a relation on stores to requests; it is interpreted on the engine's guarantee
    (\<open>histories\<close>) and on \<open>clock_only\<close> (\<open>reading\<close>).
  \<^item> \<open>Postgres\<close>, \<open>Postgres_Properties\<close>, \<open>Postgres_Constraints\<close>: the production repositories of \<open>persistence/repos\<close> with
    \<open>transaction.py\<close>, \<open>session.py\<close>, \<open>pool.py\<close> and \<open>errors_internal.py\<close>. The tables are those of the migration, a
    statement is a function on them, and any call of the driver may fail. The locale \<open>stored_table\<close>, interpreted on five
    tables, carries the agreement of a table with its dictionary (\<open>stores\<close>); \<open>pg_reachable\<close> are the states that
    operations and transactions lead to.
  \<^item> \<open>Cli\<close>, \<open>Cli_Properties\<close>, \<open>Cli_Session\<close>: the command line client \<open>cli/\<close>, from the arguments over the requests to the texts
    it prints and the exit code. A command runs on the state of a server (\<open>cst_server\<close>), reached through \<open>clh_http\<close>; \<open>served\<close>
    puts the routes of \<open>Api\<close> behind that connection.


  \<^bold>\<open>What the properties show.\<close> Engine (C1 to C8, C11): histories are paths of the diagram, terminal
  states are final, each operation does exactly what its request asks or is refused with the
  prescribed exception and no effect, autonomous runs are bounded. Scanner
  (C12, C16): it keeps the invariant, what a repair does. Worker (C21 to C28, C30): a delivery keeps the invariant on every path and leaks nothing;
  leased and duplicate tasks are not executed; commit, retry and failure have exactly the specified
  effect; keys agree between dispatch and worker. Handlers (C32, C33), queue (C36), publisher (C37, C38),
  collector (C39), agents (C40). Configuration (C18, C20): what loads is
  valid, the schema mapper inverts the layout. Providers (C14, C34): the rate limit and the one reported
  outcome of a call. Interface (C9, C29): requests keep the histories, every request is answered
  as the route prescribes. Command line (C15, C19, C35): one outcome and one report per invocation, what the client reads is
  what the server wrote, and an approval typed by the operator is the engine's decision. Production store
  (C10, C13, C17, C31): transactions are atomic and the constraints hold whatever the driver does, only
  errors of the contract leave a repository but for two gaps, and without driver failures every writing call
  does what the in-memory repository does, so that what the other properties show of those carries over.

  \<^bold>\<open>Parameters.\<close> Third-party code and services are arguments: the driver of PostgreSQL (which calls fail, and how), the Redis client, the HTTP client, the
  model providers, \<open>jsonschema\<close>, \<open>json.loads\<close> and \<open>json.dumps\<close>, \<open>str\<close> of floats and containers, and tables
  of the Unicode standard. What is assumed of them are the named contracts above, \<open>fresh_uuids\<close> and
  \<open>schema_library\<close>; each property with such a hypothesis has a witness.

  \<^bold>\<open>Not modelled.\<close> Logs, metrics and spans (they do not influence the results); the
  interleaving of several sessions in PostgreSQL; threads, signals and process wiring (\<open>runtime/runners.py\<close>, \<open>runtime/composition.py\<close>), so
  deliveries run one at a time and the renewal of a lease is an explicit step; the backends of observability.
\<close>

end
